(* ===== verification/Prelude.thy ===== *)
theory Prelude
  imports Main "HOL-Library.Word" "HOL-Library.Monad_Syntax"
begin

text \<open>
  Shared vocabulary of the development.

  \<^item> \<open>u8\<close> ... \<open>u64\<close> are C's fixed-width unsigned integers, \<open>ptr36\<close> is the simulator's
    physical address type (\<open>ptr36_t\<close> of \<open>src/src/main.h\<close>, a 64-bit integer).
  \<^item> A C function that can end the process is a function into \<open>option\<close>: \<open>None\<close> is a failed
    \<open>ASSERT\<close>, a call of \<open>die\<close>, or undefined behaviour (a null or dangling pointer, an index
    outside its array, an oversized shift); \<open>Some\<close> carries the result and the new state. The
    \<open>do\<close> notation sequences such calls.
  \<^item> Theorem collections: \<open>assert_simps\<close> evaluates assertions, \<open>word_bits\<close> holds the bit
    lemmas, and the components add their frame lemmas to \<open>frame_simps\<close>.
\<close>

unbundle bit_operations_syntax

type_synonym u8 = "8 word"
type_synonym u16 = "16 word"
type_synonym u32 = "32 word"
type_synonym u64 = "64 word"
type_synonym ptr36 = "64 word"
type_synonym len36 = "64 word"

named_theorems assert_simps \<open>evaluation of assertions and of the option monad\<close>
named_theorems word_bits \<open>bit-level facts on machine words\<close>
named_theorems frame_simps \<open>what an operation leaves unchanged\<close>

subsection \<open>Assertions\<close>

definition ASSERT :: "bool \<Rightarrow> unit option" where
  "ASSERT b = (if b then Some () else None)"

lemma ASSERT_True [simp, assert_simps]: "ASSERT True = Some ()"
  by (simp add: ASSERT_def)

lemma ASSERT_False [simp, assert_simps]: "ASSERT False = None"
  by (simp add: ASSERT_def)

lemma ASSERT_eq_Some [simp, assert_simps]: "ASSERT b = Some u \<longleftrightarrow> b"
  by (simp add: ASSERT_def)

lemma ASSERT_bind [assert_simps]: "ASSERT b \<bind> f = (if b then f () else None)"
  by (simp add: ASSERT_def)

lemma ASSERT_bind_Some [simp]: "(ASSERT b \<bind> f) = Some r \<longleftrightarrow> b \<and> f () = Some r"
  by (simp add: ASSERT_def)

lemma bind_Some_iff: "m \<bind> f = Some y \<longleftrightarrow> (\<exists>x. m = Some x \<and> f x = Some y)"
  by (cases m) auto

lemma bind_SomeE:
  assumes "m \<bind> f = Some y"
  obtains x where "m = Some x" and "f x = Some y"
  using assms by (auto simp: bind_Some_iff)

lemma bind_not_None: "m \<bind> f \<noteq> None \<longleftrightarrow> (\<exists>x. m = Some x \<and> f x \<noteq> None)"
  by (cases m) auto

lemma not_None_bindI:
  assumes "m \<noteq> None" and "\<And>x. m = Some x \<Longrightarrow> f x \<noteq> None"
  shows "m \<bind> f \<noteq> None"
  using assms by (cases m) auto

subsection \<open>Lists of identifiers\<close>

lemma remove1_not_mem: "distinct xs \<Longrightarrow> x \<notin> set (remove1 x xs)"
  by (simp add: set_remove1_eq)

lemma last_remove_butlast: "distinct xs \<Longrightarrow> xs \<noteq> [] \<Longrightarrow> remove1 (last xs) xs = butlast xs"
proof (induction xs)
  case Nil
  then show ?case by simp
next
  case (Cons a xs)
  then show ?case by (cases "xs = []") auto
qed

lemma list_update_other: "i \<noteq> j \<Longrightarrow> (xs[i := v]) ! j = xs ! j"
  by simp

subsection \<open>Machine words\<close>

lemma and_mask_bit [word_bits]: "bit (w AND mask n) k \<longleftrightarrow> k < n \<and> bit w k" for w :: "'a::len word"
  by (auto simp: bit_simps dest: bit_imp_le_length)

lemma unat_and_mask: "unat (w AND mask n) = unat w mod 2 ^ n" for w :: "'a::len word"
  by (simp add: unsigned_take_bit_eq take_bit_nat_def flip: take_bit_eq_mask)

lemma unat_drop_bit: "unat (drop_bit n w) = unat w div 2 ^ n" for w :: "'a::len word"
proof -
  have "unat (drop_bit n w) = drop_bit n (unat w)"
    by (simp add: unsigned_drop_bit_eq take_bit_nat_eq_self)
  then show ?thesis
    by (simp only: drop_bit_eq_div [where 'a = nat])
qed

lemma unat_take_bit: "unat (take_bit n w) = unat w mod 2 ^ n" for w :: "'a::len word"
  by (simp add: unsigned_take_bit_eq take_bit_nat_def)

lemma drop_bit_eq_iff_div:
  "drop_bit n v = drop_bit n w \<longleftrightarrow> unat v div 2 ^ n = unat w div 2 ^ n" for v w :: "'a::len word"
  by (simp add: word_unat_eq_iff unat_drop_bit)

end
