(* ===== verification/Linked_List.thy ===== *)
theory Linked_List
  imports Prelude
begin

text \<open>
  The doubly linked list of \<open>src/src/list.c\<close> over an explicit heap. Items and list heads are
  heap cells addressed by \<open>nat\<close>; a null pointer is \<open>None\<close>. Every operation follows the pointer
  assignments of the C function in their order. \<open>dl_repr h l xs\<close> says that list \<open>l\<close> of heap
  \<open>h\<close> holds exactly the items \<open>xs\<close>, in that order, in both directions; the operations are shown
  to refine the list functions the other components use for their queues (the TLB's LRU and
  free lists, the LL/SC tracking list, the instruction cache). \<open>list_insert_after\<close> is shown not
  to keep the backward links.
\<close>

record item =
  item_list :: "nat option"
  item_prev :: "nat option"
  item_next :: "nat option"

record dlist =
  head :: "nat option"
  tail :: "nat option"

record lheap =
  items :: "nat \<Rightarrow> item"
  dlists :: "nat \<Rightarrow> dlist"

abbreviation set_item :: "nat \<Rightarrow> (item \<Rightarrow> item) \<Rightarrow> lheap \<Rightarrow> lheap" where
  "set_item i f h \<equiv> h\<lparr>items := (items h)(i := f (items h i))\<rparr>"

abbreviation set_list :: "nat \<Rightarrow> (dlist \<Rightarrow> dlist) \<Rightarrow> lheap \<Rightarrow> lheap" where
  "set_list l f h \<equiv> h\<lparr>dlists := (dlists h)(l := f (dlists h l))\<rparr>"

definition list_is_empty :: "nat \<Rightarrow> lheap \<Rightarrow> bool" where
  "list_is_empty l h \<longleftrightarrow> head (dlists h l) = None \<and> tail (dlists h l) = None"

definition list_init :: "nat \<Rightarrow> lheap \<Rightarrow> lheap" where
  "list_init l h = set_list l (\<lambda>d. d\<lparr>head := None, tail := None\<rparr>) h"

definition item_init :: "nat \<Rightarrow> lheap \<Rightarrow> lheap" where
  "item_init i h = set_item i (\<lambda>it. it\<lparr>item_list := None\<rparr>) h"

definition list_append :: "nat \<Rightarrow> nat \<Rightarrow> lheap \<Rightarrow> lheap option" where
  "list_append l i h = do {
     ASSERT (item_list (items h i) = None);
     let h1 = set_item i (\<lambda>it. it\<lparr>item_list := Some l\<rparr>) h;
     let h2 = (case tail (dlists h1 l) of
                 None \<Rightarrow> set_list l (\<lambda>d. d\<lparr>head := Some i\<rparr>) h1
               | Some t \<Rightarrow> set_item t (\<lambda>it. it\<lparr>item_next := Some i\<rparr>) h1);
     let h3 = set_item i (\<lambda>it. it\<lparr>item_prev := tail (dlists h2 l)\<rparr>) h2;
     let h4 = set_item i (\<lambda>it. it\<lparr>item_next := None\<rparr>) h3;
     Some (set_list l (\<lambda>d. d\<lparr>tail := Some i\<rparr>) h4)
   }"

definition list_push :: "nat \<Rightarrow> nat \<Rightarrow> lheap \<Rightarrow> lheap option" where
  "list_push l i h = do {
     ASSERT (item_list (items h i) = None);
     let h1 = set_item i (\<lambda>it. it\<lparr>item_list := Some l\<rparr>) h;
     h2 \<leftarrow> (if list_is_empty l h1 then Some (set_list l (\<lambda>d. d\<lparr>tail := Some i\<rparr>) h1)
            else (case head (dlists h1 l) of
                    None \<Rightarrow> None
                  | Some f \<Rightarrow> Some (set_item f (\<lambda>it. it\<lparr>item_prev := Some i\<rparr>) h1)));
     let h3 = set_item i (\<lambda>it. it\<lparr>item_next := head (dlists h2 l)\<rparr>) h2;
     let h4 = set_item i (\<lambda>it. it\<lparr>item_prev := None\<rparr>) h3;
     Some (set_list l (\<lambda>d. d\<lparr>head := Some i\<rparr>) h4)
   }"

definition list_remove :: "nat \<Rightarrow> nat \<Rightarrow> lheap \<Rightarrow> lheap option" where
  "list_remove l i h = do {
     ASSERT (item_list (items h i) = Some l);
     let h1 = set_item i (\<lambda>it. it\<lparr>item_list := None\<rparr>) h;
     let h2 = (case item_prev (items h1 i) of
                 None \<Rightarrow> set_list l (\<lambda>d. d\<lparr>head := item_next (items h1 i)\<rparr>) h1
               | Some p \<Rightarrow> set_item p (\<lambda>it. it\<lparr>item_next := item_next (items h1 i)\<rparr>) h1);
     Some (case item_next (items h2 i) of
             None \<Rightarrow> set_list l (\<lambda>d. d\<lparr>tail := item_prev (items h2 i)\<rparr>) h2
           | Some n \<Rightarrow> set_item n (\<lambda>it. it\<lparr>item_prev := item_prev (items h2 i)\<rparr>) h2)
   }"

definition list_insert_after :: "nat \<Rightarrow> nat \<Rightarrow> lheap \<Rightarrow> lheap option" where
  "list_insert_after anchor i h = do {
     ASSERT (item_list (items h anchor) \<noteq> None);
     ASSERT (item_list (items h i) = None);
     let l = the (item_list (items h anchor));
     (if tail (dlists h l) = Some anchor then list_append l i h
      else (let h1 = set_item i (\<lambda>it. it\<lparr>item_list := item_list (items h anchor)\<rparr>) h;
                h2 = set_item i (\<lambda>it. it\<lparr>item_prev := Some anchor\<rparr>) h1;
                h3 = set_item i (\<lambda>it. it\<lparr>item_next := item_next (items h2 anchor)\<rparr>) h2
            in Some (set_item anchor (\<lambda>it. it\<lparr>item_next := Some i\<rparr>) h3)))
   }"

text \<open>
  The \<open>for_each\<close> loop: the items met from the head along the \<open>next\<close> pointers. The fuel bounds
  the number of steps; \<open>None\<close> is a walk that has not reached the null pointer yet.
\<close>

fun for_each_from :: "nat \<Rightarrow> lheap \<Rightarrow> nat option \<Rightarrow> nat list option" where
  "for_each_from n h None = Some []"
| "for_each_from 0 h (Some i) = None"
| "for_each_from (Suc n) h (Some i) =
     map_option ((#) i) (for_each_from n h (item_next (items h i)))"

definition for_each :: "nat \<Rightarrow> nat \<Rightarrow> lheap \<Rightarrow> nat list option" where
  "for_each n l h = for_each_from n h (head (dlists h l))"

subsection \<open>The abstract list a heap represents\<close>

definition opt_hd :: "'a list \<Rightarrow> 'a option" where
  "opt_hd xs = (case xs of [] \<Rightarrow> None | x # _ \<Rightarrow> Some x)"

definition opt_last :: "'a list \<Rightarrow> 'a option" where
  "opt_last xs = opt_hd (rev xs)"

fun succ_in :: "'a list \<Rightarrow> 'a \<Rightarrow> 'a option" where
  "succ_in [] i = None"
| "succ_in (x # xs) i = (if i = x then opt_hd xs else succ_in xs i)"

definition pred_in :: "'a list \<Rightarrow> 'a \<Rightarrow> 'a option" where
  "pred_in xs = succ_in (rev xs)"

definition dl_repr :: "lheap \<Rightarrow> nat \<Rightarrow> nat list \<Rightarrow> bool" where
  "dl_repr h l xs \<longleftrightarrow> distinct xs \<and>
     head (dlists h l) = opt_hd xs \<and> tail (dlists h l) = opt_last xs \<and>
     (\<forall>i. item_list (items h i) = Some l \<longleftrightarrow> i \<in> set xs) \<and>
     (\<forall>i\<in>set xs. item_next (items h i) = succ_in xs i \<and> item_prev (items h i) = pred_in xs i)"

lemma opt_hd_simps [simp]: "opt_hd [] = None" "opt_hd (x # xs) = Some x"
  by (simp_all add: opt_hd_def)

lemma opt_hd_append: "opt_hd (xs @ ys) = (if xs = [] then opt_hd ys else opt_hd xs)"
  by (cases xs) auto

lemma opt_hd_Some_iff: "opt_hd xs = Some x \<longleftrightarrow> xs \<noteq> [] \<and> hd xs = x"
  by (cases xs) auto

lemma opt_hd_None_iff [simp]: "opt_hd xs = None \<longleftrightarrow> xs = []"
  by (cases xs) auto

lemma opt_last_simps [simp]: "opt_last [] = None" "opt_last [x] = Some x" "opt_last (xs @ [x]) = Some x"
  by (simp_all add: opt_last_def)

lemma opt_last_None_iff [simp]: "opt_last xs = None \<longleftrightarrow> xs = []"
  by (simp add: opt_last_def)

lemma opt_last_append: "opt_last (xs @ ys) = (if ys = [] then opt_last xs else opt_last ys)"
  by (simp add: opt_last_def opt_hd_append)

lemma opt_last_Cons: "xs \<noteq> [] \<Longrightarrow> opt_last (x # xs) = opt_last xs"
  using opt_last_append [of "[x]" xs] by simp

lemma opt_last_Some_iff: "opt_last xs = Some x \<longleftrightarrow> xs \<noteq> [] \<and> last xs = x"
  by (simp add: opt_last_def opt_hd_Some_iff hd_rev)

lemma succ_in_not_mem: "i \<notin> set xs \<Longrightarrow> succ_in xs i = None"
  by (induction xs) auto

lemma succ_in_append:
  "distinct (xs @ ys) \<Longrightarrow> succ_in (xs @ ys) i =
     (if i \<in> set xs then (if i = last xs then opt_hd ys else succ_in xs i) else succ_in ys i)"
  by (induction xs) (auto simp: opt_hd_append)

lemma pred_in_append:
  "distinct (xs @ ys) \<Longrightarrow> pred_in (xs @ ys) i =
     (if i \<in> set ys then (if i = hd ys then opt_last xs else pred_in ys i) else pred_in xs i)"
  using succ_in_append [of "rev ys" "rev xs" i]
  by (auto simp: pred_in_def opt_last_def last_rev Int_commute)

lemma pred_in_Cons:
  "i \<notin> set xs \<Longrightarrow> distinct xs \<Longrightarrow> pred_in (i # xs) j =
     (if j = i then None else if xs \<noteq> [] \<and> j = hd xs then Some i else pred_in xs j)"
  using pred_in_append [of "[i]" xs j] succ_in_not_mem [of i "rev xs"]
  by (auto simp: pred_in_def opt_last_def succ_in_not_mem)

lemma pred_in_single [simp]: "pred_in [x] i = None"
  by (simp add: pred_in_def)

lemma pred_in_Nil [simp]: "pred_in [] i = None"
  by (simp add: pred_in_def)

subsection \<open>The operations refine the list functions\<close>

lemma dl_reprD:
  assumes "dl_repr h l xs"
  shows "distinct xs" "head (dlists h l) = opt_hd xs" "tail (dlists h l) = opt_last xs"
    "item_list (items h i) = Some l \<longleftrightarrow> i \<in> set xs"
    "i \<in> set xs \<Longrightarrow> item_next (items h i) = succ_in xs i"
    "i \<in> set xs \<Longrightarrow> item_prev (items h i) = pred_in xs i"
  using assms by (auto simp: dl_repr_def)

lemma dl_repr_free: "dl_repr h l xs \<Longrightarrow> item_list (items h i) = None \<Longrightarrow> i \<notin> set xs"
  using dl_reprD(4) [of h l xs i] by auto

lemma dl_reprI:
  assumes "distinct xs" "head (dlists h l) = opt_hd xs" "tail (dlists h l) = opt_last xs"
    "\<And>i. item_list (items h i) = Some l \<longleftrightarrow> i \<in> set xs"
    "\<And>i. i \<in> set xs \<Longrightarrow> item_next (items h i) = succ_in xs i"
    "\<And>i. i \<in> set xs \<Longrightarrow> item_prev (items h i) = pred_in xs i"
  shows "dl_repr h l xs"
  using assms by (auto simp: dl_repr_def)

lemma succ_in_delete:
  assumes "distinct (ys @ i # zs)" "j \<in> set (ys @ zs)"
  shows "succ_in (ys @ zs) j = (if opt_last ys = Some j then opt_hd zs else succ_in (ys @ i # zs) j)"
  using assms by (auto simp: succ_in_append opt_last_Some_iff)

lemma pred_in_delete:
  assumes "distinct (ys @ i # zs)" "j \<in> set (ys @ zs)"
  shows "pred_in (ys @ zs) j = (if opt_hd zs = Some j then opt_last ys else pred_in (ys @ i # zs) j)"
  using succ_in_delete [of "rev zs" i "rev ys" j] assms
  by (auto simp: pred_in_def opt_last_def Int_commute)

lemma list_append_refines:
  assumes r: "dl_repr h l xs" and f: "item_list (items h i) = None"
  shows "\<exists>h'. list_append l i h = Some h' \<and> dl_repr h' l (xs @ [i])"
proof -
  have i: "i \<notin> set xs" by (rule dl_repr_free [OF r f])
  have d: "distinct (xs @ [i])" using dl_reprD(1) [OF r] i by simp
  note R = dl_reprD [OF r]
  show ?thesis
  proof (cases xs rule: rev_cases)
    case Nil
    then show ?thesis using R(2-4) f
      by (simp add: list_append_def Let_def) (rule dl_reprI; simp)
  next
    case (snoc ys t)
    then have t: "opt_last xs = Some t" "t \<noteq> i" "last xs = t" "t \<in> set xs" using i by auto
    show ?thesis using R f t i d
      by (simp add: list_append_def Let_def)
        (rule dl_reprI; auto simp: succ_in_append pred_in_append opt_hd_append)
  qed
qed

lemma list_push_refines:
  assumes r: "dl_repr h l xs" and f: "item_list (items h i) = None"
  shows "\<exists>h'. list_push l i h = Some h' \<and> dl_repr h' l (i # xs)"
proof -
  have i: "i \<notin> set xs" by (rule dl_repr_free [OF r f])
  note R = dl_reprD [OF r]
  show ?thesis
  proof (cases xs)
    case Nil
    then show ?thesis using R(2-4) f
      by (simp add: list_push_def list_is_empty_def Let_def) (rule dl_reprI; simp)
  next
    case (Cons f ys)
    then have t: "opt_hd xs = Some f" "hd xs = f" "f \<noteq> i" "xs \<noteq> []" "f \<in> set xs" using i by auto
    show ?thesis using R \<open>item_list (items h i) = None\<close> t i
      by (simp add: list_push_def list_is_empty_def Let_def)
        (rule dl_reprI; auto simp: pred_in_Cons opt_last_Cons)
  qed
qed

lemma list_remove_refines:
  assumes r: "dl_repr h l xs" and m: "i \<in> set xs"
  shows "\<exists>h'. list_remove l i h = Some h' \<and> dl_repr h' l (remove1 i xs) \<and>
           item_list (items h' i) = None"
proof -
  obtain ys zs where xs: "xs = ys @ i # zs" and "i \<notin> set ys"
    using m split_list_first by metis
  note R = dl_reprD [OF r]
  have d: "distinct (ys @ i # zs)" using R(1) xs by simp
  then have rem: "remove1 i xs = ys @ zs" using xs \<open>i \<notin> set ys\<close> by (simp add: remove1_append)
  have n: "item_next (items h i) = opt_hd zs" "item_prev (items h i) = opt_last ys"
    using R(5,6) [OF m] d by (auto simp: xs succ_in_append pred_in_append)
  have ne: "opt_hd zs \<noteq> Some i" "opt_last ys \<noteq> Some i"
    using d by (auto simp: opt_hd_Some_iff opt_last_Some_iff)
  define h' where "h' = the (list_remove l i h)"
  have L: "item_list (items h i) = Some l" using R(4) m by blast
  have eq: "list_remove l i h = Some h'" by (simp add: h'_def list_remove_def L Let_def)
  have heads: "head (dlists h' l) = opt_hd (ys @ zs)" "tail (dlists h' l) = opt_last (ys @ zs)"
    using R(2,3) L n ne by (auto simp: h'_def list_remove_def Let_def xs opt_hd_append
        opt_last_append opt_last_Cons split: option.splits)
  have own: "item_list (items h' j) = (if j = i then None else item_list (items h j))" for j
    using L n ne by (auto simp: h'_def list_remove_def Let_def split: option.splits)
  have links: "j \<noteq> i \<Longrightarrow> item_next (items h' j) = (if opt_last ys = Some j then opt_hd zs else item_next (items h j))"
    "j \<noteq> i \<Longrightarrow> item_prev (items h' j) = (if opt_hd zs = Some j then opt_last ys else item_prev (items h j))" for j
    using L n ne by (auto simp: h'_def list_remove_def Let_def split: option.splits)
  have "dl_repr h' l (ys @ zs)"
  proof (rule dl_reprI)
    fix j
    show "item_list (items h' j) = Some l \<longleftrightarrow> j \<in> set (ys @ zs)"
      using R(4) d by (auto simp: own xs)
    assume j: "j \<in> set (ys @ zs)"
    then have "j \<noteq> i" "j \<in> set xs" using d by (auto simp: xs)
    then show "item_next (items h' j) = succ_in (ys @ zs) j" "item_prev (items h' j) = pred_in (ys @ zs) j"
      using R(5,6) links succ_in_delete [OF d j] pred_in_delete [OF d j] by (auto simp: xs)
  qed (use d heads in auto)
  then show ?thesis using eq own rem by auto
qed

lemma list_init_repr:
  assumes "\<And>i. item_list (items h i) \<noteq> Some l"
  shows "dl_repr (list_init l h) l []"
  using assms by (simp add: dl_repr_def list_init_def)

lemma for_each_from_suffix:
  assumes "dl_repr h l (ys @ xs)" "length xs \<le> n"
  shows "for_each_from n h (opt_hd xs) = Some xs"
  using assms
proof (induction xs arbitrary: n ys)
  case (Cons x xs)
  obtain m where n: "n = Suc m" "length xs \<le> m" using Cons.prems(2) by (cases n) auto
  have "item_next (items h x) = opt_hd xs"
    using dl_reprD(1) [OF Cons.prems(1)] dl_reprD(5) [OF Cons.prems(1), of x]
    by (auto simp: succ_in_append)
  moreover have "for_each_from m h (opt_hd xs) = Some xs"
    using Cons.IH [of "ys @ [x]" m] Cons.prems(1) n(2) by simp
  ultimately show ?case by (simp add: n(1))
qed simp

lemma for_each_repr: "dl_repr h l xs \<Longrightarrow> length xs \<le> n \<Longrightarrow> for_each n l h = Some xs"
  using for_each_from_suffix [of h l "[]" xs n] by (simp add: for_each_def dl_reprD(2))

lemma list_is_empty_repr: "dl_repr h l xs \<Longrightarrow> list_is_empty l h \<longleftrightarrow> xs = []"
  by (auto simp: list_is_empty_def dl_reprD)

subsection \<open>Operations on one list leave the other lists alone\<close>

lemma dl_repr_frame:
  assumes "dl_repr h l ys" "dlists h' l = dlists h l"
    "\<And>j. item_list (items h j) = Some l \<Longrightarrow> items h' j = items h j"
    "\<And>j. item_list (items h' j) = Some l \<Longrightarrow> item_list (items h j) = Some l"
  shows "dl_repr h' l ys"
proof (rule dl_reprI)
  fix j
  show "item_list (items h' j) = Some l \<longleftrightarrow> j \<in> set ys"
    using dl_reprD(4) [OF assms(1), of j] assms(3,4) by metis
  assume "j \<in> set ys"
  then have "items h' j = items h j" using assms(3) dl_reprD(4) [OF assms(1)] by blast
  then show "item_next (items h' j) = succ_in ys j" "item_prev (items h' j) = pred_in ys j"
    using dl_reprD(5,6) [OF assms(1) \<open>j \<in> set ys\<close>] by auto
qed (use assms(2) dl_reprD(1-3) [OF assms(1)] in auto)

lemma succ_in_mem: "succ_in zs i = Some t \<Longrightarrow> t \<in> set zs"
  by (induction zs) (auto split: if_splits simp: opt_hd_Some_iff)

lemma dl_repr_owner_ends:
  assumes "dl_repr h l xs"
  shows "tail (dlists h l) = Some t \<Longrightarrow> item_list (items h t) = Some l"
    "head (dlists h l) = Some t \<Longrightarrow> item_list (items h t) = Some l"
  using dl_reprD(2,3) [OF assms] dl_reprD(4) [OF assms, of t]
  by (auto simp: opt_last_Some_iff opt_hd_Some_iff)

lemma dl_repr_owner_links:
  assumes r: "dl_repr h l xs" and i: "item_list (items h i) = Some l"
  shows "item_next (items h i) = Some t \<Longrightarrow> item_list (items h t) = Some l"
    "item_prev (items h i) = Some t \<Longrightarrow> item_list (items h t) = Some l"
proof -
  have m: "i \<in> set xs" using dl_reprD(4) [OF r] i by blast
  show "item_next (items h i) = Some t \<Longrightarrow> item_list (items h t) = Some l"
    using dl_reprD(4) [OF r, of t] dl_reprD(5) [OF r m] succ_in_mem [of xs i t] by simp
  show "item_prev (items h i) = Some t \<Longrightarrow> item_list (items h t) = Some l"
    using dl_reprD(4) [OF r, of t] dl_reprD(6) [OF r m] succ_in_mem [of "rev xs" i t]
    by (simp add: pred_in_def)
qed

lemma list_append_touch:
  assumes "list_append l i h = Some h'"
  shows "item_list (items h i) = None"
    "item_list (items h' j) = (if j = i then Some l else item_list (items h j))"
    "l' \<noteq> l \<Longrightarrow> dlists h' l' = dlists h l'"
    "j \<noteq> i \<Longrightarrow> tail (dlists h l) \<noteq> Some j \<Longrightarrow> items h' j = items h j"
  using assms by (auto simp: list_append_def Let_def split: option.splits if_splits)

lemma list_push_touch:
  assumes "list_push l i h = Some h'"
  shows "item_list (items h i) = None"
    "item_list (items h' j) = (if j = i then Some l else item_list (items h j))"
    "l' \<noteq> l \<Longrightarrow> dlists h' l' = dlists h l'"
    "j \<noteq> i \<Longrightarrow> head (dlists h l) \<noteq> Some j \<Longrightarrow> items h' j = items h j"
  using assms by (auto simp: list_push_def Let_def split: option.splits if_splits)

lemma list_remove_touch:
  assumes "list_remove l i h = Some h'"
  shows "item_list (items h i) = Some l"
    "item_list (items h' j) = (if j = i then None else item_list (items h j))"
    "l' \<noteq> l \<Longrightarrow> dlists h' l' = dlists h l'"
    "j \<noteq> i \<Longrightarrow> item_prev (items h i) \<noteq> Some j \<Longrightarrow> item_next (items h i) \<noteq> Some j \<Longrightarrow>
       items h' j = items h j"
  using assms by (auto simp: list_remove_def Let_def split: option.splits if_splits)

lemma list_append_frame:
  assumes "dl_repr h l xs" "list_append l i h = Some h'" "l' \<noteq> l" "dl_repr h l' ys"
  shows "dl_repr h' l' ys"
proof (rule dl_repr_frame [OF assms(4)])
  show "dlists h' l' = dlists h l'" by (rule list_append_touch(3) [OF assms(2,3)])
  fix j
  show "items h' j = items h j" if "item_list (items h j) = Some l'"
    by (rule list_append_touch(4) [OF assms(2)])
      (use that assms(3) list_append_touch(1) [OF assms(2)] dl_repr_owner_ends [OF assms(1), of j] in auto)
  show "item_list (items h j) = Some l'" if "item_list (items h' j) = Some l'"
    using that assms(3) by (simp add: list_append_touch(2) [OF assms(2)] split: if_splits)
qed

lemma list_push_frame:
  assumes "dl_repr h l xs" "list_push l i h = Some h'" "l' \<noteq> l" "dl_repr h l' ys"
  shows "dl_repr h' l' ys"
proof (rule dl_repr_frame [OF assms(4)])
  show "dlists h' l' = dlists h l'" by (rule list_push_touch(3) [OF assms(2,3)])
  fix j
  show "items h' j = items h j" if "item_list (items h j) = Some l'"
    by (rule list_push_touch(4) [OF assms(2)])
      (use that assms(3) list_push_touch(1) [OF assms(2)] dl_repr_owner_ends [OF assms(1), of j] in auto)
  show "item_list (items h j) = Some l'" if "item_list (items h' j) = Some l'"
    using that assms(3) by (simp add: list_push_touch(2) [OF assms(2)] split: if_splits)
qed

lemma list_remove_frame:
  assumes "dl_repr h l xs" "list_remove l i h = Some h'" "l' \<noteq> l" "dl_repr h l' ys"
  shows "dl_repr h' l' ys"
proof (rule dl_repr_frame [OF assms(4)])
  show "dlists h' l' = dlists h l'" by (rule list_remove_touch(3) [OF assms(2,3)])
  fix j
  show "items h' j = items h j" if "item_list (items h j) = Some l'"
    by (rule list_remove_touch(4) [OF assms(2)])
      (use that assms(3) list_remove_touch(1) [OF assms(2)] 
        dl_repr_owner_links [OF assms(1), of i j] in auto)
  show "item_list (items h j) = Some l'" if "item_list (items h' j) = Some l'"
    using that assms(3) by (simp add: list_remove_touch(2) [OF assms(2)] split: if_splits)
qed

subsection \<open>The list interface the components rely on\<close>

text \<open>
  \<open>owner h i\<close> is the list an item is linked into. The laws say what each operation does to the
  list it is applied to, to the ownership of items, and to every other list.
\<close>

locale list_module =
  fixes repr :: "'h \<Rightarrow> nat \<Rightarrow> nat list \<Rightarrow> bool"
    and owner :: "'h \<Rightarrow> nat \<Rightarrow> nat option"
    and app push rem :: "nat \<Rightarrow> nat \<Rightarrow> 'h \<Rightarrow> 'h option"
  assumes repr_distinct: "repr h l xs \<Longrightarrow> distinct xs"
    and repr_owner: "repr h l xs \<Longrightarrow> owner h i = Some l \<longleftrightarrow> i \<in> set xs"
    and app_ok: "repr h l xs \<Longrightarrow> owner h i = None \<Longrightarrow>
      \<exists>h'. app l i h = Some h' \<and> repr h' l (xs @ [i]) \<and> owner h' = (owner h)(i := Some l) \<and>
           (\<forall>l' ys. l' \<noteq> l \<longrightarrow> repr h l' ys \<longrightarrow> repr h' l' ys)"
    and push_ok: "repr h l xs \<Longrightarrow> owner h i = None \<Longrightarrow>
      \<exists>h'. push l i h = Some h' \<and> repr h' l (i # xs) \<and> owner h' = (owner h)(i := Some l) \<and>
           (\<forall>l' ys. l' \<noteq> l \<longrightarrow> repr h l' ys \<longrightarrow> repr h' l' ys)"
    and rem_ok: "repr h l xs \<Longrightarrow> i \<in> set xs \<Longrightarrow>
      \<exists>h'. rem l i h = Some h' \<and> repr h' l (remove1 i xs) \<and> owner h' = (owner h)(i := None) \<and>
           (\<forall>l' ys. l' \<noteq> l \<longrightarrow> repr h l' ys \<longrightarrow> repr h' l' ys)"
begin

lemma move_front:
  assumes "repr h l xs" "i \<in> set xs"
  shows "\<exists>h'. (do { h1 \<leftarrow> rem l i h; push l i h1 }) = Some h' \<and> repr h' l (i # remove1 i xs) \<and>
           (\<forall>l' ys. l' \<noteq> l \<longrightarrow> repr h l' ys \<longrightarrow> repr h' l' ys)"
proof -
  obtain h1 where "rem l i h = Some h1" "repr h1 l (remove1 i xs)" "owner h1 i = None"
    "\<forall>l' ys. l' \<noteq> l \<longrightarrow> repr h l' ys \<longrightarrow> repr h1 l' ys"
    using rem_ok [OF assms] by auto
  then show ?thesis using push_ok [of h1 l "remove1 i xs" i] by auto
qed

lemma transfer:
  assumes "repr h l xs" "repr h m ys" "l \<noteq> m" "i \<in> set xs"
  shows "\<exists>h'. (do { h1 \<leftarrow> rem l i h; push m i h1 }) = Some h' \<and>
           repr h' l (remove1 i xs) \<and> repr h' m (i # ys) \<and>
           (\<forall>l' zs. l' \<noteq> l \<longrightarrow> l' \<noteq> m \<longrightarrow> repr h l' zs \<longrightarrow> repr h' l' zs)"
proof -
  obtain h1 where h1: "rem l i h = Some h1" "repr h1 l (remove1 i xs)" "owner h1 i = None"
    "\<forall>l' ys. l' \<noteq> l \<longrightarrow> repr h l' ys \<longrightarrow> repr h1 l' ys"
    using rem_ok [OF assms(1,4)] by auto
  then have "repr h1 m ys" using assms(2,3) by auto
  then show ?thesis using push_ok [of h1 m ys i] h1 assms(3) by auto
qed

end

interpretation dl: list_module dl_repr "\<lambda>h i. item_list (items h i)" list_append list_push list_remove
proof
  fix h l xs i
  assume r: "dl_repr h l xs"
  show "distinct xs" "item_list (items h i) = Some l \<longleftrightarrow> i \<in> set xs" by (rule dl_reprD [OF r])+
  show "\<exists>h'. list_append l i h = Some h' \<and> dl_repr h' l (xs @ [i]) \<and>
         (\<lambda>j. item_list (items h' j)) = (\<lambda>j. item_list (items h j))(i := Some l) \<and>
         (\<forall>l' ys. l' \<noteq> l \<longrightarrow> dl_repr h l' ys \<longrightarrow> dl_repr h' l' ys)" if "item_list (items h i) = None"
    using list_append_refines [OF r that] list_append_touch(2) list_append_frame [OF r]
    by (auto simp: fun_eq_iff)
  show "\<exists>h'. list_push l i h = Some h' \<and> dl_repr h' l (i # xs) \<and>
         (\<lambda>j. item_list (items h' j)) = (\<lambda>j. item_list (items h j))(i := Some l) \<and>
         (\<forall>l' ys. l' \<noteq> l \<longrightarrow> dl_repr h l' ys \<longrightarrow> dl_repr h' l' ys)" if "item_list (items h i) = None"
    using list_push_refines [OF r that] list_push_touch(2) list_push_frame [OF r]
    by (auto simp: fun_eq_iff)
  show "\<exists>h'. list_remove l i h = Some h' \<and> dl_repr h' l (remove1 i xs) \<and>
         (\<lambda>j. item_list (items h' j)) = (\<lambda>j. item_list (items h j))(i := None) \<and>
         (\<forall>l' ys. l' \<noteq> l \<longrightarrow> dl_repr h l' ys \<longrightarrow> dl_repr h' l' ys)" if "i \<in> set xs"
    using list_remove_refines [OF r that] list_remove_touch(2) list_remove_frame [OF r]
    by (auto simp: fun_eq_iff)
qed

subsection \<open>Inserting in the middle\<close>

lemma pred_in_hd: "distinct xs \<Longrightarrow> pred_in xs (hd xs) = None"
  by (cases xs) (auto simp: pred_in_Cons)

lemma succ_pred_in: "distinct xs \<Longrightarrow> succ_in xs i = Some j \<Longrightarrow> pred_in xs j = Some i"
proof (induction xs)
  case (Cons x xs)
  then show ?case
    by (cases "i = x") (auto simp: pred_in_Cons opt_hd_Some_iff pred_in_hd dest: succ_in_mem)
qed simp

lemma list_insert_after_last:
  assumes "dl_repr h l (xs @ [a])" "item_list (items h i) = None"
  shows "list_insert_after a i h = list_append l i h"
  using assms dl_reprD(3) [OF assms(1)] dl_reprD(4) [OF assms(1), of a]
  by (auto simp: list_insert_after_def Let_def)

lemma list_insert_after_middle:
  assumes r: "dl_repr h l (xs @ a # b # ys)" and f: "item_list (items h i) = None"
  shows "\<exists>h'. list_insert_after a i h = Some h' \<and> item_next (items h' a) = Some i \<and>
     item_next (items h' i) = Some b \<and> item_prev (items h' b) = Some a \<and> (\<nexists>zs. dl_repr h' l zs)"
proof -
  note R = dl_reprD [OF r]
  have i: "i \<noteq> a" "i \<noteq> b" and ab: "a \<noteq> b" using dl_repr_free [OF r f] R(1) by auto
  have a: "item_list (items h a) = Some l" "item_next (items h a) = Some b"
    using R(1) R(4) [of a] R(5) [of a] by (auto simp: succ_in_append)
  have b: "item_prev (items h b) = Some a"
    using R(1) R(6) [of b] by (auto simp: pred_in_append pred_in_Cons)
  have "tail (dlists h l) \<noteq> Some a"
    using R(1) R(3) by (auto simp: opt_last_append opt_last_Cons opt_last_Some_iff)
  then obtain h' where h': "list_insert_after a i h = Some h'" "item_next (items h' a) = Some i"
    "item_next (items h' i) = Some b" "item_prev (items h' b) = Some a" "item_list (items h' i) = Some l"
    using a b i ab f by (auto simp: list_insert_after_def Let_def)
  moreover have "\<not> dl_repr h' l zs" for zs
  proof
    assume z: "dl_repr h' l zs"
    have "i \<in> set zs" using dl_reprD(4) [OF z] h'(5) by blast
    then have s: "succ_in zs i = Some b" using dl_reprD(5) [OF z] h'(3) by simp
    then have "pred_in zs b = Some i" by (rule succ_pred_in [OF dl_reprD(1) [OF z]])
    then show False using dl_reprD(6) [OF z succ_in_mem [OF s]] h'(4) i by simp
  qed
  ultimately show ?thesis by blast
qed

end
