(* ===== verification/General_Cpu.thy ===== *)
theory General_Cpu
  imports Prelude
begin

text \<open>
  The processor registry of \<open>src/src/device/cpu/general_cpu.c\<close>: the list of all processors, the
  lookup by number, the allocation of the least unused number, and the dispatch of the generic
  operations through a processor's method table. A \<open>general_cpu_t\<close> is a cell of \<open>gcpus\<close>, its
  \<open>data\<close> pointer an index of \<open>cpu_mem\<close>, the store of the architecture-specific processor
  structures of type \<open>'c\<close>. \<open>cpu_list\<close> is the contents of the C list, in order.
\<close>

abbreviation MAX_CPUS :: nat where "MAX_CPUS \<equiv> 32"

text \<open>The entries of \<open>cpu_ops_t\<close> that act on the processor structure alone.\<close>

record 'c cpu_ops =
  op_interrupt_up :: "'c \<Rightarrow> nat \<Rightarrow> 'c option"
  op_interrupt_down :: "'c \<Rightarrow> nat \<Rightarrow> 'c option"
  op_set_pc :: "'c \<Rightarrow> u64 \<Rightarrow> 'c option"
  op_sc_access :: "'c \<Rightarrow> ptr36 \<Rightarrow> nat \<Rightarrow> (bool \<times> 'c) option"

record 'c general_cpu =
  cpuno :: nat
  cpu_type :: "'c cpu_ops"
  cpu_data :: nat

record 'c cpus =
  cpu_list :: "nat list"
  gcpus :: "nat \<Rightarrow> 'c general_cpu"
  cpu_mem :: "nat \<Rightarrow> 'c"

definition get_cpu :: "nat \<Rightarrow> ('c, 'z) cpus_scheme \<Rightarrow> nat option" where
  "get_cpu no s = List.find (\<lambda>c. cpuno (gcpus s c) = no) (cpu_list s)"

text \<open>The first loop of \<open>get_free_cpuno\<close>; a shift by 32 or more is undefined behaviour.\<close>

fun cpu_id_mask :: "('c, 'z) cpus_scheme \<Rightarrow> nat list \<Rightarrow> u32 \<Rightarrow> u32 option" where
  "cpu_id_mask s [] id_mask = Some id_mask"
| "cpu_id_mask s (c # cs) id_mask = do {
     ASSERT (cpuno (gcpus s c) < 32);
     cpu_id_mask s cs (id_mask OR push_bit (cpuno (gcpus s c)) 1)
   }"

text \<open>The second loop: \<open>n\<close> counts the remaining iterations, \<open>c\<close> is the candidate.\<close>

fun first_clear :: "nat \<Rightarrow> nat \<Rightarrow> u32 \<Rightarrow> nat" where
  "first_clear 0 c id_mask = c"
| "first_clear (Suc n) c id_mask =
     (if id_mask AND 1 = 0 then c else first_clear n (c + 1) (drop_bit 1 id_mask))"

definition get_free_cpuno :: "('c, 'z) cpus_scheme \<Rightarrow> nat option" where
  "get_free_cpuno s = do {
     id_mask \<leftarrow> cpu_id_mask s (cpu_list s) 0;
     Some (first_clear MAX_CPUS 0 id_mask)
   }"

definition add_cpu :: "nat \<Rightarrow> ('c, 'z) cpus_scheme \<Rightarrow> ('c, 'z) cpus_scheme" where
  "add_cpu cpu s = s\<lparr>cpu_list := cpu_list s @ [cpu]\<rparr>"

definition remove_cpu :: "nat \<Rightarrow> ('c, 'z) cpus_scheme \<Rightarrow> ('c, 'z) cpus_scheme option" where
  "remove_cpu cpu s = do {
     ASSERT (cpu \<in> set (cpu_list s));
     Some (s\<lparr>cpu_list := remove1 cpu (cpu_list s)\<rparr>)
   }"

definition get_fallback_cpu :: "('c, 'z) cpus_scheme \<Rightarrow> nat option" where
  "get_fallback_cpu s =
     (case get_cpu 0 s of
        Some cpu \<Rightarrow> Some cpu
      | None \<Rightarrow> (case cpu_list s of [] \<Rightarrow> None | cpu # _ \<Rightarrow> Some cpu))"

definition cpu_or_fallback :: "nat option \<Rightarrow> ('c, 'z) cpus_scheme \<Rightarrow> nat option" where
  "cpu_or_fallback cpu s = (case cpu of None \<Rightarrow> get_fallback_cpu s | Some c \<Rightarrow> Some c)"

definition cpu_interrupt_up :: "nat option \<Rightarrow> nat \<Rightarrow> ('c, 'z) cpus_scheme \<Rightarrow> ('c, 'z) cpus_scheme option" where
  "cpu_interrupt_up cpu no s = do {
     g \<leftarrow> cpu_or_fallback cpu s;
     let d = cpu_data (gcpus s g);
     c \<leftarrow> op_interrupt_up (cpu_type (gcpus s g)) (cpu_mem s d) no;
     Some (s\<lparr>cpu_mem := (cpu_mem s)(d := c)\<rparr>)
   }"

definition cpu_interrupt_down :: "nat option \<Rightarrow> nat \<Rightarrow> ('c, 'z) cpus_scheme \<Rightarrow> ('c, 'z) cpus_scheme option" where
  "cpu_interrupt_down cpu no s = do {
     g \<leftarrow> cpu_or_fallback cpu s;
     let d = cpu_data (gcpus s g);
     c \<leftarrow> op_interrupt_down (cpu_type (gcpus s g)) (cpu_mem s d) no;
     Some (s\<lparr>cpu_mem := (cpu_mem s)(d := c)\<rparr>)
   }"

definition cpu_set_pc :: "nat option \<Rightarrow> u64 \<Rightarrow> ('c, 'z) cpus_scheme \<Rightarrow> ('c, 'z) cpus_scheme option" where
  "cpu_set_pc cpu pc s = do {
     g \<leftarrow> cpu_or_fallback cpu s;
     let d = cpu_data (gcpus s g);
     c \<leftarrow> op_set_pc (cpu_type (gcpus s g)) (cpu_mem s d) pc;
     Some (s\<lparr>cpu_mem := (cpu_mem s)(d := c)\<rparr>)
   }"

definition cpu_sc_access ::
    "nat option \<Rightarrow> ptr36 \<Rightarrow> nat \<Rightarrow> ('c, 'z) cpus_scheme \<Rightarrow> (bool \<times> ('c, 'z) cpus_scheme) option" where
  "cpu_sc_access cpu addr sz s = do {
     g \<leftarrow> cpu_or_fallback cpu s;
     let d = cpu_data (gcpus s g);
     (hit, c) \<leftarrow> op_sc_access (cpu_type (gcpus s g)) (cpu_mem s d) addr sz;
     Some (hit, s\<lparr>cpu_mem := (cpu_mem s)(d := c)\<rparr>)
   }"

subsection \<open>Lookup and allocation of numbers\<close>

lemma get_cpu_Some_iff:
  "get_cpu no s = Some c \<longleftrightarrow>
     (\<exists>i < length (cpu_list s). cpu_list s ! i = c \<and> cpuno (gcpus s c) = no \<and>
        (\<forall>j < i. cpuno (gcpus s (cpu_list s ! j)) \<noteq> no))"
  by (auto simp: get_cpu_def find_Some_iff)

lemma get_cpu_None_iff: "get_cpu no s = None \<longleftrightarrow> no \<notin> (\<lambda>c. cpuno (gcpus s c)) ` set (cpu_list s)"
  by (auto simp: get_cpu_def find_None_iff)

lemma cpu_id_mask_bit:
  "cpu_id_mask s cs m = Some r \<Longrightarrow> n < 32 \<Longrightarrow>
     bit r n \<longleftrightarrow> bit m n \<or> n \<in> (\<lambda>c. cpuno (gcpus s c)) ` set cs"
proof (induction cs arbitrary: m)
  case (Cons c cs)
  then have "cpu_id_mask s cs (m OR push_bit (cpuno (gcpus s c)) 1) = Some r" by simp
  from Cons.IH [OF this \<open>n < 32\<close>] show ?case using \<open>n < 32\<close> by (auto simp: bit_simps)
qed simp

lemma cpu_id_mask_total:
  "\<forall>c\<in>set cs. cpuno (gcpus s c) < 32 \<Longrightarrow> \<exists>r. cpu_id_mask s cs m = Some r"
  by (induction cs arbitrary: m) auto

lemma first_clear_spec:
  assumes "n \<le> 32" "\<And>k. k \<ge> n \<Longrightarrow> \<not> bit m k"
  shows "first_clear n c m = c + (LEAST k. k = n \<or> \<not> bit m k)"
  using assms
proof (induction n arbitrary: c m)
  case 0
  then show ?case by simp
next
  case (Suc n)
  show ?case
  proof (cases "bit m 0")
    case False
    then have "(LEAST k. k = Suc n \<or> \<not> bit m k) = 0" by (simp add: Least_eq_0)
    then show ?thesis using False by (simp add: and_one_eq mod2_eq_if bit_0)
  next
    case True
    have "first_clear n (c + 1) (drop_bit 1 m) = c + 1 + (LEAST k. k = n \<or> \<not> bit (drop_bit 1 m) k)"
      by (rule Suc.IH) (use Suc.prems in \<open>auto simp: bit_drop_bit_eq\<close>)
    moreover have "(LEAST k. k = Suc n \<or> \<not> bit m k) =
        Suc (LEAST k. Suc k = Suc n \<or> \<not> bit m (Suc k))"
      by (rule Least_Suc [where n = "Suc n"]) (use True in auto)
    ultimately show ?thesis using True
      by (simp add: and_one_eq mod2_eq_if bit_0 bit_drop_bit_eq)
  qed
qed

lemma get_free_cpuno_spec:
  assumes "\<forall>c\<in>set (cpu_list s). cpuno (gcpus s c) < MAX_CPUS"
  shows "get_free_cpuno s =
    Some (LEAST k. k = MAX_CPUS \<or> k \<notin> (\<lambda>c. cpuno (gcpus s c)) ` set (cpu_list s))"
proof -
  obtain r where r: "cpu_id_mask s (cpu_list s) 0 = Some r"
    using cpu_id_mask_total [OF assms] by blast
  have "(k = MAX_CPUS \<or> \<not> bit r k) =
      (k = MAX_CPUS \<or> k \<notin> (\<lambda>c. cpuno (gcpus s c)) ` set (cpu_list s))" for k
  proof (cases "k < 32")
    case True
    then show ?thesis using cpu_id_mask_bit [OF r True] by simp
  next
    case False
    then show ?thesis using assms by (auto dest: bit_imp_le_length)
  qed
  moreover have "first_clear MAX_CPUS 0 r = (LEAST k. k = MAX_CPUS \<or> \<not> bit r k)"
    by (subst first_clear_spec) (auto dest: bit_imp_le_length)
  ultimately show ?thesis by (simp add: get_free_cpuno_def r del: first_clear.simps)
qed

lemma get_fallback_cpu_None_iff: "get_fallback_cpu s = None \<longleftrightarrow> cpu_list s = []"
  by (auto simp: get_fallback_cpu_def get_cpu_def split: option.splits list.splits)

lemma get_fallback_cpu_mem: "get_fallback_cpu s = Some c \<Longrightarrow> c \<in> set (cpu_list s)"
  by (auto simp: get_fallback_cpu_def get_cpu_def find_Some_iff split: option.splits list.splits)

lemma get_cpu_mem: "get_cpu no s = Some c \<Longrightarrow> c \<in> set (cpu_list s) \<and> cpuno (gcpus s c) = no"
  by (auto simp: get_cpu_def find_Some_iff)

subsection \<open>The operations change one processor structure only\<close>

lemma cpu_interrupt_up_frame:
  "cpu_interrupt_up cpu no s = Some s' \<Longrightarrow> \<exists>m. s' = s\<lparr>cpu_mem := m\<rparr>"
  by (auto simp: cpu_interrupt_up_def bind_Some_iff Let_def)

lemma cpu_interrupt_down_frame:
  "cpu_interrupt_down cpu no s = Some s' \<Longrightarrow> \<exists>m. s' = s\<lparr>cpu_mem := m\<rparr>"
  by (auto simp: cpu_interrupt_down_def bind_Some_iff Let_def)

lemma cpu_sc_access_frame:
  "cpu_sc_access cpu a n s = Some (b, s') \<Longrightarrow> \<exists>m. s' = s\<lparr>cpu_mem := m\<rparr>"
  by (auto simp: cpu_sc_access_def bind_Some_iff Let_def)

end
