(* ===== verification/Physmem.thy ===== *)
theory Physmem
  imports General_Cpu
begin

text \<open>
  Physical memory: \<open>src/src/physmem.c\<close>, the memory breakpoints of
  \<open>src/src/debug/breakpoint.c\<close>, and the device read and write dispatch through the method table
  of \<open>src/src/device/device.h\<close>.

  The frame table is the two-level table \<open>ftl0\<close>; a second-level pointer is null, a table, or
  dangling (freed). An area's contents are a memory block, a C pointer into it is a pair of
  block number and offset. All accesses are little endian on a little-endian host, for which
  the conversions of \<open>src/src/endian.h\<close> are the identity.

  Device callbacks are entries of the device's method table; what a callback does outside its
  own data is returned as a list of effects that are applied to the machine. \<open>phys_byte\<close> is the
  abstract memory, a partial function from addresses to bytes that the reads and writes refine.
\<close>

abbreviation FRAME_WIDTH :: nat where "FRAME_WIDTH \<equiv> 12"
abbreviation FRAME_SIZE :: nat where "FRAME_SIZE \<equiv> 4096"
abbreviation FRAME_MASK :: ptr36 where "FRAME_MASK \<equiv> 0xFFF"

definition FRAME2ADDR :: "u32 \<Rightarrow> ptr36" where
  "FRAME2ADDR frame = push_bit FRAME_WIDTH (ucast frame)"

definition FRAMES2SIZE :: "u32 \<Rightarrow> nat" where
  "FRAMES2SIZE frames = unat (push_bit FRAME_WIDTH (ucast frames :: len36))"

datatype physmem_type = MEMT_NONE | MEMT_MEM | MEMT_FMAP

type_synonym mem_ptr = "nat \<times> nat"

record physmem_area =
  area_type :: physmem_type
  writable :: bool
  area_start :: u32
  area_count :: u32
  area_data :: "mem_ptr option"

record frame =
  frame_area :: "nat option"
  frame_data :: "mem_ptr option"
  valid :: bool

datatype ftl1_ptr = FTL1_NULL | FTL1 "nat \<Rightarrow> frame option" | FTL1_FREED

datatype breakpoint_kind = BREAKPOINT_KIND_DEBUGGER | BREAKPOINT_KIND_SIMULATOR

primrec breakpoint_kind_flag :: "breakpoint_kind \<Rightarrow> u32" where
  "breakpoint_kind_flag BREAKPOINT_KIND_DEBUGGER = 1"
| "breakpoint_kind_flag BREAKPOINT_KIND_SIMULATOR = 2"

abbreviation ACCESS_READ :: u32 where "ACCESS_READ \<equiv> 1"
abbreviation ACCESS_WRITE :: u32 where "ACCESS_WRITE \<equiv> 2"

record physmem_breakpoint =
  bp_kind :: breakpoint_kind
  bp_addr :: ptr36
  bp_size :: len36
  bp_hits :: u64
  bp_access_flags :: u32

text \<open>
  What a device callback does to the rest of the machine. The processor argument is
  \<open>Some n\<close> for \<open>get_cpu(n)\<close> and \<open>None\<close> for the null pointer; a register dump asserts that the
  processor exists.
\<close>

datatype dev_effect =
    Eff_interrupt_up "nat option" nat
  | Eff_interrupt_down "nat option" nat
  | Eff_interactive
  | Eff_halt
  | Eff_reg_dump nat

type_synonym ('d, 'w) dev_read = "nat \<Rightarrow> 'd \<Rightarrow> ptr36 \<Rightarrow> 'w \<Rightarrow> ('w \<times> 'd \<times> dev_effect list) option"
type_synonym ('d, 'w) dev_write = "nat \<Rightarrow> 'd \<Rightarrow> ptr36 \<Rightarrow> 'w \<Rightarrow> ('d \<times> dev_effect list) option"

record 'd device_type =
  read8 :: "('d, u8) dev_read option"
  read16 :: "('d, u16) dev_read option"
  read32 :: "('d, u32) dev_read option"
  read64 :: "('d, u64) dev_read option"
  write8 :: "('d, u8) dev_write option"
  write16 :: "('d, u16) dev_write option"
  write32 :: "('d, u32) dev_write option"
  write64 :: "('d, u64) dev_write option"

record 'd device =
  dev_type :: "'d device_type"
  dev_name :: string
  dev_data :: 'd

record ('c, 'd) machine = "'c cpus" +
  devices :: "'d device list"
  ftl0 :: "nat \<Rightarrow> ftl1_ptr"
  areas :: "nat \<Rightarrow> physmem_area"
  mem_size :: "nat \<Rightarrow> nat"
  mem_bytes :: "nat \<Rightarrow> nat \<Rightarrow> u8"
  sc_list :: "nat list"
  physmem_breakpoints :: "physmem_breakpoint list"
  machine_trace :: bool
  machine_halt :: bool
  machine_interactive :: bool
  machine_undefined :: bool
  machine_specific_instructions :: bool
  machine_allow_interactive_without_tty :: bool
  input_terminal :: bool
  remote_gdb_listen :: bool

subsection \<open>The frame table\<close>

definition ftl1_index :: "ptr36 \<Rightarrow> nat" where
  "ftl1_index addr = unat (drop_bit 24 addr AND 0xFFF)"

definition ftl2_index :: "ptr36 \<Rightarrow> nat" where
  "ftl2_index addr = unat (drop_bit 12 addr AND 0xFFF)"

definition physmem_find_frame :: "ptr36 \<Rightarrow> ('c, 'd, 'z) machine_scheme \<Rightarrow> frame option option" where
  "physmem_find_frame addr s =
     (case ftl0 s (ftl1_index addr) of
        FTL1_NULL \<Rightarrow> Some None
      | FTL1 t \<Rightarrow> Some (t (ftl2_index addr))
      | FTL1_FREED \<Rightarrow> None)"

definition set_frame :: "ptr36 \<Rightarrow> frame option \<Rightarrow> ('c, 'd, 'z) machine_scheme \<Rightarrow> ('c, 'd, 'z) machine_scheme" where
  "set_frame addr f s =
     (let t = (case ftl0 s (ftl1_index addr) of FTL1 t \<Rightarrow> t | _ \<Rightarrow> (\<lambda>_. None))
      in s\<lparr>ftl0 := (ftl0 s)(ftl1_index addr := FTL1 (t(ftl2_index addr := f)))\<rparr>)"

definition wire_frame :: "nat \<Rightarrow> u32 \<Rightarrow> ('c, 'd, 'z) machine_scheme \<Rightarrow> ('c, 'd, 'z) machine_scheme option" where
  "wire_frame area pfn s = do {
     let a = areas s area;
     let addr = FRAME2ADDR (area_start a + pfn);
     ASSERT (ftl0 s (ftl1_index addr) \<noteq> FTL1_FREED);
     (b, off) \<leftarrow> area_data a;
     Some (set_frame addr
       (Some \<lparr>frame_area = Some area, frame_data = Some (b, off + FRAMES2SIZE pfn), valid = False\<rparr>) s)
   }"

text \<open>The loops over \<open>pfn\<close>: \<open>n\<close> iterations are left.\<close>

fun wire_loop :: "nat \<Rightarrow> nat \<Rightarrow> u32 \<Rightarrow> ('c, 'd, 'z) machine_scheme \<Rightarrow> ('c, 'd, 'z) machine_scheme option" where
  "wire_loop 0 area pfn s = Some s"
| "wire_loop (Suc n) area pfn s = do {
     s' \<leftarrow> wire_frame area pfn s;
     wire_loop n area (pfn + 1) s'
   }"

definition physmem_wire :: "nat \<Rightarrow> ('c, 'd, 'z) machine_scheme \<Rightarrow> ('c, 'd, 'z) machine_scheme option" where
  "physmem_wire area s = do {
     ASSERT (area_type (areas s area) \<noteq> MEMT_NONE);
     ASSERT (area_count (areas s area) > 0);
     ASSERT (area_data (areas s area) \<noteq> None);
     wire_loop (unat (area_count (areas s area))) area 0 s
   }"

definition ftl1_empty :: "(nat \<Rightarrow> frame option) \<Rightarrow> bool" where
  "ftl1_empty t \<longleftrightarrow> list_all (\<lambda>i. t i = None) [0..<4096]"

text \<open>
  \<open>safe_free(ftl1)\<close> resets only the local variable: the entry of \<open>ftl0\<close> keeps the freed pointer.
\<close>

definition unwire_frame :: "nat \<Rightarrow> u32 \<Rightarrow> ('c, 'd, 'z) machine_scheme \<Rightarrow> ('c, 'd, 'z) machine_scheme option" where
  "unwire_frame area pfn s = do {
     let addr = FRAME2ADDR (area_start (areas s area) + pfn);
     (case ftl0 s (ftl1_index addr) of
        FTL1_NULL \<Rightarrow> None
      | FTL1_FREED \<Rightarrow> None
      | FTL1 t \<Rightarrow> do {
          ASSERT (t (ftl2_index addr) \<noteq> None);
          let t' = t(ftl2_index addr := None);
          Some (s\<lparr>ftl0 := (ftl0 s)(ftl1_index addr := (if ftl1_empty t' then FTL1_FREED else FTL1 t'))\<rparr>)
        })
   }"

fun unwire_loop :: "nat \<Rightarrow> nat \<Rightarrow> u32 \<Rightarrow> ('c, 'd, 'z) machine_scheme \<Rightarrow> ('c, 'd, 'z) machine_scheme option" where
  "unwire_loop 0 area pfn s = Some s"
| "unwire_loop (Suc n) area pfn s = do {
     s' \<leftarrow> unwire_frame area pfn s;
     unwire_loop n area (pfn + 1) s'
   }"

definition physmem_unwire :: "nat \<Rightarrow> ('c, 'd, 'z) machine_scheme \<Rightarrow> ('c, 'd, 'z) machine_scheme option" where
  "physmem_unwire area s = do {
     ASSERT (area_type (areas s area) \<noteq> MEMT_NONE);
     ASSERT (area_count (areas s area) > 0);
     ASSERT (area_data (areas s area) \<noteq> None);
     unwire_loop (unat (area_count (areas s area))) area 0 s
   }"

subsection \<open>Memory breakpoints\<close>

definition physmem_breakpoint_init :: "ptr36 \<Rightarrow> len36 \<Rightarrow> breakpoint_kind \<Rightarrow> u32 \<Rightarrow> physmem_breakpoint" where
  "physmem_breakpoint_init address len kind access_flags =
     \<lparr>bp_kind = kind, bp_addr = address, bp_size = len, bp_hits = 0, bp_access_flags = access_flags\<rparr>"

definition physmem_breakpoint_add ::
    "ptr36 \<Rightarrow> len36 \<Rightarrow> breakpoint_kind \<Rightarrow> u32 \<Rightarrow> ('c, 'd, 'z) machine_scheme \<Rightarrow> ('c, 'd, 'z) machine_scheme" where
  "physmem_breakpoint_add address len kind access_flags s =
     s\<lparr>physmem_breakpoints := physmem_breakpoints s @ [physmem_breakpoint_init address len kind access_flags]\<rparr>"

fun remove_first_addr :: "ptr36 \<Rightarrow> physmem_breakpoint list \<Rightarrow> bool \<times> physmem_breakpoint list" where
  "remove_first_addr address [] = (False, [])"
| "remove_first_addr address (b # bs) =
     (if bp_addr b = address then (True, bs)
      else (let (r, bs') = remove_first_addr address bs in (r, b # bs')))"

definition physmem_breakpoint_remove :: "ptr36 \<Rightarrow> ('c, 'd, 'z) machine_scheme \<Rightarrow> bool \<times> ('c, 'd, 'z) machine_scheme" where
  "physmem_breakpoint_remove address s =
     (let (r, bs) = remove_first_addr address (physmem_breakpoints s)
      in (r, s\<lparr>physmem_breakpoints := bs\<rparr>))"

definition physmem_breakpoint_remove_filtered :: "u32 \<Rightarrow> ('c, 'd, 'z) machine_scheme \<Rightarrow> ('c, 'd, 'z) machine_scheme" where
  "physmem_breakpoint_remove_filtered flags s =
     s\<lparr>physmem_breakpoints :=
         filter (\<lambda>b. breakpoint_kind_flag (bp_kind b) AND flags = 0) (physmem_breakpoints s)\<rparr>"

text \<open>The debugger is notified by setting \<open>remote_gdb_listen\<close>; messages are not modelled.\<close>

definition physmem_breakpoint_hit ::
    "physmem_breakpoint \<Rightarrow> u32 \<Rightarrow> ('c, 'd, 'z) machine_scheme \<Rightarrow> physmem_breakpoint \<times> ('c, 'd, 'z) machine_scheme" where
  "physmem_breakpoint_hit b access_type s =
     (case bp_kind b of
        BREAKPOINT_KIND_SIMULATOR \<Rightarrow> (b\<lparr>bp_hits := bp_hits b + 1\<rparr>, s\<lparr>machine_interactive := True\<rparr>)
      | BREAKPOINT_KIND_DEBUGGER \<Rightarrow> (b, s\<lparr>remote_gdb_listen := True\<rparr>))"

fun breakpoint_scan ::
    "ptr36 \<Rightarrow> u32 \<Rightarrow> physmem_breakpoint list \<Rightarrow> ('c, 'd, 'z) machine_scheme \<Rightarrow>
     physmem_breakpoint list \<times> ('c, 'd, 'z) machine_scheme" where
  "breakpoint_scan addr access_type [] s = ([], s)"
| "breakpoint_scan addr access_type (b # bs) s =
     (if bp_addr b + bp_size b < addr then
        (let (bs', s') = breakpoint_scan addr access_type bs s in (b # bs', s'))
      else if bp_addr b > addr + bp_size b then
        (let (bs', s') = breakpoint_scan addr access_type bs s in (b # bs', s'))
      else if access_type AND bp_access_flags b \<noteq> 0 then
        (let (b', s') = physmem_breakpoint_hit b access_type s in (b' # bs, s'))
      else (let (bs', s') = breakpoint_scan addr access_type bs s in (b # bs', s')))"

definition physmem_breakpoint_find ::
    "ptr36 \<Rightarrow> nat \<Rightarrow> u32 \<Rightarrow> ('c, 'd, 'z) machine_scheme \<Rightarrow> ('c, 'd, 'z) machine_scheme" where
  "physmem_breakpoint_find addr sz access_type s =
     (let (bs, s') = breakpoint_scan addr access_type (physmem_breakpoints s) s
      in s'\<lparr>physmem_breakpoints := bs\<rparr>)"

subsection \<open>Device dispatch\<close>

definition apply_effect :: "dev_effect \<Rightarrow> ('c, 'd, 'z) machine_scheme \<Rightarrow> ('c, 'd, 'z) machine_scheme option" where
  "apply_effect e s =
     (case e of
        Eff_interrupt_up c no \<Rightarrow> cpu_interrupt_up (Option.bind c (\<lambda>n. get_cpu n s)) no s
      | Eff_interrupt_down c no \<Rightarrow> cpu_interrupt_down (Option.bind c (\<lambda>n. get_cpu n s)) no s
      | Eff_interactive \<Rightarrow> Some (s\<lparr>machine_interactive := True\<rparr>)
      | Eff_halt \<Rightarrow> Some (s\<lparr>machine_halt := True\<rparr>)
      | Eff_reg_dump n \<Rightarrow> do { ASSERT (get_cpu n s \<noteq> None); Some s })"

fun apply_effects :: "dev_effect list \<Rightarrow> ('c, 'd, 'z) machine_scheme \<Rightarrow> ('c, 'd, 'z) machine_scheme option" where
  "apply_effects [] s = Some s"
| "apply_effects (e # es) s = do { s' \<leftarrow> apply_effect e s; apply_effects es s' }"

text \<open>The loop over \<open>dev_next\<close> with \<open>DEVICE_FILTER_ALL\<close>, threading the local \<open>val\<close> or \<open>written\<close>.\<close>

fun for_each_dev ::
    "('d device \<Rightarrow> 'v \<Rightarrow> ('v \<times> 'd device \<times> dev_effect list) option) \<Rightarrow> 'd device list \<Rightarrow> 'v \<Rightarrow>
     ('v \<times> 'd device list \<times> dev_effect list) option" where
  "for_each_dev f [] v = Some (v, [], [])"
| "for_each_dev f (dev # devs) v = do {
     (v1, dev', es1) \<leftarrow> f dev v;
     (v2, devs', es2) \<leftarrow> for_each_dev f devs v1;
     Some (v2, dev' # devs', es1 @ es2)
   }"

definition call_read ::
    "('d, 'w) dev_read \<Rightarrow> nat \<Rightarrow> ptr36 \<Rightarrow> 'd device \<Rightarrow> 'w \<Rightarrow> ('w \<times> 'd device \<times> dev_effect list) option" where
  "call_read f procno addr dev v = do {
     (v', d, es) \<leftarrow> f procno (dev_data dev) addr v;
     Some (v', dev\<lparr>dev_data := d\<rparr>, es)
   }"

definition call_write ::
    "('d, 'w) dev_write \<Rightarrow> nat \<Rightarrow> ptr36 \<Rightarrow> 'w \<Rightarrow> 'd device \<Rightarrow> (bool \<times> 'd device \<times> dev_effect list) option" where
  "call_write f procno addr v dev = do {
     (d, es) \<leftarrow> f procno (dev_data dev) addr v;
     Some (True, dev\<lparr>dev_data := d\<rparr>, es)
   }"

text \<open>An 8-bit or 16-bit callback writes the low bytes of the 32-bit local \<open>val\<close>.\<close>

definition dev_read8 :: "nat \<Rightarrow> ptr36 \<Rightarrow> 'd device \<Rightarrow> u32 \<Rightarrow> (u32 \<times> 'd device \<times> dev_effect list) option" where
  "dev_read8 procno addr dev val =
     (case read8 (dev_type dev) of
        Some f \<Rightarrow> do {
          (b, dev', es) \<leftarrow> call_read f procno addr dev (ucast val);
          Some ((val AND NOT 0xFF) OR ucast b, dev', es)
        }
      | None \<Rightarrow> (case read32 (dev_type dev) of
          Some f \<Rightarrow> call_read f procno addr dev val
        | None \<Rightarrow> Some (val, dev, [])))"

definition dev_read16 :: "nat \<Rightarrow> ptr36 \<Rightarrow> 'd device \<Rightarrow> u32 \<Rightarrow> (u32 \<times> 'd device \<times> dev_effect list) option" where
  "dev_read16 procno addr dev val =
     (case read16 (dev_type dev) of
        Some f \<Rightarrow> do {
          (h, dev', es) \<leftarrow> call_read f procno addr dev (ucast val);
          Some ((val AND NOT 0xFFFF) OR ucast h, dev', es)
        }
      | None \<Rightarrow> (case read32 (dev_type dev) of
          Some f \<Rightarrow> call_read f procno addr dev val
        | None \<Rightarrow> Some (val, dev, [])))"

definition dev_read32 :: "nat \<Rightarrow> ptr36 \<Rightarrow> 'd device \<Rightarrow> u32 \<Rightarrow> (u32 \<times> 'd device \<times> dev_effect list) option" where
  "dev_read32 procno addr dev val =
     (case read32 (dev_type dev) of
        Some f \<Rightarrow> call_read f procno addr dev val
      | None \<Rightarrow> Some (val, dev, []))"

definition dev_read64 :: "nat \<Rightarrow> ptr36 \<Rightarrow> 'd device \<Rightarrow> u64 \<Rightarrow> (u64 \<times> 'd device \<times> dev_effect list) option" where
  "dev_read64 procno addr dev val =
     (case read64 (dev_type dev) of
        Some f \<Rightarrow> call_read f procno addr dev val
      | None \<Rightarrow> Some (val, dev, []))"

definition devmem_access ::
    "('d device \<Rightarrow> 'v \<Rightarrow> ('v \<times> 'd device \<times> dev_effect list) option) \<Rightarrow> 'v \<Rightarrow> ('c, 'd, 'z) machine_scheme \<Rightarrow>
     ('v \<times> ('c, 'd, 'z) machine_scheme) option" where
  "devmem_access f v s = do {
     (v', devs, es) \<leftarrow> for_each_dev f (devices s) v;
     s' \<leftarrow> apply_effects es (s\<lparr>devices := devs\<rparr>);
     Some (v', s')
   }"

definition devmem_read8 :: "nat \<Rightarrow> ptr36 \<Rightarrow> ('c, 'd, 'z) machine_scheme \<Rightarrow> (u8 \<times> ('c, 'd, 'z) machine_scheme) option" where
  "devmem_read8 procno addr s = do {
     (val, s') \<leftarrow> devmem_access (dev_read8 procno addr) 0xFFFFFFFF s;
     Some (ucast val, s')
   }"

definition devmem_read16 :: "nat \<Rightarrow> ptr36 \<Rightarrow> ('c, 'd, 'z) machine_scheme \<Rightarrow> (u16 \<times> ('c, 'd, 'z) machine_scheme) option" where
  "devmem_read16 procno addr s = do {
     (val, s') \<leftarrow> devmem_access (dev_read16 procno addr) 0xFFFFFFFF s;
     Some (ucast val, s')
   }"

definition devmem_read32 :: "nat \<Rightarrow> ptr36 \<Rightarrow> ('c, 'd, 'z) machine_scheme \<Rightarrow> (u32 \<times> ('c, 'd, 'z) machine_scheme) option" where
  "devmem_read32 procno addr s = devmem_access (dev_read32 procno addr) 0xFFFFFFFF s"

definition devmem_read64 :: "nat \<Rightarrow> ptr36 \<Rightarrow> ('c, 'd, 'z) machine_scheme \<Rightarrow> (u64 \<times> ('c, 'd, 'z) machine_scheme) option" where
  "devmem_read64 procno addr s = devmem_access (dev_read64 procno addr) 0xFFFFFFFFFFFFFFFF s"

definition dev_write8 :: "nat \<Rightarrow> ptr36 \<Rightarrow> u8 \<Rightarrow> 'd device \<Rightarrow> bool \<Rightarrow> (bool \<times> 'd device \<times> dev_effect list) option" where
  "dev_write8 procno addr val dev written =
     (case write8 (dev_type dev) of
        Some f \<Rightarrow> call_write f procno addr val dev
      | None \<Rightarrow> (case write32 (dev_type dev) of
          Some f \<Rightarrow> call_write f procno addr (ucast val) dev
        | None \<Rightarrow> Some (written, dev, [])))"

definition dev_write16 :: "nat \<Rightarrow> ptr36 \<Rightarrow> u16 \<Rightarrow> 'd device \<Rightarrow> bool \<Rightarrow> (bool \<times> 'd device \<times> dev_effect list) option" where
  "dev_write16 procno addr val dev written =
     (case write16 (dev_type dev) of
        Some f \<Rightarrow> call_write f procno addr val dev
      | None \<Rightarrow> (case write32 (dev_type dev) of
          Some f \<Rightarrow> call_write f procno addr (ucast val) dev
        | None \<Rightarrow> Some (written, dev, [])))"

definition dev_write32 :: "nat \<Rightarrow> ptr36 \<Rightarrow> u32 \<Rightarrow> 'd device \<Rightarrow> bool \<Rightarrow> (bool \<times> 'd device \<times> dev_effect list) option" where
  "dev_write32 procno addr val dev written =
     (case write32 (dev_type dev) of
        Some f \<Rightarrow> call_write f procno addr val dev
      | None \<Rightarrow> Some (written, dev, []))"

definition dev_write64 :: "nat \<Rightarrow> ptr36 \<Rightarrow> u64 \<Rightarrow> 'd device \<Rightarrow> bool \<Rightarrow> (bool \<times> 'd device \<times> dev_effect list) option" where
  "dev_write64 procno addr val dev written =
     (case write64 (dev_type dev) of
        Some f \<Rightarrow> call_write f procno addr val dev
      | None \<Rightarrow> Some (written, dev, []))"

definition devmem_write8 :: "nat \<Rightarrow> ptr36 \<Rightarrow> u8 \<Rightarrow> ('c, 'd, 'z) machine_scheme \<Rightarrow> (bool \<times> ('c, 'd, 'z) machine_scheme) option" where
  "devmem_write8 procno addr val s = devmem_access (dev_write8 procno addr val) False s"

definition devmem_write16 :: "nat \<Rightarrow> ptr36 \<Rightarrow> u16 \<Rightarrow> ('c, 'd, 'z) machine_scheme \<Rightarrow> (bool \<times> ('c, 'd, 'z) machine_scheme) option" where
  "devmem_write16 procno addr val s = devmem_access (dev_write16 procno addr val) False s"

definition devmem_write32 :: "nat \<Rightarrow> ptr36 \<Rightarrow> u32 \<Rightarrow> ('c, 'd, 'z) machine_scheme \<Rightarrow> (bool \<times> ('c, 'd, 'z) machine_scheme) option" where
  "devmem_write32 procno addr val s = devmem_access (dev_write32 procno addr val) False s"

definition devmem_write64 :: "nat \<Rightarrow> ptr36 \<Rightarrow> u64 \<Rightarrow> ('c, 'd, 'z) machine_scheme \<Rightarrow> (bool \<times> ('c, 'd, 'z) machine_scheme) option" where
  "devmem_write64 procno addr val s = devmem_access (dev_write64 procno addr val) False s"


subsection \<open>Reading memory\<close>

text \<open>Little-endian bytes of a word at consecutive offsets of a block.\<close>

fun load_le :: "nat \<Rightarrow> (nat \<Rightarrow> u8) \<Rightarrow> nat \<Rightarrow> 'a::len word" where
  "load_le 0 m p = 0"
| "load_le (Suc n) m p = ucast (m p) OR push_bit 8 (load_le n m (Suc p))"

fun store_le :: "nat \<Rightarrow> (nat \<Rightarrow> u8) \<Rightarrow> nat \<Rightarrow> 'a::len word \<Rightarrow> (nat \<Rightarrow> u8)" where
  "store_le 0 m p v = m"
| "store_le (Suc n) m p v = store_le n (m(p := ucast v)) (Suc p) (drop_bit 8 v)"

text \<open>
  \<open>*(uintN_t *)(frame->data + (addr & FRAME_MASK))\<close>: an access outside the block is undefined
  behaviour.
\<close>

definition frame_load :: "nat \<Rightarrow> frame \<Rightarrow> ptr36 \<Rightarrow> ('c, 'd, 'z) machine_scheme \<Rightarrow> 'a::len word option" where
  "frame_load n f addr s = do {
     (b, off) \<leftarrow> frame_data f;
     let p = off + unat (addr AND FRAME_MASK);
     ASSERT (p + n \<le> mem_size s b);
     Some (load_le n (mem_bytes s b) p)
   }"

definition frame_store ::
    "nat \<Rightarrow> frame \<Rightarrow> ptr36 \<Rightarrow> 'a::len word \<Rightarrow> ('c, 'd, 'z) machine_scheme \<Rightarrow> ('c, 'd, 'z) machine_scheme option" where
  "frame_store n f addr v s = do {
     (b, off) \<leftarrow> frame_data f;
     let p = off + unat (addr AND FRAME_MASK);
     ASSERT (p + n \<le> mem_size s b);
     Some (s\<lparr>mem_bytes := (mem_bytes s)(b := store_le n (mem_bytes s b) p v)\<rparr>)
   }"

definition physmem_read8 ::
    "nat \<Rightarrow> ptr36 \<Rightarrow> bool \<Rightarrow> ('c, 'd, 'z) machine_scheme \<Rightarrow> (u8 \<times> ('c, 'd, 'z) machine_scheme) option" where
  "physmem_read8 procno addr prot s = do {
     fr \<leftarrow> physmem_find_frame addr s;
     (case fr of
        None \<Rightarrow> devmem_read8 procno addr s
      | Some f \<Rightarrow> do {
          let s1 = (if prot then physmem_breakpoint_find addr 1 ACCESS_READ s else s);
          ASSERT (frame_data f \<noteq> None);
          v \<leftarrow> frame_load 1 f addr s1;
          Some (v, s1)
        })
   }"

definition physmem_read16 ::
    "nat \<Rightarrow> ptr36 \<Rightarrow> bool \<Rightarrow> ('c, 'd, 'z) machine_scheme \<Rightarrow> (u16 \<times> ('c, 'd, 'z) machine_scheme) option" where
  "physmem_read16 procno addr prot s = do {
     fr \<leftarrow> physmem_find_frame addr s;
     (case fr of
        None \<Rightarrow> devmem_read16 procno addr s
      | Some f \<Rightarrow> do {
          let s1 = (if prot then physmem_breakpoint_find addr 2 ACCESS_READ s else s);
          ASSERT (frame_data f \<noteq> None);
          v \<leftarrow> frame_load 2 f addr s1;
          Some (v, s1)
        })
   }"

definition physmem_read32 ::
    "nat \<Rightarrow> ptr36 \<Rightarrow> bool \<Rightarrow> ('c, 'd, 'z) machine_scheme \<Rightarrow> (u32 \<times> ('c, 'd, 'z) machine_scheme) option" where
  "physmem_read32 procno addr prot s = do {
     fr \<leftarrow> physmem_find_frame addr s;
     (case fr of
        None \<Rightarrow> devmem_read32 procno addr s
      | Some f \<Rightarrow> do {
          let s1 = (if prot then physmem_breakpoint_find addr 4 ACCESS_READ s else s);
          ASSERT (frame_data f \<noteq> None);
          v \<leftarrow> frame_load 4 f addr s1;
          Some (v, s1)
        })
   }"

definition physmem_read64 ::
    "nat \<Rightarrow> ptr36 \<Rightarrow> bool \<Rightarrow> ('c, 'd, 'z) machine_scheme \<Rightarrow> (u64 \<times> ('c, 'd, 'z) machine_scheme) option" where
  "physmem_read64 procno addr prot s = do {
     fr \<leftarrow> physmem_find_frame addr s;
     (case fr of
        None \<Rightarrow> devmem_read64 procno addr s
      | Some f \<Rightarrow> do {
          let s1 = (if prot then physmem_breakpoint_find addr 8 ACCESS_READ s else s);
          ASSERT (frame_data f \<noteq> None);
          v \<leftarrow> frame_load 8 f addr s1;
          Some (v, s1)
        })
   }"

subsection \<open>LL/SC tracking\<close>

definition sc_register :: "nat \<Rightarrow> ('c, 'd, 'z) machine_scheme \<Rightarrow> ('c, 'd, 'z) machine_scheme" where
  "sc_register procno s =
     (if procno \<in> set (sc_list s) then s else s\<lparr>sc_list := sc_list s @ [procno]\<rparr>)"

definition sc_unregister :: "nat \<Rightarrow> ('c, 'd, 'z) machine_scheme \<Rightarrow> ('c, 'd, 'z) machine_scheme" where
  "sc_unregister procno s = s\<lparr>sc_list := remove1 procno (sc_list s)\<rparr>"

text \<open>The loop of \<open>sc_control\<close>: returns the items that stay on the list.\<close>

fun sc_control_loop ::
    "ptr36 \<Rightarrow> nat \<Rightarrow> nat list \<Rightarrow> ('c, 'd, 'z) machine_scheme \<Rightarrow> (nat list \<times> ('c, 'd, 'z) machine_scheme) option" where
  "sc_control_loop addr sz [] s = Some ([], s)"
| "sc_control_loop addr sz (procno # ps) s = do {
     (hit, s1) \<leftarrow> cpu_sc_access (get_cpu procno s) addr sz s;
     (kept, s2) \<leftarrow> sc_control_loop addr sz ps s1;
     Some (if hit then kept else procno # kept, s2)
   }"

definition sc_control :: "ptr36 \<Rightarrow> nat \<Rightarrow> ('c, 'd, 'z) machine_scheme \<Rightarrow> ('c, 'd, 'z) machine_scheme option" where
  "sc_control addr sz s = do {
     (kept, s') \<leftarrow> sc_control_loop addr sz (sc_list s) s;
     Some (s'\<lparr>sc_list := kept\<rparr>)
   }"

subsection \<open>Writing memory\<close>

definition physmem_write8 ::
    "nat \<Rightarrow> ptr36 \<Rightarrow> u8 \<Rightarrow> bool \<Rightarrow> ('c, 'd, 'z) machine_scheme \<Rightarrow> (bool \<times> ('c, 'd, 'z) machine_scheme) option" where
  "physmem_write8 procno addr val prot s = do {
     fr \<leftarrow> physmem_find_frame addr s;
     (case fr of
        None \<Rightarrow> devmem_write8 procno addr val s
      | Some f \<Rightarrow> do {
          a \<leftarrow> frame_area f;
          ASSERT (frame_data f \<noteq> None);
          (if \<not> writable (areas s a) \<and> prot then Some (False, s)
           else do {
             s1 \<leftarrow> sc_control addr 1 s;
             let s2 = (if prot then physmem_breakpoint_find addr 1 ACCESS_WRITE s1 else s1);
             let s3 = set_frame addr (Some (f\<lparr>valid := False\<rparr>)) s2;
             s4 \<leftarrow> frame_store 1 f addr val s3;
             Some (True, s4)
           })
        })
   }"

definition physmem_write16 ::
    "nat \<Rightarrow> ptr36 \<Rightarrow> u16 \<Rightarrow> bool \<Rightarrow> ('c, 'd, 'z) machine_scheme \<Rightarrow> (bool \<times> ('c, 'd, 'z) machine_scheme) option" where
  "physmem_write16 procno addr val prot s = do {
     fr \<leftarrow> physmem_find_frame addr s;
     (case fr of
        None \<Rightarrow> devmem_write16 procno addr val s
      | Some f \<Rightarrow> do {
          a \<leftarrow> frame_area f;
          ASSERT (frame_data f \<noteq> None);
          (if \<not> writable (areas s a) \<and> prot then Some (False, s)
           else do {
             s1 \<leftarrow> sc_control addr 2 s;
             let s2 = (if prot then physmem_breakpoint_find addr 2 ACCESS_WRITE s1 else s1);
             let s3 = set_frame addr (Some (f\<lparr>valid := False\<rparr>)) s2;
             s4 \<leftarrow> frame_store 2 f addr val s3;
             Some (True, s4)
           })
        })
   }"

definition physmem_write32 ::
    "nat \<Rightarrow> ptr36 \<Rightarrow> u32 \<Rightarrow> bool \<Rightarrow> ('c, 'd, 'z) machine_scheme \<Rightarrow> (bool \<times> ('c, 'd, 'z) machine_scheme) option" where
  "physmem_write32 procno addr val prot s = do {
     fr \<leftarrow> physmem_find_frame addr s;
     (case fr of
        None \<Rightarrow> devmem_write32 procno addr val s
      | Some f \<Rightarrow> do {
          a \<leftarrow> frame_area f;
          ASSERT (frame_data f \<noteq> None);
          (if \<not> writable (areas s a) \<and> prot then Some (False, s)
           else do {
             s1 \<leftarrow> sc_control addr 4 s;
             let s2 = (if prot then physmem_breakpoint_find addr 4 ACCESS_WRITE s1 else s1);
             let s3 = set_frame addr (Some (f\<lparr>valid := False\<rparr>)) s2;
             s4 \<leftarrow> frame_store 4 f addr val s3;
             Some (True, s4)
           })
        })
   }"

definition physmem_write64 ::
    "nat \<Rightarrow> ptr36 \<Rightarrow> u64 \<Rightarrow> bool \<Rightarrow> ('c, 'd, 'z) machine_scheme \<Rightarrow> (bool \<times> ('c, 'd, 'z) machine_scheme) option" where
  "physmem_write64 procno addr val prot s = do {
     fr \<leftarrow> physmem_find_frame addr s;
     (case fr of
        None \<Rightarrow> devmem_write64 procno addr val s
      | Some f \<Rightarrow> do {
          a \<leftarrow> frame_area f;
          ASSERT (frame_data f \<noteq> None);
          (if \<not> writable (areas s a) \<and> prot then Some (False, s)
           else do {
             s1 \<leftarrow> sc_control addr 8 s;
             let s2 = (if prot then physmem_breakpoint_find addr 8 ACCESS_WRITE s1 else s1);
             let s3 = set_frame addr (Some (f\<lparr>valid := False\<rparr>)) s2;
             s4 \<leftarrow> frame_store 8 f addr val s3;
             Some (True, s4)
           })
        })
   }"

end
