(* ===== verification/Utils.thy ===== *)
theory Utils
  imports Prelude
begin

text \<open>
  The arithmetic macros of \<open>src/src/utils.h\<close>: alignment, bit fields of 64-bit registers and the
  overlap test of address ranges, with the facts the memory components rely on.
\<close>

definition ALIGN_DOWN :: "'a::len word \<Rightarrow> 'a word \<Rightarrow> 'a word" where
  "ALIGN_DOWN addr align = addr AND NOT (align - 1)"

definition ALIGN_UP :: "'a::len word \<Rightarrow> 'a word \<Rightarrow> 'a word" where
  "ALIGN_UP addr align = (addr + (align - 1)) AND NOT (align - 1)"

definition IS_ALIGNED :: "'a::len word \<Rightarrow> 'a word \<Rightarrow> bool" where
  "IS_ALIGNED addr align \<longleftrightarrow> addr AND (align - 1) = 0"

definition IS_POWER_OF_2 :: "'a::len word \<Rightarrow> bool" where
  "IS_POWER_OF_2 num \<longleftrightarrow> num = 0 \<or> num AND (num - 1) = 0"

definition BIT_MASK :: "nat \<Rightarrow> nat \<Rightarrow> u64" where
  "BIT_MASK start end' = push_bit start (push_bit (end' - start) 1 - 1)"

definition EXTRACT_BITS :: "u64 \<Rightarrow> nat \<Rightarrow> nat \<Rightarrow> u64" where
  "EXTRACT_BITS val start end' = drop_bit start val AND (push_bit (end' - start) 1 - 1)"

definition WRITE_BITS :: "u64 \<Rightarrow> u64 \<Rightarrow> nat \<Rightarrow> nat \<Rightarrow> u64" where
  "WRITE_BITS target val start end' =
     (target AND NOT (BIT_MASK start end')) OR (push_bit start val AND BIT_MASK start end')"

definition AREAS_OVERLAP :: "u64 \<Rightarrow> u64 \<Rightarrow> u64 \<Rightarrow> u64 \<Rightarrow> bool" where
  "AREAS_OVERLAP base1 size1 base2 size2 \<longleftrightarrow>
     (base2 \<le> base1 \<and> base1 < base2 + size2) \<or> (base1 \<le> base2 \<and> base2 < base1 + size1)"

subsection \<open>Masks are bit ranges\<close>

lemma exp_minus_1_mask: "push_bit n 1 - 1 = (mask n :: 'a::len word)"
  by (simp add: push_bit_eq_mult mask_eq_decr_exp)

lemma BIT_MASK_bit [word_bits]:
  "bit (BIT_MASK s e) k \<longleftrightarrow> s \<le> k \<and> k < s + (e - s) \<and> k < 64"
  unfolding BIT_MASK_def exp_minus_1_mask by (auto simp: bit_simps)

lemma EXTRACT_BITS_bit [word_bits]:
  "bit (EXTRACT_BITS v s e) k \<longleftrightarrow> k < e - s \<and> bit v (s + k)"
  unfolding EXTRACT_BITS_def exp_minus_1_mask by (auto simp: bit_simps dest: bit_imp_le_length)

lemma WRITE_BITS_bit [word_bits]:
  "bit (WRITE_BITS t v s e) k \<longleftrightarrow>
     (if s \<le> k \<and> k < s + (e - s) then k < 64 \<and> bit v (k - s) else bit t k)"
  by (auto simp: WRITE_BITS_def word_bits bit_simps dest: bit_imp_le_length)

text \<open>Reading a field back gives the written value, cut to the field's width.\<close>

lemma EXTRACT_WRITE_same:
  assumes "s \<le> e" and "e \<le> 64"
  shows "EXTRACT_BITS (WRITE_BITS t v s e) s e = take_bit (e - s) v"
  by (rule bit_word_eqI) (use assms in \<open>auto simp: word_bits bit_simps\<close>)

text \<open>A write to one field leaves every disjoint field alone.\<close>

lemma EXTRACT_WRITE_disjoint:
  assumes "e' \<le> s \<or> e \<le> s'" and "s \<le> e" and "s' \<le> e'"
  shows "EXTRACT_BITS (WRITE_BITS t v s e) s' e' = EXTRACT_BITS t s' e'"
  by (rule bit_word_eqI) (use assms in \<open>auto simp: word_bits\<close>)

lemma EXTRACT_BITS_low: "EXTRACT_BITS v 0 n = take_bit n v"
  by (rule bit_word_eqI) (auto simp: word_bits bit_simps)

subsection \<open>Alignment\<close>

lemma IS_ALIGNED_exp: "IS_ALIGNED a (2 ^ n) \<longleftrightarrow> take_bit n a = 0" for a :: "'a::len word"
  by (simp add: IS_ALIGNED_def take_bit_eq_mask mask_eq_decr_exp)

lemma IS_ALIGNED_dvd: "IS_ALIGNED a (2 ^ n) \<longleftrightarrow> 2 ^ n dvd unat a" for a :: "'a::len word"
  by (simp add: IS_ALIGNED_exp word_unat_eq_iff unat_take_bit dvd_eq_mod_eq_0)

lemma IS_ALIGNED_bits: "IS_ALIGNED a (2 ^ n) \<longleftrightarrow> (\<forall>i<n. \<not> bit a i)" for a :: "'a::len word"
  by (auto simp: IS_ALIGNED_exp bit_eq_iff bit_simps dest: bit_imp_le_length)

lemma aligned_4_bits: "IS_ALIGNED a 4 \<longleftrightarrow> \<not> bit a 0 \<and> \<not> bit a 1" for a :: "'a::len word"
  using IS_ALIGNED_bits [of a 2] by (auto simp: numeral_2_eq_2 less_Suc_eq)

lemma ALIGN_DOWN_exp: "ALIGN_DOWN a (2 ^ n) = a AND NOT (mask n)" for a :: "'a::len word"
  by (simp add: ALIGN_DOWN_def mask_eq_decr_exp)

lemma ALIGN_DOWN_bit: "bit (ALIGN_DOWN a (2 ^ n)) k \<longleftrightarrow> n \<le> k \<and> bit a k" for a :: "'a::len word"
  by (auto simp: ALIGN_DOWN_exp bit_simps dest: bit_imp_le_length)

lemma unat_ALIGN_DOWN: "unat (ALIGN_DOWN a (2 ^ n)) = 2 ^ n * (unat a div 2 ^ n)"
  for a :: "'a::len word"
proof -
  have "ALIGN_DOWN a (2 ^ n) = push_bit n (drop_bit n a)"
    by (rule bit_word_eqI) (auto simp: ALIGN_DOWN_bit bit_simps)
  then have "ALIGN_DOWN a (2 ^ n) = a - take_bit n a"
    using bits_ident [of n a] by (simp add: eq_diff_eq ac_simps)
  moreover have "unat (a - take_bit n a) = unat a - unat (take_bit n a)"
    by (rule unat_sub) (simp add: word_le_nat_alt unat_take_bit)
  ultimately show ?thesis
    by (simp add: unat_take_bit minus_mod_eq_mult_div)
qed

lemma ALIGN_DOWN_aligned: "IS_ALIGNED (ALIGN_DOWN a (2 ^ n)) (2 ^ n)" for a :: "'a::len word"
  by (simp add: IS_ALIGNED_dvd unat_ALIGN_DOWN)

lemma ALIGN_DOWN_id: "IS_ALIGNED a (2 ^ n) \<Longrightarrow> ALIGN_DOWN a (2 ^ n) = a" for a :: "'a::len word"
  by (simp add: IS_ALIGNED_dvd word_unat_eq_iff unat_ALIGN_DOWN)

subsection \<open>Overlap of address ranges\<close>

text \<open>
  Where neither range wraps around the 64-bit address space, the macro decides whether the
  two ranges share a byte.
\<close>

lemma AREAS_OVERLAP_iff:
  assumes "unat b1 + unat s1 < 2 ^ 64" and "unat b2 + unat s2 < 2 ^ 64"
    and "0 < unat s1" and "0 < unat s2"
  shows "AREAS_OVERLAP b1 s1 b2 s2 \<longleftrightarrow>
    {unat b1 ..< unat b1 + unat s1} \<inter> {unat b2 ..< unat b2 + unat s2} \<noteq> {}"
proof -
  have "unat (b1 + s1) = unat b1 + unat s1" and "unat (b2 + s2) = unat b2 + unat s2"
    using assms by (simp_all add: unat_word_ariths)
  then have "AREAS_OVERLAP b1 s1 b2 s2 \<longleftrightarrow>
      (unat b2 \<le> unat b1 \<and> unat b1 < unat b2 + unat s2) \<or>
      (unat b1 \<le> unat b2 \<and> unat b2 < unat b1 + unat s1)"
    by (simp add: AREAS_OVERLAP_def word_le_nat_alt word_less_nat_alt)
  also have "\<dots> \<longleftrightarrow> max (unat b1) (unat b2) < min (unat b1 + unat s1) (unat b2 + unat s2)"
    using assms(3,4) by linarith
  also have "\<dots> \<longleftrightarrow> {unat b1 ..< unat b1 + unat s1} \<inter> {unat b2 ..< unat b2 + unat s2} \<noteq> {}"
    by auto
  finally show ?thesis .
qed

end
