(* ===== verification/Physmem_Facts.thy ===== *)
theory Physmem_Facts
  imports Physmem Utils
begin

text \<open>
  Facts on physical memory. The byte loads and stores round-trip; the four read and the four
  write functions are instances of one generic access; breakpoints and LL/SC tracking leave the
  frame table and the contents alone. \<open>phys_byte\<close> abstracts the machine's memory to a partial
  function on 36-bit addresses: under the table invariant \<open>physmem_ok\<close> an aligned read returns
  its bytes and an aligned write updates exactly the bytes written.
\<close>

subsection \<open>Loads and stores of little-endian words\<close>

lemma store_le_other: "q < p \<or> p + n \<le> q \<Longrightarrow> store_le n m p v q = m q"
  by (induction n arbitrary: m p v) auto

lemma store_le_at: "i < n \<Longrightarrow> store_le n m p v (p + i) = ucast (drop_bit (8 * i) v)"
proof (induction n arbitrary: m p v i)
  case (Suc n)
  show ?case
  proof (cases i)
    case 0
    then show ?thesis by (simp add: store_le_other)
  next
    case (Suc j)
    then show ?thesis
      using Suc.IH [of j "m(p := ucast v)" "Suc p" "drop_bit 8 v"] Suc.prems
      by (simp add: add.commute del: fun_upd_apply)
  qed
qed simp

lemma bit_load_le:
  "bit (load_le n m p :: 'a::len word) k \<longleftrightarrow>
     k < LENGTH('a) \<and> k < 8 * n \<and> bit (m (p + k div 8)) (k mod 8)"
proof (induction n arbitrary: p k)
  case (Suc n)
  show ?case
  proof (cases "k < 8")
    case True
    then show ?thesis by (auto simp: bit_simps)
  next
    case False
    then have "k div 8 = Suc ((k - 8) div 8)" "k mod 8 = (k - 8) mod 8"
      by (simp_all add: le_div_geq le_mod_geq)
    then show ?thesis using Suc.IH [of "Suc p" "k - 8"] False
      by (auto simp: bit_simps dest: bit_imp_le_length)
  qed
qed simp

lemma load_le_cong:
  "(\<And>i. i < n \<Longrightarrow> m (p + i) = m' (p' + i)) \<Longrightarrow> (load_le n m p :: 'a::len word) = load_le n m' p'"
  by (rule bit_word_eqI) (auto simp: bit_load_le less_mult_imp_div_less mult.commute)

lemma load_store_le:
  assumes "LENGTH('a) \<le> 8 * n"
  shows "load_le n (store_le n m p v) p = (v :: 'a::len word)"
proof (rule bit_word_eqI)
  fix k assume "k < LENGTH('a)"
  moreover from this have "k div 8 < n" using assms by auto
  ultimately show "bit (load_le n (store_le n m p v) p :: 'a word) k = bit v k"
    using assms by (auto simp: bit_load_le store_le_at bit_simps)
qed

subsection \<open>One generic access behind the eight access functions\<close>

definition read_core ::
    "nat \<Rightarrow> (('c, 'd, 'z) machine_scheme \<Rightarrow> ('a::len word \<times> ('c, 'd, 'z) machine_scheme) option) \<Rightarrow>
     ptr36 \<Rightarrow> bool \<Rightarrow> ('c, 'd, 'z) machine_scheme \<Rightarrow> ('a word \<times> ('c, 'd, 'z) machine_scheme) option" where
  "read_core n dev addr prot s = do {
     fr \<leftarrow> physmem_find_frame addr s;
     (case fr of
        None \<Rightarrow> dev s
      | Some f \<Rightarrow> do {
          let s1 = (if prot then physmem_breakpoint_find addr n ACCESS_READ s else s);
          ASSERT (frame_data f \<noteq> None);
          v \<leftarrow> frame_load n f addr s1;
          Some (v, s1)
        })
   }"

definition write_core ::
    "nat \<Rightarrow> (('c, 'd, 'z) machine_scheme \<Rightarrow> (bool \<times> ('c, 'd, 'z) machine_scheme) option) \<Rightarrow>
     ptr36 \<Rightarrow> 'a::len word \<Rightarrow> bool \<Rightarrow> ('c, 'd, 'z) machine_scheme \<Rightarrow> (bool \<times> ('c, 'd, 'z) machine_scheme) option" where
  "write_core n dev addr val prot s = do {
     fr \<leftarrow> physmem_find_frame addr s;
     (case fr of
        None \<Rightarrow> dev s
      | Some f \<Rightarrow> do {
          a \<leftarrow> frame_area f;
          ASSERT (frame_data f \<noteq> None);
          (if \<not> writable (areas s a) \<and> prot then Some (False, s)
           else do {
             s1 \<leftarrow> sc_control addr n s;
             let s2 = (if prot then physmem_breakpoint_find addr n ACCESS_WRITE s1 else s1);
             let s3 = set_frame addr (Some (f\<lparr>valid := False\<rparr>)) s2;
             s4 \<leftarrow> frame_store n f addr val s3;
             Some (True, s4)
           })
        })
   }"

lemma physmem_read_core:
  "physmem_read8 procno addr prot = read_core 1 (devmem_read8 procno addr) addr prot"
  "physmem_read16 procno addr prot = read_core 2 (devmem_read16 procno addr) addr prot"
  "physmem_read32 procno addr prot = read_core 4 (devmem_read32 procno addr) addr prot"
  "physmem_read64 procno addr prot = read_core 8 (devmem_read64 procno addr) addr prot"
  by (rule ext, simp only: read_core_def physmem_read8_def physmem_read16_def
      physmem_read32_def physmem_read64_def)+

lemma physmem_write_core:
  "physmem_write8 procno addr v8 prot = write_core 1 (devmem_write8 procno addr v8) addr v8 prot"
  "physmem_write16 procno addr v16 prot = write_core 2 (devmem_write16 procno addr v16) addr v16 prot"
  "physmem_write32 procno addr v32 prot = write_core 4 (devmem_write32 procno addr v32) addr v32 prot"
  "physmem_write64 procno addr v64 prot = write_core 8 (devmem_write64 procno addr v64) addr v64 prot"
  by (rule ext, simp only: write_core_def physmem_write8_def physmem_write16_def
      physmem_write32_def physmem_write64_def)+

subsection \<open>What breakpoints and LL/SC tracking touch\<close>

lemma machine_flags_id:
  "\<exists>i g. s = s\<lparr>machine_interactive := i, remote_gdb_listen := g\<rparr>"
  by (rule exI [of _ "machine_interactive s"], rule exI [of _ "remote_gdb_listen s"]) simp

lemma breakpoint_scan_frame:
  "\<exists>bs' i g. breakpoint_scan addr acc bs s = (bs', s\<lparr>machine_interactive := i, remote_gdb_listen := g\<rparr>)"
proof (induction bs)
  case Nil
  show ?case using machine_flags_id [of s] by simp
next
  case (Cons b bs)
  have "\<exists>b' i g. physmem_breakpoint_hit b acc s = (b', s\<lparr>machine_interactive := i, remote_gdb_listen := g\<rparr>)"
  proof (cases "bp_kind b")
    case BREAKPOINT_KIND_DEBUGGER
    then show ?thesis
      by (simp add: physmem_breakpoint_hit_def) (rule exI [of _ "machine_interactive s"], rule exI [of _ True], simp)
  next
    case BREAKPOINT_KIND_SIMULATOR
    then show ?thesis
      by (simp add: physmem_breakpoint_hit_def) (rule exI [of _ True], rule exI [of _ "remote_gdb_listen s"], simp)
  qed
  then show ?case using Cons by (auto; blast)
qed

lemma physmem_breakpoint_find_frame:
  "\<exists>bs i g. physmem_breakpoint_find addr n acc s =
     s\<lparr>machine_interactive := i, remote_gdb_listen := g, physmem_breakpoints := bs\<rparr>"
  using breakpoint_scan_frame [of addr acc "physmem_breakpoints s" s]
  by (elim exE) (simp add: physmem_breakpoint_find_def, blast)

lemma physmem_breakpoint_find_simps [simp, frame_simps]:
  "ftl0 (physmem_breakpoint_find addr n acc s) = ftl0 s"
  "areas (physmem_breakpoint_find addr n acc s) = areas s"
  "mem_size (physmem_breakpoint_find addr n acc s) = mem_size s"
  "mem_bytes (physmem_breakpoint_find addr n acc s) = mem_bytes s"
  "cpu_mem (physmem_breakpoint_find addr n acc s) = cpu_mem s"
  "cpu_list (physmem_breakpoint_find addr n acc s) = cpu_list s"
  "gcpus (physmem_breakpoint_find addr n acc s) = gcpus s"
  "sc_list (physmem_breakpoint_find addr n acc s) = sc_list s"
  "devices (physmem_breakpoint_find addr n acc s) = devices s"
  using physmem_breakpoint_find_frame [of addr n acc s] by auto

lemma sc_control_loop_frame:
  "sc_control_loop addr n ps s = Some (kept, s') \<Longrightarrow> \<exists>m. s' = s\<lparr>cpu_mem := m\<rparr>"
proof (induction ps arbitrary: s kept)
  case Nil
  then show ?case by (auto intro: exI [of _ "cpu_mem s"])
next
  case (Cons p ps)
  then obtain hit s1 kept1 where "cpu_sc_access (get_cpu p s) addr n s = Some (hit, s1)"
    and "sc_control_loop addr n ps s1 = Some (kept1, s')"
    by (auto simp: bind_Some_iff)
  from cpu_sc_access_frame [OF this(1)] Cons.IH [OF this(2)] show ?case by auto
qed

lemma sc_control_frame:
  "sc_control addr n s = Some s' \<Longrightarrow> \<exists>m l. s' = s\<lparr>cpu_mem := m, sc_list := l\<rparr>"
  unfolding sc_control_def bind_Some_iff by (clarsimp dest!: sc_control_loop_frame) blast

lemma physmem_find_frame_cong: "ftl0 s' = ftl0 s \<Longrightarrow> physmem_find_frame addr s' = physmem_find_frame addr s"
  by (simp add: physmem_find_frame_def)

subsection \<open>The abstract memory\<close>

definition frame_at :: "nat \<Rightarrow> ('c, 'd, 'z) machine_scheme \<Rightarrow> frame option" where
  "frame_at page s =
     (case ftl0 s (page div 4096) of FTL1 t \<Rightarrow> t (page mod 4096) | _ \<Rightarrow> None)"

definition page_of :: "ptr36 \<Rightarrow> nat" where
  "page_of addr = unat (ucast addr :: 36 word) div 4096"

definition phys_byte :: "('c, 'd, 'z) machine_scheme \<Rightarrow> 36 word \<Rightarrow> u8 option" where
  "phys_byte s a = do {
     f \<leftarrow> frame_at (unat a div 4096) s;
     (b, off) \<leftarrow> frame_data f;
     Some (mem_bytes s b (off + unat a mod 4096))
   }"

definition physmem_ok :: "('c, 'd, 'z) machine_scheme \<Rightarrow> bool" where
  "physmem_ok s \<longleftrightarrow>
     (\<forall>i. ftl0 s i \<noteq> FTL1_FREED) \<and>
     (\<forall>p f. frame_at p s = Some f \<longrightarrow>
        (\<exists>a b off. frame_area f = Some a \<and> frame_data f = Some (b, off) \<and> off + 4096 \<le> mem_size s b)) \<and>
     (\<forall>p q f g b off off'. frame_at p s = Some f \<and> frame_at q s = Some g \<and> p \<noteq> q \<and>
        frame_data f = Some (b, off) \<and> frame_data g = Some (b, off') \<longrightarrow>
        off + 4096 \<le> off' \<or> off' + 4096 \<le> off)"

definition abs_load :: "nat \<Rightarrow> (36 word \<Rightarrow> u8 option) \<Rightarrow> 36 word \<Rightarrow> 'a::len word" where
  "abs_load n pm a = load_le n (\<lambda>i. the (pm (a + of_nat i))) 0"

definition abs_store :: "nat \<Rightarrow> (36 word \<Rightarrow> u8 option) \<Rightarrow> 36 word \<Rightarrow> 'a::len word \<Rightarrow> (36 word \<Rightarrow> u8 option)" where
  "abs_store n pm a v =
     (\<lambda>x. if unat (x - a) < n then Some (ucast (drop_bit (8 * unat (x - a)) v)) else pm x)"

lemma page_of_div: "page_of addr = unat addr mod 2 ^ 36 div 4096"
  by (simp add: page_of_def unsigned_ucast_eq take_bit_eq_mod)

lemma ftl1_index_page: "ftl1_index addr = page_of addr div 4096"
proof -
  have "unat addr mod 2 ^ 36 div 4096 div 4096 = unat addr div 2 ^ 24 mod 2 ^ 12"
    by (simp add: div_mult2_eq [symmetric] mod_mult2_eq [of _ "2 ^ 24" "2 ^ 12", simplified])
  then show ?thesis
    using unat_and_mask [of "drop_bit 24 addr" 12]
    by (simp add: ftl1_index_def page_of_div unat_drop_bit mask_eq_exp_minus_1)
qed

lemma ftl2_index_page: "ftl2_index addr = page_of addr mod 4096"
proof -
  have "unat addr mod 2 ^ 36 div 4096 mod 4096 = unat addr div 4096 mod 4096"
    by (simp add: mod_mult2_eq [of _ 4096 "2 ^ 24", simplified] mod_mod_cancel)
  then show ?thesis
    using unat_and_mask [of "drop_bit 12 addr" 12]
    by (simp add: ftl2_index_def page_of_div unat_drop_bit mask_eq_exp_minus_1)
qed

lemma page_of_less: "page_of addr < 2 ^ 24"
  by (simp add: page_of_div less_mult_imp_div_less)

lemma frame_offset: "unat (addr AND FRAME_MASK) = unat addr mod 4096"
  using unat_and_mask [of addr 12] by (simp add: mask_eq_exp_minus_1)

lemma find_frame_frame_at:
  "physmem_find_frame addr s = Some (Some f) \<Longrightarrow> frame_at (page_of addr) s = Some f"
  by (auto simp: physmem_find_frame_def frame_at_def ftl1_index_page ftl2_index_page
      split: ftl1_ptr.splits)

lemma frame_at_find_frame:
  "frame_at (page_of addr) s = Some f \<Longrightarrow> physmem_find_frame addr s = Some (Some f)"
  by (auto simp: physmem_find_frame_def frame_at_def ftl1_index_page ftl2_index_page
      split: ftl1_ptr.splits)

lemma find_frame_total: "physmem_ok s \<Longrightarrow> physmem_find_frame addr s = Some (frame_at (page_of addr) s)"
  by (auto simp: physmem_ok_def physmem_find_frame_def frame_at_def ftl1_index_page ftl2_index_page
      split: ftl1_ptr.splits)

lemma frame_at_cong: "ftl0 s' = ftl0 s \<Longrightarrow> frame_at p s' = frame_at p s"
  by (simp add: frame_at_def)

lemma frame_at_set_frame_nofree:
  assumes "ftl0 s (ftl1_index addr) \<noteq> FTL1_FREED"
  shows "frame_at q (set_frame addr f s) = (if q = page_of addr then f else frame_at q s)"
proof -
  have "q = page_of addr" if "q div 4096 = page_of addr div 4096" "q mod 4096 = page_of addr mod 4096"
    using that by (metis div_mult_mod_eq)
  then show ?thesis using assms
    by (auto simp: set_frame_def frame_at_def ftl1_index_page ftl2_index_page Let_def split: ftl1_ptr.splits)
qed

lemma frame_at_set_frame:
  assumes "frame_at (page_of addr) s = Some g"
  shows "frame_at q (set_frame addr f s) = (if q = page_of addr then f else frame_at q s)"
  using assms by (intro frame_at_set_frame_nofree) (auto simp: frame_at_def ftl1_index_page)

text \<open>An aligned access stays inside its frame.\<close>

lemma aligned_in_frame:
  assumes "n dvd 4096" "n dvd x" "i < (n :: nat)"
  shows "(x + i) div 4096 = x div 4096" "(x + i) mod 4096 = x mod 4096 + i"
    "x mod 4096 + n \<le> 4096"
proof -
  have "n dvd x mod 4096" using assms(1,2) by (simp add: dvd_mod_iff)
  then have "n dvd 4096 - x mod 4096" using assms(1) by (rule dvd_diff_nat [rotated])
  then have "n \<le> 4096 - x mod 4096" by (rule dvd_imp_le) simp
  moreover have "x mod 4096 < 4096" by simp
  ultimately show le: "x mod 4096 + n \<le> 4096" by linarith
  have eq: "x + i = (x mod 4096 + i) + 4096 * (x div 4096)" by simp
  show "(x + i) mod 4096 = x mod 4096 + i" "(x + i) div 4096 = x div 4096"
    unfolding eq using le assms(3) by (simp_all only: mod_mult_self2 div_mult_self2 mod_less div_less)
qed

lemma aligned_byte_addr:
  assumes "n dvd 4096" "n dvd unat addr" "i < n"
  shows "unat (ucast addr + of_nat i :: 36 word) = unat addr mod 2 ^ 36 + i"
    "unat addr mod 2 ^ 36 mod 4096 = unat addr mod 4096"
proof -
  let ?x = "unat addr mod 2 ^ 36"
  show m: "?x mod 4096 = unat addr mod 4096" by (simp add: mod_mod_cancel)
  have d: "n dvd ?x" using assms(1,2) dvd_trans [OF assms(1), of "2 ^ 36"] by (simp add: dvd_mod_iff)
  have "?x div 4096 < 2 ^ 24" by (simp add: less_mult_imp_div_less)
  then have "(?x + i) div 4096 < 2 ^ 24" using aligned_in_frame(1) [OF assms(1) d assms(3)] by simp
  then have "?x + i < 2 ^ 36" by (simp add: div_less_iff_less_mult)
  then show "unat (ucast addr + of_nat i :: 36 word) = ?x + i"
    by (simp add: unat_word_ariths unsigned_ucast_eq take_bit_eq_mod unat_of_nat mod_add_right_eq)
qed

lemma phys_byte_aligned:
  assumes "n dvd 4096" "n dvd unat addr" "i < n"
    and "frame_at (page_of addr) s = Some f" "frame_data f = Some (b, off)"
  shows "phys_byte s (ucast addr + of_nat i) = Some (mem_bytes s b (off + unat addr mod 4096 + i))"
proof -
  have d: "n dvd unat addr mod 2 ^ 36"
    using assms(1,2) dvd_trans [OF assms(1), of "2 ^ 36"] by (simp add: dvd_mod_iff)
  note A = aligned_byte_addr [OF assms(1-3)] aligned_in_frame [OF assms(1) d assms(3)]
  show ?thesis
    using assms(4,5) by (simp add: phys_byte_def A [simplified] page_of_div add.assoc)
qed

lemma physmem_okD:
  assumes "physmem_ok s" "frame_at p s = Some f"
  obtains a b off where "frame_area f = Some a" "frame_data f = Some (b, off)" "off + 4096 \<le> mem_size s b"
  using assms unfolding physmem_ok_def by blast

lemma aligned_bound:
  assumes "n dvd 4096" "n dvd unat addr" "0 < n" "off + 4096 \<le> m"
  shows "off + unat addr mod 4096 + n \<le> m"
  using aligned_in_frame(3) [OF assms(1-3)] assms(4) by simp

lemma physmem_ok_cong: "ftl0 s' = ftl0 s \<Longrightarrow> mem_size s' = mem_size s \<Longrightarrow> physmem_ok s' = physmem_ok s"
  by (simp add: physmem_ok_def frame_at_def)

lemma phys_byte_cong: "ftl0 s' = ftl0 s \<Longrightarrow> mem_bytes s' = mem_bytes s \<Longrightarrow> phys_byte s' = phys_byte s"
  by (rule ext) (simp add: phys_byte_def frame_at_def)

lemma read_core_refines:
  fixes dev :: "('c, 'd, 'z) machine_scheme \<Rightarrow> ('a::len word \<times> ('c, 'd, 'z) machine_scheme) option"
  assumes ok: "physmem_ok s" and n: "n dvd 4096" "n dvd unat addr" "0 < n"
    and f: "frame_at (page_of addr) s = Some f"
  shows "\<exists>s'. read_core n dev addr prot s = Some (abs_load n (phys_byte s) (ucast addr), s') \<and>
           phys_byte s' = phys_byte s \<and> physmem_ok s' \<and> cpu_mem s' = cpu_mem s \<and> sc_list s' = sc_list s"
proof -
  obtain b off where d: "frame_data f = Some (b, off)" "off + 4096 \<le> mem_size s b"
    using physmem_okD [OF ok f] by blast
  define s1 where "s1 = (if prot then physmem_breakpoint_find addr n ACCESS_READ s else s)"
  have eq: "ftl0 s1 = ftl0 s" "mem_size s1 = mem_size s" "mem_bytes s1 = mem_bytes s"
    "cpu_mem s1 = cpu_mem s" "sc_list s1 = sc_list s" by (simp_all add: s1_def)
  have "load_le n (mem_bytes s b) (off + unat addr mod 4096) =
      (abs_load n (phys_byte s) (ucast addr) :: 'a word)"
    unfolding abs_load_def by (rule load_le_cong) (simp add: phys_byte_aligned [OF n(1,2) _ f d(1)])
  then have "read_core n dev addr prot s = Some (abs_load n (phys_byte s) (ucast addr), s1)"
    using aligned_bound [OF n d(2)] d(1) frame_at_find_frame [OF f] eq
    by (simp add: read_core_def frame_load_def Let_def frame_offset s1_def [symmetric])
  then show ?thesis
    using ok eq by (simp add: phys_byte_cong [OF eq(1,3)] physmem_ok_cong [OF eq(1,2)])
qed

lemma physmem_ok_disjoint:
  assumes "physmem_ok s" "frame_at p s = Some f" "frame_at q s = Some g" "p \<noteq> q"
    "frame_data f = Some (b, off)" "frame_data g = Some (b, off')"
  shows "off + 4096 \<le> off' \<or> off' + 4096 \<le> off"
  using assms unfolding physmem_ok_def by blast

lemma same_frame_outside:
  assumes "unat (y :: 36 word) div 4096 = page_of addr" "\<not> unat (y - ucast addr) < n"
  shows "unat y mod 4096 < unat addr mod 4096 \<or> unat addr mod 4096 + n \<le> unat y mod 4096"
proof (rule ccontr)
  let ?a = "ucast addr :: 36 word"
  assume c: "\<not> ?thesis"
  have a: "unat ?a = unat addr mod 2 ^ 36" by (simp add: unsigned_ucast_eq take_bit_eq_mod)
  have m: "unat ?a mod 4096 = unat addr mod 4096" by (simp add: a mod_mod_cancel)
  have y: "unat y = 4096 * page_of addr + unat y mod 4096" using assms(1) mult_div_mod_eq by metis
  have x: "unat ?a = 4096 * page_of addr + unat ?a mod 4096"
    unfolding page_of_def by (rule mult_div_mod_eq [symmetric])
  have "unat ?a \<le> unat y" using c x y m by linarith
  then have "unat (y - ?a) = unat y - unat ?a" by (simp add: unat_sub word_le_nat_alt)
  then show False using c x y m assms(2) by linarith
qed

lemma phys_byte_store:
  assumes ok: "physmem_ok s" and n: "n dvd 4096" "n dvd unat addr" "0 < n"
    and f: "frame_at (page_of addr) s = Some f" "frame_data f = Some (b, off)"
  shows "phys_byte (s\<lparr>mem_bytes := (mem_bytes s)(b := store_le n (mem_bytes s b) (off + unat addr mod 4096) v)\<rparr>) =
           abs_store n (phys_byte s) (ucast addr) v"
    (is "phys_byte ?s = _")
proof (rule ext)
  fix y :: "36 word"
  have fa: "frame_at p ?s = frame_at p s" for p by (simp add: frame_at_def)
  show "phys_byte ?s y = abs_store n (phys_byte s) (ucast addr) v y"
  proof (cases "unat (y - ucast addr) < n")
    case True
    have "phys_byte ?s (ucast addr + of_nat (unat (y - ucast addr))) =
        Some (ucast (drop_bit (8 * unat (y - ucast addr)) v))"
      using phys_byte_aligned [OF n(1,2) True, of ?s] f store_le_at [OF True] by (simp add: fa)
    then show ?thesis using True by (simp add: abs_store_def)
  next
    case False
    have bound: "off + unat addr mod 4096 + n \<le> off + 4096" using aligned_bound [OF n] by blast
    have "store_le n (mem_bytes s b) (off + unat addr mod 4096) v (off' + unat y mod 4096) =
        mem_bytes s b (off' + unat y mod 4096)"
      if g: "frame_at (unat y div 4096) s = Some g" "frame_data g = Some (b, off')" for g off'
    proof (cases "unat y div 4096 = page_of addr")
      case True
      then have "off' = off" using f g by simp
      then show ?thesis using same_frame_outside [OF True False] by (intro store_le_other) auto
    next
      case ne: False
      have "off + 4096 \<le> off' \<or> off' + 4096 \<le> off"
        using physmem_ok_disjoint [OF ok f(1) g(1) _ f(2) g(2)] ne by auto
      moreover have "unat y mod 4096 < 4096" by simp
      ultimately show ?thesis using bound by (intro store_le_other) linarith
    qed
    then show ?thesis using False
      by (cases "frame_at (unat y div 4096) s"; cases "frame_data (the (frame_at (unat y div 4096) s))")
        (auto simp: phys_byte_def fa abs_store_def)
  qed
qed

lemma phys_byte_data_cong:
  assumes "\<And>p. Option.bind (frame_at p s') frame_data = Option.bind (frame_at p s) frame_data"
    "mem_bytes s' = mem_bytes s"
  shows "phys_byte s' = phys_byte s"
proof (rule ext)
  fix y :: "36 word"
  from assms(1) [of "unat y div 4096"] show "phys_byte s' y = phys_byte s y"
    by (cases "frame_at (unat y div 4096) s"; cases "frame_at (unat y div 4096) s'")
      (auto simp: phys_byte_def assms(2))
qed

lemma physmem_ok_set_frame:
  assumes ok: "physmem_ok s" and f: "frame_at (page_of addr) s = Some f"
    and g: "frame_area g = frame_area f" "frame_data g = frame_data f"
  shows "physmem_ok (set_frame addr (Some g) s)"
proof -
  let ?s = "set_frame addr (Some g) s"
  have key: "\<exists>h0. frame_at p s = Some h0 \<and> frame_area h0 = frame_area h \<and> frame_data h0 = frame_data h"
    if "frame_at p ?s = Some h" for p h
    using that f g by (auto simp: frame_at_set_frame [OF f] split: if_splits)
  have ms: "mem_size ?s = mem_size s" by (simp add: set_frame_def Let_def)
  have nf: "ftl0 ?s i \<noteq> FTL1_FREED" for i
    using ok by (auto simp: set_frame_def Let_def physmem_ok_def)
  show ?thesis unfolding physmem_ok_def ms
  proof (intro conjI allI impI)
    show "\<exists>a b off. frame_area h = Some a \<and> frame_data h = Some (b, off) \<and> off + 4096 \<le> mem_size s b"
      if "frame_at p ?s = Some h" for p h
      using key [OF that] physmem_okD [OF ok] by metis
    show "off + 4096 \<le> off' \<or> off' + 4096 \<le> off"
      if "frame_at p ?s = Some h \<and> frame_at q ?s = Some k \<and> p \<noteq> q \<and>
          frame_data h = Some (b, off) \<and> frame_data k = Some (b, off')" for p q h k b off off'
      using that key [of p h] key [of q k] physmem_ok_disjoint [OF ok] by metis
  qed (rule nf)
qed

lemma write_core_refines:
  fixes v :: "'a::len word"
  assumes ok: "physmem_ok s" and n: "n dvd 4096" "n dvd unat addr" "0 < n"
    and f: "frame_at (page_of addr) s = Some f" and a: "frame_area f = Some a"
    and w: "prot \<longrightarrow> writable (areas s a)" and sc: "sc_control addr n s = Some s1"
  shows "\<exists>s'. write_core n dev addr v prot s = Some (True, s') \<and>
     phys_byte s' = abs_store n (phys_byte s) (ucast addr) v \<and>
     physmem_ok s' \<and> cpu_mem s' = cpu_mem s1 \<and> sc_list s' = sc_list s1 \<and>
     (\<forall>p. frame_at p s' = (if p = page_of addr then Some (f\<lparr>valid := False\<rparr>) else frame_at p s))"
proof -
  obtain b off where d: "frame_data f = Some (b, off)" "off + 4096 \<le> mem_size s b"
    using physmem_okD [OF ok f] by blast
  obtain m l where s1: "s1 = s\<lparr>cpu_mem := m, sc_list := l\<rparr>" using sc_control_frame [OF sc] by blast
  define s2 where "s2 = (if prot then physmem_breakpoint_find addr n ACCESS_WRITE s1 else s1)"
  have s2: "ftl0 s2 = ftl0 s" "mem_size s2 = mem_size s" "mem_bytes s2 = mem_bytes s"
    "cpu_mem s2 = m" "sc_list s2 = l" by (simp_all add: s2_def s1)
  have f2: "frame_at (page_of addr) s2 = Some f" using f by (simp add: frame_at_def s2)
  define s3 where "s3 = set_frame addr (Some (f\<lparr>valid := False\<rparr>)) s2"
  have s3: "mem_size s3 = mem_size s" "mem_bytes s3 = mem_bytes s" "cpu_mem s3 = m" "sc_list s3 = l"
    by (simp_all add: s3_def set_frame_def Let_def s2)
  have fa3: "frame_at p s3 = (if p = page_of addr then Some (f\<lparr>valid := False\<rparr>) else frame_at p s)" for p
    by (simp add: s3_def frame_at_set_frame [OF f2] frame_at_cong [OF s2(1)])
  have ok3: "physmem_ok s3"
    unfolding s3_def using ok physmem_ok_cong [OF s2(1,2)]
    by (intro physmem_ok_set_frame [OF _ f2]) simp_all
  have b3: "phys_byte s3 = phys_byte s"
    by (rule phys_byte_data_cong) (auto simp: fa3 f s3)
  define s4 where "s4 = s3\<lparr>mem_bytes := (mem_bytes s3)(b := store_le n (mem_bytes s3 b) (off + unat addr mod 4096) v)\<rparr>"
  have "phys_byte s4 = abs_store n (phys_byte s3) (ucast addr) v"
    unfolding s4_def
    by (rule phys_byte_store [OF ok3 n, of "f\<lparr>valid := False\<rparr>"]) (use fa3 d in auto)
  moreover have "write_core n dev addr v prot s = Some (True, s4)"
    using aligned_bound [OF n d(2)] d(1) frame_at_find_frame [OF f] a w sc
    by (auto simp: write_core_def frame_store_def Let_def frame_offset s2_def [symmetric]
        s3_def [symmetric] s4_def s3)
  moreover have s4: "ftl0 s4 = ftl0 s3" "mem_size s4 = mem_size s3" "cpu_mem s4 = m" "sc_list s4 = l"
    by (simp_all add: s4_def s3)
  moreover have "physmem_ok s4" using ok3 physmem_ok_cong [OF s4(1,2)] by simp
  ultimately show ?thesis using fa3 frame_at_cong [OF s4(1)] by (simp add: s1 b3)
qed

subsection \<open>Loads after stores on the abstract memory\<close>

lemma unat_add_of_nat_diff: "i < 2 ^ 36 \<Longrightarrow> unat (a + of_nat i - a :: 36 word) = i"
  by (simp add: unat_of_nat)

lemma abs_load_store_same:
  assumes "LENGTH('a) \<le> 8 * n" "n < 2 ^ 36"
  shows "abs_load n (abs_store n pm a v) a = (v :: 'a::len word)"
proof -
  have "abs_load n (abs_store n pm a v) a = (load_le n (store_le n (\<lambda>_. 0) 0 v) 0 :: 'a word)"
    unfolding abs_load_def
  proof (rule load_le_cong)
    fix i assume i: "i < n"
    then show "the (abs_store n pm a v (a + of_nat (0 + i))) = store_le n (\<lambda>_. 0) 0 v (0 + i)"
      unfolding store_le_at [OF i] using assms(2) unat_add_of_nat_diff [of i a]
      by (simp add: abs_store_def)
  qed
  then show ?thesis using load_store_le [OF assms(1)] by simp
qed

lemma abs_load_store_other:
  assumes "\<And>i. i < m \<Longrightarrow> n \<le> unat (c + of_nat i - a)"
  shows "abs_load m (abs_store n pm a v) c = (abs_load m pm c :: 'b::len word)"
  unfolding abs_load_def
proof (rule load_le_cong)
  fix i assume "i < m"
  from assms [OF this] show "the (abs_store n pm a v (c + of_nat (0 + i))) = the (pm (c + of_nat (0 + i)))"
    by (simp add: abs_store_def)
qed

lemma abs_store_dom: "pm a \<noteq> None \<Longrightarrow> abs_store n pm b v a \<noteq> None"
  by (simp add: abs_store_def)

subsection \<open>The memory interface\<close>

text \<open>
  What a client of one access width relies on: the abstract memory \<open>pm\<close>, an invariant, the
  addresses that may be written, and the behaviour of an aligned read and write of mapped
  memory.
\<close>

locale word_memory =
  fixes n :: nat
    and rd :: "ptr36 \<Rightarrow> 's \<Rightarrow> ('a::len word \<times> 's) option"
    and wr :: "ptr36 \<Rightarrow> 'a word \<Rightarrow> 's \<Rightarrow> (bool \<times> 's) option"
    and pm :: "'s \<Rightarrow> 36 word \<Rightarrow> u8 option"
    and inv :: "'s \<Rightarrow> bool"
    and wable :: "'s \<Rightarrow> ptr36 \<Rightarrow> bool"
  assumes width: "LENGTH('a) = 8 * n" "n < 2 ^ 36"
    and rd_ok: "inv s \<Longrightarrow> n dvd unat addr \<Longrightarrow> pm s (ucast addr) \<noteq> None \<Longrightarrow>
      \<exists>s'. rd addr s = Some (abs_load n (pm s) (ucast addr), s') \<and> pm s' = pm s \<and> inv s' \<and> wable s' = wable s"
    and wr_ok: "inv s \<Longrightarrow> n dvd unat addr \<Longrightarrow> pm s (ucast addr) \<noteq> None \<Longrightarrow> wable s addr \<Longrightarrow>
      \<exists>s'. wr addr v s = Some (True, s') \<and> pm s' = abs_store n (pm s) (ucast addr) v \<and> inv s' \<and> wable s' = wable s"
begin

lemma read_after_write:
  assumes "inv s" "n dvd unat addr" "pm s (ucast addr) \<noteq> None" "wable s addr"
  shows "\<exists>s1 s2. wr addr v s = Some (True, s1) \<and> rd addr s1 = Some (v, s2)"
proof -
  obtain s1 where s1: "wr addr v s = Some (True, s1)" "pm s1 = abs_store n (pm s) (ucast addr) v" "inv s1"
    using wr_ok [OF assms] by blast
  obtain s2 where "rd addr s1 = Some (abs_load n (pm s1) (ucast addr), s2)"
    using rd_ok [OF s1(3) assms(2)] assms(3) by (auto simp: s1(2) abs_store_dom)
  then show ?thesis using s1 width by (simp add: abs_load_store_same)
qed

lemma read_after_disjoint_write:
  assumes "inv s" "n dvd unat addr" "pm s (ucast addr) \<noteq> None" "wable s addr"
    and "n dvd unat addr'" "pm s (ucast addr') \<noteq> None"
    and "\<And>i. i < n \<Longrightarrow> n \<le> unat (ucast addr' + of_nat i - ucast addr :: 36 word)"
  shows "\<exists>s1 s2 s3 v'. wr addr v s = Some (True, s1) \<and> rd addr' s1 = Some (v', s2) \<and> rd addr' s = Some (v', s3)"
proof -
  obtain s1 where s1: "wr addr v s = Some (True, s1)" "pm s1 = abs_store n (pm s) (ucast addr) v" "inv s1"
    using wr_ok [OF assms(1-4)] by blast
  obtain s2 where "rd addr' s1 = Some (abs_load n (pm s1) (ucast addr'), s2)"
    using rd_ok [OF s1(3) assms(5)] assms(6) by (auto simp: s1(2) abs_store_dom)
  moreover obtain s3 where "rd addr' s = Some (abs_load n (pm s) (ucast addr'), s3)"
    using rd_ok [OF assms(1,5,6)] by blast
  ultimately show ?thesis using s1 abs_load_store_other [OF assms(7)] by auto
qed

end

definition cpus_ok :: "('c, 'z) cpus_scheme \<Rightarrow> bool" where
  "cpus_ok s \<longleftrightarrow> cpu_list s \<noteq> [] \<and>
     (\<forall>g \<in> set (cpu_list s). \<forall>c a n. op_sc_access (cpu_type (gcpus s g)) c a n \<noteq> None)"

definition writable_at :: "('c, 'd, 'z) machine_scheme \<Rightarrow> ptr36 \<Rightarrow> bool" where
  "writable_at s addr \<longleftrightarrow>
     (\<exists>f \<in> set_option (frame_at (page_of addr) s). \<exists>a \<in> set_option (frame_area f). writable (areas s a))"

lemma writable_at_cong: "ftl0 s' = ftl0 s \<Longrightarrow> areas s' = areas s \<Longrightarrow> writable_at s' = writable_at s"
  by (rule ext) (simp add: writable_at_def frame_at_def)

lemma cpu_or_fallback_total:
  assumes "cpu_list s \<noteq> []" "c \<noteq> None \<Longrightarrow> the c \<in> set (cpu_list s)"
  shows "\<exists>g \<in> set (cpu_list s). cpu_or_fallback c s = Some g"
proof (cases c)
  case None
  then obtain g where "get_fallback_cpu s = Some g" using assms get_fallback_cpu_None_iff [of s] by auto
  then show ?thesis using None get_fallback_cpu_mem [of s g] by (simp add: cpu_or_fallback_def)
qed (use assms in \<open>auto simp: cpu_or_fallback_def\<close>)

lemma cpu_or_fallback_get:
  assumes "cpu_list s \<noteq> []"
  shows "\<exists>g \<in> set (cpu_list s). cpu_or_fallback (get_cpu no s) s = Some g"
  using assms get_cpu_mem [of no s] by (intro cpu_or_fallback_total) auto

lemma cpu_sc_access_total:
  assumes "cpus_ok s"
  shows "\<exists>b s'. cpu_sc_access (get_cpu no s) a n s = Some (b, s') \<and> cpus_ok s'"
proof -
  obtain g where g: "cpu_or_fallback (get_cpu no s) s = Some g" "g \<in> set (cpu_list s)"
    using assms cpu_or_fallback_get [of s no] by (auto simp: cpus_ok_def)
  obtain r where "op_sc_access (cpu_type (gcpus s g)) (cpu_mem s (cpu_data (gcpus s g))) a n = Some r"
    using assms g(2) unfolding cpus_ok_def by blast
  then show ?thesis using g assms
    by (cases r) (simp add: cpu_sc_access_def cpus_ok_def)
qed

lemma sc_control_loop_total:
  "cpus_ok s \<Longrightarrow> \<exists>kept s'. sc_control_loop a n ps s = Some (kept, s')"
proof (induction ps arbitrary: s)
  case (Cons p ps)
  obtain b s1 where s1: "cpu_sc_access (get_cpu p s) a n s = Some (b, s1)" "cpus_ok s1"
    using cpu_sc_access_total [OF Cons.prems] by blast
  with Cons.IH [of s1] show ?case by auto
qed simp

lemma sc_control_total: "cpus_ok s \<Longrightarrow> \<exists>s'. sc_control a n s = Some s'"
  using sc_control_loop_total [of s a n "sc_list s"] by (auto simp: sc_control_def)

definition mem_inv :: "('c, 'd, 'z) machine_scheme \<Rightarrow> bool" where
  "mem_inv s \<longleftrightarrow> physmem_ok s \<and> cpus_ok s"

lemma phys_byte_frame:
  "phys_byte s (ucast addr) \<noteq> None \<Longrightarrow> \<exists>f. frame_at (page_of addr) s = Some f"
  by (auto simp: phys_byte_def page_of_def bind_Some_iff)

lemma physmem_breakpoint_find_cpus_ok [simp]:
  "cpus_ok (physmem_breakpoint_find addr n acc s) = cpus_ok s"
  by (simp add: cpus_ok_def)

lemma read_core_interface:
  fixes dev :: "('c, 'd, 'z) machine_scheme \<Rightarrow> ('a::len word \<times> ('c, 'd, 'z) machine_scheme) option"
  assumes inv: "mem_inv s" and n: "n dvd 4096" "n dvd unat addr" "0 < n"
    and m: "phys_byte s (ucast addr) \<noteq> None"
  shows "\<exists>s'. read_core n dev addr prot s = Some (abs_load n (phys_byte s) (ucast addr), s') \<and>
           phys_byte s' = phys_byte s \<and> mem_inv s' \<and> writable_at s' = writable_at s"
proof -
  obtain f where f: "frame_at (page_of addr) s = Some f" using phys_byte_frame [OF m] by blast
  obtain s' where s': "read_core n dev addr prot s = Some (abs_load n (phys_byte s) (ucast addr), s')"
    "phys_byte s' = phys_byte s" "physmem_ok s'"
    using read_core_refines [OF _ n f] inv unfolding mem_inv_def by blast
  then have eq: "s' = (if prot then physmem_breakpoint_find addr n ACCESS_READ s else s)"
    using frame_at_find_frame [OF f] by (auto simp: read_core_def bind_Some_iff Let_def)
  then have "writable_at s' = writable_at s" "cpus_ok s' = cpus_ok s"
    by (auto intro: writable_at_cong)
  then show ?thesis using s' inv by (auto simp: mem_inv_def)
qed

lemma write_core_interface:
  fixes v :: "'a::len word"
  assumes inv: "mem_inv s" and n: "n dvd 4096" "n dvd unat addr" "0 < n"
    and m: "phys_byte s (ucast addr) \<noteq> None" and w: "writable_at s addr"
  shows "\<exists>s'. write_core n dev addr v prot s = Some (True, s') \<and>
           phys_byte s' = abs_store n (phys_byte s) (ucast addr) v \<and> mem_inv s' \<and> writable_at s' = writable_at s"
proof -
  obtain f a where f: "frame_at (page_of addr) s = Some f" "frame_area f = Some a" "writable (areas s a)"
    using w by (auto simp: writable_at_def)
  obtain s1 where s1: "sc_control addr n s = Some s1"
    using sc_control_total [of s] inv unfolding mem_inv_def by blast
  obtain m l where s1': "s1 = s\<lparr>cpu_mem := m, sc_list := l\<rparr>" using sc_control_frame [OF s1] by blast
  obtain s' where s': "write_core n dev addr v prot s = Some (True, s')"
    "phys_byte s' = abs_store n (phys_byte s) (ucast addr) v" "physmem_ok s'"
    "\<And>p. frame_at p s' = (if p = page_of addr then Some (f\<lparr>valid := False\<rparr>) else frame_at p s)"
    using write_core_refines [OF _ n f(1,2) _ s1] f(3) inv unfolding mem_inv_def by blast
  define s2 where "s2 = (if prot then physmem_breakpoint_find addr n ACCESS_WRITE s1 else s1)"
  obtain mb where "s' = (set_frame addr (Some (f\<lparr>valid := False\<rparr>)) s2)\<lparr>mem_bytes := mb\<rparr>"
    using s'(1) frame_at_find_frame [OF f(1)] f s1
    by (auto simp: write_core_def frame_store_def bind_Some_iff Let_def s2_def)
  then have "areas s' = areas s" "cpu_list s' = cpu_list s" "gcpus s' = gcpus s"
    by (auto simp: set_frame_def Let_def s2_def s1')
  then have "writable_at s' = writable_at s" "cpus_ok s' = cpus_ok s"
    using f by (auto simp: fun_eq_iff writable_at_def s'(4) cpus_ok_def)
  then show ?thesis using s' inv by (auto simp: mem_inv_def)
qed

lemma dvd_4096: "(1::nat) dvd 4096" "(2::nat) dvd 4096" "(4::nat) dvd 4096" "(8::nat) dvd 4096"
  by simp_all

interpretation mem8: word_memory 1 "\<lambda>a. physmem_read8 procno a prot" "\<lambda>a v. physmem_write8 procno a v prot"
  phys_byte mem_inv writable_at
  for procno prot
  unfolding physmem_read_core physmem_write_core
  by unfold_locales
    (simp, simp, (rule read_core_interface; (assumption | simp)), (rule write_core_interface; (assumption | simp)))

interpretation mem16: word_memory 2 "\<lambda>a. physmem_read16 procno a prot" "\<lambda>a v. physmem_write16 procno a v prot"
  phys_byte mem_inv writable_at
  for procno prot
  unfolding physmem_read_core physmem_write_core
  by unfold_locales
    (simp, simp, (rule read_core_interface; (assumption | simp)), (rule write_core_interface; (assumption | simp)))

interpretation mem32: word_memory 4 "\<lambda>a. physmem_read32 procno a prot" "\<lambda>a v. physmem_write32 procno a v prot"
  phys_byte mem_inv writable_at
  for procno prot
  unfolding physmem_read_core physmem_write_core
  by unfold_locales
    (simp, simp, (rule read_core_interface; (assumption | simp)), (rule write_core_interface; (assumption | simp)))

interpretation mem64: word_memory 8 "\<lambda>a. physmem_read64 procno a prot" "\<lambda>a v. physmem_write64 procno a v prot"
  phys_byte mem_inv writable_at
  for procno prot
  unfolding physmem_read_core physmem_write_core
  by unfold_locales
    (simp, simp, (rule read_core_interface; (assumption | simp)), (rule write_core_interface; (assumption | simp)))

subsection \<open>Wiring and unwiring areas\<close>

lemma page_of_FRAME2ADDR: "unat x < 2 ^ 24 \<Longrightarrow> page_of (FRAME2ADDR x) = unat x"
proof -
  assume x: "unat x < 2 ^ 24"
  have "unat (push_bit 12 (ucast x :: ptr36)) = unat x * 4096"
    using x by (simp add: push_bit_eq_mult unat_word_ariths unsigned_ucast_eq take_bit_eq_mod)
  then show ?thesis using x by (simp add: page_of_div FRAME2ADDR_def)
qed

lemma FRAMES2SIZE_mult: "FRAMES2SIZE x = 4096 * unat x"
proof -
  have "unat x < 2 ^ 32" using unsigned_less [of x] by simp
  then show ?thesis
    by (simp add: FRAMES2SIZE_def push_bit_eq_mult unat_word_ariths unsigned_ucast_eq take_bit_eq_mod)
qed

definition wired_frame :: "nat \<Rightarrow> nat \<Rightarrow> ('c, 'd, 'z) machine_scheme \<Rightarrow> frame" where
  "wired_frame area k s =
     \<lparr>frame_area = Some area,
      frame_data = map_option (\<lambda>(b, off). (b, off + 4096 * k)) (area_data (areas s area)), valid = False\<rparr>"

lemma wire_loop_frames:
  assumes "wire_loop n area (of_nat k) s = Some s'"
    and "unat (area_start (areas s area)) + k + n \<le> 2 ^ 24"
  shows "frame_at p s' =
      (if p \<in> {unat (area_start (areas s area)) + k ..< unat (area_start (areas s area)) + k + n}
       then Some (wired_frame area (p - unat (area_start (areas s area))) s) else frame_at p s) \<and>
    areas s' = areas s \<and> mem_bytes s' = mem_bytes s \<and> mem_size s' = mem_size s"
  using assms
proof (induction n arbitrary: k s)
  case (Suc n)
  let ?st = "unat (area_start (areas s area))"
  have k: "unat (of_nat k :: u32) = k" using Suc.prems(2) by (simp add: unat_of_nat)
  have pg: "unat (area_start (areas s area) + of_nat k) = ?st + k"
    using Suc.prems(2) by (simp add: unat_word_ariths k)
  obtain s1 where s1: "wire_frame area (of_nat k) s = Some s1"
    "wire_loop n area (of_nat (Suc k)) s1 = Some s'"
    using Suc.prems(1) by (auto simp: bind_Some_iff add.commute)
  let ?addr = "FRAME2ADDR (area_start (areas s area) + of_nat k)"
  have eq: "s1 = set_frame ?addr (Some (wired_frame area k s)) s"
    and nf: "ftl0 s (ftl1_index ?addr) \<noteq> FTL1_FREED"
    using s1(1) by (auto simp: wire_frame_def Let_def bind_Some_iff wired_frame_def FRAMES2SIZE_mult k)
  have fa: "frame_at p s1 = (if p = ?st + k then Some (wired_frame area k s) else frame_at p s)"
    using frame_at_set_frame_nofree [OF nf] page_of_FRAME2ADDR [of "area_start (areas s area) + of_nat k"]
      pg Suc.prems(2) by (simp add: eq)
  have a: "areas s1 = areas s" "mem_bytes s1 = mem_bytes s" "mem_size s1 = mem_size s"
    by (simp_all add: eq set_frame_def Let_def)
  have w: "wired_frame area j s1 = wired_frame area j s" for j by (simp add: wired_frame_def a)
  show ?case using Suc.IH [OF s1(2)] Suc.prems(2) fa a w by auto
qed auto

lemma physmem_wire_frames:
  assumes "physmem_wire area s = Some s'"
    and "unat (area_start (areas s area)) + unat (area_count (areas s area)) \<le> 2 ^ 24"
  shows "frame_at p s' =
      (if p \<in> {unat (area_start (areas s area)) ..< unat (area_start (areas s area)) + unat (area_count (areas s area))}
       then Some (wired_frame area (p - unat (area_start (areas s area))) s) else frame_at p s)"
  using wire_loop_frames [of "unat (area_count (areas s area))" area 0 s s' p] assms
  by (simp add: physmem_wire_def)

text \<open>
  Unwiring the only frame of a second-level table frees the table but keeps the pointer to it:
  the next lookup in the 16 MiB region of the area reads freed memory.
\<close>

lemma unwire_frame_dangling:
  assumes "ftl0 s (ftl1_index (FRAME2ADDR (area_start (areas s area)))) = FTL1 t"
    and "\<forall>i < 4096. t i \<noteq> None \<longleftrightarrow> i = ftl2_index (FRAME2ADDR (area_start (areas s area)))"
    and "area_type (areas s area) \<noteq> MEMT_NONE" "area_count (areas s area) = 1"
    and "area_data (areas s area) \<noteq> None"
    and "ftl1_index addr = ftl1_index (FRAME2ADDR (area_start (areas s area)))"
  shows "\<exists>s'. physmem_unwire area s = Some s' \<and> physmem_find_frame addr s' = None"
proof -
  let ?i = "ftl2_index (FRAME2ADDR (area_start (areas s area)))"
  have "?i < 4096" by (simp add: ftl2_index_page)
  then have "t ?i \<noteq> None" using assms(2) by blast
  moreover have "ftl1_empty (t(?i := None))" using assms(2) by (auto simp: ftl1_empty_def list_all_iff)
  ultimately show ?thesis using assms
    by (simp add: physmem_unwire_def unwire_frame_def Let_def physmem_find_frame_def)
qed

end
