(* ===== verification/Core_Properties.thy ===== *)
theory Core_Properties
  imports Linked_List Physmem_Facts
begin

text \<open>
  The properties of the parts that every simulated machine shares: the bit field macros, the
  linked list, the processor registry and the physical memory, each with its witness.
\<close>

subsection \<open>Bit fields\<close>

text \<open>
  A bit field written with \<open>WRITE_BITS\<close> reads back, with \<open>EXTRACT_BITS\<close>, as the written value
  cut to the width of the field, and every field disjoint from it reads as before.
\<close>

theorem bit_field_round_trip:
  assumes "s \<le> e" "e \<le> 64" "s' \<le> e'" "e' \<le> s \<or> e \<le> s'"
  shows "EXTRACT_BITS (WRITE_BITS t v s e) s e = take_bit (e - s) v \<and>
    EXTRACT_BITS (WRITE_BITS t v s e) s' e' = EXTRACT_BITS t s' e'"
  using EXTRACT_WRITE_same EXTRACT_WRITE_disjoint assms by blast

theorem bit_field_round_trip_witness:
  "EXTRACT_BITS (WRITE_BITS 0xFFFF 0x3A5 4 12) 4 12 = 0xA5 \<and> EXTRACT_BITS (WRITE_BITS 0xFFFF 0x3A5 4 12) 12 16 = 0xF"
proof -
  have "take_bit (12 - 4) (0x3A5 :: u64) = 0xA5" "EXTRACT_BITS 0xFFFF 12 16 = 0xF" by code_simp+
  then show ?thesis
    using bit_field_round_trip [where s = 4 and e = 12 and s' = 12 and e' = 16 and t = "0xFFFF" and v = "0x3A5"]
    by simp
qed

subsection \<open>The linked list\<close>

text \<open>
  C34: on a well-formed list and an unlinked item, \<open>list_append\<close> and \<open>list_push\<close> pass their
  assertions and produce the list with the item at the end and at the front; \<open>for_each\<close> then
  visits exactly the elements in order, and \<open>list_remove\<close> gives back the original list with the
  item unlinked.
\<close>

theorem list_operations_refine:
  assumes "dl_repr h l xs" "item_list (items h i) = None"
  shows "\<exists>h1 h2 h3 h4. list_append l i h = Some h1 \<and> for_each (Suc (length xs)) l h1 = Some (xs @ [i]) \<and>
     list_push l i h = Some h2 \<and> for_each (Suc (length xs)) l h2 = Some (i # xs) \<and>
     list_remove l i h1 = Some h3 \<and> dl_repr h3 l xs \<and> item_list (items h3 i) = None \<and>
     list_remove l i h2 = Some h4 \<and> dl_repr h4 l xs \<and> item_list (items h4 i) = None"
proof -
  have i: "i \<notin> set xs" by (rule dl_repr_free [OF assms])
  obtain h1 where h1: "list_append l i h = Some h1" "dl_repr h1 l (xs @ [i])"
    using list_append_refines [OF assms] by blast
  obtain h2 where h2: "list_push l i h = Some h2" "dl_repr h2 l (i # xs)"
    using list_push_refines [OF assms] by blast
  show ?thesis
    using h1 h2 i for_each_repr [OF h1(2), of "Suc (length xs)"] for_each_repr [OF h2(2), of "Suc (length xs)"]
      list_remove_refines [OF h1(2), of i] list_remove_refines [OF h2(2), of i]
    by (auto simp: remove1_append)
qed

definition empty_heap :: lheap where
  "empty_heap = \<lparr>items = (\<lambda>_. \<lparr>item_list = None, item_prev = None, item_next = None\<rparr>),
     dlists = (\<lambda>_. \<lparr>head = None, tail = None\<rparr>)\<rparr>"

theorem list_operations_refine_witness:
  "\<exists>h1 h2 h3 h4. list_append 0 7 empty_heap = Some h1 \<and> for_each 1 0 h1 = Some [7] \<and>
     list_push 0 7 empty_heap = Some h2 \<and> for_each 1 0 h2 = Some [7] \<and>
     list_remove 0 7 h1 = Some h3 \<and> dl_repr h3 0 [] \<and> item_list (items h3 7) = None \<and>
     list_remove 0 7 h2 = Some h4 \<and> dl_repr h4 0 [] \<and> item_list (items h4 7) = None"
proof -
  have "dl_repr empty_heap 0 []" "item_list (items empty_heap 7) = None"
    by (simp_all add: dl_repr_def empty_heap_def)
  from list_operations_refine [OF this] show ?thesis by simp
qed

text \<open>
  Moving an item between two different lists (the removal from one and the insertion at the
  front of the other, as the TLB does between its LRU and free lists) passes every assertion and
  changes exactly these two lists.
\<close>

theorem list_transfer:
  assumes "dl_repr h l xs" "dl_repr h m ys" "l \<noteq> m" "i \<in> set xs" "l' \<noteq> l" "l' \<noteq> m" "dl_repr h l' zs"
  shows "\<exists>h'. (do { h1 \<leftarrow> list_remove l i h; list_push m i h1 }) = Some h' \<and>
     dl_repr h' l (remove1 i xs) \<and> dl_repr h' m (i # ys) \<and> dl_repr h' l' zs"
  using dl.transfer [OF assms(1-4)] assms(5-7) by blast

definition one_item_heap :: lheap where
  "one_item_heap = empty_heap\<lparr>items := (items empty_heap)(7 := \<lparr>item_list = Some 0, item_prev = None, item_next = None\<rparr>),
     dlists := (dlists empty_heap)(0 := \<lparr>head = Some 7, tail = Some 7\<rparr>)\<rparr>"

theorem list_transfer_witness:
  "\<exists>h'. (do { h1 \<leftarrow> list_remove 0 7 one_item_heap; list_push 1 7 h1 }) = Some h' \<and>
     dl_repr h' 0 [] \<and> dl_repr h' 1 [7] \<and> dl_repr h' 2 []"
proof -
  have "dl_repr one_item_heap 0 [7]" "dl_repr one_item_heap 1 []" "dl_repr one_item_heap 2 []"
    by (auto simp: dl_repr_def one_item_heap_def empty_heap_def)
  from list_transfer [OF this(1,2) _ _ _ _ this(3), of 7] show ?thesis by simp
qed

subsection \<open>The processor registry\<close>

text \<open>
  When every registered processor has an identifier below \<open>MAX_CPUS\<close>, \<open>get_free_cpuno\<close> returns
  the least identifier that no registered processor has, and \<open>MAX_CPUS\<close> only when all are taken.
\<close>

theorem free_cpuno_least:
  assumes "\<forall>c\<in>set (cpu_list s). cpuno (gcpus s c) < MAX_CPUS"
  shows "\<exists>k. get_free_cpuno s = Some k \<and> k \<le> MAX_CPUS \<and>
     (k < MAX_CPUS \<longrightarrow> k \<notin> (\<lambda>c. cpuno (gcpus s c)) ` set (cpu_list s)) \<and>
     (\<forall>j < k. j \<in> (\<lambda>c. cpuno (gcpus s c)) ` set (cpu_list s))"
proof -
  let ?P = "\<lambda>k. k = MAX_CPUS \<or> k \<notin> (\<lambda>c. cpuno (gcpus s c)) ` set (cpu_list s)"
  define k where "k = (LEAST k. ?P k)"
  have "?P k" "k \<le> MAX_CPUS" unfolding k_def using LeastI [of ?P MAX_CPUS] Least_le [of ?P MAX_CPUS] by simp_all
  moreover have "j \<in> (\<lambda>c. cpuno (gcpus s c)) ` set (cpu_list s)" if "j < k" for j
    using not_less_Least [OF that [unfolded k_def]] by blast
  moreover have "get_free_cpuno s = Some k" unfolding k_def by (rule get_free_cpuno_spec [OF assms])
  ultimately show ?thesis by auto
qed

definition two_cpus :: "unit cpus" where
  "two_cpus = \<lparr>cpu_list = [0, 1],
     gcpus = (\<lambda>g. \<lparr>cpuno = 2 * g, cpu_type = \<lparr>op_interrupt_up = \<lambda>_ _. None, op_interrupt_down = \<lambda>_ _. None,
       op_set_pc = \<lambda>_ _. None, op_sc_access = \<lambda>_ _ _. None\<rparr>, cpu_data = g\<rparr>), cpu_mem = (\<lambda>_. ())\<rparr>"

theorem free_cpuno_least_witness:
  "\<exists>k. get_free_cpuno two_cpus = Some k \<and> k \<le> MAX_CPUS \<and> (k < MAX_CPUS \<longrightarrow> k \<noteq> 0 \<and> k \<noteq> 2) \<and> (\<forall>j < k. j = 0 \<or> j = 2)"
proof -
  have "\<forall>c\<in>set (cpu_list two_cpus). cpuno (gcpus two_cpus c) < MAX_CPUS" by (simp add: two_cpus_def)
  from free_cpuno_least [OF this] show ?thesis by (auto simp: two_cpus_def)
qed

subsection \<open>Physical memory\<close>

text \<open>
  A machine with a writable page at address 0, a read-only page at 4096 and one processor, for the
  witnesses.
\<close>

definition demo_ops :: "unit cpu_ops" where
  "demo_ops = \<lparr>op_interrupt_up = \<lambda>c _. Some c, op_interrupt_down = \<lambda>c _. Some c, op_set_pc = \<lambda>c _. Some c,
     op_sc_access = \<lambda>c _ _. Some (False, c)\<rparr>"

definition demo_frame :: "nat \<Rightarrow> frame" where
  "demo_frame a = \<lparr>frame_area = Some a, frame_data = Some (a, 0), valid = False\<rparr>"

definition demo_machine :: "(unit, unit) machine" where
  "demo_machine =
     \<lparr>cpu_list = [0], gcpus = (\<lambda>_. \<lparr>cpuno = 0, cpu_type = demo_ops, cpu_data = 0\<rparr>), cpu_mem = (\<lambda>_. ()),
      devices = [],
      ftl0 = (\<lambda>i. if i = 0 then FTL1 (\<lambda>j. if j < 2 then Some (demo_frame j) else None) else FTL1_NULL),
      areas = (\<lambda>a. \<lparr>area_type = MEMT_MEM, writable = (a = 0), area_start = of_nat a, area_count = 1, area_data = Some (a, 0)\<rparr>),
      mem_size = (\<lambda>_. 4096), mem_bytes = (\<lambda>_ _. 0), sc_list = [], physmem_breakpoints = [],
      machine_trace = False, machine_halt = False, machine_interactive = False, machine_undefined = False,
      machine_specific_instructions = False, machine_allow_interactive_without_tty = False, input_terminal = False,
      remote_gdb_listen = False\<rparr>"

lemma demo_frame_at: "frame_at p demo_machine = (if p < 2 then Some (demo_frame p) else None)"
  by (auto simp: frame_at_def demo_machine_def div_eq_0_iff)

lemma demo_parts:
  "areas demo_machine a = \<lparr>area_type = MEMT_MEM, writable = (a = 0), area_start = of_nat a, area_count = 1, area_data = Some (a, 0)\<rparr>"
  "mem_size demo_machine b = 4096" "mem_bytes demo_machine b i = 0" "ftl0 demo_machine i \<noteq> FTL1_FREED"
  "cpu_list demo_machine = [0]" "cpu_type (gcpus demo_machine g) = demo_ops"
  by (simp_all add: demo_machine_def)

lemma demo_ok: "mem_inv demo_machine"
  by (auto simp: mem_inv_def physmem_ok_def cpus_ok_def demo_frame_at demo_frame_def demo_parts demo_ops_def)

lemma demo_byte: "phys_byte demo_machine a = (if unat a < 8192 then Some 0 else None)"
  by (auto simp: phys_byte_def demo_frame_at demo_frame_def demo_parts)

lemma demo_writable: "writable_at demo_machine addr \<longleftrightarrow> page_of addr = 0"
  by (auto simp: writable_at_def demo_frame_at demo_frame_def demo_parts)

text \<open>
  C3: an aligned write of 8, 16, 32 or 64 bits to mapped writable memory succeeds and refines the
  store of that many little-endian bytes in the byte map of the physical memory: exactly these
  bytes change, and the invariant of the frame table is kept.
\<close>

theorem physmem_write_refines:
  assumes "mem_inv s" "phys_byte s (ucast addr) \<noteq> None" "writable_at s addr"
  shows "(\<exists>s'. physmem_write8 procno addr v8 prot s = Some (True, s') \<and> mem_inv s' \<and>
           phys_byte s' = abs_store 1 (phys_byte s) (ucast addr) v8) \<and>
     (2 dvd unat addr \<longrightarrow> (\<exists>s'. physmem_write16 procno addr v16 prot s = Some (True, s') \<and> mem_inv s' \<and>
           phys_byte s' = abs_store 2 (phys_byte s) (ucast addr) v16)) \<and>
     (4 dvd unat addr \<longrightarrow> (\<exists>s'. physmem_write32 procno addr v32 prot s = Some (True, s') \<and> mem_inv s' \<and>
           phys_byte s' = abs_store 4 (phys_byte s) (ucast addr) v32)) \<and>
     (8 dvd unat addr \<longrightarrow> (\<exists>s'. physmem_write64 procno addr v64 prot s = Some (True, s') \<and> mem_inv s' \<and>
           phys_byte s' = abs_store 8 (phys_byte s) (ucast addr) v64))"
proof (intro conjI impI)
  show "\<exists>s'. physmem_write8 procno addr v8 prot s = Some (True, s') \<and> mem_inv s' \<and>
      phys_byte s' = abs_store 1 (phys_byte s) (ucast addr) v8"
    using mem8.wr_ok [OF assms(1) one_dvd assms(2,3)] by blast
  show "\<exists>s'. physmem_write16 procno addr v16 prot s = Some (True, s') \<and> mem_inv s' \<and>
      phys_byte s' = abs_store 2 (phys_byte s) (ucast addr) v16" if "2 dvd unat addr"
    using mem16.wr_ok [OF assms(1) that assms(2,3)] by blast
  show "\<exists>s'. physmem_write32 procno addr v32 prot s = Some (True, s') \<and> mem_inv s' \<and>
      phys_byte s' = abs_store 4 (phys_byte s) (ucast addr) v32" if "4 dvd unat addr"
    using mem32.wr_ok [OF assms(1) that assms(2,3)] by blast
  show "\<exists>s'. physmem_write64 procno addr v64 prot s = Some (True, s') \<and> mem_inv s' \<and>
      phys_byte s' = abs_store 8 (phys_byte s) (ucast addr) v64" if "8 dvd unat addr"
    using mem64.wr_ok [OF assms(1) that assms(2,3)] by blast
qed

theorem physmem_write_refines_witness:
  "\<exists>s'. physmem_write32 0 8 0xCAFE0123 True demo_machine = Some (True, s') \<and> mem_inv s' \<and>
     phys_byte s' = abs_store 4 (phys_byte demo_machine) 8 (0xCAFE0123 :: u32)"
proof -
  have "phys_byte demo_machine (ucast (8 :: ptr36)) \<noteq> None" "writable_at demo_machine 8"
    by (simp_all add: demo_byte demo_writable page_of_div)
  from physmem_write_refines [OF demo_ok this, of 0 0 True 0 "0xCAFE0123" 0] show ?thesis by simp
qed

text \<open>
  C32: an aligned read of 8, 16, 32 or 64 bits of mapped memory returns the little-endian value of
  the bytes of the byte map, and leaves the byte map and the invariant alone.
\<close>

theorem physmem_read_refines:
  assumes "mem_inv s" "phys_byte s (ucast addr) \<noteq> None"
  shows "(\<exists>s'. physmem_read8 procno addr prot s = Some (abs_load 1 (phys_byte s) (ucast addr), s') \<and>
           phys_byte s' = phys_byte s \<and> mem_inv s') \<and>
     (2 dvd unat addr \<longrightarrow> (\<exists>s'. physmem_read16 procno addr prot s = Some (abs_load 2 (phys_byte s) (ucast addr), s') \<and>
           phys_byte s' = phys_byte s \<and> mem_inv s')) \<and>
     (4 dvd unat addr \<longrightarrow> (\<exists>s'. physmem_read32 procno addr prot s = Some (abs_load 4 (phys_byte s) (ucast addr), s') \<and>
           phys_byte s' = phys_byte s \<and> mem_inv s')) \<and>
     (8 dvd unat addr \<longrightarrow> (\<exists>s'. physmem_read64 procno addr prot s = Some (abs_load 8 (phys_byte s) (ucast addr), s') \<and>
           phys_byte s' = phys_byte s \<and> mem_inv s'))"
proof (intro conjI impI)
  show "\<exists>s'. physmem_read8 procno addr prot s = Some (abs_load 1 (phys_byte s) (ucast addr), s') \<and>
      phys_byte s' = phys_byte s \<and> mem_inv s'"
    using mem8.rd_ok [OF assms(1) one_dvd assms(2)] by blast
  show "\<exists>s'. physmem_read16 procno addr prot s = Some (abs_load 2 (phys_byte s) (ucast addr), s') \<and>
      phys_byte s' = phys_byte s \<and> mem_inv s'" if "2 dvd unat addr"
    using mem16.rd_ok [OF assms(1) that assms(2)] by blast
  show "\<exists>s'. physmem_read32 procno addr prot s = Some (abs_load 4 (phys_byte s) (ucast addr), s') \<and>
      phys_byte s' = phys_byte s \<and> mem_inv s'" if "4 dvd unat addr"
    using mem32.rd_ok [OF assms(1) that assms(2)] by blast
  show "\<exists>s'. physmem_read64 procno addr prot s = Some (abs_load 8 (phys_byte s) (ucast addr), s') \<and>
      phys_byte s' = phys_byte s \<and> mem_inv s'" if "8 dvd unat addr"
    using mem64.rd_ok [OF assms(1) that assms(2)] by blast
qed

theorem physmem_read_refines_witness:
  "\<exists>s'. physmem_read64 0 4096 True demo_machine = Some (abs_load 8 (phys_byte demo_machine) 4096, s') \<and>
     phys_byte s' = phys_byte demo_machine \<and> mem_inv s'"
proof -
  have "phys_byte demo_machine (ucast (4096 :: ptr36)) \<noteq> None" by (simp add: demo_byte)
  from physmem_read_refines [OF demo_ok this, of 0 True] show ?thesis by simp
qed

text \<open>
  What an aligned 32-bit or 64-bit write stores is what the next read of the same address
  returns, and reads of the words that do not overlap it return the same as before the write.
\<close>

theorem physmem_read_after_write:
  assumes "mem_inv s" "8 dvd unat addr" "phys_byte s (ucast addr) \<noteq> None" "writable_at s addr"
    and "8 dvd unat addr'" "phys_byte s (ucast addr') \<noteq> None"
    and "\<And>i. i < 8 \<Longrightarrow> 8 \<le> unat (ucast addr' + of_nat i - ucast addr :: 36 word)"
  shows "\<exists>s1 s2 s3 s4 w. physmem_write64 procno addr v prot s = Some (True, s1) \<and>
     physmem_read64 procno addr prot s1 = Some (v, s2) \<and>
     physmem_read64 procno addr' prot s1 = Some (w, s3) \<and> physmem_read64 procno addr' prot s = Some (w, s4)"
  using mem64.read_after_write [OF assms(1-4), of procno v prot]
    mem64.read_after_disjoint_write [OF assms, of procno v prot] by auto

theorem physmem_read_after_write_witness:
  "\<exists>s1 s2 s3 s4 w. physmem_write64 0 8 0x1122334455667788 True demo_machine = Some (True, s1) \<and>
     physmem_read64 0 8 True s1 = Some (0x1122334455667788, s2) \<and>
     physmem_read64 0 16 True s1 = Some (w, s3) \<and> physmem_read64 0 16 True demo_machine = Some (w, s4)"
proof -
  have d: "8 \<le> unat (16 + of_nat i - 8 :: 36 word)" if "i < 8" for i
  proof -
    have "unat (8 + of_nat i :: 36 word) = 8 + i" using that by (simp add: unat_word_ariths unat_of_nat)
    moreover have "(16 + of_nat i - 8 :: 36 word) = 8 + of_nat i" by simp
    ultimately show ?thesis by simp
  qed
  show ?thesis
    by (rule physmem_read_after_write [OF demo_ok])
      (use d in \<open>simp_all add: demo_byte demo_writable page_of_div\<close>)
qed

text \<open>
  A protected write to memory of a read-only area reports failure and changes nothing at all,
  whatever its width.
\<close>

theorem physmem_rom_protected:
  assumes "physmem_ok s" "frame_at (page_of addr) s = Some f" "frame_area f = Some a" "\<not> writable (areas s a)"
  shows "physmem_write8 procno addr v8 True s = Some (False, s) \<and> physmem_write16 procno addr v16 True s = Some (False, s) \<and>
    physmem_write32 procno addr v32 True s = Some (False, s) \<and> physmem_write64 procno addr v64 True s = Some (False, s)"
proof -
  obtain d where "frame_data f = Some d" using physmem_okD [OF assms(1,2)] by blast
  then show ?thesis using frame_at_find_frame [OF assms(2)] assms(3,4)
    by (simp add: physmem_write_core write_core_def)
qed

theorem physmem_rom_protected_witness:
  "physmem_write8 0 4096 1 True demo_machine = Some (False, demo_machine) \<and>
   physmem_write16 0 4096 1 True demo_machine = Some (False, demo_machine) \<and>
   physmem_write32 0 4096 1 True demo_machine = Some (False, demo_machine) \<and>
   physmem_write64 0 4096 1 True demo_machine = Some (False, demo_machine)"
  by (rule physmem_rom_protected [where f = "demo_frame 1" and a = 1])
    (use demo_ok in \<open>simp_all add: mem_inv_def demo_frame_at page_of_div demo_frame_def demo_parts\<close>)

text \<open>
  Wiring an area below \<open>2 ^ 24\<close> frames maps exactly the page numbers from its start to its
  end to consecutive pages of its data, and keeps every other frame.
\<close>

theorem physmem_wire_maps:
  assumes "physmem_wire area s = Some s'"
    and "unat (area_start (areas s area)) + unat (area_count (areas s area)) \<le> 2 ^ 24"
  shows "frame_at p s' =
    (if unat (area_start (areas s area)) \<le> p \<and> p < unat (area_start (areas s area)) + unat (area_count (areas s area))
     then Some \<lparr>frame_area = Some area,
       frame_data = map_option (\<lambda>(b, off). (b, off + 4096 * (p - unat (area_start (areas s area))))) (area_data (areas s area)),
       valid = False\<rparr>
     else frame_at p s)"
  using physmem_wire_frames [OF assms, of p] by (simp add: wired_frame_def)

theorem physmem_wire_maps_witness:
  "\<exists>s'. physmem_wire 5 demo_machine = Some s' \<and>
     frame_at 5 s' = Some \<lparr>frame_area = Some 5, frame_data = Some (5, 0), valid = False\<rparr> \<and>
     frame_at 1 s' = Some (demo_frame 1)"
proof -
  obtain s' where s': "physmem_wire 5 demo_machine = Some s'"
    by (simp add: physmem_wire_def demo_parts wire_frame_def Let_def)
  show ?thesis using s' physmem_wire_maps [OF s', of 5] physmem_wire_maps [OF s', of 1]
    by (simp add: demo_parts demo_frame_at)
qed

text \<open>
  C36: unwiring an area of one frame that is the last frame of its second-level table frees the
  table and keeps the pointer to it: the next lookup of an address in the same 16 MiB reads freed
  memory.
\<close>

theorem physmem_unwire_dangling:
  assumes "ftl0 s (ftl1_index (FRAME2ADDR (area_start (areas s area)))) = FTL1 t"
    and "\<forall>i < 4096. t i \<noteq> None \<longleftrightarrow> i = ftl2_index (FRAME2ADDR (area_start (areas s area)))"
    and "area_type (areas s area) \<noteq> MEMT_NONE" "area_count (areas s area) = 1"
    and "area_data (areas s area) \<noteq> None"
    and "ftl1_index addr = ftl1_index (FRAME2ADDR (area_start (areas s area)))"
  shows "\<exists>s'. physmem_unwire area s = Some s' \<and> physmem_find_frame addr s' = None"
  by (rule unwire_frame_dangling [OF assms])

definition demo_single :: "(unit, unit) machine" where
  "demo_single = demo_machine\<lparr>ftl0 := (\<lambda>i. if i = 0 then FTL1 (\<lambda>j. if j = 0 then Some (demo_frame 0) else None) else FTL1_NULL)\<rparr>"

theorem physmem_unwire_dangling_witness:
  "\<exists>s'. physmem_unwire 0 demo_single = Some s' \<and> physmem_find_frame 8192 s' = None"
proof -
  have "areas demo_single a = areas demo_machine a" for a by (simp add: demo_single_def)
  then show ?thesis
    by (intro physmem_unwire_dangling [where t = "\<lambda>j. if j = 0 then Some (demo_frame 0) else None"])
      (simp_all add: demo_parts demo_single_def ftl1_index_page ftl2_index_page page_of_div FRAME2ADDR_def)
qed

end
