(* ===== verification/Rv_Types.thy ===== *)
theory Rv_Types
  imports Physmem Utils
begin

text \<open>
  The data of the RISC-V processors: \<open>riscv_rv_ima/types.h\<close>, \<open>exception.h\<close>, \<open>instr.h\<close> and the
  structure of \<open>csr.h\<close>, and the processor structure of \<open>riscv_rv32ima/cpu.h\<close>. The sources
  under \<open>riscv_rv_ima\<close> are compiled once with \<open>XLEN\<close> 32 and once with \<open>XLEN\<close> 64; here \<open>uxlen_t\<close>
  is \<open>'x word\<close> and \<open>XLEN\<close> is \<open>LENGTH('x)\<close>, so that the shared definitions are written once.
\<close>

subsection \<open>types.h\<close>

definition sign_extend_8_to_xlen :: "u8 \<Rightarrow> 'x::len word" where
  "sign_extend_8_to_xlen v = scast v"

definition sign_extend_16_to_xlen :: "u16 \<Rightarrow> 'x::len word" where
  "sign_extend_16_to_xlen v = scast v"

definition sign_extend_32_to_xlen :: "u32 \<Rightarrow> 'x::len word" where
  "sign_extend_32_to_xlen v = scast v"

definition sign_extend_64_to_xlen :: "u64 \<Rightarrow> 'x::len word" where
  "sign_extend_64_to_xlen v = scast v"

definition zero_extend_8_to_xlen :: "u8 \<Rightarrow> 'x::len word" where
  "zero_extend_8_to_xlen v = ucast v"

definition zero_extend_16_to_xlen :: "u16 \<Rightarrow> 'x::len word" where
  "zero_extend_16_to_xlen v = ucast v"

definition zero_extend_32_to_xlen :: "u32 \<Rightarrow> 'x::len word" where
  "zero_extend_32_to_xlen v = ucast v"

definition zero_extend_64_to_xlen :: "u64 \<Rightarrow> 'x::len word" where
  "zero_extend_64_to_xlen v = ucast v"

definition shift_instr_mask :: "'x::len itself \<Rightarrow> 'x word" where
  "shift_instr_mask _ = (if LENGTH('x) = 32 then 0x1F else 0x3F)"

subsection \<open>exception.h\<close>

datatype rv_exc =
    rv_exc_supervisor_software_interrupt
  | rv_exc_machine_software_interrupt
  | rv_exc_supervisor_timer_interrupt
  | rv_exc_machine_timer_interrupt
  | rv_exc_supervisor_external_interrupt
  | rv_exc_machine_external_interrupt
  | rv_exc_instruction_address_misaligned
  | rv_exc_instruction_access_fault
  | rv_exc_illegal_instruction
  | rv_exc_breakpoint
  | rv_exc_load_address_misaligned
  | rv_exc_load_access_fault
  | rv_exc_store_amo_address_misaligned
  | rv_exc_store_amo_access_fault
  | rv_exc_umode_environment_call
  | rv_exc_smode_environment_call
  | rv_exc_mmode_environment_call
  | rv_exc_instruction_page_fault
  | rv_exc_load_page_fault
  | rv_exc_store_amo_page_fault
  | rv_exc_none

definition RV_INTERRUPT_EXC_BITS :: "'x::len word" where
  "RV_INTERRUPT_EXC_BITS = push_bit (LENGTH('x) - 1) 1"

text \<open>The number of an exception or interrupt, and the numerical value of the enumerator.\<close>

primrec rv_exc_is_interrupt :: "rv_exc \<Rightarrow> bool" where
  "rv_exc_is_interrupt rv_exc_supervisor_software_interrupt = True"
| "rv_exc_is_interrupt rv_exc_machine_software_interrupt = True"
| "rv_exc_is_interrupt rv_exc_supervisor_timer_interrupt = True"
| "rv_exc_is_interrupt rv_exc_machine_timer_interrupt = True"
| "rv_exc_is_interrupt rv_exc_supervisor_external_interrupt = True"
| "rv_exc_is_interrupt rv_exc_machine_external_interrupt = True"
| "rv_exc_is_interrupt rv_exc_instruction_address_misaligned = False"
| "rv_exc_is_interrupt rv_exc_instruction_access_fault = False"
| "rv_exc_is_interrupt rv_exc_illegal_instruction = False"
| "rv_exc_is_interrupt rv_exc_breakpoint = False"
| "rv_exc_is_interrupt rv_exc_load_address_misaligned = False"
| "rv_exc_is_interrupt rv_exc_load_access_fault = False"
| "rv_exc_is_interrupt rv_exc_store_amo_address_misaligned = False"
| "rv_exc_is_interrupt rv_exc_store_amo_access_fault = False"
| "rv_exc_is_interrupt rv_exc_umode_environment_call = False"
| "rv_exc_is_interrupt rv_exc_smode_environment_call = False"
| "rv_exc_is_interrupt rv_exc_mmode_environment_call = False"
| "rv_exc_is_interrupt rv_exc_instruction_page_fault = False"
| "rv_exc_is_interrupt rv_exc_load_page_fault = False"
| "rv_exc_is_interrupt rv_exc_store_amo_page_fault = False"
| "rv_exc_is_interrupt rv_exc_none = False"

primrec rv_exc_no :: "rv_exc \<Rightarrow> nat" where
  "rv_exc_no rv_exc_supervisor_software_interrupt = 1"
| "rv_exc_no rv_exc_machine_software_interrupt = 3"
| "rv_exc_no rv_exc_supervisor_timer_interrupt = 5"
| "rv_exc_no rv_exc_machine_timer_interrupt = 7"
| "rv_exc_no rv_exc_supervisor_external_interrupt = 9"
| "rv_exc_no rv_exc_machine_external_interrupt = 11"
| "rv_exc_no rv_exc_instruction_address_misaligned = 0"
| "rv_exc_no rv_exc_instruction_access_fault = 1"
| "rv_exc_no rv_exc_illegal_instruction = 2"
| "rv_exc_no rv_exc_breakpoint = 3"
| "rv_exc_no rv_exc_load_address_misaligned = 4"
| "rv_exc_no rv_exc_load_access_fault = 5"
| "rv_exc_no rv_exc_store_amo_address_misaligned = 6"
| "rv_exc_no rv_exc_store_amo_access_fault = 7"
| "rv_exc_no rv_exc_umode_environment_call = 8"
| "rv_exc_no rv_exc_smode_environment_call = 9"
| "rv_exc_no rv_exc_mmode_environment_call = 11"
| "rv_exc_no rv_exc_instruction_page_fault = 12"
| "rv_exc_no rv_exc_load_page_fault = 13"
| "rv_exc_no rv_exc_store_amo_page_fault = 15"
| "rv_exc_no rv_exc_none = 24"

definition rv_exc_code :: "rv_exc \<Rightarrow> 'x::len word" where
  "rv_exc_code ex =
     (if rv_exc_is_interrupt ex then RV_INTERRUPT_EXC_BITS else 0) OR of_nat (rv_exc_no ex)"

text \<open>\<open>RV_EXCEPTION_MASK\<close> clears the interrupt bit (or keeps the low six bits) before the shift.\<close>

definition RV_EXCEPTION_MASK :: "rv_exc \<Rightarrow> 'x::len word" where
  "RV_EXCEPTION_MASK ex = push_bit (rv_exc_no ex) 1"

definition RV_EXCEPTIONS_MASK :: "'x::len word" where
  "RV_EXCEPTIONS_MASK =
     RV_EXCEPTION_MASK rv_exc_instruction_address_misaligned OR
     RV_EXCEPTION_MASK rv_exc_instruction_access_fault OR
     RV_EXCEPTION_MASK rv_exc_illegal_instruction OR
     RV_EXCEPTION_MASK rv_exc_breakpoint OR
     RV_EXCEPTION_MASK rv_exc_load_address_misaligned OR
     RV_EXCEPTION_MASK rv_exc_load_access_fault OR
     RV_EXCEPTION_MASK rv_exc_store_amo_address_misaligned OR
     RV_EXCEPTION_MASK rv_exc_store_amo_access_fault OR
     RV_EXCEPTION_MASK rv_exc_umode_environment_call OR
     RV_EXCEPTION_MASK rv_exc_smode_environment_call OR
     RV_EXCEPTION_MASK rv_exc_mmode_environment_call OR
     RV_EXCEPTION_MASK rv_exc_instruction_page_fault OR
     RV_EXCEPTION_MASK rv_exc_load_page_fault OR
     RV_EXCEPTION_MASK rv_exc_store_amo_page_fault"

definition RV_INTERRUPTS_MASK :: "'x::len word" where
  "RV_INTERRUPTS_MASK =
     RV_EXCEPTION_MASK rv_exc_supervisor_software_interrupt OR
     RV_EXCEPTION_MASK rv_exc_machine_software_interrupt OR
     RV_EXCEPTION_MASK rv_exc_supervisor_external_interrupt OR
     RV_EXCEPTION_MASK rv_exc_machine_external_interrupt OR
     RV_EXCEPTION_MASK rv_exc_supervisor_timer_interrupt OR
     RV_EXCEPTION_MASK rv_exc_machine_timer_interrupt"

datatype rv_priv_mode = rv_umode | rv_smode | rv_rmode | rv_mmode

primrec rv_priv_num :: "rv_priv_mode \<Rightarrow> nat" where
  "rv_priv_num rv_umode = 0"
| "rv_priv_num rv_smode = 1"
| "rv_priv_num rv_rmode = 2"
| "rv_priv_num rv_mmode = 3"

text \<open>The cast of a two-bit value to \<open>enum rv_priv_mode\<close>.\<close>

definition rv_priv_of :: "nat \<Rightarrow> rv_priv_mode" where
  "rv_priv_of n = (if n = 0 then rv_umode else if n = 1 then rv_smode else if n = 2 then rv_rmode else rv_mmode)"

lemma rv_priv_num_inject [simp]: "rv_priv_num a = rv_priv_num b \<longleftrightarrow> a = b"
  by (cases a; cases b) simp_all

lemma rv_priv_of_num [simp]: "rv_priv_of (rv_priv_num m) = m"
  by (cases m) (simp_all add: rv_priv_of_def)

lemma rv_priv_num_of: "n < 4 \<Longrightarrow> rv_priv_num (rv_priv_of n) = n"
  by (auto simp: rv_priv_of_def)

lemma rv_priv_num_less [simp]: "rv_priv_num m < 4"
  by (cases m) simp_all

text \<open>The C code compares privilege modes as numbers.\<close>

instantiation rv_priv_mode :: linorder
begin

definition less_eq_rv_priv_mode :: "rv_priv_mode \<Rightarrow> rv_priv_mode \<Rightarrow> bool" where
  "a \<le> b \<longleftrightarrow> rv_priv_num a \<le> rv_priv_num b"

definition less_rv_priv_mode :: "rv_priv_mode \<Rightarrow> rv_priv_mode \<Rightarrow> bool" where
  "a < b \<longleftrightarrow> rv_priv_num a < rv_priv_num b"

instance
  by standard (auto simp: less_eq_rv_priv_mode_def less_rv_priv_mode_def)

end

subsection \<open>instr.h\<close>

text \<open>
  The bit fields of the union \<open>rv_instr_t\<close>, low bits first; an \<open>int\<close> field is read as a signed
  number where it is used.
\<close>

type_synonym rv_instr = u32

definition instr_opcode :: "rv_instr \<Rightarrow> 7 word" where "instr_opcode i = ucast i"
definition instr_rd :: "rv_instr \<Rightarrow> nat" where "instr_rd i = unat (ucast (drop_bit 7 i) :: 5 word)"
definition instr_funct3 :: "rv_instr \<Rightarrow> 3 word" where "instr_funct3 i = ucast (drop_bit 12 i)"
definition instr_rs1 :: "rv_instr \<Rightarrow> nat" where "instr_rs1 i = unat (ucast (drop_bit 15 i) :: 5 word)"
definition instr_rs2 :: "rv_instr \<Rightarrow> nat" where "instr_rs2 i = unat (ucast (drop_bit 20 i) :: 5 word)"
definition instr_funct7 :: "rv_instr \<Rightarrow> 7 word" where "instr_funct7 i = ucast (drop_bit 25 i)"
definition i_imm :: "rv_instr \<Rightarrow> 12 word" where "i_imm i = ucast (drop_bit 20 i)"
definition s_imm4_0 :: "rv_instr \<Rightarrow> 5 word" where "s_imm4_0 i = ucast (drop_bit 7 i)"
definition s_imm11_5 :: "rv_instr \<Rightarrow> 7 word" where "s_imm11_5 i = ucast (drop_bit 25 i)"
definition b_imm11 :: "rv_instr \<Rightarrow> 1 word" where "b_imm11 i = ucast (drop_bit 7 i)"
definition b_imm4_1 :: "rv_instr \<Rightarrow> 4 word" where "b_imm4_1 i = ucast (drop_bit 8 i)"
definition b_imm10_5 :: "rv_instr \<Rightarrow> 6 word" where "b_imm10_5 i = ucast (drop_bit 25 i)"
definition b_imm12 :: "rv_instr \<Rightarrow> 1 word" where "b_imm12 i = ucast (drop_bit 31 i)"
definition u_imm :: "rv_instr \<Rightarrow> 20 word" where "u_imm i = ucast (drop_bit 12 i)"
definition j_imm19_12 :: "rv_instr \<Rightarrow> 8 word" where "j_imm19_12 i = ucast (drop_bit 12 i)"
definition j_imm11 :: "rv_instr \<Rightarrow> 1 word" where "j_imm11 i = ucast (drop_bit 20 i)"
definition j_imm10_1 :: "rv_instr \<Rightarrow> 10 word" where "j_imm10_1 i = ucast (drop_bit 21 i)"
definition j_imm20 :: "rv_instr \<Rightarrow> 1 word" where "j_imm20 i = ucast (drop_bit 31 i)"

definition RV_S_IMM :: "rv_instr \<Rightarrow> 'x::len word" where
  "RV_S_IMM i = push_bit 5 (scast (s_imm11_5 i)) OR (0x1F AND ucast (s_imm4_0 i))"

definition RV_R_FUNCT :: "rv_instr \<Rightarrow> 10 word" where
  "RV_R_FUNCT i = push_bit 3 (ucast (instr_funct7 i)) OR (0x7 AND ucast (instr_funct3 i))"

definition RV_I_UNSIGNED_IMM :: "rv_instr \<Rightarrow> 'x::len word" where
  "RV_I_UNSIGNED_IMM i = scast (i_imm i) AND 0xFFF"

definition RV_J_IMM :: "rv_instr \<Rightarrow> 'x::len word" where
  "RV_J_IMM i = push_bit 20 (scast (j_imm20 i)) OR push_bit 12 (ucast (j_imm19_12 i)) OR
     push_bit 11 (ucast (j_imm11 i)) OR push_bit 1 (ucast (j_imm10_1 i))"

definition RV_B_IMM :: "rv_instr \<Rightarrow> 'x::len word" where
  "RV_B_IMM i = push_bit 12 (scast (b_imm12 i)) OR push_bit 11 (ucast (b_imm11 i)) OR
     push_bit 5 (ucast (b_imm10_5 i)) OR push_bit 1 (ucast (b_imm4_1 i))"

definition RV_AMO_FUNCT :: "rv_instr \<Rightarrow> 5 word" where
  "RV_AMO_FUNCT i = ucast (drop_bit 2 (instr_funct7 i))"

lemma instr_reg_less [simp]: "instr_rd i < 32" "instr_rs1 i < 32" "instr_rs2 i < 32"
  using unsigned_less [of "ucast (drop_bit 7 i) :: 5 word"] unsigned_less [of "ucast (drop_bit 15 i) :: 5 word"]
    unsigned_less [of "ucast (drop_bit 20 i) :: 5 word"]
  by (simp_all add: instr_rd_def instr_rs1_def instr_rs2_def)

subsection \<open>The control and status registers and the processor\<close>

record (overloaded) ('x::len) rv_csr =
  cycle :: u64
  instret :: u64
  hpmcounters :: "nat \<Rightarrow> u64"
  hpmevents :: "nat \<Rightarrow> 'x word"
  misa :: "'x word"
  mvendorid :: "'x word"
  marchid :: "'x word"
  mimpid :: "'x word"
  mhartid :: "'x word"
  mconfigptr :: "'x word"
  mstatus :: u64
  mtvec :: "'x word"
  medeleg :: "'x word"
  mideleg :: "'x word"
  mip :: "'x word"
  mie :: "'x word"
  mscratch :: "'x word"
  mepc :: "'x word"
  mcause :: "'x word"
  mtval :: "'x word"
  mcounteren :: "'x word"
  mcountinhibit :: "'x word"
  menvcfg :: u64
  mseccfg :: "'x word"
  mcontext :: "'x word"
  pmpcfgs :: "nat \<Rightarrow> u8"
  pmpaddrs :: "nat \<Rightarrow> 'x word"
  stvec :: "'x word"
  scounteren :: "'x word"
  sscratch :: "'x word"
  sepc :: "'x word"
  scause :: "'x word"
  stval :: "'x word"
  senvcfg :: "'x word"
  satp :: "'x word"
  scontext :: "'x word"
  tval_next :: "'x word"
  external_SEIP :: bool
  mtime :: u64
  last_tick_time :: u64
  mtimecmp :: u64
  scyclecmp :: "'x word"
  external_STIP :: bool
  asid_len :: nat

text \<open>The processor structure; \<open>'t\<close> is the type of the translation lookaside buffer.\<close>

record (overloaded) ('x::len, 't) rv_cpu =
  regs :: "nat \<Rightarrow> 'x word"
  csr :: "'x rv_csr"
  pc :: "'x word"
  pc_next :: "'x word"
  priv_mode :: rv_priv_mode
  reserved_valid :: bool
  reserved_addr :: ptr36
  stdby :: bool
  tlb :: 't

abbreviation upd_csr :: "('x::len rv_csr \<Rightarrow> 'x rv_csr) \<Rightarrow> ('x, 't) rv_cpu \<Rightarrow> ('x, 't) rv_cpu" where
  "upd_csr f cpu \<equiv> cpu\<lparr>csr := f (csr cpu)\<rparr>"

end
