(* ===== verification/Rv_Csr.thy ===== *)
theory Rv_Csr
  imports Rv_Types
begin

text \<open>
  The control and status registers: \<open>src/src/device/cpu/riscv_rv_ima/csr.c\<close> and the masks and
  accessors of \<open>csr.h\<close>. Every register has a read, a write, a set and a clear function, as in the
  source; \<open>get_csr_ops\<close> selects them by the register number, and \<open>rv_csr_rw\<close>, \<open>rv_csr_rs\<close>,
  \<open>rv_csr_rc\<close> are what the instructions call. A function returns the exception (\<open>Exc\<close>, the
  processor is then unchanged) or its result (\<open>Ok\<close>); \<open>Undefined\<close> is undefined behaviour of C or a
  call of \<open>die\<close>.
\<close>

datatype 'a outcome = Undefined | Exc rv_exc | Ok 'a

type_synonym ('x, 't) csr_read_func = "('x, 't) rv_cpu \<Rightarrow> nat \<Rightarrow> 'x word outcome"
type_synonym ('x, 't) csr_write_func = "('x, 't) rv_cpu \<Rightarrow> nat \<Rightarrow> 'x word \<Rightarrow> ('x, 't) rv_cpu outcome"

subsection \<open>Masks and accessors of csr.h\<close>

definition rv_csr_mstatus_tsr_mask :: "'x::len word" where "rv_csr_mstatus_tsr_mask = push_bit 22 1"
definition rv_csr_mstatus_tw_mask :: "'x::len word" where "rv_csr_mstatus_tw_mask = push_bit 21 1"
definition rv_csr_mstatus_tvm_mask :: "'x::len word" where "rv_csr_mstatus_tvm_mask = push_bit 20 1"
definition rv_csr_mstatus_mprv_mask :: "'x::len word" where "rv_csr_mstatus_mprv_mask = push_bit 17 1"
definition rv_csr_mstatus_mpp_mask :: "'x::len word" where "rv_csr_mstatus_mpp_mask = push_bit 11 3"
definition rv_csr_mstatus_mpie_mask :: "'x::len word" where "rv_csr_mstatus_mpie_mask = push_bit 7 1"
definition rv_csr_mstatus_mie_mask :: "'x::len word" where "rv_csr_mstatus_mie_mask = push_bit 3 1"
definition rv_csr_sstatus_mxr_mask :: "'x::len word" where "rv_csr_sstatus_mxr_mask = push_bit 19 1"
definition rv_csr_sstatus_sum_mask :: "'x::len word" where "rv_csr_sstatus_sum_mask = push_bit 18 1"
definition rv_csr_sstatus_spp_mask :: "'x::len word" where "rv_csr_sstatus_spp_mask = push_bit 8 1"
definition rv_csr_sstatus_spie_mask :: "'x::len word" where "rv_csr_sstatus_spie_mask = push_bit 5 1"
definition rv_csr_sstatus_sie_mask :: "'x::len word" where "rv_csr_sstatus_sie_mask = push_bit 1 1"

definition rv_csr_sstatus_mask :: "'x::len word" where
  "rv_csr_sstatus_mask = rv_csr_sstatus_mxr_mask OR rv_csr_sstatus_sum_mask OR rv_csr_sstatus_spp_mask OR
     rv_csr_sstatus_spie_mask OR rv_csr_sstatus_sie_mask"

definition rv_csr_mstatus_mask :: "'x::len word" where
  "rv_csr_mstatus_mask = rv_csr_sstatus_mask OR rv_csr_mstatus_tsr_mask OR rv_csr_mstatus_tw_mask OR
     rv_csr_mstatus_tvm_mask OR rv_csr_mstatus_mprv_mask OR rv_csr_mstatus_mpp_mask OR
     rv_csr_mstatus_mpie_mask OR rv_csr_mstatus_mie_mask"

text \<open>A register mask is zero-extended to the 64-bit \<open>mstatus\<close>.\<close>

definition rv_csr_mstatus_tsr :: "('x::len, 't) rv_cpu \<Rightarrow> bool" where
  "rv_csr_mstatus_tsr cpu \<longleftrightarrow> mstatus (csr cpu) AND ucast (rv_csr_mstatus_tsr_mask :: 'x word) \<noteq> 0"

definition rv_csr_mstatus_tw :: "('x::len, 't) rv_cpu \<Rightarrow> bool" where
  "rv_csr_mstatus_tw cpu \<longleftrightarrow> mstatus (csr cpu) AND ucast (rv_csr_mstatus_tw_mask :: 'x word) \<noteq> 0"

definition rv_csr_mstatus_tvm :: "('x::len, 't) rv_cpu \<Rightarrow> bool" where
  "rv_csr_mstatus_tvm cpu \<longleftrightarrow> mstatus (csr cpu) AND ucast (rv_csr_mstatus_tvm_mask :: 'x word) \<noteq> 0"

definition rv_csr_mstatus_mprv :: "('x::len, 't) rv_cpu \<Rightarrow> bool" where
  "rv_csr_mstatus_mprv cpu \<longleftrightarrow> mstatus (csr cpu) AND ucast (rv_csr_mstatus_mprv_mask :: 'x word) \<noteq> 0"

definition rv_csr_mstatus_mpie :: "('x::len, 't) rv_cpu \<Rightarrow> bool" where
  "rv_csr_mstatus_mpie cpu \<longleftrightarrow> mstatus (csr cpu) AND ucast (rv_csr_mstatus_mpie_mask :: 'x word) \<noteq> 0"

definition rv_csr_mstatus_mie :: "('x::len, 't) rv_cpu \<Rightarrow> bool" where
  "rv_csr_mstatus_mie cpu \<longleftrightarrow> mstatus (csr cpu) AND ucast (rv_csr_mstatus_mie_mask :: 'x word) \<noteq> 0"

definition rv_csr_sstatus_mxr :: "('x::len, 't) rv_cpu \<Rightarrow> bool" where
  "rv_csr_sstatus_mxr cpu \<longleftrightarrow> mstatus (csr cpu) AND ucast (rv_csr_sstatus_mxr_mask :: 'x word) \<noteq> 0"

definition rv_csr_sstatus_sum :: "('x::len, 't) rv_cpu \<Rightarrow> bool" where
  "rv_csr_sstatus_sum cpu \<longleftrightarrow> mstatus (csr cpu) AND ucast (rv_csr_sstatus_sum_mask :: 'x word) \<noteq> 0"

definition rv_csr_sstatus_spie :: "('x::len, 't) rv_cpu \<Rightarrow> bool" where
  "rv_csr_sstatus_spie cpu \<longleftrightarrow> mstatus (csr cpu) AND ucast (rv_csr_sstatus_spie_mask :: 'x word) \<noteq> 0"

definition rv_csr_sstatus_sie :: "('x::len, 't) rv_cpu \<Rightarrow> bool" where
  "rv_csr_sstatus_sie cpu \<longleftrightarrow> mstatus (csr cpu) AND ucast (rv_csr_sstatus_sie_mask :: 'x word) \<noteq> 0"

definition rv_csr_mstatus_mpp :: "('x::len, 't) rv_cpu \<Rightarrow> rv_priv_mode" where
  "rv_csr_mstatus_mpp cpu =
     rv_priv_of (unat (drop_bit 11 (mstatus (csr cpu) AND ucast (rv_csr_mstatus_mpp_mask :: 'x word))))"

definition rv_csr_sstatus_spp :: "('x::len, 't) rv_cpu \<Rightarrow> rv_priv_mode" where
  "rv_csr_sstatus_spp cpu =
     rv_priv_of (unat (drop_bit 8 (mstatus (csr cpu) AND ucast (rv_csr_sstatus_spp_mask :: 'x word))))"

definition rv_csr_sei_mask :: u32 where "rv_csr_sei_mask = push_bit 9 1"
definition rv_csr_sti_mask :: u32 where "rv_csr_sti_mask = push_bit 5 1"
definition rv_csr_ssi_mask :: u32 where "rv_csr_ssi_mask = push_bit 1 1"
definition rv_csr_mei_mask :: u32 where "rv_csr_mei_mask = push_bit 11 1"
definition rv_csr_mti_mask :: u32 where "rv_csr_mti_mask = push_bit 7 1"
definition rv_csr_msi_mask :: u32 where "rv_csr_msi_mask = push_bit 3 1"
definition rv_csr_si_mask :: u32 where
  "rv_csr_si_mask = rv_csr_sei_mask OR rv_csr_sti_mask OR rv_csr_ssi_mask"
definition rv_csr_mi_mask :: u32 where
  "rv_csr_mi_mask = rv_csr_si_mask OR rv_csr_mei_mask OR rv_csr_mti_mask OR rv_csr_msi_mask"

definition rv_csr_mtvec_mode_mask :: "'x::len word" where "rv_csr_mtvec_mode_mask = 3"
definition rv_csr_mtvec_mode_direct :: "'x::len word" where "rv_csr_mtvec_mode_direct = 0"
definition rv_csr_mtvec_mode_vectored :: "'x::len word" where "rv_csr_mtvec_mode_vectored = 1"

definition rv_csr_satp_mode_mask :: "'x::len word" where
  "rv_csr_satp_mode_mask = (if LENGTH('x) = 32 then 0x80000000 else push_bit 60 8)"
definition rv_csr_asid_mask :: "'x::len word" where
  "rv_csr_asid_mask = (if LENGTH('x) = 32 then 0x7FC00000 else 0x0FFFF00000000000)"
definition rv_csr_satp_ppn_mask :: "'x::len word" where
  "rv_csr_satp_ppn_mask = (if LENGTH('x) = 32 then 0x003FFFFF else 0x00000FFFFFFFFFFF)"
definition rv_csr_satp_asid_offset :: "'x::len itself \<Rightarrow> nat" where
  "rv_csr_satp_asid_offset _ = (if LENGTH('x) = 32 then 22 else 44)"
definition rv_asid_len :: "'x::len itself \<Rightarrow> nat" where
  "rv_asid_len _ = (if LENGTH('x) = 32 then 9 else 16)"

definition rv_csr_satp_asid :: "('x::len, 't) rv_cpu \<Rightarrow> 'x word" where
  "rv_csr_satp_asid cpu = drop_bit (rv_csr_satp_asid_offset TYPE('x)) (satp (csr cpu) AND rv_csr_asid_mask)"

definition rv_csr_satp_is_bare :: "('x::len, 't) rv_cpu \<Rightarrow> bool" where
  "rv_csr_satp_is_bare cpu \<longleftrightarrow> NOT (satp (csr cpu)) AND rv_csr_satp_mode_mask \<noteq> 0"

definition rv_csr_satp_ppn :: "('x::len, 't) rv_cpu \<Rightarrow> 'x word" where
  "rv_csr_satp_ppn cpu = satp (csr cpu) AND rv_csr_satp_ppn_mask"

definition sv32_effective_priv :: "('x::len, 't) rv_cpu \<Rightarrow> rv_priv_mode" where
  "sv32_effective_priv cpu = (if rv_csr_mstatus_mprv cpu then rv_csr_mstatus_mpp cpu else priv_mode cpu)"

definition rv32_effective_priv :: "('x::len, 't) rv_cpu \<Rightarrow> rv_priv_mode" where
  "rv32_effective_priv cpu = (if rv_csr_satp_is_bare cpu then priv_mode cpu else sv32_effective_priv cpu)"

definition RV_ISA :: "'x::len word" where
  "RV_ISA = (if LENGTH('x) = 32 then 0x40000000 else 0x80000000) OR
     push_bit 8 1 OR push_bit 12 1 OR push_bit 0 1 OR push_bit 20 1 OR push_bit 18 1"

subsection \<open>Initialisation and privilege\<close>

text \<open>\<open>now\<close> is the host time that \<open>current_timestamp\<close> returns.\<close>

definition rv_init_csr :: "u64 \<Rightarrow> 'x::len rv_csr \<Rightarrow> nat \<Rightarrow> 'x rv_csr" where
  "rv_init_csr now c procno =
     c\<lparr>misa := RV_ISA, mvendorid := 0, marchid := 0, mimpid := 0, mhartid := of_nat procno,
       mtime := now, last_tick_time := now, asid_len := rv_asid_len TYPE('x)\<rparr>"

definition rv_csr_min_priv_mode :: "nat \<Rightarrow> rv_priv_mode" where
  "rv_csr_min_priv_mode num = rv_priv_of (num div 256 mod 4)"

definition minimal_privilege :: "rv_priv_mode \<Rightarrow> ('x::len, 't) rv_cpu \<Rightarrow> 'a outcome \<Rightarrow> 'a outcome" where
  "minimal_privilege priv cpu r = (if priv_mode cpu < priv then Exc rv_exc_illegal_instruction else r)"

text \<open>The functions the macro \<open>default_csr_functions\<close> expands to, for a field with its update.\<close>

definition default_csr_read :: "('x::len rv_csr \<Rightarrow> 'x word) \<Rightarrow> rv_priv_mode \<Rightarrow> ('x, 't) csr_read_func" where
  "default_csr_read sel priv cpu num = minimal_privilege priv cpu (Ok (sel (csr cpu)))"

definition default_csr_write ::
    "(('x word \<Rightarrow> 'x word) \<Rightarrow> 'x::len rv_csr \<Rightarrow> 'x rv_csr) \<Rightarrow> rv_priv_mode \<Rightarrow> ('x, 't) csr_write_func" where
  "default_csr_write upd priv cpu num value =
     minimal_privilege priv cpu (Ok (cpu\<lparr>csr := upd (\<lambda>_. value) (csr cpu)\<rparr>))"

definition default_csr_set ::
    "(('x word \<Rightarrow> 'x word) \<Rightarrow> 'x::len rv_csr \<Rightarrow> 'x rv_csr) \<Rightarrow> rv_priv_mode \<Rightarrow> ('x, 't) csr_write_func" where
  "default_csr_set upd priv cpu num value =
     minimal_privilege priv cpu (Ok (cpu\<lparr>csr := upd (\<lambda>old. old OR value) (csr cpu)\<rparr>))"

definition default_csr_clear ::
    "(('x word \<Rightarrow> 'x word) \<Rightarrow> 'x::len rv_csr \<Rightarrow> 'x rv_csr) \<Rightarrow> rv_priv_mode \<Rightarrow> ('x, 't) csr_write_func" where
  "default_csr_clear upd priv cpu num value =
     minimal_privilege priv cpu (Ok (cpu\<lparr>csr := upd (\<lambda>old. old AND NOT value) (csr cpu)\<rparr>))"

definition invalid_read :: "('x::len, 't) csr_read_func" where
  "invalid_read cpu num = Exc rv_exc_illegal_instruction"

definition invalid_write :: "('x::len, 't) csr_write_func" where
  "invalid_write cpu num value = Exc rv_exc_illegal_instruction"

subsection \<open>Counters\<close>

definition is_high_counter :: "nat \<Rightarrow> bool" where
  "is_high_counter num \<longleftrightarrow> bit num 7"

definition read_counter_csr_unchecked :: "('x::len, 't) rv_cpu \<Rightarrow> nat \<Rightarrow> 'x word" where
  "read_counter_csr_unchecked cpu num =
     (let counter = num mod 32;
          offset = (if is_high_counter num then 32 else 0)
      in if counter = 0 then ucast (EXTRACT_BITS (cycle (csr cpu)) offset (offset + 32))
         else if counter = 1 then ucast (EXTRACT_BITS (mtime (csr cpu)) offset (offset + 32))
         else if counter = 2 then ucast (EXTRACT_BITS (instret (csr cpu)) offset (offset + 32))
         else ucast (EXTRACT_BITS (hpmcounters (csr cpu) (counter - 3)) offset (offset + 32)))"

text \<open>\<open>reg & (1 << counter)\<close>; a shift by 32 or more is undefined behaviour.\<close>

definition counter_enabled :: "'x::len word \<Rightarrow> nat \<Rightarrow> bool option" where
  "counter_enabled reg counter = (if counter < 32 then Some (bit reg counter) else None)"

text \<open>\<open>counter\<close> is \<open>csr * 0x1F\<close>, as in the source.\<close>

definition counter_read :: "('x::len, 't) csr_read_func" where
  "counter_read cpu num =
     (let counter = num * 0x1F;
          m = counter_enabled (mcounteren (csr cpu)) counter;
          s = counter_enabled (scounteren (csr cpu)) counter;
          result = Ok (read_counter_csr_unchecked cpu num)
      in if rv_csr_min_priv_mode num \<noteq> rv_mmode then
           (if priv_mode cpu = rv_smode then
              (case m of None \<Rightarrow> Undefined | Some b \<Rightarrow> if \<not> b then Exc rv_exc_illegal_instruction else result)
            else if priv_mode cpu = rv_umode then
              (case m of
                 None \<Rightarrow> Undefined
               | Some b \<Rightarrow> if \<not> b then Exc rv_exc_illegal_instruction
                   else (case s of None \<Rightarrow> Undefined
                         | Some c \<Rightarrow> if \<not> c then Exc rv_exc_illegal_instruction else result))
            else result)
         else if priv_mode cpu \<noteq> rv_mmode then Exc rv_exc_illegal_instruction
         else if counter = 1 then Exc rv_exc_illegal_instruction
         else result)"

text \<open>
  The guards and the \<open>switch\<close> that \<open>counter_write\<close>, \<open>counter_set\<close> and \<open>counter_clear\<close> share: \<open>f\<close> is
  the update of the 64-bit counter, \<open>stip\<close> the new \<open>external_STIP\<close>. The \<open>switch\<close> is on the register
  number, so \<open>mcycleh\<close> and \<open>minstreth\<close> reach the default case, where \<open>counter - 3\<close> is negative: an
  access outside the array.
\<close>

definition counter_update ::
    "(u64 \<Rightarrow> u64) \<Rightarrow> (u64 \<Rightarrow> 'x word \<Rightarrow> bool) \<Rightarrow> ('x::len, 't) rv_cpu \<Rightarrow> nat \<Rightarrow> ('x, 't) rv_cpu outcome" where
  "counter_update f stip cpu num =
     minimal_privilege rv_mmode cpu
       (if rv_csr_min_priv_mode num \<noteq> rv_mmode then Exc rv_exc_illegal_instruction
        else (let counter = num mod 32 in
          if counter = 1 then Exc rv_exc_illegal_instruction
          else if num = 0xB00 then
            (let v = f (cycle (csr cpu))
             in Ok (cpu\<lparr>csr := (csr cpu)\<lparr>cycle := v, external_STIP := stip v (scyclecmp (csr cpu))\<rparr>\<rparr>))
          else if num = 0xB02 then Ok (cpu\<lparr>csr := (csr cpu)\<lparr>instret := f (instret (csr cpu))\<rparr>\<rparr>)
          else if counter < 3 then Undefined
          else Ok (cpu\<lparr>csr := (csr cpu)\<lparr>hpmcounters :=
                 (hpmcounters (csr cpu))(counter - 3 := f (hpmcounters (csr cpu) (counter - 3)))\<rparr>\<rparr>)))"

definition counter_write :: "('x::len, 't) csr_write_func" where
  "counter_write cpu num value =
     (let val = (if is_high_counter num then push_bit 32 (ucast value) else ucast value);
          m = (if is_high_counter num then 0x00000000FFFFFFFF else 0xFFFFFFFF00000000)
      in counter_update (\<lambda>old. (old AND m) OR val) (\<lambda>c cmp. ucast c \<ge> cmp) cpu num)"

definition counter_set :: "('x::len, 't) csr_write_func" where
  "counter_set cpu num value =
     (let val = (if is_high_counter num then push_bit 32 (ucast value) else ucast value)
      in counter_update (\<lambda>old. old OR val) (\<lambda>c cmp. ucast c \<ge> cmp) cpu num)"

text \<open>The comparison with \<open>scyclecmp\<close> is on 64 bits here.\<close>

definition counter_clear :: "('x::len, 't) csr_write_func" where
  "counter_clear cpu num value =
     (let val = (if is_high_counter num then push_bit 32 (ucast value) else ucast value)
      in counter_update (\<lambda>old. old AND NOT val) (\<lambda>c cmp. c \<ge> ucast cmp) cpu num)"

definition mcountinhibit_read :: "('x::len, 't) csr_read_func" where
  "mcountinhibit_read cpu num = minimal_privilege rv_mmode cpu (Ok (mcountinhibit (csr cpu)))"

definition mcountinhibit_write :: "('x::len, 't) csr_write_func" where
  "mcountinhibit_write cpu num value = minimal_privilege rv_mmode cpu
     (Ok (cpu\<lparr>csr := (csr cpu)\<lparr>mcountinhibit := value AND 0xFFFFFFFD\<rparr>\<rparr>))"

definition mcountinhibit_set :: "('x::len, 't) csr_write_func" where
  "mcountinhibit_set cpu num value = minimal_privilege rv_mmode cpu
     (Ok (cpu\<lparr>csr := (csr cpu)\<lparr>mcountinhibit := mcountinhibit (csr cpu) OR (value AND 0xFFFFFFFD)\<rparr>\<rparr>))"

definition mcountinhibit_clear :: "('x::len, 't) csr_write_func" where
  "mcountinhibit_clear cpu num value = minimal_privilege rv_mmode cpu
     (Ok (cpu\<lparr>csr := (csr cpu)\<lparr>mcountinhibit := mcountinhibit (csr cpu) AND NOT (value AND 0xFFFFFFFD)\<rparr>\<rparr>))"

definition mhpmevent_read :: "('x::len, 't) csr_read_func" where
  "mhpmevent_read cpu num = minimal_privilege rv_mmode cpu (Ok (hpmevents (csr cpu) (num mod 32 - 3)))"

definition mhpmevent_write :: "('x::len, 't) csr_write_func" where
  "mhpmevent_write cpu num value = minimal_privilege rv_mmode cpu
     (let event = num mod 32 - 3
      in if value < 6 then Ok (cpu\<lparr>csr := (csr cpu)\<lparr>hpmevents := (hpmevents (csr cpu))(event := value)\<rparr>\<rparr>)
         else Ok cpu)"

text \<open>The new value is an \<open>int\<close> here: it is compared and stored as a signed 32-bit number.\<close>

definition mhpmevent_set :: "('x::len, 't) csr_write_func" where
  "mhpmevent_set cpu num value = minimal_privilege rv_mmode cpu
     (let event = num mod 32 - 3; val = ucast (hpmevents (csr cpu) event OR value) :: u32
      in if sint val < 6 then Ok (cpu\<lparr>csr := (csr cpu)\<lparr>hpmevents := (hpmevents (csr cpu))(event := scast val)\<rparr>\<rparr>)
         else Ok cpu)"

definition mhpmevent_clear :: "('x::len, 't) csr_write_func" where
  "mhpmevent_clear cpu num value = minimal_privilege rv_mmode cpu
     (let event = num mod 32 - 3; val = ucast (hpmevents (csr cpu) event AND NOT value) :: u32
      in if sint val < 6 then Ok (cpu\<lparr>csr := (csr cpu)\<lparr>hpmevents := (hpmevents (csr cpu))(event := scast val)\<rparr>\<rparr>)
         else Ok cpu)"

definition pmpcfg_read :: "('x::len, 't) csr_read_func" where "pmpcfg_read cpu num = Exc rv_exc_illegal_instruction"
definition pmpcfg_write :: "('x::len, 't) csr_write_func" where "pmpcfg_write cpu num value = Exc rv_exc_illegal_instruction"
definition pmpcfg_set :: "('x::len, 't) csr_write_func" where "pmpcfg_set cpu num value = Exc rv_exc_illegal_instruction"
definition pmpcfg_clear :: "('x::len, 't) csr_write_func" where "pmpcfg_clear cpu num value = Exc rv_exc_illegal_instruction"

definition pmpaddr_read :: "('x::len, 't) csr_read_func" where "pmpaddr_read cpu num = Exc rv_exc_illegal_instruction"
definition pmpaddr_write :: "('x::len, 't) csr_write_func" where "pmpaddr_write cpu num value = Exc rv_exc_illegal_instruction"
definition pmpaddr_set :: "('x::len, 't) csr_write_func" where "pmpaddr_set cpu num value = Exc rv_exc_illegal_instruction"
definition pmpaddr_clear :: "('x::len, 't) csr_write_func" where "pmpaddr_clear cpu num value = Exc rv_exc_illegal_instruction"

subsection \<open>Supervisor registers\<close>

definition sstatus_read :: "('x::len, 't) csr_read_func" where
  "sstatus_read cpu num = minimal_privilege rv_smode cpu (Ok (ucast (mstatus (csr cpu)) AND rv_csr_sstatus_mask))"

text \<open>The low word of \<open>mstatus\<close> is replaced, not merged.\<close>

definition sstatus_write :: "('x::len, 't) csr_write_func" where
  "sstatus_write cpu num value = minimal_privilege rv_smode cpu
     (Ok (cpu\<lparr>csr := (csr cpu)\<lparr>mstatus := (mstatus (csr cpu) AND 0xFFFFFFFF00000000) OR ucast (value AND rv_csr_sstatus_mask)\<rparr>\<rparr>))"

definition sstatus_set :: "('x::len, 't) csr_write_func" where
  "sstatus_set cpu num value = minimal_privilege rv_smode cpu
     (Ok (cpu\<lparr>csr := (csr cpu)\<lparr>mstatus := mstatus (csr cpu) OR ucast (value AND rv_csr_sstatus_mask)\<rparr>\<rparr>))"

definition sstatus_clear :: "('x::len, 't) csr_write_func" where
  "sstatus_clear cpu num value = minimal_privilege rv_smode cpu
     (Ok (cpu\<lparr>csr := (csr cpu)\<lparr>mstatus := mstatus (csr cpu) AND ucast (NOT (value AND rv_csr_sstatus_mask))\<rparr>\<rparr>))"

definition sie_read :: "('x::len, 't) csr_read_func" where
  "sie_read cpu num = minimal_privilege rv_smode cpu (Ok (mie (csr cpu) AND ucast rv_csr_si_mask))"

definition sie_write :: "('x::len, 't) csr_write_func" where
  "sie_write cpu num value = minimal_privilege rv_smode cpu
     (Ok (cpu\<lparr>csr := (csr cpu)\<lparr>mie := (mie (csr cpu) AND ucast (NOT rv_csr_si_mask)) OR (value AND ucast rv_csr_si_mask)\<rparr>\<rparr>))"

definition sie_set :: "('x::len, 't) csr_write_func" where
  "sie_set cpu num value = minimal_privilege rv_smode cpu
     (Ok (cpu\<lparr>csr := (csr cpu)\<lparr>mie := mie (csr cpu) OR (value AND ucast rv_csr_si_mask)\<rparr>\<rparr>))"

definition sie_clear :: "('x::len, 't) csr_write_func" where
  "sie_clear cpu num value = minimal_privilege rv_smode cpu
     (Ok (cpu\<lparr>csr := (csr cpu)\<lparr>mie := mie (csr cpu) AND NOT (value AND ucast rv_csr_si_mask)\<rparr>\<rparr>))"

definition sip_read :: "('x::len, 't) csr_read_func" where
  "sip_read cpu num = minimal_privilege rv_smode cpu (Ok ((mip (csr cpu) AND ucast rv_csr_si_mask)
     OR (if external_SEIP (csr cpu) then ucast rv_csr_sei_mask else 0)
     OR (if external_STIP (csr cpu) then ucast rv_csr_sti_mask else 0)))"

definition sip_write :: "('x::len, 't) csr_write_func" where
  "sip_write cpu num value = minimal_privilege rv_smode cpu
     (Ok (cpu\<lparr>csr := (csr cpu)\<lparr>mip := (mip (csr cpu) AND ucast (NOT rv_csr_ssi_mask)) OR (value AND ucast rv_csr_ssi_mask)\<rparr>\<rparr>))"

definition sip_set :: "('x::len, 't) csr_write_func" where
  "sip_set cpu num value = minimal_privilege rv_smode cpu
     (Ok (cpu\<lparr>csr := (csr cpu)\<lparr>mip := mip (csr cpu) OR (value AND ucast rv_csr_ssi_mask)\<rparr>\<rparr>))"

definition sip_clear :: "('x::len, 't) csr_write_func" where
  "sip_clear cpu num value = minimal_privilege rv_smode cpu
     (Ok (cpu\<lparr>csr := (csr cpu)\<lparr>mip := mip (csr cpu) AND NOT (value AND ucast rv_csr_ssi_mask)\<rparr>\<rparr>))"

definition stvec_read :: "('x::len, 't) csr_read_func" where
  "stvec_read cpu num = minimal_privilege rv_smode cpu (Ok (stvec (csr cpu)))"

definition stvec_write :: "('x::len, 't) csr_write_func" where
  "stvec_write cpu num value = minimal_privilege rv_smode cpu
     (Ok (cpu\<lparr>csr := (csr cpu)\<lparr>stvec := value AND 0xFFFFFFFD\<rparr>\<rparr>))"

definition stvec_set :: "('x::len, 't) csr_write_func" where
  "stvec_set cpu num value = minimal_privilege rv_smode cpu
     (Ok (cpu\<lparr>csr := (csr cpu)\<lparr>stvec := stvec (csr cpu) OR (value AND 0xFFFFFFFD)\<rparr>\<rparr>))"

definition stvec_clear :: "('x::len, 't) csr_write_func" where
  "stvec_clear cpu num value = minimal_privilege rv_smode cpu
     (Ok (cpu\<lparr>csr := (csr cpu)\<lparr>stvec := stvec (csr cpu) AND NOT (value AND 0xFFFFFFFD)\<rparr>\<rparr>))"

definition scounteren_read :: "('x::len, 't) csr_read_func" where "scounteren_read = default_csr_read scounteren rv_smode"
definition scounteren_write :: "('x::len, 't) csr_write_func" where "scounteren_write = default_csr_write scounteren_update rv_smode"
definition scounteren_set :: "('x::len, 't) csr_write_func" where "scounteren_set = default_csr_set scounteren_update rv_smode"
definition scounteren_clear :: "('x::len, 't) csr_write_func" where "scounteren_clear = default_csr_clear scounteren_update rv_smode"

definition senvcfg_read :: "('x::len, 't) csr_read_func" where
  "senvcfg_read cpu num = minimal_privilege rv_smode cpu (Ok (senvcfg (csr cpu)))"

definition senvcfg_write :: "('x::len, 't) csr_write_func" where
  "senvcfg_write cpu num value = minimal_privilege rv_smode cpu
     (Ok (cpu\<lparr>csr := (csr cpu)\<lparr>senvcfg := value AND 0x71\<rparr>\<rparr>))"

definition senvcfg_set :: "('x::len, 't) csr_write_func" where
  "senvcfg_set cpu num value = minimal_privilege rv_smode cpu
     (Ok (cpu\<lparr>csr := (csr cpu)\<lparr>senvcfg := senvcfg (csr cpu) OR (value AND 0x71)\<rparr>\<rparr>))"

definition senvcfg_clear :: "('x::len, 't) csr_write_func" where
  "senvcfg_clear cpu num value = minimal_privilege rv_smode cpu
     (Ok (cpu\<lparr>csr := (csr cpu)\<lparr>senvcfg := senvcfg (csr cpu) AND NOT (value AND 0x71)\<rparr>\<rparr>))"

definition sscratch_read :: "('x::len, 't) csr_read_func" where "sscratch_read = default_csr_read sscratch rv_smode"
definition sscratch_write :: "('x::len, 't) csr_write_func" where "sscratch_write = default_csr_write sscratch_update rv_smode"
definition sscratch_set :: "('x::len, 't) csr_write_func" where "sscratch_set = default_csr_set sscratch_update rv_smode"
definition sscratch_clear :: "('x::len, 't) csr_write_func" where "sscratch_clear = default_csr_clear sscratch_update rv_smode"

definition sepc_mask :: "'x::len word" where
  "sepc_mask = (if LENGTH('x) = 32 then 0xFFFFFFFC else 0xFFFFFFFFFFFFFFFC)"

definition sepc_read :: "('x::len, 't) csr_read_func" where
  "sepc_read cpu num = minimal_privilege rv_smode cpu (Ok (sepc (csr cpu)))"

definition sepc_write :: "('x::len, 't) csr_write_func" where
  "sepc_write cpu num value = minimal_privilege rv_smode cpu
     (Ok (cpu\<lparr>csr := (csr cpu)\<lparr>sepc := value AND sepc_mask\<rparr>\<rparr>))"

definition sepc_set :: "('x::len, 't) csr_write_func" where
  "sepc_set cpu num value = minimal_privilege rv_smode cpu
     (Ok (cpu\<lparr>csr := (csr cpu)\<lparr>sepc := sepc (csr cpu) OR (value AND sepc_mask)\<rparr>\<rparr>))"

definition sepc_clear :: "('x::len, 't) csr_write_func" where
  "sepc_clear cpu num value = minimal_privilege rv_smode cpu
     (Ok (cpu\<lparr>csr := (csr cpu)\<lparr>sepc := sepc (csr cpu) AND NOT (value AND sepc_mask)\<rparr>\<rparr>))"

text \<open>
  \<open>RV_EXCEPTION_MASK(num)\<close> of a number: for \<open>XLEN\<close> 32 the shift distance is the number without its
  interrupt bit, and a shift by 32 or more is undefined behaviour.
\<close>

definition is_exception_code :: "'x::len word \<Rightarrow> bool option" where
  "is_exception_code num =
     (let n = (if LENGTH('x) = 32 then unat (num AND NOT RV_INTERRUPT_EXC_BITS) else unat (num AND 0x3F))
      in if LENGTH('x) \<le> n then None
         else Some (push_bit n 1 AND
           (if RV_INTERRUPT_EXC_BITS AND num \<noteq> 0 then RV_INTERRUPTS_MASK else RV_EXCEPTIONS_MASK) \<noteq> (0 :: 'x word)))"

definition write_cause ::
    "(('x word \<Rightarrow> 'x word) \<Rightarrow> 'x::len rv_csr \<Rightarrow> 'x rv_csr) \<Rightarrow> ('x, 't) rv_cpu \<Rightarrow> 'x word \<Rightarrow> ('x, 't) rv_cpu outcome" where
  "write_cause upd cpu val =
     (case is_exception_code val of
        None \<Rightarrow> Undefined
      | Some b \<Rightarrow> if b then Ok (cpu\<lparr>csr := upd (\<lambda>_. val) (csr cpu)\<rparr>) else Exc rv_exc_illegal_instruction)"

definition scause_read :: "('x::len, 't) csr_read_func" where
  "scause_read cpu num = minimal_privilege rv_smode cpu (Ok (scause (csr cpu)))"

definition scause_write :: "('x::len, 't) csr_write_func" where
  "scause_write cpu num value = minimal_privilege rv_smode cpu
     (write_cause scause_update cpu value)"

definition scause_set :: "('x::len, 't) csr_write_func" where
  "scause_set cpu num value = minimal_privilege rv_smode cpu
     (write_cause scause_update cpu (value OR scause (csr cpu)))"

definition scause_clear :: "('x::len, 't) csr_write_func" where
  "scause_clear cpu num value = minimal_privilege rv_smode cpu
     (write_cause scause_update cpu (NOT value AND scause (csr cpu)))"

definition stval_read :: "('x::len, 't) csr_read_func" where "stval_read = default_csr_read stval rv_smode"
definition stval_write :: "('x::len, 't) csr_write_func" where "stval_write = default_csr_write stval_update rv_smode"
definition stval_set :: "('x::len, 't) csr_write_func" where "stval_set = default_csr_set stval_update rv_smode"
definition stval_clear :: "('x::len, 't) csr_write_func" where "stval_clear = default_csr_clear stval_update rv_smode"

definition satp_read :: "('x::len, 't) csr_read_func" where
  "satp_read cpu num = minimal_privilege rv_smode cpu
     (if rv_csr_mstatus_tvm cpu then Exc rv_exc_illegal_instruction else Ok (satp (csr cpu)))"

text \<open>
  The mask of writable bits, and the three updates, which clear \<open>satp\<close> when the new mode is bare.
  A shift by 64 or more would be undefined behaviour.
\<close>

definition satp_write_mask :: "('x::len, 't) rv_cpu \<Rightarrow> 'x word" where
  "satp_write_mask cpu =
     rv_csr_satp_mode_mask OR
     ucast (push_bit (rv_csr_satp_asid_offset TYPE('x)) (push_bit (asid_len (csr cpu)) 1 - 1 :: u64)) OR
     rv_csr_satp_ppn_mask"

definition satp_update_with :: "('x word \<Rightarrow> 'x word) \<Rightarrow> ('x::len, 't) rv_cpu \<Rightarrow> ('x, 't) rv_cpu outcome" where
  "satp_update_with f cpu = minimal_privilege rv_smode cpu
     (if rv_csr_mstatus_tvm cpu then Exc rv_exc_illegal_instruction
      else if 64 \<le> asid_len (csr cpu) then Undefined
      else (let cpu1 = cpu\<lparr>csr := (csr cpu)\<lparr>satp := f (satp (csr cpu))\<rparr>\<rparr>
            in Ok (if rv_csr_satp_is_bare cpu1 then cpu1\<lparr>csr := (csr cpu1)\<lparr>satp := 0\<rparr>\<rparr> else cpu1)))"

definition satp_write :: "('x::len, 't) csr_write_func" where
  "satp_write cpu num value = satp_update_with (\<lambda>_. value AND satp_write_mask cpu) cpu"

definition satp_set :: "('x::len, 't) csr_write_func" where
  "satp_set cpu num value = satp_update_with (\<lambda>old. old OR (value AND satp_write_mask cpu)) cpu"

definition satp_clear :: "('x::len, 't) csr_write_func" where
  "satp_clear cpu num value = satp_update_with (\<lambda>old. old AND NOT (value AND satp_write_mask cpu)) cpu"

definition scontext_read :: "('x::len, 't) csr_read_func" where "scontext_read = default_csr_read scontext rv_smode"
definition scontext_write :: "('x::len, 't) csr_write_func" where "scontext_write = default_csr_write scontext_update rv_smode"
definition scontext_set :: "('x::len, 't) csr_write_func" where "scontext_set = default_csr_set scontext_update rv_smode"
definition scontext_clear :: "('x::len, 't) csr_write_func" where "scontext_clear = default_csr_clear scontext_update rv_smode"

definition scyclecmp_read :: "('x::len, 't) csr_read_func" where
  "scyclecmp_read cpu num = minimal_privilege rv_smode cpu (Ok (scyclecmp (csr cpu)))"

definition scyclecmp_write :: "('x::len, 't) csr_write_func" where
  "scyclecmp_write cpu num value = minimal_privilege rv_smode cpu
     (let v = value
      in Ok (cpu\<lparr>csr := (csr cpu)\<lparr>scyclecmp := v, external_STIP := ucast (cycle (csr cpu)) \<ge> v\<rparr>\<rparr>))"

definition scyclecmp_set :: "('x::len, 't) csr_write_func" where
  "scyclecmp_set cpu num value = minimal_privilege rv_smode cpu
     (let v = scyclecmp (csr cpu) OR value
      in Ok (cpu\<lparr>csr := (csr cpu)\<lparr>scyclecmp := v, external_STIP := ucast (cycle (csr cpu)) \<ge> v\<rparr>\<rparr>))"

definition scyclecmp_clear :: "('x::len, 't) csr_write_func" where
  "scyclecmp_clear cpu num value = minimal_privilege rv_smode cpu
     (let v = scyclecmp (csr cpu) AND NOT value
      in Ok (cpu\<lparr>csr := (csr cpu)\<lparr>scyclecmp := v, external_STIP := ucast (cycle (csr cpu)) \<ge> v\<rparr>\<rparr>))"

subsection \<open>Machine registers\<close>

definition mvendorid_read :: "('x::len, 't) csr_read_func" where
  "mvendorid_read cpu num = minimal_privilege rv_mmode cpu (Ok (mvendorid (csr cpu)))"

definition marchid_read :: "('x::len, 't) csr_read_func" where
  "marchid_read cpu num = minimal_privilege rv_mmode cpu (Ok (marchid (csr cpu)))"

definition mimpid_read :: "('x::len, 't) csr_read_func" where
  "mimpid_read cpu num = minimal_privilege rv_mmode cpu (Ok (mimpid (csr cpu)))"

definition mhartid_read :: "('x::len, 't) csr_read_func" where
  "mhartid_read cpu num = minimal_privilege rv_mmode cpu (Ok (mhartid (csr cpu)))"

definition mconfigptr_read :: "('x::len, 't) csr_read_func" where
  "mconfigptr_read cpu num = minimal_privilege rv_mmode cpu (Ok (mconfigptr (csr cpu)))"

definition mstatus_read :: "('x::len, 't) csr_read_func" where
  "mstatus_read cpu num = minimal_privilege rv_mmode cpu (Ok (ucast (mstatus (csr cpu))))"

definition mstatus_write :: "('x::len, 't) csr_write_func" where
  "mstatus_write cpu num value = minimal_privilege rv_mmode cpu
     (let mpp = rv_csr_mstatus_mpp_mask :: 'x word;
          val = ucast (value AND rv_csr_mstatus_mask) :: u64;
          val' = (if drop_bit 11 (val AND ucast mpp) = 2
                  then (val AND ucast (NOT mpp)) OR ucast (ucast (mstatus (csr cpu)) AND mpp)
                  else val)
      in Ok (cpu\<lparr>csr := (csr cpu)\<lparr>mstatus := (mstatus (csr cpu) AND 0xFFFFFFFF00000000) OR val'\<rparr>\<rparr>))"

definition mstatus_set :: "('x::len, 't) csr_write_func" where
  "mstatus_set cpu num value = minimal_privilege rv_mmode cpu
     (let mpp = rv_csr_mstatus_mpp_mask :: 'x word;
          val = value AND rv_csr_mstatus_mask;
          new_val = ucast val OR mstatus (csr cpu);
          val' = (if drop_bit 11 (new_val AND ucast mpp) = 2 then val AND NOT mpp else val)
      in Ok (cpu\<lparr>csr := (csr cpu)\<lparr>mstatus := mstatus (csr cpu) OR ucast val'\<rparr>\<rparr>))"

definition mstatus_clear :: "('x::len, 't) csr_write_func" where
  "mstatus_clear cpu num value = minimal_privilege rv_mmode cpu
     (let mpp = rv_csr_mstatus_mpp_mask :: 'x word;
          val = value AND rv_csr_mstatus_mask;
          new_val = NOT (ucast val) AND mstatus (csr cpu);
          val' = (if drop_bit 11 (new_val AND ucast mpp) = 2 then val AND NOT mpp else val)
      in Ok (cpu\<lparr>csr := (csr cpu)\<lparr>mstatus := mstatus (csr cpu) AND ucast (NOT val')\<rparr>\<rparr>))"

definition mstatush_read :: "('x::len, 't) csr_read_func" where
  "mstatush_read cpu num = minimal_privilege rv_mmode cpu (Ok (ucast (drop_bit 32 (mstatus (csr cpu)))))"

definition mstatush_write :: "('x::len, 't) csr_write_func" where
  "mstatush_write cpu num value = minimal_privilege rv_mmode cpu
     (Ok cpu)"

definition mstatush_set :: "('x::len, 't) csr_write_func" where
  "mstatush_set cpu num value = minimal_privilege rv_mmode cpu
     (Ok cpu)"

definition mstatush_clear :: "('x::len, 't) csr_write_func" where
  "mstatush_clear cpu num value = minimal_privilege rv_mmode cpu
     (Ok cpu)"

definition misa_read :: "('x::len, 't) csr_read_func" where
  "misa_read cpu num = minimal_privilege rv_mmode cpu (Ok (misa (csr cpu)))"

definition misa_write :: "('x::len, 't) csr_write_func" where
  "misa_write cpu num value = minimal_privilege rv_mmode cpu
     (Ok cpu)"

definition misa_set :: "('x::len, 't) csr_write_func" where
  "misa_set cpu num value = minimal_privilege rv_mmode cpu
     (Ok cpu)"

definition misa_clear :: "('x::len, 't) csr_write_func" where
  "misa_clear cpu num value = minimal_privilege rv_mmode cpu
     (Ok cpu)"

definition medeleg_mask :: "'x::len word" where
  "medeleg_mask = RV_EXCEPTIONS_MASK AND NOT (RV_EXCEPTION_MASK rv_exc_mmode_environment_call)"

definition medeleg_read :: "('x::len, 't) csr_read_func" where
  "medeleg_read cpu num = minimal_privilege rv_mmode cpu (Ok (medeleg (csr cpu)))"

definition medeleg_write :: "('x::len, 't) csr_write_func" where
  "medeleg_write cpu num value = minimal_privilege rv_mmode cpu
     (Ok (cpu\<lparr>csr := (csr cpu)\<lparr>medeleg := value AND medeleg_mask\<rparr>\<rparr>))"

definition medeleg_set :: "('x::len, 't) csr_write_func" where
  "medeleg_set cpu num value = minimal_privilege rv_mmode cpu
     (Ok (cpu\<lparr>csr := (csr cpu)\<lparr>medeleg := medeleg (csr cpu) OR (value AND medeleg_mask)\<rparr>\<rparr>))"

definition medeleg_clear :: "('x::len, 't) csr_write_func" where
  "medeleg_clear cpu num value = minimal_privilege rv_mmode cpu
     (Ok (cpu\<lparr>csr := (csr cpu)\<lparr>medeleg := medeleg (csr cpu) AND NOT (value AND medeleg_mask)\<rparr>\<rparr>))"

definition mideleg_read :: "('x::len, 't) csr_read_func" where
  "mideleg_read cpu num = minimal_privilege rv_mmode cpu (Ok (mideleg (csr cpu)))"

definition mideleg_write :: "('x::len, 't) csr_write_func" where
  "mideleg_write cpu num value = minimal_privilege rv_mmode cpu
     (Ok (cpu\<lparr>csr := (csr cpu)\<lparr>mideleg := value AND ucast rv_csr_si_mask\<rparr>\<rparr>))"

definition mideleg_set :: "('x::len, 't) csr_write_func" where
  "mideleg_set cpu num value = minimal_privilege rv_mmode cpu
     (Ok (cpu\<lparr>csr := (csr cpu)\<lparr>mideleg := mideleg (csr cpu) OR (value AND ucast rv_csr_si_mask)\<rparr>\<rparr>))"

definition mideleg_clear :: "('x::len, 't) csr_write_func" where
  "mideleg_clear cpu num value = minimal_privilege rv_mmode cpu
     (Ok (cpu\<lparr>csr := (csr cpu)\<lparr>mideleg := mideleg (csr cpu) AND NOT (value AND ucast rv_csr_si_mask)\<rparr>\<rparr>))"

definition mie_read :: "('x::len, 't) csr_read_func" where
  "mie_read cpu num = minimal_privilege rv_mmode cpu (Ok (mie (csr cpu)))"

definition mie_write :: "('x::len, 't) csr_write_func" where
  "mie_write cpu num value = minimal_privilege rv_mmode cpu
     (Ok (cpu\<lparr>csr := (csr cpu)\<lparr>mie := value AND ucast rv_csr_mi_mask\<rparr>\<rparr>))"

definition mie_set :: "('x::len, 't) csr_write_func" where
  "mie_set cpu num value = minimal_privilege rv_mmode cpu
     (Ok (cpu\<lparr>csr := (csr cpu)\<lparr>mie := mie (csr cpu) OR (value AND ucast rv_csr_mi_mask)\<rparr>\<rparr>))"

definition mie_clear :: "('x::len, 't) csr_write_func" where
  "mie_clear cpu num value = minimal_privilege rv_mmode cpu
     (Ok (cpu\<lparr>csr := (csr cpu)\<lparr>mie := mie (csr cpu) AND NOT (value AND ucast rv_csr_mi_mask)\<rparr>\<rparr>))"

definition mip_read :: "('x::len, 't) csr_read_func" where
  "mip_read cpu num = minimal_privilege rv_mmode cpu (Ok (mip (csr cpu)
     OR (if external_SEIP (csr cpu) then ucast rv_csr_sei_mask else 0)
     OR (if external_STIP (csr cpu) then ucast rv_csr_sti_mask else 0)))"

definition mip_write :: "('x::len, 't) csr_write_func" where
  "mip_write cpu num value = minimal_privilege rv_mmode cpu
     (Ok (cpu\<lparr>csr := (csr cpu)\<lparr>mip := value AND ucast rv_csr_si_mask\<rparr>\<rparr>))"

definition mip_set :: "('x::len, 't) csr_write_func" where
  "mip_set cpu num value = minimal_privilege rv_mmode cpu
     (Ok (cpu\<lparr>csr := (csr cpu)\<lparr>mip := mip (csr cpu) OR (value AND ucast rv_csr_si_mask)\<rparr>\<rparr>))"

definition mip_clear :: "('x::len, 't) csr_write_func" where
  "mip_clear cpu num value = minimal_privilege rv_mmode cpu
     (Ok (cpu\<lparr>csr := (csr cpu)\<lparr>mip := mip (csr cpu) AND NOT (value AND ucast rv_csr_si_mask)\<rparr>\<rparr>))"

definition mtvec_read :: "('x::len, 't) csr_read_func" where
  "mtvec_read cpu num = minimal_privilege rv_mmode cpu (Ok (mtvec (csr cpu)))"

definition mtvec_write :: "('x::len, 't) csr_write_func" where
  "mtvec_write cpu num value = minimal_privilege rv_mmode cpu
     (Ok (cpu\<lparr>csr := (csr cpu)\<lparr>mtvec := value AND 0xFFFFFFFD\<rparr>\<rparr>))"

definition mtvec_set :: "('x::len, 't) csr_write_func" where
  "mtvec_set cpu num value = minimal_privilege rv_mmode cpu
     (Ok (cpu\<lparr>csr := (csr cpu)\<lparr>mtvec := mtvec (csr cpu) OR (value AND 0xFFFFFFFD)\<rparr>\<rparr>))"

definition mtvec_clear :: "('x::len, 't) csr_write_func" where
  "mtvec_clear cpu num value = minimal_privilege rv_mmode cpu
     (Ok (cpu\<lparr>csr := (csr cpu)\<lparr>mtvec := mtvec (csr cpu) AND NOT (value AND 0xFFFFFFFD)\<rparr>\<rparr>))"

definition mcounteren_read :: "('x::len, 't) csr_read_func" where "mcounteren_read = default_csr_read mcounteren rv_mmode"
definition mcounteren_write :: "('x::len, 't) csr_write_func" where "mcounteren_write = default_csr_write mcounteren_update rv_mmode"
definition mcounteren_set :: "('x::len, 't) csr_write_func" where "mcounteren_set = default_csr_set mcounteren_update rv_mmode"
definition mcounteren_clear :: "('x::len, 't) csr_write_func" where "mcounteren_clear = default_csr_clear mcounteren_update rv_mmode"

definition mscratch_read :: "('x::len, 't) csr_read_func" where "mscratch_read = default_csr_read mscratch rv_mmode"
definition mscratch_write :: "('x::len, 't) csr_write_func" where "mscratch_write = default_csr_write mscratch_update rv_mmode"
definition mscratch_set :: "('x::len, 't) csr_write_func" where "mscratch_set = default_csr_set mscratch_update rv_mmode"
definition mscratch_clear :: "('x::len, 't) csr_write_func" where "mscratch_clear = default_csr_clear mscratch_update rv_mmode"

definition mepc_read :: "('x::len, 't) csr_read_func" where "mepc_read = default_csr_read mepc rv_mmode"
definition mepc_write :: "('x::len, 't) csr_write_func" where "mepc_write = default_csr_write mepc_update rv_mmode"
definition mepc_set :: "('x::len, 't) csr_write_func" where "mepc_set = default_csr_set mepc_update rv_mmode"
definition mepc_clear :: "('x::len, 't) csr_write_func" where "mepc_clear = default_csr_clear mepc_update rv_mmode"

definition mcause_read :: "('x::len, 't) csr_read_func" where
  "mcause_read cpu num = minimal_privilege rv_mmode cpu (Ok (mcause (csr cpu)))"

definition mcause_write :: "('x::len, 't) csr_write_func" where
  "mcause_write cpu num value = minimal_privilege rv_mmode cpu
     (write_cause mcause_update cpu value)"

definition mcause_set :: "('x::len, 't) csr_write_func" where
  "mcause_set cpu num value = minimal_privilege rv_mmode cpu
     (write_cause mcause_update cpu (value OR mcause (csr cpu)))"

definition mcause_clear :: "('x::len, 't) csr_write_func" where
  "mcause_clear cpu num value = minimal_privilege rv_mmode cpu
     (write_cause mcause_update cpu (NOT value AND mcause (csr cpu)))"

definition mtval_read :: "('x::len, 't) csr_read_func" where "mtval_read = default_csr_read mtval rv_mmode"
definition mtval_write :: "('x::len, 't) csr_write_func" where "mtval_write = default_csr_write mtval_update rv_mmode"
definition mtval_set :: "('x::len, 't) csr_write_func" where "mtval_set = default_csr_set mtval_update rv_mmode"
definition mtval_clear :: "('x::len, 't) csr_write_func" where "mtval_clear = default_csr_clear mtval_update rv_mmode"

definition mtinst_read :: "('x::len, 't) csr_read_func" where "mtinst_read cpu num = Exc rv_exc_illegal_instruction"
definition mtinst_write :: "('x::len, 't) csr_write_func" where "mtinst_write cpu num value = Exc rv_exc_illegal_instruction"
definition mtinst_set :: "('x::len, 't) csr_write_func" where "mtinst_set cpu num value = Exc rv_exc_illegal_instruction"
definition mtinst_clear :: "('x::len, 't) csr_write_func" where "mtinst_clear cpu num value = Exc rv_exc_illegal_instruction"

definition mtval2_read :: "('x::len, 't) csr_read_func" where "mtval2_read cpu num = Exc rv_exc_illegal_instruction"
definition mtval2_write :: "('x::len, 't) csr_write_func" where "mtval2_write cpu num value = Exc rv_exc_illegal_instruction"
definition mtval2_set :: "('x::len, 't) csr_write_func" where "mtval2_set cpu num value = Exc rv_exc_illegal_instruction"
definition mtval2_clear :: "('x::len, 't) csr_write_func" where "mtval2_clear cpu num value = Exc rv_exc_illegal_instruction"

definition menvcfg_read :: "('x::len, 't) csr_read_func" where
  "menvcfg_read cpu num = minimal_privilege rv_mmode cpu (Ok (ucast (menvcfg (csr cpu))))"

definition menvcfg_write :: "('x::len, 't) csr_write_func" where
  "menvcfg_write cpu num value = minimal_privilege rv_mmode cpu
     (Ok (cpu\<lparr>csr := (csr cpu)\<lparr>menvcfg := (menvcfg (csr cpu) AND 0xFFFFFFFF00000000) OR ucast (value AND 1)\<rparr>\<rparr>))"

definition menvcfg_set :: "('x::len, 't) csr_write_func" where
  "menvcfg_set cpu num value = minimal_privilege rv_mmode cpu
     (Ok (cpu\<lparr>csr := (csr cpu)\<lparr>menvcfg := menvcfg (csr cpu) OR ucast (value AND 1)\<rparr>\<rparr>))"

definition menvcfg_clear :: "('x::len, 't) csr_write_func" where
  "menvcfg_clear cpu num value = minimal_privilege rv_mmode cpu
     (Ok (cpu\<lparr>csr := (csr cpu)\<lparr>menvcfg := menvcfg (csr cpu) AND NOT (ucast (value AND 1))\<rparr>\<rparr>))"

definition menvcfgh_read :: "('x::len, 't) csr_read_func" where
  "menvcfgh_read cpu num = minimal_privilege rv_mmode cpu (Ok (ucast (drop_bit 32 (menvcfg (csr cpu)))))"

definition menvcfgh_write :: "('x::len, 't) csr_write_func" where
  "menvcfgh_write cpu num value = minimal_privilege rv_mmode cpu
     (Ok cpu)"

definition menvcfgh_set :: "('x::len, 't) csr_write_func" where
  "menvcfgh_set cpu num value = minimal_privilege rv_mmode cpu
     (Ok cpu)"

definition menvcfgh_clear :: "('x::len, 't) csr_write_func" where
  "menvcfgh_clear cpu num value = minimal_privilege rv_mmode cpu
     (Ok cpu)"

definition mseccfg_read :: "('x::len, 't) csr_read_func" where
  "mseccfg_read cpu num = minimal_privilege rv_mmode cpu (Ok (mseccfg (csr cpu)))"

definition mseccfg_write :: "('x::len, 't) csr_write_func" where
  "mseccfg_write cpu num value = minimal_privilege rv_mmode cpu
     (Ok cpu)"

definition mseccfg_set :: "('x::len, 't) csr_write_func" where
  "mseccfg_set cpu num value = minimal_privilege rv_mmode cpu
     (Ok cpu)"

definition mseccfg_clear :: "('x::len, 't) csr_write_func" where
  "mseccfg_clear cpu num value = minimal_privilege rv_mmode cpu
     (Ok cpu)"

definition mseccfgh_read :: "('x::len, 't) csr_read_func" where
  "mseccfgh_read cpu num = minimal_privilege rv_mmode cpu (Ok (0))"

definition mseccfgh_write :: "('x::len, 't) csr_write_func" where
  "mseccfgh_write cpu num value = minimal_privilege rv_mmode cpu
     (Ok cpu)"

definition mseccfgh_set :: "('x::len, 't) csr_write_func" where
  "mseccfgh_set cpu num value = minimal_privilege rv_mmode cpu
     (Ok cpu)"

definition mseccfgh_clear :: "('x::len, 't) csr_write_func" where
  "mseccfgh_clear cpu num value = minimal_privilege rv_mmode cpu
     (Ok cpu)"

definition tselect_read :: "('x::len, 't) csr_read_func" where "tselect_read cpu num = Exc rv_exc_illegal_instruction"
definition tselect_write :: "('x::len, 't) csr_write_func" where "tselect_write cpu num value = Exc rv_exc_illegal_instruction"
definition tselect_set :: "('x::len, 't) csr_write_func" where "tselect_set cpu num value = Exc rv_exc_illegal_instruction"
definition tselect_clear :: "('x::len, 't) csr_write_func" where "tselect_clear cpu num value = Exc rv_exc_illegal_instruction"

definition tdata1_read :: "('x::len, 't) csr_read_func" where "tdata1_read cpu num = Exc rv_exc_illegal_instruction"
definition tdata1_write :: "('x::len, 't) csr_write_func" where "tdata1_write cpu num value = Exc rv_exc_illegal_instruction"
definition tdata1_set :: "('x::len, 't) csr_write_func" where "tdata1_set cpu num value = Exc rv_exc_illegal_instruction"
definition tdata1_clear :: "('x::len, 't) csr_write_func" where "tdata1_clear cpu num value = Exc rv_exc_illegal_instruction"

definition tdata2_read :: "('x::len, 't) csr_read_func" where "tdata2_read cpu num = Exc rv_exc_illegal_instruction"
definition tdata2_write :: "('x::len, 't) csr_write_func" where "tdata2_write cpu num value = Exc rv_exc_illegal_instruction"
definition tdata2_set :: "('x::len, 't) csr_write_func" where "tdata2_set cpu num value = Exc rv_exc_illegal_instruction"
definition tdata2_clear :: "('x::len, 't) csr_write_func" where "tdata2_clear cpu num value = Exc rv_exc_illegal_instruction"

definition tdata3_read :: "('x::len, 't) csr_read_func" where "tdata3_read cpu num = Exc rv_exc_illegal_instruction"
definition tdata3_write :: "('x::len, 't) csr_write_func" where "tdata3_write cpu num value = Exc rv_exc_illegal_instruction"
definition tdata3_set :: "('x::len, 't) csr_write_func" where "tdata3_set cpu num value = Exc rv_exc_illegal_instruction"
definition tdata3_clear :: "('x::len, 't) csr_write_func" where "tdata3_clear cpu num value = Exc rv_exc_illegal_instruction"

definition mcontext_read :: "('x::len, 't) csr_read_func" where "mcontext_read cpu num = Exc rv_exc_illegal_instruction"
definition mcontext_write :: "('x::len, 't) csr_write_func" where "mcontext_write cpu num value = Exc rv_exc_illegal_instruction"
definition mcontext_set :: "('x::len, 't) csr_write_func" where "mcontext_set cpu num value = Exc rv_exc_illegal_instruction"
definition mcontext_clear :: "('x::len, 't) csr_write_func" where "mcontext_clear cpu num value = Exc rv_exc_illegal_instruction"

definition dcsr_read :: "('x::len, 't) csr_read_func" where "dcsr_read cpu num = Exc rv_exc_illegal_instruction"
definition dcsr_write :: "('x::len, 't) csr_write_func" where "dcsr_write cpu num value = Exc rv_exc_illegal_instruction"
definition dcsr_set :: "('x::len, 't) csr_write_func" where "dcsr_set cpu num value = Exc rv_exc_illegal_instruction"
definition dcsr_clear :: "('x::len, 't) csr_write_func" where "dcsr_clear cpu num value = Exc rv_exc_illegal_instruction"

definition dpc_read :: "('x::len, 't) csr_read_func" where "dpc_read cpu num = Exc rv_exc_illegal_instruction"
definition dpc_write :: "('x::len, 't) csr_write_func" where "dpc_write cpu num value = Exc rv_exc_illegal_instruction"
definition dpc_set :: "('x::len, 't) csr_write_func" where "dpc_set cpu num value = Exc rv_exc_illegal_instruction"
definition dpc_clear :: "('x::len, 't) csr_write_func" where "dpc_clear cpu num value = Exc rv_exc_illegal_instruction"

definition dscratch0_read :: "('x::len, 't) csr_read_func" where "dscratch0_read cpu num = Exc rv_exc_illegal_instruction"
definition dscratch0_write :: "('x::len, 't) csr_write_func" where "dscratch0_write cpu num value = Exc rv_exc_illegal_instruction"
definition dscratch0_set :: "('x::len, 't) csr_write_func" where "dscratch0_set cpu num value = Exc rv_exc_illegal_instruction"
definition dscratch0_clear :: "('x::len, 't) csr_write_func" where "dscratch0_clear cpu num value = Exc rv_exc_illegal_instruction"

definition dscratch1_read :: "('x::len, 't) csr_read_func" where "dscratch1_read cpu num = Exc rv_exc_illegal_instruction"
definition dscratch1_write :: "('x::len, 't) csr_write_func" where "dscratch1_write cpu num value = Exc rv_exc_illegal_instruction"
definition dscratch1_set :: "('x::len, 't) csr_write_func" where "dscratch1_set cpu num value = Exc rv_exc_illegal_instruction"
definition dscratch1_clear :: "('x::len, 't) csr_write_func" where "dscratch1_clear cpu num value = Exc rv_exc_illegal_instruction"

subsection \<open>Dispatch on the register number\<close>

record (overloaded) ('x::len, 't) csr_ops =
  csr_read :: "('x, 't) csr_read_func"
  csr_write :: "('x, 't) csr_write_func"
  csr_set :: "('x, 't) csr_write_func"
  csr_clear :: "('x, 't) csr_write_func"

text \<open>
  The \<open>case\<close> labels of the counters: \<open>cycle\<close> to \<open>hpmcounter31\<close>, their high halves, and the machine
  counters with theirs, among which the numbers of \<open>time\<close> do not occur.
\<close>

definition is_counter_num :: "nat \<Rightarrow> bool" where
  "is_counter_num num \<longleftrightarrow>
     num \<in> {0xC00..0xC1F} \<or> num \<in> {0xC80..0xC9F} \<or>
     num = 0xB00 \<or> num \<in> {0xB02..0xB1F} \<or> num = 0xB80 \<or> num \<in> {0xB82..0xB9F}"

definition csr_ops_of_num :: "(nat \<times> ('x::len, 't) csr_ops) list" where
  "csr_ops_of_num = [
     (0x320, \<lparr>csr_read = mcountinhibit_read, csr_write = mcountinhibit_write, csr_set = mcountinhibit_set, csr_clear = mcountinhibit_clear\<rparr>),
     (0x100, \<lparr>csr_read = sstatus_read, csr_write = sstatus_write, csr_set = sstatus_set, csr_clear = sstatus_clear\<rparr>),
     (0x104, \<lparr>csr_read = sie_read, csr_write = sie_write, csr_set = sie_set, csr_clear = sie_clear\<rparr>),
     (0x105, \<lparr>csr_read = stvec_read, csr_write = stvec_write, csr_set = stvec_set, csr_clear = stvec_clear\<rparr>),
     (0x106, \<lparr>csr_read = scounteren_read, csr_write = scounteren_write, csr_set = scounteren_set, csr_clear = scounteren_clear\<rparr>),
     (0x10A, \<lparr>csr_read = senvcfg_read, csr_write = senvcfg_write, csr_set = senvcfg_set, csr_clear = senvcfg_clear\<rparr>),
     (0x140, \<lparr>csr_read = sscratch_read, csr_write = sscratch_write, csr_set = sscratch_set, csr_clear = sscratch_clear\<rparr>),
     (0x141, \<lparr>csr_read = sepc_read, csr_write = sepc_write, csr_set = sepc_set, csr_clear = sepc_clear\<rparr>),
     (0x142, \<lparr>csr_read = scause_read, csr_write = scause_write, csr_set = scause_set, csr_clear = scause_clear\<rparr>),
     (0x143, \<lparr>csr_read = stval_read, csr_write = stval_write, csr_set = stval_set, csr_clear = stval_clear\<rparr>),
     (0x144, \<lparr>csr_read = sip_read, csr_write = sip_write, csr_set = sip_set, csr_clear = sip_clear\<rparr>),
     (0x180, \<lparr>csr_read = satp_read, csr_write = satp_write, csr_set = satp_set, csr_clear = satp_clear\<rparr>),
     (0x5A8, \<lparr>csr_read = scontext_read, csr_write = scontext_write, csr_set = scontext_set, csr_clear = scontext_clear\<rparr>),
     (0x5C0, \<lparr>csr_read = scyclecmp_read, csr_write = scyclecmp_write, csr_set = scyclecmp_set, csr_clear = scyclecmp_clear\<rparr>),
     (0xF11, \<lparr>csr_read = mvendorid_read, csr_write = invalid_write, csr_set = invalid_write, csr_clear = invalid_write\<rparr>),
     (0xF12, \<lparr>csr_read = marchid_read, csr_write = invalid_write, csr_set = invalid_write, csr_clear = invalid_write\<rparr>),
     (0xF13, \<lparr>csr_read = mimpid_read, csr_write = invalid_write, csr_set = invalid_write, csr_clear = invalid_write\<rparr>),
     (0xF14, \<lparr>csr_read = mhartid_read, csr_write = invalid_write, csr_set = invalid_write, csr_clear = invalid_write\<rparr>),
     (0xF15, \<lparr>csr_read = mconfigptr_read, csr_write = invalid_write, csr_set = invalid_write, csr_clear = invalid_write\<rparr>),
     (0x300, \<lparr>csr_read = mstatus_read, csr_write = mstatus_write, csr_set = mstatus_set, csr_clear = mstatus_clear\<rparr>),
     (0x310, \<lparr>csr_read = mstatush_read, csr_write = mstatush_write, csr_set = mstatush_set, csr_clear = mstatush_clear\<rparr>),
     (0x301, \<lparr>csr_read = misa_read, csr_write = misa_write, csr_set = misa_set, csr_clear = misa_clear\<rparr>),
     (0x302, \<lparr>csr_read = medeleg_read, csr_write = medeleg_write, csr_set = medeleg_set, csr_clear = medeleg_clear\<rparr>),
     (0x303, \<lparr>csr_read = mideleg_read, csr_write = mideleg_write, csr_set = mideleg_set, csr_clear = mideleg_clear\<rparr>),
     (0x304, \<lparr>csr_read = mie_read, csr_write = mie_write, csr_set = mie_set, csr_clear = mie_clear\<rparr>),
     (0x305, \<lparr>csr_read = mtvec_read, csr_write = mtvec_write, csr_set = mtvec_set, csr_clear = mtvec_clear\<rparr>),
     (0x306, \<lparr>csr_read = mcounteren_read, csr_write = mcounteren_write, csr_set = mcounteren_set, csr_clear = mcounteren_clear\<rparr>),
     (0x340, \<lparr>csr_read = mscratch_read, csr_write = mscratch_write, csr_set = mscratch_set, csr_clear = mscratch_clear\<rparr>),
     (0x341, \<lparr>csr_read = mepc_read, csr_write = mepc_write, csr_set = mepc_set, csr_clear = mepc_clear\<rparr>),
     (0x342, \<lparr>csr_read = mcause_read, csr_write = mcause_write, csr_set = mcause_set, csr_clear = mcause_clear\<rparr>),
     (0x343, \<lparr>csr_read = mtval_read, csr_write = mtval_write, csr_set = mtval_set, csr_clear = mtval_clear\<rparr>),
     (0x344, \<lparr>csr_read = mip_read, csr_write = mip_write, csr_set = mip_set, csr_clear = mip_clear\<rparr>),
     (0x34A, \<lparr>csr_read = mtinst_read, csr_write = mtinst_write, csr_set = mtinst_set, csr_clear = mtinst_clear\<rparr>),
     (0x34B, \<lparr>csr_read = mtval2_read, csr_write = mtval2_write, csr_set = mtval2_set, csr_clear = mtval2_clear\<rparr>),
     (0x30A, \<lparr>csr_read = menvcfg_read, csr_write = menvcfg_write, csr_set = menvcfg_set, csr_clear = menvcfg_clear\<rparr>),
     (0x31A, \<lparr>csr_read = menvcfgh_read, csr_write = menvcfgh_write, csr_set = menvcfgh_set, csr_clear = menvcfgh_clear\<rparr>),
     (0x747, \<lparr>csr_read = mseccfg_read, csr_write = mseccfg_write, csr_set = mseccfg_set, csr_clear = mseccfg_clear\<rparr>),
     (0x757, \<lparr>csr_read = mseccfgh_read, csr_write = mseccfgh_write, csr_set = mseccfgh_set, csr_clear = mseccfgh_clear\<rparr>),
     (0x7A0, \<lparr>csr_read = tselect_read, csr_write = tselect_write, csr_set = tselect_set, csr_clear = tselect_clear\<rparr>),
     (0x7A1, \<lparr>csr_read = tdata1_read, csr_write = tdata1_write, csr_set = tdata1_set, csr_clear = tdata1_clear\<rparr>),
     (0x7A2, \<lparr>csr_read = tdata2_read, csr_write = tdata2_write, csr_set = tdata2_set, csr_clear = tdata2_clear\<rparr>),
     (0x7A3, \<lparr>csr_read = tdata3_read, csr_write = tdata3_write, csr_set = tdata3_set, csr_clear = tdata3_clear\<rparr>),
     (0x7A8, \<lparr>csr_read = mcontext_read, csr_write = mcontext_write, csr_set = mcontext_set, csr_clear = mcontext_clear\<rparr>),
     (0x7B0, \<lparr>csr_read = dcsr_read, csr_write = dcsr_write, csr_set = dcsr_set, csr_clear = dcsr_clear\<rparr>),
     (0x7B1, \<lparr>csr_read = dpc_read, csr_write = dpc_write, csr_set = dpc_set, csr_clear = dpc_clear\<rparr>),
     (0x7B2, \<lparr>csr_read = dscratch0_read, csr_write = dscratch0_write, csr_set = dscratch0_set, csr_clear = dscratch0_clear\<rparr>),
     (0x7B3, \<lparr>csr_read = dscratch1_read, csr_write = dscratch1_write, csr_set = dscratch1_set, csr_clear = dscratch1_clear\<rparr>)]"

text \<open>The registers with a case of their own, in the order of the \<open>switch\<close>; \<open>None\<close> is the call of \<open>die\<close>.\<close>

definition get_csr_ops :: "nat \<Rightarrow> ('x::len, 't) csr_ops option" where
  "get_csr_ops num =
     (if is_counter_num num then
        Some \<lparr>csr_read = counter_read, csr_write = counter_write, csr_set = counter_set, csr_clear = counter_clear\<rparr>
      else if num \<in> {0x323..0x33F} then
        Some \<lparr>csr_read = mhpmevent_read, csr_write = mhpmevent_write, csr_set = mhpmevent_set, csr_clear = mhpmevent_clear\<rparr>
      else if num \<in> {0x3A0..0x3AF} then
        Some \<lparr>csr_read = pmpcfg_read, csr_write = pmpcfg_write, csr_set = pmpcfg_set, csr_clear = pmpcfg_clear\<rparr>
      else if num \<in> {0x3B0..0x3EF} then
        Some \<lparr>csr_read = pmpaddr_read, csr_write = pmpaddr_write, csr_set = pmpaddr_set, csr_clear = pmpaddr_clear\<rparr>
      else if num = 0x310 \<and> LENGTH('x) \<noteq> 32 then None
      else (case map_of csr_ops_of_num num of
              Some ops \<Rightarrow> Some ops
            | None \<Rightarrow> Some \<lparr>csr_read = invalid_read, csr_write = invalid_write, csr_set = invalid_write, csr_clear = invalid_write\<rparr>))"

text \<open>The result of a register access is the old value and the processor after the access.\<close>

definition rv_csr_rw :: "('x::len, 't) rv_cpu \<Rightarrow> nat \<Rightarrow> 'x word \<Rightarrow> bool \<Rightarrow> ('x word \<times> ('x, 't) rv_cpu) outcome" where
  "rv_csr_rw cpu num value rd =
     (case get_csr_ops num of
        None \<Rightarrow> Undefined
      | Some ops \<Rightarrow>
          (case (if rd then csr_read ops cpu num else Ok 0) of
             Undefined \<Rightarrow> Undefined
           | Exc ex \<Rightarrow> Exc ex
           | Ok target \<Rightarrow>
               (case csr_write ops cpu num value of
                  Undefined \<Rightarrow> Undefined
                | Exc ex \<Rightarrow> Exc ex
                | Ok cpu' \<Rightarrow> Ok (target, cpu'))))"

definition rv_csr_rs :: "('x::len, 't) rv_cpu \<Rightarrow> nat \<Rightarrow> 'x word \<Rightarrow> bool \<Rightarrow> ('x word \<times> ('x, 't) rv_cpu) outcome" where
  "rv_csr_rs cpu num value wr =
     (case get_csr_ops num of
        None \<Rightarrow> Undefined
      | Some ops \<Rightarrow>
          (case csr_read ops cpu num of
             Undefined \<Rightarrow> Undefined
           | Exc ex \<Rightarrow> Exc ex
           | Ok target \<Rightarrow>
               (case (if wr then csr_set ops cpu num value else Ok cpu) of
                  Undefined \<Rightarrow> Undefined
                | Exc ex \<Rightarrow> Exc ex
                | Ok cpu' \<Rightarrow> Ok (target, cpu'))))"

definition rv_csr_rc :: "('x::len, 't) rv_cpu \<Rightarrow> nat \<Rightarrow> 'x word \<Rightarrow> bool \<Rightarrow> ('x word \<times> ('x, 't) rv_cpu) outcome" where
  "rv_csr_rc cpu num value wr =
     (case get_csr_ops num of
        None \<Rightarrow> Undefined
      | Some ops \<Rightarrow>
          (case csr_read ops cpu num of
             Undefined \<Rightarrow> Undefined
           | Exc ex \<Rightarrow> Exc ex
           | Ok target \<Rightarrow>
               (case (if wr then csr_clear ops cpu num value else Ok cpu) of
                  Undefined \<Rightarrow> Undefined
                | Exc ex \<Rightarrow> Exc ex
                | Ok cpu' \<Rightarrow> Ok (target, cpu'))))"

end
