(* ===== verification/Rv32_Tlb.thy ===== *)
theory Rv32_Tlb
  imports Prelude Linked_List
begin

text \<open>
  The Sv32 page table entry of \<open>riscv_rv32ima/virt_mem.h\<close> and the translation lookaside buffer of
  \<open>riscv_rv32ima/tlb.c\<close>. The entries are an array; \<open>lru_list\<close> and \<open>free_list\<close> are the contents of
  the two linked lists, as indices of the array, head first. An entry is valid when it is linked
  into the LRU list. The last section relates the list operations used here to the pointer
  operations of \<open>list.c\<close>.
\<close>

subsection \<open>Page table entries\<close>

abbreviation RV_PAGESIZE :: nat where "RV_PAGESIZE \<equiv> 12"
abbreviation RV_MEGAPAGESIZE :: nat where "RV_MEGAPAGESIZE \<equiv> 22"

record sv32_pte =
  pte_v :: bool
  pte_r :: bool
  pte_w :: bool
  pte_x :: bool
  pte_u :: bool
  pte_g :: bool
  pte_a :: bool
  pte_d :: bool
  pte_rsw :: "2 word"
  pte_ppn :: "22 word"

definition is_pte_leaf :: "sv32_pte \<Rightarrow> bool" where
  "is_pte_leaf pte \<longleftrightarrow> pte_r pte \<or> pte_w pte \<or> pte_x pte"

definition is_pte_valid :: "sv32_pte \<Rightarrow> bool" where
  "is_pte_valid pte \<longleftrightarrow> pte_v pte \<and> (\<not> pte_w pte \<or> pte_r pte)"

definition pte_ppn0 :: "sv32_pte \<Rightarrow> 22 word" where
  "pte_ppn0 pte = pte_ppn pte AND 0x0003FF"

definition pte_ppn1 :: "sv32_pte \<Rightarrow> 22 word" where
  "pte_ppn1 pte = pte_ppn pte AND 0x3FFC00"

definition pte_ppn_phys :: "sv32_pte \<Rightarrow> ptr36" where
  "pte_ppn_phys pte = push_bit RV_PAGESIZE (ucast (pte_ppn pte))"

text \<open>The union of the bit fields and the 32-bit value.\<close>

definition pte_from_uint :: "u32 \<Rightarrow> sv32_pte" where
  "pte_from_uint val =
     \<lparr>pte_v = bit val 0, pte_r = bit val 1, pte_w = bit val 2, pte_x = bit val 3, pte_u = bit val 4,
      pte_g = bit val 5, pte_a = bit val 6, pte_d = bit val 7,
      pte_rsw = ucast (drop_bit 8 val), pte_ppn = ucast (drop_bit 10 val)\<rparr>"

definition uint_from_pte :: "sv32_pte \<Rightarrow> u32" where
  "uint_from_pte pte =
     of_bool (pte_v pte) OR push_bit 1 (of_bool (pte_r pte)) OR push_bit 2 (of_bool (pte_w pte)) OR
     push_bit 3 (of_bool (pte_x pte)) OR push_bit 4 (of_bool (pte_u pte)) OR
     push_bit 5 (of_bool (pte_g pte)) OR push_bit 6 (of_bool (pte_a pte)) OR
     push_bit 7 (of_bool (pte_d pte)) OR push_bit 8 (ucast (pte_rsw pte)) OR
     push_bit 10 (ucast (pte_ppn pte))"

subsection \<open>The TLB\<close>

record rv32_tlb_entry =
  te_pte :: sv32_pte
  te_vpn :: u32
  te_asid :: u32
  te_global :: bool
  te_megapage :: bool

record rv32_tlb =
  entries :: "nat \<Rightarrow> rv32_tlb_entry"
  tlb_size :: nat
  lru_list :: "nat list"
  free_list :: "nat list"

definition rv32_tlb_add_mapping ::
    "rv32_tlb \<Rightarrow> u32 \<Rightarrow> u32 \<Rightarrow> sv32_pte \<Rightarrow> bool \<Rightarrow> bool \<Rightarrow> rv32_tlb option" where
  "rv32_tlb_add_mapping tlb asid virt pte megapage global = do {
     (entry, tlb1) \<leftarrow>
       (case free_list tlb of
          i # _ \<Rightarrow> Some (i, tlb\<lparr>free_list := remove1 i (free_list tlb)\<rparr>)
        | [] \<Rightarrow>
            (if lru_list tlb = [] then None
             else (let i = last (lru_list tlb) in Some (i, tlb\<lparr>lru_list := remove1 i (lru_list tlb)\<rparr>))));
     let e = \<lparr>te_pte = pte, te_vpn = drop_bit (if megapage then RV_MEGAPAGESIZE else RV_PAGESIZE) virt,
              te_asid = asid, te_global = global, te_megapage = megapage\<rparr>;
     Some (tlb1\<lparr>entries := (entries tlb1)(entry := e), lru_list := entry # lru_list tlb1\<rparr>)
   }"

definition is_entry_valid :: "rv32_tlb \<Rightarrow> nat \<Rightarrow> bool" where
  "is_entry_valid tlb i \<longleftrightarrow> i \<in> set (lru_list tlb)"

definition move_lru_entry_to_front :: "rv32_tlb \<Rightarrow> nat \<Rightarrow> rv32_tlb option" where
  "move_lru_entry_to_front tlb i =
     (if opt_hd (lru_list tlb) = Some i then Some tlb
      else do {
        ASSERT (is_entry_valid tlb i);
        Some (tlb\<lparr>lru_list := i # remove1 i (lru_list tlb)\<rparr>)
      })"

definition entry_maps_virt :: "rv32_tlb_entry \<Rightarrow> u32 \<Rightarrow> bool" where
  "entry_maps_virt entry virt \<longleftrightarrow>
     te_vpn entry = (if te_megapage entry then drop_bit RV_MEGAPAGESIZE virt else drop_bit RV_PAGESIZE virt)"

text \<open>The entry a lookup selects: the first one on the LRU list with a matching address space.\<close>

definition tlb_find :: "rv32_tlb \<Rightarrow> u32 \<Rightarrow> u32 \<Rightarrow> nat option" where
  "tlb_find tlb asid virt =
     List.find (\<lambda>i. \<not> (\<not> te_global (entries tlb i) \<and> te_asid (entries tlb i) \<noteq> asid) \<and>
                    entry_maps_virt (entries tlb i) virt) (lru_list tlb)"

definition rv32_tlb_get_mapping ::
    "rv32_tlb \<Rightarrow> u32 \<Rightarrow> u32 \<Rightarrow> bool \<Rightarrow> ((sv32_pte \<times> bool) option \<times> rv32_tlb) option" where
  "rv32_tlb_get_mapping tlb asid virt noisy =
     (case tlb_find tlb asid virt of
        None \<Rightarrow> Some (None, tlb)
      | Some i \<Rightarrow> do {
          tlb' \<leftarrow> (if noisy then move_lru_entry_to_front tlb i else Some tlb);
          Some (Some (te_pte (entries tlb i), te_megapage (entries tlb i)), tlb')
        })"

definition invalidate_tlb_entry :: "rv32_tlb \<Rightarrow> nat \<Rightarrow> rv32_tlb option" where
  "invalidate_tlb_entry tlb i = do {
     ASSERT (is_entry_valid tlb i);
     Some (tlb\<lparr>lru_list := remove1 i (lru_list tlb), free_list := i # free_list tlb\<rparr>)
   }"

definition rv32_tlb_remove_mapping :: "rv32_tlb \<Rightarrow> u32 \<Rightarrow> u32 \<Rightarrow> rv32_tlb option" where
  "rv32_tlb_remove_mapping tlb asid virt =
     (case tlb_find tlb asid virt of None \<Rightarrow> Some tlb | Some i \<Rightarrow> invalidate_tlb_entry tlb i)"

text \<open>The loop of the flushes: invalidate the valid entries among \<open>is\<close> that satisfy the condition.\<close>

fun flush_loop :: "(rv32_tlb_entry \<Rightarrow> bool) \<Rightarrow> nat list \<Rightarrow> rv32_tlb \<Rightarrow> rv32_tlb option" where
  "flush_loop P [] tlb = Some tlb"
| "flush_loop P (i # is) tlb =
     (if is_entry_valid tlb i \<and> P (entries tlb i) then do {
        tlb' \<leftarrow> invalidate_tlb_entry tlb i;
        flush_loop P is tlb'
      } else flush_loop P is tlb)"

definition rv32_tlb_flush :: "rv32_tlb \<Rightarrow> rv32_tlb option" where
  "rv32_tlb_flush tlb = flush_loop (\<lambda>_. True) [0..<tlb_size tlb] tlb"

definition rv32_tlb_flush_by_asid :: "rv32_tlb \<Rightarrow> u32 \<Rightarrow> rv32_tlb option" where
  "rv32_tlb_flush_by_asid tlb asid =
     flush_loop (\<lambda>e. \<not> te_global e \<and> te_asid e = asid) [0..<tlb_size tlb] tlb"

definition rv32_tlb_flush_by_addr :: "rv32_tlb \<Rightarrow> u32 \<Rightarrow> rv32_tlb option" where
  "rv32_tlb_flush_by_addr tlb virt =
     (let vpn = drop_bit RV_PAGESIZE virt; mvpn = drop_bit RV_MEGAPAGESIZE virt
      in flush_loop (\<lambda>e. if te_megapage e then te_vpn e = mvpn else te_vpn e = vpn) [0..<tlb_size tlb] tlb)"

definition rv32_tlb_flush_by_asid_and_addr :: "rv32_tlb \<Rightarrow> u32 \<Rightarrow> u32 \<Rightarrow> rv32_tlb option" where
  "rv32_tlb_flush_by_asid_and_addr tlb asid virt =
     (let vpn = drop_bit RV_PAGESIZE virt; mvpn = drop_bit RV_MEGAPAGESIZE virt
      in flush_loop (\<lambda>e. \<not> te_global e \<and> te_asid e = asid \<and>
           (if te_megapage e then te_vpn e = mvpn else te_vpn e = vpn)) [0..<tlb_size tlb] tlb)"

text \<open>A zeroed entry, as after \<open>memset\<close>.\<close>

definition zero_entry :: rv32_tlb_entry where
  "zero_entry = \<lparr>te_pte = pte_from_uint 0, te_vpn = 0, te_asid = 0, te_global = False, te_megapage = False\<rparr>"

definition rv32_tlb_init :: "nat \<Rightarrow> rv32_tlb option" where
  "rv32_tlb_init sz = do {
     ASSERT (sz \<noteq> 0);
     Some \<lparr>entries = (\<lambda>_. zero_entry), tlb_size = sz, lru_list = [], free_list = [0..<sz]\<rparr>
   }"

definition rv32_tlb_resize :: "rv32_tlb \<Rightarrow> nat \<Rightarrow> rv32_tlb" where
  "rv32_tlb_resize tlb sz =
     \<lparr>entries = (\<lambda>_. zero_entry), tlb_size = sz, lru_list = [], free_list = [0..<sz]\<rparr>"

subsection \<open>Page table entries and their encoding\<close>

lemma uint_from_pte_bit:
  "bit (uint_from_pte p) n =
     (if n = 0 then pte_v p else if n = 1 then pte_r p else if n = 2 then pte_w p
      else if n = 3 then pte_x p else if n = 4 then pte_u p else if n = 5 then pte_g p
      else if n = 6 then pte_a p else if n = 7 then pte_d p
      else if n < 10 then bit (pte_rsw p) (n - 8) else bit (pte_ppn p) (n - 10))"
proof -
  have "bit (pte_rsw p) (n - 8) \<Longrightarrow> n - 8 < 2" "bit (pte_ppn p) (n - 10) \<Longrightarrow> n - 10 < 22"
    by (auto dest: bit_imp_le_length)
  moreover have "n = 0 \<or> n = 1 \<or> n = 2 \<or> n = 3 \<or> n = 4 \<or> n = 5 \<or> n = 6 \<or> n = 7 \<or> n = 8 \<or> n = 9 \<or> 10 \<le> n"
    by arith
  ultimately show ?thesis
    by (elim disjE) (simp_all add: uint_from_pte_def bit_simps, linarith?)
qed

lemma uint_from_pte_from_uint: "uint_from_pte (pte_from_uint v) = v"
proof (rule bit_word_eqI)
  fix n
  have "bit v n \<Longrightarrow> n < 32" by (auto dest: bit_imp_le_length)
  then show "bit (uint_from_pte (pte_from_uint v)) n = bit v n"
    by (simp add: uint_from_pte_bit pte_from_uint_def bit_simps) arith
qed

lemma pte_from_uint_from_pte: "pte_from_uint (uint_from_pte p) = p"
proof -
  have "ucast (drop_bit 8 (uint_from_pte p)) = pte_rsw p"
    by (rule bit_word_eqI) (simp add: bit_simps uint_from_pte_bit)
  moreover have "ucast (drop_bit 10 (uint_from_pte p)) = pte_ppn p"
    by (rule bit_word_eqI) (simp add: bit_simps uint_from_pte_bit)
  ultimately show ?thesis
    by (simp add: pte_from_uint_def uint_from_pte_bit)
qed

subsection \<open>The TLB invariant\<close>

definition tlb_wf :: "rv32_tlb \<Rightarrow> bool" where
  "tlb_wf tlb \<longleftrightarrow> 0 < tlb_size tlb \<and> distinct (lru_list tlb @ free_list tlb) \<and>
     set (lru_list tlb @ free_list tlb) = {0..<tlb_size tlb}"

lemma tlb_init_wf: "rv32_tlb_init sz = Some tlb \<Longrightarrow> tlb_wf tlb"
  by (auto simp: rv32_tlb_init_def tlb_wf_def)

lemma tlb_resize_wf: "0 < sz \<Longrightarrow> tlb_wf (rv32_tlb_resize tlb sz)"
  by (auto simp: rv32_tlb_resize_def tlb_wf_def)

definition new_entry :: "u32 \<Rightarrow> u32 \<Rightarrow> sv32_pte \<Rightarrow> bool \<Rightarrow> bool \<Rightarrow> rv32_tlb_entry" where
  "new_entry asid virt pte megapage global =
     \<lparr>te_pte = pte, te_vpn = drop_bit (if megapage then RV_MEGAPAGESIZE else RV_PAGESIZE) virt,
      te_asid = asid, te_global = global, te_megapage = megapage\<rparr>"

lemma tlb_add_cases:
  assumes "tlb_wf tlb"
  obtains i where "free_list tlb \<noteq> []" "i = hd (free_list tlb)"
      "rv32_tlb_add_mapping tlb asid virt pte mega glob =
         Some (tlb\<lparr>free_list := tl (free_list tlb),
                   entries := (entries tlb)(i := new_entry asid virt pte mega glob), lru_list := i # lru_list tlb\<rparr>)"
  | i where "free_list tlb = []" "lru_list tlb \<noteq> []" "i = last (lru_list tlb)"
      "rv32_tlb_add_mapping tlb asid virt pte mega glob =
         Some (tlb\<lparr>entries := (entries tlb)(i := new_entry asid virt pte mega glob), lru_list := i # butlast (lru_list tlb)\<rparr>)"
proof (cases "free_list tlb")
  case Nil
  have "lru_list tlb \<noteq> []" using assms Nil by (auto simp: tlb_wf_def)
  moreover have "remove1 (last (lru_list tlb)) (lru_list tlb) = butlast (lru_list tlb)"
    using assms last_remove_butlast calculation by (auto simp: tlb_wf_def)
  ultimately show ?thesis using that(2) Nil
    by (simp add: rv32_tlb_add_mapping_def new_entry_def Let_def)
next
  case (Cons i fs)
  then show ?thesis using that(1) by (simp add: rv32_tlb_add_mapping_def new_entry_def Let_def)
qed

lemma tlb_add_wf:
  assumes "tlb_wf tlb" "rv32_tlb_add_mapping tlb asid virt pte mega glob = Some tlb'"
  shows "tlb_wf tlb'"
proof (rule tlb_add_cases [OF assms(1), of asid virt pte mega glob])
  fix i
  assume "free_list tlb \<noteq> []" "i = hd (free_list tlb)"
    "rv32_tlb_add_mapping tlb asid virt pte mega glob =
       Some (tlb\<lparr>free_list := tl (free_list tlb),
                 entries := (entries tlb)(i := new_entry asid virt pte mega glob), lru_list := i # lru_list tlb\<rparr>)"
  then show ?thesis using assms by (cases "free_list tlb") (auto simp: tlb_wf_def)
next
  fix i
  assume a: "free_list tlb = []" "lru_list tlb \<noteq> []" "i = last (lru_list tlb)"
    "rv32_tlb_add_mapping tlb asid virt pte mega glob =
       Some (tlb\<lparr>entries := (entries tlb)(i := new_entry asid virt pte mega glob), lru_list := i # butlast (lru_list tlb)\<rparr>)"
  then show ?thesis using assms by (cases "lru_list tlb" rule: rev_cases) (auto simp: tlb_wf_def)
qed

lemma tlb_add_total:
  "tlb_wf tlb \<Longrightarrow> \<exists>tlb'. rv32_tlb_add_mapping tlb asid virt pte mega glob = Some tlb' \<and> tlb_wf tlb' \<and>
     tlb_size tlb' = tlb_size tlb"
  by (rule tlb_add_cases [of tlb asid virt pte mega glob]) (use tlb_add_wf in fastforce)+

lemma tlb_find_valid:
  assumes "tlb_find tlb asid virt = Some i"
  shows "i \<in> set (lru_list tlb)" "te_global (entries tlb i) \<or> te_asid (entries tlb i) = asid"
    "entry_maps_virt (entries tlb i) virt"
  using assms by (auto simp: tlb_find_def find_Some_iff)

lemma tlb_get_total:
  assumes "tlb_wf tlb"
  shows "\<exists>r tlb'. rv32_tlb_get_mapping tlb asid virt noisy = Some (r, tlb') \<and> tlb_wf tlb' \<and>
     entries tlb' = entries tlb \<and> set (lru_list tlb') = set (lru_list tlb) \<and> free_list tlb' = free_list tlb \<and>
     tlb_size tlb' = tlb_size tlb"
proof (cases "tlb_find tlb asid virt")
  case None
  then show ?thesis using assms by (simp add: rv32_tlb_get_mapping_def)
next
  case (Some i)
  then have i: "i \<in> set (lru_list tlb)" by (rule tlb_find_valid)
  show ?thesis
    using assms i Some
    by (auto simp: rv32_tlb_get_mapping_def move_lru_entry_to_front_def is_entry_valid_def tlb_wf_def)
qed

lemma invalidate_wf:
  assumes "tlb_wf tlb" "invalidate_tlb_entry tlb i = Some tlb'"
  shows "tlb_wf tlb'"
  using assms by (auto simp: invalidate_tlb_entry_def tlb_wf_def is_entry_valid_def)

lemma flush_loop_spec:
  assumes "tlb_wf tlb"
  shows "\<exists>tlb'. flush_loop P is tlb = Some tlb' \<and> tlb_wf tlb' \<and> entries tlb' = entries tlb \<and>
     tlb_size tlb' = tlb_size tlb \<and>
     lru_list tlb' = filter (\<lambda>i. \<not> (i \<in> set is \<and> P (entries tlb i))) (lru_list tlb)"
  using assms
proof (induction "is" arbitrary: tlb)
  case (Cons i "is")
  show ?case
  proof (cases "is_entry_valid tlb i \<and> P (entries tlb i)")
    case True
    then obtain t where t: "invalidate_tlb_entry tlb i = Some t" "entries t = entries tlb" "tlb_size t = tlb_size tlb"
      "lru_list t = remove1 i (lru_list tlb)"
      by (auto simp: invalidate_tlb_entry_def)
    have d: "distinct (lru_list tlb)" using Cons.prems by (simp add: tlb_wf_def)
    obtain t' where t': "flush_loop P is t = Some t'" "tlb_wf t'" "entries t' = entries t" "tlb_size t' = tlb_size t"
      "lru_list t' = filter (\<lambda>i. \<not> (i \<in> set is \<and> P (entries t i))) (lru_list t)"
      using Cons.IH [OF invalidate_wf [OF Cons.prems t(1)]] by blast
    moreover have "filter (\<lambda>j. \<not> (j \<in> set is \<and> P (entries tlb j))) (remove1 i (lru_list tlb)) =
        filter (\<lambda>j. \<not> (j \<in> set (i # is) \<and> P (entries tlb j))) (lru_list tlb)"
      unfolding distinct_remove1_removeAll [OF d] removeAll_filter_not_eq filter_filter
      using True by (intro filter_cong) auto
    ultimately show ?thesis using t True by (simp del: removeAll_filter_not_eq)
  next
    case False
    have "filter (\<lambda>j. \<not> (j \<in> set is \<and> P (entries tlb j))) (lru_list tlb) =
        filter (\<lambda>j. \<not> (j \<in> set (i # is) \<and> P (entries tlb j))) (lru_list tlb)"
      using False by (intro filter_cong) (auto simp: is_entry_valid_def)
    then show ?thesis using Cons.IH [OF Cons.prems] False by auto
  qed
qed simp

lemma flush_all_spec:
  assumes "tlb_wf tlb"
  shows "\<exists>tlb'. flush_loop P [0..<tlb_size tlb] tlb = Some tlb' \<and> tlb_wf tlb' \<and> entries tlb' = entries tlb \<and>
     tlb_size tlb' = tlb_size tlb \<and> lru_list tlb' = filter (\<lambda>i. \<not> P (entries tlb i)) (lru_list tlb)"
proof -
  have "set (lru_list tlb) \<subseteq> set [0..<tlb_size tlb]" using assms by (auto simp: tlb_wf_def)
  then have "filter (\<lambda>i. \<not> (i \<in> set [0..<tlb_size tlb] \<and> P (entries tlb i))) (lru_list tlb) =
      filter (\<lambda>i. \<not> P (entries tlb i)) (lru_list tlb)"
    by (intro filter_cong) auto
  then show ?thesis using flush_loop_spec [OF assms, of P "[0..<tlb_size tlb]"] by simp
qed

subsection \<open>Lookups\<close>

lemma entry_maps_new: "entry_maps_virt (new_entry asid virt pte mega glob) v \<longleftrightarrow>
    (if mega then drop_bit RV_MEGAPAGESIZE virt = drop_bit RV_MEGAPAGESIZE v
     else drop_bit RV_PAGESIZE virt = drop_bit RV_PAGESIZE v)"
  by (auto simp: entry_maps_virt_def new_entry_def)

lemma tlb_find_add_same:
  assumes "tlb_wf tlb" "rv32_tlb_add_mapping tlb asid virt pte mega glob = Some tlb'"
    and "entry_maps_virt (new_entry asid virt pte mega glob) v" "glob \<or> asid' = asid"
  shows "\<exists>i. tlb_find tlb' asid' v = Some i \<and> entries tlb' i = new_entry asid virt pte mega glob"
  by (rule tlb_add_cases [OF assms(1), of asid virt pte mega glob])
    (use assms(2-4) in \<open>auto simp: tlb_find_def new_entry_def\<close>)

lemma tlb_get_after_add:
  assumes "tlb_wf tlb" "rv32_tlb_add_mapping tlb asid virt pte mega glob = Some tlb'"
    and "entry_maps_virt (new_entry asid virt pte mega glob) v" "glob \<or> asid' = asid"
  shows "\<exists>tlb''. rv32_tlb_get_mapping tlb' asid' v noisy = Some (Some (pte, mega), tlb'')"
proof -
  obtain i where i: "tlb_find tlb' asid' v = Some i" "entries tlb' i = new_entry asid virt pte mega glob"
    using tlb_find_add_same [OF assms] by blast
  then show ?thesis using tlb_find_valid(1) [OF i(1)]
    by (auto simp: rv32_tlb_get_mapping_def move_lru_entry_to_front_def is_entry_valid_def new_entry_def)
qed

lemma tlb_get_result:
  assumes "rv32_tlb_get_mapping tlb asid virt noisy = Some (Some (pte, mega), tlb')"
  obtains i where "i \<in> set (lru_list tlb)" "te_pte (entries tlb i) = pte" "te_megapage (entries tlb i) = mega"
    "te_global (entries tlb i) \<or> te_asid (entries tlb i) = asid" "entry_maps_virt (entries tlb i) virt"
  using assms tlb_find_valid
  by (fastforce simp: rv32_tlb_get_mapping_def bind_Some_iff split: option.splits)

lemma tlb_get_None_iff:
  "(\<exists>tlb'. rv32_tlb_get_mapping tlb asid virt noisy = Some (None, tlb')) \<longleftrightarrow>
     (\<forall>i\<in>set (lru_list tlb). \<not> ((te_global (entries tlb i) \<or> te_asid (entries tlb i) = asid) \<and>
        entry_maps_virt (entries tlb i) virt))"
proof (cases "tlb_find tlb asid virt")
  case None
  then have "\<exists>tlb'. rv32_tlb_get_mapping tlb asid virt noisy = Some (None, tlb')"
    by (simp add: rv32_tlb_get_mapping_def)
  with None show ?thesis by (auto simp: tlb_find_def find_None_iff)
next
  case (Some i)
  then show ?thesis using tlb_find_valid [OF Some] by (auto simp: rv32_tlb_get_mapping_def bind_Some_iff)
qed

lemma tlb_add_keeps:
  assumes "tlb_wf tlb" "rv32_tlb_add_mapping tlb asid virt pte mega glob = Some tlb'"
    and "i \<in> set (lru_list tlb)" "free_list tlb = [] \<Longrightarrow> i \<noteq> last (lru_list tlb)"
  shows "i \<in> set (lru_list tlb')" "entries tlb' i = entries tlb i"
proof -
  have "i \<in> set (lru_list tlb') \<and> entries tlb' i = entries tlb i"
  proof (rule tlb_add_cases [OF assms(1), of asid virt pte mega glob])
    fix k
    assume "free_list tlb \<noteq> []" "k = hd (free_list tlb)"
      "rv32_tlb_add_mapping tlb asid virt pte mega glob =
         Some (tlb\<lparr>free_list := tl (free_list tlb),
                   entries := (entries tlb)(k := new_entry asid virt pte mega glob), lru_list := k # lru_list tlb\<rparr>)"
    then show ?thesis using assms by (cases "free_list tlb") (auto simp: tlb_wf_def)
  next
    fix k
    assume "free_list tlb = []" "lru_list tlb \<noteq> []" "k = last (lru_list tlb)"
      "rv32_tlb_add_mapping tlb asid virt pte mega glob =
         Some (tlb\<lparr>entries := (entries tlb)(k := new_entry asid virt pte mega glob), lru_list := k # butlast (lru_list tlb)\<rparr>)"
    then show ?thesis using assms by (cases "lru_list tlb" rule: rev_cases) auto
  qed
  then show "i \<in> set (lru_list tlb')" "entries tlb' i = entries tlb i" by auto
qed

subsection \<open>The lists are the linked lists of list.c\<close>

text \<open>
  Linking and unlinking entries as \<open>tlb.c\<close> does it, on the heap of \<open>list.c\<close>: entry \<open>i\<close> is item \<open>i\<close>,
  \<open>lru\<close> and \<open>fre\<close> are the two list heads.
\<close>

definition heap_tlb :: "nat \<Rightarrow> nat \<Rightarrow> lheap \<Rightarrow> rv32_tlb \<Rightarrow> bool" where
  "heap_tlb lru fre h tlb \<longleftrightarrow> lru \<noteq> fre \<and> dl_repr h lru (lru_list tlb) \<and> dl_repr h fre (free_list tlb)"

definition heap_invalidate :: "nat \<Rightarrow> nat \<Rightarrow> nat \<Rightarrow> lheap \<Rightarrow> lheap option" where
  "heap_invalidate lru fre i h = do {
     ASSERT (item_list (items h i) = Some lru);
     h1 \<leftarrow> list_remove lru i h;
     list_push fre i h1
   }"

definition heap_move_to_front :: "nat \<Rightarrow> nat \<Rightarrow> lheap \<Rightarrow> lheap option" where
  "heap_move_to_front lru i h =
     (if head (dlists h lru) = Some i then Some h
      else do {
        ASSERT (item_list (items h i) = Some lru);
        h1 \<leftarrow> list_remove lru i h;
        list_push lru i h1
      })"

definition heap_add :: "nat \<Rightarrow> nat \<Rightarrow> lheap \<Rightarrow> lheap option" where
  "heap_add lru fre h =
     (if \<not> list_is_empty fre h then
        (case head (dlists h fre) of None \<Rightarrow> None
         | Some i \<Rightarrow> do { h1 \<leftarrow> list_remove fre i h; list_push lru i h1 })
      else
        (case tail (dlists h lru) of None \<Rightarrow> None
         | Some i \<Rightarrow> do { h1 \<leftarrow> list_remove lru i h; list_push lru i h1 }))"

lemma heap_invalidate_refines:
  assumes "heap_tlb lru fre h tlb" "invalidate_tlb_entry tlb i = Some tlb'"
  shows "\<exists>h'. heap_invalidate lru fre i h = Some h' \<and> heap_tlb lru fre h' tlb'"
proof -
  have i: "i \<in> set (lru_list tlb)" using assms(2) by (auto simp: invalidate_tlb_entry_def is_entry_valid_def)
  then have "item_list (items h i) = Some lru"
    using assms(1) dl.repr_owner [of h lru "lru_list tlb" i] by (simp add: heap_tlb_def)
  moreover have "tlb' = tlb\<lparr>lru_list := remove1 i (lru_list tlb), free_list := i # free_list tlb\<rparr>"
    using assms(2) by (auto simp: invalidate_tlb_entry_def)
  ultimately show ?thesis
    using assms(1) i dl.transfer [of h lru "lru_list tlb" fre "free_list tlb" i]
    by (auto simp: heap_tlb_def heap_invalidate_def)
qed

lemma heap_move_to_front_refines:
  assumes "heap_tlb lru fre h tlb" "move_lru_entry_to_front tlb i = Some tlb'"
  shows "\<exists>h'. heap_move_to_front lru i h = Some h' \<and> heap_tlb lru fre h' tlb'"
proof (cases "opt_hd (lru_list tlb) = Some i")
  case True
  then show ?thesis using assms dl_reprD(2)
    by (auto simp: heap_tlb_def heap_move_to_front_def move_lru_entry_to_front_def)
next
  case False
  then have i: "i \<in> set (lru_list tlb)" "tlb' = tlb\<lparr>lru_list := i # remove1 i (lru_list tlb)\<rparr>"
    using assms(2) by (auto simp: move_lru_entry_to_front_def is_entry_valid_def)
  have r: "dl_repr h lru (lru_list tlb)" "dl_repr h fre (free_list tlb)" "fre \<noteq> lru"
    using assms(1) by (auto simp: heap_tlb_def)
  have "item_list (items h i) = Some lru" using i dl.repr_owner [OF r(1), of i] by simp
  then show ?thesis
    using dl.move_front [OF r(1) i(1)] r i(2) False dl_reprD(2) [OF r(1)]
    by (auto simp: heap_tlb_def heap_move_to_front_def)
qed

lemma heap_add_refines:
  assumes "heap_tlb lru fre h tlb" "tlb_wf tlb"
    and "rv32_tlb_add_mapping tlb asid virt pte mega glob = Some tlb'"
  shows "\<exists>h'. heap_add lru fre h = Some h' \<and> heap_tlb lru fre h' tlb'"
proof -
  have r: "dl_repr h lru (lru_list tlb)" "dl_repr h fre (free_list tlb)" "fre \<noteq> lru"
    using assms(1) by (auto simp: heap_tlb_def)
  note R = dl_reprD(2,3) [OF r(1)] dl_reprD(2,3) [OF r(2)]
  show ?thesis
  proof (cases "free_list tlb")
    case (Cons i fs)
    then show ?thesis
      using dl.transfer [OF r(2,1,3), of i] r(3) R assms(3) list_is_empty_repr [OF r(2)]
      by (auto simp: heap_add_def heap_tlb_def rv32_tlb_add_mapping_def Let_def)
  next
    case Nil
    then obtain i xs where x: "lru_list tlb = xs @ [i]"
      using assms(2) by (cases "lru_list tlb" rule: rev_cases) (auto simp: tlb_wf_def)
    then have "i \<in> set (lru_list tlb)" by simp
    from dl.move_front [OF r(1) this] show ?thesis
      using r(2,3) R assms(3) list_is_empty_repr [OF r(2)] Nil x
      by (auto simp: heap_add_def heap_tlb_def rv32_tlb_add_mapping_def Let_def)
  qed
qed

end
