(* ===== verification/Rv32_Vm.thy ===== *)
theory Rv32_Vm
  imports Rv_Csr Rv32_Tlb Physmem_Facts
begin

text \<open>
  Sv32 address translation: \<open>rv32_pagewalk\<close> and \<open>rv_convert_addr\<close> of \<open>riscv_rv32ima/cpu.c\<close>, with
  their helpers. A processor is addressed by its place \<open>k\<close> in the machine's processor store, and
  every function that reads or writes memory threads the machine, because a memory access can
  reach a device that changes any processor. The result is the exception or the physical address.
\<close>

type_synonym rv32_cpu = "(32, rv32_tlb) rv_cpu"

type_synonym ('d, 'z) rv32_machine = "(rv32_cpu, 'd, 'z) machine_scheme"

abbreviation set_cpu :: "nat \<Rightarrow> 'c \<Rightarrow> ('c, 'z) cpus_scheme \<Rightarrow> ('c, 'z) cpus_scheme" where
  "set_cpu k c s \<equiv> s\<lparr>cpu_mem := (cpu_mem s)(k := c)\<rparr>"

definition hartid :: "nat \<Rightarrow> (('x::len, 't) rv_cpu, 'z) cpus_scheme \<Rightarrow> nat" where
  "hartid k s = unat (mhartid (csr (cpu_mem s k)))"

definition is_access_allowed :: "rv32_cpu \<Rightarrow> sv32_pte \<Rightarrow> bool \<Rightarrow> bool \<Rightarrow> bool" where
  "is_access_allowed cpu pte wr fetch =
     (if wr \<and> \<not> pte_w pte then False
      else if fetch \<and> \<not> pte_x pte then False
      else (let rx = rv_csr_sstatus_mxr cpu \<and> pte_x pte in
        if \<not> wr \<and> \<not> fetch \<and> \<not> pte_r pte \<and> \<not> rx then False
        else if sv32_effective_priv cpu = rv_smode \<and> \<not> rv_csr_sstatus_sum cpu \<and> pte_u pte then False
        else if sv32_effective_priv cpu = rv_smode \<and> fetch \<and> pte_u pte then False
        else if sv32_effective_priv cpu = rv_umode \<and> \<not> pte_u pte then False
        else True))"

definition make_phys_from_ppn :: "u32 \<Rightarrow> sv32_pte \<Rightarrow> bool \<Rightarrow> ptr36" where
  "make_phys_from_ppn virt pte megapage =
     (let page_offset = ucast (virt AND 0x00000FFF) :: ptr36;
          virt_vpn0 = ucast (virt AND 0x003FF000) :: ptr36;
          ppn0 = push_bit 12 (ucast (pte_ppn0 pte)) :: ptr36;
          ppn1 = push_bit 12 (ucast (pte_ppn1 pte)) :: ptr36;
          phys_ppn0 = (if megapage then virt_vpn0 else ppn0)
      in ppn1 OR phys_ppn0 OR page_offset)"

definition page_fault_exception :: "bool \<Rightarrow> bool \<Rightarrow> rv_exc" where
  "page_fault_exception wr fetch =
     (if fetch then rv_exc_instruction_page_fault
      else if wr then rv_exc_store_amo_page_fault else rv_exc_load_page_fault)"

definition pte_access_dirty_update_needed :: "sv32_pte \<Rightarrow> bool \<Rightarrow> bool" where
  "pte_access_dirty_update_needed pte wr \<longleftrightarrow> \<not> pte_a pte \<or> (\<not> pte_d pte \<and> wr)"

text \<open>
  The steps of \<open>rv32_pagewalk\<close>: the first level with the second one, which finds the leaf, its
  address, and whether it is a megapage and global; then the access check, the update of the
  accessed and dirty bits, and the new TLB entry.
\<close>

definition pagewalk_leaf ::
    "nat \<Rightarrow> u32 \<Rightarrow> bool \<Rightarrow> ('d, 'z) rv32_machine \<Rightarrow>
     ((sv32_pte \<times> ptr36 \<times> bool \<times> bool) option \<times> ('d, 'z) rv32_machine) option" where
  "pagewalk_leaf k virt noisy s = do {
     let vpn0 = drop_bit 12 (virt AND 0x003FF000);
     let vpn1 = drop_bit 22 (virt AND 0xFFC00000);
     let ppn = rv_csr_satp_ppn (cpu_mem s k);
     let a = (push_bit RV_PAGESIZE (ucast ppn) :: ptr36);
     let pte_addr = a + ucast (vpn1 * 4);
     (pte_val, s1) \<leftarrow> physmem_read32 (hartid k s) pte_addr noisy s;
     let pte = pte_from_uint pte_val;
     (if \<not> is_pte_valid pte then Some (None, s1)
      else if is_pte_leaf pte then
        (if pte_ppn0 pte \<noteq> 0 then Some (None, s1) else Some (Some (pte, pte_addr, True, pte_g pte), s1))
      else do {
        let a' = pte_ppn_phys pte;
        let pte_addr' = a' + ucast (vpn0 * 4);
        (pte_val', s2) \<leftarrow> physmem_read32 (hartid k s1) pte_addr' noisy s1;
        let pte' = pte_from_uint pte_val';
        (if \<not> is_pte_valid pte' then Some (None, s2)
         else if \<not> is_pte_leaf pte' then Some (None, s2)
         else Some (Some (pte', pte_addr', False, pte_g pte \<or> pte_g pte'), s2))
      })
   }"

definition rv32_pagewalk ::
    "nat \<Rightarrow> u32 \<Rightarrow> bool \<Rightarrow> bool \<Rightarrow> bool \<Rightarrow> ('d, 'z) rv32_machine \<Rightarrow>
     ((rv_exc + ptr36) \<times> ('d, 'z) rv32_machine) option" where
  "rv32_pagewalk k virt wr fetch noisy s = do {
     (leaf, s1) \<leftarrow> pagewalk_leaf k virt noisy s;
     (case leaf of
        None \<Rightarrow> Some (Inl (page_fault_exception wr fetch), s1)
      | Some (pte, pte_addr, is_megapage, is_global) \<Rightarrow>
          (if \<not> is_access_allowed (cpu_mem s1 k) pte wr fetch then
             Some (Inl (page_fault_exception wr fetch), s1)
           else do {
             let needed = pte_access_dirty_update_needed pte wr;
             let pte' = (if needed then pte\<lparr>pte_a := True, pte_d := pte_d pte \<or> wr\<rparr> else pte);
             (_, s2) \<leftarrow> (if needed \<and> noisy
                         then physmem_write32 (hartid k s1) pte_addr (uint_from_pte pte') True s1
                         else Some (True, s1));
             tlb' \<leftarrow> rv32_tlb_add_mapping (tlb (cpu_mem s2 k)) (rv_csr_satp_asid (cpu_mem s2 k))
                       virt pte' is_megapage is_global;
             Some (Inr (make_phys_from_ppn virt pte' is_megapage),
                   set_cpu k ((cpu_mem s2 k)\<lparr>tlb := tlb'\<rparr>) s2)
           }))
   }"

definition rv32_convert_addr ::
    "nat \<Rightarrow> u32 \<Rightarrow> bool \<Rightarrow> bool \<Rightarrow> bool \<Rightarrow> ('d, 'z) rv32_machine \<Rightarrow>
     ((rv_exc + ptr36) \<times> ('d, 'z) rv32_machine) option" where
  "rv32_convert_addr k virt wr fetch noisy s = do {
     ASSERT (\<not> (wr \<and> fetch));
     let cpu = cpu_mem s k;
     let use_sv32 = (sv32_effective_priv cpu \<le> rv_smode \<and> \<not> rv_csr_satp_is_bare cpu \<and>
                     \<not> (priv_mode cpu = rv_mmode \<and> fetch));
     (if \<not> use_sv32 then Some (Inr (ucast virt), s)
      else do {
        let asid = rv_csr_satp_asid cpu;
        (hit, tlb1) \<leftarrow> rv32_tlb_get_mapping (tlb cpu) asid virt True;
        let s1 = set_cpu k (cpu\<lparr>tlb := tlb1\<rparr>) s;
        (case hit of
           Some (pte, megapage) \<Rightarrow>
             (if \<not> is_pte_valid pte then Some (Inl (page_fault_exception wr fetch), s1)
              else if \<not> is_access_allowed (cpu_mem s1 k) pte wr fetch then
                Some (Inl (page_fault_exception wr fetch), s1)
              else if megapage \<and> pte_ppn0 pte \<noteq> 0 then Some (Inl (page_fault_exception wr fetch), s1)
              else if \<not> pte_access_dirty_update_needed pte wr then
                Some (Inr (make_phys_from_ppn virt pte megapage), s1)
              else do {
                tlb2 \<leftarrow> rv32_tlb_remove_mapping tlb1 asid virt;
                rv32_pagewalk k virt wr fetch noisy (set_cpu k ((cpu_mem s1 k)\<lparr>tlb := tlb2\<rparr>) s1)
              })
         | None \<Rightarrow> rv32_pagewalk k virt wr fetch noisy s1)
      })
   }"

end
