(* ===== verification/Rv_Memory.thy ===== *)
theory Rv_Memory
  imports Rv32_Vm
begin

text \<open>
  Virtual memory accesses of the RISC-V processors: \<open>src/src/device/cpu/riscv_rv_ima/memory.c\<close>. The
  address translation \<open>rv_convert_addr\<close> is a macro parameter of this file, set to the translation of
  the processor it is compiled for; here it is the argument \<open>conv\<close>. A read or write returns the
  exception or the value read, and the machine.
\<close>

type_synonym ('x, 't, 'd, 'z) rv_machine = "(('x, 't) rv_cpu, 'd, 'z) machine_scheme"

type_synonym ('x, 't, 'd, 'z) convert =
  "nat \<Rightarrow> 'x word \<Rightarrow> bool \<Rightarrow> bool \<Rightarrow> bool \<Rightarrow> ('x, 't, 'd, 'z) rv_machine \<Rightarrow>
   ((rv_exc + ptr36) \<times> ('x, 't, 'd, 'z) rv_machine) option"

definition RV_START_ADDRESS :: "'x::len word" where "RV_START_ADDRESS = 0xF0000000"
definition RV_MTIME_ADDRESS :: "'x::len word" where "RV_MTIME_ADDRESS = 0xFF000000"
definition RV_MTIMECMP_ADDRESS :: "'x::len word" where "RV_MTIMECMP_ADDRESS = 0xFF000008"

definition read_address_misaligned_exception :: "bool \<Rightarrow> rv_exc" where
  "read_address_misaligned_exception fetch =
     (if fetch then rv_exc_instruction_address_misaligned else rv_exc_load_address_misaligned)"

subsection \<open>Memory-mapped registers\<close>

text \<open>The body shared by the four reads; the extracted field is \<open>width / 8\<close> bits wide.\<close>

definition try_read_memory_mapped_regs_body ::
    "nat \<Rightarrow> ('x::len, 't) rv_cpu \<Rightarrow> 'x word \<Rightarrow> 'a::len word option" where
  "try_read_memory_mapped_regs_body width cpu virt =
     (if \<not> IS_ALIGNED virt (of_nat (width div 8)) then None
      else if priv_mode cpu < rv_mmode \<or> rv_csr_mstatus_mprv cpu then None
      else (let offset = unat (virt AND 0x7) * 8 in
        if ALIGN_DOWN virt 8 = RV_MTIME_ADDRESS then
          Some (ucast (EXTRACT_BITS (mtime (csr cpu)) offset (offset + width div 8)))
        else if ALIGN_DOWN virt 8 = RV_MTIMECMP_ADDRESS then
          Some (ucast (EXTRACT_BITS (mtimecmp (csr cpu)) offset (offset + width div 8)))
        else None))"

definition try_read_memory_mapped_regs_64 :: "('x::len, 't) rv_cpu \<Rightarrow> 'x word \<Rightarrow> u64 option" where
  "try_read_memory_mapped_regs_64 cpu virt = try_read_memory_mapped_regs_body 64 cpu virt"

definition try_read_memory_mapped_regs_32 :: "('x::len, 't) rv_cpu \<Rightarrow> 'x word \<Rightarrow> u32 option" where
  "try_read_memory_mapped_regs_32 cpu virt = try_read_memory_mapped_regs_body 32 cpu virt"

definition try_read_memory_mapped_regs_16 :: "('x::len, 't) rv_cpu \<Rightarrow> 'x word \<Rightarrow> u16 option" where
  "try_read_memory_mapped_regs_16 cpu virt = try_read_memory_mapped_regs_body 16 cpu virt"

definition try_read_memory_mapped_regs_8 :: "('x::len, 't) rv_cpu \<Rightarrow> 'x word \<Rightarrow> u8 option" where
  "try_read_memory_mapped_regs_8 cpu virt = try_read_memory_mapped_regs_body 8 cpu virt"

definition handle_mtip :: "('x::len, 't) rv_cpu \<Rightarrow> ('x, 't) rv_cpu" where
  "handle_mtip cpu =
     (if mtime (csr cpu) \<ge> mtimecmp (csr cpu)
      then cpu\<lparr>csr := (csr cpu)\<lparr>mip := mip (csr cpu) OR ucast rv_csr_mti_mask\<rparr>\<rparr>
      else cpu\<lparr>csr := (csr cpu)\<lparr>mip := mip (csr cpu) AND ucast (NOT rv_csr_mti_mask)\<rparr>\<rparr>)"

text \<open>
  The inner option is whether the address is one of the registers. For \<open>width\<close> 64 the mask of
  \<open>WRITE_BITS\<close> shifts a 64-bit one by 64, which is undefined behaviour.
\<close>

definition try_write_memory_mapped_regs ::
    "('x::len, 't) rv_cpu \<Rightarrow> u64 \<Rightarrow> u64 \<Rightarrow> nat \<Rightarrow> ('x, 't) rv_cpu option option" where
  "try_write_memory_mapped_regs cpu virt value width =
     (if \<not> IS_ALIGNED virt (of_nat (width div 8)) then Some None
      else if priv_mode cpu < rv_mmode \<or> rv_csr_mstatus_mprv cpu then Some None
      else (let offset = unat (virt AND 0x7) * 8 in
        if ALIGN_DOWN virt 8 = ucast (RV_MTIME_ADDRESS :: 'x word) then do {
          ASSERT (width < 64);
          Some (Some (handle_mtip (cpu\<lparr>csr := (csr cpu)\<lparr>mtime :=
                  WRITE_BITS (mtime (csr cpu)) value offset (offset + width)\<rparr>\<rparr>)))
        }
        else if ALIGN_DOWN virt 8 = ucast (RV_MTIMECMP_ADDRESS :: 'x word) then do {
          ASSERT (width < 64);
          Some (Some (handle_mtip (cpu\<lparr>csr := (csr cpu)\<lparr>mtimecmp :=
                  WRITE_BITS (mtimecmp (csr cpu)) value offset (offset + width)\<rparr>\<rparr>)))
        }
        else Some None))"

definition throw_ex ::
    "nat \<Rightarrow> 'x::len word \<Rightarrow> rv_exc \<Rightarrow> bool \<Rightarrow> ('x, 't, 'd, 'z) rv_machine \<Rightarrow>
     ((rv_exc + 'a) \<times> ('x, 't, 'd, 'z) rv_machine) option" where
  "throw_ex k virt ex noisy s =
     Some (Inl ex,
       if noisy then set_cpu k ((cpu_mem s k)\<lparr>csr := (csr (cpu_mem s k))\<lparr>tval_next := virt\<rparr>\<rparr>) s else s)"

subsection \<open>Reads\<close>

definition rv_read_mem64 ::
    "('x::len, 't, 'd, 'z) convert \<Rightarrow> nat \<Rightarrow> 'x word \<Rightarrow> bool \<Rightarrow> bool \<Rightarrow> ('x, 't, 'd, 'z) rv_machine \<Rightarrow>
     ((rv_exc + u64) \<times> ('x, 't, 'd, 'z) rv_machine) option" where
  "rv_read_mem64 conv k virt fetch noisy s =
     (case try_read_memory_mapped_regs_64 (cpu_mem s k) virt of
        Some value \<Rightarrow> Some (Inr value, s)
      | None \<Rightarrow> do {
          (r, s1) \<leftarrow> conv k virt False fetch noisy s;
          (case r of
             Inl ex \<Rightarrow> throw_ex k virt ex noisy s1
           | Inr phys \<Rightarrow>
               (if \<not> IS_ALIGNED virt 8 then
                  throw_ex k virt (read_address_misaligned_exception fetch) noisy s1
                else do {
                  (value, s2) \<leftarrow> physmem_read64 (hartid k s1) phys True s1;
                  Some (Inr value, s2)
                }))
        })"

definition rv_read_mem32 ::
    "('x::len, 't, 'd, 'z) convert \<Rightarrow> nat \<Rightarrow> 'x word \<Rightarrow> bool \<Rightarrow> bool \<Rightarrow> ('x, 't, 'd, 'z) rv_machine \<Rightarrow>
     ((rv_exc + u32) \<times> ('x, 't, 'd, 'z) rv_machine) option" where
  "rv_read_mem32 conv k virt fetch noisy s =
     (case try_read_memory_mapped_regs_32 (cpu_mem s k) virt of
        Some value \<Rightarrow> Some (Inr value, s)
      | None \<Rightarrow> do {
          (r, s1) \<leftarrow> conv k virt False fetch noisy s;
          (case r of
             Inl ex \<Rightarrow> throw_ex k virt ex noisy s1
           | Inr phys \<Rightarrow>
               (if \<not> IS_ALIGNED virt 4 then
                  throw_ex k virt (read_address_misaligned_exception fetch) noisy s1
                else do {
                  (value, s2) \<leftarrow> physmem_read32 (hartid k s1) phys True s1;
                  Some (Inr value, s2)
                }))
        })"

definition rv_read_mem16 ::
    "('x::len, 't, 'd, 'z) convert \<Rightarrow> nat \<Rightarrow> 'x word \<Rightarrow> bool \<Rightarrow> bool \<Rightarrow> ('x, 't, 'd, 'z) rv_machine \<Rightarrow>
     ((rv_exc + u16) \<times> ('x, 't, 'd, 'z) rv_machine) option" where
  "rv_read_mem16 conv k virt fetch noisy s =
     (case try_read_memory_mapped_regs_16 (cpu_mem s k) virt of
        Some value \<Rightarrow> Some (Inr value, s)
      | None \<Rightarrow> do {
          (r, s1) \<leftarrow> conv k virt False fetch noisy s;
          (case r of
             Inl ex \<Rightarrow> throw_ex k virt ex noisy s1
           | Inr phys \<Rightarrow>
               (if \<not> IS_ALIGNED virt 2 then
                  throw_ex k virt (read_address_misaligned_exception fetch) noisy s1
                else do {
                  (value, s2) \<leftarrow> physmem_read16 (hartid k s1) phys True s1;
                  Some (Inr value, s2)
                }))
        })"

definition rv_read_mem8 ::
    "('x::len, 't, 'd, 'z) convert \<Rightarrow> nat \<Rightarrow> 'x word \<Rightarrow> bool \<Rightarrow> ('x, 't, 'd, 'z) rv_machine \<Rightarrow>
     ((rv_exc + u8) \<times> ('x, 't, 'd, 'z) rv_machine) option" where
  "rv_read_mem8 conv k virt noisy s =
     (case try_read_memory_mapped_regs_8 (cpu_mem s k) virt of
        Some value \<Rightarrow> Some (Inr value, s)
      | None \<Rightarrow> do {
          (r, s1) \<leftarrow> conv k virt False False noisy s;
          (case r of
             Inl ex \<Rightarrow> throw_ex k virt ex noisy s1
           | Inr phys \<Rightarrow> do {
               (value, s2) \<leftarrow> physmem_read8 (hartid k s1) phys True s1;
               Some (Inr value, s2)
             })
        })"

subsection \<open>Writes\<close>

text \<open>A write to memory that refuses it (read-only memory, no memory and no device) is ignored.\<close>

definition rv_write_mem8 ::
    "('x::len, 't, 'd, 'z) convert \<Rightarrow> nat \<Rightarrow> 'x word \<Rightarrow> u8 \<Rightarrow> bool \<Rightarrow> ('x, 't, 'd, 'z) rv_machine \<Rightarrow>
     ((rv_exc + unit) \<times> ('x, 't, 'd, 'z) rv_machine) option" where
  "rv_write_mem8 conv k virt value noisy s = do {
     reg \<leftarrow> try_write_memory_mapped_regs (cpu_mem s k) (ucast virt) (ucast value) 8;
     (case reg of
        Some cpu \<Rightarrow> Some (Inr (), set_cpu k cpu s)
      | None \<Rightarrow> do {
          (r, s1) \<leftarrow> conv k virt True False noisy s;
          (case r of
             Inl ex \<Rightarrow> throw_ex k virt ex noisy s1
           | Inr phys \<Rightarrow>
               do {
                  (_, s2) \<leftarrow> physmem_write8 (hartid k s1) phys value True s1;
                  Some (Inr (), s2)
                })
        })
   }"

definition rv_write_mem16 ::
    "('x::len, 't, 'd, 'z) convert \<Rightarrow> nat \<Rightarrow> 'x word \<Rightarrow> u16 \<Rightarrow> bool \<Rightarrow> ('x, 't, 'd, 'z) rv_machine \<Rightarrow>
     ((rv_exc + unit) \<times> ('x, 't, 'd, 'z) rv_machine) option" where
  "rv_write_mem16 conv k virt value noisy s = do {
     reg \<leftarrow> try_write_memory_mapped_regs (cpu_mem s k) (ucast virt) (ucast value) 16;
     (case reg of
        Some cpu \<Rightarrow> Some (Inr (), set_cpu k cpu s)
      | None \<Rightarrow> do {
          (r, s1) \<leftarrow> conv k virt True False noisy s;
          (case r of
             Inl ex \<Rightarrow> throw_ex k virt ex noisy s1
           | Inr phys \<Rightarrow>
               (if \<not> IS_ALIGNED virt 2 then
                  throw_ex k virt rv_exc_store_amo_address_misaligned noisy s1
                else do {
                  (_, s2) \<leftarrow> physmem_write16 (hartid k s1) phys value True s1;
                  Some (Inr (), s2)
                }))
        })
   }"

definition rv_write_mem32 ::
    "('x::len, 't, 'd, 'z) convert \<Rightarrow> nat \<Rightarrow> 'x word \<Rightarrow> u32 \<Rightarrow> bool \<Rightarrow> ('x, 't, 'd, 'z) rv_machine \<Rightarrow>
     ((rv_exc + unit) \<times> ('x, 't, 'd, 'z) rv_machine) option" where
  "rv_write_mem32 conv k virt value noisy s = do {
     reg \<leftarrow> try_write_memory_mapped_regs (cpu_mem s k) (ucast virt) (ucast value) 32;
     (case reg of
        Some cpu \<Rightarrow> Some (Inr (), set_cpu k cpu s)
      | None \<Rightarrow> do {
          (r, s1) \<leftarrow> conv k virt True False noisy s;
          (case r of
             Inl ex \<Rightarrow> throw_ex k virt ex noisy s1
           | Inr phys \<Rightarrow>
               (if \<not> IS_ALIGNED virt 4 then
                  throw_ex k virt rv_exc_store_amo_address_misaligned noisy s1
                else do {
                  (_, s2) \<leftarrow> physmem_write32 (hartid k s1) phys value True s1;
                  Some (Inr (), s2)
                }))
        })
   }"

definition rv_write_mem64 ::
    "('x::len, 't, 'd, 'z) convert \<Rightarrow> nat \<Rightarrow> 'x word \<Rightarrow> u64 \<Rightarrow> bool \<Rightarrow> ('x, 't, 'd, 'z) rv_machine \<Rightarrow>
     ((rv_exc + unit) \<times> ('x, 't, 'd, 'z) rv_machine) option" where
  "rv_write_mem64 conv k virt value noisy s = do {
     reg \<leftarrow> try_write_memory_mapped_regs (cpu_mem s k) (ucast virt) (ucast value) 64;
     (case reg of
        Some cpu \<Rightarrow> Some (Inr (), set_cpu k cpu s)
      | None \<Rightarrow> do {
          (r, s1) \<leftarrow> conv k virt True False noisy s;
          (case r of
             Inl ex \<Rightarrow> throw_ex k virt ex noisy s1
           | Inr phys \<Rightarrow>
               (if \<not> IS_ALIGNED virt 8 then
                  throw_ex k virt rv_exc_store_amo_address_misaligned noisy s1
                else do {
                  (_, s2) \<leftarrow> physmem_write64 (hartid k s1) phys value True s1;
                  Some (Inr (), s2)
                }))
        })
   }"

subsection \<open>Reservations\<close>

definition rv_sc_access :: "('x::len, 't) rv_cpu \<Rightarrow> ptr36 \<Rightarrow> nat \<Rightarrow> bool \<times> ('x, 't) rv_cpu" where
  "rv_sc_access cpu phys sz =
     (let hit = AREAS_OVERLAP (reserved_addr cpu) 4 phys (of_nat sz)
      in (hit, if hit then cpu\<lparr>reserved_valid := False\<rparr> else cpu))"

end
