(* ===== verification/Rv_Computations.thy ===== *)
theory Rv_Computations
  imports Rv_Memory "HOL-Library.Signed_Division"
begin

text \<open>
  The arithmetic and atomic instructions: \<open>riscv_rv_ima/instructions/computations.c\<close>. An instruction
  that uses only registers is a function of the processor; an atomic memory operation threads the
  machine and takes the address translation. \<open>None\<close> is a failed \<open>ASSERT\<close> or undefined behaviour
  (overflow of a signed 32-bit addition, subtraction or multiplication, and shifts by the width or
  more).
\<close>

type_synonym ('x, 't) reg_instr = "('x, 't) rv_cpu \<Rightarrow> rv_instr \<Rightarrow> (rv_exc \<times> ('x, 't) rv_cpu) option"

type_synonym ('x, 't, 'd, 'z) mem_instr =
  "('x, 't, 'd, 'z) convert \<Rightarrow> nat \<Rightarrow> rv_instr \<Rightarrow> ('x, 't, 'd, 'z) rv_machine \<Rightarrow>
   (rv_exc \<times> ('x, 't, 'd, 'z) rv_machine) option"

abbreviation set_reg :: "nat \<Rightarrow> 'x::len word \<Rightarrow> ('x, 't) rv_cpu \<Rightarrow> ('x, 't) rv_cpu" where
  "set_reg r v cpu \<equiv> cpu\<lparr>regs := (regs cpu)(r := v)\<rparr>"

subsection \<open>Opcodes\<close>

definition rv_opcLOAD :: "7 word" where "rv_opcLOAD = 0x03"
definition rv_opcMISC_MEM :: "7 word" where "rv_opcMISC_MEM = 0x0F"
definition rv_opcOP_IMM :: "7 word" where "rv_opcOP_IMM = 0x13"
definition rv_opcAUIPC :: "7 word" where "rv_opcAUIPC = 0x17"
definition rv_opcSTORE :: "7 word" where "rv_opcSTORE = 0x23"
definition rv_opcAMO :: "7 word" where "rv_opcAMO = 0x2F"
definition rv_opcOP :: "7 word" where "rv_opcOP = 0x33"
definition rv_opcLUI :: "7 word" where "rv_opcLUI = 0x37"
definition rv_opcOP_32 :: "7 word" where "rv_opcOP_32 = 0x3B"
definition rv_opcOP_IMM_32 :: "7 word" where "rv_opcOP_IMM_32 = 0x1B"
definition rv_opcBRANCH :: "7 word" where "rv_opcBRANCH = 0x63"
definition rv_opcJALR :: "7 word" where "rv_opcJALR = 0x67"
definition rv_opcJAL :: "7 word" where "rv_opcJAL = 0x6F"
definition rv_opcSYSTEM :: "7 word" where "rv_opcSYSTEM = 0x73"

lemmas rv_opc_defs =
  rv_opcLOAD_def rv_opcMISC_MEM_def rv_opcOP_IMM_def rv_opcAUIPC_def rv_opcSTORE_def rv_opcAMO_def
  rv_opcOP_def rv_opcLUI_def rv_opcOP_32_def rv_opcOP_IMM_32_def rv_opcBRANCH_def rv_opcJALR_def
  rv_opcJAL_def rv_opcSYSTEM_def

text \<open>The range of \<open>int32_t\<close>, outside of which signed arithmetic is undefined.\<close>

definition int32_ok :: "int \<Rightarrow> bool" where
  "int32_ok i \<longleftrightarrow> - (2 ^ 31) \<le> i \<and> i < 2 ^ 31"

definition XLEN_MIN :: "'x::len word" where
  "XLEN_MIN = push_bit (LENGTH('x) - 1) 1"

subsection \<open>OP\<close>

definition rv_add_instr :: "('x::len, 't) reg_instr" where
  "rv_add_instr cpu instr = do {
     ASSERT (instr_opcode instr = rv_opcOP);
     let lhs = regs cpu (instr_rs1 instr);
     let rhs = regs cpu (instr_rs2 instr);
     Some (rv_exc_none, set_reg (instr_rd instr) (lhs + rhs) cpu)
   }"

definition rv_addw_instr :: "('x::len, 't) reg_instr" where
  "rv_addw_instr cpu instr = do {
     ASSERT (instr_opcode instr = rv_opcOP_32);
     let lhs = (ucast (regs cpu (instr_rs1 instr)) :: u32);
     let rhs = (ucast (regs cpu (instr_rs2 instr)) :: u32);
     ASSERT (int32_ok (sint lhs + sint rhs));
     Some (rv_exc_none, set_reg (instr_rd instr) (scast (lhs + rhs)) cpu)
   }"

definition rv_sub_instr :: "('x::len, 't) reg_instr" where
  "rv_sub_instr cpu instr = do {
     ASSERT (instr_opcode instr = rv_opcOP);
     let lhs = regs cpu (instr_rs1 instr);
     let rhs = regs cpu (instr_rs2 instr);
     Some (rv_exc_none, set_reg (instr_rd instr) (lhs - rhs) cpu)
   }"

definition rv_subw_instr :: "('x::len, 't) reg_instr" where
  "rv_subw_instr cpu instr = do {
     ASSERT (instr_opcode instr = rv_opcOP_32);
     let lhs = (ucast (regs cpu (instr_rs1 instr)) :: u32);
     let rhs = (ucast (regs cpu (instr_rs2 instr)) :: u32);
     ASSERT (int32_ok (sint lhs - sint rhs));
     Some (rv_exc_none, set_reg (instr_rd instr) (scast (lhs - rhs)) cpu)
   }"

definition rv_sll_instr :: "('x::len, 't) reg_instr" where
  "rv_sll_instr cpu instr = do {
     ASSERT (instr_opcode instr = rv_opcOP);
     let lhs = regs cpu (instr_rs1 instr);
     let rhs = shift_instr_mask TYPE('x) AND regs cpu (instr_rs2 instr);
     Some (rv_exc_none, set_reg (instr_rd instr) (push_bit (unat rhs) lhs) cpu)
   }"

definition rv_sllw_instr :: "('x::len, 't) reg_instr" where
  "rv_sllw_instr cpu instr = do {
     ASSERT (instr_opcode instr = rv_opcOP_32);
     let lhs = (ucast (regs cpu (instr_rs1 instr)) :: u32);
     let rhs = 0x1F AND regs cpu (instr_rs2 instr);
     Some (rv_exc_none, set_reg (instr_rd instr) (scast (push_bit (unat rhs) lhs)) cpu)
   }"

definition rv_slt_instr :: "('x::len, 't) reg_instr" where
  "rv_slt_instr cpu instr = do {
     ASSERT (instr_opcode instr = rv_opcOP);
     let lhs = regs cpu (instr_rs1 instr);
     let rhs = regs cpu (instr_rs2 instr);
     Some (rv_exc_none, set_reg (instr_rd instr) (if sint lhs < sint rhs then 1 else 0) cpu)
   }"

definition rv_sltu_instr :: "('x::len, 't) reg_instr" where
  "rv_sltu_instr cpu instr = do {
     ASSERT (instr_opcode instr = rv_opcOP);
     let lhs = regs cpu (instr_rs1 instr);
     let rhs = regs cpu (instr_rs2 instr);
     Some (rv_exc_none, set_reg (instr_rd instr) (if lhs < rhs then 1 else 0) cpu)
   }"

definition rv_xor_instr :: "('x::len, 't) reg_instr" where
  "rv_xor_instr cpu instr = do {
     ASSERT (instr_opcode instr = rv_opcOP);
     let lhs = regs cpu (instr_rs1 instr);
     let rhs = regs cpu (instr_rs2 instr);
     Some (rv_exc_none, set_reg (instr_rd instr) (lhs XOR rhs) cpu)
   }"

definition rv_srl_instr :: "('x::len, 't) reg_instr" where
  "rv_srl_instr cpu instr = do {
     ASSERT (instr_opcode instr = rv_opcOP);
     let lhs = regs cpu (instr_rs1 instr);
     let rhs = shift_instr_mask TYPE('x) AND regs cpu (instr_rs2 instr);
     Some (rv_exc_none, set_reg (instr_rd instr) (drop_bit (unat rhs) lhs) cpu)
   }"

definition rv_srlw_instr :: "('x::len, 't) reg_instr" where
  "rv_srlw_instr cpu instr = do {
     ASSERT (instr_opcode instr = rv_opcOP_32);
     let lhs = (ucast (regs cpu (instr_rs1 instr)) :: u32);
     let rhs = 0x1F AND regs cpu (instr_rs2 instr);
     Some (rv_exc_none, set_reg (instr_rd instr) (scast (drop_bit (unat rhs) lhs)) cpu)
   }"

definition rv_sra_instr :: "('x::len, 't) reg_instr" where
  "rv_sra_instr cpu instr = do {
     ASSERT (instr_opcode instr = rv_opcOP);
     let lhs = regs cpu (instr_rs1 instr);
     let rhs = shift_instr_mask TYPE('x) AND regs cpu (instr_rs2 instr);
     Some (rv_exc_none, set_reg (instr_rd instr) (signed_drop_bit (unat rhs) lhs) cpu)
   }"

definition rv_sraw_instr :: "('x::len, 't) reg_instr" where
  "rv_sraw_instr cpu instr = do {
     ASSERT (instr_opcode instr = rv_opcOP_32);
     let lhs = (ucast (regs cpu (instr_rs1 instr)) :: u32);
     let rhs = 0x1F AND regs cpu (instr_rs2 instr);
     Some (rv_exc_none, set_reg (instr_rd instr) (scast (signed_drop_bit (unat rhs) lhs)) cpu)
   }"

definition rv_or_instr :: "('x::len, 't) reg_instr" where
  "rv_or_instr cpu instr = do {
     ASSERT (instr_opcode instr = rv_opcOP);
     let lhs = regs cpu (instr_rs1 instr);
     let rhs = regs cpu (instr_rs2 instr);
     Some (rv_exc_none, set_reg (instr_rd instr) (lhs OR rhs) cpu)
   }"

definition rv_and_instr :: "('x::len, 't) reg_instr" where
  "rv_and_instr cpu instr = do {
     ASSERT (instr_opcode instr = rv_opcOP);
     let lhs = regs cpu (instr_rs1 instr);
     let rhs = regs cpu (instr_rs2 instr);
     Some (rv_exc_none, set_reg (instr_rd instr) (lhs AND rhs) cpu)
   }"

subsection \<open>OP-IMM\<close>

text \<open>The shifts left and right that extend the signed 12-bit field yield its value as an \<open>int32_t\<close>.\<close>

definition rv_addi_instr :: "('x::len, 't) reg_instr" where
  "rv_addi_instr cpu instr = do {
     ASSERT (instr_opcode instr = rv_opcOP_IMM);
     let imm = (scast (i_imm instr) :: 'x word);
     Some (rv_exc_none, set_reg (instr_rd instr) (regs cpu (instr_rs1 instr) + imm) cpu)
   }"

definition rv_addiw_instr :: "('x::len, 't) reg_instr" where
  "rv_addiw_instr cpu instr = do {
     ASSERT (instr_opcode instr = rv_opcOP_IMM_32);
     let lhs = (ucast (regs cpu (instr_rs1 instr)) :: u32);
     let imm = (scast (i_imm instr) :: u32);
     ASSERT (int32_ok (sint lhs + sint imm));
     Some (rv_exc_none, set_reg (instr_rd instr) (scast (lhs + imm)) cpu)
   }"

definition rv_slti_instr :: "('x::len, 't) reg_instr" where
  "rv_slti_instr cpu instr = do {
     ASSERT (instr_opcode instr = rv_opcOP_IMM);
     let imm = (scast (i_imm instr) :: 'x word);
     Some (rv_exc_none, set_reg (instr_rd instr) (if sint (regs cpu (instr_rs1 instr)) < sint imm then 1 else 0) cpu)
   }"

definition rv_sltiu_instr :: "('x::len, 't) reg_instr" where
  "rv_sltiu_instr cpu instr = do {
     ASSERT (instr_opcode instr = rv_opcOP_IMM);
     let imm = (scast (i_imm instr) :: 'x word);
     Some (rv_exc_none, set_reg (instr_rd instr) (if regs cpu (instr_rs1 instr) < imm then 1 else 0) cpu)
   }"

definition rv_andi_instr :: "('x::len, 't) reg_instr" where
  "rv_andi_instr cpu instr = do {
     ASSERT (instr_opcode instr = rv_opcOP_IMM);
     let imm = (scast (i_imm instr) :: 'x word);
     Some (rv_exc_none, set_reg (instr_rd instr) (regs cpu (instr_rs1 instr) AND imm) cpu)
   }"

definition rv_ori_instr :: "('x::len, 't) reg_instr" where
  "rv_ori_instr cpu instr = do {
     ASSERT (instr_opcode instr = rv_opcOP_IMM);
     let imm = (scast (i_imm instr) :: 'x word);
     Some (rv_exc_none, set_reg (instr_rd instr) (regs cpu (instr_rs1 instr) OR imm) cpu)
   }"

definition rv_xori_instr :: "('x::len, 't) reg_instr" where
  "rv_xori_instr cpu instr = do {
     ASSERT (instr_opcode instr = rv_opcOP_IMM);
     let imm = (scast (i_imm instr) :: 'x word);
     Some (rv_exc_none, set_reg (instr_rd instr) (regs cpu (instr_rs1 instr) XOR imm) cpu)
   }"

text \<open>The shift amount of \<open>slli\<close> and \<open>srli\<close> is masked to six bits also where \<open>XLEN\<close> is 32.\<close>

definition rv_slli_instr :: "('x::len, 't) reg_instr" where
  "rv_slli_instr cpu instr = do {
     ASSERT (instr_opcode instr = rv_opcOP_IMM);
     let imm = unat (i_imm instr AND 0x3F);
     ASSERT (imm < LENGTH('x));
     Some (rv_exc_none, set_reg (instr_rd instr) (push_bit imm (regs cpu (instr_rs1 instr))) cpu)
   }"

definition rv_slliw_instr :: "('x::len, 't) reg_instr" where
  "rv_slliw_instr cpu instr = do {
     ASSERT (instr_opcode instr = rv_opcOP_IMM_32);
     let imm = unat (i_imm instr AND 0x1F);
     Some (rv_exc_none, set_reg (instr_rd instr) (scast (push_bit imm (ucast (regs cpu (instr_rs1 instr)) :: u32))) cpu)
   }"

definition rv_srli_instr :: "('x::len, 't) reg_instr" where
  "rv_srli_instr cpu instr = do {
     ASSERT (instr_opcode instr = rv_opcOP_IMM);
     let imm = unat (i_imm instr AND 0x3F);
     ASSERT (imm < LENGTH('x));
     Some (rv_exc_none, set_reg (instr_rd instr) (drop_bit imm (regs cpu (instr_rs1 instr))) cpu)
   }"

definition rv_srliw_instr :: "('x::len, 't) reg_instr" where
  "rv_srliw_instr cpu instr = do {
     ASSERT (instr_opcode instr = rv_opcOP_IMM_32);
     let imm = unat (i_imm instr AND 0x1F);
     Some (rv_exc_none, set_reg (instr_rd instr) (scast (drop_bit imm (ucast (regs cpu (instr_rs1 instr)) :: u32))) cpu)
   }"

definition rv_srai_instr :: "('x::len, 't) reg_instr" where
  "rv_srai_instr cpu instr = do {
     ASSERT (instr_opcode instr = rv_opcOP_IMM);
     let imm = unat (ucast (i_imm instr) AND shift_instr_mask TYPE('x));
     Some (rv_exc_none, set_reg (instr_rd instr) (signed_drop_bit imm (regs cpu (instr_rs1 instr))) cpu)
   }"

definition rv_sraiw_instr :: "('x::len, 't) reg_instr" where
  "rv_sraiw_instr cpu instr = do {
     ASSERT (instr_opcode instr = rv_opcOP_IMM_32);
     let imm = unat (i_imm instr AND 0x1F);
     Some (rv_exc_none, set_reg (instr_rd instr) (scast (signed_drop_bit imm (ucast (regs cpu (instr_rs1 instr)) :: u32))) cpu)
   }"

subsection \<open>LUI and AUIPC\<close>

definition rv_lui_instr :: "('x::len, 't) reg_instr" where
  "rv_lui_instr cpu instr = do {
     ASSERT (instr_opcode instr = rv_opcLUI);
     Some (rv_exc_none, set_reg (instr_rd instr) (sign_extend_32_to_xlen (push_bit 12 (ucast (u_imm instr)))) cpu)
   }"

definition rv_auipc_instr :: "('x::len, 't) reg_instr" where
  "rv_auipc_instr cpu instr = do {
     ASSERT (instr_opcode instr = rv_opcAUIPC);
     let offset = sign_extend_32_to_xlen (push_bit 12 (ucast (u_imm instr)));
     Some (rv_exc_none, set_reg (instr_rd instr) (pc cpu + offset) cpu)
   }"

subsection \<open>The M extension\<close>

text \<open>
  The product in \<open>bigxlen_t\<close> is exact, so that the high half is the integer product shifted right.
  Division truncates towards zero.
\<close>

definition rv_mul_instr :: "('x::len, 't) reg_instr" where
  "rv_mul_instr cpu instr = do {
     ASSERT (instr_opcode instr = rv_opcOP);
     let lhs = regs cpu (instr_rs1 instr);
     let rhs = regs cpu (instr_rs2 instr);
     Some (rv_exc_none, set_reg (instr_rd instr) (lhs * rhs) cpu)
   }"

definition rv_mulw_instr :: "('x::len, 't) reg_instr" where
  "rv_mulw_instr cpu instr = do {
     ASSERT (instr_opcode instr = rv_opcOP_32);
     let lhs = (ucast (regs cpu (instr_rs1 instr)) :: u32);
     let rhs = (ucast (regs cpu (instr_rs2 instr)) :: u32);
     ASSERT (int32_ok (sint lhs * sint rhs));
     Some (rv_exc_none, set_reg (instr_rd instr) (scast (lhs * rhs)) cpu)
   }"

definition rv_mulh_instr :: "('x::len, 't) reg_instr" where
  "rv_mulh_instr cpu instr = do {
     ASSERT (instr_opcode instr = rv_opcOP);
     let lhs = regs cpu (instr_rs1 instr);
     let rhs = regs cpu (instr_rs2 instr);
     Some (rv_exc_none, set_reg (instr_rd instr) (word_of_int (drop_bit LENGTH('x) (sint lhs * sint rhs))) cpu)
   }"

definition rv_mulhsu_instr :: "('x::len, 't) reg_instr" where
  "rv_mulhsu_instr cpu instr = do {
     ASSERT (instr_opcode instr = rv_opcOP);
     let lhs = regs cpu (instr_rs1 instr);
     let rhs = regs cpu (instr_rs2 instr);
     Some (rv_exc_none, set_reg (instr_rd instr) (word_of_int (drop_bit LENGTH('x) (sint lhs * uint rhs))) cpu)
   }"

definition rv_mulhu_instr :: "('x::len, 't) reg_instr" where
  "rv_mulhu_instr cpu instr = do {
     ASSERT (instr_opcode instr = rv_opcOP);
     let lhs = regs cpu (instr_rs1 instr);
     let rhs = regs cpu (instr_rs2 instr);
     Some (rv_exc_none, set_reg (instr_rd instr) (word_of_int (drop_bit LENGTH('x) (uint lhs * uint rhs))) cpu)
   }"

definition rv_div_instr :: "('x::len, 't) reg_instr" where
  "rv_div_instr cpu instr = do {
     ASSERT (instr_opcode instr = rv_opcOP);
     let lhs = regs cpu (instr_rs1 instr);
     let rhs = regs cpu (instr_rs2 instr);
     Some (rv_exc_none, set_reg (instr_rd instr) (if rhs = 0 then - 1 else if lhs = XLEN_MIN \<and> rhs = - 1 then XLEN_MIN
        else word_of_int (sint lhs sdiv sint rhs)) cpu)
   }"

definition rv_divu_instr :: "('x::len, 't) reg_instr" where
  "rv_divu_instr cpu instr = do {
     ASSERT (instr_opcode instr = rv_opcOP);
     let lhs = regs cpu (instr_rs1 instr);
     let rhs = regs cpu (instr_rs2 instr);
     Some (rv_exc_none, set_reg (instr_rd instr) (if rhs = 0 then - 1 else lhs div rhs) cpu)
   }"

definition rv_divw_instr :: "('x::len, 't) reg_instr" where
  "rv_divw_instr cpu instr = do {
     ASSERT (instr_opcode instr = rv_opcOP_32);
     let lhs = (ucast (regs cpu (instr_rs1 instr)) :: u32);
     let rhs = (ucast (regs cpu (instr_rs2 instr)) :: u32);
     Some (rv_exc_none, set_reg (instr_rd instr) (if rhs = 0 then - 1 else if lhs = XLEN_MIN \<and> rhs = - 1 then scast (XLEN_MIN :: u32)
        else scast (word_of_int (sint lhs sdiv sint rhs) :: u32)) cpu)
   }"

definition rv_divuw_instr :: "('x::len, 't) reg_instr" where
  "rv_divuw_instr cpu instr = do {
     ASSERT (instr_opcode instr = rv_opcOP_32);
     let lhs = (ucast (regs cpu (instr_rs1 instr)) :: u32);
     let rhs = (ucast (regs cpu (instr_rs2 instr)) :: u32);
     Some (rv_exc_none, set_reg (instr_rd instr) (if rhs = 0 then scast (- 1 :: u32) else scast (lhs div rhs)) cpu)
   }"

definition rv_rem_instr :: "('x::len, 't) reg_instr" where
  "rv_rem_instr cpu instr = do {
     ASSERT (instr_opcode instr = rv_opcOP);
     let lhs = regs cpu (instr_rs1 instr);
     let rhs = regs cpu (instr_rs2 instr);
     Some (rv_exc_none, set_reg (instr_rd instr) (if rhs = 0 then lhs else if lhs = XLEN_MIN \<and> rhs = - 1 then 0
        else word_of_int (sint lhs smod sint rhs)) cpu)
   }"

definition rv_remw_instr :: "('x::len, 't) reg_instr" where
  "rv_remw_instr cpu instr = do {
     ASSERT (instr_opcode instr = rv_opcOP_32);
     let lhs = (ucast (regs cpu (instr_rs1 instr)) :: u32);
     let rhs = (ucast (regs cpu (instr_rs2 instr)) :: u32);
     Some (rv_exc_none, set_reg (instr_rd instr) (if rhs = 0 then scast lhs else if lhs = XLEN_MIN \<and> rhs = - 1 then 0
        else scast (word_of_int (sint lhs smod sint rhs) :: u32)) cpu)
   }"

definition rv_remu_instr :: "('x::len, 't) reg_instr" where
  "rv_remu_instr cpu instr = do {
     ASSERT (instr_opcode instr = rv_opcOP);
     let lhs = regs cpu (instr_rs1 instr);
     let rhs = regs cpu (instr_rs2 instr);
     Some (rv_exc_none, set_reg (instr_rd instr) (if rhs = 0 then lhs else lhs mod rhs) cpu)
   }"

definition rv_remuw_instr :: "('x::len, 't) reg_instr" where
  "rv_remuw_instr cpu instr = do {
     ASSERT (instr_opcode instr = rv_opcOP_32);
     let lhs = (ucast (regs cpu (instr_rs1 instr)) :: u32);
     let rhs = (ucast (regs cpu (instr_rs2 instr)) :: u32);
     Some (rv_exc_none, set_reg (instr_rd instr) (if rhs = 0 then scast lhs else scast (lhs mod rhs)) cpu)
   }"

lemmas reg_instr_defs =
  rv_add_instr_def rv_addw_instr_def rv_sub_instr_def rv_subw_instr_def rv_sll_instr_def rv_sllw_instr_def
  rv_slt_instr_def rv_sltu_instr_def rv_xor_instr_def rv_srl_instr_def rv_srlw_instr_def rv_sra_instr_def
  rv_sraw_instr_def rv_or_instr_def rv_and_instr_def rv_addi_instr_def rv_addiw_instr_def rv_slti_instr_def
  rv_sltiu_instr_def rv_andi_instr_def rv_ori_instr_def rv_xori_instr_def rv_slli_instr_def rv_slliw_instr_def
  rv_srli_instr_def rv_srliw_instr_def rv_srai_instr_def rv_sraiw_instr_def rv_lui_instr_def rv_auipc_instr_def
  rv_mul_instr_def rv_mulw_instr_def rv_mulh_instr_def rv_mulhsu_instr_def rv_mulhu_instr_def rv_div_instr_def
  rv_divu_instr_def rv_divw_instr_def rv_divuw_instr_def rv_rem_instr_def rv_remw_instr_def rv_remu_instr_def
  rv_remuw_instr_def

subsection \<open>The A extension: atomic memory operations\<close>

text \<open>
  \<open>amo_check\<close> is the pair of macros \<open>throw_if_wrong_privilege\<close> and \<open>throw_if_misaligned_word\<close> or
  \<open>throw_if_misaligned_dword\<close>; its result is the exception thrown. \<open>ASSERT_none\<close> is the assertion
  that a memory access raised none.
\<close>

definition throw_tval :: "nat \<Rightarrow> 'x::len word \<Rightarrow> ('x, 't, 'd, 'z) rv_machine \<Rightarrow> ('x, 't, 'd, 'z) rv_machine" where
  "throw_tval k virt s = set_cpu k (upd_csr (tval_next_update (\<lambda>_. virt)) (cpu_mem s k)) s"

definition amo_check ::
    "('x::len, 't, 'd, 'z) convert \<Rightarrow> nat \<Rightarrow> 'x word \<Rightarrow> 'x word \<Rightarrow> ('x, 't, 'd, 'z) rv_machine \<Rightarrow>
     (rv_exc option \<times> ('x, 't, 'd, 'z) rv_machine) option" where
  "amo_check conv k virt align s = do {
     (r, s1) \<leftarrow> conv k virt True False True s;
     (case r of
        Inl ex \<Rightarrow> Some (Some ex, throw_tval k virt s1)
      | Inr _ \<Rightarrow>
          (if \<not> IS_ALIGNED virt align then Some (Some rv_exc_store_amo_address_misaligned, throw_tval k virt s1)
           else Some (None, s1)))
   }"

fun ASSERT_none :: "rv_exc + 'a \<Rightarrow> 'a option" where
  "ASSERT_none (Inl _) = None"
| "ASSERT_none (Inr v) = Some v"

text \<open>\<open>amoswap\<close> writes the destination register last.\<close>

definition rv_amoswap_w_instr :: "('x::len, 't, 'd, 'z) mem_instr" where
  "rv_amoswap_w_instr conv k instr s = do {
     ASSERT (instr_opcode instr = rv_opcAMO);
     let virt = regs (cpu_mem s k) (instr_rs1 instr);
     (thrown, s1) \<leftarrow> amo_check conv k virt 4 s;
     (case thrown of
        Some ex \<Rightarrow> Some (ex, s1)
      | None \<Rightarrow> do {
          (r, s2) \<leftarrow> rv_read_mem32 conv k virt False True s1;
          val \<leftarrow> ASSERT_none r;
          (r', s3) \<leftarrow> rv_write_mem32 conv k virt (ucast (regs (cpu_mem s2 k) (instr_rs2 instr))) True s2;
          _ \<leftarrow> ASSERT_none r';
          Some (rv_exc_none, set_cpu k (set_reg (instr_rd instr) (sign_extend_32_to_xlen val) (cpu_mem s3 k)) s3)
        })
   }"

definition rv_amoswap_d_instr :: "('x::len, 't, 'd, 'z) mem_instr" where
  "rv_amoswap_d_instr conv k instr s = do {
     ASSERT (instr_opcode instr = rv_opcAMO);
     let virt = regs (cpu_mem s k) (instr_rs1 instr);
     (thrown, s1) \<leftarrow> amo_check conv k virt 8 s;
     (case thrown of
        Some ex \<Rightarrow> Some (ex, s1)
      | None \<Rightarrow> do {
          (r, s2) \<leftarrow> rv_read_mem64 conv k virt False True s1;
          val \<leftarrow> ASSERT_none r;
          (r', s3) \<leftarrow> rv_write_mem64 conv k virt (ucast (regs (cpu_mem s2 k) (instr_rs2 instr))) True s2;
          _ \<leftarrow> ASSERT_none r';
          Some (rv_exc_none, set_cpu k (set_reg (instr_rd instr) (ucast val) (cpu_mem s3 k)) s3)
        })
   }"

text \<open>
  The other operations have one shape: the loaded value is extended into the destination register,
  then combined with the second source register, read after that, and stored.
\<close>

definition amo_w ::
    "(u32 \<Rightarrow> 'x word) \<Rightarrow> (u32 \<Rightarrow> u32 \<Rightarrow> u32) \<Rightarrow> ('x::len, 't, 'd, 'z) mem_instr" where
  "amo_w ext op conv k instr s = do {
     let virt = regs (cpu_mem s k) (instr_rs1 instr);
     (thrown, s1) \<leftarrow> amo_check conv k virt 4 s;
     (case thrown of
        Some ex \<Rightarrow> Some (ex, s1)
      | None \<Rightarrow> do {
          (r, s2) \<leftarrow> rv_read_mem32 conv k virt False True s1;
          val \<leftarrow> ASSERT_none r;
          let s3 = set_cpu k (set_reg (instr_rd instr) (ext val) (cpu_mem s2 k)) s2;
          let rs2 = ucast (regs (cpu_mem s3 k) (instr_rs2 instr));
          (r', s4) \<leftarrow> rv_write_mem32 conv k virt (op val rs2) True s3;
          _ \<leftarrow> ASSERT_none r';
          Some (rv_exc_none, s4)
        })
   }"

definition amo_d ::
    "(u64 \<Rightarrow> 'x word) \<Rightarrow> (u64 \<Rightarrow> u64 \<Rightarrow> u64) \<Rightarrow> ('x::len, 't, 'd, 'z) mem_instr" where
  "amo_d ext op conv k instr s = do {
     let virt = regs (cpu_mem s k) (instr_rs1 instr);
     (thrown, s1) \<leftarrow> amo_check conv k virt 8 s;
     (case thrown of
        Some ex \<Rightarrow> Some (ex, s1)
      | None \<Rightarrow> do {
          (r, s2) \<leftarrow> rv_read_mem64 conv k virt False True s1;
          val \<leftarrow> ASSERT_none r;
          let s3 = set_cpu k (set_reg (instr_rd instr) (ext val) (cpu_mem s2 k)) s2;
          let rs2 = ucast (regs (cpu_mem s3 k) (instr_rs2 instr));
          (r', s4) \<leftarrow> rv_write_mem64 conv k virt (op val rs2) True s3;
          _ \<leftarrow> ASSERT_none r';
          Some (rv_exc_none, s4)
        })
   }"

definition rv_amoadd_w_instr :: "('x::len, 't, 'd, 'z) mem_instr" where
  "rv_amoadd_w_instr = amo_w sign_extend_32_to_xlen (\<lambda>val rs2. val + rs2)"

definition rv_amoadd_d_instr :: "('x::len, 't, 'd, 'z) mem_instr" where
  "rv_amoadd_d_instr = amo_d ucast (\<lambda>val rs2. val + rs2)"

definition rv_amoxor_w_instr :: "('x::len, 't, 'd, 'z) mem_instr" where
  "rv_amoxor_w_instr = amo_w sign_extend_32_to_xlen (\<lambda>val rs2. val XOR rs2)"

definition rv_amoxor_d_instr :: "('x::len, 't, 'd, 'z) mem_instr" where
  "rv_amoxor_d_instr = amo_d ucast (\<lambda>val rs2. val XOR rs2)"

definition rv_amoand_w_instr :: "('x::len, 't, 'd, 'z) mem_instr" where
  "rv_amoand_w_instr = amo_w sign_extend_32_to_xlen (\<lambda>val rs2. val AND rs2)"

definition rv_amoand_d_instr :: "('x::len, 't, 'd, 'z) mem_instr" where
  "rv_amoand_d_instr conv k instr s = do {
     ASSERT (instr_opcode instr = rv_opcAMO);
     amo_d ucast (\<lambda>val rs2. val AND rs2) conv k instr s
   }"

definition rv_amoor_w_instr :: "('x::len, 't, 'd, 'z) mem_instr" where
  "rv_amoor_w_instr = amo_w sign_extend_32_to_xlen (\<lambda>val rs2. val OR rs2)"

definition rv_amoor_d_instr :: "('x::len, 't, 'd, 'z) mem_instr" where
  "rv_amoor_d_instr conv k instr s = do {
     ASSERT (instr_opcode instr = rv_opcAMO);
     amo_d ucast (\<lambda>val rs2. val OR rs2) conv k instr s
   }"

definition rv_amomin_w_instr :: "('x::len, 't, 'd, 'z) mem_instr" where
  "rv_amomin_w_instr = amo_w sign_extend_32_to_xlen (\<lambda>val rs2. if sint rs2 < sint val then rs2 else val)"

definition rv_amomin_d_instr :: "('x::len, 't, 'd, 'z) mem_instr" where
  "rv_amomin_d_instr conv k instr s = do {
     ASSERT (instr_opcode instr = rv_opcAMO);
     amo_d ucast (\<lambda>val rs2. if sint rs2 < sint val then rs2 else val) conv k instr s
   }"

definition rv_amomax_w_instr :: "('x::len, 't, 'd, 'z) mem_instr" where
  "rv_amomax_w_instr = amo_w sign_extend_32_to_xlen (\<lambda>val rs2. if sint rs2 > sint val then rs2 else val)"

definition rv_amomax_d_instr :: "('x::len, 't, 'd, 'z) mem_instr" where
  "rv_amomax_d_instr = amo_d ucast (\<lambda>val rs2. if sint rs2 > sint val then rs2 else val)"

definition rv_amominu_w_instr :: "('x::len, 't, 'd, 'z) mem_instr" where
  "rv_amominu_w_instr = amo_w zero_extend_32_to_xlen (\<lambda>val rs2. if rs2 < val then rs2 else val)"

definition rv_amominu_d_instr :: "('x::len, 't, 'd, 'z) mem_instr" where
  "rv_amominu_d_instr conv k instr s = do {
     ASSERT (instr_opcode instr = rv_opcAMO);
     amo_d ucast (\<lambda>val rs2. if rs2 < val then rs2 else val) conv k instr s
   }"

definition rv_amomaxu_w_instr :: "('x::len, 't, 'd, 'z) mem_instr" where
  "rv_amomaxu_w_instr = amo_w zero_extend_32_to_xlen (\<lambda>val rs2. if rs2 > val then rs2 else val)"

definition rv_amomaxu_d_instr :: "('x::len, 't, 'd, 'z) mem_instr" where
  "rv_amomaxu_d_instr conv k instr s = do {
     ASSERT (instr_opcode instr = rv_opcAMO);
     amo_d ucast (\<lambda>val rs2. if rs2 > val then rs2 else val) conv k instr s
   }"

lemmas amo_w_defs =
  rv_amoadd_w_instr_def rv_amoxor_w_instr_def rv_amoand_w_instr_def rv_amoor_w_instr_def
  rv_amomin_w_instr_def rv_amomax_w_instr_def rv_amominu_w_instr_def rv_amomaxu_w_instr_def

end
