(* ===== verification/Rv_Control.thy ===== *)
theory Rv_Control
  imports Rv_Computations
begin

text \<open>
  The jumps and branches: \<open>riscv_rv_ima/instructions/control_transfer.c\<close>. A taken jump to an address
  that is not a multiple of four raises the misaligned exception with the target in \<open>tval_next\<close>; a
  taken jump sets \<open>pc_next\<close>.
\<close>

definition jump_to :: "'x::len word \<Rightarrow> ('x, 't) rv_cpu \<Rightarrow> ('x, 't) rv_cpu \<Rightarrow> (rv_exc \<times> ('x, 't) rv_cpu) option" where
  "jump_to target cpu linked =
     (if \<not> IS_ALIGNED target 4 then
        Some (rv_exc_instruction_address_misaligned, upd_csr (tval_next_update (\<lambda>_. target)) cpu)
      else Some (rv_exc_none, linked\<lparr>pc_next := target\<rparr>))"

definition rv_jal_instr :: "('x::len, 't) reg_instr" where
  "rv_jal_instr cpu instr = do {
     ASSERT (instr_opcode instr = rv_opcJAL);
     jump_to (pc cpu + RV_J_IMM instr) cpu (set_reg (instr_rd instr) (pc cpu + 4) cpu)
   }"

definition rv_jalr_instr :: "('x::len, 't) reg_instr" where
  "rv_jalr_instr cpu instr = do {
     ASSERT (instr_opcode instr = rv_opcJALR);
     ASSERT (instr_funct3 instr = 0);
     jump_to ((regs cpu (instr_rs1 instr) + scast (i_imm instr)) AND NOT 1) cpu
       (set_reg (instr_rd instr) (pc cpu + 4) cpu)
   }"

definition rv_beq_instr :: "('x::len, 't) reg_instr" where
  "rv_beq_instr cpu instr = do {
     ASSERT (instr_opcode instr = rv_opcBRANCH);
     let target = pc cpu + RV_B_IMM instr;
     let lhs = regs cpu (instr_rs1 instr);
     let rhs = regs cpu (instr_rs2 instr);
     (if lhs = rhs then jump_to target cpu cpu else Some (rv_exc_none, cpu))
   }"

definition rv_bne_instr :: "('x::len, 't) reg_instr" where
  "rv_bne_instr cpu instr = do {
     ASSERT (instr_opcode instr = rv_opcBRANCH);
     let target = pc cpu + RV_B_IMM instr;
     let lhs = regs cpu (instr_rs1 instr);
     let rhs = regs cpu (instr_rs2 instr);
     (if lhs \<noteq> rhs then jump_to target cpu cpu else Some (rv_exc_none, cpu))
   }"

definition rv_blt_instr :: "('x::len, 't) reg_instr" where
  "rv_blt_instr cpu instr = do {
     ASSERT (instr_opcode instr = rv_opcBRANCH);
     let target = pc cpu + RV_B_IMM instr;
     let lhs = regs cpu (instr_rs1 instr);
     let rhs = regs cpu (instr_rs2 instr);
     (if sint lhs < sint rhs then jump_to target cpu cpu else Some (rv_exc_none, cpu))
   }"

definition rv_bltu_instr :: "('x::len, 't) reg_instr" where
  "rv_bltu_instr cpu instr = do {
     ASSERT (instr_opcode instr = rv_opcBRANCH);
     let target = pc cpu + RV_B_IMM instr;
     let lhs = regs cpu (instr_rs1 instr);
     let rhs = regs cpu (instr_rs2 instr);
     (if lhs < rhs then jump_to target cpu cpu else Some (rv_exc_none, cpu))
   }"

definition rv_bge_instr :: "('x::len, 't) reg_instr" where
  "rv_bge_instr cpu instr = do {
     ASSERT (instr_opcode instr = rv_opcBRANCH);
     let target = pc cpu + RV_B_IMM instr;
     let lhs = regs cpu (instr_rs1 instr);
     let rhs = regs cpu (instr_rs2 instr);
     (if sint lhs \<ge> sint rhs then jump_to target cpu cpu else Some (rv_exc_none, cpu))
   }"

definition rv_bgeu_instr :: "('x::len, 't) reg_instr" where
  "rv_bgeu_instr cpu instr = do {
     ASSERT (instr_opcode instr = rv_opcBRANCH);
     let target = pc cpu + RV_B_IMM instr;
     let lhs = regs cpu (instr_rs1 instr);
     let rhs = regs cpu (instr_rs2 instr);
     (if lhs \<ge> rhs then jump_to target cpu cpu else Some (rv_exc_none, cpu))
   }"

lemmas jump_instr_defs = rv_jal_instr_def rv_jalr_instr_def

lemmas branch_instr_defs =
  rv_beq_instr_def rv_bne_instr_def rv_blt_instr_def rv_bltu_instr_def rv_bge_instr_def rv_bgeu_instr_def

end
