(* ===== verification/Rv_Mem_Ops.thy ===== *)
theory Rv_Mem_Ops
  imports Rv_Control
begin

text \<open>
  Loads, stores, and the reservation instructions: \<open>riscv_rv_ima/instructions/mem_ops.c\<close>.
\<close>

definition rv_illegal_instr :: "('c, 'd, 'z) machine_scheme \<Rightarrow> rv_exc" where
  "rv_illegal_instr s = (if machine_undefined s then rv_exc_none else rv_exc_illegal_instruction)"

subsection \<open>Loads\<close>

definition load_virt :: "nat \<Rightarrow> rv_instr \<Rightarrow> ('x::len, 't, 'd, 'z) rv_machine \<Rightarrow> 'x word" where
  "load_virt k instr s = regs (cpu_mem s k) (instr_rs1 instr) + scast (i_imm instr)"

text \<open>The end of a load: the exception, or the extended value in the destination register.\<close>

definition load_result ::
    "nat \<Rightarrow> rv_instr \<Rightarrow> ('a \<Rightarrow> 'x::len word) \<Rightarrow> (rv_exc + 'a) \<times> ('x, 't, 'd, 'z) rv_machine \<Rightarrow>
     (rv_exc \<times> ('x, 't, 'd, 'z) rv_machine) option" where
  "load_result k instr ext res =
     (case res of
        (Inl ex, s) \<Rightarrow> Some (ex, s)
      | (Inr val, s) \<Rightarrow> Some (rv_exc_none, set_cpu k (set_reg (instr_rd instr) (ext val) (cpu_mem s k)) s))"

text \<open>The alignment check that some loads make before the read.\<close>

definition load_aligned ::
    "nat \<Rightarrow> 'x::len word \<Rightarrow> 'x word \<Rightarrow> ('x, 't, 'd, 'z) rv_machine \<Rightarrow>
     (rv_exc \<times> ('x, 't, 'd, 'z) rv_machine) option \<Rightarrow> (rv_exc \<times> ('x, 't, 'd, 'z) rv_machine) option" where
  "load_aligned k virt align s cont =
     (if \<not> IS_ALIGNED virt align then Some (rv_exc_load_address_misaligned, throw_tval k virt s) else cont)"

definition rv_lb_instr :: "('x::len, 't, 'd, 'z) mem_instr" where
  "rv_lb_instr conv k instr s = do {
     ASSERT (instr_opcode instr = rv_opcLOAD);
     let virt = load_virt k instr s;
     do {
       res \<leftarrow> rv_read_mem8 conv k virt True s;
       load_result k instr sign_extend_8_to_xlen res
     }
   }"

definition rv_lh_instr :: "('x::len, 't, 'd, 'z) mem_instr" where
  "rv_lh_instr conv k instr s = do {
     ASSERT (instr_opcode instr = rv_opcLOAD);
     let virt = load_virt k instr s;
     do {
       res \<leftarrow> rv_read_mem16 conv k virt False True s;
       load_result k instr sign_extend_16_to_xlen res
     }
   }"

definition rv_lw_instr :: "('x::len, 't, 'd, 'z) mem_instr" where
  "rv_lw_instr conv k instr s = do {
     ASSERT (instr_opcode instr = rv_opcLOAD);
     let virt = load_virt k instr s;
     load_aligned k virt 4 s (do {
       res \<leftarrow> rv_read_mem32 conv k virt False True s;
       load_result k instr sign_extend_32_to_xlen res
     })
   }"

definition rv_ld_instr :: "('x::len, 't, 'd, 'z) mem_instr" where
  "rv_ld_instr conv k instr s = do {
     ASSERT (instr_opcode instr = rv_opcLOAD);
     let virt = load_virt k instr s;
     load_aligned k virt 8 s (do {
       res \<leftarrow> rv_read_mem64 conv k virt False True s;
       load_result k instr ucast res
     })
   }"

definition rv_lbu_instr :: "('x::len, 't, 'd, 'z) mem_instr" where
  "rv_lbu_instr conv k instr s = do {
     ASSERT (instr_opcode instr = rv_opcLOAD);
     let virt = load_virt k instr s;
     do {
       res \<leftarrow> rv_read_mem8 conv k virt True s;
       load_result k instr ucast res
     }
   }"

definition rv_lhu_instr :: "('x::len, 't, 'd, 'z) mem_instr" where
  "rv_lhu_instr conv k instr s = do {
     ASSERT (instr_opcode instr = rv_opcLOAD);
     let virt = load_virt k instr s;
     load_aligned k virt 2 s (do {
       res \<leftarrow> rv_read_mem16 conv k virt False True s;
       load_result k instr ucast res
     })
   }"

definition rv_lwu_instr :: "('x::len, 't, 'd, 'z) mem_instr" where
  "rv_lwu_instr conv k instr s = do {
     ASSERT (instr_opcode instr = rv_opcLOAD);
     let virt = load_virt k instr s;
     load_aligned k virt 4 s (do {
       res \<leftarrow> rv_read_mem32 conv k virt False True s;
       load_result k instr ucast res
     })
   }"

subsection \<open>Stores\<close>

definition store_virt :: "nat \<Rightarrow> rv_instr \<Rightarrow> ('x::len, 't, 'd, 'z) rv_machine \<Rightarrow> 'x word" where
  "store_virt k instr s = regs (cpu_mem s k) (instr_rs1 instr) + RV_S_IMM instr"

definition exc_of :: "(rv_exc + 'a) \<times> 's \<Rightarrow> (rv_exc \<times> 's) option" where
  "exc_of res = (case res of (Inl ex, s) \<Rightarrow> Some (ex, s) | (Inr _, s) \<Rightarrow> Some (rv_exc_none, s))"

definition rv_sb_instr :: "('x::len, 't, 'd, 'z) mem_instr" where
  "rv_sb_instr conv k instr s = do {
     ASSERT (instr_opcode instr = rv_opcSTORE);
     res \<leftarrow> rv_write_mem8 conv k (store_virt k instr s) (ucast (regs (cpu_mem s k) (instr_rs2 instr))) True s;
     exc_of res
   }"

definition rv_sh_instr :: "('x::len, 't, 'd, 'z) mem_instr" where
  "rv_sh_instr conv k instr s = do {
     ASSERT (instr_opcode instr = rv_opcSTORE);
     res \<leftarrow> rv_write_mem16 conv k (store_virt k instr s) (ucast (regs (cpu_mem s k) (instr_rs2 instr))) True s;
     exc_of res
   }"

definition rv_sw_instr :: "('x::len, 't, 'd, 'z) mem_instr" where
  "rv_sw_instr conv k instr s = do {
     ASSERT (instr_opcode instr = rv_opcSTORE);
     res \<leftarrow> rv_write_mem32 conv k (store_virt k instr s) (ucast (regs (cpu_mem s k) (instr_rs2 instr))) True s;
     exc_of res
   }"

definition rv_sd_instr :: "('x::len, 't, 'd, 'z) mem_instr" where
  "rv_sd_instr conv k instr s = do {
     ASSERT (instr_opcode instr = rv_opcSTORE);
     res \<leftarrow> rv_write_mem64 conv k (store_virt k instr s) (ucast (regs (cpu_mem s k) (instr_rs2 instr))) True s;
     exc_of res
   }"

definition rv_fence_instr :: "('x::len, 't) reg_instr" where
  "rv_fence_instr cpu instr = Some (rv_exc_none, cpu)"

subsection \<open>Load reserved and store conditional\<close>

definition cancel_reservation :: "nat \<Rightarrow> ('x::len, 't, 'd, 'z) rv_machine \<Rightarrow> ('x, 't, 'd, 'z) rv_machine" where
  "cancel_reservation k s =
     (let s' = sc_unregister (hartid k s) s in set_cpu k ((cpu_mem s' k)\<lparr>reserved_valid := False\<rparr>) s')"

definition make_reservation ::
    "nat \<Rightarrow> ptr36 \<Rightarrow> ('x::len, 't, 'd, 'z) rv_machine \<Rightarrow> ('x, 't, 'd, 'z) rv_machine" where
  "make_reservation k phys s =
     (let s' = sc_register (hartid k s) s
      in set_cpu k ((cpu_mem s' k)\<lparr>reserved_valid := True, reserved_addr := phys\<rparr>) s')"

text \<open>The common shape of \<open>lr.w\<close> and of the register-wide \<open>lr\<close>, over the read that they use.\<close>

definition load_reserved ::
    "'x word \<Rightarrow> ('a \<Rightarrow> 'x word) \<Rightarrow>
     ('x word \<Rightarrow> ('x, 't, 'd, 'z) rv_machine \<Rightarrow> ((rv_exc + 'a) \<times> ('x, 't, 'd, 'z) rv_machine) option) \<Rightarrow>
     ('x::len, 't, 'd, 'z) mem_instr" where
  "load_reserved align ext rd_mem conv k instr s = do {
     ASSERT (instr_opcode instr = rv_opcAMO);
     ASSERT (instr_rs2 instr = 0);
     let virt = regs (cpu_mem s k) (instr_rs1 instr);
     (r, s1) \<leftarrow> rd_mem virt s;
     (case r of
        Inl ex \<Rightarrow> Some (ex, cancel_reservation k s1)
      | Inr val \<Rightarrow>
          (if \<not> IS_ALIGNED virt align then Some (rv_exc_load_address_misaligned, cancel_reservation k s1)
           else do {
             let s2 = set_cpu k (set_reg (instr_rd instr) (ext val) (cpu_mem s1 k)) s1;
             (r', s3) \<leftarrow> conv k virt False False False s2;
             phys \<leftarrow> ASSERT_none r';
             Some (rv_exc_none, make_reservation k phys s3)
           }))
   }"

definition rv_lr_w_instr :: "('x::len, 't, 'd, 'z) mem_instr" where
  "rv_lr_w_instr conv k =
     load_reserved 4 zero_extend_32_to_xlen (\<lambda>virt. rv_read_mem32 conv k virt False True) conv k"

text \<open>\<open>rv_read_xlen\<close>: the read as wide as a register.\<close>

definition rv_read_xlen ::
    "('x::len, 't, 'd, 'z) convert \<Rightarrow> nat \<Rightarrow> 'x word \<Rightarrow> bool \<Rightarrow> bool \<Rightarrow> ('x, 't, 'd, 'z) rv_machine \<Rightarrow>
     ((rv_exc + 'x word) \<times> ('x, 't, 'd, 'z) rv_machine) option" where
  "rv_read_xlen conv k virt fetch noisy s =
     (if LENGTH('x) = 32 then do {
        (r, s') \<leftarrow> rv_read_mem32 conv k virt fetch noisy s;
        Some (map_sum id ucast r, s')
      } else do {
        (r, s') \<leftarrow> rv_read_mem64 conv k virt fetch noisy s;
        Some (map_sum id ucast r, s')
      })"

definition rv_lr_instr :: "('x::len, 't, 'd, 'z) mem_instr" where
  "rv_lr_instr conv k =
     load_reserved (if LENGTH('x) = 32 then 4 else 8) id (\<lambda>virt. rv_read_xlen conv k virt False True) conv k"

definition store_conditional ::
    "'x word \<Rightarrow>
     ('x word \<Rightarrow> 'x word \<Rightarrow> ('x, 't, 'd, 'z) rv_machine \<Rightarrow> ((rv_exc + unit) \<times> ('x, 't, 'd, 'z) rv_machine) option) \<Rightarrow>
     ('x::len, 't, 'd, 'z) mem_instr" where
  "store_conditional align wr_mem conv k instr s = do {
     ASSERT (instr_opcode instr = rv_opcAMO);
     let virt = regs (cpu_mem s k) (instr_rs1 instr);
     let result = (\<lambda>v s. set_cpu k (set_reg (instr_rd instr) v (cpu_mem s k)) s);
     (if \<not> reserved_valid (cpu_mem s k) then Some (rv_exc_none, result 1 s)
      else do {
        let s0 = cancel_reservation k s;
        (r, s1) \<leftarrow> conv k virt True False True s0;
        (case r of
           Inl ex \<Rightarrow> Some (ex, result 1 s1)
         | Inr phys \<Rightarrow>
             (if \<not> IS_ALIGNED virt align then Some (rv_exc_store_amo_address_misaligned, result 1 s1)
              else if phys \<noteq> reserved_addr (cpu_mem s1 k) then Some (rv_exc_none, result 1 s1)
              else do {
                (r', s2) \<leftarrow> wr_mem virt (regs (cpu_mem s1 k) (instr_rs2 instr)) s1;
                (case r' of
                   Inl ex \<Rightarrow> Some (ex, result 1 s2)
                 | Inr _ \<Rightarrow> Some (rv_exc_none, result 0 s2))
              }))
      })
   }"

definition rv_sc_w_instr :: "('x::len, 't, 'd, 'z) mem_instr" where
  "rv_sc_w_instr conv k =
     store_conditional 4 (\<lambda>virt v. rv_write_mem32 conv k virt (ucast v) True) conv k"

definition rv_sc_instr :: "('x::len, 't, 'd, 'z) mem_instr" where
  "rv_sc_instr conv k =
     store_conditional 8 (\<lambda>virt v. rv_write_mem64 conv k virt (ucast v) True) conv k"

lemmas load_instr_defs = rv_lb_instr_def rv_lh_instr_def rv_lw_instr_def rv_lbu_instr_def rv_lhu_instr_def
lemmas store_instr_defs = rv_sb_instr_def rv_sh_instr_def rv_sw_instr_def

end
