(* ===== verification/Rv_System.thy ===== *)
theory Rv_System
  imports Rv_Mem_Ops
begin

text \<open>
  The system instructions: \<open>riscv_rv_ima/instructions/system.c\<close>. The instructions that act on the
  whole simulator take the machine, the others the processor. The masks have the width of a
  register, so that on RV32 a complemented mask also clears the upper half of \<open>mstatus\<close>.
\<close>

subsection \<open>Instructions that act on the simulator\<close>

definition rv_break_instr :: "rv_instr \<Rightarrow> ('c, 'd, 'z) machine_scheme \<Rightarrow> (rv_exc \<times> ('c, 'd, 'z) machine_scheme) option" where
  "rv_break_instr instr s = do {
     ASSERT (instr_opcode instr = rv_opcSYSTEM);
     Some (rv_exc_none,
       if input_terminal s \<or> machine_allow_interactive_without_tty s
       then s\<lparr>machine_interactive := True\<rparr> else s\<lparr>machine_halt := True\<rparr>)
   }"

definition rv_halt_instr :: "rv_instr \<Rightarrow> ('c, 'd, 'z) machine_scheme \<Rightarrow> (rv_exc \<times> ('c, 'd, 'z) machine_scheme) option" where
  "rv_halt_instr instr s = do {
     ASSERT (instr_opcode instr = rv_opcSYSTEM);
     Some (rv_exc_none, s\<lparr>machine_halt := True\<rparr>)
   }"

definition rv_trace_set_instr :: "rv_instr \<Rightarrow> ('c, 'd, 'z) machine_scheme \<Rightarrow> (rv_exc \<times> ('c, 'd, 'z) machine_scheme) option" where
  "rv_trace_set_instr instr s = do {
     ASSERT (instr_opcode instr = rv_opcSYSTEM);
     Some (rv_exc_none, s\<lparr>machine_trace := True\<rparr>)
   }"

definition rv_trace_reset_instr :: "rv_instr \<Rightarrow> ('c, 'd, 'z) machine_scheme \<Rightarrow> (rv_exc \<times> ('c, 'd, 'z) machine_scheme) option" where
  "rv_trace_reset_instr instr s = do {
     ASSERT (instr_opcode instr = rv_opcSYSTEM);
     Some (rv_exc_none, s\<lparr>machine_trace := False\<rparr>)
   }"

subsection \<open>Environment calls and returns from traps\<close>

definition rv_call_instr :: "('x::len, 't) reg_instr" where
  "rv_call_instr cpu instr =
     Some (case priv_mode cpu of
             rv_umode \<Rightarrow> rv_exc_umode_environment_call
           | rv_smode \<Rightarrow> rv_exc_smode_environment_call
           | rv_mmode \<Rightarrow> rv_exc_mmode_environment_call
           | rv_rmode \<Rightarrow> rv_exc_illegal_instruction, cpu)"

abbreviation set_mstatus :: "'x::len word \<Rightarrow> u64 \<Rightarrow> u64" where
  "set_mstatus m v \<equiv> v OR ucast m"

abbreviation clear_mstatus :: "'x::len word \<Rightarrow> u64 \<Rightarrow> u64" where
  "clear_mstatus m v \<equiv> v AND ucast (NOT m)"

definition rv_sret_instr :: "('x::len, 't) reg_instr" where
  "rv_sret_instr cpu instr =
     (if rv_csr_mstatus_tsr cpu then Some (rv_exc_illegal_instruction, cpu)
      else if priv_mode cpu < rv_smode then Some (rv_exc_illegal_instruction, cpu)
      else (let spp_priv = rv_csr_sstatus_spp cpu;
                m0 = mstatus (csr cpu);
                m1 = (if rv_csr_sstatus_spie cpu then set_mstatus (rv_csr_sstatus_sie_mask :: 'x word) m0
                      else clear_mstatus (rv_csr_sstatus_sie_mask :: 'x word) m0);
                m2 = set_mstatus (rv_csr_sstatus_spie_mask :: 'x word) m1;
                m3 = clear_mstatus (rv_csr_sstatus_spp_mask :: 'x word) m2;
                m4 = clear_mstatus (rv_csr_mstatus_mprv_mask :: 'x word) m3
            in Some (rv_exc_none,
                 (upd_csr (mstatus_update (\<lambda>_. m4)) cpu)\<lparr>priv_mode := spp_priv, pc_next := sepc (csr cpu)\<rparr>)))"

definition rv_mret_instr :: "('x::len, 't) reg_instr" where
  "rv_mret_instr cpu instr =
     (if priv_mode cpu < rv_mmode then Some (rv_exc_illegal_instruction, cpu)
      else (let mpp_priv = rv_csr_mstatus_mpp cpu;
                m0 = mstatus (csr cpu);
                m1 = (if rv_csr_mstatus_mpie cpu then set_mstatus (rv_csr_mstatus_mie_mask :: 'x word) m0
                      else clear_mstatus (rv_csr_mstatus_mie_mask :: 'x word) m0);
                m2 = set_mstatus (rv_csr_mstatus_mpie_mask :: 'x word) m1;
                m3 = clear_mstatus (rv_csr_mstatus_mpp_mask :: 'x word) m2;
                m4 = (if mpp_priv \<noteq> rv_mmode then clear_mstatus (rv_csr_mstatus_mprv_mask :: 'x word) m3 else m3)
            in Some (rv_exc_none,
                 (upd_csr (mstatus_update (\<lambda>_. m4)) cpu)\<lparr>priv_mode := mpp_priv, pc_next := mepc (csr cpu)\<rparr>)))"

definition rv_wfi_instr :: "('x::len, 't) reg_instr" where
  "rv_wfi_instr cpu instr =
     (if rv_csr_mstatus_tw cpu \<and> priv_mode cpu \<noteq> rv_mmode then Some (rv_exc_illegal_instruction, cpu)
      else if priv_mode cpu = rv_umode then Some (rv_exc_illegal_instruction, cpu)
      else Some (rv_exc_none, cpu\<lparr>stdby := True\<rparr>))"

subsection \<open>Access to the control and status registers\<close>

text \<open>
  The end of a CSR instruction. The destination register is the \<open>read_target\<close> of the CSR functions,
  written on success only.
\<close>

definition csr_result ::
    "rv_instr \<Rightarrow> ('x::len, 't) rv_cpu \<Rightarrow> ('x word \<times> ('x, 't) rv_cpu) outcome \<Rightarrow>
     (rv_exc \<times> ('x, 't) rv_cpu) option" where
  "csr_result instr cpu res =
     (case res of
        Undefined \<Rightarrow> None
      | Exc ex \<Rightarrow> Some (ex, cpu)
      | Ok (target, cpu') \<Rightarrow> Some (rv_exc_none, set_reg (instr_rd instr) target cpu'))"

definition csr_field :: "rv_instr \<Rightarrow> nat" where
  "csr_field instr = unat (i_imm instr)"

definition rv_csrrw_instr :: "('x::len, 't) reg_instr" where
  "rv_csrrw_instr cpu instr =
     csr_result instr cpu (rv_csr_rw cpu (csr_field instr) (regs cpu (instr_rs1 instr)) (instr_rd instr \<noteq> 0))"

definition rv_csrrs_instr :: "('x::len, 't) reg_instr" where
  "rv_csrrs_instr cpu instr =
     csr_result instr cpu (rv_csr_rs cpu (csr_field instr) (regs cpu (instr_rs1 instr)) (instr_rs1 instr \<noteq> 0))"

definition rv_csrrc_instr :: "('x::len, 't) reg_instr" where
  "rv_csrrc_instr cpu instr =
     csr_result instr cpu (rv_csr_rc cpu (csr_field instr) (regs cpu (instr_rs1 instr)) (instr_rs1 instr \<noteq> 0))"

definition rv_csrrwi_instr :: "('x::len, 't) reg_instr" where
  "rv_csrrwi_instr cpu instr =
     csr_result instr cpu (rv_csr_rw cpu (csr_field instr) (of_nat (instr_rs1 instr)) (instr_rd instr \<noteq> 0))"

definition rv_csrrsi_instr :: "('x::len, 't) reg_instr" where
  "rv_csrrsi_instr cpu instr =
     csr_result instr cpu (rv_csr_rs cpu (csr_field instr) (of_nat (instr_rs1 instr)) (instr_rs1 instr \<noteq> 0))"

definition rv_csrrci_instr :: "('x::len, 't) reg_instr" where
  "rv_csrrci_instr cpu instr =
     csr_result instr cpu (rv_csr_rc cpu (csr_field instr) (of_nat (instr_rs1 instr)) (instr_rs1 instr \<noteq> 0))"

lemmas csr_instr_defs =
  rv_csrrw_instr_def rv_csrrs_instr_def rv_csrrc_instr_def rv_csrrwi_instr_def rv_csrrsi_instr_def
  rv_csrrci_instr_def

end
