(* ===== verification/Rv32_Decode.thy ===== *)
theory Rv32_Decode
  imports Rv_System
begin

text \<open>
  The instruction decoder and the instructions of \<open>riscv_rv32ima/instr.c\<close>. The decoder returns a
  pointer to the function of the instruction; the pointers are the values of \<open>rv_instr_func\<close>, named
  after the functions, and \<open>call_instr_func\<close> is the call through the pointer.
\<close>

datatype (plugins only:) rv_instr_func =
    fn_lb
  | fn_lh
  | fn_lw
  | fn_lbu
  | fn_lhu
  | fn_fence
  | fn_addi
  | fn_slti
  | fn_sltiu
  | fn_xori
  | fn_ori
  | fn_andi
  | fn_slli
  | fn_srai
  | fn_srli
  | fn_auipc
  | fn_sb
  | fn_sh
  | fn_sw
  | fn_lr_w
  | fn_sc_w
  | fn_amoswap_w
  | fn_amoadd_w
  | fn_amoxor_w
  | fn_amoand_w
  | fn_amoor_w
  | fn_amomin_w
  | fn_amomax_w
  | fn_amominu_w
  | fn_amomaxu_w
  | fn_add
  | fn_sub
  | fn_sll
  | fn_slt
  | fn_sltu
  | fn_xor
  | fn_srl
  | fn_sra
  | fn_or
  | fn_and
  | fn_mul
  | fn_mulh
  | fn_mulhsu
  | fn_mulhu
  | fn_div
  | fn_divu
  | fn_rem
  | fn_remu
  | fn_lui
  | fn_beq
  | fn_bne
  | fn_blt
  | fn_bltu
  | fn_bge
  | fn_bgeu
  | fn_jalr
  | fn_jal
  | fn_sfence
  | fn_break
  | fn_halt
  | fn_dump
  | fn_trace_set
  | fn_trace_reset
  | fn_csr_rd
  | fn_call
  | fn_sret
  | fn_mret
  | fn_wfi
  | fn_csrrw
  | fn_csrrs
  | fn_csrrc
  | fn_csrrwi
  | fn_csrrsi
  | fn_csrrci
  | fn_illegal

subsection \<open>The instructions of instr.c\<close>

text \<open>The two dump instructions print registers and change nothing.\<close>

definition rv32_dump_instr :: "(32, 't) reg_instr" where
  "rv32_dump_instr cpu instr = do {
     ASSERT (instr_opcode instr = rv_opcSYSTEM);
     Some (rv_exc_none, cpu)
   }"

definition rv32_csr_rd_instr :: "(32, 't) reg_instr" where
  "rv32_csr_rd_instr cpu instr = do {
     ASSERT (instr_opcode instr = rv_opcSYSTEM);
     Some (rv_exc_none, cpu)
   }"

definition rv_asid_mask :: u32 where
  "rv_asid_mask = push_bit 9 1 - 1"

definition rv32_sfence_instr :: "rv32_cpu \<Rightarrow> rv_instr \<Rightarrow> (rv_exc \<times> rv32_cpu) option" where
  "rv32_sfence_instr cpu instr =
     (if rv_csr_mstatus_tvm cpu \<or> priv_mode cpu < rv_smode then Some (rv_exc_illegal_instruction, cpu)
      else do {
        let asid = regs cpu (instr_rs2 instr) AND rv_asid_mask;
        let virt = regs cpu (instr_rs1 instr);
        tlb' \<leftarrow> (if instr_rs1 instr = 0
                 then (if instr_rs2 instr = 0 then rv32_tlb_flush (tlb cpu)
                       else rv32_tlb_flush_by_asid (tlb cpu) asid)
                 else (if instr_rs2 instr = 0 then rv32_tlb_flush_by_addr (tlb cpu) virt
                       else rv32_tlb_flush_by_asid_and_addr (tlb cpu) asid virt));
        Some (rv_exc_none, cpu\<lparr>tlb := tlb'\<rparr>)
      })"

subsection \<open>Function codes of instr.h\<close>

definition rv_func_ADD :: "10 word" where "rv_func_ADD = 0x0"
definition rv_func_SUB :: "10 word" where "rv_func_SUB = 0x100"
definition rv_func_SLL :: "10 word" where "rv_func_SLL = 0x1"
definition rv_func_SLT :: "10 word" where "rv_func_SLT = 0x2"
definition rv_func_SLTU :: "10 word" where "rv_func_SLTU = 0x3"
definition rv_func_XOR :: "10 word" where "rv_func_XOR = 0x4"
definition rv_func_SRL :: "10 word" where "rv_func_SRL = 0x5"
definition rv_func_SRA :: "10 word" where "rv_func_SRA = 0x105"
definition rv_func_OR :: "10 word" where "rv_func_OR = 0x6"
definition rv_func_AND :: "10 word" where "rv_func_AND = 0x7"
definition rv_func_MUL :: "10 word" where "rv_func_MUL = 0x8"
definition rv_func_MULH :: "10 word" where "rv_func_MULH = 0x9"
definition rv_func_MULHSU :: "10 word" where "rv_func_MULHSU = 0xa"
definition rv_func_MULHU :: "10 word" where "rv_func_MULHU = 0xb"
definition rv_func_DIV :: "10 word" where "rv_func_DIV = 0xc"
definition rv_func_DIVU :: "10 word" where "rv_func_DIVU = 0xd"
definition rv_func_REM :: "10 word" where "rv_func_REM = 0xe"
definition rv_func_REMU :: "10 word" where "rv_func_REMU = 0xf"

definition rv_func_ADDI :: "3 word" where "rv_func_ADDI = 0x0"
definition rv_func_SLTI :: "3 word" where "rv_func_SLTI = 0x2"
definition rv_func_SLTIU :: "3 word" where "rv_func_SLTIU = 0x3"
definition rv_func_XORI :: "3 word" where "rv_func_XORI = 0x4"
definition rv_func_ORI :: "3 word" where "rv_func_ORI = 0x6"
definition rv_func_ANDI :: "3 word" where "rv_func_ANDI = 0x7"
definition rv_func_SLLI :: "3 word" where "rv_func_SLLI = 0x1"
definition rv_func_SRI :: "3 word" where "rv_func_SRI = 0x5"

definition rv_SRAI :: "12 word" where "rv_SRAI = 0x20"
definition rv_SRLI :: "12 word" where "rv_SRLI = 0x0"

definition rv_func_BEQ :: "3 word" where "rv_func_BEQ = 0x0"
definition rv_func_BNE :: "3 word" where "rv_func_BNE = 0x1"
definition rv_func_BLT :: "3 word" where "rv_func_BLT = 0x4"
definition rv_func_BLTU :: "3 word" where "rv_func_BLTU = 0x6"
definition rv_func_BGE :: "3 word" where "rv_func_BGE = 0x5"
definition rv_func_BGEU :: "3 word" where "rv_func_BGEU = 0x7"

definition rv_func_LB :: "3 word" where "rv_func_LB = 0x0"
definition rv_func_LH :: "3 word" where "rv_func_LH = 0x1"
definition rv_func_LW :: "3 word" where "rv_func_LW = 0x2"
definition rv_func_LBU :: "3 word" where "rv_func_LBU = 0x4"
definition rv_func_LHU :: "3 word" where "rv_func_LHU = 0x5"

definition rv_func_SB :: "3 word" where "rv_func_SB = 0x0"
definition rv_func_SH :: "3 word" where "rv_func_SH = 0x1"
definition rv_func_SW :: "3 word" where "rv_func_SW = 0x2"

definition rv_funcPRIV :: "3 word" where "rv_funcPRIV = 0x0"
definition rv_funcCSRRW :: "3 word" where "rv_funcCSRRW = 0x1"
definition rv_funcCSRRS :: "3 word" where "rv_funcCSRRS = 0x2"
definition rv_funcCSRRC :: "3 word" where "rv_funcCSRRC = 0x3"
definition rv_funcCSRRWI :: "3 word" where "rv_funcCSRRWI = 0x5"
definition rv_funcCSRRSI :: "3 word" where "rv_funcCSRRSI = 0x6"
definition rv_funcCSRRCI :: "3 word" where "rv_funcCSRRCI = 0x7"

definition rv_privECALL :: "12 word" where "rv_privECALL = 0x0"
definition rv_privEBREAK :: "12 word" where "rv_privEBREAK = 0x1"
definition rv_privEHALT :: "12 word" where "rv_privEHALT = 0x8c0"
definition rv_privEDUMP :: "12 word" where "rv_privEDUMP = 0x8c1"
definition rv_privETRACES :: "12 word" where "rv_privETRACES = 0x8c2"
definition rv_privETRACER :: "12 word" where "rv_privETRACER = 0x8c3"
definition rv_privECSRD :: "12 word" where "rv_privECSRD = 0x8c4"
definition rv_privSRET :: "12 word" where "rv_privSRET = 0x102"
definition rv_privMRET :: "12 word" where "rv_privMRET = 0x302"
definition rv_privWFI :: "12 word" where "rv_privWFI = 0x105"

definition rv_funcLR :: "5 word" where "rv_funcLR = 0x2"
definition rv_funcSC :: "5 word" where "rv_funcSC = 0x3"
definition rv_funcAMOSWAP :: "5 word" where "rv_funcAMOSWAP = 0x1"
definition rv_funcAMOADD :: "5 word" where "rv_funcAMOADD = 0x0"
definition rv_funcAMOXOR :: "5 word" where "rv_funcAMOXOR = 0x4"
definition rv_funcAMOAND :: "5 word" where "rv_funcAMOAND = 0xc"
definition rv_funcAMOOR :: "5 word" where "rv_funcAMOOR = 0x8"
definition rv_funcAMOMIN :: "5 word" where "rv_funcAMOMIN = 0x10"
definition rv_funcAMOMAX :: "5 word" where "rv_funcAMOMAX = 0x14"
definition rv_funcAMOMINU :: "5 word" where "rv_funcAMOMINU = 0x18"
definition rv_funcAMOMAXU :: "5 word" where "rv_funcAMOMAXU = 0x1c"

definition rv_privSFENCEVMA_FUNCT7 :: "7 word" where "rv_privSFENCEVMA_FUNCT7 = 0x09"
definition RV_AMO_32_WLEN :: "3 word" where "RV_AMO_32_WLEN = 2"

lemmas rv_func_defs =
  rv_func_ADD_def rv_func_SUB_def rv_func_SLL_def rv_func_SLT_def rv_func_SLTU_def
  rv_func_XOR_def rv_func_SRL_def rv_func_SRA_def rv_func_OR_def rv_func_AND_def
  rv_func_MUL_def rv_func_MULH_def rv_func_MULHSU_def rv_func_MULHU_def rv_func_DIV_def
  rv_func_DIVU_def rv_func_REM_def rv_func_REMU_def rv_func_ADDI_def rv_func_SLTI_def
  rv_func_SLTIU_def rv_func_XORI_def rv_func_ORI_def rv_func_ANDI_def rv_func_SLLI_def
  rv_func_SRI_def rv_SRAI_def rv_SRLI_def rv_func_BEQ_def rv_func_BNE_def
  rv_func_BLT_def rv_func_BLTU_def rv_func_BGE_def rv_func_BGEU_def rv_func_LB_def
  rv_func_LH_def rv_func_LW_def rv_func_LBU_def rv_func_LHU_def rv_func_SB_def
  rv_func_SH_def rv_func_SW_def rv_funcPRIV_def rv_funcCSRRW_def rv_funcCSRRS_def
  rv_funcCSRRC_def rv_funcCSRRWI_def rv_funcCSRRSI_def rv_funcCSRRCI_def rv_privECALL_def
  rv_privEBREAK_def rv_privEHALT_def rv_privEDUMP_def rv_privETRACES_def rv_privETRACER_def
  rv_privECSRD_def rv_privSRET_def rv_privMRET_def rv_privWFI_def rv_funcLR_def
  rv_funcSC_def rv_funcAMOSWAP_def rv_funcAMOADD_def rv_funcAMOXOR_def rv_funcAMOAND_def
  rv_funcAMOOR_def rv_funcAMOMIN_def rv_funcAMOMAX_def rv_funcAMOMINU_def rv_funcAMOMAXU_def
  rv_privSFENCEVMA_FUNCT7_def RV_AMO_32_WLEN_def

subsection \<open>The decoder\<close>

definition decode_LOAD :: "rv_instr \<Rightarrow> rv_instr_func option" where
  "decode_LOAD instr = do {
     ASSERT (instr_opcode instr = rv_opcLOAD);
     Some (if instr_funct3 instr = rv_func_LB then fn_lb
      else if instr_funct3 instr = rv_func_LH then fn_lh
      else if instr_funct3 instr = rv_func_LW then fn_lw
      else if instr_funct3 instr = rv_func_LBU then fn_lbu
      else if instr_funct3 instr = rv_func_LHU then fn_lhu
      else fn_illegal)
   }"

definition decode_MISC_MEM :: "rv_instr \<Rightarrow> rv_instr_func option" where
  "decode_MISC_MEM instr = do {
     ASSERT (instr_opcode instr = rv_opcMISC_MEM);
     Some (if instr_funct3 instr = 0 then fn_fence else fn_illegal)
   }"

definition decode_OP_IMM :: "rv_instr \<Rightarrow> rv_instr_func option" where
  "decode_OP_IMM instr = do {
     ASSERT (instr_opcode instr = rv_opcOP_IMM);
     Some (if instr_funct3 instr = rv_func_ADDI then fn_addi
      else if instr_funct3 instr = rv_func_SLTI then fn_slti
      else if instr_funct3 instr = rv_func_SLTIU then fn_sltiu
      else if instr_funct3 instr = rv_func_XORI then fn_xori
      else if instr_funct3 instr = rv_func_ORI then fn_ori
      else if instr_funct3 instr = rv_func_ANDI then fn_andi
      else if instr_funct3 instr = rv_func_SLLI then (if signed_drop_bit 5 (i_imm instr) = 0 then fn_slli else fn_illegal)
      else if instr_funct3 instr = rv_func_SRI then
        (if signed_drop_bit 5 (i_imm instr) = rv_SRAI then fn_srai
         else if signed_drop_bit 5 (i_imm instr) = rv_SRLI then fn_srli
         else fn_illegal)
      else fn_illegal)
   }"

definition decode_AUIPC :: "rv_instr \<Rightarrow> rv_instr_func option" where
  "decode_AUIPC instr = do {
     ASSERT (instr_opcode instr = rv_opcAUIPC);
     Some (fn_auipc)
   }"

definition decode_STORE :: "rv_instr \<Rightarrow> rv_instr_func option" where
  "decode_STORE instr = do {
     ASSERT (instr_opcode instr = rv_opcSTORE);
     Some (if instr_funct3 instr = rv_func_SB then fn_sb
      else if instr_funct3 instr = rv_func_SH then fn_sh
      else if instr_funct3 instr = rv_func_SW then fn_sw
      else fn_illegal)
   }"

definition decode_AMO :: "rv_instr \<Rightarrow> rv_instr_func option" where
  "decode_AMO instr = do {
     ASSERT (instr_opcode instr = rv_opcAMO);
     Some (if instr_funct3 instr \<noteq> RV_AMO_32_WLEN then fn_illegal
      else if RV_AMO_FUNCT instr = rv_funcLR then (if instr_rs2 instr = 0 then fn_lr_w else fn_illegal)
      else if RV_AMO_FUNCT instr = rv_funcSC then fn_sc_w
      else if RV_AMO_FUNCT instr = rv_funcAMOSWAP then fn_amoswap_w
      else if RV_AMO_FUNCT instr = rv_funcAMOADD then fn_amoadd_w
      else if RV_AMO_FUNCT instr = rv_funcAMOXOR then fn_amoxor_w
      else if RV_AMO_FUNCT instr = rv_funcAMOAND then fn_amoand_w
      else if RV_AMO_FUNCT instr = rv_funcAMOOR then fn_amoor_w
      else if RV_AMO_FUNCT instr = rv_funcAMOMIN then fn_amomin_w
      else if RV_AMO_FUNCT instr = rv_funcAMOMAX then fn_amomax_w
      else if RV_AMO_FUNCT instr = rv_funcAMOMINU then fn_amominu_w
      else if RV_AMO_FUNCT instr = rv_funcAMOMAXU then fn_amomaxu_w
      else fn_illegal)
   }"

definition decode_OP :: "rv_instr \<Rightarrow> rv_instr_func option" where
  "decode_OP instr = do {
     ASSERT (instr_opcode instr = rv_opcOP);
     Some (if RV_R_FUNCT instr = rv_func_ADD then fn_add
      else if RV_R_FUNCT instr = rv_func_SUB then fn_sub
      else if RV_R_FUNCT instr = rv_func_SLL then fn_sll
      else if RV_R_FUNCT instr = rv_func_SLT then fn_slt
      else if RV_R_FUNCT instr = rv_func_SLTU then fn_sltu
      else if RV_R_FUNCT instr = rv_func_XOR then fn_xor
      else if RV_R_FUNCT instr = rv_func_SRL then fn_srl
      else if RV_R_FUNCT instr = rv_func_SRA then fn_sra
      else if RV_R_FUNCT instr = rv_func_OR then fn_or
      else if RV_R_FUNCT instr = rv_func_AND then fn_and
      else if RV_R_FUNCT instr = rv_func_MUL then fn_mul
      else if RV_R_FUNCT instr = rv_func_MULH then fn_mulh
      else if RV_R_FUNCT instr = rv_func_MULHSU then fn_mulhsu
      else if RV_R_FUNCT instr = rv_func_MULHU then fn_mulhu
      else if RV_R_FUNCT instr = rv_func_DIV then fn_div
      else if RV_R_FUNCT instr = rv_func_DIVU then fn_divu
      else if RV_R_FUNCT instr = rv_func_REM then fn_rem
      else if RV_R_FUNCT instr = rv_func_REMU then fn_remu
      else fn_illegal)
   }"

definition decode_LUI :: "rv_instr \<Rightarrow> rv_instr_func option" where
  "decode_LUI instr = do {
     ASSERT (instr_opcode instr = rv_opcLUI);
     Some (fn_lui)
   }"

definition decode_BRANCH :: "rv_instr \<Rightarrow> rv_instr_func option" where
  "decode_BRANCH instr = do {
     ASSERT (instr_opcode instr = rv_opcBRANCH);
     Some (if instr_funct3 instr = rv_func_BEQ then fn_beq
      else if instr_funct3 instr = rv_func_BNE then fn_bne
      else if instr_funct3 instr = rv_func_BLT then fn_blt
      else if instr_funct3 instr = rv_func_BLTU then fn_bltu
      else if instr_funct3 instr = rv_func_BGE then fn_bge
      else if instr_funct3 instr = rv_func_BGEU then fn_bgeu
      else fn_illegal)
   }"

definition decode_JALR :: "rv_instr \<Rightarrow> rv_instr_func option" where
  "decode_JALR instr = do {
     ASSERT (instr_opcode instr = rv_opcJALR);
     Some (if instr_funct3 instr \<noteq> 0 then fn_illegal else fn_jalr)
   }"

definition decode_JAL :: "rv_instr \<Rightarrow> rv_instr_func option" where
  "decode_JAL instr = do {
     ASSERT (instr_opcode instr = rv_opcJAL);
     Some (fn_jal)
   }"

text \<open>\<open>special\<close> is the global flag \<open>machine_specific_instructions\<close>.\<close>

definition decode_PRIV :: "bool \<Rightarrow> rv_instr \<Rightarrow> rv_instr_func option" where
  "decode_PRIV special instr = do {
     ASSERT (instr_opcode instr = rv_opcSYSTEM);
     ASSERT (instr_funct3 instr = rv_funcPRIV);
     Some (if instr_funct7 instr = rv_privSFENCEVMA_FUNCT7 then fn_sfence
      else if i_imm instr = rv_privEBREAK then fn_break
      else if i_imm instr = rv_privEHALT then (if special then fn_halt else fn_illegal)
      else if i_imm instr = rv_privEDUMP then (if special then fn_dump else fn_illegal)
      else if i_imm instr = rv_privETRACES then (if special then fn_trace_set else fn_illegal)
      else if i_imm instr = rv_privETRACER then (if special then fn_trace_reset else fn_illegal)
      else if i_imm instr = rv_privECSRD then (if special then fn_csr_rd else fn_illegal)
      else if i_imm instr = rv_privECALL then fn_call
      else if i_imm instr = rv_privSRET then fn_sret
      else if i_imm instr = rv_privMRET then fn_mret
      else if i_imm instr = rv_privWFI then fn_wfi
      else fn_illegal)
   }"

definition decode_SYSTEM :: "bool \<Rightarrow> rv_instr \<Rightarrow> rv_instr_func option" where
  "decode_SYSTEM special instr = do {
     ASSERT (instr_opcode instr = rv_opcSYSTEM);
     (if instr_funct3 instr = rv_funcPRIV then decode_PRIV special instr
      else Some (if instr_funct3 instr = rv_funcCSRRW then fn_csrrw
      else if instr_funct3 instr = rv_funcCSRRS then fn_csrrs
      else if instr_funct3 instr = rv_funcCSRRC then fn_csrrc
      else if instr_funct3 instr = rv_funcCSRRWI then fn_csrrwi
      else if instr_funct3 instr = rv_funcCSRRSI then fn_csrrsi
      else if instr_funct3 instr = rv_funcCSRRCI then fn_csrrci
      else fn_illegal))
   }"

definition rv32_instr_decode :: "bool \<Rightarrow> rv_instr \<Rightarrow> rv_instr_func option" where
  "rv32_instr_decode special instr =
     (let opcode = instr_opcode instr in
      if opcode = rv_opcLOAD then decode_LOAD instr
      else if opcode = rv_opcMISC_MEM then decode_MISC_MEM instr
      else if opcode = rv_opcOP_IMM then decode_OP_IMM instr
      else if opcode = rv_opcAUIPC then decode_AUIPC instr
      else if opcode = rv_opcSTORE then decode_STORE instr
      else if opcode = rv_opcAMO then decode_AMO instr
      else if opcode = rv_opcOP then decode_OP instr
      else if opcode = rv_opcLUI then decode_LUI instr
      else if opcode = rv_opcBRANCH then decode_BRANCH instr
      else if opcode = rv_opcJALR then decode_JALR instr
      else if opcode = rv_opcJAL then decode_JAL instr
      else if opcode = rv_opcSYSTEM then decode_SYSTEM special instr
      else Some fn_illegal)"

lemmas decode_defs =
  decode_LOAD_def decode_MISC_MEM_def decode_OP_IMM_def decode_AUIPC_def decode_STORE_def decode_AMO_def
  decode_OP_def decode_LUI_def decode_BRANCH_def decode_JALR_def decode_JAL_def decode_PRIV_def
  decode_SYSTEM_def

subsection \<open>The call of an instruction function\<close>

text \<open>\<open>on_cpu\<close> runs an instruction that uses the processor only on processor \<open>k\<close> of the machine.\<close>

definition on_cpu ::
    "(rv32_cpu \<Rightarrow> rv_instr \<Rightarrow> (rv_exc \<times> rv32_cpu) option) \<Rightarrow> nat \<Rightarrow> rv_instr \<Rightarrow> ('d, 'z) rv32_machine \<Rightarrow>
     (rv_exc \<times> ('d, 'z) rv32_machine) option" where
  "on_cpu f k instr s = do {
     (ex, cpu) \<leftarrow> f (cpu_mem s k) instr;
     Some (ex, set_cpu k cpu s)
   }"

primrec call_instr_func ::
    "rv_instr_func \<Rightarrow> nat \<Rightarrow> rv_instr \<Rightarrow> ('d, 'z) rv32_machine \<Rightarrow> (rv_exc \<times> ('d, 'z) rv32_machine) option" where
  "call_instr_func fn_lb = rv_lb_instr rv32_convert_addr"
| "call_instr_func fn_lh = rv_lh_instr rv32_convert_addr"
| "call_instr_func fn_lw = rv_lw_instr rv32_convert_addr"
| "call_instr_func fn_lbu = rv_lbu_instr rv32_convert_addr"
| "call_instr_func fn_lhu = rv_lhu_instr rv32_convert_addr"
| "call_instr_func fn_fence = on_cpu rv_fence_instr"
| "call_instr_func fn_addi = on_cpu rv_addi_instr"
| "call_instr_func fn_slti = on_cpu rv_slti_instr"
| "call_instr_func fn_sltiu = on_cpu rv_sltiu_instr"
| "call_instr_func fn_xori = on_cpu rv_xori_instr"
| "call_instr_func fn_ori = on_cpu rv_ori_instr"
| "call_instr_func fn_andi = on_cpu rv_andi_instr"
| "call_instr_func fn_slli = on_cpu rv_slli_instr"
| "call_instr_func fn_srai = on_cpu rv_srai_instr"
| "call_instr_func fn_srli = on_cpu rv_srli_instr"
| "call_instr_func fn_auipc = on_cpu rv_auipc_instr"
| "call_instr_func fn_sb = rv_sb_instr rv32_convert_addr"
| "call_instr_func fn_sh = rv_sh_instr rv32_convert_addr"
| "call_instr_func fn_sw = rv_sw_instr rv32_convert_addr"
| "call_instr_func fn_lr_w = rv_lr_w_instr rv32_convert_addr"
| "call_instr_func fn_sc_w = rv_sc_w_instr rv32_convert_addr"
| "call_instr_func fn_amoswap_w = rv_amoswap_w_instr rv32_convert_addr"
| "call_instr_func fn_amoadd_w = rv_amoadd_w_instr rv32_convert_addr"
| "call_instr_func fn_amoxor_w = rv_amoxor_w_instr rv32_convert_addr"
| "call_instr_func fn_amoand_w = rv_amoand_w_instr rv32_convert_addr"
| "call_instr_func fn_amoor_w = rv_amoor_w_instr rv32_convert_addr"
| "call_instr_func fn_amomin_w = rv_amomin_w_instr rv32_convert_addr"
| "call_instr_func fn_amomax_w = rv_amomax_w_instr rv32_convert_addr"
| "call_instr_func fn_amominu_w = rv_amominu_w_instr rv32_convert_addr"
| "call_instr_func fn_amomaxu_w = rv_amomaxu_w_instr rv32_convert_addr"
| "call_instr_func fn_add = on_cpu rv_add_instr"
| "call_instr_func fn_sub = on_cpu rv_sub_instr"
| "call_instr_func fn_sll = on_cpu rv_sll_instr"
| "call_instr_func fn_slt = on_cpu rv_slt_instr"
| "call_instr_func fn_sltu = on_cpu rv_sltu_instr"
| "call_instr_func fn_xor = on_cpu rv_xor_instr"
| "call_instr_func fn_srl = on_cpu rv_srl_instr"
| "call_instr_func fn_sra = on_cpu rv_sra_instr"
| "call_instr_func fn_or = on_cpu rv_or_instr"
| "call_instr_func fn_and = on_cpu rv_and_instr"
| "call_instr_func fn_mul = on_cpu rv_mul_instr"
| "call_instr_func fn_mulh = on_cpu rv_mulh_instr"
| "call_instr_func fn_mulhsu = on_cpu rv_mulhsu_instr"
| "call_instr_func fn_mulhu = on_cpu rv_mulhu_instr"
| "call_instr_func fn_div = on_cpu rv_div_instr"
| "call_instr_func fn_divu = on_cpu rv_divu_instr"
| "call_instr_func fn_rem = on_cpu rv_rem_instr"
| "call_instr_func fn_remu = on_cpu rv_remu_instr"
| "call_instr_func fn_lui = on_cpu rv_lui_instr"
| "call_instr_func fn_beq = on_cpu rv_beq_instr"
| "call_instr_func fn_bne = on_cpu rv_bne_instr"
| "call_instr_func fn_blt = on_cpu rv_blt_instr"
| "call_instr_func fn_bltu = on_cpu rv_bltu_instr"
| "call_instr_func fn_bge = on_cpu rv_bge_instr"
| "call_instr_func fn_bgeu = on_cpu rv_bgeu_instr"
| "call_instr_func fn_jalr = on_cpu rv_jalr_instr"
| "call_instr_func fn_jal = on_cpu rv_jal_instr"
| "call_instr_func fn_sfence = on_cpu rv32_sfence_instr"
| "call_instr_func fn_break = (\<lambda>k. rv_break_instr)"
| "call_instr_func fn_halt = (\<lambda>k. rv_halt_instr)"
| "call_instr_func fn_dump = on_cpu rv32_dump_instr"
| "call_instr_func fn_trace_set = (\<lambda>k. rv_trace_set_instr)"
| "call_instr_func fn_trace_reset = (\<lambda>k. rv_trace_reset_instr)"
| "call_instr_func fn_csr_rd = on_cpu rv32_csr_rd_instr"
| "call_instr_func fn_call = on_cpu rv_call_instr"
| "call_instr_func fn_sret = on_cpu rv_sret_instr"
| "call_instr_func fn_mret = on_cpu rv_mret_instr"
| "call_instr_func fn_wfi = on_cpu rv_wfi_instr"
| "call_instr_func fn_csrrw = on_cpu rv_csrrw_instr"
| "call_instr_func fn_csrrs = on_cpu rv_csrrs_instr"
| "call_instr_func fn_csrrc = on_cpu rv_csrrc_instr"
| "call_instr_func fn_csrrwi = on_cpu rv_csrrwi_instr"
| "call_instr_func fn_csrrsi = on_cpu rv_csrrsi_instr"
| "call_instr_func fn_csrrci = on_cpu rv_csrrci_instr"
| "call_instr_func fn_illegal = (\<lambda>k instr s. Some (rv_illegal_instr s, s))"

end
