(* ===== verification/Rv_Csr_Facts.thy ===== *)
theory Rv_Csr_Facts
  imports Rv_Csr
begin

text \<open>
  Properties of the control and status registers of the RV32 processor: the privilege check of every
  register, read-only registers, the well-formedness invariant that the writes keep, and which
  accesses are undefined behaviour of the C code.
\<close>

lemmas csr_read_defs =
  default_csr_read_def invalid_read_def mcountinhibit_read_def mhpmevent_read_def pmpcfg_read_def
  pmpaddr_read_def sstatus_read_def sie_read_def sip_read_def stvec_read_def
  scounteren_read_def senvcfg_read_def sscratch_read_def sepc_read_def scause_read_def
  stval_read_def satp_read_def scontext_read_def scyclecmp_read_def mvendorid_read_def
  marchid_read_def mimpid_read_def mhartid_read_def mconfigptr_read_def mstatus_read_def
  mstatush_read_def misa_read_def medeleg_read_def mideleg_read_def mie_read_def
  mip_read_def mtvec_read_def mcounteren_read_def mscratch_read_def mepc_read_def
  mcause_read_def mtval_read_def mtinst_read_def mtval2_read_def menvcfg_read_def
  menvcfgh_read_def mseccfg_read_def mseccfgh_read_def tselect_read_def tdata1_read_def
  tdata2_read_def tdata3_read_def mcontext_read_def dcsr_read_def dpc_read_def
  dscratch0_read_def dscratch1_read_def

lemmas status_write_defs =
  mstatus_write_def mstatus_set_def mstatus_clear_def
  sstatus_write_def sstatus_set_def sstatus_clear_def

lemmas plain_write_defs =
  default_csr_write_def default_csr_set_def default_csr_clear_def invalid_write_def mcountinhibit_write_def
  mcountinhibit_set_def mcountinhibit_clear_def mhpmevent_write_def mhpmevent_set_def mhpmevent_clear_def
  pmpcfg_write_def pmpcfg_set_def pmpcfg_clear_def pmpaddr_write_def pmpaddr_set_def
  pmpaddr_clear_def sie_write_def sie_set_def sie_clear_def sip_write_def
  sip_set_def sip_clear_def stvec_write_def stvec_set_def stvec_clear_def
  scounteren_write_def scounteren_set_def scounteren_clear_def senvcfg_write_def senvcfg_set_def
  senvcfg_clear_def sscratch_write_def sscratch_set_def sscratch_clear_def sepc_write_def
  sepc_set_def sepc_clear_def scause_write_def scause_set_def scause_clear_def
  stval_write_def stval_set_def stval_clear_def satp_write_def satp_set_def
  satp_clear_def scontext_write_def scontext_set_def scontext_clear_def scyclecmp_write_def
  scyclecmp_set_def scyclecmp_clear_def mstatush_write_def mstatush_set_def mstatush_clear_def
  misa_write_def misa_set_def misa_clear_def medeleg_write_def medeleg_set_def
  medeleg_clear_def mideleg_write_def mideleg_set_def mideleg_clear_def mie_write_def
  mie_set_def mie_clear_def mip_write_def mip_set_def mip_clear_def
  mtvec_write_def mtvec_set_def mtvec_clear_def mcounteren_write_def mcounteren_set_def
  mcounteren_clear_def mscratch_write_def mscratch_set_def mscratch_clear_def mepc_write_def
  mepc_set_def mepc_clear_def mcause_write_def mcause_set_def mcause_clear_def
  mtval_write_def mtval_set_def mtval_clear_def mtinst_write_def mtinst_set_def
  mtinst_clear_def mtval2_write_def mtval2_set_def mtval2_clear_def menvcfg_write_def
  menvcfg_set_def menvcfg_clear_def menvcfgh_write_def menvcfgh_set_def menvcfgh_clear_def
  mseccfg_write_def mseccfg_set_def mseccfg_clear_def mseccfgh_write_def mseccfgh_set_def
  mseccfgh_clear_def tselect_write_def tselect_set_def tselect_clear_def tdata1_write_def
  tdata1_set_def tdata1_clear_def tdata2_write_def tdata2_set_def tdata2_clear_def
  tdata3_write_def tdata3_set_def tdata3_clear_def mcontext_write_def mcontext_set_def
  mcontext_clear_def dcsr_write_def dcsr_set_def dcsr_clear_def dpc_write_def
  dpc_set_def dpc_clear_def dscratch0_write_def dscratch0_set_def dscratch0_clear_def
  dscratch1_write_def dscratch1_set_def dscratch1_clear_def

lemmas csr_write_defs = plain_write_defs status_write_defs

lemma minimal_privilege_Ok [simp]:
  "minimal_privilege p cpu r = Ok x \<longleftrightarrow> p \<le> priv_mode cpu \<and> r = Ok x"
  by (auto simp: minimal_privilege_def)

lemma minimal_privilege_low: "priv_mode cpu < p \<Longrightarrow> minimal_privilege p cpu r = Exc rv_exc_illegal_instruction"
  by (simp add: minimal_privilege_def)

subsection \<open>The operations of a register number\<close>

text \<open>
  Every register number has operations on RV32. A property of the operations of all registers is
  proved for the four blocks of numbers and for each register of the table.
\<close>

lemma get_csr_ops_cases [consumes 1, case_names counter hpmevent pmpcfg pmpaddr single invalid]:
  assumes "get_csr_ops num = Some (ops :: (32, 't) csr_ops)"
  obtains "is_counter_num num"
      "ops = \<lparr>csr_read = counter_read, csr_write = counter_write, csr_set = counter_set, csr_clear = counter_clear\<rparr>"
  | "num \<in> {0x323..0x33F}"
      "ops = \<lparr>csr_read = mhpmevent_read, csr_write = mhpmevent_write, csr_set = mhpmevent_set, csr_clear = mhpmevent_clear\<rparr>"
  | "num \<in> {0x3A0..0x3AF}"
      "ops = \<lparr>csr_read = pmpcfg_read, csr_write = pmpcfg_write, csr_set = pmpcfg_set, csr_clear = pmpcfg_clear\<rparr>"
  | "num \<in> {0x3B0..0x3EF}"
      "ops = \<lparr>csr_read = pmpaddr_read, csr_write = pmpaddr_write, csr_set = pmpaddr_set, csr_clear = pmpaddr_clear\<rparr>"
  | "(num, ops) \<in> set csr_ops_of_num"
  | "ops = \<lparr>csr_read = invalid_read, csr_write = invalid_write, csr_set = invalid_write, csr_clear = invalid_write\<rparr>"
  using assms that by (auto simp: get_csr_ops_def split: if_splits option.splits dest: map_of_SomeD)

lemma get_csr_ops_total: "\<exists>ops. get_csr_ops num = Some (ops :: (32, 't) csr_ops)"
  by (auto simp: get_csr_ops_def split: option.splits)

subsection \<open>Privilege\<close>

definition ops_deny :: "('x::len, 't) csr_ops \<Rightarrow> ('x, 't) rv_cpu \<Rightarrow> nat \<Rightarrow> bool" where
  "ops_deny ops cpu num \<longleftrightarrow>
     csr_read ops cpu num = Exc rv_exc_illegal_instruction \<and>
     (\<forall>v. csr_write ops cpu num v = Exc rv_exc_illegal_instruction \<and>
          csr_set ops cpu num v = Exc rv_exc_illegal_instruction \<and>
          csr_clear ops cpu num v = Exc rv_exc_illegal_instruction)"

lemma not_less_umode [simp]: "\<not> m < rv_umode"
  by (simp add: less_rv_priv_mode_def)

lemma below_mmode: "m < rv_mmode \<Longrightarrow> m \<noteq> rv_mmode"
  by blast

lemma table_deny:
  assumes "(num, ops) \<in> set csr_ops_of_num" "priv_mode cpu < rv_csr_min_priv_mode num"
  shows "ops_deny ops cpu num"
  using assms unfolding csr_ops_of_num_def list.set insert_iff empty_iff
  by (elim disjE) (simp_all add: ops_deny_def csr_read_defs csr_write_defs rv_csr_min_priv_mode_def
      rv_priv_of_def minimal_privilege_low satp_update_with_def
      default_csr_read_def default_csr_write_def default_csr_set_def default_csr_clear_def)

lemma counter_priv: "is_counter_num num \<Longrightarrow> rv_csr_min_priv_mode num = rv_umode \<or> rv_csr_min_priv_mode num = rv_mmode"
proof -
  assume "is_counter_num num"
  then have "num div 256 = 12 \<or> num div 256 = 11" by (auto simp: is_counter_num_def)
  then show ?thesis by (auto simp: rv_csr_min_priv_mode_def rv_priv_of_def)
qed

lemma counter_deny:
  assumes "is_counter_num num" "priv_mode cpu < rv_csr_min_priv_mode num"
  shows "ops_deny \<lparr>csr_read = counter_read, csr_write = counter_write, csr_set = counter_set,
                    csr_clear = counter_clear\<rparr> cpu num"
proof -
  have "rv_csr_min_priv_mode num = rv_mmode" using counter_priv [OF assms(1)] assms(2) by auto
  with assms(2) show ?thesis
    by (auto simp: ops_deny_def counter_read_def counter_write_def counter_set_def counter_clear_def
        counter_update_def Let_def minimal_privilege_low)
qed

lemma block_priv: "num \<in> {0x323..0x33F} \<or> num \<in> {0x3A0..0x3AF} \<or> num \<in> {0x3B0..0x3EF} \<Longrightarrow>
    rv_csr_min_priv_mode num = rv_mmode"
proof -
  assume "num \<in> {0x323..0x33F} \<or> num \<in> {0x3A0..0x3AF} \<or> num \<in> {0x3B0..0x3EF}"
  then have "num div 256 = 3" by auto
  then show ?thesis by (simp add: rv_csr_min_priv_mode_def rv_priv_of_def)
qed

lemma get_csr_ops_deny:
  assumes "get_csr_ops num = Some (ops :: (32, 't) csr_ops)" "priv_mode cpu < rv_csr_min_priv_mode num"
  shows "ops_deny ops cpu num"
  using assms(1)
proof (cases rule: get_csr_ops_cases)
  case hpmevent
  then show ?thesis using assms(2) block_priv [of num]
    by (simp add: ops_deny_def mhpmevent_read_def mhpmevent_write_def mhpmevent_set_def mhpmevent_clear_def
        minimal_privilege_low)
next
  case counter
  then show ?thesis using counter_deny [OF _ assms(2)] by simp
next
  case single
  then show ?thesis using table_deny [OF _ assms(2)] by simp
qed (simp_all add: ops_deny_def csr_read_defs csr_write_defs)

lemma csr_access_deny:
  fixes cpu :: "(32, 't) rv_cpu"
  assumes "priv_mode cpu < rv_csr_min_priv_mode num"
  shows "rv_csr_rw cpu num v rd = Exc rv_exc_illegal_instruction"
    and "rv_csr_rs cpu num v wr = Exc rv_exc_illegal_instruction"
    and "rv_csr_rc cpu num v wr = Exc rv_exc_illegal_instruction"
proof -
  obtain ops :: "(32, 't) csr_ops" where ops: "get_csr_ops num = Some ops" using get_csr_ops_total by blast
  note deny = get_csr_ops_deny [OF ops assms, unfolded ops_deny_def]
  show "rv_csr_rw cpu num v rd = Exc rv_exc_illegal_instruction"
    "rv_csr_rs cpu num v wr = Exc rv_exc_illegal_instruction"
    "rv_csr_rc cpu num v wr = Exc rv_exc_illegal_instruction"
    using deny by (simp_all add: rv_csr_rw_def rv_csr_rs_def rv_csr_rc_def ops)
qed

subsection \<open>Read-only registers\<close>

definition ops_read_only :: "('x::len, 't) csr_ops \<Rightarrow> ('x, 't) rv_cpu \<Rightarrow> nat \<Rightarrow> bool" where
  "ops_read_only ops cpu num \<longleftrightarrow>
     (\<forall>v. csr_write ops cpu num v = Exc rv_exc_illegal_instruction \<and>
          csr_set ops cpu num v = Exc rv_exc_illegal_instruction \<and>
          csr_clear ops cpu num v = Exc rv_exc_illegal_instruction)"

lemma table_read_only:
  assumes "(num, ops) \<in> set csr_ops_of_num" "num div 1024 = 3"
  shows "ops_read_only ops cpu num"
  using assms unfolding csr_ops_of_num_def list.set insert_iff empty_iff
  by (elim disjE) (simp_all add: ops_read_only_def invalid_write_def)

lemma get_csr_ops_read_only:
  assumes "get_csr_ops num = Some (ops :: (32, 't) csr_ops)" "num div 1024 = 3"
  shows "ops_read_only ops cpu num"
  using assms(1)
proof (cases rule: get_csr_ops_cases)
  case counter
  have "num div 256 = 12" using counter(1) assms(2) by (auto simp: is_counter_num_def)
  then show ?thesis
    by (simp add: counter(2) ops_read_only_def counter_write_def counter_set_def counter_clear_def
        counter_update_def Let_def minimal_privilege_def rv_csr_min_priv_mode_def rv_priv_of_def)
next
  case single
  then show ?thesis using assms(2) by (rule table_read_only)
qed (use assms(2) in \<open>auto simp: ops_read_only_def csr_write_defs\<close>)

lemma csr_read_only:
  fixes cpu :: "(32, 't) rv_cpu"
  assumes "num div 1024 = 3"
  shows "rv_csr_rw cpu num v rd \<noteq> Ok r" "rv_csr_rs cpu num v True \<noteq> Ok r" "rv_csr_rc cpu num v True \<noteq> Ok r"
proof -
  obtain ops :: "(32, 't) csr_ops" where ops: "get_csr_ops num = Some ops" using get_csr_ops_total by blast
  note ro = get_csr_ops_read_only [OF ops assms, of cpu, unfolded ops_read_only_def]
  show "rv_csr_rw cpu num v rd \<noteq> Ok r" "rv_csr_rs cpu num v True \<noteq> Ok r" "rv_csr_rc cpu num v True \<noteq> Ok r"
    using ro by (auto simp: rv_csr_rw_def rv_csr_rs_def rv_csr_rc_def ops split: outcome.splits if_splits)
qed

subsection \<open>Well-formedness\<close>

lemma drop_bit_eq_take: 
  fixes m :: u64
  shows "drop_bit 11 (m AND push_bit 11 3) = (if bit m 11 then 1 else 0) + (if bit m 12 then 2 else 0)"
proof (rule bit_eqI)
  fix n :: nat
  consider "n = 0" | "n = 1" | "n \<ge> 2" by linarith
  then show "bit (drop_bit 11 (m AND push_bit 11 3)) n =
      bit ((if bit m 11 then 1 else 0) + (if bit m 12 then 2 else 0) :: u64) n"
  proof cases
    case 3
    then obtain i where "n = Suc (Suc i)" by (metis add_2_eq_Suc le_Suc_ex)
    then show ?thesis by (simp add: bit_simps)
  qed (simp_all add: bit_simps)
qed

lemma mpp_mask_64: "ucast (rv_csr_mstatus_mpp_mask :: u32) = (push_bit 11 3 :: u64)"
  by (simp add: rv_csr_mstatus_mpp_mask_def)

lemma mpp_bits:
  fixes cpu :: "(32, 't) rv_cpu"
  shows "rv_csr_mstatus_mpp cpu =
     (if bit (mstatus (csr cpu)) 12 then (if bit (mstatus (csr cpu)) 11 then rv_mmode else rv_rmode)
      else (if bit (mstatus (csr cpu)) 11 then rv_smode else rv_umode))"
  unfolding rv_csr_mstatus_mpp_def mpp_mask_64 drop_bit_eq_take by (simp add: rv_priv_of_def)

lemmas status_mask_defs =
  rv_csr_mstatus_mask_def rv_csr_sstatus_mask_def rv_csr_mstatus_tsr_mask_def rv_csr_mstatus_tw_mask_def
  rv_csr_mstatus_tvm_mask_def rv_csr_mstatus_mprv_mask_def rv_csr_mstatus_mpp_mask_def
  rv_csr_mstatus_mpie_mask_def rv_csr_mstatus_mie_mask_def rv_csr_sstatus_mxr_mask_def
  rv_csr_sstatus_sum_mask_def rv_csr_sstatus_spp_mask_def rv_csr_sstatus_spie_mask_def rv_csr_sstatus_sie_mask_def

text \<open>The reserved encoding 2 of the previous privilege mode.\<close>

definition mpp_ok :: "u64 \<Rightarrow> bool" where
  "mpp_ok m \<longleftrightarrow> bit m 12 \<longrightarrow> bit m 11"

lemma mpp_ok_iff: "mpp_ok (mstatus (csr cpu)) \<longleftrightarrow> rv_csr_mstatus_mpp (cpu :: (32, 't) rv_cpu) \<noteq> rv_rmode"
  by (simp add: mpp_ok_def mpp_bits)

lemma mpp_ok_cong: "bit m' 11 = bit m 11 \<Longrightarrow> bit m' 12 = bit m 12 \<Longrightarrow> mpp_ok m \<Longrightarrow> mpp_ok m'"
  by (simp add: mpp_ok_def)

lemma mpp_eq_2: "drop_bit 11 (m AND push_bit 11 3) = (2 :: u64) \<longleftrightarrow> bit m 12 \<and> \<not> bit m 11"
  unfolding drop_bit_eq_take by simp

lemma mstatus_write_mpp:
  assumes "mstatus_write cpu num v = Ok (cpu' :: (32, 't) rv_cpu)" "mpp_ok (mstatus (csr cpu))"
  shows "mpp_ok (mstatus (csr cpu'))"
proof -
  have b: "bit (rv_csr_mstatus_mpp_mask :: u32) 11" "bit (rv_csr_mstatus_mpp_mask :: u32) 12"
    by (simp_all add: rv_csr_mstatus_mpp_mask_def)
  show ?thesis using assms unfolding mstatus_write_def Let_def mpp_mask_64 mpp_eq_2
    by (auto simp: mpp_ok_def bit_simps b split: if_splits)
qed

lemma mstatus_set_mpp:
  assumes "mstatus_set cpu num v = Ok (cpu' :: (32, 't) rv_cpu)" "mpp_ok (mstatus (csr cpu))"
  shows "mpp_ok (mstatus (csr cpu'))"
proof -
  have b: "bit (rv_csr_mstatus_mpp_mask :: u32) 11" "bit (rv_csr_mstatus_mpp_mask :: u32) 12"
    by (simp_all add: rv_csr_mstatus_mpp_mask_def)
  show ?thesis using assms unfolding mstatus_set_def Let_def mpp_mask_64 mpp_eq_2
    by (auto simp: mpp_ok_def bit_simps b split: if_splits)
qed

lemma mstatus_clear_mpp:
  assumes "mstatus_clear cpu num v = Ok (cpu' :: (32, 't) rv_cpu)" "mpp_ok (mstatus (csr cpu))"
  shows "mpp_ok (mstatus (csr cpu'))"
proof -
  have b: "bit (rv_csr_mstatus_mpp_mask :: u32) 11" "bit (rv_csr_mstatus_mpp_mask :: u32) 12"
    by (simp_all add: rv_csr_mstatus_mpp_mask_def)
  show ?thesis using assms unfolding mstatus_clear_def Let_def mpp_mask_64 mpp_eq_2
    by (auto simp: mpp_ok_def bit_simps b split: if_splits)
qed

lemma sstatus_ops_mpp:
  fixes cpu' :: "(32, 't) rv_cpu"
  assumes "mpp_ok (mstatus (csr cpu))"
  shows "sstatus_write cpu num v = Ok cpu' \<Longrightarrow> mpp_ok (mstatus (csr cpu'))"
    and "sstatus_set cpu num v = Ok cpu' \<Longrightarrow> mpp_ok (mstatus (csr cpu'))"
    and "sstatus_clear cpu num v = Ok cpu' \<Longrightarrow> mpp_ok (mstatus (csr cpu'))"
proof -
  have b: "\<not> bit (rv_csr_sstatus_mask :: u32) 11" "\<not> bit (rv_csr_sstatus_mask :: u32) 12"
    by (simp_all add: status_mask_defs)
  show "sstatus_write cpu num v = Ok cpu' \<Longrightarrow> mpp_ok (mstatus (csr cpu'))"
    "sstatus_set cpu num v = Ok cpu' \<Longrightarrow> mpp_ok (mstatus (csr cpu'))"
    "sstatus_clear cpu num v = Ok cpu' \<Longrightarrow> mpp_ok (mstatus (csr cpu'))"
    using assms b by (auto simp: sstatus_write_def sstatus_set_def sstatus_clear_def mpp_ok_def bit_simps)
qed

text \<open>
  The invariant of a processor's registers: neither the current nor the previous privilege mode is
  the reserved one, the trap vectors have a defined mode, only S interrupts and no environment call
  from M mode are delegated, and only existing interrupts are enabled or pending.
\<close>

definition within :: "'a::len word \<Rightarrow> 'a word \<Rightarrow> bool" where
  "within v m \<longleftrightarrow> v AND NOT m = 0"

lemma within_simps [simp]:
  "within (v AND m) m" "within a m \<Longrightarrow> within (a OR (v AND m)) m" "within a m \<Longrightarrow> within (a AND b) m"
  "within 0 m" "within m m" "within a m \<Longrightarrow> within b m \<Longrightarrow> within (a OR b) m"
  by (auto simp: within_def bit_eq_iff bit_simps)

definition csr_wf :: "(32, 't) rv_cpu \<Rightarrow> bool" where
  "csr_wf cpu \<longleftrightarrow>
     priv_mode cpu \<noteq> rv_rmode \<and> mpp_ok (mstatus (csr cpu)) \<and>
     \<not> bit (mtvec (csr cpu)) 1 \<and> \<not> bit (stvec (csr cpu)) 1 \<and> asid_len (csr cpu) \<le> 9 \<and>
     within (medeleg (csr cpu)) medeleg_mask \<and> within (mideleg (csr cpu)) rv_csr_si_mask \<and>
     within (mie (csr cpu)) rv_csr_mi_mask \<and> within (mip (csr cpu)) rv_csr_mi_mask"

definition ops_keep :: "(32, 't) csr_ops \<Rightarrow> bool" where
  "ops_keep ops \<longleftrightarrow> (\<forall>cpu num v cpu'. csr_wf cpu \<longrightarrow>
     csr_write ops cpu num v = Ok cpu' \<or> csr_set ops cpu num v = Ok cpu' \<or> csr_clear ops cpu num v = Ok cpu' \<longrightarrow>
     csr_wf cpu')"

lemma si_mask_within: "within rv_csr_si_mask rv_csr_mi_mask" "within rv_csr_ssi_mask rv_csr_mi_mask"
  by (simp_all add: within_def rv_csr_mi_mask_def rv_csr_si_mask_def rv_csr_sei_mask_def rv_csr_sti_mask_def
      rv_csr_ssi_mask_def rv_csr_mei_mask_def rv_csr_mti_mask_def rv_csr_msi_mask_def)

lemma within_trans: "within m m' \<Longrightarrow> within v m \<Longrightarrow> within v m'"
  by (auto simp: within_def bit_eq_iff bit_simps)

lemma within_si [simp]:
  "within (v AND rv_csr_si_mask) rv_csr_mi_mask" "within (v AND rv_csr_ssi_mask) rv_csr_mi_mask"
  by (rule within_trans [OF si_mask_within(1)], simp, rule within_trans [OF si_mask_within(2)], simp)

lemma csr_wf_mstatus:
  "csr_wf cpu \<Longrightarrow> mpp_ok m \<Longrightarrow> csr_wf (cpu\<lparr>csr := (csr cpu)\<lparr>mstatus := m\<rparr>\<rparr>)"
  by (simp add: csr_wf_def)

lemma status_frame:
  fixes cpu :: "(32, 't) rv_cpu"
  shows "mstatus_write cpu num v = Ok cpu' \<Longrightarrow> \<exists>m. cpu' = cpu\<lparr>csr := (csr cpu)\<lparr>mstatus := m\<rparr>\<rparr>"
    "mstatus_set cpu num v = Ok cpu' \<Longrightarrow> \<exists>m. cpu' = cpu\<lparr>csr := (csr cpu)\<lparr>mstatus := m\<rparr>\<rparr>"
    "mstatus_clear cpu num v = Ok cpu' \<Longrightarrow> \<exists>m. cpu' = cpu\<lparr>csr := (csr cpu)\<lparr>mstatus := m\<rparr>\<rparr>"
    "sstatus_write cpu num v = Ok cpu' \<Longrightarrow> \<exists>m. cpu' = cpu\<lparr>csr := (csr cpu)\<lparr>mstatus := m\<rparr>\<rparr>"
    "sstatus_set cpu num v = Ok cpu' \<Longrightarrow> \<exists>m. cpu' = cpu\<lparr>csr := (csr cpu)\<lparr>mstatus := m\<rparr>\<rparr>"
    "sstatus_clear cpu num v = Ok cpu' \<Longrightarrow> \<exists>m. cpu' = cpu\<lparr>csr := (csr cpu)\<lparr>mstatus := m\<rparr>\<rparr>"
  by (auto simp: status_write_defs Let_def)

lemma status_keep:
  fixes cpu :: "(32, 't) rv_cpu"
  assumes wf: "csr_wf cpu"
  shows "mstatus_write cpu num v = Ok cpu' \<Longrightarrow> csr_wf cpu'" "mstatus_set cpu num v = Ok cpu' \<Longrightarrow> csr_wf cpu'"
    "mstatus_clear cpu num v = Ok cpu' \<Longrightarrow> csr_wf cpu'" "sstatus_write cpu num v = Ok cpu' \<Longrightarrow> csr_wf cpu'"
    "sstatus_set cpu num v = Ok cpu' \<Longrightarrow> csr_wf cpu'" "sstatus_clear cpu num v = Ok cpu' \<Longrightarrow> csr_wf cpu'"
proof -
  have m: "mpp_ok (mstatus (csr cpu))" using wf by (simp add: csr_wf_def)
  have keep: "csr_wf cpu'" if "mpp_ok (mstatus (csr cpu'))" "\<exists>m. cpu' = cpu\<lparr>csr := (csr cpu)\<lparr>mstatus := m\<rparr>\<rparr>"
    using that csr_wf_mstatus [OF wf] by auto
  show "csr_wf cpu'" if h: "mstatus_write cpu num v = Ok cpu'" using keep mstatus_write_mpp [OF h m] status_frame(1) [OF h] by blast
  show "csr_wf cpu'" if h: "mstatus_set cpu num v = Ok cpu'" using keep mstatus_set_mpp [OF h m] status_frame(2) [OF h] by blast
  show "csr_wf cpu'" if h: "mstatus_clear cpu num v = Ok cpu'" using keep mstatus_clear_mpp [OF h m] status_frame(3) [OF h] by blast
  show "csr_wf cpu'" if h: "sstatus_write cpu num v = Ok cpu'" using keep sstatus_ops_mpp(1) [OF m h] status_frame(4) [OF h] by blast
  show "csr_wf cpu'" if h: "sstatus_set cpu num v = Ok cpu'" using keep sstatus_ops_mpp(2) [OF m h] status_frame(5) [OF h] by blast
  show "csr_wf cpu'" if h: "sstatus_clear cpu num v = Ok cpu'" using keep sstatus_ops_mpp(3) [OF m h] status_frame(6) [OF h] by blast
qed

lemma ops_keepI:
  assumes "\<And>cpu num v cpu'. csr_wf cpu \<Longrightarrow> csr_write ops cpu num v = Ok cpu' \<Longrightarrow> csr_wf cpu'"
    and "\<And>cpu num v cpu'. csr_wf cpu \<Longrightarrow> csr_set ops cpu num v = Ok cpu' \<Longrightarrow> csr_wf cpu'"
    and "\<And>cpu num v cpu'. csr_wf cpu \<Longrightarrow> csr_clear ops cpu num v = Ok cpu' \<Longrightarrow> csr_wf cpu'"
  shows "ops_keep ops"
  using assms unfolding ops_keep_def by blast

lemma status_ops_keep:
  "ops_keep \<lparr>csr_read = r, csr_write = mstatus_write, csr_set = mstatus_set, csr_clear = mstatus_clear\<rparr>"
  "ops_keep \<lparr>csr_read = r, csr_write = sstatus_write, csr_set = sstatus_set, csr_clear = sstatus_clear\<rparr>"
  by (rule ops_keepI; simp; erule (1) status_keep)+

lemma table_keep:
  assumes "(num, ops) \<in> set (csr_ops_of_num :: (nat \<times> (32, 't) csr_ops) list)"
  shows "ops_keep ops"
  using assms unfolding csr_ops_of_num_def list.set insert_iff empty_iff
  by (elim disjE; simp only: prod.inject status_ops_keep)
    (rule ops_keepI; simp add: plain_write_defs default_csr_write_def default_csr_set_def
      default_csr_clear_def write_cause_def satp_update_with_def Let_def csr_wf_def bit_simps
      split: if_splits option.splits)+

lemma counter_keep:
  "ops_keep \<lparr>csr_read = r, csr_write = counter_write, csr_set = counter_set, csr_clear = counter_clear\<rparr>"
  by (rule ops_keepI; auto simp: counter_write_def counter_set_def counter_clear_def counter_update_def Let_def
      csr_wf_def split: if_splits)

lemma get_csr_ops_keep:
  assumes "get_csr_ops num = Some (ops :: (32, 't) csr_ops)"
  shows "ops_keep ops"
  using assms
proof (cases rule: get_csr_ops_cases)
  case hpmevent
  then show ?thesis
    by (auto intro!: ops_keepI simp: mhpmevent_write_def mhpmevent_set_def mhpmevent_clear_def Let_def csr_wf_def
        split: if_splits)
next
  case single
  then show ?thesis by (rule table_keep)
qed (auto simp: counter_keep intro!: ops_keepI simp: csr_write_defs)

lemma csr_access_keep:
  fixes cpu :: "(32, 't) rv_cpu"
  assumes "csr_wf cpu"
  shows "rv_csr_rw cpu num v rd = Ok (t, cpu') \<Longrightarrow> csr_wf cpu'"
    and "rv_csr_rs cpu num v wr = Ok (t, cpu') \<Longrightarrow> csr_wf cpu'"
    and "rv_csr_rc cpu num v wr = Ok (t, cpu') \<Longrightarrow> csr_wf cpu'"
proof -
  obtain ops :: "(32, 't) csr_ops" where ops: "get_csr_ops num = Some ops" using get_csr_ops_total by blast
  have keep: "csr_write ops cpu num v = Ok cpu' \<Longrightarrow> csr_wf cpu'" "csr_set ops cpu num v = Ok cpu' \<Longrightarrow> csr_wf cpu'"
    "csr_clear ops cpu num v = Ok cpu' \<Longrightarrow> csr_wf cpu'"
    using get_csr_ops_keep [OF ops] assms unfolding ops_keep_def by blast+
  show "rv_csr_rw cpu num v rd = Ok (t, cpu') \<Longrightarrow> csr_wf cpu'"
    using keep(1) by (auto simp: rv_csr_rw_def ops split: outcome.splits)
  show "rv_csr_rs cpu num v wr = Ok (t, cpu') \<Longrightarrow> csr_wf cpu'"
    using keep(2) assms by (auto simp: rv_csr_rs_def ops split: outcome.splits if_splits)
  show "rv_csr_rc cpu num v wr = Ok (t, cpu') \<Longrightarrow> csr_wf cpu'"
    using keep(3) assms by (auto simp: rv_csr_rc_def ops split: outcome.splits if_splits)
qed

subsection \<open>Frame\<close>

text \<open>The fields of a processor that no access to a register changes.\<close>

definition csr_frame :: "(32, 't) rv_cpu \<Rightarrow> (32, 't) rv_cpu \<Rightarrow> bool" where
  "csr_frame cpu cpu' \<longleftrightarrow> cpu' = cpu\<lparr>csr := csr cpu'\<rparr> \<and> mhartid (csr cpu') = mhartid (csr cpu)"

definition ops_frame :: "(32, 't) csr_ops \<Rightarrow> bool" where
  "ops_frame ops \<longleftrightarrow> (\<forall>cpu num v cpu'.
     csr_write ops cpu num v = Ok cpu' \<or> csr_set ops cpu num v = Ok cpu' \<or> csr_clear ops cpu num v = Ok cpu' \<longrightarrow>
     csr_frame cpu cpu')"

lemma csr_frame_upd [simp]: "csr_frame cpu (cpu\<lparr>csr := c\<rparr>) \<longleftrightarrow> mhartid c = mhartid (csr cpu)"
  by (auto simp: csr_frame_def)

lemma csr_frame_refl [simp]: "csr_frame cpu cpu"
  by (simp add: csr_frame_def)

lemma ops_frameI:
  assumes "\<And>cpu num v cpu'. csr_write ops cpu num v = Ok cpu' \<Longrightarrow> csr_frame cpu cpu'"
    and "\<And>cpu num v cpu'. csr_set ops cpu num v = Ok cpu' \<Longrightarrow> csr_frame cpu cpu'"
    and "\<And>cpu num v cpu'. csr_clear ops cpu num v = Ok cpu' \<Longrightarrow> csr_frame cpu cpu'"
  shows "ops_frame ops"
  using assms unfolding ops_frame_def by blast

lemma table_frame:
  assumes "(num, ops) \<in> set (csr_ops_of_num :: (nat \<times> (32, 't) csr_ops) list)"
  shows "ops_frame ops"
  using assms unfolding csr_ops_of_num_def list.set insert_iff empty_iff
  by (elim disjE; simp only: prod.inject)
    (rule ops_frameI; auto simp: csr_write_defs default_csr_write_def default_csr_set_def
      default_csr_clear_def write_cause_def satp_update_with_def Let_def
      split: if_splits option.splits)+

lemma get_csr_ops_frame:
  assumes "get_csr_ops num = Some (ops :: (32, 't) csr_ops)"
  shows "ops_frame ops"
  using assms
proof (cases rule: get_csr_ops_cases)
  case single
  then show ?thesis by (rule table_frame)
qed (auto intro!: ops_frameI simp: csr_write_defs counter_write_def counter_set_def counter_clear_def
    counter_update_def Let_def split: if_splits)

lemma csr_access_frame:
  fixes cpu :: "(32, 't) rv_cpu"
  shows "rv_csr_rw cpu num v rd = Ok (t, cpu') \<Longrightarrow> csr_frame cpu cpu'"
    and "rv_csr_rs cpu num v wr = Ok (t, cpu') \<Longrightarrow> csr_frame cpu cpu'"
    and "rv_csr_rc cpu num v wr = Ok (t, cpu') \<Longrightarrow> csr_frame cpu cpu'"
proof -
  obtain ops :: "(32, 't) csr_ops" where ops: "get_csr_ops num = Some ops" using get_csr_ops_total by blast
  have fr: "csr_write ops cpu num v = Ok cpu' \<Longrightarrow> csr_frame cpu cpu'"
    "csr_set ops cpu num v = Ok cpu' \<Longrightarrow> csr_frame cpu cpu'" "csr_clear ops cpu num v = Ok cpu' \<Longrightarrow> csr_frame cpu cpu'"
    using get_csr_ops_frame [OF ops] unfolding ops_frame_def by blast+
  show "rv_csr_rw cpu num v rd = Ok (t, cpu') \<Longrightarrow> csr_frame cpu cpu'"
    using fr(1) by (auto simp: rv_csr_rw_def ops split: outcome.splits)
  show "rv_csr_rs cpu num v wr = Ok (t, cpu') \<Longrightarrow> csr_frame cpu cpu'"
    using fr(2) by (auto simp: rv_csr_rs_def ops split: outcome.splits if_splits)
  show "rv_csr_rc cpu num v wr = Ok (t, cpu') \<Longrightarrow> csr_frame cpu cpu'"
    using fr(3) by (auto simp: rv_csr_rc_def ops split: outcome.splits if_splits)
qed

subsection \<open>Undefined behaviour\<close>

text \<open>
  The registers whose access can be undefined behaviour: the counters, because of the shift in
  \<open>counter_read\<close> and the array index in \<open>counter_write\<close>, and the two cause registers, because of the
  shift in \<open>is_exception_code\<close>. Every other access is defined.
\<close>

definition csr_hazard :: "nat \<Rightarrow> bool" where
  "csr_hazard num \<longleftrightarrow> is_counter_num num \<or> num = 0x142 \<or> num = 0x342"

definition ops_defined :: "(32, 't) csr_ops \<Rightarrow> bool" where
  "ops_defined ops \<longleftrightarrow> (\<forall>cpu num v. asid_len (csr cpu) \<le> 9 \<longrightarrow> csr_read ops cpu num \<noteq> Undefined \<and>
     csr_write ops cpu num v \<noteq> Undefined \<and> csr_set ops cpu num v \<noteq> Undefined \<and> csr_clear ops cpu num v \<noteq> Undefined)"

lemma minimal_privilege_Undefined [simp]: "minimal_privilege p cpu r = Undefined \<longleftrightarrow> p \<le> priv_mode cpu \<and> r = Undefined"
  by (auto simp: minimal_privilege_def)

lemma table_defined:
  assumes "(num, ops) \<in> set (csr_ops_of_num :: (nat \<times> (32, 't) csr_ops) list)" "\<not> csr_hazard num"
  shows "ops_defined ops"
  using assms unfolding csr_ops_of_num_def list.set insert_iff empty_iff
  by (elim disjE) (simp_all add: ops_defined_def csr_hazard_def csr_read_defs csr_write_defs default_csr_read_def
      default_csr_write_def default_csr_set_def default_csr_clear_def satp_update_with_def Let_def)

lemma get_csr_ops_defined:
  assumes "get_csr_ops num = Some (ops :: (32, 't) csr_ops)" "\<not> csr_hazard num"
  shows "ops_defined ops"
  using assms(1)
proof (cases rule: get_csr_ops_cases)
  case single
  then show ?thesis using assms(2) by (rule table_defined)
qed (use assms(2) in \<open>auto simp: csr_hazard_def ops_defined_def csr_read_defs csr_write_defs Let_def\<close>)

lemma csr_access_defined:
  fixes cpu :: "(32, 't) rv_cpu"
  assumes "csr_wf cpu" "\<not> csr_hazard num"
  shows "rv_csr_rw cpu num v rd \<noteq> Undefined" "rv_csr_rs cpu num v wr \<noteq> Undefined"
    "rv_csr_rc cpu num v wr \<noteq> Undefined"
proof -
  obtain ops :: "(32, 't) csr_ops" where ops: "get_csr_ops num = Some ops" using get_csr_ops_total by blast
  have "asid_len (csr cpu) \<le> 9" using assms(1) by (simp add: csr_wf_def)
  with get_csr_ops_defined [OF ops assms(2)] have
    "csr_read ops cpu num \<noteq> Undefined" "csr_write ops cpu num v \<noteq> Undefined" "csr_set ops cpu num v \<noteq> Undefined"
    "csr_clear ops cpu num v \<noteq> Undefined"
    unfolding ops_defined_def by blast+
  then show "rv_csr_rw cpu num v rd \<noteq> Undefined" "rv_csr_rs cpu num v wr \<noteq> Undefined"
    "rv_csr_rc cpu num v wr \<noteq> Undefined"
    by (auto simp: rv_csr_rw_def rv_csr_rs_def rv_csr_rc_def ops split: outcome.splits)
qed

text \<open>
  A read of a user-level counter (\<open>cycle\<close>, \<open>time\<close>, \<open>instret\<close>, \<open>hpmcounter\<close>) from S or U mode always
  shifts by \<open>csr * 0x1F\<close>, far beyond 31; and a write of \<open>mcycleh\<close> or \<open>minstreth\<close> from M mode indexes
  the array of the performance counters below its start.
\<close>

lemma counter_read_undefined:
  assumes "is_counter_num num" "rv_csr_min_priv_mode num \<noteq> rv_mmode" "priv_mode cpu = rv_smode \<or> priv_mode cpu = rv_umode"
  shows "counter_read cpu num = Undefined"
proof -
  have "32 \<le> num * 0x1F" using assms(1) by (auto simp: is_counter_num_def)
  then show ?thesis using assms(2,3) by (auto simp: counter_read_def counter_enabled_def)
qed

lemma counter_high_write_undefined:
  assumes "num = 0xB80 \<or> num = 0xB82" "priv_mode cpu = rv_mmode"
  shows "counter_write cpu num v = Undefined"
  using assms
  by (auto simp: counter_write_def counter_update_def Let_def rv_csr_min_priv_mode_def rv_priv_of_def)

end
