(* ===== verification/Rv32_Decode_Facts.thy ===== *)
theory Rv32_Decode_Facts
  imports Rv32_Decode Rv_Csr_Facts
begin

text \<open>
  The decoder is total, and it selects only functions whose assertions the instruction satisfies.
\<close>

text \<open>The opcode under which a function is reached; the illegal instruction has none.\<close>

primrec fn_opcode :: "rv_instr_func \<Rightarrow> 7 word option" where
  "fn_opcode fn_lb = Some rv_opcLOAD"
| "fn_opcode fn_lh = Some rv_opcLOAD"
| "fn_opcode fn_lw = Some rv_opcLOAD"
| "fn_opcode fn_lbu = Some rv_opcLOAD"
| "fn_opcode fn_lhu = Some rv_opcLOAD"
| "fn_opcode fn_fence = Some rv_opcMISC_MEM"
| "fn_opcode fn_addi = Some rv_opcOP_IMM"
| "fn_opcode fn_slti = Some rv_opcOP_IMM"
| "fn_opcode fn_sltiu = Some rv_opcOP_IMM"
| "fn_opcode fn_xori = Some rv_opcOP_IMM"
| "fn_opcode fn_ori = Some rv_opcOP_IMM"
| "fn_opcode fn_andi = Some rv_opcOP_IMM"
| "fn_opcode fn_slli = Some rv_opcOP_IMM"
| "fn_opcode fn_srai = Some rv_opcOP_IMM"
| "fn_opcode fn_srli = Some rv_opcOP_IMM"
| "fn_opcode fn_auipc = Some rv_opcAUIPC"
| "fn_opcode fn_sb = Some rv_opcSTORE"
| "fn_opcode fn_sh = Some rv_opcSTORE"
| "fn_opcode fn_sw = Some rv_opcSTORE"
| "fn_opcode fn_lr_w = Some rv_opcAMO"
| "fn_opcode fn_sc_w = Some rv_opcAMO"
| "fn_opcode fn_amoswap_w = Some rv_opcAMO"
| "fn_opcode fn_amoadd_w = Some rv_opcAMO"
| "fn_opcode fn_amoxor_w = Some rv_opcAMO"
| "fn_opcode fn_amoand_w = Some rv_opcAMO"
| "fn_opcode fn_amoor_w = Some rv_opcAMO"
| "fn_opcode fn_amomin_w = Some rv_opcAMO"
| "fn_opcode fn_amomax_w = Some rv_opcAMO"
| "fn_opcode fn_amominu_w = Some rv_opcAMO"
| "fn_opcode fn_amomaxu_w = Some rv_opcAMO"
| "fn_opcode fn_add = Some rv_opcOP"
| "fn_opcode fn_sub = Some rv_opcOP"
| "fn_opcode fn_sll = Some rv_opcOP"
| "fn_opcode fn_slt = Some rv_opcOP"
| "fn_opcode fn_sltu = Some rv_opcOP"
| "fn_opcode fn_xor = Some rv_opcOP"
| "fn_opcode fn_srl = Some rv_opcOP"
| "fn_opcode fn_sra = Some rv_opcOP"
| "fn_opcode fn_or = Some rv_opcOP"
| "fn_opcode fn_and = Some rv_opcOP"
| "fn_opcode fn_mul = Some rv_opcOP"
| "fn_opcode fn_mulh = Some rv_opcOP"
| "fn_opcode fn_mulhsu = Some rv_opcOP"
| "fn_opcode fn_mulhu = Some rv_opcOP"
| "fn_opcode fn_div = Some rv_opcOP"
| "fn_opcode fn_divu = Some rv_opcOP"
| "fn_opcode fn_rem = Some rv_opcOP"
| "fn_opcode fn_remu = Some rv_opcOP"
| "fn_opcode fn_lui = Some rv_opcLUI"
| "fn_opcode fn_beq = Some rv_opcBRANCH"
| "fn_opcode fn_bne = Some rv_opcBRANCH"
| "fn_opcode fn_blt = Some rv_opcBRANCH"
| "fn_opcode fn_bltu = Some rv_opcBRANCH"
| "fn_opcode fn_bge = Some rv_opcBRANCH"
| "fn_opcode fn_bgeu = Some rv_opcBRANCH"
| "fn_opcode fn_jalr = Some rv_opcJALR"
| "fn_opcode fn_jal = Some rv_opcJAL"
| "fn_opcode fn_sfence = Some rv_opcSYSTEM"
| "fn_opcode fn_break = Some rv_opcSYSTEM"
| "fn_opcode fn_halt = Some rv_opcSYSTEM"
| "fn_opcode fn_dump = Some rv_opcSYSTEM"
| "fn_opcode fn_trace_set = Some rv_opcSYSTEM"
| "fn_opcode fn_trace_reset = Some rv_opcSYSTEM"
| "fn_opcode fn_csr_rd = Some rv_opcSYSTEM"
| "fn_opcode fn_call = Some rv_opcSYSTEM"
| "fn_opcode fn_sret = Some rv_opcSYSTEM"
| "fn_opcode fn_mret = Some rv_opcSYSTEM"
| "fn_opcode fn_wfi = Some rv_opcSYSTEM"
| "fn_opcode fn_csrrw = Some rv_opcSYSTEM"
| "fn_opcode fn_csrrs = Some rv_opcSYSTEM"
| "fn_opcode fn_csrrc = Some rv_opcSYSTEM"
| "fn_opcode fn_csrrwi = Some rv_opcSYSTEM"
| "fn_opcode fn_csrrsi = Some rv_opcSYSTEM"
| "fn_opcode fn_csrrci = Some rv_opcSYSTEM"
| "fn_opcode fn_illegal = None"

text \<open>
  What an instruction function relies on: the opcode, the fields that some functions assert, and a
  shift amount below 32 for the two shifts that do not mask it to the width of a register.
\<close>

definition fn_pre :: "rv_instr_func \<Rightarrow> rv_instr \<Rightarrow> bool" where
  "fn_pre f instr \<longleftrightarrow>
     (case fn_opcode f of None \<Rightarrow> True | Some opc \<Rightarrow> instr_opcode instr = opc) \<and>
     (f = fn_jalr \<longrightarrow> instr_funct3 instr = 0) \<and> (f = fn_lr_w \<longrightarrow> instr_rs2 instr = 0) \<and>
     (f = fn_slli \<or> f = fn_srli \<longrightarrow> unat (i_imm instr AND 0x3F) < 32)"

lemma shamt_small: "signed_drop_bit 5 (imm :: 12 word) = 0 \<Longrightarrow> unat (imm AND 0x3F) < 32"
proof -
  assume a: "signed_drop_bit 5 imm = 0"
  then have "bit (signed_drop_bit 5 imm) 0 = False" by simp
  then have "\<not> bit imm 5" by (simp add: bit_simps)
  then have "imm AND 0x3F = imm AND 0x1F"
    by (intro bit_eqI) (auto simp: bit_simps less_Suc_eq numeral_eq_Suc)
  also have "unat (imm AND 0x1F) \<le> unat (0x1F :: 12 word)" by (rule word_le_nat_alt [THEN iffD1], rule word_and_le1)
  finally show ?thesis by simp
qed

lemma decode_cases:
  "decode_LOAD instr = Some f \<Longrightarrow> fn_pre f instr"
  "decode_MISC_MEM instr = Some f \<Longrightarrow> fn_pre f instr"
  "decode_OP_IMM instr = Some f \<Longrightarrow> fn_pre f instr"
  "decode_AUIPC instr = Some f \<Longrightarrow> fn_pre f instr"
  "decode_STORE instr = Some f \<Longrightarrow> fn_pre f instr"
  "decode_AMO instr = Some f \<Longrightarrow> fn_pre f instr"
  "decode_OP instr = Some f \<Longrightarrow> fn_pre f instr"
  "decode_LUI instr = Some f \<Longrightarrow> fn_pre f instr"
  "decode_BRANCH instr = Some f \<Longrightarrow> fn_pre f instr"
  "decode_JALR instr = Some f \<Longrightarrow> fn_pre f instr"
  "decode_JAL instr = Some f \<Longrightarrow> fn_pre f instr"
  "decode_SYSTEM sp instr = Some f \<Longrightarrow> fn_pre f instr"
  by (auto simp: decode_defs fn_pre_def bind_Some_iff shamt_small rv_SRLI_def split: if_splits)

lemma rv32_instr_decode_pre: "rv32_instr_decode sp instr = Some f \<Longrightarrow> fn_pre f instr"
  by (auto simp: rv32_instr_decode_def Let_def decode_cases fn_pre_def [of fn_illegal] split: if_splits)

lemma rv32_instr_decode_total: "\<exists>f. rv32_instr_decode sp instr = Some f"
  by (auto simp: rv32_instr_decode_def Let_def decode_defs)

end
