(* ===== verification/Rv32_Cpu.thy ===== *)
theory Rv32_Cpu
  imports Rv32_Decode
begin

text \<open>
  The RV32 processor: the rest of \<open>riscv_rv32ima/cpu.c\<close>, the two functions of
  \<open>riscv_rv32ima/csr.c\<close> that are not wrappers, and the processor device of \<open>drvcpu.c\<close>. It holds the
  instruction cache, the traps to M and S mode, interrupts, the performance counters, and the
  simulation step \<open>rv32_cpu_step\<close>. The current time is the argument \<open>now\<close>.
\<close>

subsection \<open>The instruction cache\<close>

text \<open>
  \<open>rv_instruction_cache\<close> is the contents of the global list of decoded pages, most recently used
  first.
\<close>

record cache_item =
  cache_addr :: ptr36
  cache_instrs :: "nat \<Rightarrow> rv_instr_func"

record ('c, 'd) cached_machine = "('c, 'd) machine" +
  rv_instruction_cache :: "cache_item list"

type_synonym ('d, 'z) rv32_sim = "(rv32_cpu, 'd, 'z) cached_machine_scheme"

definition PHYS2CACHEINSTR :: "ptr36 \<Rightarrow> nat" where
  "PHYS2CACHEINSTR phys = unat (phys AND 0xFFF) div 4"

definition cache_hit :: "ptr36 \<Rightarrow> ('d, 'z) rv32_sim \<Rightarrow> cache_item option" where
  "cache_hit phys s = List.find (\<lambda>c. cache_addr c = ALIGN_DOWN phys 4096) (rv_instruction_cache s)"

text \<open>The loop of \<open>cache_item_page_decode\<close> over the instruction numbers.\<close>

fun page_decode_loop ::
    "nat \<Rightarrow> ptr36 \<Rightarrow> nat list \<Rightarrow> (nat \<Rightarrow> rv_instr_func) \<Rightarrow> ('d, 'z) rv32_sim \<Rightarrow>
     ((nat \<Rightarrow> rv_instr_func) \<times> ('d, 'z) rv32_sim) option" where
  "page_decode_loop k addr [] instrs s = Some (instrs, s)"
| "page_decode_loop k addr (i # is) instrs s = do {
     (data, s1) \<leftarrow> physmem_read32 (hartid k s) (addr + of_nat (i * 4)) False s;
     f \<leftarrow> rv32_instr_decode (machine_specific_instructions s1) data;
     page_decode_loop k addr is (instrs(i := f)) s1
   }"

definition cache_item_page_decode ::
    "nat \<Rightarrow> cache_item \<Rightarrow> ('d, 'z) rv32_sim \<Rightarrow> (cache_item \<times> ('d, 'z) rv32_sim) option" where
  "cache_item_page_decode k item s = do {
     (instrs, s1) \<leftarrow> page_decode_loop k (cache_addr item) [0..<1024] (cache_instrs item) s;
     Some (item\<lparr>cache_instrs := instrs\<rparr>, s1)
   }"

definition set_valid :: "ptr36 \<Rightarrow> ('c, 'd, 'z) machine_scheme \<Rightarrow> ('c, 'd, 'z) machine_scheme option" where
  "set_valid addr s = do {
     fr \<leftarrow> physmem_find_frame addr s;
     (case fr of None \<Rightarrow> None | Some frame \<Rightarrow> Some (set_frame addr (Some (frame\<lparr>valid := True\<rparr>)) s))
   }"

definition update_cache_item ::
    "nat \<Rightarrow> cache_item \<Rightarrow> ('d, 'z) rv32_sim \<Rightarrow> (cache_item \<times> ('d, 'z) rv32_sim) option" where
  "update_cache_item k item s = do {
     fr \<leftarrow> physmem_find_frame (cache_addr item) s;
     frame \<leftarrow> fr;
     (if valid frame then Some (item, s)
      else do {
        (item', s1) \<leftarrow> cache_item_page_decode k item s;
        s2 \<leftarrow> set_valid (cache_addr item) s1;
        Some (item', s2)
      })
   }"

text \<open>The new item is allocated with uninitialised instructions \<open>junk\<close>, all overwritten.\<close>

definition cache_try_add ::
    "nat \<Rightarrow> ptr36 \<Rightarrow> ('d, 'z) rv32_sim \<Rightarrow> (cache_item option \<times> ('d, 'z) rv32_sim) option" where
  "cache_try_add k phys s = do {
     fr \<leftarrow> physmem_find_frame phys s;
     (case fr of
        None \<Rightarrow> Some (None, s)
      | Some frame \<Rightarrow> do {
          let junk = (\<lambda>_. fn_illegal);
          (item, s1) \<leftarrow> cache_item_page_decode k
             \<lparr>cache_addr = ALIGN_DOWN phys 4096, cache_instrs = junk\<rparr> s;
          s2 \<leftarrow> set_valid phys (s1\<lparr>rv_instruction_cache := item # rv_instruction_cache s1\<rparr>);
          Some (Some item, s2)
        })
   }"

text \<open>Unlinking the item of a page, the first in the list with its address.\<close>

fun cache_unlink :: "ptr36 \<Rightarrow> cache_item list \<Rightarrow> cache_item list" where
  "cache_unlink addr [] = []"
| "cache_unlink addr (c # cs) = (if cache_addr c = addr then cs else c # cache_unlink addr cs)"

definition fetch_instr :: "nat \<Rightarrow> ptr36 \<Rightarrow> ('d, 'z) rv32_sim \<Rightarrow> (rv_instr_func \<times> ('d, 'z) rv32_sim) option" where
  "fetch_instr k phys s =
     (case cache_hit phys s of
        Some item \<Rightarrow> do {
          (item', s1) \<leftarrow> update_cache_item k item s;
          Some (cache_instrs item' (PHYS2CACHEINSTR phys),
            s1\<lparr>rv_instruction_cache := item' # cache_unlink (cache_addr item) (rv_instruction_cache s1)\<rparr>)
        }
      | None \<Rightarrow> do {
          (added, s1) \<leftarrow> cache_try_add k phys s;
          (case added of
             Some item \<Rightarrow> Some (cache_instrs item (PHYS2CACHEINSTR phys), s1)
           | None \<Rightarrow> do {
               (data, s2) \<leftarrow> physmem_read32 (hartid k s1) phys True s1;
               f \<leftarrow> rv32_instr_decode (machine_specific_instructions s2) data;
               Some (f, s2)
             })
        })"

subsection \<open>Traps\<close>

text \<open>The target of a trap; the modes above 1 are reserved and fail an assertion.\<close>

definition trap_vector :: "u32 \<Rightarrow> rv_exc \<Rightarrow> u32 option" where
  "trap_vector tvec ex =
     (let mode = tvec AND 0b11; base = tvec AND NOT 0b11 in
      if mode = 0 then Some base
      else if mode = 1 then
        Some (if rv_exc_is_interrupt ex then base + 4 * (rv_exc_code ex AND NOT RV_INTERRUPT_EXC_BITS) else base)
      else None)"

definition m_trap :: "rv32_cpu \<Rightarrow> rv_exc \<Rightarrow> rv32_cpu option" where
  "m_trap cpu ex = do {
     ASSERT (ex \<noteq> rv_exc_none);
     let m0 = mstatus (csr cpu);
     let m1 = (if rv_csr_mstatus_mie cpu then set_mstatus (rv_csr_mstatus_mpie_mask :: u32) m0
               else clear_mstatus (rv_csr_mstatus_mpie_mask :: u32) m0);
     let m2 = clear_mstatus (rv_csr_mstatus_mie_mask :: u32) m1;
     let m3 = clear_mstatus (rv_csr_mstatus_mpp_mask :: u32) m2;
     let m4 = set_mstatus (push_bit 11 (of_nat (rv_priv_num (priv_mode cpu))) AND rv_csr_mstatus_mpp_mask :: u32) m3;
     target \<leftarrow> trap_vector (mtvec (csr cpu)) ex;
     Some (cpu\<lparr>stdby := False,
               csr := (csr cpu)\<lparr>mepc := (if rv_exc_is_interrupt ex then pc_next cpu else pc cpu),
                                mcause := rv_exc_code ex, mtval := tval_next (csr cpu), mstatus := m4\<rparr>,
               priv_mode := rv_mmode, pc_next := target\<rparr>)
   }"

definition s_trap :: "rv32_cpu \<Rightarrow> rv_exc \<Rightarrow> rv32_cpu option" where
  "s_trap cpu ex = do {
     ASSERT (ex \<noteq> rv_exc_none);
     let m0 = mstatus (csr cpu);
     let m1 = (if rv_csr_sstatus_sie cpu then set_mstatus (rv_csr_sstatus_spie_mask :: u32) m0
               else clear_mstatus (rv_csr_sstatus_spie_mask :: u32) m0);
     let m2 = clear_mstatus (rv_csr_sstatus_sie_mask :: u32) m1;
     let m3 = clear_mstatus (rv_csr_sstatus_spp_mask :: u32) m2;
     let m4 = set_mstatus (push_bit 8 (of_nat (rv_priv_num (priv_mode cpu))) AND rv_csr_sstatus_spp_mask :: u32) m3;
     target \<leftarrow> trap_vector (stvec (csr cpu)) ex;
     Some (cpu\<lparr>stdby := False,
               csr := (csr cpu)\<lparr>sepc := (if rv_exc_is_interrupt ex then pc_next cpu else pc cpu),
                                scause := rv_exc_code ex, stval := tval_next (csr cpu), mstatus := m4\<rparr>,
               priv_mode := rv_smode, pc_next := target\<rparr>)
   }"

definition handle_exception :: "rv32_cpu \<Rightarrow> rv_exc \<Rightarrow> rv32_cpu option" where
  "handle_exception cpu ex = do {
     ASSERT (\<not> rv_exc_is_interrupt ex);
     let delegated = (medeleg (csr cpu) AND RV_EXCEPTION_MASK ex \<noteq> 0);
     (if delegated \<and> priv_mode cpu \<noteq> rv_mmode then s_trap cpu ex else m_trap cpu ex)
   }"

text \<open>The \<open>trap_if_set\<close> sequence: the first interrupt of the list in the mask.\<close>

definition first_set :: "u32 \<Rightarrow> rv_exc list \<Rightarrow> rv_exc option" where
  "first_set active is = List.find (\<lambda>i. active AND RV_EXCEPTION_MASK i \<noteq> 0) is"

definition m_priority :: "rv_exc list" where
  "m_priority = [rv_exc_machine_external_interrupt, rv_exc_machine_software_interrupt,
     rv_exc_machine_timer_interrupt, rv_exc_supervisor_external_interrupt,
     rv_exc_supervisor_software_interrupt, rv_exc_supervisor_timer_interrupt]"

definition s_priority :: "rv_exc list" where
  "s_priority = [rv_exc_supervisor_external_interrupt, rv_exc_supervisor_software_interrupt,
     rv_exc_supervisor_timer_interrupt]"

definition effective_mip :: "rv32_cpu \<Rightarrow> u32" where
  "effective_mip cpu = mip (csr cpu)
     OR (if external_SEIP (csr cpu) then rv_csr_sei_mask else 0)
     OR (if external_STIP (csr cpu) then rv_csr_sti_mask else 0)"

definition can_trap_to_M :: "rv32_cpu \<Rightarrow> bool" where
  "can_trap_to_M cpu \<longleftrightarrow> priv_mode cpu = rv_mmode \<and> rv_csr_mstatus_mie cpu \<or> priv_mode cpu < rv_mmode"

definition can_trap_to_S :: "rv32_cpu \<Rightarrow> bool" where
  "can_trap_to_S cpu \<longleftrightarrow> priv_mode cpu = rv_smode \<and> rv_csr_sstatus_sie cpu \<or> priv_mode cpu < rv_smode"

definition try_handle_interrupt :: "rv32_cpu \<Rightarrow> rv32_cpu option" where
  "try_handle_interrupt cpu =
     (let mip_eff = effective_mip cpu in
      if mip_eff = 0 then Some cpu
      else
        (case (if can_trap_to_M cpu
               then first_set (mip_eff AND mie (csr cpu) AND NOT (mideleg (csr cpu))) m_priority else None) of
           Some i \<Rightarrow> m_trap cpu i
         | None \<Rightarrow>
             (case (if can_trap_to_S cpu
                    then first_set (mip_eff AND mie (csr cpu) AND rv_csr_si_mask) s_priority else None) of
                Some i \<Rightarrow> s_trap cpu i
              | None \<Rightarrow> Some cpu)))"

subsection \<open>Counters and timers\<close>

definition hpm_event_active :: "rv32_cpu \<Rightarrow> u32 \<Rightarrow> bool" where
  "hpm_event_active cpu event =
     (if event = 1 then priv_mode cpu = rv_umode
      else if event = 2 then priv_mode cpu = rv_smode
      else if event = 4 then priv_mode cpu = rv_mmode
      else if event = 5 then stdby cpu
      else False)"

definition account_hmp :: "rv32_cpu \<Rightarrow> nat \<Rightarrow> rv32_cpu option" where
  "account_hmp cpu i = do {
     ASSERT (i < 29);
     (if bit (mcountinhibit (csr cpu)) (i + 3) then Some cpu
      else if hpm_event_active cpu (hpmevents (csr cpu) i)
      then Some (cpu\<lparr>csr := (csr cpu)\<lparr>hpmcounters := (hpmcounters (csr cpu))(i := hpmcounters (csr cpu) i + 1)\<rparr>\<rparr>)
      else Some cpu)
   }"

fun account_hmps :: "nat list \<Rightarrow> rv32_cpu \<Rightarrow> rv32_cpu option" where
  "account_hmps [] cpu = Some cpu"
| "account_hmps (i # is) cpu = do {
     cpu1 \<leftarrow> account_hmp cpu i;
     account_hmps is cpu1
   }"

definition manage_timer_interrupts :: "rv32_cpu \<Rightarrow> rv32_cpu" where
  "manage_timer_interrupts cpu =
     handle_mtip (upd_csr (external_STIP_update (\<lambda>_. ucast (cycle (csr cpu)) \<ge> scyclecmp (csr cpu))) cpu)"

definition account :: "u64 \<Rightarrow> bool \<Rightarrow> rv32_cpu \<Rightarrow> rv32_cpu option" where
  "account now instruction_retired cpu = do {
     let cpu1 = (if mcountinhibit (csr cpu) AND 0b001 = 0 then upd_csr (cycle_update (\<lambda>c. c + 1)) cpu else cpu);
     let cpu2 = upd_csr (\<lambda>c. c\<lparr>mtime := mtime c + (now - last_tick_time c), last_tick_time := now\<rparr>) cpu1;
     let cpu3 = (if mcountinhibit (csr cpu2) AND 0b100 = 0 \<and> instruction_retired
                 then upd_csr (instret_update (\<lambda>c. c + 1)) cpu2 else cpu2);
     cpu4 \<leftarrow> account_hmps [0..<29] cpu3;
     Some (manage_timer_interrupts cpu4)
   }"

subsection \<open>The simulation step\<close>

definition execute :: "nat \<Rightarrow> ('d, 'z) rv32_sim \<Rightarrow> (rv_exc \<times> ('d, 'z) rv32_sim) option" where
  "execute k s = do {
     (r, s1) \<leftarrow> rv32_convert_addr k (pc (cpu_mem s k)) False True True s;
     (case r of
        Inl ex \<Rightarrow> Some (ex, s1)
      | Inr phys \<Rightarrow> do {
          (instr_func, s2) \<leftarrow> fetch_instr k phys s1;
          (instr_data, s3) \<leftarrow> physmem_read32 (hartid k s2) phys True s2;
          (ex, s4) \<leftarrow> call_instr_func instr_func k instr_data s3;
          Some (ex, if ex = rv_exc_illegal_instruction
                    then set_cpu k (upd_csr (tval_next_update (\<lambda>_. instr_data)) (cpu_mem s4 k)) s4 else s4)
        })
   }"

text \<open>The part of \<open>rv32_cpu_step\<close> after the execution, which acts on the processor alone.\<close>

definition finish_step :: "u64 \<Rightarrow> rv_exc \<Rightarrow> bool \<Rightarrow> rv32_cpu \<Rightarrow> rv32_cpu option" where
  "finish_step now ex instruction_retired cpu = do {
     cpu1 \<leftarrow> (if ex \<noteq> rv_exc_none then handle_exception cpu ex else try_handle_interrupt cpu);
     cpu2 \<leftarrow> account now instruction_retired cpu1;
     let cpu3 = (if \<not> stdby cpu2 then cpu2\<lparr>pc := pc_next cpu2, pc_next := pc_next cpu2 + 4\<rparr> else cpu2);
     Some ((set_reg 0 0 cpu3)\<lparr>csr := (csr cpu3)\<lparr>tval_next := 0\<rparr>\<rparr>)
   }"

definition rv32_cpu_step :: "u64 \<Rightarrow> nat \<Rightarrow> ('d, 'z) rv32_sim \<Rightarrow> ('d, 'z) rv32_sim option" where
  "rv32_cpu_step now k s = do {
     (ex, s1) \<leftarrow> (if \<not> stdby (cpu_mem s k) then execute k s else Some (rv_exc_none, s));
     let instruction_retired = (\<not> stdby (cpu_mem s k) \<and> ex = rv_exc_none);
     cpu \<leftarrow> finish_step now ex instruction_retired (cpu_mem s1 k);
     Some (set_cpu k cpu s1)
   }"

subsection \<open>Interrupts and the processor operations\<close>

definition rv32_cpu_set_pc :: "rv32_cpu \<Rightarrow> u32 \<Rightarrow> rv32_cpu" where
  "rv32_cpu_set_pc cpu value =
     (if \<not> IS_ALIGNED value 4 then cpu else cpu\<lparr>pc := value, pc_next := value + 4\<rparr>)"

text \<open>Numbers other than the software interrupts mean the machine external interrupt.\<close>

definition interrupt_no :: "nat \<Rightarrow> nat" where
  "interrupt_no no = (if no \<noteq> 3 \<and> no \<noteq> 1 \<and> no \<noteq> 11 then 11 else no)"

definition rv32_interrupt_up :: "rv32_cpu \<Rightarrow> nat \<Rightarrow> rv32_cpu" where
  "rv32_interrupt_up cpu no =
     (if no = 9 then upd_csr (external_SEIP_update (\<lambda>_. True)) cpu
      else upd_csr (mip_update (\<lambda>_. mip (csr cpu) OR push_bit (interrupt_no no) 1)) cpu)"

definition rv32_interrupt_down :: "rv32_cpu \<Rightarrow> nat \<Rightarrow> rv32_cpu" where
  "rv32_interrupt_down cpu no =
     (if no = 9 then upd_csr (external_SEIP_update (\<lambda>_. False)) cpu
      else upd_csr (mip_update (\<lambda>_. mip (csr cpu) AND NOT (push_bit (interrupt_no no) 1))) cpu)"

definition rv32_sc_access :: "rv32_cpu \<Rightarrow> ptr36 \<Rightarrow> nat \<Rightarrow> bool \<times> rv32_cpu" where
  "rv32_sc_access cpu phys sz = rv_sc_access cpu phys sz"

definition rv32_cpu_ops :: "rv32_cpu cpu_ops" where
  "rv32_cpu_ops =
     \<lparr>op_interrupt_up = (\<lambda>cpu no. Some (rv32_interrupt_up cpu no)),
      op_interrupt_down = (\<lambda>cpu no. Some (rv32_interrupt_down cpu no)),
      op_set_pc = (\<lambda>cpu addr. Some (rv32_cpu_set_pc cpu (ucast addr))),
      op_sc_access = (\<lambda>cpu phys sz. Some (rv32_sc_access cpu phys sz))\<rparr>"

definition rv32_csr_set_asid_len :: "rv32_cpu \<Rightarrow> nat \<Rightarrow> rv32_cpu option" where
  "rv32_csr_set_asid_len cpu len = do {
     ASSERT (len \<le> 9);
     let zeroing_asid_mask = push_bit 22 (ucast rv_asid_mask XOR (push_bit len 1 - 1) :: u64);
     tlb' \<leftarrow> rv32_tlb_flush (tlb cpu);
     Some ((upd_csr (\<lambda>c. c\<lparr>asid_len := len, satp := satp c AND ucast (NOT zeroing_asid_mask)\<rparr>) cpu)\<lparr>tlb := tlb'\<rparr>)
   }"

subsection \<open>Initialisation\<close>

definition zero_csr :: "32 rv_csr" where
  "zero_csr =
     \<lparr>cycle = 0, instret = 0, hpmcounters = (\<lambda>_. 0), hpmevents = (\<lambda>_. 0), misa = 0, mvendorid = 0,
      marchid = 0, mimpid = 0, mhartid = 0, mconfigptr = 0, mstatus = 0, mtvec = 0, medeleg = 0,
      mideleg = 0, mip = 0, mie = 0, mscratch = 0, mepc = 0, mcause = 0, mtval = 0, mcounteren = 0,
      mcountinhibit = 0, menvcfg = 0, mseccfg = 0, mcontext = 0, pmpcfgs = (\<lambda>_. 0), pmpaddrs = (\<lambda>_. 0),
      stvec = 0, scounteren = 0, sscratch = 0, sepc = 0, scause = 0, stval = 0, senvcfg = 0, satp = 0,
      scontext = 0, tval_next = 0, external_SEIP = False, mtime = 0, last_tick_time = 0, mtimecmp = 0,
      scyclecmp = 0, external_STIP = False, asid_len = 0\<rparr>"

abbreviation DEFAULT_RV_TLB_SIZE :: nat where "DEFAULT_RV_TLB_SIZE \<equiv> 48"

definition rv32_cpu_init :: "u64 \<Rightarrow> nat \<Rightarrow> rv32_cpu option" where
  "rv32_cpu_init now procno = do {
     t \<leftarrow> rv32_tlb_init DEFAULT_RV_TLB_SIZE;
     Some \<lparr>regs = (\<lambda>_. 0), csr = rv_init_csr now zero_csr procno,
           pc = RV_START_ADDRESS, pc_next = RV_START_ADDRESS + 4, priv_mode = rv_mmode,
           reserved_valid = False, reserved_addr = 0, stdby = False, tlb = t\<rparr>
   }"

text \<open>The loop of \<open>rv32_cpu_done\<close> removes the head of the cache list until it is empty.\<close>

definition rv32_cpu_done :: "('d, 'z) rv32_sim \<Rightarrow> ('d, 'z) rv32_sim" where
  "rv32_cpu_done s = s\<lparr>rv_instruction_cache := []\<rparr>"

text \<open>
  \<open>drvcpu_init\<close>; \<open>g\<close> and \<open>d\<close> are the cells that \<open>malloc\<close> returns for the two structures. The boolean
  is the result of the command.
\<close>

definition drvcpu_init ::
    "u64 \<Rightarrow> nat \<Rightarrow> nat \<Rightarrow> ('d, 'z) rv32_sim \<Rightarrow> (bool \<times> ('d, 'z) rv32_sim) option" where
  "drvcpu_init now g d s = do {
     no \<leftarrow> get_free_cpuno s;
     (if no = MAX_CPUS then Some (False, s)
      else do {
        cpu \<leftarrow> rv32_cpu_init now no;
        let s1 = s\<lparr>cpu_mem := (cpu_mem s)(d := cpu),
                   gcpus := (gcpus s)(g := \<lparr>cpuno = no, cpu_type = rv32_cpu_ops, cpu_data = d\<rparr>)\<rparr>;
        Some (True, add_cpu g s1)
      })
   }"

end
