(* ===== verification/Device_Facts.thy ===== *)
theory Device_Facts
  imports Physmem
begin

text \<open>
  What memory accesses may assume of devices and do to them. A device is well behaved when some
  invariant of its data is kept by all its callbacks and makes them return; an access changes a
  device only by calls of its callbacks, so that it keeps every such invariant: \<open>dev_evolves\<close>.
\<close>

subsection \<open>Invariants of the callbacks\<close>

definition plain_effect :: "dev_effect \<Rightarrow> bool" where
  "plain_effect e \<longleftrightarrow> (case e of Eff_reg_dump _ \<Rightarrow> False | _ \<Rightarrow> True)"

lemma plain_effect_simps [simp]:
  "plain_effect (Eff_interrupt_up c no)" "plain_effect (Eff_interrupt_down c no)"
  "plain_effect Eff_interactive" "plain_effect Eff_halt" "\<not> plain_effect (Eff_reg_dump n)"
  by (simp_all add: plain_effect_def)

definition read_keeps :: "('d \<Rightarrow> bool) \<Rightarrow> ('d, 'w) dev_read option \<Rightarrow> bool" where
  "read_keeps I r \<longleftrightarrow>
     (\<forall>f \<in> set_option r. \<forall>p d a v. I d \<longrightarrow> (\<exists>v' d' es. f p d a v = Some (v', d', es) \<and> I d' \<and> list_all plain_effect es))"

definition write_keeps :: "('d \<Rightarrow> bool) \<Rightarrow> ('d, 'w) dev_write option \<Rightarrow> bool" where
  "write_keeps I w \<longleftrightarrow>
     (\<forall>f \<in> set_option w. \<forall>p d a v. I d \<longrightarrow> (\<exists>d' es. f p d a v = Some (d', es) \<and> I d' \<and> list_all plain_effect es))"

definition dev_keeps :: "('d \<Rightarrow> bool) \<Rightarrow> 'd device_type \<Rightarrow> bool" where
  "dev_keeps I t \<longleftrightarrow>
     read_keeps I (read8 t) \<and> read_keeps I (read16 t) \<and> read_keeps I (read32 t) \<and> read_keeps I (read64 t) \<and>
     write_keeps I (write8 t) \<and> write_keeps I (write16 t) \<and> write_keeps I (write32 t) \<and> write_keeps I (write64 t)"

lemma keeps_None [simp]: "read_keeps I None" "write_keeps I None"
  by (simp_all add: read_keeps_def write_keeps_def)

lemma read_keepsI:
  "(\<And>p d a v. I d \<Longrightarrow> \<exists>v' d' es. f p d a v = Some (v', d', es) \<and> I d' \<and> list_all plain_effect es) \<Longrightarrow> read_keeps I (Some f)"
  by (simp add: read_keeps_def)

lemma write_keepsI:
  "(\<And>p d a v. I d \<Longrightarrow> \<exists>d' es. f p d a v = Some (d', es) \<and> I d' \<and> list_all plain_effect es) \<Longrightarrow> write_keeps I (Some f)"
  by (simp add: write_keeps_def)

lemma read_keepsD:
  "read_keeps I (Some f) \<Longrightarrow> I d \<Longrightarrow> \<exists>v' d' es. f p d a v = Some (v', d', es) \<and> I d' \<and> list_all plain_effect es"
  unfolding read_keeps_def by (metis option.set_intros)

lemma write_keepsD:
  "write_keeps I (Some f) \<Longrightarrow> I d \<Longrightarrow> \<exists>d' es. f p d a v = Some (d', es) \<and> I d' \<and> list_all plain_effect es"
  unfolding write_keeps_def by (metis option.set_intros)

definition dev_ok :: "'d device \<Rightarrow> bool" where
  "dev_ok d \<longleftrightarrow> (\<exists>I. dev_keeps I (dev_type d) \<and> I (dev_data d))"

definition dev_evolves :: "'d device \<Rightarrow> 'd device \<Rightarrow> bool" where
  "dev_evolves d d' \<longleftrightarrow> dev_type d' = dev_type d \<and> dev_name d' = dev_name d \<and>
     (\<forall>I. dev_keeps I (dev_type d) \<longrightarrow> I (dev_data d) \<longrightarrow> I (dev_data d'))"

abbreviation devs_evolve :: "'d device list \<Rightarrow> 'd device list \<Rightarrow> bool" where
  "devs_evolve \<equiv> list_all2 dev_evolves"

lemma dev_evolves_refl [simp]: "dev_evolves d d"
  by (simp add: dev_evolves_def)

lemma dev_evolves_trans: "dev_evolves a b \<Longrightarrow> dev_evolves b c \<Longrightarrow> dev_evolves a c"
  unfolding dev_evolves_def by (metis (no_types, lifting))

lemma dev_evolves_ok: "dev_evolves d d' \<Longrightarrow> dev_ok d \<Longrightarrow> dev_ok d'"
  by (auto simp: dev_evolves_def dev_ok_def)

lemma dev_evolvesD: "dev_evolves d d' \<Longrightarrow> dev_keeps I (dev_type d) \<Longrightarrow> I (dev_data d) \<Longrightarrow> I (dev_data d')"
  unfolding dev_evolves_def by blast

lemma devs_evolve_refl [simp]: "devs_evolve ds ds"
  by (simp add: list_all2_refl)

lemma devs_evolve_trans: "devs_evolve a b \<Longrightarrow> devs_evolve b c \<Longrightarrow> devs_evolve a c"
  by (rule list_all2_trans [OF dev_evolves_trans])

lemma devs_evolve_ok: "devs_evolve ds ds' \<Longrightarrow> \<forall>d \<in> set ds. dev_ok d \<Longrightarrow> \<forall>d \<in> set ds'. dev_ok d"
  by (auto simp: in_set_conv_nth list_all2_conv_all_nth) (metis dev_evolves_ok nth_mem)

subsection \<open>One callback\<close>

definition access_ok :: "('v \<times> 'd device \<times> dev_effect list) option \<Rightarrow> 'd device \<Rightarrow> bool" where
  "access_ok r d \<longleftrightarrow> (\<exists>v' d' es. r = Some (v', d', es) \<and> dev_evolves d d' \<and> list_all plain_effect es)"

lemma access_ok_case:
  "(x = None \<Longrightarrow> access_ok G d) \<Longrightarrow> (\<And>f. x = Some f \<Longrightarrow> access_ok (F f) d) \<Longrightarrow>
   access_ok (case x of None \<Rightarrow> G | Some f \<Rightarrow> F f) d"
  by (cases x) auto

lemma access_ok_Some: "access_ok (Some (v, d, [])) d"
  by (simp add: access_ok_def)

lemma access_ok_map: "access_ok r d \<Longrightarrow> access_ok (do { (b, d', es) \<leftarrow> r; Some (h b, d', es) }) d"
  by (auto simp: access_ok_def)

lemma call_read_ok:
  assumes "\<And>I. dev_keeps I (dev_type d) \<Longrightarrow> read_keeps I (Some f)" "dev_ok d"
  shows "access_ok (call_read f p a d v) d"
proof -
  obtain v' d' es where r: "f p (dev_data d) a v = Some (v', d', es)" "list_all plain_effect es"
    using assms(2) read_keepsD [OF assms(1), of _ "dev_data d" p a v] unfolding dev_ok_def by blast
  have "I d'" if "dev_keeps I (dev_type d)" "I (dev_data d)" for I
    using read_keepsD [OF assms(1) [OF that(1)], of "dev_data d" p a v] that(2) r(1) by auto
  then have "dev_evolves d (d\<lparr>dev_data := d'\<rparr>)" unfolding dev_evolves_def by simp blast
  then show ?thesis using r by (simp add: access_ok_def call_read_def)
qed

lemma call_write_ok:
  assumes "\<And>I. dev_keeps I (dev_type d) \<Longrightarrow> write_keeps I (Some f)" "dev_ok d"
  shows "access_ok (call_write f p a v d) d"
proof -
  obtain d' es where r: "f p (dev_data d) a v = Some (d', es)" "list_all plain_effect es"
    using assms(2) write_keepsD [OF assms(1), of _ "dev_data d" p a v] unfolding dev_ok_def by blast
  have "I d'" if "dev_keeps I (dev_type d)" "I (dev_data d)" for I
    using write_keepsD [OF assms(1) [OF that(1)], of "dev_data d" p a v] that(2) r(1) by auto
  then have "dev_evolves d (d\<lparr>dev_data := d'\<rparr>)" unfolding dev_evolves_def by simp blast
  then show ?thesis using r by (auto simp: access_ok_def call_write_def)
qed

lemma dev_access_ok:
  assumes "dev_ok d"
  shows "access_ok (dev_read8 p a d v) d" "access_ok (dev_read16 p a d v) d" "access_ok (dev_read32 p a d v) d"
    "access_ok (dev_read64 p a d v64) d" "access_ok (dev_write8 p a w8 d b) d" "access_ok (dev_write16 p a w16 d b) d"
    "access_ok (dev_write32 p a w32 d b) d" "access_ok (dev_write64 p a w64 d b) d"
  unfolding dev_read8_def dev_read16_def dev_read32_def dev_read64_def
    dev_write8_def dev_write16_def dev_write32_def dev_write64_def
  by (intro access_ok_case access_ok_map access_ok_Some call_read_ok [OF _ assms] call_write_ok [OF _ assms];
      simp add: dev_keeps_def)+

subsection \<open>The loop over all devices\<close>

lemma for_each_dev_ok:
  assumes "\<And>d v. d \<in> set ds \<Longrightarrow> access_ok (f d v) d"
  shows "\<exists>v' ds' es. for_each_dev f ds v = Some (v', ds', es) \<and> devs_evolve ds ds' \<and> list_all plain_effect es"
  using assms
proof (induction ds arbitrary: v)
  case (Cons d ds)
  obtain v1 d' es1 where 1: "f d v = Some (v1, d', es1)" "dev_evolves d d'" "list_all plain_effect es1"
    using Cons.prems [of d v] by (auto simp: access_ok_def)
  obtain v2 ds' es2 where "for_each_dev f ds v1 = Some (v2, ds', es2)" "devs_evolve ds ds'" "list_all plain_effect es2"
    using Cons.IH [of v1] Cons.prems by auto
  then show ?case using 1 by simp
qed simp

end
