(* ===== verification/Machine_Access.thy ===== *)
theory Machine_Access
  imports Physmem_Facts Device_Facts
begin

text \<open>
  Memory accesses of a machine, for every kind of processor. \<open>memory_users\<close> is what the accesses of
  \<open>physmem.c\<close> rely on: an invariant of the machine under which the devices return and the processors
  can be told of a write. Then every aligned access returns (no assertion
  fails, no access leaves a memory block), keeps the invariant, and changes processors only the way
  \<open>touched\<close> allows: \<open>env_step_by\<close>. \<open>processor_class\<close> is the contract of a method table of
  \<open>device/cpu/general_cpu.h\<close> that provides this.
\<close>

definition mach_ok_by :: "'c cpu_ops \<Rightarrow> ('c, 'd, 'z) machine_scheme \<Rightarrow> bool" where
  "mach_ok_by ops s \<longleftrightarrow> physmem_ok s \<and> cpu_list s \<noteq> [] \<and>
     (\<forall>g \<in> set (cpu_list s). cpu_type (gcpus s g) = ops) \<and>
     (\<forall>d \<in> set (devices s). dev_ok d)"

text \<open>
  How the rest of the machine evolves during an instruction: the frames stay, and a frame whose
  \<open>valid\<close> flag is set still holds the bytes it held before.
\<close>

definition sys_evolves_by ::
    "(('c, 'd, 'z) machine_scheme \<Rightarrow> bool) \<Rightarrow> ('c, 'd, 'z) machine_scheme \<Rightarrow> ('c, 'd, 'z) machine_scheme \<Rightarrow> bool" where
  "sys_evolves_by ok s s' \<longleftrightarrow> ok s' \<and> machine.more s' = machine.more s \<and>
     machine_specific_instructions s' = machine_specific_instructions s \<and> devs_evolve (devices s) (devices s') \<and>
     (\<forall>p. frame_at p s' = None \<longleftrightarrow> frame_at p s = None) \<and>
     (\<forall>p f. frame_at p s' = Some f \<and> valid f \<longrightarrow>
        frame_at p s = Some f \<and> (\<forall>a. unat a div 4096 = p \<longrightarrow> phys_byte s' a = phys_byte s a))"

definition env_step_by ::
    "(('c, 'd, 'z) machine_scheme \<Rightarrow> bool) \<Rightarrow> ('c \<Rightarrow> 'c \<Rightarrow> bool) \<Rightarrow>
     ('c, 'd, 'z) machine_scheme \<Rightarrow> ('c, 'd, 'z) machine_scheme \<Rightarrow> bool" where
  "env_step_by ok touched s s' \<longleftrightarrow> sys_evolves_by ok s s' \<and> (\<forall>j. touched (cpu_mem s j) (cpu_mem s' j))"

lemma sys_evolves_refl [simp]: "sys_evolves_by ok s s \<longleftrightarrow> ok s"
  by (auto simp: sys_evolves_by_def)

lemma sys_evolves_ok: "sys_evolves_by ok s s' \<Longrightarrow> ok s'"
  by (simp add: sys_evolves_by_def)

lemma sys_evolves_basic:
  assumes "sys_evolves_by ok s s'"
  shows "ok s'" "machine.more s' = machine.more s"
    "machine_specific_instructions s' = machine_specific_instructions s" "frame_at p s' = None \<longleftrightarrow> frame_at p s = None"
    "devs_evolve (devices s) (devices s')"
  using assms unfolding sys_evolves_by_def by blast+

lemma sys_evolves_frame:
  assumes "sys_evolves_by ok s s'" "frame_at p s' = Some f" "valid f"
  shows "frame_at p s = Some f" "unat a div 4096 = p \<Longrightarrow> phys_byte s' a = phys_byte s a"
  using assms by (simp_all add: sys_evolves_by_def)

lemma sys_evolvesI:
  assumes "ok s'" "machine.more s' = machine.more s"
    "machine_specific_instructions s' = machine_specific_instructions s" "devs_evolve (devices s) (devices s')"
    "\<And>p. frame_at p s' = None \<longleftrightarrow> frame_at p s = None"
    "\<And>p f. frame_at p s' = Some f \<Longrightarrow> valid f \<Longrightarrow> frame_at p s = Some f"
    "\<And>p f a. frame_at p s' = Some f \<Longrightarrow> valid f \<Longrightarrow> unat a div 4096 = p \<Longrightarrow> phys_byte s' a = phys_byte s a"
  shows "sys_evolves_by ok s s'"
  unfolding sys_evolves_by_def by (intro conjI allI impI; (elim conjE)?; (rule assms; assumption)?)

lemma sys_evolves_trans:
  assumes ab: "sys_evolves_by ok a b" and bc: "sys_evolves_by ok b c"
  shows "sys_evolves_by ok a c"
proof (rule sys_evolvesI)
  show "ok c" "machine.more c = machine.more a"
    "machine_specific_instructions c = machine_specific_instructions a"
    "\<And>p. frame_at p c = None \<longleftrightarrow> frame_at p a = None"
    using sys_evolves_basic [OF ab] sys_evolves_basic [OF bc] by simp_all
  show "devs_evolve (devices a) (devices c)"
    using sys_evolves_basic(5) [OF ab] sys_evolves_basic(5) [OF bc] by (rule devs_evolve_trans)
  fix p f assume f: "frame_at p c = Some f" "valid f"
  note fb = sys_evolves_frame [OF bc f]
  show "frame_at p a = Some f" using sys_evolves_frame(1) [OF ab fb(1) f(2)] .
  show "phys_byte c x = phys_byte a x" if "unat x div 4096 = p" for x
    using sys_evolves_frame(2) [OF ab fb(1) f(2) that] fb(2) [OF that] by simp
qed

lemma env_step_byD:
  "env_step_by ok touched s s' \<Longrightarrow> sys_evolves_by ok s s'"
  "env_step_by ok touched s s' \<Longrightarrow> touched (cpu_mem s j) (cpu_mem s' j)"
  "env_step_by ok touched s s' \<Longrightarrow> ok s'"
  by (auto simp: env_step_by_def sys_evolves_ok)

lemma stored_in_page:
  assumes "n dvd 4096" "n dvd unat addr" "unat (a - ucast addr :: 36 word) < n"
  shows "unat a div 4096 = page_of addr"
proof -
  define i where "i = unat (a - ucast addr)"
  have a: "a = ucast addr + of_nat i" by (simp add: i_def)
  have d: "n dvd unat addr mod 2 ^ 36" using assms(1,2) dvd_trans [OF assms(1), of "2 ^ 36"] by (simp add: dvd_mod_iff)
  have i: "i < n" using assms(3) by (simp add: i_def)
  show ?thesis
    using aligned_byte_addr(1) [OF assms(1,2) i] aligned_in_frame(1) [OF assms(1) d i]
    by (simp add: a page_of_div)
qed

subsection \<open>The accesses\<close>

locale memory_users =
  fixes ok :: "('c, 'd, 'z) machine_scheme \<Rightarrow> bool" and touched :: "'c \<Rightarrow> 'c \<Rightarrow> bool"
  assumes touched_refl: "touched c c"
    and touched_trans: "touched c c1 \<Longrightarrow> touched c1 c2 \<Longrightarrow> touched c c2"
    and ok_physmem: "ok s \<Longrightarrow> physmem_ok s"
    and ok_same: "ok s \<Longrightarrow> physmem_ok s' \<Longrightarrow> cpu_list s' = cpu_list s \<Longrightarrow> gcpus s' = gcpus s \<Longrightarrow>
      devs_evolve (devices s) (devices s') \<Longrightarrow> sc_list s' = sc_list s \<Longrightarrow> ok s'"
    and sc_env: "ok s \<Longrightarrow> \<exists>s'. sc_control addr n s = Some s' \<and> env_step_by ok touched s s'"
    and dev_env:
    "ok s \<Longrightarrow> \<exists>v s'. devmem_read8 p a s = Some (v, s') \<and> env_step_by ok touched s s'"
    "ok s \<Longrightarrow> \<exists>v s'. devmem_read16 p a s = Some (v, s') \<and> env_step_by ok touched s s'"
    "ok s \<Longrightarrow> \<exists>v s'. devmem_read32 p a s = Some (v, s') \<and> env_step_by ok touched s s'"
    "ok s \<Longrightarrow> \<exists>v s'. devmem_read64 p a s = Some (v, s') \<and> env_step_by ok touched s s'"
    "ok s \<Longrightarrow> \<exists>v s'. devmem_write8 p a w8 s = Some (v, s') \<and> env_step_by ok touched s s'"
    "ok s \<Longrightarrow> \<exists>v s'. devmem_write16 p a w16 s = Some (v, s') \<and> env_step_by ok touched s s'"
    "ok s \<Longrightarrow> \<exists>v s'. devmem_write32 p a w32 s = Some (v, s') \<and> env_step_by ok touched s s'"
    "ok s \<Longrightarrow> \<exists>v s'. devmem_write64 p a w64 s = Some (v, s') \<and> env_step_by ok touched s s'"
begin

lemma access_refl: "env_step_by ok touched s s \<longleftrightarrow> ok s"
  by (simp add: env_step_by_def touched_refl)

lemma access_trans: "env_step_by ok touched a b \<Longrightarrow> env_step_by ok touched b c \<Longrightarrow> env_step_by ok touched a c"
  unfolding env_step_by_def by (blast intro: sys_evolves_trans touched_trans)

lemma bp_env: "ok s \<Longrightarrow> env_step_by ok touched s (physmem_breakpoint_find addr n acc s)"
proof -
  assume ok: "ok s"
  obtain bs i g where b: "physmem_breakpoint_find addr n acc s =
      s\<lparr>machine_interactive := i, remote_gdb_listen := g, physmem_breakpoints := bs\<rparr>" (is "_ = ?s")
    using physmem_breakpoint_find_frame [of addr n acc s] by blast
  have "physmem_ok ?s" using ok_physmem [OF ok] physmem_ok_cong [of ?s s] by simp
  then have "ok ?s" by (rule ok_same [OF ok]) simp_all
  then have "sys_evolves_by ok s ?s"
    using frame_at_cong [of ?s s] phys_byte_cong [of ?s s] by (intro sys_evolvesI) simp_all
  then show ?thesis unfolding b env_step_by_def by (simp add: touched_refl)
qed

lemma rd_core_env:
  assumes ok: "ok s" and n: "n dvd 4096" "n dvd unat addr" "0 < n"
    and dev: "\<exists>v s'. dev s = Some (v, s') \<and> env_step_by ok touched s s'"
  shows "\<exists>v s'. read_core n dev addr prot s = Some (v :: 'a::len word, s') \<and> env_step_by ok touched s s'"
proof (cases "frame_at (page_of addr) s")
  case None
  moreover have "physmem_find_frame addr s = Some (frame_at (page_of addr) s)"
    using ok by (intro find_frame_total ok_physmem)
  ultimately show ?thesis using dev by (simp add: read_core_def)
next
  case (Some f)
  have pm: "physmem_ok s" using ok by (rule ok_physmem)
  obtain v s' where r: "read_core n dev addr prot s = Some (v, s')"
    using read_core_refines [OF pm n Some] by blast
  then have "s' = (if prot then physmem_breakpoint_find addr n ACCESS_READ s else s)"
    using frame_at_find_frame [OF Some] by (auto simp: read_core_def bind_Some_iff Let_def)
  then show ?thesis using r bp_env [OF ok] ok by (auto simp: access_refl)
qed

lemma wr_core_env:
  fixes v :: "'a::len word"
  assumes ok: "ok s" and n: "n dvd 4096" "n dvd unat addr" "0 < n"
    and dev: "\<exists>b s'. dev s = Some (b, s') \<and> env_step_by ok touched s s'"
  shows "\<exists>b s'. write_core n dev addr v prot s = Some (b, s') \<and> env_step_by ok touched s s'"
proof (cases "frame_at (page_of addr) s")
  case None
  moreover have "physmem_find_frame addr s = Some (frame_at (page_of addr) s)"
    using ok by (intro find_frame_total ok_physmem)
  ultimately show ?thesis using dev by (simp add: write_core_def)
next
  case (Some f)
  have pm: "physmem_ok s" using ok by (rule ok_physmem)
  obtain a b off where f: "frame_area f = Some a" "frame_data f = Some (b, off)" by (rule physmem_okD [OF pm Some])
  show ?thesis
  proof (cases "\<not> writable (areas s a) \<and> prot")
    case True
    then show ?thesis using frame_at_find_frame [OF Some] f ok by (auto simp: write_core_def access_refl)
  next
    case False
    obtain s1 where s1: "sc_control addr n s = Some s1" "env_step_by ok touched s s1" using sc_env [OF ok] by blast
    define s2 where "s2 = (if prot then physmem_breakpoint_find addr n ACCESS_WRITE s1 else s1)"
    have e2: "env_step_by ok touched s s2"
      using bp_env [OF env_step_byD(3) [OF s1(2)]] s1(2) by (auto simp: s2_def intro: access_trans)
    obtain s' where s': "write_core n dev addr v prot s = Some (True, s')"
      "phys_byte s' = abs_store n (phys_byte s) (ucast addr) v" "physmem_ok s'" "cpu_mem s' = cpu_mem s1"
      "\<And>p. frame_at p s' = (if p = page_of addr then Some (f\<lparr>valid := False\<rparr>) else frame_at p s)"
      using write_core_refines [OF pm n Some f(1) _ s1(1), of prot dev v] False by blast
    obtain mb where mb: "s' = (set_frame addr (Some (f\<lparr>valid := False\<rparr>)) s2)\<lparr>mem_bytes := mb\<rparr>"
      using s'(1) frame_at_find_frame [OF Some] f s1(1) False
      by (auto simp: write_core_def frame_store_def bind_Some_iff Let_def s2_def)
    have "ok s'" using env_step_byD(3) [OF e2] s'(3) by (intro ok_same [of s2 s']) (simp_all add: mb set_frame_def Let_def)
    moreover have "machine.more s' = machine.more s" "machine_specific_instructions s' = machine_specific_instructions s"
      "devs_evolve (devices s) (devices s')"
      using sys_evolves_basic [OF env_step_byD(1) [OF e2]] by (simp_all add: mb set_frame_def Let_def)
    moreover have "phys_byte s' x = phys_byte s x" if "unat x div 4096 \<noteq> page_of addr" for x
      using stored_in_page [OF n(1,2), of x] that by (auto simp: s'(2) abs_store_def)
    ultimately have "sys_evolves_by ok s s'" using Some by (intro sys_evolvesI) (auto simp: s'(5) split: if_splits)
    then show ?thesis using s' env_step_byD(2) [OF s1(2)] by (auto simp: env_step_by_def)
  qed
qed

lemma rd_env:
  assumes "ok s"
  shows "\<exists>v s'. physmem_read8 p a prot s = Some (v, s') \<and> env_step_by ok touched s s'"
    "IS_ALIGNED a 2 \<Longrightarrow> \<exists>v s'. physmem_read16 p a prot s = Some (v, s') \<and> env_step_by ok touched s s'"
    "IS_ALIGNED a 4 \<Longrightarrow> \<exists>v s'. physmem_read32 p a prot s = Some (v, s') \<and> env_step_by ok touched s s'"
    "IS_ALIGNED a 8 \<Longrightarrow> \<exists>v s'. physmem_read64 p a prot s = Some (v, s') \<and> env_step_by ok touched s s'"
  unfolding physmem_read_core
  using IS_ALIGNED_dvd [of a 1] IS_ALIGNED_dvd [of a 2] IS_ALIGNED_dvd [of a 3]
  by (simp_all add: rd_core_env [OF assms] dev_env [OF assms])

lemma wr_env:
  assumes "ok s"
  shows "\<exists>b s'. physmem_write8 p a v8 prot s = Some (b, s') \<and> env_step_by ok touched s s'"
    "IS_ALIGNED a 2 \<Longrightarrow> \<exists>b s'. physmem_write16 p a v16 prot s = Some (b, s') \<and> env_step_by ok touched s s'"
    "IS_ALIGNED a 4 \<Longrightarrow> \<exists>b s'. physmem_write32 p a v32 prot s = Some (b, s') \<and> env_step_by ok touched s s'"
    "IS_ALIGNED a 8 \<Longrightarrow> \<exists>b s'. physmem_write64 p a v64 prot s = Some (b, s') \<and> env_step_by ok touched s s'"
  unfolding physmem_write_core
  using IS_ALIGNED_dvd [of a 1] IS_ALIGNED_dvd [of a 2] IS_ALIGNED_dvd [of a 3]
  by (simp_all add: wr_core_env [OF assms] dev_env [OF assms])

end

subsection \<open>Processors\<close>

text \<open>Changes outside the frame table and the memory contents.\<close>

lemma sys_evolves_by_same:
  assumes "mach_ok_by ops s" "ftl0 s' = ftl0 s" "mem_bytes s' = mem_bytes s" "mem_size s' = mem_size s"
    "cpu_list s' = cpu_list s" "gcpus s' = gcpus s" "devs_evolve (devices s) (devices s')"
    "machine.more s' = machine.more s" "machine_specific_instructions s' = machine_specific_instructions s"
  shows "sys_evolves_by (mach_ok_by ops) s s'"
proof (rule sys_evolvesI)
  have "physmem_ok s'" using assms(1) physmem_ok_cong [OF assms(2,4)] by (simp add: mach_ok_by_def)
  then show "mach_ok_by ops s'" using assms devs_evolve_ok [OF assms(7)] by (auto simp: mach_ok_by_def)
qed (use frame_at_cong [OF assms(2)] phys_byte_cong [OF assms(2,3)] assms(7-9) in simp_all)

lemma env_step_by_same_cpus:
  assumes "mach_ok_by ops s" "ftl0 s' = ftl0 s" "mem_bytes s' = mem_bytes s" "mem_size s' = mem_size s"
    "cpu_list s' = cpu_list s" "gcpus s' = gcpus s" "devs_evolve (devices s) (devices s')"
    "machine.more s' = machine.more s" "machine_specific_instructions s' = machine_specific_instructions s"
    "\<And>j. touched (cpu_mem s j) (cpu_mem s' j)"
  shows "env_step_by (mach_ok_by ops) touched s s'"
  using sys_evolves_by_same [OF assms(1-9)] assms(10) by (simp add: env_step_by_def)

lemma bind_get_cpu_mem: "Option.bind c (\<lambda>n. get_cpu n s) \<noteq> None \<Longrightarrow> the (Option.bind c (\<lambda>n. get_cpu n s)) \<in> set (cpu_list s)"
  by (cases c) (auto dest: get_cpu_mem)

locale processor_class =
  fixes ops :: "'c cpu_ops" and touched :: "'c \<Rightarrow> 'c \<Rightarrow> bool"
  assumes touched_refl: "touched c c"
    and touched_trans: "touched c c1 \<Longrightarrow> touched c1 c2 \<Longrightarrow> touched c c2"
    and up_touches: "\<exists>c'. op_interrupt_up ops c no = Some c' \<and> touched c c'"
    and down_touches: "\<exists>c'. op_interrupt_down ops c no = Some c' \<and> touched c c'"
    and sc_touches: "\<exists>hit c'. op_sc_access ops c phys sz = Some (hit, c') \<and> touched c c'"
begin

abbreviation "step \<equiv> env_step_by (mach_ok_by ops) touched"

lemma step_refl: "step s s \<longleftrightarrow> mach_ok_by ops s"
  by (simp add: env_step_by_def touched_refl)

lemma step_trans: "step a b \<Longrightarrow> step b c \<Longrightarrow> step a c"
  unfolding env_step_by_def by (blast intro: sys_evolves_trans touched_trans)

lemma fallback_ops:
  assumes "mach_ok_by ops s" "c \<noteq> None \<Longrightarrow> the c \<in> set (cpu_list s)"
  shows "\<exists>g. cpu_or_fallback c s = Some g \<and> cpu_type (gcpus s g) = ops"
  using cpu_or_fallback_total [of s c] assms by (auto simp: mach_ok_by_def)

lemma touched_upd: "touched (cpu_mem s d) c \<Longrightarrow> touched (cpu_mem s j) (((cpu_mem s)(d := c)) j)"
  by (simp add: touched_refl)

lemma effect_env:
  assumes "mach_ok_by ops s" "plain_effect e"
  shows "\<exists>s'. apply_effect e s = Some s' \<and> step s s'"
proof (cases e)
  case (Eff_interrupt_up c no)
  obtain g where "cpu_or_fallback (Option.bind c (\<lambda>n. get_cpu n s)) s = Some g" "cpu_type (gcpus s g) = ops"
    using fallback_ops [OF assms(1) bind_get_cpu_mem] by blast
  moreover obtain c' where "op_interrupt_up ops (cpu_mem s (cpu_data (gcpus s g))) no = Some c'"
    "touched (cpu_mem s (cpu_data (gcpus s g))) c'" using up_touches by blast
  ultimately show ?thesis using assms Eff_interrupt_up
    by (auto simp: apply_effect_def cpu_interrupt_up_def Let_def touched_refl intro!: env_step_by_same_cpus)
next
  case (Eff_interrupt_down c no)
  obtain g where "cpu_or_fallback (Option.bind c (\<lambda>n. get_cpu n s)) s = Some g" "cpu_type (gcpus s g) = ops"
    using fallback_ops [OF assms(1) bind_get_cpu_mem] by blast
  moreover obtain c' where "op_interrupt_down ops (cpu_mem s (cpu_data (gcpus s g))) no = Some c'"
    "touched (cpu_mem s (cpu_data (gcpus s g))) c'" using down_touches by blast
  ultimately show ?thesis using assms Eff_interrupt_down
    by (auto simp: apply_effect_def cpu_interrupt_down_def Let_def touched_refl intro!: env_step_by_same_cpus)
qed (use assms in \<open>auto simp: apply_effect_def touched_refl intro!: env_step_by_same_cpus\<close>)

lemma effects_env:
  "mach_ok_by ops s \<Longrightarrow> list_all plain_effect es \<Longrightarrow> \<exists>s'. apply_effects es s = Some s' \<and> step s s'"
proof (induction es arbitrary: s)
  case (Cons e es)
  obtain s1 where s1: "apply_effect e s = Some s1" "step s s1" using effect_env [of s e] Cons.prems by auto
  obtain s2 where "apply_effects es s1 = Some s2" "step s1 s2"
    using Cons.IH [OF env_step_byD(3) [OF s1(2)]] Cons.prems by auto
  then show ?case using s1 by (auto intro: step_trans)
qed (simp add: step_refl)

lemma dev_access_env:
  assumes ok: "mach_ok_by ops s" and f: "\<And>d v. d \<in> set (devices s) \<Longrightarrow> access_ok (f d v) d"
  shows "\<exists>v' s'. devmem_access f v s = Some (v', s') \<and> step s s'"
proof -
  obtain v' ds es where d: "for_each_dev f (devices s) v = Some (v', ds, es)" "devs_evolve (devices s) ds" "list_all plain_effect es"
    using for_each_dev_ok [of "devices s" f v] f by blast
  have e: "step s (s\<lparr>devices := ds\<rparr>)" using ok d(2) by (intro env_step_by_same_cpus) (auto simp: touched_refl)
  obtain s' where "apply_effects es (s\<lparr>devices := ds\<rparr>) = Some s'" "step (s\<lparr>devices := ds\<rparr>) s'"
    using effects_env [OF env_step_byD(3) [OF e] d(3)] by blast
  then show ?thesis using d e by (auto simp: devmem_access_def intro: step_trans)
qed

lemma devs_ok: "mach_ok_by ops s \<Longrightarrow> d \<in> set (devices s) \<Longrightarrow> dev_ok d"
  by (simp add: mach_ok_by_def)

lemma sc_loop_env:
  "mach_ok_by ops s \<Longrightarrow> \<exists>kept s'. sc_control_loop addr n ps s = Some (kept, s') \<and> step s s'"
proof (induction ps arbitrary: s)
  case (Cons p ps)
  obtain g where g: "cpu_or_fallback (get_cpu p s) s = Some g" "cpu_type (gcpus s g) = ops"
    using fallback_ops [OF Cons.prems, of "get_cpu p s"] get_cpu_mem [of p s] by auto
  let ?d = "cpu_data (gcpus s g)"
  obtain hit c where c: "op_sc_access ops (cpu_mem s ?d) addr n = Some (hit, c)" "touched (cpu_mem s ?d) c"
    using sc_touches by blast
  let ?s1 = "s\<lparr>cpu_mem := (cpu_mem s)(?d := c)\<rparr>"
  have s1: "cpu_sc_access (get_cpu p s) addr n s = Some (hit, ?s1)"
    using g c by (simp add: cpu_sc_access_def Let_def)
  have e: "step s ?s1" using Cons.prems c(2) by (intro env_step_by_same_cpus) (auto simp: touched_refl)
  obtain kept s2 where "sc_control_loop addr n ps ?s1 = Some (kept, s2)" "step ?s1 s2"
    using Cons.IH [OF env_step_byD(3) [OF e]] by blast
  then show ?case using s1 e by (auto intro: step_trans)
qed (simp add: step_refl)

lemma sc_list_env: "mach_ok_by ops s \<Longrightarrow> \<exists>s'. sc_control addr n s = Some s' \<and> step s s'"
proof -
  assume ok: "mach_ok_by ops s"
  obtain kept s1 where s1: "sc_control_loop addr n (sc_list s) s = Some (kept, s1)" "step s s1"
    using sc_loop_env [OF ok] by blast
  have "step s1 (s1\<lparr>sc_list := kept\<rparr>)" using env_step_byD(3) [OF s1(2)]
    by (intro env_step_by_same_cpus) (auto simp: touched_refl)
  then show ?thesis using s1 by (auto simp: sc_control_def intro: step_trans)
qed

lemma provides_access: "memory_users (mach_ok_by ops) touched"
proof
  fix s s' :: "('c, 'd, 'z) machine_scheme" and p a w8 w16 w32 w64 and addr n
  show "touched c c" for c by (rule touched_refl)
  show "touched a b \<Longrightarrow> touched b c \<Longrightarrow> touched a c" for a b c by (rule touched_trans)
  show "mach_ok_by ops s \<Longrightarrow> physmem_ok s" by (simp add: mach_ok_by_def)
  show "mach_ok_by ops s'" if "mach_ok_by ops s" "physmem_ok s'" "cpu_list s' = cpu_list s" "gcpus s' = gcpus s"
    "devs_evolve (devices s) (devices s')" "sc_list s' = sc_list s"
    using that devs_evolve_ok [OF that(5)] by (simp add: mach_ok_by_def)
  assume ok: "mach_ok_by ops s"
  show "\<exists>s'. sc_control addr n s = Some s' \<and> step s s'" using ok by (rule sc_list_env)
  note d = dev_access_env [OF ok] and t = dev_access_ok [OF devs_ok [OF ok]]
  have "\<exists>v s'. devmem_access (dev_read8 p a) 0xFFFFFFFF s = Some (v, s') \<and> step s s'" by (rule d, rule t(1))
  then show "\<exists>v s'. devmem_read8 p a s = Some (v, s') \<and> step s s'" by (auto simp: devmem_read8_def)
  have "\<exists>v s'. devmem_access (dev_read16 p a) 0xFFFFFFFF s = Some (v, s') \<and> step s s'" by (rule d, rule t(2))
  then show "\<exists>v s'. devmem_read16 p a s = Some (v, s') \<and> step s s'" by (auto simp: devmem_read16_def)
  show "\<exists>v s'. devmem_read32 p a s = Some (v, s') \<and> step s s'" unfolding devmem_read32_def by (rule d, rule t(3))
  show "\<exists>v s'. devmem_read64 p a s = Some (v, s') \<and> step s s'" unfolding devmem_read64_def by (rule d, rule t(4))
  show "\<exists>v s'. devmem_write8 p a w8 s = Some (v, s') \<and> step s s'" unfolding devmem_write8_def by (rule d, rule t(5))
  show "\<exists>v s'. devmem_write16 p a w16 s = Some (v, s') \<and> step s s'" unfolding devmem_write16_def by (rule d, rule t(6))
  show "\<exists>v s'. devmem_write32 p a w32 s = Some (v, s') \<and> step s s'" unfolding devmem_write32_def by (rule d, rule t(7))
  show "\<exists>v s'. devmem_write64 p a w64 s = Some (v, s') \<and> step s s'" unfolding devmem_write64_def by (rule d, rule t(8))
qed

end

end
