(* ===== verification/Rv32_Machine.thy ===== *)
theory Rv32_Machine
  imports Rv32_Cpu Rv_Csr_Facts Machine_Access
begin

text \<open>
  The machine around an RV32 processor. \<open>mach_ok\<close> is its invariant: consistent frames, a list of
  RV32 processors, well-behaved devices. Memory accesses keep it and change the
  processors only the way devices and other processors may: \<open>touched\<close>.
\<close>

subsection \<open>What the outside may change in a processor\<close>

definition touched :: "rv32_cpu \<Rightarrow> rv32_cpu \<Rightarrow> bool" where
  "touched c c' \<longleftrightarrow>
     (\<exists>m b r. c' = c\<lparr>csr := (csr c)\<lparr>mip := m, external_SEIP := b\<rparr>, reserved_valid := r\<rparr> \<and>
        (within (mip (csr c)) rv_csr_mi_mask \<longrightarrow> within m rv_csr_mi_mask))"

lemma touchedI:
  "(within (mip (csr c)) rv_csr_mi_mask \<Longrightarrow> within m rv_csr_mi_mask) \<Longrightarrow>
   touched c (c\<lparr>csr := (csr c)\<lparr>mip := m, external_SEIP := b\<rparr>, reserved_valid := r\<rparr>)"
  unfolding touched_def by blast

lemma touched_refl [simp]: "touched c c"
  using touchedI [of c "mip (csr c)", where b = "external_SEIP (csr c)" and r = "reserved_valid c"] by simp

lemma touched_trans: "touched a b \<Longrightarrow> touched b c \<Longrightarrow> touched a c"
proof -
  assume "touched a b" "touched b c"
  then obtain m b' r m2 b2 r2 where
    "b = a\<lparr>csr := (csr a)\<lparr>mip := m, external_SEIP := b'\<rparr>, reserved_valid := r\<rparr>"
    "within (mip (csr a)) rv_csr_mi_mask \<longrightarrow> within m rv_csr_mi_mask"
    "c = b\<lparr>csr := (csr b)\<lparr>mip := m2, external_SEIP := b2\<rparr>, reserved_valid := r2\<rparr>"
    "within (mip (csr b)) rv_csr_mi_mask \<longrightarrow> within m2 rv_csr_mi_mask"
    unfolding touched_def by blast
  then show "touched a c" using touchedI [of a m2, where b = b2 and r = r2] by simp
qed

lemma touched_simps:
  assumes "touched c c'"
  shows "regs c' = regs c" "pc c' = pc c" "pc_next c' = pc_next c" "priv_mode c' = priv_mode c"
    "tlb c' = tlb c" "stdby c' = stdby c" "reserved_addr c' = reserved_addr c"
    "mstatus (csr c') = mstatus (csr c)" "satp (csr c') = satp (csr c)" "mhartid (csr c') = mhartid (csr c)"
    "mtvec (csr c') = mtvec (csr c)" "stvec (csr c') = stvec (csr c)" "medeleg (csr c') = medeleg (csr c)"
    "mideleg (csr c') = mideleg (csr c)" "mie (csr c') = mie (csr c)" "asid_len (csr c') = asid_len (csr c)"
  using assms by (auto simp: touched_def)

lemma touched_csr_wf: "touched c c' \<Longrightarrow> csr_wf c \<Longrightarrow> csr_wf c'"
  by (auto simp: touched_def csr_wf_def)

lemma interrupt_bit_within: "within (push_bit (interrupt_no no) 1) rv_csr_mi_mask"
  by (simp add: interrupt_no_def within_def rv_csr_mi_mask_def rv_csr_si_mask_def rv_csr_sei_mask_def rv_csr_sti_mask_def
      rv_csr_ssi_mask_def rv_csr_mei_mask_def rv_csr_mti_mask_def rv_csr_msi_mask_def)

lemma touched_interrupt_up: "touched c (rv32_interrupt_up c no)"
proof -
  have "touched c (c\<lparr>csr := (csr c)\<lparr>mip := mip (csr c) OR push_bit (interrupt_no no) 1\<rparr>\<rparr>)"
    using touchedI [of c "mip (csr c) OR push_bit (interrupt_no no) 1",
        where b = "external_SEIP (csr c)" and r = "reserved_valid c", OF within_simps(6) [OF _ interrupt_bit_within]]
    by simp
  moreover have "touched c (c\<lparr>csr := (csr c)\<lparr>external_SEIP := True\<rparr>\<rparr>)"
    using touchedI [of c "mip (csr c)", where b = True and r = "reserved_valid c"] by simp
  ultimately show ?thesis by (simp only: rv32_interrupt_up_def if_split simp_thms)
qed

lemma touched_interrupt_down: "touched c (rv32_interrupt_down c no)"
  using touchedI [of c "mip (csr c)", where b = False and r = "reserved_valid c"]
    touchedI [of c "mip (csr c) AND NOT (push_bit (interrupt_no no) 1)", where b = "external_SEIP (csr c)" and r = "reserved_valid c"]
  by (auto simp: rv32_interrupt_down_def)

lemma touched_sc_access: "touched c (snd (rv32_sc_access c phys sz))"
  using touchedI [of c "mip (csr c)", where b = "external_SEIP (csr c)" and r = False]
  by (auto simp: rv32_sc_access_def rv_sc_access_def Let_def)

subsection \<open>The machine invariant\<close>

abbreviation mach_ok :: "('d, 'z) rv32_machine \<Rightarrow> bool" where
  "mach_ok \<equiv> mach_ok_by rv32_cpu_ops"

lemmas mach_ok_def = mach_ok_by_def [of rv32_cpu_ops]

abbreviation sys_evolves :: "('d, 'z) rv32_machine \<Rightarrow> ('d, 'z) rv32_machine \<Rightarrow> bool" where
  "sys_evolves \<equiv> sys_evolves_by mach_ok"

definition evolves :: "nat \<Rightarrow> ('d, 'z) rv32_machine \<Rightarrow> ('d, 'z) rv32_machine \<Rightarrow> bool" where
  "evolves k s s' \<longleftrightarrow> sys_evolves s s' \<and> touched (cpu_mem s k) (cpu_mem s' k)"

lemma evolves_refl [simp]: "evolves k s s \<longleftrightarrow> mach_ok s"
  by (simp add: evolves_def)

lemma evolves_trans: "evolves k a b \<Longrightarrow> evolves k b c \<Longrightarrow> evolves k a c"
  by (auto simp: evolves_def intro: sys_evolves_trans touched_trans)

end
