(* ===== verification/Rv_Properties.thy ===== *)
theory Rv_Properties
  imports Rv32_Decode_Facts Rv32_Machine
begin

text \<open>
  The properties of the parts of the RISC-V processor: the control and status registers, the
  instruction decoder, the translation lookaside buffer, each with its witness.
\<close>

subsection \<open>Control and status registers\<close>

text \<open>A processor in its initial state, the one of \<open>rv32_cpu_init\<close>, in a given mode.\<close>

definition demo_tlb :: rv32_tlb where
  "demo_tlb = \<lparr>entries = (\<lambda>_. zero_entry), tlb_size = 2, lru_list = [], free_list = [0, 1]\<rparr>"

definition demo_cpu :: "rv_priv_mode \<Rightarrow> rv32_cpu" where
  "demo_cpu mode = \<lparr>regs = (\<lambda>_. 0), csr = rv_init_csr 0 zero_csr 0, pc = RV_START_ADDRESS, pc_next = RV_START_ADDRESS + 4,
     priv_mode = mode, reserved_valid = False, reserved_addr = 0, stdby = False, tlb = demo_tlb\<rparr>"

lemma demo_cpu_wf: "mode \<noteq> rv_rmode \<Longrightarrow> csr_wf (demo_cpu mode)"
  by (simp add: csr_wf_def demo_cpu_def rv_init_csr_def zero_csr_def mpp_ok_def rv_asid_len_def)

lemma demo_tlb_wf: "tlb_wf demo_tlb"
  by (auto simp: tlb_wf_def demo_tlb_def)

text \<open>
  From a privilege mode below the one encoded in bits 8 and 9 of its number, a control and
  status register cannot be read, written, set or cleared: every access raises the illegal
  instruction exception.
\<close>

theorem csr_privilege:
  fixes cpu :: "(32, 't) rv_cpu"
  assumes "priv_mode cpu < rv_csr_min_priv_mode num"
  shows "rv_csr_rw cpu num v rd = Exc rv_exc_illegal_instruction \<and>
    rv_csr_rs cpu num v wr = Exc rv_exc_illegal_instruction \<and> rv_csr_rc cpu num v wr = Exc rv_exc_illegal_instruction"
  using csr_access_deny [OF assms] by blast

theorem csr_privilege_witness:
  "rv_csr_rw (demo_cpu rv_smode) 0x300 1 True = Exc rv_exc_illegal_instruction \<and>
   rv_csr_rs (demo_cpu rv_smode) 0x300 1 True = Exc rv_exc_illegal_instruction \<and>
   rv_csr_rc (demo_cpu rv_smode) 0x300 1 True = Exc rv_exc_illegal_instruction"
  by (rule csr_privilege) (simp add: demo_cpu_def rv_csr_min_priv_mode_def rv_priv_of_def less_rv_priv_mode_def)

text \<open>
  A register of the read-only range (bits 10 and 11 of the number set) is never written: a
  write, and a set or clear that writes, does not succeed in any mode.
\<close>

theorem csr_read_only_range:
  fixes cpu :: "(32, 't) rv_cpu"
  assumes "num div 1024 = 3"
  shows "(\<nexists>r. rv_csr_rw cpu num v rd = Ok r) \<and> (\<nexists>r. rv_csr_rs cpu num v True = Ok r) \<and>
    (\<nexists>r. rv_csr_rc cpu num v True = Ok r)"
  using csr_read_only [OF assms] by blast

theorem csr_read_only_range_witness:
  "(\<nexists>r. rv_csr_rw (demo_cpu rv_mmode) 0xF11 1 True = Ok r) \<and> (\<nexists>r. rv_csr_rs (demo_cpu rv_mmode) 0xF11 1 True = Ok r) \<and>
   (\<nexists>r. rv_csr_rc (demo_cpu rv_mmode) 0xF11 1 True = Ok r)"
  by (rule csr_read_only_range) simp

text \<open>
  C27: every successful register access keeps the well-formedness of the control and status
  registers (the previous privilege is never the reserved one, the trap vector modes are direct or
  vectored, the delegation and interrupt registers stay inside their masks) and changes nothing of
  the processor but these registers, never the hart id.
\<close>

theorem csr_access_invariant:
  fixes cpu :: "(32, 't) rv_cpu"
  assumes "csr_wf cpu"
    and "rv_csr_rw cpu num v rd = Ok (t, cpu') \<or> rv_csr_rs cpu num v wr = Ok (t, cpu') \<or> rv_csr_rc cpu num v wr = Ok (t, cpu')"
  shows "csr_wf cpu' \<and> cpu' = cpu\<lparr>csr := csr cpu'\<rparr> \<and> mhartid (csr cpu') = mhartid (csr cpu)"
  using assms(2) csr_access_keep [OF assms(1)] csr_access_frame [of cpu num v _ t cpu']
  by (auto simp: csr_frame_def)

theorem csr_access_invariant_witness:
  "\<exists>t cpu'. rv_csr_rw (demo_cpu rv_mmode) 0x340 5 True = Ok (t, cpu') \<and> csr_wf cpu' \<and> mscratch (csr cpu') = 5"
proof -
  obtain t cpu' where c: "rv_csr_rw (demo_cpu rv_mmode) 0x340 5 True = Ok (t, cpu')" "mscratch (csr cpu') = 5"
    by (simp add: rv_csr_rw_def get_csr_ops_def is_counter_num_def csr_ops_of_num_def mscratch_read_def mscratch_write_def
        default_csr_read_def default_csr_write_def minimal_privilege_def demo_cpu_def)
  then show ?thesis
    using csr_access_invariant [OF demo_cpu_wf [of rv_mmode], where num = "0x340" and v = 5 and rd = True and t = t and cpu' = cpu'] by auto
qed

text \<open>
  Outside the counters and the two cause registers, no register access runs into undefined
  behaviour or a failed assertion, whatever the register number and the value.
\<close>

theorem csr_access_no_undefined:
  fixes cpu :: "(32, 't) rv_cpu"
  assumes "csr_wf cpu" "\<not> is_counter_num num" "num \<noteq> 0x142" "num \<noteq> 0x342"
  shows "rv_csr_rw cpu num v rd \<noteq> Undefined \<and> rv_csr_rs cpu num v wr \<noteq> Undefined \<and> rv_csr_rc cpu num v wr \<noteq> Undefined"
  using csr_access_defined [OF assms(1), of num] assms(2-4) by (simp add: csr_hazard_def)

theorem csr_access_no_undefined_witness:
  "rv_csr_rw (demo_cpu rv_mmode) 0x180 7 True \<noteq> Undefined \<and> rv_csr_rs (demo_cpu rv_mmode) 0x180 7 True \<noteq> Undefined \<and>
   rv_csr_rc (demo_cpu rv_mmode) 0x180 7 True \<noteq> Undefined"
  by (rule csr_access_no_undefined [OF demo_cpu_wf]) (simp_all add: is_counter_num_def)

text \<open>
  C35: the read of a user-level counter from supervisor or user mode is undefined behaviour: the
  counter index is computed as the register number times \<open>0x1F\<close>, not its low five bits, and is
  used as a shift amount far above the width.
\<close>

theorem counter_read_from_low_modes:
  assumes "is_counter_num num" "rv_csr_min_priv_mode num \<noteq> rv_mmode" "priv_mode cpu = rv_smode \<or> priv_mode cpu = rv_umode"
  shows "counter_read cpu num = Undefined"
  by (rule counter_read_undefined [OF assms])

theorem counter_read_from_low_modes_witness: "counter_read (demo_cpu rv_umode) 0xC00 = Undefined"
  by (rule counter_read_from_low_modes)
    (simp_all add: is_counter_num_def rv_csr_min_priv_mode_def rv_priv_of_def demo_cpu_def)

subsection \<open>The decoder\<close>

text \<open>
  C28: the decoder returns a handler for every 32-bit instruction word, and the assertions that the
  handler makes on the fields of the instruction (its major opcode, the zero \<open>funct3\<close> of \<open>jalr\<close>,
  the zero \<open>rs2\<close> of \<open>lr.w\<close>, the shift amounts below 32) hold for that word.
\<close>

theorem decode_total_and_sound:
  "\<exists>f. rv32_instr_decode sp instr = Some f \<and>
     (case fn_opcode f of None \<Rightarrow> True | Some opc \<Rightarrow> instr_opcode instr = opc) \<and>
     (f = fn_jalr \<longrightarrow> instr_funct3 instr = 0) \<and> (f = fn_lr_w \<longrightarrow> instr_rs2 instr = 0) \<and>
     (f = fn_slli \<or> f = fn_srli \<longrightarrow> unat (i_imm instr AND 0x3F) < 32)"
proof -
  obtain f where f: "rv32_instr_decode sp instr = Some f" using rv32_instr_decode_total by blast
  show ?thesis
    by (rule exI [of _ f], rule conjI [OF f]) (rule rv32_instr_decode_pre [OF f, unfolded fn_pre_def])
qed

theorem decode_total_and_sound_witness:
  "rv32_instr_decode False 0x00500093 = Some fn_addi \<and> instr_opcode 0x00500093 = rv_opcOP_IMM"
proof -
  have "instr_opcode 0x00500093 = 0x13" "instr_funct3 0x00500093 = 0"
    by (simp_all add: instr_opcode_def instr_funct3_def)
  then have "rv32_instr_decode False 0x00500093 = Some fn_addi"
    by (simp add: rv32_instr_decode_def decode_OP_IMM_def rv_opc_defs rv_func_ADDI_def)
  moreover from this have "case fn_opcode fn_addi of None \<Rightarrow> True | Some opc \<Rightarrow> instr_opcode 0x00500093 = opc"
    using decode_total_and_sound [of False "0x00500093"] by (elim exE conjE) (simp only: option.inject)
  ultimately show ?thesis by simp
qed

subsection \<open>The translation lookaside buffer\<close>



text \<open>
  A new mapping replaces at most one cached mapping, and only when no entry is free; the one
  replaced is then the least recently used, and all other cached mappings stay.
\<close>

theorem tlb_add_evicts_lru:
  assumes "tlb_wf t" "rv32_tlb_add_mapping t asid virt pte mega glob = Some t'"
    and "i \<in> set (lru_list t)" "free_list t = [] \<longrightarrow> i \<noteq> last (lru_list t)"
  shows "i \<in> set (lru_list t') \<and> entries t' i = entries t i"
  using tlb_add_keeps [OF assms(1-3)] assms(4) by blast

definition demo_tlb_full :: rv32_tlb where
  "demo_tlb_full = \<lparr>entries = (\<lambda>_. zero_entry), tlb_size = 2, lru_list = [0, 1], free_list = []\<rparr>"

lemma demo_tlb_full_wf: "tlb_wf demo_tlb_full"
  by (auto simp: tlb_wf_def demo_tlb_full_def)

theorem tlb_add_evicts_lru_witness:
  "\<exists>t'. rv32_tlb_add_mapping demo_tlb_full 3 0x1000 (pte_from_uint 0xCF) False False = Some t' \<and>
     0 \<in> set (lru_list t') \<and> entries t' 0 = zero_entry"
proof -
  obtain t' where t': "rv32_tlb_add_mapping demo_tlb_full 3 0x1000 (pte_from_uint 0xCF) False False = Some t'"
    using tlb_add_total [OF demo_tlb_full_wf] by blast
  from tlb_add_evicts_lru [OF demo_tlb_full_wf t', of 0] t' show ?thesis by (auto simp: demo_tlb_full_def)
qed

text \<open>
  After a flush by address space and address, no lookup of that address in that address space
  finds a mapping other than a global one; a full flush leaves no mapping at all. Both keep the
  TLB well-formed.
\<close>

theorem tlb_flush_removes:
  assumes "tlb_wf t"
  shows "(\<exists>t'. rv32_tlb_flush t = Some t' \<and> tlb_wf t' \<and>
            (\<forall>asid virt. rv32_tlb_get_mapping t' asid virt noisy = Some (None, t'))) \<and>
     (\<exists>t'. rv32_tlb_flush_by_asid_and_addr t asid virt = Some t' \<and> tlb_wf t' \<and>
            (\<forall>i\<in>set (lru_list t'). te_asid (entries t' i) = asid \<and> entry_maps_virt (entries t' i) virt \<longrightarrow>
               te_global (entries t' i)))"
proof
  obtain t' where "rv32_tlb_flush t = Some t'" "tlb_wf t'" "lru_list t' = []"
    using flush_all_spec [OF assms, of "\<lambda>_. True"] by (auto simp: rv32_tlb_flush_def)
  then show "\<exists>t'. rv32_tlb_flush t = Some t' \<and> tlb_wf t' \<and>
      (\<forall>asid virt. rv32_tlb_get_mapping t' asid virt noisy = Some (None, t'))"
    by (simp add: rv32_tlb_get_mapping_def tlb_find_def)
  show "\<exists>t'. rv32_tlb_flush_by_asid_and_addr t asid virt = Some t' \<and> tlb_wf t' \<and>
      (\<forall>i\<in>set (lru_list t'). te_asid (entries t' i) = asid \<and> entry_maps_virt (entries t' i) virt \<longrightarrow>
         te_global (entries t' i))"
  proof -
    have "(if te_megapage e then te_vpn e = drop_bit RV_MEGAPAGESIZE virt else te_vpn e = drop_bit RV_PAGESIZE virt) =
        entry_maps_virt e virt" for e by (simp add: entry_maps_virt_def)
    then have "rv32_tlb_flush_by_asid_and_addr t asid virt =
        flush_loop (\<lambda>e. \<not> te_global e \<and> te_asid e = asid \<and> entry_maps_virt e virt) [0..<tlb_size t] t"
      by (simp only: rv32_tlb_flush_by_asid_and_addr_def Let_def)
    then show ?thesis
      using flush_all_spec [OF assms, of "\<lambda>e. \<not> te_global e \<and> te_asid e = asid \<and> entry_maps_virt e virt"] by auto
  qed
qed

theorem tlb_flush_removes_witness:
  "\<exists>t'. rv32_tlb_flush demo_tlb_full = Some t' \<and> rv32_tlb_get_mapping t' 0 0 True = Some (None, t')"
  using tlb_flush_removes [OF demo_tlb_full_wf] by blast


definition demo_heap :: lheap where
  "demo_heap =
     \<lparr>items = (\<lambda>i. if i = 0 then \<lparr>item_list = Some 1, item_prev = None, item_next = Some 1\<rparr>
                   else if i = 1 then \<lparr>item_list = Some 1, item_prev = Some 0, item_next = None\<rparr>
                   else \<lparr>item_list = None, item_prev = None, item_next = None\<rparr>),
      dlists = (\<lambda>l. if l = 1 then \<lparr>head = Some 0, tail = Some 1\<rparr> else \<lparr>head = None, tail = None\<rparr>)\<rparr>"


text \<open>
  The bit fields of a page table entry and its 32-bit value determine each other.
\<close>

theorem pte_round_trip: "uint_from_pte (pte_from_uint v) = v \<and> pte_from_uint (uint_from_pte p) = p"
  by (simp add: uint_from_pte_from_uint pte_from_uint_from_pte)

end
