(* ===== verification/Rv32_Access.thy ===== *)
theory Rv32_Access
  imports Rv32_Machine
begin

text \<open>
  Memory accesses on a machine of RV32 processors. Every aligned access returns (no assertion
  fails, no access leaves a memory block), keeps the machine invariant, and changes processors
  only the way \<open>touched\<close> allows: \<open>env_step\<close>. This is what every instruction of a processor relies
  on when it reaches for memory or a device.
\<close>

interpretation rv32_class: processor_class rv32_cpu_ops touched
proof
  show "touched c c" for c by simp
  show "touched c c1 \<Longrightarrow> touched c1 c2 \<Longrightarrow> touched c c2" for c c1 c2 by (rule touched_trans)
  show "\<exists>c'. op_interrupt_up rv32_cpu_ops c no = Some c' \<and> touched c c'" for c no
    by (simp add: rv32_cpu_ops_def touched_interrupt_up)
  show "\<exists>c'. op_interrupt_down rv32_cpu_ops c no = Some c' \<and> touched c c'" for c no
    by (simp add: rv32_cpu_ops_def touched_interrupt_down)
  show "\<exists>hit c'. op_sc_access rv32_cpu_ops c phys sz = Some (hit, c') \<and> touched c c'" for c phys sz
    using touched_sc_access [of c phys sz] by (cases "rv32_sc_access c phys sz") (simp add: rv32_cpu_ops_def)
qed

interpretation rv32_memory: memory_users mach_ok touched
  by (rule rv32_class.provides_access)

abbreviation env_step :: "('d, 'z) rv32_machine \<Rightarrow> ('d, 'z) rv32_machine \<Rightarrow> bool" where
  "env_step \<equiv> env_step_by mach_ok touched"

lemmas env_step_def = env_step_by_def [of mach_ok touched]
lemmas env_step_refl [simp] = rv32_memory.access_refl
lemmas env_step_trans = rv32_memory.access_trans
lemmas env_stepD = env_step_byD [of mach_ok touched]
lemmas env_step_same_cpus = env_step_by_same_cpus [of rv32_cpu_ops _ _ touched]
lemmas sys_evolves_same = sys_evolves_by_same [of rv32_cpu_ops]
lemmas apply_effects_env = rv32_class.effects_env
lemmas physmem_read_env = rv32_memory.rd_env
lemmas physmem_write_env = rv32_memory.wr_env

lemma mach_ok_mem_inv: "mach_ok s \<Longrightarrow> mem_inv s"
  unfolding mach_ok_def by (auto simp: mem_inv_def cpus_ok_def rv32_cpu_ops_def)

end
