(* ===== verification/Rv32_Translate.thy ===== *)
theory Rv32_Translate
  imports Rv32_Access
begin

text \<open>
  Address translation on a machine that satisfies its invariant: it always returns, either a
  physical address with the page offset of the virtual one or the page fault of the access, and
  changes the processor only in its TLB. A translation that succeeded is remembered by the TLB:
  \<open>tlb_ready\<close> says that the next data access to the address, of the same or of a weaker kind, is
  answered from the TLB. The atomic instructions rely on it, they assert that the accesses after
  their check do not fault.
\<close>

subsection \<open>What memory accesses of a processor change in it\<close>

definition mem_touched :: "rv32_cpu \<Rightarrow> rv32_cpu \<Rightarrow> bool" where
  "mem_touched c c' \<longleftrightarrow>
     (\<exists>m b v t1 t2 r t. c' = c\<lparr>csr := (csr c)\<lparr>mip := m, external_SEIP := b, tval_next := v, mtime := t1, mtimecmp := t2\<rparr>,
        reserved_valid := r, tlb := t\<rparr> \<and>
        (within (mip (csr c)) rv_csr_mi_mask \<longrightarrow> within m rv_csr_mi_mask) \<and> (tlb_wf (tlb c) \<longrightarrow> tlb_wf t))"

lemma mem_touchedI:
  "c' = c\<lparr>csr := (csr c)\<lparr>mip := m, external_SEIP := b, tval_next := v, mtime := t1, mtimecmp := t2\<rparr>, reserved_valid := r, tlb := t\<rparr> \<Longrightarrow>
   (within (mip (csr c)) rv_csr_mi_mask \<Longrightarrow> within m rv_csr_mi_mask) \<Longrightarrow> (tlb_wf (tlb c) \<Longrightarrow> tlb_wf t) \<Longrightarrow> mem_touched c c'"
  unfolding mem_touched_def by blast

lemma touched_mem_touched: "touched c c' \<Longrightarrow> mem_touched c c'"
proof -
  assume "touched c c'"
  then obtain m b r where c': "c' = c\<lparr>csr := (csr c)\<lparr>mip := m, external_SEIP := b\<rparr>, reserved_valid := r\<rparr>"
    and m: "within (mip (csr c)) rv_csr_mi_mask \<longrightarrow> within m rv_csr_mi_mask"
    unfolding touched_def by blast
  show ?thesis
    by (rule mem_touchedI [where m = m and b = b and r = r and v = "tval_next (csr c)" and ?t1.0 = "mtime (csr c)"
          and ?t2.0 = "mtimecmp (csr c)" and t = "tlb c"]) (use c' m in simp_all)
qed

lemma mem_touched_refl [simp]: "mem_touched c c"
  by (rule touched_mem_touched) simp

lemma mem_touched_trans: "mem_touched a b \<Longrightarrow> mem_touched b c \<Longrightarrow> mem_touched a c"
  unfolding mem_touched_def by (elim exE conjE, hypsubst_thin, simp) blast

lemma mem_touched_tlb: "(tlb_wf (tlb c) \<Longrightarrow> tlb_wf t) \<Longrightarrow> mem_touched c (c\<lparr>tlb := t\<rparr>)"
  by (rule mem_touchedI [where m = "mip (csr c)" and b = "external_SEIP (csr c)" and r = "reserved_valid c"
        and v = "tval_next (csr c)" and ?t1.0 = "mtime (csr c)" and ?t2.0 = "mtimecmp (csr c)"]) simp_all

lemma mem_touched_tval: "mem_touched c (c\<lparr>csr := (csr c)\<lparr>tval_next := v\<rparr>\<rparr>)"
  by (rule mem_touchedI [where m = "mip (csr c)" and b = "external_SEIP (csr c)" and r = "reserved_valid c"
        and ?t1.0 = "mtime (csr c)" and ?t2.0 = "mtimecmp (csr c)" and t = "tlb c"]) simp_all

lemma mem_touched_simps:
  assumes "mem_touched c c'"
  shows "regs c' = regs c" "pc c' = pc c" "pc_next c' = pc_next c" "priv_mode c' = priv_mode c" "stdby c' = stdby c"
    "reserved_addr c' = reserved_addr c" "mstatus (csr c') = mstatus (csr c)" "satp (csr c') = satp (csr c)"
    "mhartid (csr c') = mhartid (csr c)" "mtvec (csr c') = mtvec (csr c)" "stvec (csr c') = stvec (csr c)"
    "medeleg (csr c') = medeleg (csr c)" "mideleg (csr c') = mideleg (csr c)" "mie (csr c') = mie (csr c)"
    "asid_len (csr c') = asid_len (csr c)" "mepc (csr c') = mepc (csr c)" "sepc (csr c') = sepc (csr c)"
  using assms by (auto simp: mem_touched_def)

lemma mem_touched_inv: "mem_touched c c' \<Longrightarrow> csr_wf c \<Longrightarrow> csr_wf c'" "mem_touched c c' \<Longrightarrow> tlb_wf (tlb c) \<Longrightarrow> tlb_wf (tlb c')"
  by (auto simp: mem_touched_def csr_wf_def)

text \<open>A step of the machine in which processor \<open>k\<close> accesses memory.\<close>

definition mem_step :: "nat \<Rightarrow> ('d, 'z) rv32_machine \<Rightarrow> ('d, 'z) rv32_machine \<Rightarrow> bool" where
  "mem_step k s s' \<longleftrightarrow> sys_evolves s s' \<and> (\<forall>j. j \<noteq> k \<longrightarrow> touched (cpu_mem s j) (cpu_mem s' j)) \<and>
     mem_touched (cpu_mem s k) (cpu_mem s' k)"

lemma mem_step_refl [simp]: "mem_step k s s \<longleftrightarrow> mach_ok s"
  by (simp add: mem_step_def)

lemma mem_step_trans: "mem_step k a b \<Longrightarrow> mem_step k b c \<Longrightarrow> mem_step k a c"
  by (auto simp: mem_step_def intro: sys_evolves_trans touched_trans mem_touched_trans)

lemma env_mem_step: "env_step s s' \<Longrightarrow> mem_step k s s'"
  by (simp add: env_step_def mem_step_def touched_mem_touched)

lemma mem_stepD: "mem_step k s s' \<Longrightarrow> mach_ok s'" "mem_step k s s' \<Longrightarrow> sys_evolves s s'"
  "mem_step k s s' \<Longrightarrow> mem_touched (cpu_mem s k) (cpu_mem s' k)"
  "mem_step k s s' \<Longrightarrow> j \<noteq> k \<Longrightarrow> touched (cpu_mem s j) (cpu_mem s' j)"
  by (auto simp: mem_step_def sys_evolves_ok)

lemma sys_evolves_set_cpu: "mach_ok s \<Longrightarrow> sys_evolves s (set_cpu k c s)"
  by (rule sys_evolves_same) simp_all

lemma mem_step_set_cpu: "mach_ok s \<Longrightarrow> mem_touched (cpu_mem s k) c \<Longrightarrow> mem_step k s (set_cpu k c s)"
  by (simp add: mem_step_def sys_evolves_set_cpu)

subsection \<open>Words of the page walk\<close>

lemma IS_ALIGNED_4_add: "IS_ALIGNED a 4 \<Longrightarrow> IS_ALIGNED b 4 \<Longrightarrow> IS_ALIGNED (a + b) 4" for a :: ptr36
  using IS_ALIGNED_dvd [of a 2] IS_ALIGNED_dvd [of b 2] IS_ALIGNED_dvd [of "a + b" 2]
  by (simp add: unat_word_ariths dvd_mod_iff)

lemma pte_addr_aligned: "IS_ALIGNED (push_bit RV_PAGESIZE (ucast (x :: 'a::len word)) + ucast ((v :: u32) * 4) :: ptr36) 4"
proof (rule IS_ALIGNED_4_add)
  show "IS_ALIGNED (push_bit RV_PAGESIZE (ucast x) :: ptr36) 4" by (simp add: aligned_4_bits bit_simps)
  have "v * 4 = push_bit 2 v" by (simp add: push_bit_eq_mult mult.commute)
  then show "IS_ALIGNED (ucast (v * 4) :: ptr36) 4" by (simp add: aligned_4_bits bit_simps)
qed

lemma bit_push_bit_low: "n < m \<Longrightarrow> \<not> bit (push_bit m (x :: 'a::len word)) n"
  by (simp add: bit_simps)

lemma make_phys_offset:
  assumes "n < 12"
  shows "bit (make_phys_from_ppn virt pte mega) n = bit virt n"
proof -
  have m: "(0xFFF :: u32) = mask 12" "(0x003FF000 :: u32) = push_bit 12 (mask 10)"
    by (simp_all add: mask_eq_decr_exp)
  have "bit (ucast (virt AND 0x00000FFF) :: ptr36) n = bit virt n" "\<not> bit (ucast (virt AND 0x003FF000) :: ptr36) n"
    unfolding m using assms by (auto simp: bit_simps)
  then show ?thesis
    by (cases mega) (simp_all only: make_phys_from_ppn_def Let_def bit_or_iff bit_push_bit_low [OF assms] if_True if_False simp_thms)
qed

lemma make_phys_aligned:
  "IS_ALIGNED virt 2 \<Longrightarrow> IS_ALIGNED (make_phys_from_ppn virt pte mega) 2"
  "IS_ALIGNED virt 4 \<Longrightarrow> IS_ALIGNED (make_phys_from_ppn virt pte mega) 4"
  "IS_ALIGNED virt 8 \<Longrightarrow> IS_ALIGNED (make_phys_from_ppn virt pte mega) 8"
  using IS_ALIGNED_bits [of virt 1] IS_ALIGNED_bits [of virt 2] IS_ALIGNED_bits [of virt 3]
    IS_ALIGNED_bits [of "make_phys_from_ppn virt pte mega" 1] IS_ALIGNED_bits [of "make_phys_from_ppn virt pte mega" 2]
    IS_ALIGNED_bits [of "make_phys_from_ppn virt pte mega" 3] by (simp_all add: make_phys_offset)

subsection \<open>TLB hits\<close>

lemma tlb_get_hit:
  assumes "tlb_wf t" "tlb_find t asid virt = Some i"
  shows "\<exists>t'. rv32_tlb_get_mapping t asid virt True = Some (Some (te_pte (entries t i), te_megapage (entries t i)), t') \<and>
     tlb_wf t' \<and> tlb_find t' asid virt = Some i \<and> entries t' = entries t"
proof -
  have i: "i \<in> set (lru_list t)" "te_global (entries t i) \<or> te_asid (entries t i) = asid" "entry_maps_virt (entries t i) virt"
    using tlb_find_valid [OF assms(2)] by auto
  obtain r t' where t': "rv32_tlb_get_mapping t asid virt True = Some (r, t')" "tlb_wf t'" "entries t' = entries t"
    using tlb_get_total [OF assms(1)] by blast
  have "opt_hd (lru_list t') = Some i"
    using t'(1) assms(2) by (auto simp: rv32_tlb_get_mapping_def move_lru_entry_to_front_def split: if_splits)
  then have "tlb_find t' asid virt = Some i" using i t'(3) by (auto simp: tlb_find_def opt_hd_Some_iff neq_Nil_conv)
  then show ?thesis using t' assms(2) by (auto simp: rv32_tlb_get_mapping_def bind_Some_iff)
qed

lemma tlb_remove_total:
  assumes "tlb_wf t"
  shows "\<exists>t'. rv32_tlb_remove_mapping t asid virt = Some t' \<and> tlb_wf t'"
proof (cases "tlb_find t asid virt")
  case (Some i)
  then have "is_entry_valid t i" using tlb_find_valid(1) [OF Some] by (simp add: is_entry_valid_def)
  then obtain t' where t': "invalidate_tlb_entry t i = Some t'" by (simp add: invalidate_tlb_entry_def)
  then show ?thesis using Some invalidate_wf [OF assms t'] by (simp add: rv32_tlb_remove_mapping_def)
qed (use assms in \<open>simp add: rv32_tlb_remove_mapping_def\<close>)

text \<open>The part of the processor that address translation depends on, apart from the TLB.\<close>

definition vm_same :: "rv32_cpu \<Rightarrow> rv32_cpu \<Rightarrow> bool" where
  "vm_same c c' \<longleftrightarrow> priv_mode c' = priv_mode c \<and> mstatus (csr c') = mstatus (csr c) \<and> satp (csr c') = satp (csr c)"

lemma vm_same_cong:
  assumes "vm_same c c'"
  shows "sv32_effective_priv c' = sv32_effective_priv c" "rv_csr_satp_is_bare c' = rv_csr_satp_is_bare c"
    "rv_csr_satp_asid c' = rv_csr_satp_asid c" "rv_csr_satp_ppn c' = rv_csr_satp_ppn c" "priv_mode c' = priv_mode c"
    "is_access_allowed c' = is_access_allowed c"
proof -
  show 1: "sv32_effective_priv c' = sv32_effective_priv c" "rv_csr_satp_is_bare c' = rv_csr_satp_is_bare c"
    "rv_csr_satp_asid c' = rv_csr_satp_asid c" "rv_csr_satp_ppn c' = rv_csr_satp_ppn c" "priv_mode c' = priv_mode c"
    using assms by (simp_all add: vm_same_def sv32_effective_priv_def rv_csr_mstatus_mprv_def rv_csr_mstatus_mpp_def
        rv_csr_satp_is_bare_def rv_csr_satp_asid_def rv_csr_satp_ppn_def)
  have "rv_csr_sstatus_mxr c' = rv_csr_sstatus_mxr c" "rv_csr_sstatus_sum c' = rv_csr_sstatus_sum c"
    using assms by (simp_all add: vm_same_def rv_csr_sstatus_mxr_def rv_csr_sstatus_sum_def)
  then show "is_access_allowed c' = is_access_allowed c" by (intro ext) (simp add: is_access_allowed_def 1)
qed

lemma vm_same_simps [simp]: "vm_same c c" "vm_same c (c\<lparr>tlb := t\<rparr>)" "mem_touched c c' \<Longrightarrow> vm_same c c'" "touched c c' \<Longrightarrow> vm_same c c'"
  by (simp_all add: vm_same_def mem_touched_simps touched_simps)

lemma vm_same_trans: "vm_same a b \<Longrightarrow> vm_same b c \<Longrightarrow> vm_same a c"
  by (simp add: vm_same_def)

definition uses_sv32 :: "rv32_cpu \<Rightarrow> bool \<Rightarrow> bool" where
  "uses_sv32 cpu fetch \<longleftrightarrow> sv32_effective_priv cpu \<le> rv_smode \<and> \<not> rv_csr_satp_is_bare cpu \<and> \<not> (priv_mode cpu = rv_mmode \<and> fetch)"

definition pte_grants :: "rv32_cpu \<Rightarrow> sv32_pte \<Rightarrow> bool \<Rightarrow> bool \<Rightarrow> bool \<Rightarrow> bool" where
  "pte_grants cpu pte mega wr fetch \<longleftrightarrow> is_pte_valid pte \<and> is_access_allowed cpu pte wr fetch \<and>
     \<not> (mega \<and> pte_ppn0 pte \<noteq> 0) \<and> \<not> pte_access_dirty_update_needed pte wr"

text \<open>The next access of the given kind to \<open>virt\<close> translates to \<open>phys\<close> without a page walk.\<close>

definition tlb_ready :: "rv32_cpu \<Rightarrow> u32 \<Rightarrow> bool \<Rightarrow> bool \<Rightarrow> ptr36 \<Rightarrow> bool" where
  "tlb_ready cpu virt wr fetch phys \<longleftrightarrow>
     (if uses_sv32 cpu fetch then
        (\<exists>i. tlb_find (tlb cpu) (rv_csr_satp_asid cpu) virt = Some i \<and>
           pte_grants cpu (te_pte (entries (tlb cpu) i)) (te_megapage (entries (tlb cpu) i)) wr fetch \<and>
           phys = make_phys_from_ppn virt (te_pte (entries (tlb cpu) i)) (te_megapage (entries (tlb cpu) i)))
      else phys = ucast virt)"

lemma tlb_ready_same:
  assumes "vm_same c c'" "tlb c' = tlb c"
  shows "tlb_ready c' virt wr fetch phys = tlb_ready c virt wr fetch phys"
  by (simp only: tlb_ready_def uses_sv32_def pte_grants_def vm_same_cong [OF assms(1)] assms(2))

lemma tlb_ready_touched: "touched c c' \<Longrightarrow> tlb_ready c' virt wr fetch phys = tlb_ready c virt wr fetch phys"
  by (rule tlb_ready_same) (simp_all add: touched_simps)

text \<open>A page that may be written may be read.\<close>

lemma is_access_allowed_iff:
  "is_access_allowed cpu pte wr fetch \<longleftrightarrow>
     (wr \<longrightarrow> pte_w pte) \<and> (fetch \<longrightarrow> pte_x pte) \<and>
     (\<not> wr \<and> \<not> fetch \<longrightarrow> pte_r pte \<or> rv_csr_sstatus_mxr cpu \<and> pte_x pte) \<and>
     (sv32_effective_priv cpu = rv_smode \<longrightarrow> pte_u pte \<longrightarrow> rv_csr_sstatus_sum cpu \<and> \<not> fetch) \<and>
     (sv32_effective_priv cpu = rv_umode \<longrightarrow> pte_u pte)"
  by (auto simp: is_access_allowed_def Let_def)

lemma pte_grants_weaken: "pte_grants cpu pte mega wr False \<Longrightarrow> (wr' \<Longrightarrow> wr) \<Longrightarrow> pte_grants cpu pte mega wr' False"
  by (auto simp: pte_grants_def is_access_allowed_iff is_pte_valid_def pte_access_dirty_update_needed_def)

lemma ucast_aligned:
  "IS_ALIGNED (v :: u32) 2 \<Longrightarrow> IS_ALIGNED (ucast v :: ptr36) 2" "IS_ALIGNED v 4 \<Longrightarrow> IS_ALIGNED (ucast v :: ptr36) 4"
  "IS_ALIGNED v 8 \<Longrightarrow> IS_ALIGNED (ucast v :: ptr36) 8"
  using IS_ALIGNED_bits [of v 1] IS_ALIGNED_bits [of v 2] IS_ALIGNED_bits [of v 3]
    IS_ALIGNED_bits [of "ucast v :: ptr36" 1] IS_ALIGNED_bits [of "ucast v :: ptr36" 2] IS_ALIGNED_bits [of "ucast v :: ptr36" 3]
  by (simp_all add: bit_simps)

lemma tlb_ready_aligned:
  assumes "tlb_ready cpu virt wr fetch phys"
  shows "IS_ALIGNED virt 2 \<Longrightarrow> IS_ALIGNED phys 2" "IS_ALIGNED virt 4 \<Longrightarrow> IS_ALIGNED phys 4" "IS_ALIGNED virt 8 \<Longrightarrow> IS_ALIGNED phys 8"
  using assms by (auto simp: tlb_ready_def make_phys_aligned ucast_aligned split: if_splits)

subsection \<open>The page walk returns\<close>

definition leaf_ok :: "(sv32_pte \<times> ptr36 \<times> bool \<times> bool) option \<Rightarrow> bool" where
  "leaf_ok leaf \<longleftrightarrow> (\<forall>pte a m g. leaf = Some (pte, a, m, g) \<longrightarrow>
     is_pte_valid pte \<and> is_pte_leaf pte \<and> (m \<longrightarrow> pte_ppn0 pte = 0) \<and> IS_ALIGNED a 4)"

lemma leaf_ok_None [simp]: "leaf_ok None"
  by (simp add: leaf_ok_def)

lemma pte_table_aligned: "IS_ALIGNED (pte_ppn_phys pte + ucast ((v :: u32) * 4)) 4"
  unfolding pte_ppn_phys_def by (rule pte_addr_aligned)

lemma pagewalk_leaf_ok:
  assumes ok: "mach_ok s"
  shows "\<exists>leaf s1. pagewalk_leaf k virt noisy s = Some (leaf, s1) \<and> env_step s s1 \<and> leaf_ok leaf"
proof -
  define a1 :: ptr36 where "a1 = push_bit RV_PAGESIZE (ucast (rv_csr_satp_ppn (cpu_mem s k))) + ucast (drop_bit 22 (virt AND 0xFFC00000) * 4)"
  have al1: "IS_ALIGNED a1 4" unfolding a1_def by (rule pte_addr_aligned)
  obtain v1 s1 where r1: "physmem_read32 (hartid k s) a1 noisy s = Some (v1, s1)" "env_step s s1"
    using physmem_read_env(3) [OF ok al1] by blast
  define pte where "pte = pte_from_uint v1"
  define a2 :: ptr36 where "a2 = pte_ppn_phys pte + ucast (drop_bit 12 (virt AND 0x003FF000) * 4)"
  have al2: "IS_ALIGNED a2 4" unfolding a2_def by (rule pte_table_aligned)
  obtain v2 s2 where r2: "physmem_read32 (hartid k s1) a2 noisy s1 = Some (v2, s2)" "env_step s1 s2"
    using physmem_read_env(3) [OF env_stepD(3) [OF r1(2)] al2] by blast
  have "pagewalk_leaf k virt noisy s =
     (if \<not> is_pte_valid pte then Some (None, s1)
      else if is_pte_leaf pte then
        (if pte_ppn0 pte \<noteq> 0 then Some (None, s1) else Some (Some (pte, a1, True, pte_g pte), s1))
      else
        (if \<not> is_pte_valid (pte_from_uint v2) then Some (None, s2)
         else if \<not> is_pte_leaf (pte_from_uint v2) then Some (None, s2)
         else Some (Some (pte_from_uint v2, a2, False, pte_g pte \<or> pte_g (pte_from_uint v2)), s2)))"
    using r1(1) r2(1)
    by (simp only: pagewalk_leaf_def Let_def a1_def [symmetric] a2_def [symmetric] pte_def [symmetric]
        bind.bind_lunit prod.case)
  moreover have "env_step s s2" by (rule env_step_trans [OF r1(2) r2(2)])
  ultimately show ?thesis using r1(2) al1 al2 by (auto simp: leaf_ok_def)
qed

lemma dirty_updated:
  assumes "is_pte_valid pte" "is_access_allowed cpu pte wr fetch" "mega \<longrightarrow> pte_ppn0 pte = 0"
    and "pte' = (if pte_access_dirty_update_needed pte wr then pte\<lparr>pte_a := True, pte_d := pte_d pte \<or> wr\<rparr> else pte)"
  shows "pte_grants cpu pte' mega wr fetch"
  using assms by (auto simp: pte_grants_def is_pte_valid_def is_access_allowed_iff pte_access_dirty_update_needed_def pte_ppn0_def)

lemma pagewalk_ok:
  assumes ok: "mach_ok s" and wf: "tlb_wf (tlb (cpu_mem s k))" and sv: "uses_sv32 (cpu_mem s k) fetch"
  shows "\<exists>r s'. rv32_pagewalk k virt wr fetch noisy s = Some (r, s') \<and> mem_step k s s' \<and>
     (case r of Inl ex \<Rightarrow> ex = page_fault_exception wr fetch | Inr phys \<Rightarrow> tlb_ready (cpu_mem s' k) virt wr fetch phys)"
proof -
  obtain leaf s1 where l: "pagewalk_leaf k virt noisy s = Some (leaf, s1)" "env_step s s1" "leaf_ok leaf"
    using pagewalk_leaf_ok [OF ok] by blast
  note ok1 = env_stepD(3) [OF l(2)]
  show ?thesis
  proof (cases "\<exists>pte a m g. leaf = Some (pte, a, m, g) \<and> is_access_allowed (cpu_mem s1 k) pte wr fetch")
    case False
    then have "rv32_pagewalk k virt wr fetch noisy s = Some (Inl (page_fault_exception wr fetch), s1)"
      using l(1) by (auto simp: rv32_pagewalk_def split: option.splits)
    then show ?thesis using env_mem_step [OF l(2)] by auto
  next
    case True
    then obtain pte a m g where leaf: "leaf = Some (pte, a, m, g)" and al: "is_access_allowed (cpu_mem s1 k) pte wr fetch" by blast
    have lf: "is_pte_valid pte" "m \<longrightarrow> pte_ppn0 pte = 0" "IS_ALIGNED a 4" using l(3) leaf by (auto simp: leaf_ok_def)
    define pte' where "pte' = (if pte_access_dirty_update_needed pte wr then pte\<lparr>pte_a := True, pte_d := pte_d pte \<or> wr\<rparr> else pte)"
    obtain b s2 where w: "(if pte_access_dirty_update_needed pte wr \<and> noisy
        then physmem_write32 (hartid k s1) a (uint_from_pte pte') True s1 else Some (True, s1)) = Some (b, s2)" "env_step s1 s2"
      using physmem_write_env(3) [OF ok1 lf(3), of "hartid k s1" "uint_from_pte pte'" True] ok1
      by (cases "pte_access_dirty_update_needed pte wr \<and> noisy") auto
    have e: "env_step s s2" by (rule env_step_trans [OF l(2) w(2)])
    let ?c = "cpu_mem s2 k"
    have tc: "touched (cpu_mem s k) ?c" by (rule env_stepD(2) [OF e])
    then have wf2: "tlb_wf (tlb ?c)" using wf by (simp add: touched_simps)
    obtain t' where t': "rv32_tlb_add_mapping (tlb ?c) (rv_csr_satp_asid ?c) virt pte' m g = Some t'" "tlb_wf t'"
      using tlb_add_total [OF wf2] by blast
    let ?s' = "set_cpu k (?c\<lparr>tlb := t'\<rparr>) s2"
    have res: "rv32_pagewalk k virt wr fetch noisy s = Some (Inr (make_phys_from_ppn virt pte' m), ?s')"
      unfolding rv32_pagewalk_def l(1) leaf using al w(1) t'(1)
      by (simp only: bind.bind_lunit prod.case option.case Let_def pte'_def [symmetric] not_True_eq_False if_False)
    have st: "mem_step k s ?s'"
      by (rule mem_step_trans [OF env_mem_step [OF e]], rule mem_step_set_cpu [OF env_stepD(3) [OF e]])
        (use t'(2) in \<open>simp add: mem_touched_tlb\<close>)
    have vs: "vm_same (cpu_mem s k) (?c\<lparr>tlb := t'\<rparr>)" "vm_same (cpu_mem s1 k) (?c\<lparr>tlb := t'\<rparr>)"
      using vm_same_trans [OF vm_same_simps(4) [OF tc] vm_same_simps(2)]
        vm_same_trans [OF vm_same_simps(4) [OF env_stepD(2) [OF w(2)]] vm_same_simps(2)] by simp_all
    obtain i where i: "tlb_find t' (rv_csr_satp_asid ?c) virt = Some i" "entries t' i = new_entry (rv_csr_satp_asid ?c) virt pte' m g"
      using tlb_find_add_same [OF wf2 t'(1), of virt "rv_csr_satp_asid ?c"] by (cases m) (auto simp: entry_maps_new)
    have "pte_grants (?c\<lparr>tlb := t'\<rparr>) pte' m wr fetch"
      by (rule dirty_updated [OF lf(1) _ lf(2) pte'_def]) (simp add: vm_same_cong [OF vs(2)] al)
    then have "tlb_ready (cpu_mem ?s' k) virt wr fetch (make_phys_from_ppn virt pte' m)"
      using i sv vm_same_cong [OF vs(1)] vm_same_cong [OF vm_same_simps(2), of t' ?c]
      by (simp add: tlb_ready_def uses_sv32_def new_entry_def)
    then show ?thesis using res st by auto
  qed
qed

subsection \<open>Translation\<close>

text \<open>What a translation leaves: the fault of the access, or an address the TLB now knows.\<close>

definition translated :: "rv32_cpu \<Rightarrow> u32 \<Rightarrow> bool \<Rightarrow> bool \<Rightarrow> rv_exc + ptr36 \<Rightarrow> bool" where
  "translated cpu virt wr fetch r \<longleftrightarrow>
     (case r of Inl ex \<Rightarrow> ex = page_fault_exception wr fetch | Inr phys \<Rightarrow> tlb_ready cpu virt wr fetch phys)"

lemma convert_ready:
  assumes ok: "mach_ok s" and wf: "tlb_wf (tlb (cpu_mem s k))"
    and rd: "tlb_ready (cpu_mem s k) virt wr fetch phys" and n: "\<not> (wr \<and> fetch)" and w: "wr' \<Longrightarrow> wr" "fetch \<Longrightarrow> wr' = wr"
  shows "\<exists>s'. rv32_convert_addr k virt wr' fetch noisy s = Some (Inr phys, s') \<and> mem_step k s s' \<and>
     tlb_ready (cpu_mem s' k) virt wr fetch phys"
proof (cases "uses_sv32 (cpu_mem s k) fetch")
  case False
  then have "rv32_convert_addr k virt wr' fetch noisy s = Some (Inr phys, s)"
    using rd n w by (auto simp: rv32_convert_addr_def tlb_ready_def uses_sv32_def Let_def)
  then show ?thesis using ok rd by auto
next
  case True
  let ?c = "cpu_mem s k" and ?asid = "rv_csr_satp_asid (cpu_mem s k)"
  obtain i where i: "tlb_find (tlb ?c) ?asid virt = Some i"
    and g: "pte_grants ?c (te_pte (entries (tlb ?c) i)) (te_megapage (entries (tlb ?c) i)) wr fetch"
    and ph: "phys = make_phys_from_ppn virt (te_pte (entries (tlb ?c) i)) (te_megapage (entries (tlb ?c) i))"
    using rd True by (auto simp: tlb_ready_def)
  obtain t' where t': "rv32_tlb_get_mapping (tlb ?c) ?asid virt True =
      Some (Some (te_pte (entries (tlb ?c) i), te_megapage (entries (tlb ?c) i)), t')"
    "tlb_wf t'" "tlb_find t' ?asid virt = Some i" "entries t' = entries (tlb ?c)"
    using tlb_get_hit [OF wf i] by blast
  have g': "pte_grants ?c (te_pte (entries (tlb ?c) i)) (te_megapage (entries (tlb ?c) i)) wr' fetch"
    using g w pte_grants_weaken by (cases fetch) auto
  let ?s' = "set_cpu k (?c\<lparr>tlb := t'\<rparr>) s"
  note same = vm_same_cong [OF vm_same_simps(2), of t' ?c]
  have "rv32_convert_addr k virt wr' fetch noisy s = Some (Inr phys, ?s')"
    using True t'(1) g' n w ph
    by (auto simp: rv32_convert_addr_def uses_sv32_def Let_def pte_grants_def same)
  moreover have "mem_step k s ?s'" using ok t'(2) by (intro mem_step_set_cpu mem_touched_tlb)
  moreover have "tlb_ready (cpu_mem ?s' k) virt wr fetch phys"
    using True t' g ph by (simp add: tlb_ready_def uses_sv32_def pte_grants_def same)
  ultimately show ?thesis by blast
qed

lemma convert_ok:
  assumes ok: "mach_ok s" and wf: "tlb_wf (tlb (cpu_mem s k))" and n: "\<not> (wr \<and> fetch)"
  shows "\<exists>r s'. rv32_convert_addr k virt wr fetch noisy s = Some (r, s') \<and> mem_step k s s' \<and>
     translated (cpu_mem s' k) virt wr fetch r"
proof (cases "uses_sv32 (cpu_mem s k) fetch")
  case False
  then have "rv32_convert_addr k virt wr fetch noisy s = Some (Inr (ucast virt), s)"
    using n by (auto simp: rv32_convert_addr_def uses_sv32_def Let_def)
  then show ?thesis using ok False by (auto simp: translated_def tlb_ready_def)
next
  case sv: True
  let ?c = "cpu_mem s k" and ?asid = "rv_csr_satp_asid (cpu_mem s k)"
  have walk: "\<exists>r s'. rv32_pagewalk k virt wr fetch noisy (set_cpu k (?c\<lparr>tlb := t\<rparr>) s) = Some (r, s') \<and> mem_step k s s' \<and>
     translated (cpu_mem s' k) virt wr fetch r" if t: "tlb_wf t" for t
  proof -
    let ?s1 = "set_cpu k (?c\<lparr>tlb := t\<rparr>) s"
    have m: "mem_step k s ?s1" using ok t by (intro mem_step_set_cpu mem_touched_tlb)
    have "uses_sv32 (cpu_mem ?s1 k) fetch"
      using sv by (simp add: uses_sv32_def vm_same_cong [OF vm_same_simps(2), of t ?c])
    then show ?thesis
      using pagewalk_ok [OF mem_stepD(1) [OF m], of k fetch virt wr noisy] t mem_step_trans [OF m] by (auto simp: translated_def)
  qed
  obtain hit t1 where t1: "rv32_tlb_get_mapping (tlb ?c) ?asid virt True = Some (hit, t1)" "tlb_wf t1"
    using tlb_get_total [OF wf] by blast
  have m1: "mem_step k s (set_cpu k (?c\<lparr>tlb := t1\<rparr>) s)" using ok t1(2) by (intro mem_step_set_cpu mem_touched_tlb)
  note same = vm_same_cong [OF vm_same_simps(2), of t1 ?c]
  obtain t2 where t2: "rv32_tlb_remove_mapping t1 ?asid virt = Some t2" "tlb_wf t2" using tlb_remove_total [OF t1(2)] by blast
  show ?thesis
  proof (cases hit)
    case None
    then show ?thesis using walk [OF t1(2)] t1(1) sv n by (auto simp: rv32_convert_addr_def uses_sv32_def Let_def)
  next
    case (Some e)
    then obtain pte mega where e: "hit = Some (pte, mega)" by (cases e) auto
    consider "\<not> is_pte_valid pte \<or> \<not> is_access_allowed ?c pte wr fetch \<or> mega \<and> pte_ppn0 pte \<noteq> 0"
      | "is_pte_valid pte" "is_access_allowed ?c pte wr fetch" "\<not> (mega \<and> pte_ppn0 pte \<noteq> 0)" "pte_access_dirty_update_needed pte wr"
      | "pte_grants ?c pte mega wr fetch"
      by (auto simp: pte_grants_def)
    then show ?thesis
    proof cases
      case 1
      then have "rv32_convert_addr k virt wr fetch noisy s =
          Some (Inl (page_fault_exception wr fetch), set_cpu k (?c\<lparr>tlb := t1\<rparr>) s)"
        using t1(1) e sv n by (auto simp: rv32_convert_addr_def uses_sv32_def Let_def same)
      then show ?thesis using m1 by (auto simp: translated_def)
    next
      case 2
      then have "rv32_convert_addr k virt wr fetch noisy s = rv32_pagewalk k virt wr fetch noisy (set_cpu k (?c\<lparr>tlb := t2\<rparr>) s)"
        using t1(1) t2(1) e sv n by (auto simp: rv32_convert_addr_def uses_sv32_def Let_def same)
      then show ?thesis using walk [OF t2(2)] by simp
    next
      case 3
      obtain i where i: "tlb_find (tlb ?c) ?asid virt = Some i" "pte = te_pte (entries (tlb ?c) i)" "mega = te_megapage (entries (tlb ?c) i)"
        using t1(1) e by (auto simp: rv32_tlb_get_mapping_def bind_Some_iff split: option.splits)
      then have "tlb_ready ?c virt wr fetch (make_phys_from_ppn virt pte mega)" using sv 3 by (auto simp: tlb_ready_def)
      then show ?thesis using convert_ready [OF ok wf _ n, of virt _ wr noisy] by (fastforce simp: translated_def)
    qed
  qed
qed

subsection \<open>The page walk computes the Sv32 translation\<close>

text \<open>
  \<open>sv32_walk\<close> is the two-level walk of the privileged architecture as a function of the memory
  words, \<open>sv32_translate\<close> the address it gives an access: the leaf must grant it, and the address
  is the page number followed by the 12 or, in a megapage, 22 low bits of the virtual address.
\<close>

definition sv32_walk :: "(ptr36 \<Rightarrow> u32) \<Rightarrow> u32 \<Rightarrow> u32 \<Rightarrow> (sv32_pte \<times> bool) option" where
  "sv32_walk rd ppn virt =
     (let p1 = pte_from_uint (rd (push_bit 12 (ucast ppn) + ucast (4 * drop_bit 22 virt))) in
      if \<not> is_pte_valid p1 then None
      else if is_pte_leaf p1 then (if take_bit 10 (pte_ppn p1) = 0 then Some (p1, True) else None)
      else (let p0 = pte_from_uint (rd (push_bit 12 (ucast (pte_ppn p1)) + ucast (4 * take_bit 10 (drop_bit 12 virt)))) in
        if is_pte_valid p0 \<and> is_pte_leaf p0 then Some (p0, False) else None))"

definition sv32_translate :: "(ptr36 \<Rightarrow> u32) \<Rightarrow> rv32_cpu \<Rightarrow> u32 \<Rightarrow> bool \<Rightarrow> bool \<Rightarrow> ptr36 option" where
  "sv32_translate rd cpu virt wr fetch =
     (case sv32_walk rd (rv_csr_satp_ppn cpu) virt of
        None \<Rightarrow> None
      | Some (pte, mega) \<Rightarrow>
          if is_access_allowed cpu pte wr fetch
          then Some (push_bit 12 (ucast (pte_ppn pte)) + ucast (take_bit (if mega then 22 else 12) virt)) else None)"

lemma vpn_bits:
  "drop_bit 22 (virt AND 0xFFC00000) = drop_bit 22 (virt :: u32)"
  "drop_bit 12 (virt AND 0x003FF000) = take_bit 10 (drop_bit 12 (virt :: u32))"
  "pte_ppn0 pte = take_bit 10 (pte_ppn pte)"
proof -
  have m: "(0xFFC00000 :: u32) = push_bit 22 (mask 10)" "(0x003FF000 :: u32) = push_bit 12 (mask 10)" "(0x0003FF :: 22 word) = mask 10"
    by (simp_all add: mask_eq_decr_exp)
  show "drop_bit 22 (virt AND 0xFFC00000) = drop_bit 22 (virt :: u32)"
    unfolding m by (rule bit_word_eqI) (auto simp: bit_simps dest: bit_imp_le_length)
  show "drop_bit 12 (virt AND 0x003FF000) = take_bit 10 (drop_bit 12 (virt :: u32))"
    unfolding m by (rule bit_word_eqI) (auto simp: bit_simps)
  show "pte_ppn0 pte = take_bit 10 (pte_ppn pte)" unfolding pte_ppn0_def m by (simp add: take_bit_eq_mask)
qed

lemma bit_push_12: "bit (push_bit 12 (x :: ptr36)) n \<longleftrightarrow> 12 \<le> n \<and> n < 64 \<and> bit x (n - 12)"
  using bit_push_bit_iff [of 12 x n] by auto

lemma make_phys_bit:
  assumes "mega \<longrightarrow> take_bit 10 (pte_ppn pte) = 0"
  shows "bit (make_phys_from_ppn virt pte mega) n \<longleftrightarrow>
    12 \<le> n \<and> n < 34 \<and> bit (pte_ppn pte) (n - 12) \<or> n < (if mega then 22 else 12) \<and> bit virt n"
proof -
  have low: "\<not> bit (pte_ppn pte) i" if "mega" "i < 10" for i
    using assms that bit_take_bit_iff [of 10 "pte_ppn pte" i] by simp
  have m: "(0xFFF :: u32) = mask 12" "(0x003FF000 :: u32) = push_bit 12 (mask 10)"
    "(0x0003FF :: 22 word) = mask 10" "(0x3FFC00 :: 22 word) = push_bit 10 (mask 12)"
    by (simp_all add: mask_eq_decr_exp)
  have off: "bit (ucast (virt AND 0x00000FFF) :: ptr36) n \<longleftrightarrow> n < 12 \<and> bit virt n"
    "bit (ucast (virt AND 0x003FF000) :: ptr36) n \<longleftrightarrow> 12 \<le> n \<and> n < 22 \<and> bit virt n"
    unfolding m by (auto simp: bit_simps dest: bit_imp_le_length)
  have ppn: "bit (ucast (pte_ppn0 pte) :: ptr36) i \<longleftrightarrow> i < 10 \<and> bit (pte_ppn pte) i"
    "bit (ucast (pte_ppn1 pte) :: ptr36) i \<longleftrightarrow> 10 \<le> i \<and> i < 22 \<and> bit (pte_ppn pte) i" for i
    unfolding pte_ppn0_def pte_ppn1_def m by (auto simp: bit_simps dest: bit_imp_le_length)
  have "10 \<le> n - 12" if "mega" "bit (pte_ppn pte) (n - 12)" using low [OF that(1), of "n - 12"] that(2) not_le by blast
  then show ?thesis
    by (cases mega)
      (auto simp only: make_phys_from_ppn_def Let_def bit_or_iff bit_push_12 off ppn if_True if_False dest: bit_imp_le_length)
qed

lemma make_phys_sum:
  assumes "mega \<longrightarrow> take_bit 10 (pte_ppn pte) = 0"
  shows "make_phys_from_ppn virt pte mega =
    push_bit 12 (ucast (pte_ppn pte)) + ucast (take_bit (if mega then 22 else 12) virt)"
proof -
  let ?w = "ucast (take_bit (if mega then 22 else 12) virt) :: ptr36"
  let ?p = "push_bit 12 (ucast (pte_ppn pte)) :: ptr36"
  have low: "\<not> bit (pte_ppn pte) i" if "mega" "i < 10" for i
    using assms that bit_take_bit_iff [of 10 "pte_ppn pte" i] by simp
  have w: "bit ?w n \<longleftrightarrow> n < (if mega then 22 else 12) \<and> bit virt n" for n
    by (auto simp: bit_simps dest: bit_imp_le_length)
  have p: "bit ?p n \<longleftrightarrow> 12 \<le> n \<and> n < 34 \<and> bit (pte_ppn pte) (n - 12)" for n
    unfolding bit_push_12 by (auto simp: bit_simps dest: bit_imp_le_length)
  have "?p AND ?w = 0"
    by (rule bit_word_eqI) (use low in \<open>auto simp: bit_and_iff w p split: if_splits\<close>)
  then have "?p + ?w = ?p OR ?w" using word_plus_and_or [of ?p ?w] by (simp only: add_0_left)
  moreover have "make_phys_from_ppn virt pte mega = ?p OR ?w"
    by (rule bit_word_eqI) (simp only: make_phys_bit [OF assms] bit_or_iff w p)
  ultimately show ?thesis by simp
qed

text \<open>The words of the page tables, read from the contents of the physical memory.\<close>

definition mem_word :: "('d, 'z) rv32_machine \<Rightarrow> ptr36 \<Rightarrow> u32" where
  "mem_word s a = abs_load 4 (phys_byte s) (ucast a)"

lemma physmem_read32_word:
  assumes "mach_ok s" "IS_ALIGNED a 4" "phys_byte s (ucast a) \<noteq> None"
  shows "\<exists>s'. physmem_read32 p a prot s = Some (mem_word s a, s') \<and> phys_byte s' = phys_byte s \<and> env_step s s'"
proof -
  have "4 dvd unat a" using assms(2) IS_ALIGNED_dvd [of a 2] by simp
  from mem32.rd_ok [OF mach_ok_mem_inv [OF assms(1)] this assms(3), of p prot] physmem_read_env(3) [OF assms(1,2), of p prot]
  show ?thesis by (auto simp: mem_word_def)
qed

definition pte1_addr :: "rv32_cpu \<Rightarrow> u32 \<Rightarrow> ptr36" where
  "pte1_addr cpu virt = push_bit 12 (ucast (rv_csr_satp_ppn cpu)) + ucast (4 * drop_bit 22 virt)"

definition pte0_addr :: "sv32_pte \<Rightarrow> u32 \<Rightarrow> ptr36" where
  "pte0_addr p1 virt = push_bit 12 (ucast (pte_ppn p1)) + ucast (4 * take_bit 10 (drop_bit 12 virt))"

text \<open>The page table entries that the walk of \<open>virt\<close> reads are in memory, not in a device.\<close>

definition walk_mapped :: "('d, 'z) rv32_machine \<Rightarrow> rv32_cpu \<Rightarrow> u32 \<Rightarrow> bool" where
  "walk_mapped s cpu virt \<longleftrightarrow> phys_byte s (ucast (pte1_addr cpu virt)) \<noteq> None \<and>
     (let p1 = pte_from_uint (mem_word s (pte1_addr cpu virt)) in
      is_pte_valid p1 \<longrightarrow> \<not> is_pte_leaf p1 \<longrightarrow> phys_byte s (ucast (pte0_addr p1 virt)) \<noteq> None)"

lemma pte_addr_4: "IS_ALIGNED (pte1_addr cpu virt) 4" "IS_ALIGNED (pte0_addr p1 virt) 4"
  unfolding pte1_addr_def pte0_addr_def using pte_addr_aligned by (simp_all only: mult.commute [of 4])

lemma pagewalk_leaf_walk:
  assumes ok: "mach_ok s" and m: "walk_mapped s (cpu_mem s k) virt"
  shows "\<exists>leaf s1. pagewalk_leaf k virt noisy s = Some (leaf, s1) \<and> env_step s s1 \<and>
     map_option (\<lambda>(pte, a, mega, g). (pte, mega)) leaf = sv32_walk (mem_word s) (rv_csr_satp_ppn (cpu_mem s k)) virt"
proof -
  let ?a1 = "pte1_addr (cpu_mem s k) virt"
  define p1 where "p1 = pte_from_uint (mem_word s ?a1)"
  obtain s1 where s1: "physmem_read32 (hartid k s) ?a1 noisy s = Some (mem_word s ?a1, s1)" "phys_byte s1 = phys_byte s" "env_step s s1"
    using physmem_read32_word [OF ok pte_addr_4(1), of "cpu_mem s k" virt "hartid k s" noisy] m unfolding walk_mapped_def by blast
  have w: "mem_word s1 a = mem_word s a" for a by (simp add: mem_word_def s1(2))
  have leaf: "pagewalk_leaf k virt noisy s =
     (if \<not> is_pte_valid p1 then Some (None, s1)
      else if is_pte_leaf p1 then
        (if take_bit 10 (pte_ppn p1) \<noteq> 0 then Some (None, s1) else Some (Some (p1, ?a1, True, pte_g p1), s1))
      else do {
        (v, s2) \<leftarrow> physmem_read32 (hartid k s1) (pte0_addr p1 virt) noisy s1;
        (if \<not> is_pte_valid (pte_from_uint v) then Some (None, s2)
         else if \<not> is_pte_leaf (pte_from_uint v) then Some (None, s2)
         else Some (Some (pte_from_uint v, pte0_addr p1 virt, False, pte_g p1 \<or> pte_g (pte_from_uint v)), s2))
      })"
    using s1(1)
    by (simp only: pagewalk_leaf_def Let_def vpn_bits mult.commute [of _ 4] pte1_addr_def [symmetric] bind.bind_lunit prod.case
        p1_def [symmetric] pte_ppn_phys_def pte0_addr_def [symmetric])
  have walk: "sv32_walk (mem_word s) (rv_csr_satp_ppn (cpu_mem s k)) virt =
     (if \<not> is_pte_valid p1 then None
      else if is_pte_leaf p1 then (if take_bit 10 (pte_ppn p1) = 0 then Some (p1, True) else None)
      else (let p0 = pte_from_uint (mem_word s (pte0_addr p1 virt)) in
        if is_pte_valid p0 \<and> is_pte_leaf p0 then Some (p0, False) else None))"
    by (simp only: sv32_walk_def pte1_addr_def [symmetric] p1_def [symmetric] pte0_addr_def [symmetric] Let_def)
  show ?thesis
  proof (cases "is_pte_valid p1 \<and> \<not> is_pte_leaf p1")
    case False
    then show ?thesis using leaf walk s1(3) by auto
  next
    case True
    then have "phys_byte s1 (ucast (pte0_addr p1 virt)) \<noteq> None" using m s1(2) by (simp add: walk_mapped_def Let_def p1_def)
    from physmem_read32_word [OF env_stepD(3) [OF s1(3)] pte_addr_4(2) this, of "hartid k s1" noisy]
    obtain s2 where s2: "physmem_read32 (hartid k s1) (pte0_addr p1 virt) noisy s1 = Some (mem_word s (pte0_addr p1 virt), s2)"
      "env_step s1 s2" by (auto simp: w)
    then show ?thesis using leaf walk True env_step_trans [OF s1(3) s2(2)] by (auto simp: Let_def)
  qed
qed

lemma sv32_walk_mega: "sv32_walk rd ppn virt = Some (pte, mega) \<Longrightarrow> mega \<longrightarrow> take_bit 10 (pte_ppn pte) = 0"
  by (auto simp: sv32_walk_def Let_def split: if_splits)

lemma make_phys_update: "make_phys_from_ppn virt (pte\<lparr>pte_a := a, pte_d := d\<rparr>) mega = make_phys_from_ppn virt pte mega"
  by (simp add: make_phys_from_ppn_def pte_ppn0_def pte_ppn1_def)

lemma pagewalk_computes:
  assumes ok: "mach_ok s" and wf: "tlb_wf (tlb (cpu_mem s k))" and sv: "uses_sv32 (cpu_mem s k) fetch"
    and m: "walk_mapped s (cpu_mem s k) virt"
  shows "\<exists>s'. rv32_pagewalk k virt wr fetch noisy s =
     Some (case sv32_translate (mem_word s) (cpu_mem s k) virt wr fetch of
             None \<Rightarrow> Inl (page_fault_exception wr fetch) | Some phys \<Rightarrow> Inr phys, s') \<and> mem_step k s s'"
proof -
  obtain leaf s1 where l: "pagewalk_leaf k virt noisy s = Some (leaf, s1)" "env_step s s1"
    "map_option (\<lambda>(pte, a, mega, g). (pte, mega)) leaf = sv32_walk (mem_word s) (rv_csr_satp_ppn (cpu_mem s k)) virt"
    using pagewalk_leaf_walk [OF ok m] by blast
  obtain r s' where r: "rv32_pagewalk k virt wr fetch noisy s = Some (r, s')" "mem_step k s s'"
    using pagewalk_ok [OF ok wf sv] by blast
  have a: "is_access_allowed (cpu_mem s1 k) = is_access_allowed (cpu_mem s k)"
    using vm_same_cong(6) [OF vm_same_simps(4) [OF env_stepD(2) [OF l(2)]]] .
  have "r = (case sv32_translate (mem_word s) (cpu_mem s k) virt wr fetch of
      None \<Rightarrow> Inl (page_fault_exception wr fetch) | Some phys \<Rightarrow> Inr phys)"
  proof (cases leaf)
    case None
    then show ?thesis using r(1) l(1,3) by (simp add: rv32_pagewalk_def sv32_translate_def)
  next
    case (Some x)
    obtain pte addr mega g where x: "x = (pte, addr, mega, g)" by (cases x)
    have w: "sv32_walk (mem_word s) (rv_csr_satp_ppn (cpu_mem s k)) virt = Some (pte, mega)" using l(3) Some x by simp
    show ?thesis using r(1) l(1) Some x w make_phys_sum [OF sv32_walk_mega [OF w]]
      by (auto simp: rv32_pagewalk_def sv32_translate_def a Let_def bind_Some_iff make_phys_update split: if_splits)
  qed
  then show ?thesis using r by blast
qed

lemma convert_computes:
  assumes ok: "mach_ok s" and wf: "tlb_wf (tlb (cpu_mem s k))" and sv: "uses_sv32 (cpu_mem s k) fetch"
    and m: "walk_mapped s (cpu_mem s k) virt" and n: "\<not> (wr \<and> fetch)"
    and miss: "tlb_find (tlb (cpu_mem s k)) (rv_csr_satp_asid (cpu_mem s k)) virt = None"
  shows "\<exists>s'. rv32_convert_addr k virt wr fetch noisy s =
     Some (case sv32_translate (mem_word s) (cpu_mem s k) virt wr fetch of
             None \<Rightarrow> Inl (page_fault_exception wr fetch) | Some phys \<Rightarrow> Inr phys, s') \<and> mem_step k s s'"
proof -
  have "rv32_convert_addr k virt wr fetch noisy s = rv32_pagewalk k virt wr fetch noisy s"
    using sv n miss by (auto simp: rv32_convert_addr_def uses_sv32_def Let_def rv32_tlb_get_mapping_def)
  then show ?thesis using pagewalk_computes [OF ok wf sv m] by simp
qed

end
