(* ===== verification/Rv_Csr_Steps.thy ===== *)
theory Rv_Csr_Steps
  imports Rv_Csr_Facts
begin

text \<open>
  Two more facts on register accesses that a whole instruction needs: the only exception they
  raise is the illegal instruction exception, and outside \<open>mepc\<close> they keep the return addresses of
  traps aligned. A write to \<open>mepc\<close> stores the value as it is.
\<close>

definition epc_ok :: "(32, 't) rv_cpu \<Rightarrow> bool" where
  "epc_ok cpu \<longleftrightarrow> IS_ALIGNED (mepc (csr cpu)) 4 \<and> IS_ALIGNED (sepc (csr cpu)) 4"

definition ops_plain :: "nat \<Rightarrow> (32, 't) csr_ops \<Rightarrow> bool" where
  "ops_plain num ops \<longleftrightarrow> (\<forall>cpu v ex cpu'.
     (csr_read ops cpu num = Exc ex \<or> csr_write ops cpu num v = Exc ex \<or> csr_set ops cpu num v = Exc ex \<or>
        csr_clear ops cpu num v = Exc ex \<longrightarrow> ex = rv_exc_illegal_instruction) \<and>
     (epc_ok cpu \<longrightarrow> csr_write ops cpu num v = Ok cpu' \<or> csr_set ops cpu num v = Ok cpu' \<or> csr_clear ops cpu num v = Ok cpu' \<longrightarrow>
        num \<noteq> 0x341 \<longrightarrow> epc_ok cpu'))"

lemma ops_plainI:
  assumes "\<And>cpu ex. csr_read ops cpu num = Exc ex \<Longrightarrow> ex = rv_exc_illegal_instruction"
    "\<And>cpu v ex. csr_write ops cpu num v = Exc ex \<Longrightarrow> ex = rv_exc_illegal_instruction"
    "\<And>cpu v ex. csr_set ops cpu num v = Exc ex \<Longrightarrow> ex = rv_exc_illegal_instruction"
    "\<And>cpu v ex. csr_clear ops cpu num v = Exc ex \<Longrightarrow> ex = rv_exc_illegal_instruction"
    "\<And>cpu v cpu'. csr_write ops cpu num v = Ok cpu' \<Longrightarrow> num \<noteq> 0x341 \<Longrightarrow> epc_ok cpu \<Longrightarrow> epc_ok cpu'"
    "\<And>cpu v cpu'. csr_set ops cpu num v = Ok cpu' \<Longrightarrow> num \<noteq> 0x341 \<Longrightarrow> epc_ok cpu \<Longrightarrow> epc_ok cpu'"
    "\<And>cpu v cpu'. csr_clear ops cpu num v = Ok cpu' \<Longrightarrow> num \<noteq> 0x341 \<Longrightarrow> epc_ok cpu \<Longrightarrow> epc_ok cpu'"
  shows "ops_plain num ops"
  using assms unfolding ops_plain_def by blast

lemma minimal_privilege_Exc [simp]:
  "minimal_privilege p cpu r = Exc ex \<longleftrightarrow> \<not> p \<le> priv_mode cpu \<and> ex = rv_exc_illegal_instruction \<or> p \<le> priv_mode cpu \<and> r = Exc ex"
  by (auto simp: minimal_privilege_def not_le)

lemma sepc_aligned:
  "IS_ALIGNED ((v :: u32) AND sepc_mask) 4" "IS_ALIGNED (x :: u32) 4 \<Longrightarrow> IS_ALIGNED (x OR (v AND sepc_mask)) 4"
  "IS_ALIGNED x 4 \<Longrightarrow> IS_ALIGNED (x AND y) 4"
proof -
  have "\<not> bit (sepc_mask :: u32) 0" "\<not> bit (sepc_mask :: u32) 1" by (simp_all add: sepc_mask_def)
  then show "IS_ALIGNED (v AND sepc_mask) 4" "IS_ALIGNED x 4 \<Longrightarrow> IS_ALIGNED (x OR (v AND sepc_mask)) 4"
    "IS_ALIGNED x 4 \<Longrightarrow> IS_ALIGNED (x AND y) 4"
    by (auto simp: aligned_4_bits bit_and_iff bit_or_iff)
qed

lemmas plain_defs = csr_read_defs csr_write_defs default_csr_read_def default_csr_write_def default_csr_set_def
  default_csr_clear_def write_cause_def satp_update_with_def Let_def

lemma table_plain:
  assumes "(num, ops) \<in> set (csr_ops_of_num :: (nat \<times> (32, 't) csr_ops) list)"
  shows "ops_plain num ops"
  using assms unfolding csr_ops_of_num_def list.set insert_iff empty_iff
  by (elim disjE; simp only: prod.inject)
    (rule ops_plainI; auto simp: plain_defs epc_ok_def sepc_aligned split: if_splits option.splits)+

lemma get_csr_ops_plain:
  assumes "get_csr_ops num = Some (ops :: (32, 't) csr_ops)"
  shows "ops_plain num ops"
  using assms
proof (cases rule: get_csr_ops_cases)
  case single
  then show ?thesis by (rule table_plain)
qed (auto intro!: ops_plainI simp: plain_defs epc_ok_def counter_read_def counter_write_def counter_set_def counter_clear_def
    counter_update_def Let_def split: if_splits option.splits)

lemma csr_access_exc:
  fixes cpu :: "(32, 't) rv_cpu"
  shows "rv_csr_rw cpu num v rd = Exc ex \<Longrightarrow> ex = rv_exc_illegal_instruction"
    and "rv_csr_rs cpu num v wr = Exc ex \<Longrightarrow> ex = rv_exc_illegal_instruction"
    and "rv_csr_rc cpu num v wr = Exc ex \<Longrightarrow> ex = rv_exc_illegal_instruction"
proof -
  obtain ops :: "(32, 't) csr_ops" where ops: "get_csr_ops num = Some ops" using get_csr_ops_total by blast
  have e: "csr_read ops cpu num = Exc ex \<Longrightarrow> ex = rv_exc_illegal_instruction" "csr_write ops cpu num v = Exc ex \<Longrightarrow> ex = rv_exc_illegal_instruction"
    "csr_set ops cpu num v = Exc ex \<Longrightarrow> ex = rv_exc_illegal_instruction" "csr_clear ops cpu num v = Exc ex \<Longrightarrow> ex = rv_exc_illegal_instruction"
    using get_csr_ops_plain [OF ops] unfolding ops_plain_def by blast+
  show "rv_csr_rw cpu num v rd = Exc ex \<Longrightarrow> ex = rv_exc_illegal_instruction"
    using e(1,2) by (auto simp: rv_csr_rw_def ops split: outcome.splits if_splits)
  show "rv_csr_rs cpu num v wr = Exc ex \<Longrightarrow> ex = rv_exc_illegal_instruction"
    using e(1,3) by (auto simp: rv_csr_rs_def ops split: outcome.splits if_splits)
  show "rv_csr_rc cpu num v wr = Exc ex \<Longrightarrow> ex = rv_exc_illegal_instruction"
    using e(1,4) by (auto simp: rv_csr_rc_def ops split: outcome.splits if_splits)
qed

lemma csr_access_epc:
  fixes cpu :: "(32, 't) rv_cpu"
  assumes "epc_ok cpu" "num \<noteq> 0x341"
  shows "rv_csr_rw cpu num v rd = Ok (t, cpu') \<Longrightarrow> epc_ok cpu'"
    and "rv_csr_rs cpu num v wr = Ok (t, cpu') \<Longrightarrow> epc_ok cpu'"
    and "rv_csr_rc cpu num v wr = Ok (t, cpu') \<Longrightarrow> epc_ok cpu'"
proof -
  obtain ops :: "(32, 't) csr_ops" where ops: "get_csr_ops num = Some ops" using get_csr_ops_total by blast
  have e: "csr_write ops cpu num v = Ok cpu' \<Longrightarrow> epc_ok cpu'" "csr_set ops cpu num v = Ok cpu' \<Longrightarrow> epc_ok cpu'"
    "csr_clear ops cpu num v = Ok cpu' \<Longrightarrow> epc_ok cpu'"
    using get_csr_ops_plain [OF ops] assms unfolding ops_plain_def by blast+
  show "rv_csr_rw cpu num v rd = Ok (t, cpu') \<Longrightarrow> epc_ok cpu'"
    using e(1) by (auto simp: rv_csr_rw_def ops split: outcome.splits)
  show "rv_csr_rs cpu num v wr = Ok (t, cpu') \<Longrightarrow> epc_ok cpu'"
    using e(2) assms(1) by (auto simp: rv_csr_rs_def ops split: outcome.splits if_splits)
  show "rv_csr_rc cpu num v wr = Ok (t, cpu') \<Longrightarrow> epc_ok cpu'"
    using e(3) assms(1) by (auto simp: rv_csr_rc_def ops split: outcome.splits if_splits)
qed

text \<open>
  The registers an instruction had better not access: those whose access can be undefined
  behaviour, and \<open>mepc\<close>, which accepts a misaligned address.
\<close>

definition csr_risky :: "nat \<Rightarrow> bool" where
  "csr_risky num \<longleftrightarrow> csr_hazard num \<or> num = 0x341"

end
