(* ===== verification/Rv32_Exec.thy ===== *)
theory Rv32_Exec
  imports Rv32_Translate Rv_Csr_Steps Rv32_Decode_Facts
begin

text \<open>
  Every instruction handler, called on a word that the decoder sends to it, returns: no assertion
  of the handler fails and nothing is undefined, apart from accesses to the few registers listed
  in \<open>csr_risky\<close>. It keeps the invariant of its processor, and changes the rest of the machine only
  the way memory accesses do.
\<close>

definition cpu_inv :: "rv32_cpu \<Rightarrow> bool" where
  "cpu_inv c \<longleftrightarrow> csr_wf c \<and> tlb_wf (tlb c) \<and> epc_ok c \<and> IS_ALIGNED (pc c) 4 \<and> IS_ALIGNED (pc_next c) 4"

lemma mem_touched_cpu_inv: "mem_touched c c' \<Longrightarrow> cpu_inv c \<Longrightarrow> cpu_inv c'"
  using mem_touched_inv [of c c'] mem_touched_simps [of c c'] by (simp add: cpu_inv_def epc_ok_def)

lemma touched_cpu_inv: "touched c c' \<Longrightarrow> cpu_inv c \<Longrightarrow> cpu_inv c'"
  using mem_touched_cpu_inv [OF touched_mem_touched] .

subsection \<open>Virtual memory accesses\<close>

definition exc_result :: "rv_exc + 'a \<Rightarrow> bool" where
  "exc_result r \<longleftrightarrow> (\<forall>ex. r = Inl ex \<longrightarrow> \<not> rv_exc_is_interrupt ex)"

lemma exc_result_simps [simp]: "exc_result (Inr v)" "exc_result (Inl ex) \<longleftrightarrow> \<not> rv_exc_is_interrupt ex"
  by (simp_all add: exc_result_def)

text \<open>An access that returns, with an exception or with a machine that satisfies \<open>P\<close>.\<close>

definition safe_access ::
    "nat \<Rightarrow> ('d, 'z) rv32_machine \<Rightarrow> (('d, 'z) rv32_machine \<Rightarrow> bool) \<Rightarrow>
     ((rv_exc + 'v) \<times> ('d, 'z) rv32_machine) option \<Rightarrow> bool" where
  "safe_access k s P m \<longleftrightarrow>
     (\<exists>r s'. m = Some (r, s') \<and> mem_step k s s' \<and> exc_result r \<and> (\<forall>v. r = Inr v \<longrightarrow> P s'))"

lemma safe_access_simps [simp]:
  "safe_access k s P (Some (Inl ex, s')) \<longleftrightarrow> mem_step k s s' \<and> \<not> rv_exc_is_interrupt ex"
  "safe_access k s P (Some (Inr v, s')) \<longleftrightarrow> mem_step k s s' \<and> P s'"
  by (simp_all add: safe_access_def)

lemma safe_accessE:
  assumes "safe_access k s P m"
  obtains ex s' where "m = Some (Inl ex, s')" "mem_step k s s'" "\<not> rv_exc_is_interrupt ex"
    | v s' where "m = Some (Inr v, s')" "mem_step k s s'" "P s'"
proof -
  obtain r s' where r: "m = Some (r, s')" "mem_step k s s'" "exc_result r" "\<forall>v. r = Inr v \<longrightarrow> P s'"
    using assms unfolding safe_access_def by blast
  then show thesis using that by (cases r) simp_all
qed

lemma safe_access_weaken: "safe_access k s P m \<Longrightarrow> safe_access k s (\<lambda>_. True) m"
  by (auto simp: safe_access_def)

lemma page_fault_exc [simp]: "\<not> rv_exc_is_interrupt (page_fault_exception wr fetch)"
  by (simp add: page_fault_exception_def)

lemma safe_throw:
  assumes "mem_step k s s1" "\<not> rv_exc_is_interrupt ex"
  shows "safe_access k s P (throw_ex k virt ex noisy s1)"
  using assms mem_step_trans [OF assms(1) mem_step_set_cpu [OF mem_stepD(1) [OF assms(1)] mem_touched_tval, of k virt]]
  by (simp add: throw_ex_def)

lemma mapped_regs_bare:
  assumes "\<not> (priv_mode cpu < rv_mmode \<or> rv_csr_mstatus_mprv cpu)" "priv_mode cpu \<noteq> rv_rmode"
  shows "\<not> uses_sv32 cpu False"
  using assms by (cases "priv_mode cpu") (auto simp: uses_sv32_def sv32_effective_priv_def less_rv_priv_mode_def less_eq_rv_priv_mode_def)

lemma mti_within: "within rv_csr_mti_mask rv_csr_mi_mask"
  by (simp add: within_def rv_csr_mi_mask_def rv_csr_si_mask_def rv_csr_sei_mask_def rv_csr_sti_mask_def
      rv_csr_ssi_mask_def rv_csr_mei_mask_def rv_csr_mti_mask_def rv_csr_msi_mask_def)

text \<open>The four reads have one shape, and so have the writes.\<close>

definition virt_read ::
    "'v option \<Rightarrow> bool \<Rightarrow> (nat \<Rightarrow> ptr36 \<Rightarrow> bool \<Rightarrow> ('d, 'z) rv32_machine \<Rightarrow> ('v \<times> ('d, 'z) rv32_machine) option) \<Rightarrow>
     nat \<Rightarrow> u32 \<Rightarrow> bool \<Rightarrow> ('d, 'z) rv32_machine \<Rightarrow> ((rv_exc + 'v) \<times> ('d, 'z) rv32_machine) option" where
  "virt_read reg aligned rd k virt noisy s =
     (case reg of
        Some value \<Rightarrow> Some (Inr value, s)
      | None \<Rightarrow> do {
          (r, s1) \<leftarrow> rv32_convert_addr k virt False False noisy s;
          (case r of
             Inl ex \<Rightarrow> throw_ex k virt ex noisy s1
           | Inr phys \<Rightarrow>
               (if \<not> aligned then throw_ex k virt (read_address_misaligned_exception False) noisy s1
                else do {
                  (value, s2) \<leftarrow> rd (hartid k s1) phys True s1;
                  Some (Inr value, s2)
                }))
        })"

lemma rv_read_mem_via:
  "rv_read_mem32 rv32_convert_addr k virt False noisy s =
     virt_read (try_read_memory_mapped_regs_32 (cpu_mem s k) virt) (IS_ALIGNED virt 4) physmem_read32 k virt noisy s"
  "rv_read_mem16 rv32_convert_addr k virt False noisy s =
     virt_read (try_read_memory_mapped_regs_16 (cpu_mem s k) virt) (IS_ALIGNED virt 2) physmem_read16 k virt noisy s"
  "rv_read_mem8 rv32_convert_addr k virt noisy s =
     virt_read (try_read_memory_mapped_regs_8 (cpu_mem s k) virt) True physmem_read8 k virt noisy s"
  by (simp_all only: rv_read_mem32_def rv_read_mem16_def rv_read_mem8_def virt_read_def not_True_eq_False if_False)

lemma virt_read_ok:
  assumes ok: "mach_ok s" and wf: "tlb_wf (tlb (cpu_mem s k))"
    and reg: "reg \<noteq> None \<Longrightarrow> aligned \<and> \<not> uses_sv32 (cpu_mem s k) False"
    and rd: "\<And>s1 phys p. mach_ok s1 \<Longrightarrow> tlb_ready (cpu_mem s1 k) virt False False phys \<Longrightarrow> aligned \<Longrightarrow>
      \<exists>v s2. rd p phys True s1 = Some (v, s2) \<and> env_step s1 s2"
  shows "safe_access k s (\<lambda>s'. aligned \<and> (\<exists>phys. tlb_ready (cpu_mem s' k) virt False False phys))
     (virt_read reg aligned rd k virt noisy s)"
proof (cases reg)
  case (Some v)
  then show ?thesis using reg ok by (auto simp: virt_read_def tlb_ready_def)
next
  case None
  obtain r s1 where c: "rv32_convert_addr k virt False False noisy s = Some (r, s1)" "mem_step k s s1"
    "translated (cpu_mem s1 k) virt False False r"
    using convert_ok [OF ok wf, of False False] by blast
  note ok1 = mem_stepD(1) [OF c(2)]
  note throw = safe_throw [OF c(2)]
  show ?thesis
  proof (cases r)
    case (Inl ex)
    then show ?thesis using None c(1,3) by (simp add: virt_read_def translated_def throw)
  next
    case (Inr phys)
    then have rdy: "tlb_ready (cpu_mem s1 k) virt False False phys" using c(3) by (simp add: translated_def)
    show ?thesis
    proof (cases aligned)
      case False
      then show ?thesis using None c(1) Inr
        by (simp add: throw virt_read_def read_address_misaligned_exception_def)
    next
      case True
      obtain v s2 where s2: "rd (hartid k s1) phys True s1 = Some (v, s2)" "env_step s1 s2" using rd [OF ok1 rdy True] by blast
      then have "tlb_ready (cpu_mem s2 k) virt False False phys" using rdy tlb_ready_touched [OF env_stepD(2)] by blast
      then show ?thesis using None c(1) Inr s2 True mem_step_trans [OF c(2) env_mem_step [OF s2(2)]]
        by (auto simp: virt_read_def)
    qed
  qed
qed

lemma virt_read_ready:
  assumes ok: "mach_ok s" and wf: "tlb_wf (tlb (cpu_mem s k))" and al: aligned
    and rdy: "tlb_ready (cpu_mem s k) virt wr False phys"
    and rd: "\<And>s1 p. mach_ok s1 \<Longrightarrow> \<exists>v s2. rd p phys True s1 = Some (v, s2) \<and> env_step s1 s2"
  shows "\<exists>v s'. virt_read reg aligned rd k virt noisy s = Some (Inr v, s') \<and> mem_step k s s' \<and>
     tlb_ready (cpu_mem s' k) virt wr False phys"
proof (cases reg)
  case (Some v)
  then show ?thesis using ok rdy by (simp add: virt_read_def)
next
  case None
  obtain s1 where c: "rv32_convert_addr k virt False False noisy s = Some (Inr phys, s1)" "mem_step k s s1"
    "tlb_ready (cpu_mem s1 k) virt wr False phys"
    using convert_ready [OF ok wf rdy, of False noisy] by auto
  obtain v s2 where s2: "rd (hartid k s1) phys True s1 = Some (v, s2)" "env_step s1 s2" using rd [OF mem_stepD(1) [OF c(2)]] by blast
  then have "tlb_ready (cpu_mem s2 k) virt wr False phys" using c(3) tlb_ready_touched [OF env_stepD(2)] by blast
  then show ?thesis using None c s2 al mem_step_trans [OF c(2) env_mem_step [OF s2(2)]] by (auto simp: virt_read_def)
qed

definition virt_write ::
    "rv32_cpu option option \<Rightarrow> bool \<Rightarrow> (nat \<Rightarrow> ptr36 \<Rightarrow> ('d, 'z) rv32_machine \<Rightarrow> (bool \<times> ('d, 'z) rv32_machine) option) \<Rightarrow>
     nat \<Rightarrow> u32 \<Rightarrow> bool \<Rightarrow> ('d, 'z) rv32_machine \<Rightarrow> ((rv_exc + unit) \<times> ('d, 'z) rv32_machine) option" where
  "virt_write reg aligned wr k virt noisy s = do {
     reg' \<leftarrow> reg;
     (case reg' of
        Some cpu \<Rightarrow> Some (Inr (), set_cpu k cpu s)
      | None \<Rightarrow> do {
          (r, s1) \<leftarrow> rv32_convert_addr k virt True False noisy s;
          (case r of
             Inl ex \<Rightarrow> throw_ex k virt ex noisy s1
           | Inr phys \<Rightarrow>
               (if \<not> aligned then throw_ex k virt rv_exc_store_amo_address_misaligned noisy s1
                else do {
                  (_, s2) \<leftarrow> wr (hartid k s1) phys s1;
                  Some (Inr (), s2)
                }))
        })
   }"

lemma rv_write_mem_via:
  "rv_write_mem32 rv32_convert_addr k virt v32 noisy s =
     virt_write (try_write_memory_mapped_regs (cpu_mem s k) (ucast virt) (ucast v32) 32) (IS_ALIGNED virt 4)
       (\<lambda>p phys. physmem_write32 p phys v32 True) k virt noisy s"
  "rv_write_mem16 rv32_convert_addr k virt v16 noisy s =
     virt_write (try_write_memory_mapped_regs (cpu_mem s k) (ucast virt) (ucast v16) 16) (IS_ALIGNED virt 2)
       (\<lambda>p phys. physmem_write16 p phys v16 True) k virt noisy s"
  "rv_write_mem8 rv32_convert_addr k virt v8 noisy s =
     virt_write (try_write_memory_mapped_regs (cpu_mem s k) (ucast virt) (ucast v8) 8) True
       (\<lambda>p phys. physmem_write8 p phys v8 True) k virt noisy s"
  by (simp_all only: rv_write_mem32_def rv_write_mem16_def rv_write_mem8_def virt_write_def not_True_eq_False if_False)

lemma virt_write_ok:
  assumes ok: "mach_ok s" and wf: "tlb_wf (tlb (cpu_mem s k))"
    and reg: "reg \<noteq> None" "\<And>c. reg = Some (Some c) \<Longrightarrow> mem_touched (cpu_mem s k) c"
    and wr: "\<And>s1 phys p. mach_ok s1 \<Longrightarrow> tlb_ready (cpu_mem s1 k) virt True False phys \<Longrightarrow> aligned \<Longrightarrow>
      \<exists>v s2. wr p phys s1 = Some (v, s2) \<and> env_step s1 s2"
  shows "safe_access k s (\<lambda>_. True) (virt_write reg aligned wr k virt noisy s)"
proof (cases "the reg")
  case (Some c)
  then show ?thesis using reg mem_step_set_cpu [OF ok reg(2), of c] by (auto simp: virt_write_def)
next
  case None
  obtain r s1 where c: "rv32_convert_addr k virt True False noisy s = Some (r, s1)" "mem_step k s s1"
    "translated (cpu_mem s1 k) virt True False r"
    using convert_ok [OF ok wf, of True False] by blast
  note ok1 = mem_stepD(1) [OF c(2)]
  note throw = safe_throw [OF c(2)]
  have reg': "reg = Some None" using None reg(1) by auto
  show ?thesis
  proof (cases r)
    case (Inl ex)
    then show ?thesis using reg' c(1,3) by (simp add: virt_write_def translated_def throw)
  next
    case (Inr phys)
    then have rdy: "tlb_ready (cpu_mem s1 k) virt True False phys" using c(3) by (simp add: translated_def)
    show ?thesis
    proof (cases aligned)
      case True
      obtain v s2 where s2: "wr (hartid k s1) phys s1 = Some (v, s2)" "env_step s1 s2" using wr [OF ok1 rdy True] by blast
      then show ?thesis using reg' c(1) Inr True mem_step_trans [OF c(2) env_mem_step [OF s2(2)]]
        by (simp add: virt_write_def)
    qed (use reg' c(1) Inr in \<open>simp add: virt_write_def throw\<close>)
  qed
qed

lemma virt_write_ready:
  assumes ok: "mach_ok s" and wf: "tlb_wf (tlb (cpu_mem s k))" and al: aligned
    and reg: "reg \<noteq> None" "\<And>c. reg = Some (Some c) \<Longrightarrow> mem_touched (cpu_mem s k) c"
    and rdy: "tlb_ready (cpu_mem s k) virt True False phys"
    and wr: "\<And>s1 p. mach_ok s1 \<Longrightarrow> \<exists>v s2. wr p phys s1 = Some (v, s2) \<and> env_step s1 s2"
  shows "\<exists>s'. virt_write reg aligned wr k virt noisy s = Some (Inr (), s') \<and> mem_step k s s'"
proof (cases "the reg")
  case (Some c)
  then show ?thesis using reg mem_step_set_cpu [OF ok reg(2), of c] by (auto simp: virt_write_def)
next
  case None
  then have reg': "reg = Some None" using reg(1) by auto
  obtain s1 where c: "rv32_convert_addr k virt True False noisy s = Some (Inr phys, s1)" "mem_step k s s1"
    using convert_ready [OF ok wf rdy, of True noisy] by auto
  obtain v s2 where s2: "wr (hartid k s1) phys s1 = Some (v, s2)" "env_step s1 s2" using wr [OF mem_stepD(1) [OF c(2)]] by blast
  then show ?thesis using reg' c s2 al mem_step_trans [OF c(2) env_mem_step [OF s2(2)]] by (auto simp: virt_write_def)
qed

subsection \<open>Loads and stores of a processor\<close>

lemma mapped_read_bare:
  assumes "csr_wf cpu" "try_read_memory_mapped_regs_body w cpu virt \<noteq> None"
  shows "IS_ALIGNED virt (of_nat (w div 8)) \<and> \<not> uses_sv32 cpu False"
  using assms mapped_regs_bare [of cpu]
  by (auto simp: try_read_memory_mapped_regs_body_def csr_wf_def split: if_splits)

lemma mapped_write_touched:
  assumes "w < 64"
  shows "try_write_memory_mapped_regs cpu virt v w \<noteq> None"
    "try_write_memory_mapped_regs cpu virt v w = Some (Some cpu') \<Longrightarrow> mem_touched cpu cpu'"
proof -
  show "try_write_memory_mapped_regs cpu virt v w \<noteq> None" using assms by (auto simp: try_write_memory_mapped_regs_def Let_def)
  have m: "within (mip (csr cpu)) rv_csr_mi_mask \<Longrightarrow>
    within (if b then mip (csr cpu) OR ucast rv_csr_mti_mask else mip (csr cpu) AND ucast (NOT rv_csr_mti_mask)) rv_csr_mi_mask" for b
    by (simp add: mti_within)
  note I = mem_touchedI [where b = "external_SEIP (csr cpu)" and v = "tval_next (csr cpu)" and r = "reserved_valid cpu" and t = "tlb cpu", OF _ m]
  have t: "mem_touched cpu (handle_mtip (cpu\<lparr>csr := (csr cpu)\<lparr>mtime := x\<rparr>\<rparr>))" for x
    by (rule I [where b1 = "x \<ge> mtimecmp (csr cpu)" and ?t1.0 = x and ?t2.0 = "mtimecmp (csr cpu)"]) (simp_all add: handle_mtip_def)
  have t': "mem_touched cpu (handle_mtip (cpu\<lparr>csr := (csr cpu)\<lparr>mtimecmp := x\<rparr>\<rparr>))" for x
    by (rule I [where b1 = "mtime (csr cpu) \<ge> x" and ?t1.0 = "mtime (csr cpu)" and ?t2.0 = x]) (simp_all add: handle_mtip_def)
  show "mem_touched cpu cpu'" if "try_write_memory_mapped_regs cpu virt v w = Some (Some cpu')"
    using that assms by (auto simp: t t' try_write_memory_mapped_regs_def Let_def split: if_splits)
qed

lemma rv_read_ok:
  assumes "mach_ok s" "cpu_inv (cpu_mem s k)"
  shows "safe_access k s (\<lambda>_. True) (rv_read_mem8 rv32_convert_addr k virt noisy s)"
    "safe_access k s (\<lambda>_. True) (rv_read_mem16 rv32_convert_addr k virt False noisy s)"
    "safe_access k s (\<lambda>s'. IS_ALIGNED virt 4 \<and> (\<exists>phys. tlb_ready (cpu_mem s' k) virt False False phys))
       (rv_read_mem32 rv32_convert_addr k virt False noisy s)"
proof -
  have wf: "csr_wf (cpu_mem s k)" "tlb_wf (tlb (cpu_mem s k))" using assms(2) by (simp_all add: cpu_inv_def)
  note bare = mapped_read_bare [OF wf(1)]
  show "safe_access k s (\<lambda>_. True) (rv_read_mem8 rv32_convert_addr k virt noisy s)"
    unfolding rv_read_mem_via
    by (rule safe_access_weaken, rule virt_read_ok [OF assms(1) wf(2)])
      (use bare [of 8] physmem_read_env(1) in \<open>auto simp: try_read_memory_mapped_regs_8_def\<close>)
  show "safe_access k s (\<lambda>_. True) (rv_read_mem16 rv32_convert_addr k virt False noisy s)"
    unfolding rv_read_mem_via
    by (rule safe_access_weaken, rule virt_read_ok [OF assms(1) wf(2)])
      (use bare [of 16] in \<open>auto simp: try_read_memory_mapped_regs_16_def intro: physmem_read_env(2) tlb_ready_aligned(1)\<close>)
  show "safe_access k s (\<lambda>s'. IS_ALIGNED virt 4 \<and> (\<exists>phys. tlb_ready (cpu_mem s' k) virt False False phys))
       (rv_read_mem32 rv32_convert_addr k virt False noisy s)"
    unfolding rv_read_mem_via
    by (rule virt_read_ok [OF assms(1) wf(2)])
      (use bare [of 32] in \<open>auto simp: try_read_memory_mapped_regs_32_def intro: physmem_read_env(3) tlb_ready_aligned(2)\<close>)
qed

lemma rv_write_ok:
  assumes "mach_ok s" "cpu_inv (cpu_mem s k)"
  shows "safe_access k s (\<lambda>_. True) (rv_write_mem8 rv32_convert_addr k virt v8 noisy s)"
    "safe_access k s (\<lambda>_. True) (rv_write_mem16 rv32_convert_addr k virt v16 noisy s)"
    "safe_access k s (\<lambda>_. True) (rv_write_mem32 rv32_convert_addr k virt v32 noisy s)"
proof -
  have wf: "tlb_wf (tlb (cpu_mem s k))" using assms(2) by (simp add: cpu_inv_def)
  show "safe_access k s (\<lambda>_. True) (rv_write_mem8 rv32_convert_addr k virt v8 noisy s)"
    unfolding rv_write_mem_via
    by (rule virt_write_ok [OF assms(1) wf mapped_write_touched]) (use physmem_write_env(1) in auto)
  show "safe_access k s (\<lambda>_. True) (rv_write_mem16 rv32_convert_addr k virt v16 noisy s)"
    unfolding rv_write_mem_via
    by (rule virt_write_ok [OF assms(1) wf mapped_write_touched]) (auto intro: physmem_write_env(2) tlb_ready_aligned(1))
  show "safe_access k s (\<lambda>_. True) (rv_write_mem32 rv32_convert_addr k virt v32 noisy s)"
    unfolding rv_write_mem_via
    by (rule virt_write_ok [OF assms(1) wf mapped_write_touched]) (auto intro: physmem_write_env(3) tlb_ready_aligned(2))
qed

text \<open>After a translation that allowed the access, the access itself does not fault.\<close>

lemma rv_ready:
  assumes "mach_ok s" "tlb_wf (tlb (cpu_mem s k))" "IS_ALIGNED virt 4" "tlb_ready (cpu_mem s k) virt True False phys"
  shows "\<exists>v s'. rv_read_mem32 rv32_convert_addr k virt False noisy s = Some (Inr v, s') \<and> mem_step k s s' \<and>
       tlb_ready (cpu_mem s' k) virt True False phys"
    "\<exists>s'. rv_write_mem32 rv32_convert_addr k virt v32 noisy s = Some (Inr (), s') \<and> mem_step k s s'"
proof -
  have al: "IS_ALIGNED phys 4" by (rule tlb_ready_aligned(2) [OF assms(4,3)])
  show "\<exists>v s'. rv_read_mem32 rv32_convert_addr k virt False noisy s = Some (Inr v, s') \<and> mem_step k s s' \<and>
       tlb_ready (cpu_mem s' k) virt True False phys"
    unfolding rv_read_mem_via by (rule virt_read_ready [OF assms]) (rule physmem_read_env(3) [OF _ al])
  show "\<exists>s'. rv_write_mem32 rv32_convert_addr k virt v32 noisy s = Some (Inr (), s') \<and> mem_step k s s'"
    unfolding rv_write_mem_via
    by (rule virt_write_ready [OF assms(1-3) mapped_write_touched assms(4)]) (use physmem_write_env(3) [OF _ al] in simp_all)
qed

end
