(* ===== verification/Rv32_Instr_Safety.thy ===== *)
theory Rv32_Instr_Safety
  imports Rv32_Exec
begin

text \<open>
  The calls of the instruction functions. \<open>exec_step\<close> is what an instruction of processor \<open>k\<close> may
  change: its own registers, within the invariant, and the rest of the machine the way memory
  accesses do. \<open>instr_safe\<close> says that a call returns, with an exception that is not an interrupt.
\<close>

subsection \<open>Steps of one processor\<close>

definition cpu_keeps :: "rv32_cpu \<Rightarrow> rv32_cpu \<Rightarrow> bool" where
  "cpu_keeps c c' \<longleftrightarrow> (cpu_inv c \<longrightarrow> cpu_inv c') \<and> mhartid (csr c') = mhartid (csr c)"

lemma cpu_keeps_refl [simp]: "cpu_keeps c c"
  by (simp add: cpu_keeps_def)

lemma cpu_keeps_trans: "cpu_keeps a b \<Longrightarrow> cpu_keeps b c \<Longrightarrow> cpu_keeps a c"
  by (simp add: cpu_keeps_def)

lemma cpu_keeps_simps [simp]:
  "cpu_keeps c (c\<lparr>regs := r\<rparr>)" "cpu_keeps c (c\<lparr>reserved_valid := b\<rparr>)" "cpu_keeps c (c\<lparr>reserved_valid := b, reserved_addr := p\<rparr>)"
  "cpu_keeps c (c\<lparr>stdby := b\<rparr>)" "cpu_keeps c (c\<lparr>csr := (csr c)\<lparr>tval_next := v\<rparr>\<rparr>)"
  "cpu_keeps c (c\<lparr>regs := r, pc_next := a\<rparr>) \<longleftrightarrow> (cpu_inv c \<longrightarrow> IS_ALIGNED a 4)"
  "cpu_keeps c (c\<lparr>pc_next := a\<rparr>) \<longleftrightarrow> (cpu_inv c \<longrightarrow> IS_ALIGNED a 4)"
  by (auto simp: cpu_keeps_def cpu_inv_def csr_wf_def epc_ok_def)

definition exec_step :: "nat \<Rightarrow> ('d, 'z) rv32_machine \<Rightarrow> ('d, 'z) rv32_machine \<Rightarrow> bool" where
  "exec_step k s s' \<longleftrightarrow> sys_evolves s s' \<and> (\<forall>j. j \<noteq> k \<longrightarrow> touched (cpu_mem s j) (cpu_mem s' j)) \<and>
     cpu_keeps (cpu_mem s k) (cpu_mem s' k)"

lemma exec_step_refl [simp]: "exec_step k s s \<longleftrightarrow> mach_ok s"
  by (simp add: exec_step_def)

lemma exec_step_trans: "exec_step k a b \<Longrightarrow> exec_step k b c \<Longrightarrow> exec_step k a c"
  by (auto simp: exec_step_def intro: sys_evolves_trans touched_trans cpu_keeps_trans)

lemma mem_step_exec: "mem_step k s s' \<Longrightarrow> exec_step k s s'"
  using mem_touched_cpu_inv [of "cpu_mem s k" "cpu_mem s' k"] mem_touched_simps(9) [of "cpu_mem s k" "cpu_mem s' k"]
  by (simp add: mem_step_def exec_step_def cpu_keeps_def)

lemma exec_step_set_cpu: "mach_ok s \<Longrightarrow> cpu_keeps (cpu_mem s k) c \<Longrightarrow> exec_step k s (set_cpu k c s)"
  by (simp add: exec_step_def sys_evolves_set_cpu)

lemma exec_step_then_set: "exec_step k s s' \<Longrightarrow> cpu_keeps (cpu_mem s' k) c \<Longrightarrow> exec_step k s (set_cpu k c s')"
  using exec_step_trans exec_step_set_cpu sys_evolves_ok unfolding exec_step_def by blast

lemma exec_stepD: "exec_step k s s' \<Longrightarrow> mach_ok s'" "exec_step k s s' \<Longrightarrow> sys_evolves s s'"
  "exec_step k s s' \<Longrightarrow> cpu_inv (cpu_mem s k) \<Longrightarrow> cpu_inv (cpu_mem s' k)"
  "exec_step k s s' \<Longrightarrow> j \<noteq> k \<Longrightarrow> touched (cpu_mem s j) (cpu_mem s' j)"
  by (auto simp: exec_step_def cpu_keeps_def sys_evolves_ok)

definition instr_safe ::
    "nat \<Rightarrow> ('d, 'z) rv32_machine \<Rightarrow> (rv_exc \<times> ('d, 'z) rv32_machine) option \<Rightarrow> bool" where
  "instr_safe k s r \<longleftrightarrow> (\<exists>ex s'. r = Some (ex, s') \<and> \<not> rv_exc_is_interrupt ex \<and> exec_step k s s')"

lemma instr_safe_simps [simp]:
  "instr_safe k s (Some (ex, s')) \<longleftrightarrow> \<not> rv_exc_is_interrupt ex \<and> exec_step k s s'"
  by (simp add: instr_safe_def)

subsection \<open>Register instructions\<close>

definition cpu_safe :: "rv32_cpu \<Rightarrow> (rv_exc \<times> rv32_cpu) option \<Rightarrow> bool" where
  "cpu_safe c r \<longleftrightarrow> (\<exists>ex c'. r = Some (ex, c') \<and> \<not> rv_exc_is_interrupt ex \<and> cpu_keeps c c')"

lemma cpu_safe_simps [simp]: "cpu_safe c (Some (ex, c')) \<longleftrightarrow> \<not> rv_exc_is_interrupt ex \<and> cpu_keeps c c'"
  by (simp add: cpu_safe_def)

lemma on_cpu_safe: "mach_ok s \<Longrightarrow> cpu_safe (cpu_mem s k) (f (cpu_mem s k) instr) \<Longrightarrow> instr_safe k s (on_cpu f k instr s)"
  by (auto simp: cpu_safe_def on_cpu_def exec_step_set_cpu)

lemma jump_to_safe:
  "cpu_safe c (jump_to target c (set_reg r v c))" "cpu_safe c (jump_to target c c)"
  by (simp_all add: jump_to_def)

lemma mret_safe: "cpu_inv c \<Longrightarrow> cpu_safe c (rv_mret_instr c instr)"
proof -
  assume c: "cpu_inv c"
  have "mpp_ok ((m AND ucast (NOT (rv_csr_mstatus_mpp_mask :: u32))) AND x)" "mpp_ok (m AND ucast (NOT (rv_csr_mstatus_mpp_mask :: u32)))" for m x
    by (simp_all add: mpp_ok_def bit_simps status_mask_defs)
  then show ?thesis using c mpp_ok_iff [of c]
    by (auto simp: rv_mret_instr_def Let_def cpu_keeps_def cpu_inv_def csr_wf_def epc_ok_def)
qed

lemma spp_not_reserved: "rv_csr_sstatus_spp (c :: rv32_cpu) \<noteq> rv_rmode"
proof -
  have "drop_bit 8 (mstatus (csr c) AND push_bit 8 1) = (if bit (mstatus (csr c)) 8 then 1 else 0)"
    by (rule bit_eqI) (auto simp: bit_simps intro: gr0I)
  then show ?thesis by (simp add: rv_csr_sstatus_spp_def rv_csr_sstatus_spp_mask_def rv_priv_of_def)
qed

lemma sret_safe: "cpu_inv c \<Longrightarrow> cpu_safe c (rv_sret_instr c instr)"
proof -
  assume c: "cpu_inv c"
  have b: "bit (ucast (NOT m :: u32) :: u64) n \<longleftrightarrow> n < 32 \<and> \<not> bit m n" for m n by (auto simp: bit_simps)
  have "mpp_ok m \<Longrightarrow> mpp_ok ((((if a then m OR ucast (rv_csr_sstatus_sie_mask :: u32) else m AND ucast (NOT (rv_csr_sstatus_sie_mask :: u32))) OR
      ucast (rv_csr_sstatus_spie_mask :: u32)) AND ucast (NOT (rv_csr_sstatus_spp_mask :: u32))) AND
      ucast (NOT (rv_csr_mstatus_mprv_mask :: u32)))" for m a
    by (erule mpp_ok_cong [rotated -1]; cases a)
      (simp_all add: bit_and_iff bit_or_iff b bit_ucast_iff, simp_all add: status_mask_defs)
  then show ?thesis using c spp_not_reserved [of c]
    by (auto simp: rv_sret_instr_def Let_def cpu_keeps_def cpu_inv_def csr_wf_def epc_ok_def)
qed

lemma sfence_safe: "cpu_inv c \<Longrightarrow> cpu_safe c (rv32_sfence_instr c instr)"
proof -
  assume c: "cpu_inv c"
  then have "tlb_wf (tlb c)" by (simp add: cpu_inv_def)
  note flush = flush_all_spec [OF this]
  have k: "tlb_wf t \<Longrightarrow> cpu_keeps c (c\<lparr>tlb := t\<rparr>)" for t using c by (simp add: cpu_keeps_def cpu_inv_def csr_wf_def epc_ok_def)
  have "cpu_safe c (do { t \<leftarrow> flush_loop P [0..<tlb_size (tlb c)] (tlb c); Some (rv_exc_none, c\<lparr>tlb := t\<rparr>) })" for P
    using flush [of P] k by auto
  then show ?thesis
    by (simp add: rv32_sfence_instr_def rv32_tlb_flush_def rv32_tlb_flush_by_asid_def rv32_tlb_flush_by_addr_def
        rv32_tlb_flush_by_asid_and_addr_def Let_def)
qed

lemma csr_frame_fields:
  assumes "csr_frame c c'"
  shows "tlb c' = tlb c" "pc c' = pc c" "pc_next c' = pc_next c" "mhartid (csr c') = mhartid (csr c)"
proof -
  have c': "c' = c\<lparr>csr := csr c'\<rparr>" "mhartid (csr c') = mhartid (csr c)" using assms by (simp_all add: csr_frame_def)
  show "tlb c' = tlb c" "pc c' = pc c" "pc_next c' = pc_next c" "mhartid (csr c') = mhartid (csr c)"
    using arg_cong [OF c'(1), of tlb] arg_cong [OF c'(1), of pc] arg_cong [OF c'(1), of pc_next] c'(2) by simp_all
qed

lemma csr_instr_safe:
  assumes c: "cpu_inv c" and n: "\<not> csr_risky (csr_field instr)"
  shows "cpu_safe c (rv_csrrw_instr c instr)" "cpu_safe c (rv_csrrs_instr c instr)" "cpu_safe c (rv_csrrc_instr c instr)"
    "cpu_safe c (rv_csrrwi_instr c instr)" "cpu_safe c (rv_csrrsi_instr c instr)" "cpu_safe c (rv_csrrci_instr c instr)"
proof -
  let ?n = "csr_field instr"
  have wf: "csr_wf c" "epc_ok c" "\<not> csr_hazard ?n" "?n \<noteq> 0x341" using c n by (simp_all add: cpu_inv_def csr_risky_def)
  have safe: "cpu_safe c (csr_result instr c r)"
    if "r \<noteq> Undefined" "\<And>ex. r = Exc ex \<Longrightarrow> ex = rv_exc_illegal_instruction"
      "\<And>t c'. r = Ok (t, c') \<Longrightarrow> csr_wf c' \<and> epc_ok c' \<and> csr_frame c c'" for r
  proof (cases r)
    case (Ok p)
    then have "cpu_keeps c (snd p)" using that(3) [of "fst p" "snd p"] csr_frame_fields [of c "snd p"] by (simp add: cpu_keeps_def cpu_inv_def)
    then show ?thesis using Ok cpu_keeps_trans [OF _ cpu_keeps_simps(1)] by (simp add: csr_result_def split_beta)
  qed (use that in \<open>simp_all add: csr_result_def\<close>)
  have rw: "cpu_safe c (csr_result instr c (rv_csr_rw c ?n v b))" for v b
    by (rule safe) (auto simp: csr_access_defined [OF wf(1,3)]
        intro: csr_access_exc(1) csr_access_keep(1) [OF wf(1)] csr_access_epc(1) [OF wf(2,4)] csr_access_frame(1))
  have rs: "cpu_safe c (csr_result instr c (rv_csr_rs c ?n v b))" for v b
    by (rule safe) (auto simp: csr_access_defined [OF wf(1,3)]
        intro: csr_access_exc(2) csr_access_keep(2) [OF wf(1)] csr_access_epc(2) [OF wf(2,4)] csr_access_frame(2))
  have rc: "cpu_safe c (csr_result instr c (rv_csr_rc c ?n v b))" for v b
    by (rule safe) (auto simp: csr_access_defined [OF wf(1,3)]
        intro: csr_access_exc(3) csr_access_keep(3) [OF wf(1)] csr_access_epc(3) [OF wf(2,4)] csr_access_frame(3))
  show "cpu_safe c (rv_csrrw_instr c instr)" "cpu_safe c (rv_csrrs_instr c instr)" "cpu_safe c (rv_csrrc_instr c instr)"
    "cpu_safe c (rv_csrrwi_instr c instr)" "cpu_safe c (rv_csrrsi_instr c instr)" "cpu_safe c (rv_csrrci_instr c instr)"
    unfolding csr_instr_defs by (rule rw rs rc)+
qed

subsection \<open>Memory instructions\<close>

lemma load_result_safe:
  assumes "safe_access k s P m"
  shows "instr_safe k s (do { res \<leftarrow> m; load_result k instr ext res })"
  using assms
proof (cases rule: safe_accessE)
  case (1 ex s')
  then show ?thesis by (simp add: load_result_def mem_step_exec)
next
  case (2 v s')
  then show ?thesis by (simp add: load_result_def exec_step_then_set [OF mem_step_exec])
qed

lemma exc_of_safe: "safe_access k s P m \<Longrightarrow> instr_safe k s (do { res \<leftarrow> m; exc_of res })"
  by (erule safe_accessE) (simp_all add: exc_of_def mem_step_exec)

lemma throw_tval_step: "mach_ok s \<Longrightarrow> exec_step k s (throw_tval k virt s)"
  by (simp add: throw_tval_def exec_step_set_cpu)

lemma load_safe:
  assumes "mach_ok s" "cpu_inv (cpu_mem s k)" "instr_opcode instr = rv_opcLOAD"
  shows "instr_safe k s (rv_lb_instr rv32_convert_addr k instr s)" "instr_safe k s (rv_lh_instr rv32_convert_addr k instr s)"
    "instr_safe k s (rv_lw_instr rv32_convert_addr k instr s)" "instr_safe k s (rv_lbu_instr rv32_convert_addr k instr s)"
    "instr_safe k s (rv_lhu_instr rv32_convert_addr k instr s)"
  using assms(1,3) load_result_safe [OF rv_read_ok(1) [OF assms(1,2)]] load_result_safe [OF rv_read_ok(2) [OF assms(1,2)]]
    load_result_safe [OF rv_read_ok(3) [OF assms(1,2)]]
  by (simp_all add: load_instr_defs load_aligned_def throw_tval_step Let_def)

lemma store_safe:
  assumes "mach_ok s" "cpu_inv (cpu_mem s k)" "instr_opcode instr = rv_opcSTORE"
  shows "instr_safe k s (rv_sb_instr rv32_convert_addr k instr s)" "instr_safe k s (rv_sh_instr rv32_convert_addr k instr s)"
    "instr_safe k s (rv_sw_instr rv32_convert_addr k instr s)"
  using assms(3) exc_of_safe [OF rv_write_ok(1) [OF assms(1,2)]] exc_of_safe [OF rv_write_ok(2) [OF assms(1,2)]]
    exc_of_safe [OF rv_write_ok(3) [OF assms(1,2)]]
  by (simp_all add: store_instr_defs)

subsection \<open>Atomic operations\<close>

lemma cpu_inv_tlb: "cpu_inv c \<Longrightarrow> tlb_wf (tlb c)"
  by (simp add: cpu_inv_def)

lemma tlb_ready_regs [simp]: "tlb_ready (c\<lparr>regs := r\<rparr>) virt wr fetch phys = tlb_ready c virt wr fetch phys"
  by (rule tlb_ready_same) (simp_all add: vm_same_def)

lemma amo_check_ok:
  assumes ok: "mach_ok s" and inv: "cpu_inv (cpu_mem s k)"
  obtains ex s' where "amo_check rv32_convert_addr k virt align s = Some (Some ex, s')" "\<not> rv_exc_is_interrupt ex" "exec_step k s s'"
  | phys s' where "amo_check rv32_convert_addr k virt align s = Some (None, s')" "mem_step k s s'" "IS_ALIGNED virt align"
    "tlb_ready (cpu_mem s' k) virt True False phys"
proof -
  obtain r s1 where c: "rv32_convert_addr k virt True False True s = Some (r, s1)" "mem_step k s s1"
    "translated (cpu_mem s1 k) virt True False r"
    using convert_ok [OF ok cpu_inv_tlb [OF inv], of True False] by blast
  have t: "exec_step k s (throw_tval k virt s1)"
    using exec_step_trans [OF mem_step_exec [OF c(2)] throw_tval_step [OF mem_stepD(1) [OF c(2)]]] .
  show thesis
  proof (cases r)
    case (Inl ex)
    then show ?thesis using that(1) c t by (simp add: amo_check_def translated_def)
  next
    case (Inr phys)
    then show ?thesis using that c t by (cases "IS_ALIGNED virt align") (simp_all add: amo_check_def translated_def)
  qed
qed

lemma amo_w_safe:
  assumes ok: "mach_ok s" and inv: "cpu_inv (cpu_mem s k)"
  shows "instr_safe k s (amo_w ext f rv32_convert_addr k instr s)"
proof -
  let ?virt = "regs (cpu_mem s k) (instr_rs1 instr)"
  show ?thesis
  proof (cases rule: amo_check_ok [OF ok inv, of ?virt 4])
    case (2 phys s1)
    note m1 = mem_stepD(1) [OF 2(2)]
    have w1: "tlb_wf (tlb (cpu_mem s1 k))" using inv mem_touched_inv(2) [OF mem_stepD(3) [OF 2(2)]] by (simp add: cpu_inv_def)
    obtain v s2 where s2: "rv_read_mem32 rv32_convert_addr k ?virt False True s1 = Some (Inr v, s2)" "mem_step k s1 s2"
      "tlb_ready (cpu_mem s2 k) ?virt True False phys"
      using rv_ready(1) [OF m1 w1 2(3,4)] by blast
    let ?s3 = "set_cpu k (set_reg (instr_rd instr) (ext v) (cpu_mem s2 k)) s2"
    have e3: "exec_step k s ?s3"
      using exec_step_trans [OF mem_step_exec [OF 2(2)] exec_step_then_set [OF mem_step_exec [OF s2(2)]]] by simp
    have "tlb_wf (tlb (cpu_mem ?s3 k))" "tlb_ready (cpu_mem ?s3 k) ?virt True False phys"
      using mem_touched_inv(2) [OF mem_stepD(3) [OF s2(2)] w1] s2(3) by simp_all
    from rv_ready(2) [OF exec_stepD(1) [OF e3] this(1) 2(3) this(2)] 
    obtain s4 where "rv_write_mem32 rv32_convert_addr k ?virt (f v (ucast (regs (cpu_mem ?s3 k) (instr_rs2 instr)))) True ?s3 = Some (Inr (), s4)"
      "mem_step k ?s3 s4" by blast
    then show ?thesis using 2 s2 exec_step_trans [OF e3 mem_step_exec] by (simp add: amo_w_def Let_def)
  qed (simp add: amo_w_def Let_def)
qed

lemma amoswap_safe:
  assumes ok: "mach_ok s" and inv: "cpu_inv (cpu_mem s k)" and opc: "instr_opcode instr = rv_opcAMO"
  shows "instr_safe k s (rv_amoswap_w_instr rv32_convert_addr k instr s)"
proof -
  let ?virt = "regs (cpu_mem s k) (instr_rs1 instr)"
  show ?thesis
  proof (cases rule: amo_check_ok [OF ok inv, of ?virt 4])
    case (2 phys s1)
    note m1 = mem_stepD(1) [OF 2(2)]
    have w1: "tlb_wf (tlb (cpu_mem s1 k))" using inv mem_touched_inv(2) [OF mem_stepD(3) [OF 2(2)]] by (simp add: cpu_inv_def)
    obtain v s2 where s2: "rv_read_mem32 rv32_convert_addr k ?virt False True s1 = Some (Inr v, s2)" "mem_step k s1 s2"
      "tlb_ready (cpu_mem s2 k) ?virt True False phys"
      using rv_ready(1) [OF m1 w1 2(3,4)] by blast
    from rv_ready(2) [OF mem_stepD(1) [OF s2(2)] mem_touched_inv(2) [OF mem_stepD(3) [OF s2(2)] w1] 2(3) s2(3)]
    obtain s3 where s3: "rv_write_mem32 rv32_convert_addr k ?virt (ucast (regs (cpu_mem s2 k) (instr_rs2 instr))) True s2 = Some (Inr (), s3)"
      "mem_step k s2 s3" by blast
    have "exec_step k s s3" using mem_step_trans [OF mem_step_trans [OF 2(2) s2(2)] s3(2)] by (rule mem_step_exec)
    then show ?thesis using 2 s2 s3 opc by (simp add: rv_amoswap_w_instr_def Let_def exec_step_then_set)
  qed (simp add: rv_amoswap_w_instr_def Let_def opc)
qed

lemma reservation_step:
  assumes "mach_ok s"
  shows "exec_step k s (cancel_reservation k s)" "exec_step k s (make_reservation k phys s)"
proof -
  have same: "exec_step k s (s\<lparr>sc_list := xs\<rparr>)" for xs
    using sys_evolves_same [OF assms, of "s\<lparr>sc_list := xs\<rparr>"] by (simp add: exec_step_def)
  have "exec_step k s (sc_unregister n s)" "exec_step k s (sc_register n s)" for n
    using assms same by (simp_all add: sc_unregister_def sc_register_def)
  then show "exec_step k s (cancel_reservation k s)" "exec_step k s (make_reservation k phys s)"
    by (simp_all add: cancel_reservation_def make_reservation_def Let_def exec_step_then_set)
qed

lemma lr_safe:
  assumes ok: "mach_ok s" and inv: "cpu_inv (cpu_mem s k)" and opc: "instr_opcode instr = rv_opcAMO" "instr_rs2 instr = 0"
  shows "instr_safe k s (rv_lr_w_instr rv32_convert_addr k instr s)"
proof -
  let ?virt = "regs (cpu_mem s k) (instr_rs1 instr)"
  note defs = rv_lr_w_instr_def load_reserved_def Let_def opc
  show ?thesis
  proof (cases rule: safe_accessE [OF rv_read_ok(3) [OF ok inv, of ?virt True]])
    case (1 ex s1)
    then show ?thesis using exec_step_trans [OF mem_step_exec [OF 1(2)] reservation_step(1) [OF mem_stepD(1) [OF 1(2)]]]
      by (simp add: defs)
  next
    case (2 v s1)
    then obtain phys where al: "IS_ALIGNED ?virt 4" and rdy: "tlb_ready (cpu_mem s1 k) ?virt False False phys" by blast
    let ?s2 = "set_cpu k (set_reg (instr_rd instr) (zero_extend_32_to_xlen v) (cpu_mem s1 k)) s1"
    have e2: "exec_step k s ?s2" using exec_step_then_set [OF mem_step_exec [OF 2(2)]] by simp
    have "tlb_ready (cpu_mem ?s2 k) ?virt False False phys" using rdy by simp
    from convert_ready [OF exec_stepD(1) [OF e2] cpu_inv_tlb [OF exec_stepD(3) [OF e2 inv]] this, of False False]
    obtain s3 where s3: "rv32_convert_addr k ?virt False False False ?s2 = Some (Inr phys, s3)" "mem_step k ?s2 s3" by auto
    then show ?thesis using 2 al exec_step_trans [OF exec_step_trans [OF e2 mem_step_exec [OF s3(2)]] reservation_step(2) [OF mem_stepD(1) [OF s3(2)]]]
      by (simp add: defs)
  qed
qed

lemma sc_safe:
  assumes ok: "mach_ok s" and inv: "cpu_inv (cpu_mem s k)" and opc: "instr_opcode instr = rv_opcAMO"
  shows "instr_safe k s (rv_sc_w_instr rv32_convert_addr k instr s)"
proof (cases "reserved_valid (cpu_mem s k)")
  case True
  let ?virt = "regs (cpu_mem s k) (instr_rs1 instr)" and ?s0 = "cancel_reservation k s"
  note e0 = reservation_step(1) [OF ok, of k]
  note ok0 = exec_stepD(1) [OF e0] and inv0 = exec_stepD(3) [OF e0 inv]
  obtain r s1 where c: "rv32_convert_addr k ?virt True False True ?s0 = Some (r, s1)" "mem_step k ?s0 s1"
    "translated (cpu_mem s1 k) ?virt True False r"
    using convert_ok [OF ok0 cpu_inv_tlb [OF inv0], of True False] by blast
  note e1 = exec_step_trans [OF e0 mem_step_exec [OF c(2)]]
  note defs = rv_sc_w_instr_def store_conditional_def Let_def opc
  show ?thesis
  proof (cases r)
    case (Inl ex)
    then show ?thesis using True c e1 by (simp add: defs translated_def exec_step_then_set)
  next
    case (Inr phys)
    let ?v = "regs (cpu_mem s1 k) (instr_rs2 instr)"
    show ?thesis
    proof (cases "IS_ALIGNED ?virt 4 \<and> phys = reserved_addr (cpu_mem s1 k)")
      case False
      then show ?thesis using True Inr c(1) e1 by (auto simp: defs exec_step_then_set)
    next
      case al: True
      have "safe_access k s1 (\<lambda>_. True) (rv_write_mem32 rv32_convert_addr k ?virt (ucast ?v) True s1)"
        by (rule rv_write_ok(3) [OF exec_stepD(1) [OF e1] exec_stepD(3) [OF e1 inv]])
      then show ?thesis
        by (rule safe_accessE)
          (use al True Inr c(1) exec_step_trans [OF e1 mem_step_exec] in \<open>simp_all add: defs exec_step_then_set\<close>)
    qed
  qed
qed (use opc ok in \<open>simp add: rv_sc_w_instr_def store_conditional_def Let_def exec_step_set_cpu\<close>)

subsection \<open>All instructions\<close>

definition is_csr_fn :: "rv_instr_func \<Rightarrow> bool" where
  "is_csr_fn f \<longleftrightarrow> f = fn_csrrw \<or> f = fn_csrrs \<or> f = fn_csrrc \<or> f = fn_csrrwi \<or> f = fn_csrrsi \<or> f = fn_csrrci"

lemma halt_step:
  assumes "mach_ok s" "instr_opcode instr = rv_opcSYSTEM"
  shows "instr_safe k s (rv_break_instr instr s)" "instr_safe k s (rv_halt_instr instr s)"
    "instr_safe k s (rv_trace_set_instr instr s)" "instr_safe k s (rv_trace_reset_instr instr s)"
proof -
  have "exec_step k s (s\<lparr>machine_interactive := b\<rparr>)" "exec_step k s (s\<lparr>machine_halt := b\<rparr>)" "exec_step k s (s\<lparr>machine_trace := b\<rparr>)" for b
    using sys_evolves_same [OF assms(1), of "s\<lparr>machine_interactive := b\<rparr>"] sys_evolves_same [OF assms(1), of "s\<lparr>machine_halt := b\<rparr>"]
      sys_evolves_same [OF assms(1), of "s\<lparr>machine_trace := b\<rparr>"] by (simp_all add: exec_step_def)
  then show "instr_safe k s (rv_break_instr instr s)" "instr_safe k s (rv_halt_instr instr s)"
    "instr_safe k s (rv_trace_set_instr instr s)" "instr_safe k s (rv_trace_reset_instr instr s)"
    using assms(2) by (simp_all add: rv_break_instr_def rv_halt_instr_def rv_trace_set_instr_def rv_trace_reset_instr_def)
qed

lemma op_safe:
  assumes "instr_opcode instr = rv_opcOP"
  shows "cpu_safe c (rv_add_instr c instr)"
    "cpu_safe c (rv_sub_instr c instr)"
    "cpu_safe c (rv_sll_instr c instr)"
    "cpu_safe c (rv_slt_instr c instr)"
    "cpu_safe c (rv_sltu_instr c instr)"
    "cpu_safe c (rv_xor_instr c instr)"
    "cpu_safe c (rv_srl_instr c instr)"
    "cpu_safe c (rv_sra_instr c instr)"
    "cpu_safe c (rv_or_instr c instr)"
    "cpu_safe c (rv_and_instr c instr)"
    "cpu_safe c (rv_mul_instr c instr)"
    "cpu_safe c (rv_mulh_instr c instr)"
    "cpu_safe c (rv_mulhsu_instr c instr)"
    "cpu_safe c (rv_mulhu_instr c instr)"
    "cpu_safe c (rv_div_instr c instr)"
    "cpu_safe c (rv_divu_instr c instr)"
    "cpu_safe c (rv_rem_instr c instr)"
    "cpu_safe c (rv_remu_instr c instr)"
  using assms by (simp_all add: reg_instr_defs Let_def)

lemma op_imm_safe:
  assumes "instr_opcode instr = rv_opcOP_IMM"
  shows "cpu_safe c (rv_addi_instr c instr)"
    "cpu_safe c (rv_slti_instr c instr)"
    "cpu_safe c (rv_sltiu_instr c instr)"
    "cpu_safe c (rv_xori_instr c instr)"
    "cpu_safe c (rv_ori_instr c instr)"
    "cpu_safe c (rv_andi_instr c instr)"
    "cpu_safe c (rv_srai_instr c instr)"
  using assms by (simp_all add: reg_instr_defs Let_def)

lemma shift_imm_safe:
  assumes "instr_opcode instr = rv_opcOP_IMM" "unat (i_imm instr AND 0x3F) < 32"
  shows "cpu_safe c (rv_slli_instr c instr)"
    "cpu_safe c (rv_srli_instr c instr)"
  using assms by (simp_all add: reg_instr_defs Let_def)

lemma lui_safe:
  assumes "instr_opcode instr = rv_opcLUI"
  shows "cpu_safe c (rv_lui_instr c instr)"
  using assms by (simp_all add: reg_instr_defs Let_def)

lemma auipc_safe:
  assumes "instr_opcode instr = rv_opcAUIPC"
  shows "cpu_safe c (rv_auipc_instr c instr)"
  using assms by (simp_all add: reg_instr_defs Let_def)

lemma branch_safe:
  assumes "instr_opcode instr = rv_opcBRANCH"
  shows "cpu_safe c (rv_beq_instr c instr)"
    "cpu_safe c (rv_bne_instr c instr)"
    "cpu_safe c (rv_blt_instr c instr)"
    "cpu_safe c (rv_bltu_instr c instr)"
    "cpu_safe c (rv_bge_instr c instr)"
    "cpu_safe c (rv_bgeu_instr c instr)"
  using assms by (simp_all add: branch_instr_defs Let_def jump_to_safe)

lemma jal_safe:
  assumes "instr_opcode instr = rv_opcJAL"
  shows "cpu_safe c (rv_jal_instr c instr)"
  using assms by (simp_all add: jump_instr_defs jump_to_safe)

lemma jalr_safe:
  assumes "instr_opcode instr = rv_opcJALR" "instr_funct3 instr = 0"
  shows "cpu_safe c (rv_jalr_instr c instr)"
  using assms by (simp_all add: jump_instr_defs jump_to_safe)

lemma plain_safe:
  shows "cpu_safe c (rv_fence_instr c instr)" "cpu_safe c (rv_call_instr c instr)" "cpu_safe c (rv_wfi_instr c instr)"
    "instr_opcode instr = rv_opcSYSTEM \<Longrightarrow> cpu_safe c (rv32_dump_instr c instr)"
    "instr_opcode instr = rv_opcSYSTEM \<Longrightarrow> cpu_safe c (rv32_csr_rd_instr c instr)"
  by (auto simp: rv_fence_instr_def rv_call_instr_def rv_wfi_instr_def rv32_dump_instr_def rv32_csr_rd_instr_def
      split: rv_priv_mode.splits)

lemmas reg_safe = op_safe op_imm_safe shift_imm_safe lui_safe auipc_safe branch_safe jal_safe jalr_safe plain_safe

lemma illegal_safe: "mach_ok s \<Longrightarrow> instr_safe k s (call_instr_func fn_illegal k instr s)"
  by (simp add: rv_illegal_instr_def)

lemma call_instr_safe:
  assumes "mach_ok s" "cpu_inv (cpu_mem s k)" "fn_pre f instr" "is_csr_fn f \<Longrightarrow> \<not> csr_risky (csr_field instr)"
  shows "instr_safe k s (call_instr_func f k instr s)"
proof (cases f)
  case fn_illegal
  then show ?thesis using illegal_safe [OF assms(1)] by simp
qed (use assms in \<open>simp_all add: fn_pre_def is_csr_fn_def on_cpu_safe reg_safe mret_safe sret_safe sfence_safe csr_instr_safe
    load_safe store_safe lr_safe sc_safe amoswap_safe amo_w_defs amo_w_safe halt_step\<close>)

end
