(* ===== verification/Decode_Cache.thy ===== *)
theory Decode_Cache
  imports Machine_Access
begin

text \<open>
  Caches of decoded instructions, for every kind of processor. A cache is a list of pages, each the
  address of a memory page and the decoding of its words. \<open>pages_ok\<close> is the invariant: a page whose
  frame has the \<open>valid\<close> flag is decoded right, and no page is cached twice. A store clears the flag of
  its frame, so that the invariant survives every change of memory. \<open>decoder\<close> is what the processor
  provides: the decoding of a word depends only on the bytes of its page.
\<close>

subsection \<open>Addresses in a page\<close>

lemma unat_ALIGN_DOWN_page: "unat (ALIGN_DOWN (phys :: ptr36) 4096) = unat phys div 4096 * 4096"
proof -
  have m: "(4096 - 1 :: ptr36) = mask 12" by (simp add: mask_eq_decr_exp)
  have "ALIGN_DOWN phys 4096 = push_bit 12 (drop_bit 12 phys)"
    unfolding ALIGN_DOWN_def m by (rule bit_word_eqI) (auto simp: bit_simps)
  moreover have "unat phys div 4096 * 4096 < 2 ^ 64" by (rule le_less_trans [OF div_times_less_eq_dividend]) (use unsigned_less [of phys, where 'a = nat] in simp)
  ultimately show ?thesis
    by (simp add: push_bit_eq_mult drop_bit_eq_div unat_word_ariths unat_div)
qed

definition page_base :: "ptr36 \<Rightarrow> bool" where
  "page_base a \<longleftrightarrow> unat a mod 4096 = 0 \<and> unat a < 2 ^ 36"

lemma page_base_ALIGN_DOWN: "unat phys < 2 ^ 36 \<Longrightarrow> page_base (ALIGN_DOWN phys 4096)"
  by (auto simp: page_base_def unat_ALIGN_DOWN_page intro: le_less_trans [OF div_times_less_eq_dividend])

lemma page_base_word:
  assumes "page_base a" "n dvd 4096" "i < 4096 div n"
  shows "unat (a + of_nat (i * n)) = unat a + i * n" "page_of (a + of_nat (i * n)) = page_of a" "n dvd unat (a + of_nat (i * n))"
proof -
  have a: "unat a mod 4096 = 0" "unat a < 2 ^ 36" using assms(1) by (simp_all add: page_base_def)
  have j: "i * n < 4096" using assms(2,3) by (metis div_mult_self_is_m less_mult_imp_div_less dvd_div_mult_self nat_mult_less_cancel_disj mult_less_cancel2 bot_nat_0.not_eq_extremum div_by_0 not_less0)
  then have "unat a + i * n < 2 ^ 64" using a by simp
  then show u: "unat (a + of_nat (i * n)) = unat a + i * n"
    by (simp add: unat_word_ariths unat_of_nat del: of_nat_mult)
  obtain q where q: "unat a = 4096 * q" using a(1) by (auto simp: mod_eq_0_iff_dvd)
  have "q < 2 ^ 24" using a(2) q by simp
  then have "(4096 * q + i * n) mod 2 ^ 36 = 4096 * q + i * n" "4096 * q mod 2 ^ 36 = 4096 * q" using j by simp_all
  then show "page_of (a + of_nat (i * n)) = page_of a" unfolding page_of_div u q using j by simp
  show "n dvd unat (a + of_nat (i * n))" unfolding u q using assms(2) by simp
qed

lemma page_base_eq: "page_base a \<Longrightarrow> page_base b \<Longrightarrow> page_of a = page_of b \<Longrightarrow> a = b"
proof -
  assume "page_base a" "page_base b" "page_of a = page_of b"
  then have "unat a = unat b" by (auto simp: page_base_def page_of_div mod_eq_0_iff_dvd)
  then show "a = b" by (rule unsigned_word_eqI [where 'a = nat])
qed

lemma page_of_ALIGN_DOWN: "page_of (ALIGN_DOWN phys 4096) = page_of phys"
  by (simp add: page_of_div unat_ALIGN_DOWN_page mod_mult2_eq [of _ 4096 "2 ^ 24", simplified] flip: mult.commute [of 4096])

lemma page_index:
  assumes "n dvd 4096" "n dvd unat (phys :: ptr36)"
  shows "unat (phys AND 0xFFF) div n < 4096 div n" "ALIGN_DOWN phys 4096 + of_nat (unat (phys AND 0xFFF) div n * n) = phys"
proof -
  have m: "unat (phys AND 0xFFF) = unat phys mod 4096" using unat_and_mask [of phys 12] by (simp add: mask_eq_exp_minus_1)
  have n: "0 < n" using assms(1) by (auto intro: Nat.gr0I)
  have d: "n dvd unat phys mod 4096" using assms by (simp add: dvd_mod_iff)
  show "unat (phys AND 0xFFF) div n < 4096 div n"
    unfolding m using n assms(1) by (intro less_mult_imp_div_less) (simp add: dvd_div_mult_self)
  have "unat (ALIGN_DOWN phys 4096) + unat (phys AND 0xFFF) div n * n = unat phys"
    using d by (simp add: unat_ALIGN_DOWN_page m)
  moreover have "unat phys < 2 ^ 64" using unsigned_less [of phys, where 'a = nat] by simp
  ultimately show "ALIGN_DOWN phys 4096 + of_nat (unat (phys AND 0xFFF) div n * n) = phys"
    by (intro unsigned_word_eqI [where 'a = nat]) (simp only: unat_word_ariths unat_of_nat mod_mod_trivial mod_add_right_eq, simp)
qed

subsection \<open>Reading and marking a page\<close>

lemma abs_load_page:
  assumes "n dvd 4096" "n dvd unat a" "\<And>x. unat x div 4096 = page_of a \<Longrightarrow> pm' x = pm x"
  shows "abs_load n pm' (ucast a) = abs_load n pm (ucast a)"
proof -
  have n: "n \<le> 4096" using assms(1) by (simp add: dvd_imp_le)
  have "pm' (ucast a + of_nat i) = pm (ucast a + of_nat i)" if "i < n" for i
    by (rule assms(3)) (rule stored_in_page [OF assms(1,2)], use that n in \<open>simp add: unat_of_nat\<close>)
  then show ?thesis by (auto simp: abs_load_def intro!: load_le_cong)
qed

lemma read_core_quiet:
  assumes "physmem_ok s" "n dvd 4096" "n dvd unat a" "0 < n" "frame_at (page_of a) s \<noteq> None"
  shows "read_core n dev a False s = Some (abs_load n (phys_byte s) (ucast a), s)"
proof -
  obtain f where f: "frame_at (page_of a) s = Some f" using assms(5) by blast
  obtain s' where r: "read_core n dev a False s = Some (abs_load n (phys_byte s) (ucast a), s')"
    using read_core_refines [OF assms(1-4) f] by blast
  then have "s' = s" using frame_at_find_frame [OF f] by (auto simp: read_core_def bind_Some_iff Let_def)
  then show ?thesis using r by simp
qed

lemma mark_frame:
  assumes ok: "physmem_ok s" and f: "frame_at (page_of a) s = Some f"
  shows "physmem_ok (set_frame a (Some (f\<lparr>valid := True\<rparr>)) s)"
    and "phys_byte (set_frame a (Some (f\<lparr>valid := True\<rparr>)) s) = phys_byte s"
    and "frame_at q (set_frame a (Some (f\<lparr>valid := True\<rparr>)) s) = (if q = page_of a then Some (f\<lparr>valid := True\<rparr>) else frame_at q s)"
proof -
  let ?s = "set_frame a (Some (f\<lparr>valid := True\<rparr>)) s"
  show q: "frame_at q ?s = (if q = page_of a then Some (f\<lparr>valid := True\<rparr>) else frame_at q s)" for q
    by (rule frame_at_set_frame [OF f])
  show "physmem_ok ?s" using ok by (intro physmem_ok_set_frame [OF _ f]) simp_all
  show "phys_byte ?s = phys_byte s" by (rule phys_byte_data_cong, simp add: q f, simp add: set_frame_def Let_def)
qed

subsection \<open>The invariant of a cache\<close>

definition page_right :: "nat \<Rightarrow> ('m \<Rightarrow> ptr36 \<Rightarrow> 'i) \<Rightarrow> 'm \<Rightarrow> ptr36 \<times> (nat \<Rightarrow> 'i) \<Rightarrow> bool" where
  "page_right n dec s p \<longleftrightarrow> (\<forall>i < 4096 div n. snd p i = dec s (fst p + of_nat (i * n)))"

definition page_ok :: "nat \<Rightarrow> (('c, 'd, 'z) machine_scheme \<Rightarrow> ptr36 \<Rightarrow> 'i) \<Rightarrow> ('c, 'd, 'z) machine_scheme \<Rightarrow>
    ptr36 \<times> (nat \<Rightarrow> 'i) \<Rightarrow> bool" where
  "page_ok n dec s p \<longleftrightarrow> page_base (fst p) \<and> frame_at (page_of (fst p)) s \<noteq> None \<and>
     (valid (the (frame_at (page_of (fst p)) s)) \<longrightarrow> page_right n dec s p)"

definition pages_ok :: "nat \<Rightarrow> (('c, 'd, 'z) machine_scheme \<Rightarrow> ptr36 \<Rightarrow> 'i) \<Rightarrow> ('c, 'd, 'z) machine_scheme \<Rightarrow>
    (ptr36 \<times> (nat \<Rightarrow> 'i)) list \<Rightarrow> bool" where
  "pages_ok n dec s ps \<longleftrightarrow> distinct (map fst ps) \<and> (\<forall>p \<in> set ps. page_ok n dec s p)"

lemma pages_ok_Nil [simp]: "pages_ok n dec s []"
  by (simp add: pages_ok_def)

lemma page_right_at:
  assumes "page_right n dec s p" "n dvd 4096" "n dvd unat phys" "fst p = ALIGN_DOWN phys 4096"
  shows "snd p (unat (phys AND 0xFFF) div n) = dec s phys"
  using assms(1) page_index [OF assms(2,3)] unfolding page_right_def assms(4) by metis

lemma pages_ok_remove:
  assumes "pages_ok n dec s ps"
  shows "pages_ok n dec s (filter (\<lambda>p. fst p \<noteq> a) ps)"
  using assms by (auto simp: pages_ok_def distinct_map_filter)

locale decoder =
  fixes n :: nat and dec :: "('c, 'd, 'z) machine_scheme \<Rightarrow> ptr36 \<Rightarrow> 'i"
  assumes width: "n dvd 4096"
    and dec_cong: "n dvd unat a \<Longrightarrow> (\<And>x. unat x div 4096 = page_of a \<Longrightarrow> phys_byte s' x = phys_byte s x) \<Longrightarrow>
      machine_specific_instructions s' = machine_specific_instructions s \<Longrightarrow> dec s' a = dec s a"
begin

lemma page_right_cong:
  assumes "page_base (fst p)" "\<And>x. unat x div 4096 = page_of (fst p) \<Longrightarrow> phys_byte s' x = phys_byte s x"
    "machine_specific_instructions s' = machine_specific_instructions s"
  shows "page_right n dec s' p = page_right n dec s p"
proof -
  have "dec s' (fst p + of_nat (i * n)) = dec s (fst p + of_nat (i * n))" if "i < 4096 div n" for i
    using page_base_word [OF assms(1) width that] assms(2) by (intro dec_cong [OF _ _ assms(3)]) metis+
  then show ?thesis by (simp add: page_right_def)
qed

lemma page_ok_evolves:
  assumes ev: "sys_evolves_by ok s s'" and p: "page_ok n dec s p"
  shows "page_ok n dec s' p"
proof -
  let ?p = "page_of (fst p)"
  note b = sys_evolves_basic [OF ev]
  have "frame_at ?p s' \<noteq> None" using p b(4) by (simp add: page_ok_def)
  then obtain f where f: "frame_at ?p s' = Some f" by blast
  have "page_right n dec s' p" if "valid f"
  proof -
    note fr = sys_evolves_frame [OF ev f that]
    have "page_right n dec s p" using p fr(1) that by (simp add: page_ok_def)
    moreover have "page_right n dec s' p = page_right n dec s p"
      using p fr(2) b(3) by (intro page_right_cong) (auto simp: page_ok_def)
    ultimately show ?thesis by simp
  qed
  then show ?thesis using p f by (simp add: page_ok_def)
qed

lemma pages_ok_evolves: "sys_evolves_by ok s s' \<Longrightarrow> pages_ok n dec s ps \<Longrightarrow> pages_ok n dec s' ps"
  using page_ok_evolves by (auto simp: pages_ok_def)

lemma pages_ok_marked:
  assumes f: "frame_at (page_of (fst p)) s = Some f"
    and fr: "\<And>q. frame_at q s' = (if q = page_of (fst p) then Some (f\<lparr>valid := True\<rparr>) else frame_at q s)"
    and pb: "phys_byte s' = phys_byte s" and sp: "machine_specific_instructions s' = machine_specific_instructions s"
    and p: "page_base (fst p)" "page_right n dec s p" "fst p \<notin> fst ` set ps" and ps: "pages_ok n dec s ps"
  shows "pages_ok n dec s' (p # ps)"
proof -
  have right: "page_right n dec s' q = page_right n dec s q" if "page_base (fst q)" for q
    using that pb sp by (intro page_right_cong) auto
  have "page_ok n dec s' q" if q: "q \<in> set ps" for q
  proof -
    have qo: "page_ok n dec s q" "fst q \<noteq> fst p" using ps q p(3) imageI [OF q, of fst] unfolding pages_ok_def by metis+
    then have "page_of (fst q) \<noteq> page_of (fst p)" using page_base_eq p(1) by (auto simp: page_ok_def)
    then show ?thesis using qo by (simp add: page_ok_def fr right)
  qed
  moreover have "page_ok n dec s' p" using p by (simp add: page_ok_def fr right)
  ultimately show ?thesis using ps p(3) by (simp add: pages_ok_def)
qed

end

end
