(* ===== verification/Rv32_Cache.thy ===== *)
theory Rv32_Cache
  imports Rv32_Instr_Safety Decode_Cache
begin

text \<open>
  The instruction cache of the 32-bit RISC-V processor is transparent: an instruction fetched through
  it is the decoding of the word that the memory holds, self-modifying code included. \<open>cache_ok\<close> is its
  invariant, the one of \<open>Decode_Cache\<close>.
\<close>

subsection \<open>Decoding a page\<close>

lemma frame_phys_byte: "mach_ok s \<Longrightarrow> frame_at (page_of a) s \<noteq> None \<Longrightarrow> phys_byte s (ucast a) \<noteq> None"
  by (auto simp: phys_byte_def page_of_def mach_ok_def elim: physmem_okD)

lemma quiet_read:
  assumes "mach_ok s" "frame_at (page_of a) s \<noteq> None" "4 dvd unat a"
  shows "physmem_read32 p a False s = Some (mem_word s a, s)"
  using read_core_quiet [of s 4 a "devmem_read32 p a"] assms by (simp add: physmem_read_core mem_word_def mach_ok_def)

definition decode_word :: "('d, 'z) rv32_machine \<Rightarrow> ptr36 \<Rightarrow> rv_instr_func" where
  "decode_word s a = the (rv32_instr_decode (machine_specific_instructions s) (mem_word s a))"

lemma decode_word: "rv32_instr_decode (machine_specific_instructions s) (mem_word s a) = Some (decode_word s a)"
  using rv32_instr_decode_total [of "machine_specific_instructions s" "mem_word s a"] by (auto simp: decode_word_def)

interpretation rv32_decoder: decoder 4 "decode_word :: ('d, 'z) rv32_machine \<Rightarrow> ptr36 \<Rightarrow> rv_instr_func"
proof
  show "(4 :: nat) dvd 4096" by simp
  fix s s' :: "('d, 'z) rv32_machine" and a
  assume "4 dvd unat a" "\<And>x. unat x div 4096 = page_of a \<Longrightarrow> phys_byte s' x = phys_byte s x"
    "machine_specific_instructions s' = machine_specific_instructions s"
  then show "decode_word s' a = decode_word s a" by (simp add: decode_word_def mem_word_def abs_load_page [of 4 a "phys_byte s'" "phys_byte s"])
qed

definition rv_page :: "cache_item \<Rightarrow> ptr36 \<times> (nat \<Rightarrow> rv_instr_func)" where
  "rv_page c = (cache_addr c, cache_instrs c)"

lemma rv_page_simps [simp]: "fst (rv_page c) = cache_addr c" "snd (rv_page c) = cache_instrs c" "fst \<circ> rv_page = cache_addr"
  by (auto simp: rv_page_def)

lemma page_decode_loop_result:
  assumes "mach_ok s" "page_base a" "frame_at (page_of a) s \<noteq> None" "\<forall>i \<in> set is. i < 1024"
  shows "page_decode_loop k a is instrs s =
     Some ((\<lambda>i. if i \<in> set is then decode_word s (a + of_nat (i * 4)) else instrs i), s)"
  using assms(4)
proof (induction "is" arbitrary: instrs)
  case (Cons i "is")
  then have i: "i < 1024" by simp
  note w = page_base_word [OF assms(2), of 4 i]
  have "physmem_read32 (hartid k s) (a + of_nat (i * 4)) False s = Some (mem_word s (a + of_nat (i * 4)), s)"
    using assms(3) w(2,3) i by (intro quiet_read [OF assms(1)]) auto
  then have "page_decode_loop k a (i # is) instrs s =
      page_decode_loop k a is (instrs(i := decode_word s (a + of_nat (i * 4)))) s"
    by (simp only: page_decode_loop.simps bind.bind_lunit prod.case decode_word)
  also have "\<dots> = Some ((\<lambda>j. if j \<in> set (i # is) then decode_word s (a + of_nat (j * 4)) else instrs j), s)"
    using Cons by (auto intro!: ext)
  finally show ?case .
qed simp

lemma page_decode_right:
  assumes "mach_ok s" "page_base (cache_addr c)" "frame_at (page_of (cache_addr c)) s \<noteq> None"
  shows "\<exists>c'. cache_item_page_decode k c s = Some (c', s) \<and> cache_addr c' = cache_addr c \<and> page_right 4 decode_word s (rv_page c')"
  using page_decode_loop_result [OF assms, of "[0..<1024]" k "cache_instrs c"]
  by (simp add: cache_item_page_decode_def page_right_def)

subsection \<open>The invariant of the cache\<close>

definition cache_ok :: "('d, 'z) rv32_sim \<Rightarrow> bool" where
  "cache_ok s \<longleftrightarrow> pages_ok 4 decode_word s (map rv_page (rv_instruction_cache s))"

lemma cache_more: "machine.more s' = machine.more s \<Longrightarrow> rv_instruction_cache s' = rv_instruction_cache s"
  for s s' :: "('d, 'z) rv32_sim"
  by (cases s; cases s') simp

lemma evolves_cache_ok:
  assumes "sys_evolves s s'" "cache_ok s"
  shows "cache_ok s'"
  using assms(2) rv32_decoder.pages_ok_evolves [OF assms(1)] cache_more [OF sys_evolves_basic(2) [OF assms(1)]]
  by (simp add: cache_ok_def)

lemma cache_unlink_filter:
  "distinct (map cache_addr cs) \<Longrightarrow> cache_unlink a cs = filter (\<lambda>c. cache_addr c \<noteq> a) cs"
proof (induction cs)
  case (Cons c cs)
  have "filter (\<lambda>d. cache_addr d \<noteq> cache_addr c) cs = cs" using Cons.prems by (intro filter_True) (metis distinct.simps(2) image_eqI list.simps(9) list.set_map)
  then show ?case using Cons by auto
qed simp

lemma cache_unlink_ok:
  assumes "cache_ok s"
  shows "pages_ok 4 decode_word s (map rv_page (cache_unlink a (rv_instruction_cache s)))"
    "a \<notin> cache_addr ` set (cache_unlink a (rv_instruction_cache s))"
proof -
  have "distinct (map cache_addr (rv_instruction_cache s))" using assms by (simp add: cache_ok_def pages_ok_def)
  note f = cache_unlink_filter [OF this, of a]
  show "pages_ok 4 decode_word s (map rv_page (cache_unlink a (rv_instruction_cache s)))"
    using assms pages_ok_remove [of 4 decode_word s "map rv_page (rv_instruction_cache s)" a]
    by (simp add: f cache_ok_def filter_map o_def)
  show "a \<notin> cache_addr ` set (cache_unlink a (rv_instruction_cache s))" by (auto simp: f)
qed

lemma marked_cache_ok:
  fixes s s' :: "('d, 'z) rv32_sim"
  assumes "page_base (cache_addr c)" "page_right 4 decode_word s (rv_page c)" "cache_addr c \<notin> cache_addr ` set cs"
    and "pages_ok 4 decode_word s (map rv_page cs)" "frame_at (page_of (cache_addr c)) s = Some f"
    and "\<And>q. frame_at q s' = (if q = page_of (cache_addr c) then Some (f\<lparr>valid := True\<rparr>) else frame_at q s)"
      "phys_byte s' = phys_byte s" "machine_specific_instructions s' = machine_specific_instructions s" "rv_instruction_cache s' = c # cs"
  shows "cache_ok s'"
  using rv32_decoder.pages_ok_marked [of "rv_page c" s f s' "map rv_page cs"] assms
  by (simp add: cache_ok_def image_image)

lemma set_valid_marks:
  assumes ok: "mach_ok s" and f: "frame_at (page_of a) s = Some f"
  shows "set_valid a s = Some (set_frame a (Some (f\<lparr>valid := True\<rparr>)) s)"
    and "mach_ok (set_frame a (Some (f\<lparr>valid := True\<rparr>)) s)"
    and "phys_byte (set_frame a (Some (f\<lparr>valid := True\<rparr>)) s) = phys_byte s"
    and "frame_at q (set_frame a (Some (f\<lparr>valid := True\<rparr>)) s) = (if q = page_of a then Some (f\<lparr>valid := True\<rparr>) else frame_at q s)"
proof -
  have "physmem_ok s" using ok by (simp add: mach_ok_def)
  note m = mark_frame [OF this f]
  show "set_valid a s = Some (set_frame a (Some (f\<lparr>valid := True\<rparr>)) s)" using frame_at_find_frame [OF f] by (simp add: set_valid_def)
  show "mach_ok (set_frame a (Some (f\<lparr>valid := True\<rparr>)) s)" using ok m(1) by (simp add: mach_ok_def set_frame_def Let_def)
  show "phys_byte (set_frame a (Some (f\<lparr>valid := True\<rparr>)) s) = phys_byte s"
    "frame_at q (set_frame a (Some (f\<lparr>valid := True\<rparr>)) s) = (if q = page_of a then Some (f\<lparr>valid := True\<rparr>) else frame_at q s)" by (rule m)+
qed

subsection \<open>Fetching\<close>

definition fetch_step :: "('d, 'z) rv32_sim \<Rightarrow> ('d, 'z) rv32_sim \<Rightarrow> bool" where
  "fetch_step s s' \<longleftrightarrow> mach_ok s' \<and> cache_ok s' \<and> cpu_mem s' = cpu_mem s \<and> devices s' = devices s \<and> phys_byte s' = phys_byte s \<and>
     machine_specific_instructions s' = machine_specific_instructions s \<and> (\<forall>p. frame_at p s' = None \<longleftrightarrow> frame_at p s = None)"

lemma item_right_fetch:
  assumes "page_right 4 decode_word s (rv_page c)" "cache_addr c = ALIGN_DOWN phys 4096" "IS_ALIGNED phys 4"
  shows "cache_instrs c (PHYS2CACHEINSTR phys) = decode_word s phys"
  using page_right_at [OF assms(1), of phys] assms(2) IS_ALIGNED_dvd [of phys 2] assms(3) by (simp add: PHYS2CACHEINSTR_def)

lemma fetch_hit:
  assumes ok: "mach_ok s" and c: "cache_ok s" and al: "IS_ALIGNED phys 4" and hit: "cache_hit phys s = Some item"
  shows "\<exists>s'. fetch_instr k phys s = Some (decode_word s phys, s') \<and> fetch_step s s'"
proof -
  have item: "cache_addr item = ALIGN_DOWN phys 4096" "item \<in> set (rv_instruction_cache s)"
    using hit by (auto simp: cache_hit_def find_Some_iff)
  then have iok: "page_ok 4 decode_word s (rv_page item)" using c by (simp add: cache_ok_def pages_ok_def)
  then obtain f where f: "frame_at (page_of (cache_addr item)) s = Some f" and pb: "page_base (cache_addr item)" by (auto simp: page_ok_def)
  define cs where "cs = cache_unlink (cache_addr item) (rv_instruction_cache s)"
  note cs = cache_unlink_ok [OF c, of "cache_addr item", folded cs_def]
  obtain item' s1 where u: "update_cache_item k item s = Some (item', s1)" "cache_addr item' = cache_addr item" "page_right 4 decode_word s (rv_page item')"
    and s1: "mach_ok s1" "phys_byte s1 = phys_byte s" "cpu_mem s1 = cpu_mem s" "rv_instruction_cache s1 = rv_instruction_cache s"
    "machine_specific_instructions s1 = machine_specific_instructions s" "devices s1 = devices s"
    "\<And>q. frame_at q s1 = (if q = page_of (cache_addr item) then Some (f\<lparr>valid := True\<rparr>) else frame_at q s)"
  proof (cases "valid f")
    case True
    then show ?thesis using that [of item s] ok f iok frame_at_find_frame [OF f] by (auto simp: update_cache_item_def page_ok_def)
  next
    case False
    obtain c' where c': "cache_item_page_decode k item s = Some (c', s)" "cache_addr c' = cache_addr item" "page_right 4 decode_word s (rv_page c')"
      using page_decode_right [OF ok pb] f by blast
    show ?thesis using that [of c' "set_frame (cache_addr item) (Some (f\<lparr>valid := True\<rparr>)) s"] c' False set_valid_marks [OF ok f]
      by (simp add: update_cache_item_def frame_at_find_frame [OF f]) (simp add: set_frame_def Let_def)
  qed
  let ?s' = "s1\<lparr>rv_instruction_cache := item' # cs\<rparr>"
  have fe: "fetch_instr k phys s = Some (decode_word s phys, ?s')"
    using hit u s1(4) item_right_fetch [OF u(3) _ al] item(1) by (simp add: fetch_instr_def cs_def)
  have fr: "frame_at q ?s' = frame_at q s1" "phys_byte ?s' = phys_byte s1" for q
    by (auto intro: frame_at_cong phys_byte_cong)
  have "cache_ok ?s'"
    by (rule marked_cache_ok [of item' s cs f]) (use f u cs s1 pb fr in \<open>simp_all\<close>)
  moreover have "mach_ok ?s'" using s1(1) physmem_ok_cong [of ?s' s1] by (simp add: mach_ok_def)
  ultimately show ?thesis using fe s1 fr f by (auto simp: fetch_step_def)
qed

lemma fetch_miss:
  assumes ok: "mach_ok s" and c: "cache_ok s" and al: "IS_ALIGNED phys 4" and ph: "unat phys < 2 ^ 36"
    and hit: "cache_hit phys s = None" and f: "frame_at (page_of phys) s = Some f"
  shows "\<exists>s'. fetch_instr k phys s = Some (decode_word s phys, s') \<and> fetch_step s s'"
proof -
  let ?new = "\<lparr>cache_addr = ALIGN_DOWN phys 4096, cache_instrs = (\<lambda>_. fn_illegal)\<rparr>"
  note pb = page_base_ALIGN_DOWN [OF ph]
  obtain item where item: "cache_item_page_decode k ?new s = Some (item, s)" "cache_addr item = ALIGN_DOWN phys 4096" "page_right 4 decode_word s (rv_page item)"
    using page_decode_right [OF ok, of ?new k] pb f by (auto simp: page_of_ALIGN_DOWN)
  let ?s1 = "s\<lparr>rv_instruction_cache := item # rv_instruction_cache s\<rparr>"
  let ?s' = "set_frame phys (Some (f\<lparr>valid := True\<rparr>)) ?s1"
  have ok1: "mach_ok ?s1" using ok physmem_ok_cong [of ?s1 s] by (simp add: mach_ok_def)
  have f1: "frame_at q ?s1 = frame_at q s" "phys_byte ?s1 = phys_byte s" for q by (auto intro: frame_at_cong phys_byte_cong)
  note m = set_valid_marks [OF ok1 f1(1) [THEN trans, OF f]]
  have fe: "fetch_instr k phys s = Some (decode_word s phys, ?s')"
    using hit item m(1) frame_at_find_frame [OF f] item_right_fetch [OF item(3,2) al]
    by (simp add: fetch_instr_def cache_try_add_def Let_def)
  have same: "cpu_mem ?s' = cpu_mem s" "rv_instruction_cache ?s' = item # rv_instruction_cache s"
    "machine_specific_instructions ?s' = machine_specific_instructions s" "devices ?s' = devices s" by (simp_all add: set_frame_def Let_def)
  have new: "cache_addr item \<notin> cache_addr ` set (rv_instruction_cache s)"
    using hit item(2) by (auto simp: cache_hit_def find_None_iff)
  have "cache_ok ?s'"
    by (rule marked_cache_ok [of item s "rv_instruction_cache s" f])
      (use f item m c new pb same f1 in \<open>simp_all add: page_of_ALIGN_DOWN cache_ok_def\<close>)
  then show ?thesis using fe same m f1 f by (auto simp: fetch_step_def)
qed

lemma fetch_instr_ok:
  assumes "mach_ok s" "cache_ok s" "IS_ALIGNED phys 4" "unat phys < 2 ^ 36" "frame_at (page_of phys) s \<noteq> None"
  shows "\<exists>s'. fetch_instr k phys s = Some (decode_word s phys, s') \<and> fetch_step s s'"
  using fetch_hit [OF assms(1-3)] fetch_miss [OF assms(1-4)] assms(5) by (cases "cache_hit phys s") auto

end
