(* ===== verification/Rv32_Traps.thy ===== *)
theory Rv32_Traps
  imports Rv32_Instr_Safety
begin

text \<open>
  Traps, interrupts and the accounting at the end of a step: on a processor that satisfies its
  invariant they return and keep it, the return instructions undo the traps, exceptions go to the
  mode that the delegation register names, and interrupts respect the enable bits.
\<close>

subsection \<open>Status bits\<close>

lemma mask_bit: "v AND push_bit n 1 \<noteq> 0 \<longleftrightarrow> bit v n" for v :: "'a::len word"
  by (metis and_exp_eq_0_iff_not_bit push_bit_of_1)

lemma status_bits:
  fixes c :: "(32, 't) rv_cpu"
  shows "rv_csr_mstatus_mie c \<longleftrightarrow> bit (mstatus (csr c)) 3" "rv_csr_mstatus_mpie c \<longleftrightarrow> bit (mstatus (csr c)) 7"
    "rv_csr_sstatus_sie c \<longleftrightarrow> bit (mstatus (csr c)) 1" "rv_csr_sstatus_spie c \<longleftrightarrow> bit (mstatus (csr c)) 5"
    "rv_csr_mstatus_tsr c \<longleftrightarrow> bit (mstatus (csr c)) 22" "rv_csr_mstatus_mprv c \<longleftrightarrow> bit (mstatus (csr c)) 17"
proof -
  have u: "(v AND ucast (push_bit n 1 :: u32) \<noteq> (0 :: u64)) = bit v n" if "n < 32" for v n
  proof -
    have "ucast (push_bit n 1 :: u32) = (push_bit n 1 :: u64)" using that by (auto intro!: bit_word_eqI simp: bit_simps)
    then show ?thesis by (simp only: mask_bit)
  qed
  show "rv_csr_mstatus_mie c \<longleftrightarrow> bit (mstatus (csr c)) 3" "rv_csr_mstatus_mpie c \<longleftrightarrow> bit (mstatus (csr c)) 7"
    "rv_csr_sstatus_sie c \<longleftrightarrow> bit (mstatus (csr c)) 1" "rv_csr_sstatus_spie c \<longleftrightarrow> bit (mstatus (csr c)) 5"
    "rv_csr_mstatus_tsr c \<longleftrightarrow> bit (mstatus (csr c)) 22" "rv_csr_mstatus_mprv c \<longleftrightarrow> bit (mstatus (csr c)) 17"
    unfolding rv_csr_mstatus_mie_def rv_csr_mstatus_mpie_def rv_csr_sstatus_sie_def rv_csr_sstatus_spie_def
      rv_csr_mstatus_tsr_def rv_csr_mstatus_mprv_def
      rv_csr_mstatus_mie_mask_def rv_csr_mstatus_mpie_mask_def rv_csr_sstatus_sie_mask_def rv_csr_sstatus_spie_mask_def
      rv_csr_mstatus_tsr_mask_def rv_csr_mstatus_mprv_mask_def
    by (rule u, simp)+
qed

lemma mstatus_bit:
  "n < 32 \<Longrightarrow> bit (set_mstatus (push_bit n 1 :: u32) v) m \<longleftrightarrow> bit v m \<or> m = n"
  "n < 32 \<Longrightarrow> bit (clear_mstatus (push_bit n 1 :: u32) v) m \<longleftrightarrow> bit v m \<and> m \<noteq> n \<and> m < 32"
  "bit (clear_mstatus (push_bit 11 3 :: u32) v) m \<longleftrightarrow> bit v m \<and> m \<noteq> 11 \<and> m \<noteq> 12 \<and> m < 32"
proof -
  have b: "bit (push_bit n 1 :: u32) m \<longleftrightarrow> m = n \<and> n < 32" for m n by (auto simp: bit_simps)
  have b3: "bit (push_bit 11 3 :: u32) m \<longleftrightarrow> m = 11 \<or> m = 12"
  proof -
    have "(3 :: u32) = mask 2" by (simp add: mask_eq_decr_exp)
    then show ?thesis by (auto simp only: bit_push_bit_iff bit_mask_iff) (auto simp: less_Suc_eq numeral_eq_Suc)
  qed
  have nn: "bit (NOT x :: u32) m \<longleftrightarrow> m < 32 \<and> \<not> bit x m" for x m by (auto simp: bit_simps)
  have cc: "bit (ucast (x :: u32) :: u64) m \<longleftrightarrow> bit x m" for x m by (auto simp: bit_simps dest: bit_imp_le_length)
  show "n < 32 \<Longrightarrow> bit (set_mstatus (push_bit n 1 :: u32) v) m \<longleftrightarrow> bit v m \<or> m = n"
    "n < 32 \<Longrightarrow> bit (clear_mstatus (push_bit n 1 :: u32) v) m \<longleftrightarrow> bit v m \<and> m \<noteq> n \<and> m < 32"
    "bit (clear_mstatus (push_bit 11 3 :: u32) v) m \<longleftrightarrow> bit v m \<and> m \<noteq> 11 \<and> m \<noteq> 12 \<and> m < 32"
    by (auto simp only: bit_and_iff bit_or_iff nn cc b b3)
qed

lemma mstatus_mode_bit:
  "bit (set_mstatus (push_bit 11 (of_nat (rv_priv_num p)) AND push_bit 11 3 :: u32) v) m \<longleftrightarrow>
     bit v m \<or> m = 11 \<and> p \<noteq> rv_umode \<and> p \<noteq> rv_rmode \<or> m = 12 \<and> (p = rv_mmode \<or> p = rv_rmode)"
  "bit (set_mstatus (push_bit 8 (of_nat (rv_priv_num p)) AND push_bit 8 1 :: u32) v) m \<longleftrightarrow>
     bit v m \<or> m = 8 \<and> (p = rv_smode \<or> p = rv_mmode)"
proof -
  have three: "bit (3 :: u32) i \<longleftrightarrow> i = 0 \<or> i = 1" for i
  proof -
    have "(3 :: u32) = mask 2" by (simp add: mask_eq_decr_exp)
    then have "bit (3 :: u32) i \<longleftrightarrow> i < 2 \<and> i < 32" by (simp only: bit_mask_iff) auto
    then show ?thesis by auto
  qed
  have one: "bit (1 :: u32) i \<longleftrightarrow> i = 0" for i by (simp add: bit_1_iff)
  have two: "bit (2 :: u32) i \<longleftrightarrow> i = 1" for i using bit_exp_iff [of 1 i, where 'a = u32] by auto
  have num: "bit (of_nat (rv_priv_num p) :: u32) i \<longleftrightarrow> i = 0 \<and> (p = rv_smode \<or> p = rv_mmode) \<or> i = 1 \<and> (p = rv_rmode \<or> p = rv_mmode)" for i
  proof -
    have "(of_nat (rv_priv_num p) :: u32) = (case p of rv_umode \<Rightarrow> 0 | rv_smode \<Rightarrow> 1 | rv_rmode \<Rightarrow> 2 | rv_mmode \<Rightarrow> 3)" by (cases p) simp_all
    then show ?thesis by (cases p) (simp_all only: rv_priv_mode.case one two three bit_0_eq bot_apply rv_priv_mode.distinct bot_bool_def, auto)
  qed
  have cc: "bit (ucast (x :: u32) :: u64) m \<longleftrightarrow> bit x m" for x m by (auto simp: bit_simps dest: bit_imp_le_length)
  have pb: "bit (push_bit n (x :: u32)) m \<longleftrightarrow> n \<le> m \<and> m < 32 \<and> bit x (m - n)" for n x m
    using bit_push_bit_iff [of n x m] by auto
  show "bit (set_mstatus (push_bit 11 (of_nat (rv_priv_num p)) AND push_bit 11 3 :: u32) v) m \<longleftrightarrow>
     bit v m \<or> m = 11 \<and> p \<noteq> rv_umode \<and> p \<noteq> rv_rmode \<or> m = 12 \<and> (p = rv_mmode \<or> p = rv_rmode)"
    unfolding bit_or_iff cc bit_and_iff pb num three by (cases p) auto
  show "bit (set_mstatus (push_bit 8 (of_nat (rv_priv_num p)) AND push_bit 8 1 :: u32) v) m \<longleftrightarrow>
     bit v m \<or> m = 8 \<and> (p = rv_smode \<or> p = rv_mmode)"
    unfolding bit_or_iff cc bit_and_iff pb num one by (cases p) auto
qed

lemmas trap_masks =
  rv_csr_mstatus_mpie_mask_def rv_csr_mstatus_mie_mask_def rv_csr_mstatus_mpp_mask_def rv_csr_mstatus_mprv_mask_def
  rv_csr_sstatus_spie_mask_def rv_csr_sstatus_sie_mask_def rv_csr_sstatus_spp_mask_def

lemma status_numbers: "(1 :: nat) < 32" "(3 :: nat) < 32" "(5 :: nat) < 32" "(7 :: nat) < 32" "(8 :: nat) < 32" "(17 :: nat) < 32"
  by simp_all

lemmas trap_bits = status_numbers [THEN mstatus_bit(1)] status_numbers [THEN mstatus_bit(2)] mstatus_bit(3) mstatus_mode_bit

subsection \<open>The target of a trap\<close>

lemma trap_vector_ok:
  assumes "\<not> bit tvec 1"
  shows "\<exists>t. trap_vector tvec ex = Some t \<and> IS_ALIGNED t 4"
proof -
  have m: "(0b11 :: u32) = mask 2" by (simp add: mask_eq_decr_exp)
  have base: "IS_ALIGNED (tvec AND NOT 0b11) 4" unfolding m by (simp add: aligned_4_bits bit_simps)
  have "4 * x = push_bit 2 x" for x :: u32 by (simp add: push_bit_eq_mult)
  then have four: "IS_ALIGNED (4 * x) 4" for x :: u32 by (simp add: aligned_4_bits bit_simps)
  have add: "IS_ALIGNED (a + b) 4" if "IS_ALIGNED a 4" "IS_ALIGNED b 4" for a b :: u32
    using that IS_ALIGNED_dvd [of a 2] IS_ALIGNED_dvd [of b 2] IS_ALIGNED_dvd [of "a + b" 2]
    by (simp add: unat_word_ariths dvd_mod_iff)
  have "tvec AND 0b11 = (if bit tvec 0 then 1 else 0)"
    unfolding m using assms by (intro bit_word_eqI) (auto simp: bit_simps less_Suc_eq numeral_eq_Suc)
  then show ?thesis using base add [OF base four] by (auto simp: trap_vector_def Let_def)
qed

subsection \<open>Traps\<close>

text \<open>
  The status word after a trap, bit by bit. The complemented masks have the width of a register, so
  the upper half of the word is cleared.
\<close>

definition m_trap_status :: "u64 \<Rightarrow> rv_priv_mode \<Rightarrow> nat \<Rightarrow> bool" where
  "m_trap_status m p n \<longleftrightarrow> n < 32 \<and>
     (if n = 3 then False else if n = 7 then bit m 3
      else if n = 11 then p = rv_smode \<or> p = rv_mmode else if n = 12 then p = rv_mmode \<or> p = rv_rmode else bit m n)"

definition s_trap_status :: "u64 \<Rightarrow> rv_priv_mode \<Rightarrow> nat \<Rightarrow> bool" where
  "s_trap_status m p n \<longleftrightarrow> n < 32 \<and>
     (if n = 1 then False else if n = 5 then bit m 1
      else if n = 8 then p = rv_smode \<or> p = rv_mmode else bit m n)"

lemma m_trap_result:
  assumes "\<not> bit (mtvec (csr c)) 1" "ex \<noteq> rv_exc_none"
  shows "\<exists>m t. m_trap c ex = Some (c\<lparr>stdby := False,
      csr := (csr c)\<lparr>mepc := (if rv_exc_is_interrupt ex then pc_next c else pc c), mcause := rv_exc_code ex,
                      mtval := tval_next (csr c), mstatus := m\<rparr>, priv_mode := rv_mmode, pc_next := t\<rparr>) \<and>
    IS_ALIGNED t 4 \<and> (\<forall>n. bit m n = m_trap_status (mstatus (csr c)) (priv_mode c) n)"
proof -
  obtain t where t: "trap_vector (mtvec (csr c)) ex = Some t" "IS_ALIGNED t 4" using trap_vector_ok [OF assms(1)] by blast
  define m where "m = set_mstatus (push_bit 11 (of_nat (rv_priv_num (priv_mode c))) AND push_bit 11 3 :: u32)
    (clear_mstatus (push_bit 11 3 :: u32) (clear_mstatus (push_bit 3 1 :: u32)
      (if bit (mstatus (csr c)) 3 then set_mstatus (push_bit 7 1 :: u32) (mstatus (csr c))
       else clear_mstatus (push_bit 7 1 :: u32) (mstatus (csr c)))))"
  have "bit m n = m_trap_status (mstatus (csr c)) (priv_mode c) n" for n
    by (cases "bit (mstatus (csr c)) 3"; cases "priv_mode c")
      (simp_all only: m_def m_trap_status_def trap_bits if_True if_False, auto)
  moreover have "m_trap c ex = Some (c\<lparr>stdby := False,
      csr := (csr c)\<lparr>mepc := (if rv_exc_is_interrupt ex then pc_next c else pc c), mcause := rv_exc_code ex,
                      mtval := tval_next (csr c), mstatus := m\<rparr>, priv_mode := rv_mmode, pc_next := t\<rparr>)"
    using t(1) assms(2) unfolding m_trap_def m_def status_bits trap_masks by (simp only: Let_def ASSERT_True bind.bind_lunit not_False_eq_True)
  ultimately show ?thesis using t(2) by blast
qed

lemma s_trap_result:
  assumes "\<not> bit (stvec (csr c)) 1" "ex \<noteq> rv_exc_none"
  shows "\<exists>m t. s_trap c ex = Some (c\<lparr>stdby := False,
      csr := (csr c)\<lparr>sepc := (if rv_exc_is_interrupt ex then pc_next c else pc c), scause := rv_exc_code ex,
                      stval := tval_next (csr c), mstatus := m\<rparr>, priv_mode := rv_smode, pc_next := t\<rparr>) \<and>
    IS_ALIGNED t 4 \<and> (\<forall>n. bit m n = s_trap_status (mstatus (csr c)) (priv_mode c) n)"
proof -
  obtain t where t: "trap_vector (stvec (csr c)) ex = Some t" "IS_ALIGNED t 4" using trap_vector_ok [OF assms(1)] by blast
  define m where "m = set_mstatus (push_bit 8 (of_nat (rv_priv_num (priv_mode c))) AND push_bit 8 1 :: u32)
    (clear_mstatus (push_bit 8 1 :: u32) (clear_mstatus (push_bit 1 1 :: u32)
      (if bit (mstatus (csr c)) 1 then set_mstatus (push_bit 5 1 :: u32) (mstatus (csr c))
       else clear_mstatus (push_bit 5 1 :: u32) (mstatus (csr c)))))"
  have "bit m n = s_trap_status (mstatus (csr c)) (priv_mode c) n" for n
    by (cases "bit (mstatus (csr c)) 1"; cases "priv_mode c")
      (simp_all only: m_def s_trap_status_def trap_bits if_True if_False, auto)
  moreover have "s_trap c ex = Some (c\<lparr>stdby := False,
      csr := (csr c)\<lparr>sepc := (if rv_exc_is_interrupt ex then pc_next c else pc c), scause := rv_exc_code ex,
                      stval := tval_next (csr c), mstatus := m\<rparr>, priv_mode := rv_smode, pc_next := t\<rparr>)"
    using t(1) assms(2) unfolding s_trap_def m_def status_bits trap_masks
    by (simp only: Let_def ASSERT_True bind.bind_lunit not_False_eq_True)
  ultimately show ?thesis using t(2) by blast
qed

definition keeps :: "rv32_cpu \<Rightarrow> rv32_cpu option \<Rightarrow> bool" where
  "keeps c r \<longleftrightarrow> (\<exists>c'. r = Some c' \<and> cpu_inv c' \<and> mhartid (csr c') = mhartid (csr c) \<and> regs c' = regs c)"

lemma keeps_Some [simp]: "keeps c (Some c') \<longleftrightarrow> cpu_inv c' \<and> mhartid (csr c') = mhartid (csr c) \<and> regs c' = regs c"
  by (simp add: keeps_def)

lemma trap_keeps:
  assumes "cpu_inv c" "ex \<noteq> rv_exc_none"
  shows "keeps c (m_trap c ex)" "keeps c (s_trap c ex)"
proof -
  have v: "\<not> bit (mtvec (csr c)) 1" "\<not> bit (stvec (csr c)) 1" and p: "priv_mode c \<noteq> rv_rmode" "mpp_ok (mstatus (csr c))"
    using assms(1) by (simp_all add: cpu_inv_def csr_wf_def)
  have "mpp_ok m" if "\<forall>n. bit m n = m_trap_status (mstatus (csr c)) (priv_mode c) n" for m
    using that p by (simp add: mpp_ok_def m_trap_status_def)
  then show "keeps c (m_trap c ex)" using m_trap_result [OF v(1) assms(2)] assms(1)
    by (auto simp: cpu_inv_def csr_wf_def epc_ok_def)
  have "mpp_ok m" if "\<forall>n. bit m n = s_trap_status (mstatus (csr c)) (priv_mode c) n" for m
    using that p by (simp add: mpp_ok_def s_trap_status_def)
  then show "keeps c (s_trap c ex)" using s_trap_result [OF v(2) assms(2)] assms(1)
    by (auto simp: cpu_inv_def csr_wf_def epc_ok_def)
qed

lemma handle_exception_keeps: "cpu_inv c \<Longrightarrow> ex \<noteq> rv_exc_none \<Longrightarrow> \<not> rv_exc_is_interrupt ex \<Longrightarrow> keeps c (handle_exception c ex)"
  by (simp add: handle_exception_def trap_keeps)

lemma first_set_not_none: "first_set a m_priority = Some i \<Longrightarrow> i \<noteq> rv_exc_none" "first_set a s_priority = Some i \<Longrightarrow> i \<noteq> rv_exc_none"
  by (auto simp: first_set_def m_priority_def s_priority_def split: if_splits)

lemma try_handle_interrupt_keeps: "cpu_inv c \<Longrightarrow> keeps c (try_handle_interrupt c)"
  by (auto simp: try_handle_interrupt_def Let_def trap_keeps first_set_not_none split: option.splits)

subsection \<open>Accounting\<close>

definition acct :: "rv32_cpu \<Rightarrow> rv32_cpu \<Rightarrow> bool" where
  "acct c c' \<longleftrightarrow> regs c' = regs c \<and> pc c' = pc c \<and> pc_next c' = pc_next c \<and> stdby c' = stdby c \<and> priv_mode c' = priv_mode c \<and>
     mhartid (csr c') = mhartid (csr c) \<and> mstatus (csr c') = mstatus (csr c) \<and> (cpu_inv c \<longrightarrow> cpu_inv c')"

lemma acct_trans: "acct a b \<Longrightarrow> acct b c \<Longrightarrow> acct a c"
  by (simp add: acct_def)

lemma acct_simps [simp]:
  "acct c c" "acct c (c\<lparr>csr := (csr c)\<lparr>hpmcounters := h\<rparr>\<rparr>)" "acct c (c\<lparr>csr := (csr c)\<lparr>cycle := x\<rparr>\<rparr>)"
  "acct c (c\<lparr>csr := (csr c)\<lparr>mtime := x, last_tick_time := y\<rparr>\<rparr>)" "acct c (c\<lparr>csr := (csr c)\<lparr>instret := x\<rparr>\<rparr>)"
  "acct c (c\<lparr>csr := (csr c)\<lparr>external_STIP := b\<rparr>\<rparr>)"
  by (simp_all add: acct_def cpu_inv_def csr_wf_def epc_ok_def)

lemma acct_mtip: "acct c (handle_mtip c)"
  by (auto simp: handle_mtip_def acct_def cpu_inv_def csr_wf_def epc_ok_def mti_within)

lemma account_hmps_acct: "\<forall>i \<in> set is. i < 29 \<Longrightarrow> \<exists>c'. account_hmps is c = Some c' \<and> acct c c'"
proof (induction "is" arbitrary: c)
  case (Cons i "is")
  obtain c1 where c1: "account_hmp c i = Some c1" "acct c c1" using Cons.prems by (simp add: account_hmp_def) (metis acct_simps(1,2))
  obtain c2 where "account_hmps is c1 = Some c2" "acct c1 c2" using Cons by fastforce
  then show ?case using c1 acct_trans by auto
qed simp

lemma account_acct: "\<exists>c'. account now ret c = Some c' \<and> acct c c'"
proof -
  define c1 where "c1 = (if mcountinhibit (csr c) AND 0b001 = 0 then upd_csr (cycle_update (\<lambda>c. c + 1)) c else c)"
  define c2 where "c2 = upd_csr (\<lambda>c. c\<lparr>mtime := mtime c + (now - last_tick_time c), last_tick_time := now\<rparr>) c1"
  define c3 where "c3 = (if mcountinhibit (csr c2) AND 0b100 = 0 \<and> ret then upd_csr (instret_update (\<lambda>c. c + 1)) c2 else c2)"
  have upd: "acct c (c\<lparr>csr := cycle_update f (csr c)\<rparr>)" "acct c (c\<lparr>csr := instret_update f (csr c)\<rparr>)" for c f
    by (simp_all add: acct_def cpu_inv_def csr_wf_def epc_ok_def)
  have "acct c c1" by (simp add: c1_def upd)
  moreover have "acct c1 c2" by (simp add: c2_def)
  moreover have "acct c2 c3" by (simp add: c3_def upd)
  ultimately have 3: "acct c c3" by (blast intro: acct_trans)
  obtain c4 where c4: "account_hmps [0..<29] c3 = Some c4" "acct c3 c4" using account_hmps_acct [of "[0..<29]" c3] by auto
  have "acct c4 (manage_timer_interrupts c4)"
    unfolding manage_timer_interrupts_def by (rule acct_trans [OF _ acct_mtip]) (simp add: acct_def cpu_inv_def csr_wf_def epc_ok_def)
  then have "acct c (manage_timer_interrupts c4)" using 3 c4(2) by (blast intro: acct_trans)
  moreover have "account now ret c = Some (manage_timer_interrupts c4)"
    unfolding account_def Let_def c1_def [symmetric] c2_def [symmetric] c3_def [symmetric] c4(1) by simp
  ultimately show ?thesis by blast
qed

lemma finish_step_keeps:
  assumes "cpu_inv c" "\<not> rv_exc_is_interrupt ex"
  shows "\<exists>c'. finish_step now ex ret c = Some c' \<and> cpu_inv c' \<and> mhartid (csr c') = mhartid (csr c) \<and>
     regs c' = (regs c)(0 := 0)"
proof -
  have "keeps c (if ex \<noteq> rv_exc_none then handle_exception c ex else try_handle_interrupt c)"
    using assms by (simp add: handle_exception_keeps try_handle_interrupt_keeps)
  then obtain c1 where c1: "(if ex \<noteq> rv_exc_none then handle_exception c ex else try_handle_interrupt c) = Some c1"
    "cpu_inv c1" "mhartid (csr c1) = mhartid (csr c)" "regs c1 = regs c" by (auto simp only: keeps_def)
  obtain c2 where c2: "account now ret c1 = Some c2" "acct c1 c2" using account_acct by blast
  have al: "IS_ALIGNED (a + 4) 4" if "IS_ALIGNED a 4" for a :: u32
    using that IS_ALIGNED_dvd [of a 2] IS_ALIGNED_dvd [of "a + 4" 2] by (simp add: unat_word_ariths dvd_mod_iff)
  show ?thesis using c1 c2 al
    by (auto simp: finish_step_def Let_def acct_def cpu_inv_def csr_wf_def epc_ok_def simp del: if_split)
qed

subsection \<open>Returning from a trap\<close>

lemma mret_result:
  assumes "priv_mode c = rv_mmode"
  shows "\<exists>m. rv_mret_instr c instr = Some (rv_exc_none, (upd_csr (mstatus_update (\<lambda>_. m)) c)\<lparr>priv_mode := rv_csr_mstatus_mpp c, pc_next := mepc (csr c)\<rparr>) \<and>
     bit m 3 = bit (mstatus (csr (c :: rv32_cpu))) 7 \<and> bit m 7"
proof -
  define m3 where "m3 = clear_mstatus (push_bit 11 3 :: u32) (set_mstatus (push_bit 7 1 :: u32)
    (if bit (mstatus (csr c)) 7 then set_mstatus (push_bit 3 1 :: u32) (mstatus (csr c))
     else clear_mstatus (push_bit 3 1 :: u32) (mstatus (csr c))))"
  define m4 where "m4 = (if rv_csr_mstatus_mpp c \<noteq> rv_mmode then clear_mstatus (push_bit 17 1 :: u32) m3 else m3)"
  have "bit m3 3 = bit (mstatus (csr c)) 7" "bit m3 7"
    by (cases "bit (mstatus (csr c)) 7"; simp only: m3_def trap_bits if_True if_False, simp)+
  moreover have "bit m4 3 = bit m3 3" "bit m4 7 = bit m3 7"
    by (simp_all only: m4_def trap_bits split: if_split) simp_all
  moreover have "rv_mret_instr c instr = Some (rv_exc_none, (upd_csr (mstatus_update (\<lambda>_. m4)) c)\<lparr>priv_mode := rv_csr_mstatus_mpp c, pc_next := mepc (csr c)\<rparr>)"
    using assms unfolding rv_mret_instr_def m4_def m3_def status_bits trap_masks Let_def
    by (simp only: order_less_irrefl if_False)
  ultimately show ?thesis by blast
qed

lemma sret_result:
  assumes "priv_mode c = rv_smode" "\<not> bit (mstatus (csr c)) 22"
  shows "\<exists>m. rv_sret_instr c instr = Some (rv_exc_none, (upd_csr (mstatus_update (\<lambda>_. m)) c)\<lparr>priv_mode := rv_csr_sstatus_spp c, pc_next := sepc (csr c)\<rparr>) \<and>
     bit m 1 = bit (mstatus (csr (c :: rv32_cpu))) 5 \<and> bit m 5"
proof -
  define m4 where "m4 = clear_mstatus (push_bit 17 1 :: u32) (clear_mstatus (push_bit 8 1 :: u32) (set_mstatus (push_bit 5 1 :: u32)
    (if bit (mstatus (csr c)) 5 then set_mstatus (push_bit 1 1 :: u32) (mstatus (csr c))
     else clear_mstatus (push_bit 1 1 :: u32) (mstatus (csr c)))))"
  have "bit m4 1 = bit (mstatus (csr c)) 5" "bit m4 5"
    by (cases "bit (mstatus (csr c)) 5"; simp only: m4_def trap_bits if_True if_False, simp)+
  moreover have "rv_sret_instr c instr = Some (rv_exc_none, (upd_csr (mstatus_update (\<lambda>_. m4)) c)\<lparr>priv_mode := rv_csr_sstatus_spp c, pc_next := sepc (csr c)\<rparr>)"
    using assms unfolding rv_sret_instr_def m4_def status_bits trap_masks Let_def
    by (simp only: order_less_irrefl if_False)
  ultimately show ?thesis by blast
qed

lemma spp_bits: "rv_csr_sstatus_spp (c :: rv32_cpu) = (if bit (mstatus (csr c)) 8 then rv_smode else rv_umode)"
proof -
  have "drop_bit 8 (mstatus (csr c) AND push_bit 8 1) = (if bit (mstatus (csr c)) 8 then 1 else 0)"
    by (rule bit_eqI) (auto simp: bit_simps intro: gr0I)
  then show ?thesis by (simp add: rv_csr_sstatus_spp_def rv_csr_sstatus_spp_mask_def rv_priv_of_def)
qed

lemma mret_undoes_m_trap:
  assumes "priv_mode c \<noteq> rv_rmode" "\<not> bit (mtvec (csr c)) 1" "ex \<noteq> rv_exc_none"
  shows "\<exists>c1 c2. m_trap c ex = Some c1 \<and> rv_mret_instr c1 instr = Some (rv_exc_none, c2) \<and>
     priv_mode c2 = priv_mode c \<and> pc_next c2 = (if rv_exc_is_interrupt ex then pc_next c else pc c) \<and>
     rv_csr_mstatus_mie c2 = rv_csr_mstatus_mie c \<and> regs c2 = regs c"
proof -
  obtain m t where t: "m_trap c ex = Some (c\<lparr>stdby := False,
      csr := (csr c)\<lparr>mepc := (if rv_exc_is_interrupt ex then pc_next c else pc c), mcause := rv_exc_code ex,
                      mtval := tval_next (csr c), mstatus := m\<rparr>, priv_mode := rv_mmode, pc_next := t\<rparr>)" (is "_ = Some ?c1")
    "\<forall>n. bit m n = m_trap_status (mstatus (csr c)) (priv_mode c) n"
    using m_trap_result [OF assms(2,3)] by blast
  obtain m' where r: "rv_mret_instr ?c1 instr = Some (rv_exc_none, (upd_csr (mstatus_update (\<lambda>_. m')) ?c1)\<lparr>priv_mode := rv_csr_mstatus_mpp ?c1, pc_next := mepc (csr ?c1)\<rparr>)"
    "bit m' 3 = bit (mstatus (csr ?c1)) 7"
    using mret_result [of ?c1 instr] by auto
  have "rv_csr_mstatus_mpp ?c1 = priv_mode c" using t(2) assms(1) by (cases "priv_mode c") (simp_all add: mpp_bits m_trap_status_def)
  then show ?thesis using t r by (auto simp: status_bits m_trap_status_def)
qed

lemma sret_undoes_s_trap:
  assumes "priv_mode c \<le> rv_smode" "\<not> bit (stvec (csr c)) 1" "ex \<noteq> rv_exc_none" "\<not> rv_csr_mstatus_tsr c"
  shows "\<exists>c1 c2. s_trap c ex = Some c1 \<and> rv_sret_instr c1 instr = Some (rv_exc_none, c2) \<and>
     priv_mode c2 = priv_mode c \<and> pc_next c2 = (if rv_exc_is_interrupt ex then pc_next c else pc c) \<and>
     rv_csr_sstatus_sie c2 = rv_csr_sstatus_sie c \<and> regs c2 = regs c"
proof -
  obtain m t where t: "s_trap c ex = Some (c\<lparr>stdby := False,
      csr := (csr c)\<lparr>sepc := (if rv_exc_is_interrupt ex then pc_next c else pc c), scause := rv_exc_code ex,
                      stval := tval_next (csr c), mstatus := m\<rparr>, priv_mode := rv_smode, pc_next := t\<rparr>)" (is "_ = Some ?c1")
    "\<forall>n. bit m n = s_trap_status (mstatus (csr c)) (priv_mode c) n"
    using s_trap_result [OF assms(2,3)] by blast
  obtain m' where r: "rv_sret_instr ?c1 instr = Some (rv_exc_none, (upd_csr (mstatus_update (\<lambda>_. m')) ?c1)\<lparr>priv_mode := rv_csr_sstatus_spp ?c1, pc_next := sepc (csr ?c1)\<rparr>)"
    "bit m' 1 = bit (mstatus (csr ?c1)) 5"
    using sret_result [of ?c1 instr] t(2) assms(4) by (auto simp: status_bits s_trap_status_def)
  have "rv_csr_sstatus_spp ?c1 = priv_mode c" using t(2) assms(1)
    by (cases "priv_mode c") (simp_all add: spp_bits s_trap_status_def less_eq_rv_priv_mode_def)
  then show ?thesis using t r by (auto simp: status_bits s_trap_status_def)
qed

subsection \<open>Which interrupt is taken\<close>

lemma first_set_found:
  assumes "first_set a m_priority = Some i \<or> first_set a s_priority = Some i"
  shows "rv_exc_is_interrupt i" "bit a (rv_exc_no i)" "i \<noteq> rv_exc_none"
proof -
  have "i \<in> set m_priority \<union> set s_priority" "a AND push_bit (rv_exc_no i) 1 \<noteq> 0"
    using assms by (auto simp: first_set_def find_Some_iff in_set_conv_nth RV_EXCEPTION_MASK_def)
  then show "rv_exc_is_interrupt i" "bit a (rv_exc_no i)" "i \<noteq> rv_exc_none"
    unfolding mask_bit by (auto simp: m_priority_def s_priority_def)
qed

lemma exception_mask_bit: "x AND RV_EXCEPTION_MASK i \<noteq> 0 \<longleftrightarrow> bit x (rv_exc_no i)" for x :: "'x::len word"
  unfolding RV_EXCEPTION_MASK_def by (rule mask_bit)

lemma interrupt_taken:
  assumes inv: "cpu_inv c" and taken: "try_handle_interrupt c = Some c'"
  shows "c' = c \<or>
     (\<exists>i. rv_exc_is_interrupt i \<and> effective_mip c AND mie (csr c) AND RV_EXCEPTION_MASK i \<noteq> 0 \<and>
       (can_trap_to_M c \<and> mideleg (csr c) AND RV_EXCEPTION_MASK i = 0 \<and> m_trap c i = Some c' \<and> mcause (csr c') = rv_exc_code i \<or>
        can_trap_to_S c \<and> s_trap c i = Some c' \<and> scause (csr c') = rv_exc_code i))"
proof -
  have v: "\<not> bit (mtvec (csr c)) 1" "\<not> bit (stvec (csr c)) 1" using inv by (simp_all add: cpu_inv_def csr_wf_def)
  have pend: "effective_mip c AND mie (csr c) AND RV_EXCEPTION_MASK i \<noteq> 0 \<longleftrightarrow> bit (effective_mip c AND mie (csr c)) (rv_exc_no i)" for i
    using exception_mask_bit [of "effective_mip c AND mie (csr c)" i] by (simp add: and.assoc)
  consider "c' = c" | i where "can_trap_to_M c" "first_set (effective_mip c AND mie (csr c) AND NOT (mideleg (csr c))) m_priority = Some i" "m_trap c i = Some c'"
    | i where "can_trap_to_S c" "first_set (effective_mip c AND mie (csr c) AND rv_csr_si_mask) s_priority = Some i" "s_trap c i = Some c'"
    using taken by (auto simp: try_handle_interrupt_def Let_def split: if_splits option.splits)
  then show ?thesis
  proof cases
    case (2 i)
    note f = first_set_found [OF disjI1 [OF 2(2)]]
    have "mideleg (csr c) AND RV_EXCEPTION_MASK i = 0" using f(2) exception_mask_bit [of "mideleg (csr c)" i] by (auto simp: bit_simps)
    moreover have "bit (effective_mip c AND mie (csr c)) (rv_exc_no i)" using f(2) by (simp add: bit_simps)
    moreover have "mcause (csr c') = rv_exc_code i" using 2(3) m_trap_result [OF v(1) f(3)] by auto
    ultimately show ?thesis using 2 f(1) pend by blast
  next
    case (3 i)
    note f = first_set_found [OF disjI2 [OF 3(2)]]
    have "bit (effective_mip c AND mie (csr c)) (rv_exc_no i)" using f(2) by (simp add: bit_simps)
    moreover have "scause (csr c') = rv_exc_code i" using 3(3) s_trap_result [OF v(2) f(3)] by auto
    ultimately show ?thesis using 3 f(1) pend by blast
  qed simp
qed

end
