(* ===== verification/Rv32_Step.thy ===== *)
theory Rv32_Step
  imports Rv32_Cache Rv32_Traps
begin

text \<open>
  The simulation step. From a machine that satisfies \<open>sim_inv\<close>, a step of a processor returns and
  establishes the invariant again, whatever the instruction, provided that the instruction comes
  from memory and is not an access to one of the registers in \<open>csr_risky\<close>. Sequences of steps of
  several processors in any order follow by induction.
\<close>

definition sim_inv :: "nat set \<Rightarrow> ('d, 'z) rv32_sim \<Rightarrow> bool" where
  "sim_inv K s \<longleftrightarrow> mach_ok s \<and> cache_ok s \<and> (\<forall>k \<in> K. cpu_inv (cpu_mem s k))"

text \<open>The condition on the next instruction of a processor.\<close>

definition fetch_plain :: "nat \<Rightarrow> ('d, 'z) rv32_sim \<Rightarrow> bool" where
  "fetch_plain k s \<longleftrightarrow>
     (case rv32_convert_addr k (pc (cpu_mem s k)) False True True s of
        Some (Inr phys, s1) \<Rightarrow> frame_at (page_of phys) s1 \<noteq> None \<and>
          (is_csr_fn (decode_word s1 phys) \<longrightarrow> \<not> csr_risky (csr_field (mem_word s1 phys)))
      | _ \<Rightarrow> True)"

lemma make_phys_bound: "unat (make_phys_from_ppn virt pte mega) < 2 ^ 36"
proof -
  have ppn: "\<not> bit (ucast (p :: 22 word) :: ptr36) i" if "22 \<le> i" for p i
    using that by (auto simp: bit_simps dest: bit_imp_le_length)
  have v: "\<not> bit (ucast (v :: u32) :: ptr36) i" if "32 \<le> i" for v i
    using that by (auto simp: bit_simps dest: bit_imp_le_length)
  have "\<not> bit (make_phys_from_ppn virt pte mega) n" if "36 \<le> n" for n
    using that ppn [of "n - 12"] v [of n]
    by (cases mega) (simp_all only: make_phys_from_ppn_def Let_def bit_or_iff bit_push_12 if_True if_False, auto)
  then have "take_bit 36 (make_phys_from_ppn virt pte mega) = make_phys_from_ppn virt pte mega"
    by (intro bit_word_eqI) (auto simp: bit_take_bit_iff not_less [symmetric])
  then have "unat (make_phys_from_ppn virt pte mega) = unat (take_bit 36 (make_phys_from_ppn virt pte mega))" by simp
  also have "\<dots> < 2 ^ 36" unfolding unsigned_take_bit_eq by (rule take_bit_nat_less_exp)
  finally show ?thesis .
qed

lemma tlb_ready_bound: "tlb_ready cpu virt wr fetch phys \<Longrightarrow> unat phys < 2 ^ 36"
proof -
  have "unat virt < 2 ^ 32" using unsigned_less [of virt, where 'a = nat] by simp
  then have "unat (ucast (virt :: u32) :: ptr36) < 2 ^ 36" by (simp add: unsigned_ucast_eq take_bit_eq_mod)
  then show "tlb_ready cpu virt wr fetch phys \<Longrightarrow> unat phys < 2 ^ 36"
    using make_phys_bound by (auto simp: tlb_ready_def split: if_splits)
qed

text \<open>What execution changes: like \<open>exec_step\<close>, with the \<open>valid\<close> flags and the cache.\<close>

definition run_step :: "nat \<Rightarrow> ('d, 'z) rv32_sim \<Rightarrow> ('d, 'z) rv32_sim \<Rightarrow> bool" where
  "run_step k s s' \<longleftrightarrow> mach_ok s' \<and> cache_ok s' \<and> devs_evolve (devices s) (devices s') \<and> (\<forall>j. j \<noteq> k \<longrightarrow> touched (cpu_mem s j) (cpu_mem s' j)) \<and>
     cpu_keeps (cpu_mem s k) (cpu_mem s' k)"

lemma run_step_refl: "mach_ok s \<Longrightarrow> cache_ok s \<Longrightarrow> run_step k s s"
  by (simp add: run_step_def)

lemma run_step_exec: "exec_step k s s' \<Longrightarrow> cache_ok s \<Longrightarrow> run_step k s s'"
  using evolves_cache_ok [of s s'] sys_evolves_basic(1,5) [of mach_ok s s'] by (simp add: exec_step_def run_step_def)

lemma run_step_trans: "run_step k a b \<Longrightarrow> run_step k b c \<Longrightarrow> run_step k a c"
  by (auto simp: run_step_def intro: touched_trans cpu_keeps_trans devs_evolve_trans)

lemma run_step_fetch: "fetch_step s s' \<Longrightarrow> run_step k s s'"
  by (simp add: fetch_step_def run_step_def)

lemma execute_safe:
  assumes ok: "mach_ok s" and ca: "cache_ok s" and inv: "cpu_inv (cpu_mem s k)" and plain: "fetch_plain k s"
  shows "\<exists>ex s'. execute k s = Some (ex, s') \<and> \<not> rv_exc_is_interrupt ex \<and> run_step k s s'"
proof -
  let ?pc = "pc (cpu_mem s k)"
  obtain r s1 where c: "rv32_convert_addr k ?pc False True True s = Some (r, s1)" "mem_step k s s1" "translated (cpu_mem s1 k) ?pc False True r"
    using convert_ok [OF ok cpu_inv_tlb [OF inv], of False True] by blast
  have e1: "run_step k s s1" by (rule run_step_exec [OF mem_step_exec [OF c(2)] ca])
  show ?thesis
  proof (cases r)
    case (Inl ex)
    then show ?thesis using c e1 by (simp add: execute_def translated_def)
  next
    case (Inr phys)
    then have rdy: "tlb_ready (cpu_mem s1 k) ?pc False True phys" using c(3) by (simp add: translated_def)
    have al: "IS_ALIGNED phys 4" using tlb_ready_aligned(2) [OF rdy] inv by (simp add: cpu_inv_def)
    have pl: "frame_at (page_of phys) s1 \<noteq> None" "is_csr_fn (decode_word s1 phys) \<Longrightarrow> \<not> csr_risky (csr_field (mem_word s1 phys))"
      using plain c(1) Inr by (simp_all add: fetch_plain_def)
    obtain s2 where s2: "fetch_instr k phys s1 = Some (decode_word s1 phys, s2)" "fetch_step s1 s2"
      using fetch_instr_ok [OF _ _ al tlb_ready_bound [OF rdy] pl(1), of k] e1 by (auto simp: run_step_def)
    have ok2: "mach_ok s2" "cache_ok s2" "mem_word s2 phys = mem_word s1 phys" "frame_at (page_of phys) s2 \<noteq> None"
      using s2(2) pl(1) by (simp_all add: fetch_step_def mem_word_def)
    obtain s3 where s3: "physmem_read32 (hartid k s2) phys True s2 = Some (mem_word s2 phys, s3)" "env_step s2 s3"
      using physmem_read32_word [OF ok2(1) al frame_phys_byte [OF ok2(1,4)]] by blast
    have e3: "run_step k s s3"
      using e1 run_step_fetch [OF s2(2)] run_step_exec [OF mem_step_exec [OF env_mem_step [OF s3(2)]] ok2(2)]
      by (blast intro: run_step_trans)
    then have ok3: "mach_ok s3" "cache_ok s3" "cpu_inv (cpu_mem s3 k)" using inv by (simp_all add: run_step_def cpu_keeps_def)
    have "instr_safe k s3 (call_instr_func (decode_word s1 phys) k (mem_word s2 phys) s3)"
      using pl(2) ok2(3) by (intro call_instr_safe [OF ok3(1,3)] rv32_instr_decode_pre [OF decode_word [of s1 phys], unfolded ok2(3) [symmetric]]) simp
    then obtain ex s4 where s4: "call_instr_func (decode_word s1 phys) k (mem_word s2 phys) s3 = Some (ex, s4)"
      "\<not> rv_exc_is_interrupt ex" "exec_step k s3 s4" by (auto simp: instr_safe_def)
    have e4: "run_step k s s4" using run_step_trans [OF e3 run_step_exec [OF s4(3) ok3(2)]] .
    have "run_step k s4 (set_cpu k (upd_csr (tval_next_update (\<lambda>_. v)) (cpu_mem s4 k)) s4)" for v
      using e4 by (intro run_step_exec exec_step_set_cpu) (simp_all add: run_step_def)
    then show ?thesis using c(1) Inr s2(1) s3(1) s4(1,2) e4 run_step_trans [OF e4] by (simp add: execute_def)
  qed
qed

lemma rv32_cpu_step_safe:
  assumes inv: "sim_inv K s" and k: "k \<in> K" and plain: "\<not> stdby (cpu_mem s k) \<Longrightarrow> fetch_plain k s"
  shows "\<exists>s'. rv32_cpu_step now k s = Some s' \<and> sim_inv K s' \<and> devs_evolve (devices s) (devices s') \<and> regs (cpu_mem s' k) 0 = 0"
proof -
  have i: "mach_ok s" "cache_ok s" "\<And>j. j \<in> K \<Longrightarrow> cpu_inv (cpu_mem s j)" using inv by (simp_all add: sim_inv_def)
  have "\<exists>ex s1. (if \<not> stdby (cpu_mem s k) then execute k s else Some (rv_exc_none, s)) = Some (ex, s1) \<and>
      \<not> rv_exc_is_interrupt ex \<and> run_step k s s1"
    using execute_safe [OF i(1,2) i(3) [OF k] plain] run_step_refl [OF i(1,2)] by auto
  then obtain ex s1 where s1: "(if \<not> stdby (cpu_mem s k) then execute k s else Some (rv_exc_none, s)) = Some (ex, s1)"
    "\<not> rv_exc_is_interrupt ex" "run_step k s s1" by blast
  have inv1: "cpu_inv (cpu_mem s1 k)" using s1(3) i(3) [OF k] by (simp add: run_step_def cpu_keeps_def)
  obtain c where c: "finish_step now ex (\<not> stdby (cpu_mem s k) \<and> ex = rv_exc_none) (cpu_mem s1 k) = Some c" "cpu_inv c"
    "regs c = (regs (cpu_mem s1 k))(0 := 0)"
    using finish_step_keeps [OF inv1 s1(2)] by blast
  have "sys_evolves s1 (set_cpu k c s1)" using s1(3) by (intro sys_evolves_set_cpu) (simp add: run_step_def)
  then have "mach_ok (set_cpu k c s1)" "cache_ok (set_cpu k c s1)" using s1(3) evolves_cache_ok sys_evolves_ok by (auto simp: run_step_def)
  moreover have "cpu_inv (cpu_mem s1 j)" if "j \<in> K" "j \<noteq> k" for j
    using that s1(3) i(3) [OF that(1)] touched_cpu_inv by (auto simp: run_step_def)
  ultimately have "sim_inv K (set_cpu k c s1)" using c(2) by (auto simp: sim_inv_def)
  moreover have "rv32_cpu_step now k s = Some (set_cpu k c s1)"
    unfolding rv32_cpu_step_def s1(1) using c(1) by (simp add: Let_def)
  ultimately show ?thesis using c(3) s1(3) by (simp add: run_step_def)
qed

text \<open>Steps of several processors, each with the time at which it happens.\<close>

fun run_steps :: "(u64 \<times> nat) list \<Rightarrow> ('d, 'z) rv32_sim \<Rightarrow> ('d, 'z) rv32_sim option" where
  "run_steps [] s = Some s"
| "run_steps ((now, k) # ks) s = do { s1 \<leftarrow> rv32_cpu_step now k s; run_steps ks s1 }"

fun plain_run :: "(u64 \<times> nat) list \<Rightarrow> ('d, 'z) rv32_sim \<Rightarrow> bool" where
  "plain_run [] s \<longleftrightarrow> True"
| "plain_run ((now, k) # ks) s \<longleftrightarrow> (stdby (cpu_mem s k) \<or> fetch_plain k s) \<and>
     (case rv32_cpu_step now k s of None \<Rightarrow> True | Some s1 \<Rightarrow> plain_run ks s1)"

lemma run_steps_safe:
  assumes "sim_inv K s" "snd ` set ks \<subseteq> K" "plain_run ks s"
  shows "\<exists>s'. run_steps ks s = Some s' \<and> sim_inv K s'"
  using assms
proof (induction ks arbitrary: s)
  case (Cons p ks)
  obtain now k where p: "p = (now, k)" by (cases p)
  obtain s1 where "rv32_cpu_step now k s = Some s1" "sim_inv K s1"
    using rv32_cpu_step_safe [of K s k now] Cons.prems p by auto
  then show ?case using Cons p by auto
qed simp

end
