(* ===== verification/Sim_Demo.thy ===== *)
theory Sim_Demo
  imports Rv32_Step Rv_Properties
begin

text \<open>A concrete machine, on which the properties of the running system are evaluated.\<close>

subsection \<open>A machine for the witnesses\<close>

text \<open>
  One processor, a page of code at the start address, whose first instruction is \<open>addi x1, x0, 5\<close>,
  and a root page table at \<open>0x1000\<close> that maps the first megapage to itself.
\<close>

definition sim_cpu :: "rv_priv_mode \<Rightarrow> rv32_cpu" where
  "sim_cpu mode = (demo_cpu mode)\<lparr>csr := (csr (demo_cpu mode))\<lparr>satp := 0x80000001\<rparr>\<rparr>"

definition sim_frame :: "nat \<Rightarrow> frame" where
  "sim_frame b = \<lparr>frame_area = Some b, frame_data = Some (b, 0), valid = False\<rparr>"

definition sim_byte :: "nat \<Rightarrow> nat \<Rightarrow> u8" where
  "sim_byte b i =
     (if b = 0 then (if i = 0 then 0x93 else if i = 2 then 0x50 else 0)
      else if i = 0 then 0xCF else 0)"

definition sim_dev :: "'d device list \<Rightarrow> rv_priv_mode \<Rightarrow> ('d, unit) rv32_sim" where
  "sim_dev ds mode =
     \<lparr>cpu_list = [0], gcpus = (\<lambda>_. \<lparr>cpuno = 0, cpu_type = rv32_cpu_ops, cpu_data = 0\<rparr>), cpu_mem = (\<lambda>_. sim_cpu mode),
      devices = ds,
      ftl0 = (\<lambda>i. if i = 240 then FTL1 (\<lambda>j. if j = 0 then Some (sim_frame 0) else None)
                  else if i = 0 then FTL1 (\<lambda>j. if j = 1 then Some (sim_frame 1) else None) else FTL1_NULL),
      areas = (\<lambda>a. \<lparr>area_type = MEMT_MEM, writable = True, area_start = (if a = 0 then 0xF0000 else 1), area_count = 1,
                     area_data = Some (a, 0)\<rparr>),
      mem_size = (\<lambda>_. 4096), mem_bytes = sim_byte, sc_list = [], physmem_breakpoints = [],
      machine_trace = False, machine_halt = False, machine_interactive = False, machine_undefined = False,
      machine_specific_instructions = False, machine_allow_interactive_without_tty = False, input_terminal = False,
      remote_gdb_listen = False, rv_instruction_cache = []\<rparr>"

text \<open>The machine without devices.\<close>

abbreviation sim :: "rv_priv_mode \<Rightarrow> (unit, unit) rv32_sim" where
  "sim \<equiv> sim_dev []"

lemma sim_parts [simp]:
  "writable (areas (sim_dev ds m) a)" "mem_size (sim_dev ds m) b = 4096" "mem_bytes (sim_dev ds m) = sim_byte" "ftl0 (sim_dev ds m) i \<noteq> FTL1_FREED"
  "cpu_list (sim_dev ds m) = [0]" "cpu_type (gcpus (sim_dev ds m) g) = rv32_cpu_ops" "cpu_mem (sim_dev ds m) k = sim_cpu m"
  "devices (sim_dev ds m) = ds" "rv_instruction_cache (sim_dev ds m) = []" "machine_specific_instructions (sim_dev ds m) = False"
  by (simp_all add: sim_dev_def)

lemma sim_frame_at: "frame_at p (sim_dev ds m) = (if p = 0xF0000 then Some (sim_frame 0) else if p = 1 then Some (sim_frame 1) else None)"
proof -
  have d: "p div 4096 * 4096 + p mod 4096 = p" by simp
  show ?thesis using d by (auto simp: frame_at_def sim_dev_def simp del: div_mult_mod_eq)
qed

lemma sim_dev_mach_ok: "\<forall>d \<in> set ds. dev_ok d \<Longrightarrow> mach_ok (sim_dev ds m)"
  by (auto simp: mach_ok_def physmem_ok_def sim_frame_at sim_frame_def)

lemma sim_cpu_inv: "m \<noteq> rv_rmode \<Longrightarrow> cpu_inv (sim_cpu m)"
proof -
  have "IS_ALIGNED (0xF0000000 :: u32) 4" "IS_ALIGNED (0xF0000004 :: u32) 4" "IS_ALIGNED (0 :: u32) 4" by (simp_all add: IS_ALIGNED_def)
  moreover assume "m \<noteq> rv_rmode"
  ultimately show ?thesis using demo_cpu_wf [of m] demo_tlb_wf
    by (simp add: cpu_inv_def sim_cpu_def csr_wf_def epc_ok_def)
      (simp add: demo_cpu_def RV_START_ADDRESS_def rv_init_csr_def zero_csr_def)
qed

lemma sim_mach_ok: "mach_ok (sim m)"
  by (rule sim_dev_mach_ok) simp

lemma sim_dev_sim_inv: "m \<noteq> rv_rmode \<Longrightarrow> \<forall>d \<in> set ds. dev_ok d \<Longrightarrow> sim_inv {0} (sim_dev ds m)"
  by (simp add: sim_inv_def sim_dev_mach_ok sim_cpu_inv cache_ok_def)

lemma sim_sim_inv: "m \<noteq> rv_rmode \<Longrightarrow> sim_inv {0} (sim m)"
  by (rule sim_dev_sim_inv) simp_all

lemma sim_phys_byte:
  "phys_byte (sim_dev ds m) a = (if unat a div 4096 = 0xF0000 then Some (sim_byte 0 (unat a mod 4096))
     else if unat a div 4096 = 1 then Some (sim_byte 1 (unat a mod 4096)) else None)"
  by (simp add: phys_byte_def sim_frame_at sim_frame_def)

lemma load_le_4:
  "(load_le 4 f 0 :: u32) = ucast (f 0) OR push_bit 8 (ucast (f 1) OR push_bit 8 (ucast (f 2) OR push_bit 8 (ucast (f 3))))"
  by (simp add: eval_nat_numeral)

lemma sim_words: "mem_word (sim_dev ds m) 0xF0000000 = 0x00500093" "mem_word (sim_dev ds m) 0x1000 = 0xCF"
  by (simp_all add: mem_word_def abs_load_def load_le_4 sim_phys_byte sim_byte_def)

lemma sim_decode: "decode_word (sim_dev ds m) 0xF0000000 = fn_addi"
proof -
  have "instr_opcode 0x00500093 = 0x13" "instr_funct3 0x00500093 = 0" by (simp_all add: instr_opcode_def instr_funct3_def)
  then have "rv32_instr_decode False 0x00500093 = Some fn_addi"
    by (simp add: rv32_instr_decode_def decode_OP_IMM_def rv_opc_defs rv_func_ADDI_def)
  then show ?thesis by (simp add: decode_word_def sim_words)
qed

lemma sim_fetch: "rv32_convert_addr 0 (pc (cpu_mem (sim_dev ds rv_mmode) 0)) False True True (sim_dev ds rv_mmode) = Some (Inr 0xF0000000, sim_dev ds rv_mmode)"
  by (simp add: rv32_convert_addr_def sim_cpu_def demo_cpu_def RV_START_ADDRESS_def)

lemma sim_plain: "fetch_plain 0 (sim_dev ds rv_mmode)"
  unfolding fetch_plain_def sim_fetch by (simp add: sim_frame_at page_of_div sim_decode is_csr_fn_def)

end
