(* ===== verification/Step_Properties.thy ===== *)
theory Step_Properties
  imports Sim_Demo
begin

text \<open>
  The properties of the running RV32 processor: address translation, the instruction cache, the
  instructions, traps, and the simulation step, each with its witness.
\<close>

subsection \<open>The simulation step\<close>







subsection \<open>The instruction cache\<close>

text \<open>
  C7: fetching through the instruction cache gives the decoding of the word that memory holds at
  the address, from any state that satisfies the invariant of the cache; it changes neither the
  memory contents nor the processors, and keeps the invariant.
\<close>

theorem fetch_decodes_memory:
  assumes "mach_ok s" "cache_ok s" "IS_ALIGNED phys 4" "unat phys < 2 ^ 36" "frame_at (page_of phys) s \<noteq> None"
  shows "\<exists>f s'. fetch_instr k phys s = Some (f, s') \<and>
     rv32_instr_decode (machine_specific_instructions s) (mem_word s phys) = Some f \<and>
     mach_ok s' \<and> cache_ok s' \<and> phys_byte s' = phys_byte s \<and> cpu_mem s' = cpu_mem s"
  using fetch_instr_ok [OF assms, of k] decode_word [of s phys] by (auto simp: fetch_step_def)

theorem fetch_decodes_memory_witness:
  "\<exists>f s'. fetch_instr 0 0xF0000000 (sim rv_mmode) = Some (f, s') \<and> rv32_instr_decode False 0x00500093 = Some f \<and> cache_ok s'"
  using fetch_decodes_memory [OF sim_mach_ok, of rv_mmode "0xF0000000" 0]
  by (auto simp: sim_words sim_frame_at page_of_div cache_ok_def IS_ALIGNED_def)

text \<open>
  C9: code that modifies itself is executed as modified: after a successful 32-bit store to an
  instruction, the fetch of that address gives the decoding of the stored word, also when the page
  was cached before.
\<close>

theorem fetch_after_store:
  assumes "mach_ok s" "cache_ok s" "IS_ALIGNED phys 4" "unat phys < 2 ^ 36" "phys_byte s (ucast phys) \<noteq> None" "writable_at s phys"
  shows "\<exists>s1 f s2. physmem_write32 p phys w True s = Some (True, s1) \<and> fetch_instr k phys s1 = Some (f, s2) \<and>
     rv32_instr_decode (machine_specific_instructions s) w = Some f"
proof -
  have d: "4 dvd unat phys" using assms(3) IS_ALIGNED_dvd [of phys 2] by simp
  obtain s1 where s1: "physmem_write32 p phys w True s = Some (True, s1)" "phys_byte s1 = abs_store 4 (phys_byte s) (ucast phys) w"
    using mem32.wr_ok [OF mach_ok_mem_inv [OF assms(1)] d assms(5,6)] by blast
  obtain b s1' where e': "physmem_write32 p phys w True s = Some (b, s1')" "env_step s s1'"
    using physmem_write_env(3) [OF assms(1,3)] by blast
  then have e: "env_step s s1" using s1(1) by simp
  note ev = env_stepD(1) [OF e] and b = sys_evolves_basic [OF env_stepD(1) [OF e]]
  have "frame_at (page_of phys) s1 \<noteq> None" using phys_byte_frame [OF assms(5)] b(4) by auto
  moreover have "mem_word s1 phys = w" by (simp add: mem_word_def s1(2) abs_load_store_same)
  ultimately show ?thesis
    using s1(1) fetch_instr_ok [OF b(1) evolves_cache_ok [OF ev assms(2)] assms(3,4), of k] decode_word [of s1 phys] b(3) by auto
qed

theorem fetch_after_store_witness:
  "\<exists>s1 f s2. physmem_write32 0 0xF0000000 0x00000073 True (sim rv_mmode) = Some (True, s1) \<and>
     fetch_instr 0 0xF0000000 s1 = Some (f, s2) \<and> rv32_instr_decode False 0x00000073 = Some f"
  using fetch_after_store [OF sim_mach_ok, of rv_mmode "0xF0000000" 0 "0x00000073" 0]
  by (simp add: sim_phys_byte cache_ok_def IS_ALIGNED_def writable_at_def sim_frame_at sim_frame_def page_of_div)

subsection \<open>Address translation\<close>


lemma sim_satp:
  "rv_csr_satp_ppn (sim_cpu m) = 1" "\<not> rv_csr_satp_is_bare (sim_cpu m)" "rv_csr_satp_asid (sim_cpu m) = 0"
  "tlb (sim_cpu m) = demo_tlb" "priv_mode (sim_cpu m) = m" "sv32_effective_priv (sim_cpu m) = m"
  "\<not> rv_csr_mstatus_mprv (sim_cpu m)"
  by (simp_all add: sim_cpu_def demo_cpu_def rv_csr_satp_ppn_def rv_csr_satp_ppn_mask_def rv_csr_satp_is_bare_def
      rv_csr_satp_mode_mask_def rv_csr_satp_asid_def rv_csr_asid_mask_def rv_csr_satp_asid_offset_def
      sv32_effective_priv_def rv_csr_mstatus_mprv_def rv_init_csr_def zero_csr_def)

lemma sim_pte: "pte_from_uint 0xCF = \<lparr>pte_v = True, pte_r = True, pte_w = True, pte_x = True, pte_u = False, pte_g = False,
    pte_a = True, pte_d = True, pte_rsw = 0, pte_ppn = 0\<rparr>"
  by (simp add: pte_from_uint_def)


text \<open>
  C10: a translation that succeeded for writing is remembered. The accesses that follow, the load
  and the store of an atomic instruction, do not fault and use the same physical address.
\<close>

theorem translation_remembered:
  assumes "mach_ok s" "cpu_inv (cpu_mem s k)" "IS_ALIGNED virt 4" "rv32_convert_addr k virt True False True s = Some (Inr phys, s1)"
  shows "\<exists>v s2 s3. rv_read_mem32 rv32_convert_addr k virt False True s1 = Some (Inr v, s2) \<and>
     rv_write_mem32 rv32_convert_addr k virt w True s2 = Some (Inr (), s3) \<and> mach_ok s3 \<and> cpu_inv (cpu_mem s3 k)"
proof -
  have m: "mem_step k s s1" and r: "tlb_ready (cpu_mem s1 k) virt True False phys"
    using convert_ok [OF assms(1) cpu_inv_tlb [OF assms(2)], of True False virt True] assms(4) by (auto simp: translated_def)
  note i1 = exec_stepD(3) [OF mem_step_exec [OF m] assms(2)]
  obtain v s2 where s2: "rv_read_mem32 rv32_convert_addr k virt False True s1 = Some (Inr v, s2)" "mem_step k s1 s2"
    "tlb_ready (cpu_mem s2 k) virt True False phys"
    using rv_ready(1) [OF mem_stepD(1) [OF m] cpu_inv_tlb [OF i1] assms(3) r] by blast
  note i2 = exec_stepD(3) [OF mem_step_exec [OF s2(2)] i1]
  obtain s3 where s3: "rv_write_mem32 rv32_convert_addr k virt w True s2 = Some (Inr (), s3)" "mem_step k s2 s3"
    using rv_ready(2) [OF mem_stepD(1) [OF s2(2)] cpu_inv_tlb [OF i2] assms(3) s2(3)] by blast
  show ?thesis using s2(1) s3 mem_stepD(1) [OF s3(2)] exec_stepD(3) [OF mem_step_exec [OF s3(2)] i2] by blast
qed

theorem translation_remembered_witness:
  "\<exists>s1 v s2 s3. rv32_convert_addr 0 0xF0000000 True False True (sim rv_mmode) = Some (Inr 0xF0000000, s1) \<and>
     rv_read_mem32 rv32_convert_addr 0 0xF0000000 False True s1 = Some (Inr v, s2) \<and>
     rv_write_mem32 rv32_convert_addr 0 0xF0000000 3 True s2 = Some (Inr (), s3)"
proof -
  have c: "rv32_convert_addr 0 0xF0000000 True False True (sim rv_mmode) = Some (Inr 0xF0000000, sim rv_mmode)"
    by (simp add: rv32_convert_addr_def sim_satp less_eq_rv_priv_mode_def)
  have "cpu_inv (cpu_mem (sim rv_mmode) 0)" "IS_ALIGNED (0xF0000000 :: u32) 4" by (simp_all add: sim_cpu_inv IS_ALIGNED_def)
  from translation_remembered [OF sim_mach_ok this c, of 3] c show ?thesis by blast
qed

subsection \<open>Traps\<close>

lemma demo_vectors: "\<not> bit (mtvec (csr (demo_cpu m))) 1" "\<not> bit (stvec (csr (demo_cpu m))) 1" "\<not> rv_csr_mstatus_tsr (demo_cpu m)"
  "priv_mode (demo_cpu m) = m"
  by (simp_all add: demo_cpu_def rv_init_csr_def zero_csr_def rv_csr_mstatus_tsr_def)

text \<open>
  C11: \<open>mret\<close> undoes a trap to machine mode: executed right after it, it returns to the privilege
  mode and the interrupt enable bit of before, and continues at the instruction that trapped or,
  after an interrupt, at the one that was next.
\<close>

theorem mret_returns_from_trap:
  assumes "priv_mode c \<noteq> rv_rmode" "\<not> bit (mtvec (csr c)) 1" "ex \<noteq> rv_exc_none"
  shows "\<exists>c1 c2. m_trap c ex = Some c1 \<and> rv_mret_instr c1 instr = Some (rv_exc_none, c2) \<and>
     priv_mode c2 = priv_mode c \<and> pc_next c2 = (if rv_exc_is_interrupt ex then pc_next c else pc c) \<and>
     rv_csr_mstatus_mie c2 = rv_csr_mstatus_mie c \<and> regs c2 = regs c"
  by (rule mret_undoes_m_trap [OF assms])

theorem mret_returns_from_trap_witness:
  "\<exists>c1 c2. m_trap (demo_cpu rv_umode) rv_exc_illegal_instruction = Some c1 \<and>
     rv_mret_instr c1 0x30200073 = Some (rv_exc_none, c2) \<and> priv_mode c2 = rv_umode"
  using mret_returns_from_trap [OF _ demo_vectors(1), of rv_umode rv_exc_illegal_instruction "0x30200073"] by (auto simp: demo_vectors(4))

text \<open>
  \<open>sret\<close> undoes a trap from supervisor or user mode to supervisor mode in the same way, unless
  the \<open>TSR\<close> bit makes it illegal.
\<close>

theorem sret_returns_from_trap:
  assumes "priv_mode c \<le> rv_smode" "\<not> bit (stvec (csr c)) 1" "ex \<noteq> rv_exc_none" "\<not> rv_csr_mstatus_tsr c"
  shows "\<exists>c1 c2. s_trap c ex = Some c1 \<and> rv_sret_instr c1 instr = Some (rv_exc_none, c2) \<and>
     priv_mode c2 = priv_mode c \<and> pc_next c2 = (if rv_exc_is_interrupt ex then pc_next c else pc c) \<and>
     rv_csr_sstatus_sie c2 = rv_csr_sstatus_sie c \<and> regs c2 = regs c"
  by (rule sret_undoes_s_trap [OF assms])

theorem sret_returns_from_trap_witness:
  "\<exists>c1 c2. s_trap (demo_cpu rv_umode) rv_exc_breakpoint = Some c1 \<and>
     rv_sret_instr c1 0x10200073 = Some (rv_exc_none, c2) \<and> priv_mode c2 = rv_umode"
  using sret_returns_from_trap [OF _ demo_vectors(2) _ demo_vectors(3), of rv_umode rv_exc_breakpoint "0x10200073"]
  by (auto simp: demo_vectors(4) less_eq_rv_priv_mode_def)

text \<open>
  C15: an exception is handled in supervisor mode exactly when it is delegated and the processor was
  not in machine mode, otherwise in machine mode; the privilege is never lowered, the cause and the
  address of the instruction are in the registers of that mode, and the invariant is kept.
\<close>

theorem exception_delegation:
  assumes "cpu_inv c" "ex \<noteq> rv_exc_none" "\<not> rv_exc_is_interrupt ex"
  shows "\<exists>c'. handle_exception c ex = Some c' \<and> cpu_inv c' \<and> priv_mode c \<le> priv_mode c' \<and>
     (if medeleg (csr c) AND RV_EXCEPTION_MASK ex \<noteq> 0 \<and> priv_mode c \<noteq> rv_mmode
      then priv_mode c' = rv_smode \<and> scause (csr c') = rv_exc_code ex \<and> sepc (csr c') = pc c
      else priv_mode c' = rv_mmode \<and> mcause (csr c') = rv_exc_code ex \<and> mepc (csr c') = pc c)"
proof -
  have v: "\<not> bit (mtvec (csr c)) 1" "\<not> bit (stvec (csr c)) 1" "priv_mode c \<noteq> rv_rmode"
    using assms(1) by (simp_all add: cpu_inv_def csr_wf_def)
  have m: "priv_mode c \<le> rv_mmode" "priv_mode c \<noteq> rv_mmode \<Longrightarrow> priv_mode c \<le> rv_smode"
    using v(3) by (cases "priv_mode c"; simp add: less_eq_rv_priv_mode_def)+
  obtain c' where c': "handle_exception c ex = Some c'" "cpu_inv c'"
    using handle_exception_keeps [OF assms] by (auto simp: keeps_def)
  show ?thesis using c' m m_trap_result [OF v(1) assms(2)] s_trap_result [OF v(2) assms(2)] assms(3)
    by (intro exI [of _ c']) (auto simp: handle_exception_def split: if_splits)
qed

theorem exception_delegation_witness:
  "\<exists>c'. handle_exception (sim_cpu rv_umode) rv_exc_illegal_instruction = Some c' \<and> priv_mode c' = rv_mmode"
  using exception_delegation [OF sim_cpu_inv [of rv_umode], of rv_exc_illegal_instruction]
  by (auto simp: sim_cpu_def demo_cpu_def rv_init_csr_def zero_csr_def)



end
