(* ===== verification/Device_Init.thy ===== *)
theory Device_Init
  imports Device_Facts
begin

text \<open>
  What the peripherals share: the range and alignment tests of \<open>src/src/utils.c\<close> that their
  \<open>init\<close> commands use, the errors these commands report, the character argument of the \<open>gen\<close> and
  \<open>fill\<close> commands, and the \<open>switch (addr - data->addr)\<close> over register offsets.

  A command gets its parsed arguments; \<open>Inl\<close> is \<open>return false\<close> with the error it reports.
\<close>

definition phys_range :: "u64 \<Rightarrow> bool" where
  "phys_range addr \<longleftrightarrow> addr \<le> 0xFFFFFFFFF"

definition ptr36_dword_aligned :: "ptr36 \<Rightarrow> bool" where
  "ptr36_dword_aligned addr \<longleftrightarrow> addr AND 0x07 = 0"

definition ptr36_frame_aligned :: "ptr36 \<Rightarrow> bool" where
  "ptr36_frame_aligned addr \<longleftrightarrow> addr AND FRAME_MASK = 0"

abbreviation (input) MAX_INTRS :: u64 where "MAX_INTRS \<equiv> 11"

datatype cmd_error =
    Addr_out_of_range
  | Registers_exceed_range
  | Addr_not_aligned
  | Intno_out_of_range
  | Invalid_character
  | Integer_out_of_range
  | Unexpected_parameter
  | Unknown_mode
  | Too_many_columns
  | Too_many_rows
  | No_such_device
  | Not_a_cpu
  | Cpu_name_expected
  | Size_zero
  | Size_not_aligned
  | Size_out_of_range
  | Already_established
  | Not_established
  | Empty_file
  | File_too_small
  | File_too_large
  | File_io_error
  | Too_many_controllers
  | Invalid_request_index
  | Invalid_request_type
  | Request_address_missing

text \<open>The tests at the start of every \<open>init\<close> command, for a block of \<open>limit\<close> bytes of registers.\<close>

definition check_block :: "u64 \<Rightarrow> u64 \<Rightarrow> cmd_error + ptr36" where
  "check_block limit addr =
     (if \<not> phys_range addr then Inl Addr_out_of_range
      else if \<not> phys_range (addr + limit) then Inl Registers_exceed_range
      else if \<not> ptr36_dword_aligned addr then Inl Addr_not_aligned
      else Inr addr)"

datatype parm = Parm_end | Parm_str string | Parm_uint u64 | Parm_other

text \<open>The argument of the \<open>gen\<close> and \<open>fill\<close> commands: nothing, one character, or an integer.\<close>

definition char_parm :: "parm \<Rightarrow> cmd_error + u8" where
  "char_parm p =
     (case p of
        Parm_end \<Rightarrow> Inr 0
      | Parm_str str \<Rightarrow> (case str of [c] \<Rightarrow> if of_char c = (0 :: u8) then Inl Invalid_character else Inr (of_char c) | _ \<Rightarrow> Inl Invalid_character)
      | Parm_uint n \<Rightarrow> if n > 255 then Inl Integer_out_of_range else Inr (ucast n)
      | Parm_other \<Rightarrow> Inl Unexpected_parameter)"

abbreviation no_methods :: "'d device_type" where
  "no_methods \<equiv> \<lparr>read8 = None, read16 = None, read32 = None, read64 = None,
     write8 = None, write16 = None, write32 = None, write64 = None\<rparr>"

text \<open>
  The conversions of \<open>src/src/endian.h\<close> on a little-endian host, in both directions: \<open>htobe16\<close> and
  \<open>htobe32\<close> are the same functions.
\<close>

definition be16toh :: "u16 \<Rightarrow> u16" where
  "be16toh v = push_bit 8 (v AND 0xFF) OR drop_bit 8 v"

definition be32toh :: "u32 \<Rightarrow> u32" where
  "be32toh v = push_bit 24 (v AND 0xFF) OR push_bit 8 (v AND 0xFF00) OR (drop_bit 8 v AND 0xFF00) OR drop_bit 24 v"

lemma dev_keepsI:
  assumes "read_keeps I (read8 t)" "read_keeps I (read16 t)" "read_keeps I (read32 t)" "read_keeps I (read64 t)"
    "write_keeps I (write8 t)" "write_keeps I (write16 t)" "write_keeps I (write32 t)" "write_keeps I (write64 t)"
  shows "dev_keeps I t"
  using assms by (simp add: dev_keeps_def)

text \<open>Where an accepted register block lies: inside the 36-bit address space, without wrap-around.\<close>

lemma phys_range_unat: "phys_range a \<longleftrightarrow> unat a < 2 ^ 36"
  by (simp add: phys_range_def word_le_nat_alt) arith

lemma check_block_range:
  assumes "check_block limit addr = Inr a" "unat limit < 2 ^ 36"
  shows "a = addr" "8 dvd unat a" "unat a + unat limit < 2 ^ 36" "unat (a + limit) = unat a + unat limit"
proof -
  show a: "a = addr" using assms(1) by (simp add: check_block_def split: if_splits)
  have r: "unat addr < 2 ^ 36" "unat (addr + limit) < 2 ^ 36" "addr AND 7 = 0"
    using assms(1) by (auto simp: check_block_def phys_range_unat ptr36_dword_aligned_def split: if_splits)
  show s: "unat (a + limit) = unat a + unat limit" using r(1) assms(2) a by (simp add: unat_word_ariths)
  show "unat a + unat limit < 2 ^ 36" using s r(2) a by simp
  have "take_bit 3 addr = 0" using r(3) by (simp add: take_bit_eq_mask mask_numeral)
  then have "unat addr mod 2 ^ 3 = 0" by (metis take_bit_eq_mod unsigned_0 unsigned_take_bit_eq)
  then show "8 dvd unat a" using a by (simp add: mod_eq_0_iff_dvd)
qed

lemma be16toh_bit: "bit (be16toh v) n \<longleftrightarrow> n < 16 \<and> bit v (if n < 8 then n + 8 else n - 8)"
proof -
  have m: "(0xFF :: u16) = mask 8" by (simp add: mask_eq_decr_exp)
  show ?thesis unfolding be16toh_def m by (auto simp: bit_simps add.commute [of n 8] dest: bit_imp_le_length)
qed

lemma be32toh_bit: "bit (be32toh v) n \<longleftrightarrow> n < 32 \<and> bit v (n mod 8 + 8 * (3 - n div 8))"
proof (cases "n < 32")
  case True
  have m: "(0xFF :: u32) = mask 8" "(0xFF00 :: u32) = push_bit 8 (mask 8)" by (simp_all add: mask_eq_decr_exp)
  have r: "n = n mod 8 + 8 * (n div 8)" "n div 8 < 4" using True by simp_all
  consider "n div 8 = 0" | "n div 8 = 1" | "n div 8 = 2" | "n div 8 = 3" using r(2) by linarith
  then show ?thesis
  proof cases
    case 1
    then have "n < 8" "n mod 8 = n" using r by simp_all
    then show ?thesis using 1 True unfolding be32toh_def m by (auto simp: bit_simps add.commute)
  next
    case 2
    then have "8 \<le> n" "n < 16" "n mod 8 = n - 8" using r by simp_all
    then show ?thesis using 2 True unfolding be32toh_def m by (auto simp: bit_simps dest: bit_imp_le_length)
  next
    case 3
    then have "16 \<le> n" "n < 24" "n mod 8 = n - 16" using r by simp_all
    then show ?thesis using 3 True unfolding be32toh_def m by (auto simp: bit_simps dest: bit_imp_le_length)
  next
    case 4
    then have "24 \<le> n" "n mod 8 = n - 24" using r True by simp_all
    then show ?thesis using 4 True unfolding be32toh_def m by (auto simp: bit_simps dest: bit_imp_le_length)
  qed
next
  case False
  then show ?thesis by (auto dest: bit_imp_le_length)
qed

lemma be16toh_twice [simp]: "be16toh (be16toh v) = v"
  by (rule bit_word_eqI) (auto simp: be16toh_bit)

lemma be32toh_twice [simp]: "be32toh (be32toh v) = v"
proof (rule bit_word_eqI)
  fix n assume "n < LENGTH(32)"
  then have "n div 8 < 4" by simp
  moreover have "(n mod 8 + 8 * (3 - n div 8)) div 8 = 3 - n div 8" "(n mod 8 + 8 * (3 - n div 8)) mod 8 = n mod 8" by simp_all
  ultimately show "bit (be32toh (be32toh v)) n = bit v n" by (auto simp: be32toh_bit)
qed

lemma period_decreases:
  fixes counter period :: "'a::len word"
  assumes "period \<noteq> 0" "period \<le> counter"
  shows "unat (counter - period) < unat counter"
proof -
  have "0 < unat period" using assms(1) by (simp add: unat_gt_0)
  then show ?thesis using assms(2) by (simp add: unat_sub word_le_nat_alt)
qed

end
