(* ===== verification/Dorder.thy ===== *)
theory Dorder
  imports Device_Init
begin

text \<open>
  The interprocessor synchronisation device, \<open>src/src/device/dorder.c\<close>: a write to one of its two
  registers asserts or deasserts its interrupt on the processors selected by a mask.
\<close>

abbreviation (input) DORDER_INT_UP :: ptr36 where "DORDER_INT_UP \<equiv> 0"
abbreviation (input) DORDER_INT_DOWN :: ptr36 where "DORDER_INT_DOWN \<equiv> 4"
abbreviation (input) DORDER_LIMIT :: u64 where "DORDER_LIMIT \<equiv> 8"

record dorder_data =
  dorder_addr :: ptr36
  dorder_intno :: nat
  dorder_cmds :: u64

text \<open>The loop over the 32 processors: \<open>n\<close> iterations are left, \<open>val\<close> is shifted in each.\<close>

fun sync_loop :: "(nat option \<Rightarrow> nat \<Rightarrow> dev_effect) \<Rightarrow> nat \<Rightarrow> nat \<Rightarrow> nat \<Rightarrow> u32 \<Rightarrow> dev_effect list" where
  "sync_loop eff intno 0 i val = []"
| "sync_loop eff intno (Suc n) i val =
     (if val AND 1 \<noteq> 0 then [eff (Some i) intno] else []) @ sync_loop eff intno n (i + 1) (drop_bit 1 val)"

definition sync_up_write :: "dorder_data \<Rightarrow> u32 \<Rightarrow> dorder_data \<times> dev_effect list" where
  "sync_up_write data val =
     (data\<lparr>dorder_cmds := dorder_cmds data + 1\<rparr>, sync_loop Eff_interrupt_up (dorder_intno data) 32 0 val)"

definition sync_down_write :: "dorder_data \<Rightarrow> u32 \<Rightarrow> dorder_data \<times> dev_effect list" where
  "sync_down_write data val =
     (data\<lparr>dorder_cmds := dorder_cmds data + 1\<rparr>, sync_loop Eff_interrupt_down (dorder_intno data) 32 0 val)"

definition dorder_init :: "u64 \<Rightarrow> u64 \<Rightarrow> cmd_error + dorder_data" where
  "dorder_init addr0 intno0 =
     (case check_block DORDER_LIMIT addr0 of
        Inl e \<Rightarrow> Inl e
      | Inr addr \<Rightarrow>
          if intno0 > MAX_INTRS then Inl Intno_out_of_range
          else Inr \<lparr>dorder_addr = addr, dorder_intno = unat intno0, dorder_cmds = 0\<rparr>)"

definition dorder_synchup :: "u64 \<Rightarrow> dorder_data \<Rightarrow> dorder_data \<times> dev_effect list" where
  "dorder_synchup v data = sync_up_write data (ucast v)"

definition dorder_synchdown :: "u64 \<Rightarrow> dorder_data \<Rightarrow> dorder_data \<times> dev_effect list" where
  "dorder_synchdown v data = sync_down_write data (ucast v)"

definition dorder_read32 :: "(dorder_data, u32) dev_read" where
  "dorder_read32 procno data addr val =
     (if addr - dorder_addr data = DORDER_INT_UP then Some (of_nat procno, data, [])
      else if addr - dorder_addr data = DORDER_INT_DOWN then Some (0, data, [])
      else Some (val, data, []))"

definition dorder_write32 :: "(dorder_data, u32) dev_write" where
  "dorder_write32 procno data addr val =
     (if addr - dorder_addr data = DORDER_INT_UP then Some (sync_up_write data val)
      else if addr - dorder_addr data = DORDER_INT_DOWN then Some (sync_down_write data val)
      else Some (data, []))"

definition dorder_type :: "dorder_data device_type" where
  "dorder_type = no_methods\<lparr>read32 := Some dorder_read32, write32 := Some dorder_write32\<rparr>"

subsection \<open>Which processors a write reaches\<close>

lemma sync_loop_set:
  "set (sync_loop eff intno n i val) = {eff (Some (i + j)) intno | j. j < n \<and> bit val j}"
proof (induction n arbitrary: i val)
  case (Suc n)
  have "{eff (Some (i + j)) intno | j. j < Suc n \<and> bit val j} =
      {eff (Some i) intno | _ :: unit. bit val 0} \<union> {eff (Some (Suc i + j)) intno | j. j < n \<and> bit val (Suc j)}"
    (is "?l = ?r")
  proof (rule set_eqI)
    show "x \<in> ?l \<longleftrightarrow> x \<in> ?r" for x
      by (simp add: less_Suc_eq_0_disj ex_disj_distrib conj_disj_distribL conj_disj_distribR) (metis add_Suc_right)
  qed
  moreover have "val AND 1 \<noteq> 0 \<longleftrightarrow> bit val 0" by (simp add: and_one_eq mod2_eq_if bit_0)
  ultimately show ?case by (auto simp: Suc.IH bit_drop_bit_eq)
qed simp

lemma sync_loop_distinct: "(\<And>j k. eff (Some j) intno = eff (Some k) intno \<Longrightarrow> j = k) \<Longrightarrow> distinct (sync_loop eff intno n i val)"
proof (induction n arbitrary: i val)
  case (Suc n)
  moreover have "eff (Some i) intno \<notin> set (sync_loop eff intno n (i + 1) (drop_bit 1 val))"
    by (auto simp: sync_loop_set dest!: Suc.prems)
  ultimately show ?case by simp
qed simp

lemma sync_loop_plain:
  "list_all plain_effect (sync_loop Eff_interrupt_up no n i val)" "list_all plain_effect (sync_loop Eff_interrupt_down no n i val)"
  by (simp_all add: list_all_iff sync_loop_set) auto

lemma dorder_keeps: "dev_keeps (\<lambda>d. True) dorder_type"
  by (auto simp: dorder_type_def dorder_read32_def dorder_write32_def sync_up_write_def sync_down_write_def sync_loop_plain
      intro!: dev_keepsI read_keepsI write_keepsI)

lemma dorder_keeps_config: "dev_keeps (\<lambda>d. dorder_addr d = a \<and> dorder_intno d = n) dorder_type"
  by (auto simp: dorder_type_def dorder_read32_def dorder_write32_def sync_up_write_def sync_down_write_def sync_loop_plain
      intro!: dev_keepsI read_keepsI write_keepsI)

end
