(* ===== verification/Dkeyboard.thy ===== *)
theory Dkeyboard
  imports Device_Init
begin

text \<open>
  The keyboard, \<open>src/src/device/dkeyboard.c\<close>: a one-character buffer behind a register, an
  interrupt while a character waits, and counters of the keys, the interrupts and the overruns.
  \<open>char\<close> is signed, as on the hosts the simulator is built for. The initial contents of the buffer,
  which \<open>dkeyboard_init\<close> leaves as the allocation returned them, are its argument \<open>junk\<close>. The host's
  \<open>stdin_poll\<close> is the argument of \<open>keyboard_step4k\<close>.
\<close>

abbreviation (input) KEYBOARD_CHAR :: ptr36 where "KEYBOARD_CHAR \<equiv> 0"
abbreviation (input) KEYBOARD_LIMIT :: u64 where "KEYBOARD_LIMIT \<equiv> 4"

record keyboard_data =
  kbd_addr :: ptr36
  kbd_intno :: nat
  incomming :: u8
  kbd_ig :: bool
  kbd_intrcount :: u64
  keycount :: u64
  overrun :: u64

definition gen_key :: "u8 \<Rightarrow> keyboard_data \<Rightarrow> keyboard_data \<times> dev_effect list" where
  "gen_key c data =
     (let data1 = data\<lparr>incomming := c, keycount := keycount data + 1\<rparr>
      in if \<not> kbd_ig data1 then
           (data1\<lparr>kbd_ig := True, kbd_intrcount := kbd_intrcount data1 + 1\<rparr>, [Eff_interrupt_up None (kbd_intno data1)])
         else (data1\<lparr>overrun := overrun data1 + 1\<rparr>, []))"

definition dkeyboard_init :: "u8 \<Rightarrow> u64 \<Rightarrow> u64 \<Rightarrow> cmd_error + keyboard_data" where
  "dkeyboard_init junk addr0 intno0 =
     (case check_block KEYBOARD_LIMIT addr0 of
        Inl e \<Rightarrow> Inl e
      | Inr addr \<Rightarrow>
          if intno0 > MAX_INTRS then Inl Intno_out_of_range
          else Inr \<lparr>kbd_addr = addr, kbd_intno = unat intno0, incomming = junk, kbd_ig = False,
                    kbd_intrcount = 0, keycount = 0, overrun = 0\<rparr>)"

definition dkeyboard_gen :: "parm \<Rightarrow> keyboard_data \<Rightarrow> cmd_error + (keyboard_data \<times> dev_effect list)" where
  "dkeyboard_gen p data = (case char_parm p of Inl e \<Rightarrow> Inl e | Inr c \<Rightarrow> Inr (gen_key c data))"

definition keyboard_read32 :: "(keyboard_data, u32) dev_read" where
  "keyboard_read32 procno data addr val =
     (if addr - kbd_addr data = KEYBOARD_CHAR then
        (let val' = scast (incomming data);
             data1 = data\<lparr>incomming := 0\<rparr>
         in if kbd_ig data1 then Some (val', data1\<lparr>kbd_ig := False\<rparr>, [Eff_interrupt_down None (kbd_intno data1)])
            else Some (val', data1, []))
      else Some (val, data, []))"

definition keyboard_step4k :: "u8 option \<Rightarrow> keyboard_data \<Rightarrow> keyboard_data \<times> dev_effect list" where
  "keyboard_step4k poll data = (case poll of Some c \<Rightarrow> gen_key c data | None \<Rightarrow> (data, []))"

definition dkeyboard_type :: "keyboard_data device_type" where
  "dkeyboard_type = no_methods\<lparr>read32 := Some keyboard_read32\<rparr>"

subsection \<open>The counters and the interrupt line\<close>

text \<open>Every key either raised an interrupt or overran the buffer (modulo \<open>2 ^ 64\<close>).\<close>

definition kbd_counts :: "keyboard_data \<Rightarrow> bool" where
  "kbd_counts d \<longleftrightarrow> keycount d = kbd_intrcount d + overrun d"

lemma gen_key_counts: "kbd_counts d \<Longrightarrow> kbd_counts (fst (gen_key c d))"
  by (simp add: kbd_counts_def gen_key_def Let_def)

lemma dkeyboard_init_counts: "dkeyboard_init junk a n = Inr d \<Longrightarrow> kbd_counts d \<and> \<not> kbd_ig d"
  by (auto simp: dkeyboard_init_def kbd_counts_def split: sum.splits if_splits)

lemma keyboard_keeps: "dev_keeps kbd_counts dkeyboard_type"
  by (auto simp: dkeyboard_type_def keyboard_read32_def kbd_counts_def Let_def intro!: dev_keepsI read_keepsI)

lemma gen_key_plain: "list_all plain_effect (snd (gen_key c d))"
  by (simp add: gen_key_def Let_def)

text \<open>What the line does under a sequence of events, from the effects alone.\<close>

datatype kbd_event = Key u8 | Read_reg

definition kbd_event_step :: "kbd_event \<Rightarrow> keyboard_data \<Rightarrow> (u32 option \<times> keyboard_data \<times> dev_effect list) option" where
  "kbd_event_step e d =
     (case e of
        Key c \<Rightarrow> Some (None, gen_key c d)
      | Read_reg \<Rightarrow> (case keyboard_read32 0 d (kbd_addr d) 0xFFFFFFFF of
           Some (v, d', es) \<Rightarrow> Some (Some v, d', es) | None \<Rightarrow> None))"

fun kbd_run :: "kbd_event list \<Rightarrow> keyboard_data \<Rightarrow> (u32 list \<times> keyboard_data \<times> dev_effect list) option" where
  "kbd_run [] d = Some ([], d, [])"
| "kbd_run (e # es) d = do {
     (v, d1, fs) \<leftarrow> kbd_event_step e d;
     (vs, d2, gs) \<leftarrow> kbd_run es d1;
     Some ((case v of None \<Rightarrow> vs | Some x \<Rightarrow> x # vs), d2, fs @ gs)
   }"

text \<open>The abstract keyboard: a buffer of at most one character, the newest one.\<close>

fun kbd_spec :: "kbd_event list \<Rightarrow> u8 option \<Rightarrow> u32 list" where
  "kbd_spec [] b = []"
| "kbd_spec (Key c # es) b = kbd_spec es (Some c)"
| "kbd_spec (Read_reg # es) b = (case b of None \<Rightarrow> 0 | Some c \<Rightarrow> scast c) # kbd_spec es None"

fun line_after :: "dev_effect list \<Rightarrow> bool \<Rightarrow> bool" where
  "line_after [] b = b"
| "line_after (Eff_interrupt_up _ _ # es) b = line_after es True"
| "line_after (Eff_interrupt_down _ _ # es) b = line_after es False"
| "line_after (_ # es) b = line_after es b"

definition kbd_holds :: "u8 option \<Rightarrow> keyboard_data \<Rightarrow> bool" where
  "kbd_holds b d \<longleftrightarrow> (case b of None \<Rightarrow> \<not> kbd_ig d \<and> incomming d = 0 | Some c \<Rightarrow> kbd_ig d \<and> incomming d = c)"

lemma line_after_append: "line_after (xs @ ys) b = line_after ys (line_after xs b)"
  by (induction xs b rule: line_after.induct) auto

lemma kbd_run_refines:
  assumes "kbd_holds b d"
  shows "\<exists>d' fs. kbd_run es d = Some (kbd_spec es b, d', fs) \<and> line_after fs (kbd_ig d) = kbd_ig d' \<and>
     keycount d' = keycount d + of_nat (length (filter (\<lambda>e. e \<noteq> Read_reg) es)) \<and> (kbd_counts d \<longrightarrow> kbd_counts d')"
  using assms
proof (induction es arbitrary: b d)
  case (Cons e es)
  have "kbd_event_step e d \<noteq> None" by (auto simp: kbd_event_step_def keyboard_read32_def Let_def split: kbd_event.splits)
  then obtain v d1 fs1 where 1: "kbd_event_step e d = Some (v, d1, fs1)" by auto
  let ?b = "case e of Key c \<Rightarrow> Some c | Read_reg \<Rightarrow> None"
  have h: "kbd_holds ?b d1" "line_after fs1 (kbd_ig d) = kbd_ig d1" "kbd_counts d \<longrightarrow> kbd_counts d1"
    "keycount d1 = keycount d + (if e = Read_reg then 0 else 1)"
    using 1 Cons.prems by (auto simp: kbd_event_step_def keyboard_read32_def gen_key_def kbd_holds_def kbd_counts_def Let_def
        split: kbd_event.splits if_splits option.splits)
  have v: "kbd_spec (e # es) b = (case v of None \<Rightarrow> kbd_spec es ?b | Some x \<Rightarrow> x # kbd_spec es ?b)"
    using 1 Cons.prems by (auto simp: kbd_event_step_def keyboard_read32_def kbd_holds_def Let_def split: kbd_event.splits if_splits option.splits)
  obtain d' fs where "kbd_run es d1 = Some (kbd_spec es ?b, d', fs)" "line_after fs (kbd_ig d1) = kbd_ig d'"
    "keycount d' = keycount d1 + of_nat (length (filter (\<lambda>e. e \<noteq> Read_reg) es))" "kbd_counts d1 \<longrightarrow> kbd_counts d'"
    using Cons.IH [OF h(1)] by blast
  then show ?case using 1 h v by (auto simp: line_after_append)
qed simp

end
