(* ===== verification/Dcycle.thy ===== *)
theory Dcycle
  imports Device_Init
begin

text \<open>
  The counter of machine cycles, \<open>src/src/device/dcycle.c\<close>, and the host time,
  \<open>src/src/device/dtime.c\<close>.

  The host clock is the sequence of the values that successive calls of \<open>gettimeofday\<close> return; the
  contents of a \<open>struct timeval\<close> that is read before it is set are \<open>stale_time\<close>.
\<close>

subsection \<open>Machine cycles\<close>

abbreviation (input) DCYCLE_LO :: ptr36 where "DCYCLE_LO \<equiv> 0"
abbreviation (input) DCYCLE_HI :: ptr36 where "DCYCLE_HI \<equiv> 4"
abbreviation (input) DCYCLE_LIMIT :: u64 where "DCYCLE_LIMIT \<equiv> 8"

record dcycle_data =
  dcycle_addr :: ptr36
  cycle :: u64

definition dcycle_init :: "u64 \<Rightarrow> cmd_error + dcycle_data" where
  "dcycle_init addr0 =
     (case check_block DCYCLE_LIMIT addr0 of
        Inl e \<Rightarrow> Inl e
      | Inr addr \<Rightarrow> Inr \<lparr>dcycle_addr = addr, cycle = 0\<rparr>)"

definition dcycle_read32 :: "(dcycle_data, u32) dev_read" where
  "dcycle_read32 procno data addr val =
     (if addr - dcycle_addr data = DCYCLE_LO then Some (ucast (cycle data), data, [])
      else if addr - dcycle_addr data = DCYCLE_HI then Some (ucast (drop_bit 32 (cycle data)), data, [])
      else Some (val, data, []))"

definition dcycle_read64 :: "(dcycle_data, u64) dev_read" where
  "dcycle_read64 procno data addr val =
     (if addr - dcycle_addr data = DCYCLE_LO then Some (cycle data, data, []) else Some (val, data, []))"

definition dcycle_step :: "dcycle_data \<Rightarrow> dcycle_data" where
  "dcycle_step data = data\<lparr>cycle := cycle data + 1\<rparr>"

definition dcycle_type :: "dcycle_data device_type" where
  "dcycle_type = no_methods\<lparr>read32 := Some dcycle_read32, read64 := Some dcycle_read64\<rparr>"

lemma dcycle_steps: "(dcycle_step ^^ n) d = d\<lparr>cycle := cycle d + of_nat n\<rparr>"
  by (induction n) (simp_all add: dcycle_step_def)

lemma split_64: "ucast (ucast x :: u32) OR push_bit 32 (ucast (ucast (drop_bit 32 x) :: u32)) = x" for x :: u64
  by (rule bit_word_eqI) (auto simp: bit_simps)

lemma dcycle_type_keeps: "dev_keeps (\<lambda>d. True) dcycle_type"
  by (auto simp: dcycle_type_def dcycle_read32_def dcycle_read64_def intro!: dev_keepsI read_keepsI)

subsection \<open>Host time\<close>

abbreviation (input) DTIME_SEC :: ptr36 where "DTIME_SEC \<equiv> 0"
abbreviation (input) DTIME_USEC :: ptr36 where "DTIME_USEC \<equiv> 4"
abbreviation (input) DTIME_LIMIT :: u64 where "DTIME_LIMIT \<equiv> 8"

record timeval =
  tv_sec :: u64
  tv_usec :: u64

record dtime_data =
  dtime_addr :: ptr36
  host_clock :: "nat \<Rightarrow> timeval"
  host_calls :: nat
  stale_time :: timeval

definition gettimeofday :: "dtime_data \<Rightarrow> timeval \<times> dtime_data" where
  "gettimeofday data = (host_clock data (host_calls data), data\<lparr>host_calls := host_calls data + 1\<rparr>)"

definition dtime_init :: "(nat \<Rightarrow> timeval) \<Rightarrow> timeval \<Rightarrow> u64 \<Rightarrow> cmd_error + dtime_data" where
  "dtime_init clock junk addr0 =
     (case check_block DTIME_LIMIT addr0 of
        Inl e \<Rightarrow> Inl e
      | Inr addr \<Rightarrow> Inr \<lparr>dtime_addr = addr, host_clock = clock, host_calls = 0, stale_time = junk\<rparr>)"

definition dtime_read32 :: "(dtime_data, u32) dev_read" where
  "dtime_read32 procno data addr val =
     (if addr - dtime_addr data = DTIME_SEC then
        (let (timeval, data1) = gettimeofday data in Some (ucast (tv_sec timeval), data1, []))
      else if addr - dtime_addr data = DTIME_USEC then
        (let (timeval, data1) = gettimeofday data in Some (ucast (tv_usec timeval), data1, []))
      else Some (val, data, []))"

definition dtime_read64 :: "(dtime_data, u64) dev_read" where
  "dtime_read64 procno data addr val =
     (let timeval = stale_time data;
          sec = ucast (tv_sec timeval) :: u32;
          usec = ucast (tv_usec timeval) :: u32
      in if addr - dtime_addr data = DTIME_SEC then
           (let (timeval, data1) = gettimeofday data in Some (ucast sec OR push_bit 32 (ucast usec), data1, []))
         else Some (val, data, []))"

definition dtime_type :: "dtime_data device_type" where
  "dtime_type = no_methods\<lparr>read32 := Some dtime_read32, read64 := Some dtime_read64\<rparr>"

lemma dtime_keeps: "dev_keeps (\<lambda>d. True) dtime_type"
  by (auto simp: dtime_type_def dtime_read32_def dtime_read64_def Let_def gettimeofday_def intro!: dev_keepsI read_keepsI)

text \<open>A 64-bit read does not return the time.\<close>

lemma dtime_read64_ignores_clock:
  "map_option fst (dtime_read64 p (d\<lparr>host_clock := c\<rparr>) a v) = map_option fst (dtime_read64 p d a v)"
  by (simp add: dtime_read64_def Let_def gettimeofday_def)

end
