(* ===== verification/Dnomem.thy ===== *)
theory Dnomem
  imports Device_Init
begin

text \<open>
  The device that watches addresses without memory, \<open>src/src/device/dnomem.c\<close>: an access to its
  range is ignored with a warning, enters the interactive mode, or halts the machine; optionally
  the registers of the accessing processor are dumped first. Warnings are not modelled.
\<close>

datatype dnomem_access_mode = access_mode_warn | access_mode_break | access_mode_halt

record dnomem_data =
  dnomem_addr :: ptr36
  dnomem_size :: u64
  register_dump :: bool
  dnomem_mode :: dnomem_access_mode

primrec access32 :: "dnomem_access_mode \<Rightarrow> dev_effect list" where
  "access32 access_mode_warn = []"
| "access32 access_mode_break = [Eff_interactive]"
| "access32 access_mode_halt = [Eff_halt]"

definition dnomem_init :: "u64 \<Rightarrow> u64 \<Rightarrow> cmd_error + dnomem_data" where
  "dnomem_init start_addr sz =
     (case check_block sz start_addr of
        Inl e \<Rightarrow> Inl e
      | Inr addr \<Rightarrow> Inr \<lparr>dnomem_addr = addr, dnomem_size = sz, register_dump = False, dnomem_mode = access_mode_warn\<rparr>)"

definition dnomem_setmode :: "string \<Rightarrow> dnomem_data \<Rightarrow> cmd_error + dnomem_data" where
  "dnomem_setmode mode data =
     (if mode = ''warn'' then Inr (data\<lparr>dnomem_mode := access_mode_warn\<rparr>)
      else if mode = ''break'' then Inr (data\<lparr>dnomem_mode := access_mode_break\<rparr>)
      else if mode = ''halt'' then Inr (data\<lparr>dnomem_mode := access_mode_halt\<rparr>)
      else Inl Unknown_mode)"

definition dnomem_setrd :: "string \<Rightarrow> dnomem_data \<Rightarrow> cmd_error + dnomem_data" where
  "dnomem_setrd yes_no data =
     (if yes_no = ''yes'' then Inr (data\<lparr>register_dump := True\<rparr>)
      else if yes_no = ''no'' then Inr (data\<lparr>register_dump := False\<rparr>)
      else Inl Unknown_mode)"

definition dnomem_access32 :: "nat \<Rightarrow> dnomem_data \<Rightarrow> ptr36 \<Rightarrow> dev_effect list" where
  "dnomem_access32 procno data addr =
     (let offset = addr - dnomem_addr data
      in if offset \<ge> dnomem_size data then []
         else (if register_dump data then [Eff_reg_dump procno] else []) @ access32 (dnomem_mode data))"

definition dnomem_read32 :: "(dnomem_data, u32) dev_read" where
  "dnomem_read32 procno data addr val = Some (val, data, dnomem_access32 procno data addr)"

definition dnomem_write32 :: "(dnomem_data, u32) dev_write" where
  "dnomem_write32 procno data addr val = Some (data, dnomem_access32 procno data addr)"

definition dnomem_type :: "dnomem_data device_type" where
  "dnomem_type = no_methods\<lparr>read32 := Some dnomem_read32, write32 := Some dnomem_write32\<rparr>"

definition dnomem_quiet :: "dnomem_data \<Rightarrow> bool" where
  "dnomem_quiet d \<longleftrightarrow> \<not> register_dump d"

lemma access32_plain: "list_all plain_effect (access32 m)"
  by (cases m) simp_all

lemma dnomem_keeps: "dev_keeps dnomem_quiet dnomem_type"
  by (auto simp: dnomem_type_def dnomem_read32_def dnomem_write32_def dnomem_access32_def dnomem_quiet_def access32_plain Let_def
      intro!: dev_keepsI read_keepsI write_keepsI)

text \<open>The range of the device, for a block that \<open>dnomem_init\<close> accepts.\<close>

lemma dnomem_init_range:
  assumes "dnomem_init a n = Inr d" "unat n < 2 ^ 36"
  shows "unat (dnomem_addr d) + unat (dnomem_size d) < 2 ^ 36" "8 dvd unat (dnomem_addr d)" "dnomem_quiet d"
proof -
  obtain b where b: "check_block n a = Inr b" "d = \<lparr>dnomem_addr = b, dnomem_size = n, register_dump = False, dnomem_mode = access_mode_warn\<rparr>"
    using assms(1) by (auto simp: dnomem_init_def split: sum.splits)
  then show "unat (dnomem_addr d) + unat (dnomem_size d) < 2 ^ 36" "8 dvd unat (dnomem_addr d)" "dnomem_quiet d"
    using check_block_range [OF b(1) assms(2)] by (simp_all add: dnomem_quiet_def)
qed

lemma dnomem_inside:
  assumes "unat (dnomem_addr d) + unat (dnomem_size d) < 2 ^ 36"
  shows "addr - dnomem_addr d < dnomem_size d \<longleftrightarrow> unat (dnomem_addr d) \<le> unat addr \<and> unat addr < unat (dnomem_addr d) + unat (dnomem_size d)"
proof (cases "dnomem_addr d \<le> addr")
  case True
  then have "unat (addr - dnomem_addr d) = unat addr - unat (dnomem_addr d)" by (rule unat_sub)
  then show ?thesis using True by (auto simp: word_less_nat_alt word_le_nat_alt)
next
  case False
  then have "unat addr < unat (dnomem_addr d)" by (simp add: word_le_nat_alt)
  moreover have "unat (addr - dnomem_addr d) = (2 ^ 64 + unat addr) - unat (dnomem_addr d)"
    using calculation unsigned_less [of "dnomem_addr d", where 'a = nat] by (simp add: unat_sub_if_size word_size word_le_nat_alt)
  ultimately show ?thesis using assms by (auto simp: word_less_nat_alt)
qed

end
