(* ===== verification/Dprinter.thy ===== *)
theory Dprinter
  imports Device_Init
begin

text \<open>
  The printer, \<open>src/src/device/dprinter.c\<close>: a character written to its register goes to the
  standard output or to a file. The output is the list of the characters printed so far, each with
  the file it went to (\<open>None\<close> for the standard output). Whether \<open>try_fopen\<close> succeeds is an argument of
  \<open>dprinter_redir\<close>. The host is little endian: \<open>le32toh\<close> is the identity, \<open>be32toh\<close> swaps the bytes.
\<close>

abbreviation (input) PRINTER_CHAR :: ptr36 where "PRINTER_CHAR \<equiv> 0"
abbreviation (input) PRINTER_LIMIT :: u64 where "PRINTER_LIMIT \<equiv> 4"

record printer_data =
  printer_addr :: ptr36
  printer_file :: "string option"
  count :: u64
  endianness :: bool
  printed :: "(string option \<times> u8) list"

definition dprinter_init :: "u64 \<Rightarrow> cmd_error + printer_data" where
  "dprinter_init addr0 =
     (case check_block PRINTER_LIMIT addr0 of
        Inl e \<Rightarrow> Inl e
      | Inr addr \<Rightarrow> Inr \<lparr>printer_addr = addr, printer_file = None, count = 0, endianness = True, printed = []\<rparr>)"

definition dprinter_redir :: "bool \<Rightarrow> string \<Rightarrow> printer_data \<Rightarrow> cmd_error + printer_data" where
  "dprinter_redir opened fname data =
     (if \<not> opened then Inl File_io_error else Inr (data\<lparr>printer_file := Some fname\<rparr>))"

definition dprinter_stdout :: "printer_data \<Rightarrow> printer_data" where
  "dprinter_stdout data = (if printer_file data \<noteq> None then data\<lparr>printer_file := None\<rparr> else data)"

definition dprinter_endian :: "string \<Rightarrow> printer_data \<Rightarrow> printer_data" where
  "dprinter_endian endian data =
     (if endian = ''big'' then data\<lparr>endianness := False\<rparr> else data\<lparr>endianness := True\<rparr>)"

definition print_char :: "printer_data \<Rightarrow> u8 \<Rightarrow> printer_data" where
  "print_char data c = data\<lparr>printed := printed data @ [(printer_file data, c)], count := count data + 1\<rparr>"

definition printer_write8 :: "(printer_data, u8) dev_write" where
  "printer_write8 procno data addr val =
     (if addr - printer_addr data = PRINTER_CHAR then Some (print_char data val, []) else Some (data, []))"

definition printer_write16 :: "(printer_data, u16) dev_write" where
  "printer_write16 procno data addr val =
     (let value = (if endianness data then val else be16toh val)
      in if addr - printer_addr data = PRINTER_CHAR then Some (print_char data (ucast value), []) else Some (data, []))"

definition printer_write32 :: "(printer_data, u32) dev_write" where
  "printer_write32 procno data addr val =
     (let value = (if endianness data then val else be32toh val)
      in if addr - printer_addr data = PRINTER_CHAR then Some (print_char data (ucast value), []) else Some (data, []))"

definition dprinter_type :: "printer_data device_type" where
  "dprinter_type = no_methods\<lparr>write8 := Some printer_write8, write16 := Some printer_write16, write32 := Some printer_write32\<rparr>"

subsection \<open>Which byte is printed\<close>

lemma be_low_byte:
  "(ucast (be16toh h) :: u8) = ucast (drop_bit 8 h)" "(ucast (be32toh w) :: u8) = ucast (drop_bit 24 w)"
proof -
  have "\<not> bit (0xFF00 :: u32) n" if "n < 8" for n
    using that by (auto simp: less_Suc_eq numeral_eq_Suc)
  then show "(ucast (be32toh w) :: u8) = ucast (drop_bit 24 w)"
    by (intro bit_word_eqI) (auto simp: be32toh_def bit_simps)
  show "(ucast (be16toh h) :: u8) = ucast (drop_bit 8 h)"
    by (rule bit_word_eqI) (auto simp: be16toh_def bit_simps)
qed

definition printer_counts :: "printer_data \<Rightarrow> bool" where
  "printer_counts d \<longleftrightarrow> count d = of_nat (length (printed d))"

lemma printer_keeps: "dev_keeps printer_counts dprinter_type"
  by (auto simp: dprinter_type_def printer_write8_def printer_write16_def printer_write32_def print_char_def printer_counts_def Let_def
      intro!: dev_keepsI write_keepsI)

text \<open>A sequence of byte stores to the register prints the bytes in order.\<close>

fun print_all :: "u8 list \<Rightarrow> printer_data \<Rightarrow> printer_data option" where
  "print_all [] d = Some d"
| "print_all (c # cs) d = do { (d1, _) \<leftarrow> printer_write8 0 d (printer_addr d) c; print_all cs d1 }"

lemma print_all_result:
  "print_all cs d = Some (d\<lparr>printed := printed d @ map (Pair (printer_file d)) cs, count := count d + of_nat (length cs)\<rparr>)"
  by (induction cs arbitrary: d) (simp_all add: printer_write8_def print_char_def algebra_simps)

end
