(* ===== verification/Dlcd.thy ===== *)
theory Dlcd
  imports Device_Init
begin

text \<open>
  The LCD module, \<open>src/src/device/dlcd.c\<close>: a data register and a control register whose enable bit
  triggers, on its falling edge, a write of a character at the cursor or a command. A C \<open>int\<close> is an
  \<open>int\<close>. The C union of the register is a record of its bit fields. The display is the buffer;
  \<open>lcd_print\<close> shows it and is not modelled. \<open>None\<close> is an access outside the buffer, a division by
  zero or, for \<open>dlcd_init\<close>, the failed assertion of \<open>safe_malloc\<close> for an empty display. The registers,
  which \<open>dlcd_init\<close> leaves uninitialised, are its argument.
\<close>

abbreviation (input) LCD_DATA :: ptr36 where "LCD_DATA \<equiv> 0"
abbreviation (input) LCD_CONTROL :: ptr36 where "LCD_CONTROL \<equiv> 1"
abbreviation (input) LCD_LIMIT :: u64 where "LCD_LIMIT \<equiv> 4"
abbreviation (input) LCD_MAX_ROWS :: u64 where "LCD_MAX_ROWS \<equiv> 4"
abbreviation (input) LCD_MAX_COLS :: u64 where "LCD_MAX_COLS \<equiv> 40"

definition row_addr_map :: "int list" where
  "row_addr_map = [0x00, 0x40, 0x14, 0x54]"

record lcd_reg =
  lcd_rs :: bool
  lcd_rw :: bool
  lcd_e :: bool
  lcd_byte :: u8

record lcd_data =
  rows :: int
  cols :: int
  current_row :: int
  current_col :: int
  reg :: lcd_reg
  reg_prev :: lcd_reg
  lcd_buffer :: "u8 list"
  lcd_addr :: u64

definition dlcd_init :: "lcd_reg \<Rightarrow> lcd_reg \<Rightarrow> u64 \<Rightarrow> u64 \<Rightarrow> u64 \<Rightarrow> (cmd_error + lcd_data) option" where
  "dlcd_init junk junk_prev cols0 rows0 addr0 =
     (if cols0 > LCD_MAX_COLS then Some (Inl Too_many_columns)
      else if rows0 > LCD_MAX_ROWS then Some (Inl Too_many_rows)
      else if \<not> phys_range addr0 then Some (Inl Addr_out_of_range)
      else if \<not> phys_range (addr0 + LCD_LIMIT) then Some (Inl Registers_exceed_range)
      else do {
        ASSERT (rows0 * cols0 > 0);
        Some (Inr \<lparr>rows = uint rows0, cols = uint cols0, current_row = 0, current_col = 0,
                   reg = junk, reg_prev = junk_prev, lcd_buffer = replicate (unat (rows0 * cols0)) 0, lcd_addr = addr0\<rparr>)
      })"

text \<open>The loop over the rows, from row \<open>i\<close> with \<open>n\<close> rows left.\<close>

fun position_loop :: "nat \<Rightarrow> nat \<Rightarrow> int \<Rightarrow> int \<Rightarrow> (int \<times> int) option" where
  "position_loop 0 i ncols addr = None"
| "position_loop (Suc n) i ncols addr =
     (let base = row_addr_map ! i
      in if addr \<ge> base \<and> addr < base + 40 then
           (let col = addr - base in Some (int i, if col \<ge> ncols then ncols - 1 else col))
         else position_loop n (i + 1) ncols addr)"

definition ddram_addr_to_position :: "lcd_data \<Rightarrow> u8 \<Rightarrow> (int \<times> int) option" where
  "ddram_addr_to_position data addr = position_loop (nat (rows data)) 0 (cols data) (uint addr)"

definition lcd_set_cursor :: "u8 \<Rightarrow> lcd_data \<Rightarrow> lcd_data" where
  "lcd_set_cursor addr data =
     (case ddram_addr_to_position data addr of
        Some (row, col) \<Rightarrow> data\<lparr>current_row := row, current_col := col\<rparr>
      | None \<Rightarrow> data)"

definition lcd_put :: "lcd_data \<Rightarrow> lcd_data option" where
  "lcd_put data =
     (if current_col data < cols data then do {
        let i = current_row data * cols data + current_col data;
        ASSERT (0 \<le> i \<and> i < int (length (lcd_buffer data)));
        let data1 = data\<lparr>lcd_buffer := (lcd_buffer data)[nat i := lcd_byte (reg data)], current_col := current_col data + 1\<rparr>;
        (if current_col data1 \<ge> cols data1 then do {
           ASSERT (rows data1 \<noteq> 0);
           Some (data1\<lparr>current_col := 0, current_row := (current_row data1 + 1) mod rows data1\<rparr>)
         } else Some data1)
      } else Some data)"

definition lcd_command :: "lcd_data \<Rightarrow> lcd_data" where
  "lcd_command data =
     (let c = lcd_byte (reg data)
      in if c = 0x01 then
           data\<lparr>lcd_buffer := replicate (length (lcd_buffer data)) 0, current_row := 0, current_col := 0\<rparr>
         else if c = 0x02 then data\<lparr>current_row := 0, current_col := 0\<rparr>
         else if c AND 0x80 = 0x80 then lcd_set_cursor (c AND 0x7F) data
         else data)"

definition lcd_write32 :: "(lcd_data, u32) dev_write" where
  "lcd_write32 procno data addr val =
     (if addr - lcd_addr data = LCD_DATA then Some (data\<lparr>reg := (reg data)\<lparr>lcd_byte := ucast val\<rparr>\<rparr>, [])
      else if addr - lcd_addr data = LCD_CONTROL then
        (let data1 = data\<lparr>reg_prev := reg data,
                          reg := (reg data)\<lparr>lcd_rs := bit val 0, lcd_rw := bit val 1, lcd_e := bit val 2\<rparr>\<rparr>
         in if lcd_e (reg_prev data1) \<and> \<not> lcd_e (reg data1) then
              (if lcd_rs (reg data1) then
                 (if \<not> lcd_rw (reg data1) then do { data2 \<leftarrow> lcd_put data1; Some (data2, []) } else Some (data1, []))
               else (if \<not> lcd_rw (reg data1) then Some (lcd_command data1, []) else Some (data1, [])))
            else Some (data1, []))
      else Some (data, []))"

definition dlcd_type :: "lcd_data device_type" where
  "dlcd_type = no_methods\<lparr>write32 := Some lcd_write32\<rparr>"

subsection \<open>The cursor stays on the display\<close>

definition lcd_inv :: "lcd_data \<Rightarrow> bool" where
  "lcd_inv d \<longleftrightarrow> 0 < rows d \<and> rows d \<le> 4 \<and> 0 < cols d \<and> cols d \<le> 40 \<and>
     0 \<le> current_row d \<and> current_row d < rows d \<and> 0 \<le> current_col d \<and> current_col d < cols d \<and>
     int (length (lcd_buffer d)) = rows d * cols d"

lemma lcd_index_bound: "0 \<le> r \<Longrightarrow> r < R \<Longrightarrow> 0 \<le> c \<Longrightarrow> c < C \<Longrightarrow> 0 \<le> r * C + c \<and> r * C + c < R * C" for r :: int
proof -
  assume a: "0 \<le> r" "r < R" "0 \<le> c" "c < C"
  then have "(r + 1) * C \<le> R * C" by (intro mult_right_mono) auto
  then show ?thesis using a by (simp add: algebra_simps)
qed

lemma position_loop_bound:
  assumes "position_loop n i C addr = Some (row, col)" "0 < C"
  shows "int i \<le> row \<and> row < int (i + n) \<and> 0 \<le> col \<and> col < C"
  using assms
proof (induction n arbitrary: i)
  case (Suc n)
  show ?case
  proof (cases "row_addr_map ! i \<le> addr \<and> addr < row_addr_map ! i + 40")
    case True
    then show ?thesis using Suc.prems by (auto simp: Let_def split: if_splits)
  next
    case False
    then have "position_loop n (i + 1) C addr = Some (row, col)" using Suc.prems(1) by (auto simp: Let_def)
    from Suc.IH [OF this assms(2)] show ?thesis by simp
  qed
qed simp

lemma lcd_set_cursor_inv: "lcd_inv d \<Longrightarrow> lcd_inv (lcd_set_cursor a d)"
proof -
  assume d: "lcd_inv d"
  show ?thesis
  proof (cases "ddram_addr_to_position d a")
    case (Some p)
    obtain row col where p: "p = (row, col)" by (cases p)
    then have "0 \<le> row \<and> row < rows d \<and> 0 \<le> col \<and> col < cols d"
      using position_loop_bound [of "nat (rows d)" 0 "cols d" "uint a" row col] Some d
      by (simp add: ddram_addr_to_position_def lcd_inv_def)
    then show ?thesis using d Some p by (simp add: lcd_set_cursor_def lcd_inv_def)
  qed (use d in \<open>simp add: lcd_set_cursor_def\<close>)
qed

lemma lcd_put_inv: "lcd_inv d \<Longrightarrow> \<exists>d'. lcd_put d = Some d' \<and> lcd_inv d'"
  using lcd_index_bound [of "current_row d" "rows d" "current_col d" "cols d"]
  by (auto simp: lcd_put_def lcd_inv_def Let_def)

lemma lcd_command_inv: "lcd_inv d \<Longrightarrow> lcd_inv (lcd_command d)"
  using lcd_set_cursor_inv [of d] by (auto simp: lcd_command_def Let_def) (auto simp: lcd_inv_def)

lemma lcd_inv_reg: "lcd_inv (d\<lparr>reg := r\<rparr>) = lcd_inv d" "lcd_inv (d\<lparr>reg_prev := p\<rparr>) = lcd_inv d"
  by (simp_all add: lcd_inv_def)

lemma lcd_write32_inv: "lcd_inv d \<Longrightarrow> \<exists>d'. lcd_write32 p d a v = Some (d', []) \<and> lcd_inv d'"
proof -
  assume d: "lcd_inv d"
  define d1 where "d1 = d\<lparr>reg_prev := reg d, reg := (reg d)\<lparr>lcd_rs := bit v 0, lcd_rw := bit v 1, lcd_e := bit v 2\<rparr>\<rparr>"
  have d1: "lcd_inv d1" using d by (simp add: d1_def lcd_inv_reg)
  obtain d2 where d2: "lcd_put d1 = Some d2" "lcd_inv d2" using lcd_put_inv [OF d1] by blast
  show ?thesis
    unfolding lcd_write32_def Let_def d1_def [symmetric] using d d1 d2 lcd_command_inv [OF d1] by (simp add: lcd_inv_reg)
qed

lemma lcd_keeps: "dev_keeps lcd_inv dlcd_type"
proof -
  have "\<exists>d' es. lcd_write32 p d a v = Some (d', es) \<and> lcd_inv d' \<and> list_all plain_effect es" if "lcd_inv d" for p d a v
    using lcd_write32_inv [OF that, of p a v] by auto
  then show ?thesis by (simp add: dlcd_type_def dev_keepsI write_keepsI)
qed

lemma dlcd_init_inv: "dlcd_init j jp c r a = Some (Inr d) \<Longrightarrow> lcd_inv d"
proof -
  assume "dlcd_init j jp c r a = Some (Inr d)"
  then have le: "c \<le> 40" "r \<le> 4" "r * c > 0"
    and d: "rows d = uint r" "cols d = uint c" "current_row d = 0" "current_col d = 0" "length (lcd_buffer d) = unat (r * c)"
    by (auto simp: dlcd_init_def split: if_splits)
  have u: "uint c \<le> 40" "uint r \<le> 4" using le by (simp_all add: word_le_def)
  moreover have "uint r * uint c \<le> 4 * 40" using u by (intro mult_mono) simp_all
  ultimately have m: "uint (r * c) = uint r * uint c" by (simp add: uint_word_ariths)
  have "uint (r * c) \<noteq> 0" using le(3) by (simp add: word_less_def)
  then have "uint r \<noteq> 0" "uint c \<noteq> 0" unfolding m by auto
  then have "0 < uint r" "0 < uint c" by (simp_all add: less_le)
  then show ?thesis using u d m by (simp add: lcd_inv_def)
qed

text \<open>A sequence of stores of words \<open>v\<close> to addresses \<open>a\<close>.\<close>

fun lcd_writes :: "(ptr36 \<times> u32) list \<Rightarrow> lcd_data \<Rightarrow> lcd_data option" where
  "lcd_writes [] d = Some d"
| "lcd_writes ((a, v) # ws) d = do { (d1, _) \<leftarrow> lcd_write32 0 d a v; lcd_writes ws d1 }"

lemma lcd_set_cursor_size: "rows (lcd_set_cursor a d) = rows d \<and> cols (lcd_set_cursor a d) = cols d"
  by (auto simp: lcd_set_cursor_def split: option.splits prod.splits)

lemma lcd_write32_size: "lcd_write32 p d a v = Some (d', es) \<Longrightarrow> rows d' = rows d \<and> cols d' = cols d"
  by (auto simp: lcd_write32_def lcd_put_def lcd_command_def lcd_set_cursor_size Let_def bind_Some_iff split: if_splits)

lemma lcd_writes_inv: "lcd_inv d \<Longrightarrow> \<exists>d'. lcd_writes ws d = Some d' \<and> lcd_inv d' \<and> rows d' = rows d \<and> cols d' = cols d"
proof (induction ws arbitrary: d)
  case (Cons w ws)
  obtain a v where w: "w = (a, v)" by (cases w)
  obtain d1 where "lcd_write32 0 d a v = Some (d1, [])" "lcd_inv d1" using lcd_write32_inv [OF Cons.prems] by blast
  then show ?case using Cons.IH [of d1] lcd_write32_size [of 0 d a v d1] w by auto
qed simp

subsection \<open>Addressing\<close>

text \<open>
  The first 20 addresses of rows 2 and 3 lie inside the ranges of rows 0 and 1, which are tested
  first.
\<close>

lemma position_overlap:
  assumes "lcd_inv d"
  shows "uint a < 40 \<Longrightarrow> ddram_addr_to_position d a = Some (0, min (uint a) (cols d - 1))"
    "rows d > 1 \<Longrightarrow> 64 \<le> uint a \<Longrightarrow> uint a < 104 \<Longrightarrow> ddram_addr_to_position d a = Some (1, min (uint a - 64) (cols d - 1))"
proof -
  obtain n where n: "nat (rows d) = Suc n" using assms by (cases "nat (rows d)") (auto simp: lcd_inv_def)
  have c: "0 < cols d" using assms by (simp add: lcd_inv_def)
  show "ddram_addr_to_position d a = Some (0, min (uint a) (cols d - 1))" if "uint a < 40"
    using that c by (auto simp: ddram_addr_to_position_def n row_addr_map_def Let_def)
  show "ddram_addr_to_position d a = Some (1, min (uint a - 64) (cols d - 1))" if "rows d > 1" "64 \<le> uint a" "uint a < 104"
  proof -
    have "n \<noteq> 0" using n that(1) by linarith
    then obtain m where "n = Suc m" by (cases n) auto
    then show ?thesis using that c by (auto simp: ddram_addr_to_position_def n row_addr_map_def Let_def)
  qed
qed

end
