(* ===== verification/Ddisk.thy ===== *)
theory Ddisk
  imports Device_Init
begin

text \<open>
  The disk with direct memory access, \<open>src/src/device/ddisk.c\<close>: its registers, its commands and the
  parts of a transfer step that concern the disk alone. A sector is 512 bytes, moved as 128 words,
  one in each machine step. The image is its list of bytes; an access outside it is undefined.

  Outcomes of host calls (file contents, failures) are arguments. \<open>cmds_error\<close>, which \<open>ddisk_init\<close>
  leaves uninitialised, is its argument \<open>junk\<close>.
\<close>

datatype disk_action = ACTION_NONE | ACTION_READ | ACTION_WRITE

datatype disk_kind = DISKT_NONE | DISKT_MEM | DISKT_FMAP

abbreviation (input) DISK_ADDR_LO :: ptr36 where "DISK_ADDR_LO \<equiv> 0"
abbreviation (input) DISK_SECNO :: ptr36 where "DISK_SECNO \<equiv> 4"
abbreviation (input) DISK_COMMAND :: ptr36 where "DISK_COMMAND \<equiv> 8"
abbreviation (input) DISK_SIZE_LO :: ptr36 where "DISK_SIZE_LO \<equiv> 12"
abbreviation (input) DISK_ADDR_HI :: ptr36 where "DISK_ADDR_HI \<equiv> 16"
abbreviation (input) DISK_SECNO_HI :: ptr36 where "DISK_SECNO_HI \<equiv> 20"
abbreviation (input) DISK_SIZE_HI :: ptr36 where "DISK_SIZE_HI \<equiv> 24"
abbreviation (input) DISK_LIMIT :: u64 where "DISK_LIMIT \<equiv> 28"

definition STATUS_INT :: u32 where "STATUS_INT = 0x04"
definition STATUS_ERROR :: u32 where "STATUS_ERROR = 0x08"
definition STATUS_BUSY :: u32 where "STATUS_BUSY = 0x10"

definition COMMAND_READ :: u32 where "COMMAND_READ = 0x01"
definition COMMAND_WRITE :: u32 where "COMMAND_WRITE = 0x02"
definition COMMAND_INT_ACK :: u32 where "COMMAND_INT_ACK = 0x04"
definition COMMAND_MASK :: u32 where "COMMAND_MASK = 0x07"

record disk_data =
  img :: "u8 list"
  disk_intno :: nat
  disk_cpuid :: nat
  uses_busy_bit :: bool
  disk_type :: disk_kind
  disk_addr :: ptr36
  disk_size :: u64
  disk_ptr :: ptr36
  disk_secno :: u32
  disk_status :: u32
  disk_command :: u32
  action :: disk_action
  secno :: nat
  cnt :: nat
  disk_ig :: bool
  disk_intrcount :: u64
  cmds_read :: u64
  cmds_write :: u64
  cmds_error :: u64

definition ddisk_clean_up :: "disk_data \<Rightarrow> disk_data" where
  "ddisk_clean_up data =
     data\<lparr>action := ACTION_NONE, disk_ptr := 0, cnt := 0, img := [], disk_size := 0, disk_type := DISKT_NONE\<rparr>"

text \<open>A device as \<open>dev_by_name\<close> finds it: its name, the name of its type and its processor number.\<close>

record dev_info =
  di_name :: string
  di_type :: string
  di_cpuno :: nat

definition dev_by_name :: "string \<Rightarrow> dev_info list \<Rightarrow> dev_info option" where
  "dev_by_name s devs = List.find (\<lambda>d. di_name d = s) devs"

text \<open>
  The optional arguments: without an interrupt number the disk uses the busy bit. The result is
  \<open>(uses_busy_bit, intno, cpuid)\<close>.
\<close>

definition ddisk_int_parms :: "dev_info list \<Rightarrow> parm \<Rightarrow> parm \<Rightarrow> cmd_error + (bool \<times> nat \<times> nat)" where
  "ddisk_int_parms devs p1 p2 =
     (case p1 of
        Parm_uint intno0 \<Rightarrow>
          if intno0 > MAX_INTRS then Inl Intno_out_of_range
          else (case p2 of
             Parm_str name \<Rightarrow> (case dev_by_name name devs of
                 None \<Rightarrow> Inl No_such_device
               | Some d \<Rightarrow>
                   if di_type d = ''dr4kcpu'' \<or> di_type d = ''drvcpu'' \<or> di_type d = ''drv64cpu''
                   then Inr (False, unat intno0, di_cpuno d)
                   else Inl Not_a_cpu)
           | _ \<Rightarrow> Inl Cpu_name_expected)
      | _ \<Rightarrow> Inr (True, 0, 0))"

definition ddisk_init :: "u64 \<Rightarrow> dev_info list \<Rightarrow> u64 \<Rightarrow> parm \<Rightarrow> parm \<Rightarrow> cmd_error + disk_data" where
  "ddisk_init junk devs addr0 p1 p2 =
     (case check_block DISK_LIMIT addr0 of
        Inl e \<Rightarrow> Inl e
      | Inr addr \<Rightarrow> (case ddisk_int_parms devs p1 p2 of
          Inl e \<Rightarrow> Inl e
        | Inr (busy, intno, cpuid) \<Rightarrow>
            Inr \<lparr>img = [], disk_intno = intno, disk_cpuid = cpuid, uses_busy_bit = busy, disk_type = DISKT_NONE,
                 disk_addr = addr, disk_size = 0, disk_ptr = 0, disk_secno = 0, disk_status = 0, disk_command = 0,
                 action = ACTION_NONE, secno = 0, cnt = 0, disk_ig = False, disk_intrcount = 0,
                 cmds_read = 0, cmds_write = 0, cmds_error = junk\<rparr>))"

definition ddisk_generic :: "u64 \<Rightarrow> disk_data \<Rightarrow> cmd_error + disk_data" where
  "ddisk_generic sz data =
     (if sz = 0 then Inl Size_zero
      else if sz AND 0x1FF \<noteq> 0 then Inl Size_not_aligned
      else Inr ((ddisk_clean_up data)\<lparr>img := replicate (unat sz) 0, disk_size := sz, disk_type := DISKT_MEM\<rparr>))"

text \<open>
  \<open>file\<close> is the contents of the file, \<open>None\<close> if it cannot be opened and measured; \<open>mapped\<close> is whether
  \<open>mmap\<close> succeeds. A size of \<open>2 ^ 64\<close> bytes or more does not fit \<open>size_t\<close>.
\<close>

definition ddisk_fmap :: "u8 list option \<Rightarrow> bool \<Rightarrow> disk_data \<Rightarrow> cmd_error + disk_data" where
  "ddisk_fmap file mapped data =
     (case file of
        None \<Rightarrow> Inl File_io_error
      | Some bytes \<Rightarrow>
          if length bytes \<ge> 2 ^ 64 then Inl File_io_error
          else if bytes = [] then Inl Empty_file
          else (let fsize = length bytes div 512 * 512
                in if fsize = 0 then Inl File_too_small
                   else if \<not> mapped then Inl File_io_error
                   else Inr ((ddisk_clean_up data)\<lparr>disk_size := of_nat fsize, disk_type := DISKT_FMAP, img := take fsize bytes\<rparr>)))"

definition ddisk_fill :: "parm \<Rightarrow> disk_data \<Rightarrow> cmd_error + disk_data" where
  "ddisk_fill p data =
     (case char_parm p of
        Inl e \<Rightarrow> Inl e
      | Inr c \<Rightarrow> Inr (data\<lparr>img := replicate (unat (disk_size data)) c @ drop (unat (disk_size data)) (img data)\<rparr>))"

text \<open>\<open>fread\<close> returns \<open>rd\<close> bytes; after a short read the bytes it read stay in the image.\<close>

definition ddisk_load :: "u8 list option \<Rightarrow> nat \<Rightarrow> disk_data \<Rightarrow> cmd_error option \<times> disk_data" where
  "ddisk_load file rd data =
     (if disk_type data = DISKT_NONE then (Some Not_established, data)
      else (case file of
          None \<Rightarrow> (Some File_io_error, data)
        | Some bytes \<Rightarrow>
            if bytes = [] then (Some Empty_file, data)
            else if length bytes > unat (disk_size data) then (Some File_too_large, data)
            else (let got = take rd bytes
                  in (if length got \<noteq> length bytes then Some File_io_error else None,
                      data\<lparr>img := got @ drop (length got) (img data)\<rparr>))))"

text \<open>The bytes written to the file; \<open>written\<close> is whether the host calls succeed.\<close>

definition ddisk_save :: "bool \<Rightarrow> disk_data \<Rightarrow> cmd_error + u8 list" where
  "ddisk_save written data =
     (if disk_type data = DISKT_NONE then Inl Not_established
      else if \<not> written then Inl File_io_error
      else Inr (take (unat (disk_size data)) (img data)))"

subsection \<open>Registers\<close>

definition ddisk_read32 :: "(disk_data, u32) dev_read" where
  "ddisk_read32 procno data addr val =
     (if disk_type data = DISKT_NONE then Some (val, data, [])
      else (let off = addr - disk_addr data
            in Some (if off = DISK_ADDR_LO then ucast (disk_ptr data AND 0xFFFFFFFF)
                     else if off = DISK_ADDR_HI then ucast (drop_bit 32 (disk_ptr data))
                     else if off = DISK_SECNO then disk_secno data
                     else if off = DISK_SECNO_HI then 0
                     else if off = DISK_COMMAND then disk_status data
                     else if off = DISK_SIZE_LO then ucast (disk_size data AND 0xFFFFFFFF)
                     else if off = DISK_SIZE_HI then ucast (drop_bit 32 (disk_size data))
                     else val, data, [])))"

text \<open>The three error branches of the command register.\<close>

definition disk_cmd_error :: "disk_data \<Rightarrow> disk_data \<times> dev_effect list" where
  "disk_cmd_error data =
     (let data1 = data\<lparr>disk_status := STATUS_ERROR, cmds_error := cmds_error data + 1\<rparr>
      in if \<not> uses_busy_bit data1 then
           (data1\<lparr>disk_status := disk_status data1 OR STATUS_INT, disk_ig := True, disk_intrcount := disk_intrcount data1 + 1\<rparr>,
            [Eff_interrupt_up (Some (disk_cpuid data1)) (disk_intno data1)])
         else (data1, []))"

definition disk_ack :: "disk_data \<Rightarrow> disk_data \<times> dev_effect list" where
  "disk_ack data =
     (if disk_command data AND COMMAND_INT_ACK \<noteq> 0 then
        (data\<lparr>disk_status := disk_status data AND NOT STATUS_INT, disk_ig := False\<rparr>,
         if \<not> uses_busy_bit data then [Eff_interrupt_down (Some (disk_cpuid data)) (disk_intno data)] else [])
      else (data, []))"

definition disk_bound_ok :: "disk_data \<Rightarrow> bool" where
  "disk_bound_ok data \<longleftrightarrow> \<not> ((ucast (disk_secno data) + 1) * 512 > disk_size data)"

definition disk_start :: "disk_data \<Rightarrow> disk_data" where
  "disk_start data =
     (let data1 = (if disk_command data AND COMMAND_READ \<noteq> 0
            then data\<lparr>action := ACTION_READ, cnt := 0, secno := unat (disk_secno data),
                      disk_status := disk_status data OR STATUS_BUSY, cmds_read := cmds_read data + 1\<rparr>
            else data)
      in if disk_command data1 AND COMMAND_WRITE \<noteq> 0
         then data1\<lparr>action := ACTION_WRITE, cnt := 0, secno := unat (disk_secno data1),
                     disk_status := disk_status data1 OR STATUS_BUSY, cmds_write := cmds_write data1 + 1\<rparr>
         else data1)"

definition disk_cmd :: "u32 \<Rightarrow> disk_data \<Rightarrow> disk_data \<times> dev_effect list" where
  "disk_cmd val data =
     (let (data1, es) = disk_ack (data\<lparr>disk_command := val AND COMMAND_MASK\<rparr>);
          cmd = disk_command data1
      in if cmd AND COMMAND_READ \<noteq> 0 \<and> cmd AND COMMAND_WRITE \<noteq> 0 then
           (let (data2, es2) = disk_cmd_error data1 in (data2, es @ es2))
         else if cmd AND (COMMAND_READ OR COMMAND_WRITE) \<noteq> 0 \<and> action data1 \<noteq> ACTION_NONE then
           (let (data2, es2) = disk_cmd_error data1 in (data2, es @ es2))
         else if \<not> disk_bound_ok data1 then
           (let (data2, es2) = disk_cmd_error data1 in (data2, es @ es2))
         else (disk_start data1, es))"

definition ddisk_write32 :: "(disk_data, u32) dev_write" where
  "ddisk_write32 procno data addr val =
     (if disk_type data = DISKT_NONE then Some (data, [])
      else (let off = addr - disk_addr data
            in if off = DISK_ADDR_LO then Some (data\<lparr>disk_ptr := (disk_ptr data AND NOT 0xFFFFFFFF) OR ucast val\<rparr>, [])
               else if off = DISK_ADDR_HI then
                 Some (data\<lparr>disk_ptr := (disk_ptr data AND 0xFFFFFFFF) OR push_bit 32 (ucast val)\<rparr>, [])
               else if off = DISK_SECNO then Some (data\<lparr>disk_secno := val\<rparr>, [])
               else if off = DISK_COMMAND then Some (disk_cmd val data)
               else Some (data, [])))"

definition ddisk_type :: "disk_data device_type" where
  "ddisk_type = no_methods\<lparr>read32 := Some ddisk_read32, write32 := Some ddisk_write32\<rparr>"

subsection \<open>The parts of a transfer step\<close>

definition disk_pos :: "disk_data \<Rightarrow> nat" where
  "disk_pos data = secno data * 128 + cnt data"

definition img_word :: "u8 list \<Rightarrow> nat \<Rightarrow> u32 option" where
  "img_word bs pos = (if 4 * pos + 4 \<le> length bs then Some (load_le 4 (nth bs) (4 * pos)) else None)"

definition img_put :: "u8 list \<Rightarrow> nat \<Rightarrow> u32 \<Rightarrow> u8 list option" where
  "img_put bs pos v =
     (if 4 * pos + 4 \<le> length bs
      then Some (bs[4 * pos := ucast v, 4 * pos + 1 := ucast (drop_bit 8 v), 4 * pos + 2 := ucast (drop_bit 16 v),
                    4 * pos + 3 := ucast (drop_bit 24 v)])
      else None)"

text \<open>The next word, and the end of the transfer after 128 words.\<close>

definition disk_advance :: "disk_data \<Rightarrow> disk_data \<times> dev_effect list" where
  "disk_advance data =
     (let data1 = data\<lparr>disk_ptr := disk_ptr data + 4, cnt := cnt data + 1\<rparr>
      in if cnt data1 = 128 then
           (let data2 = data1\<lparr>action := ACTION_NONE, disk_status := disk_status data1 AND NOT STATUS_BUSY\<rparr>
            in if \<not> uses_busy_bit data2 then
                 (data2\<lparr>disk_status := disk_status data2 OR STATUS_INT, disk_ig := True, disk_intrcount := disk_intrcount data2 + 1\<rparr>,
                  [Eff_interrupt_up (Some (disk_cpuid data2)) (disk_intno data2)])
               else (data2, []))
         else (data1, []))"

subsection \<open>Transfers stay inside the image\<close>

definition disk_inv :: "disk_data \<Rightarrow> bool" where
  "disk_inv d \<longleftrightarrow> length (img d) = unat (disk_size d) \<and> (disk_type d = DISKT_NONE \<longleftrightarrow> disk_size d = 0) \<and>
     512 dvd unat (disk_size d) \<and>
     (action d \<noteq> ACTION_NONE \<longrightarrow> (secno d + 1) * 512 \<le> unat (disk_size d) \<and> cnt d < 128)"

lemma disk_inv_idle:
  "length (img d) = unat (disk_size d) \<Longrightarrow> (disk_type d = DISKT_NONE \<longleftrightarrow> disk_size d = 0) \<Longrightarrow> 512 dvd unat (disk_size d) \<Longrightarrow>
   action d = ACTION_NONE \<Longrightarrow> disk_inv d"
  by (simp add: disk_inv_def)

lemma ddisk_init_inv: "ddisk_init j devs a p1 p2 = Inr d \<Longrightarrow> disk_inv d"
  by (auto simp: ddisk_init_def disk_inv_def split: sum.splits prod.splits)

lemma ddisk_generic_inv: "ddisk_generic sz d = Inr d' \<Longrightarrow> disk_inv d'"
proof -
  assume g: "ddisk_generic sz d = Inr d'"
  then have "sz \<noteq> 0" "sz AND 0x1FF = 0" by (auto simp: ddisk_generic_def split: if_splits)
  moreover have "take_bit 9 sz = 0" using calculation(2) by (simp add: take_bit_eq_mask mask_numeral)
  then have "unat sz mod 2 ^ 9 = 0" by (metis take_bit_eq_mod unsigned_0 unsigned_take_bit_eq)
  ultimately show ?thesis using g by (auto simp: ddisk_generic_def disk_inv_def ddisk_clean_up_def mod_eq_0_iff_dvd)
qed

lemma ddisk_fmap_inv: "ddisk_fmap file m d = Inr d' \<Longrightarrow> disk_inv d'"
proof -
  assume g: "ddisk_fmap file m d = Inr d'"
  then obtain bytes where b: "file = Some bytes" by (auto simp: ddisk_fmap_def split: option.splits)
  define n where "n = length bytes div 512 * 512"
  have n: "n < 2 ^ 64" "n \<noteq> 0" "n \<le> length bytes" "512 dvd n"
    using g by (auto simp: ddisk_fmap_def b Let_def n_def split: if_splits intro: le_less_trans [OF div_times_less_eq_dividend])
  then have u: "unat (of_nat n :: u64) = n" by (simp add: unat_of_nat)
  then have "(of_nat n :: u64) \<noteq> 0" using n(2) by (metis unsigned_0)
  moreover have "d' = (ddisk_clean_up d)\<lparr>disk_size := of_nat n, disk_type := DISKT_FMAP, img := take n bytes\<rparr>"
    using g by (auto simp: ddisk_fmap_def b Let_def n_def split: if_splits)
  ultimately show ?thesis using n u by (simp add: disk_inv_def ddisk_clean_up_def)
qed

lemma ddisk_fill_inv: "disk_inv d \<Longrightarrow> ddisk_fill p d = Inr d' \<Longrightarrow> disk_inv d'"
  by (auto simp: ddisk_fill_def disk_inv_def split: sum.splits)

lemma ddisk_load_inv: "disk_inv d \<Longrightarrow> disk_inv (snd (ddisk_load file rd d))"
  by (auto simp: ddisk_load_def disk_inv_def Let_def split: option.splits)

lemma disk_bound_unat: "disk_bound_ok d \<longleftrightarrow> (unat (disk_secno d) + 1) * 512 \<le> unat (disk_size d)"
proof -
  have "unat (disk_secno d) < 2 ^ 32" using unsigned_less [of "disk_secno d", where 'a = nat] by simp
  then have "unat ((ucast (disk_secno d) + 1) * 512 :: u64) = (unat (disk_secno d) + 1) * 512"
    by (simp add: unat_word_ariths unsigned_ucast_eq take_bit_eq_mod)
  then show ?thesis by (simp add: disk_bound_ok_def word_less_nat_alt not_less del: unat_mult_lem)
qed

lemma disk_cmd_error_inv: "disk_inv (fst (disk_cmd_error d)) = disk_inv d"
  by (simp add: disk_cmd_error_def disk_inv_def Let_def)

lemma disk_ack_inv: "disk_inv (fst (disk_ack d)) = disk_inv d"
  by (simp add: disk_ack_def disk_inv_def)

lemma disk_start_inv: "disk_inv d \<Longrightarrow> disk_bound_ok d \<Longrightarrow> disk_inv (disk_start d)"
  by (auto simp: disk_start_def disk_inv_def disk_bound_unat Let_def)

lemma disk_cmd_inv: "disk_inv d \<Longrightarrow> disk_inv (fst (disk_cmd v d))"
proof -
  assume d: "disk_inv d"
  define d1 where "d1 = fst (disk_ack (d\<lparr>disk_command := v AND COMMAND_MASK\<rparr>))"
  have "disk_inv d1" using d by (simp add: d1_def disk_ack_inv) (simp add: disk_inv_def)
  then show ?thesis using disk_start_inv [of d1] disk_cmd_error_inv [of d1]
    by (simp add: disk_cmd_def d1_def Let_def split_beta)
qed

lemma disk_cmd_plain: "list_all plain_effect (snd (disk_cmd v d))"
  by (simp add: disk_cmd_def disk_ack_def disk_cmd_error_def Let_def split_beta)

lemma ddisk_write32_inv:
  "disk_inv d \<Longrightarrow> \<exists>d' es. ddisk_write32 p d a v = Some (d', es) \<and> disk_inv d' \<and> list_all plain_effect es"
proof -
  assume d: "disk_inv d"
  obtain d' es where c: "disk_cmd v d = (d', es)" by (cases "disk_cmd v d")
  then show ?thesis using d disk_cmd_inv [OF d, of v] disk_cmd_plain [of v d]
    by (simp add: ddisk_write32_def Let_def) (simp add: disk_inv_def)
qed

lemma disk_keeps: "dev_keeps disk_inv ddisk_type"
  by (rule dev_keepsI) (auto simp: ddisk_type_def ddisk_read32_def Let_def intro!: read_keepsI write_keepsI ddisk_write32_inv)

text \<open>The registers do not reach the image.\<close>

lemma disk_cmd_img: "img (fst (disk_cmd v d)) = img d"
  by (simp add: disk_cmd_def disk_start_def disk_ack_def disk_cmd_error_def Let_def split_beta)

lemma disk_keeps_img: "dev_keeps (\<lambda>x. disk_inv x \<and> img x = bs) ddisk_type"
proof -
  have "\<exists>d' es. ddisk_write32 p d a v = Some (d', es) \<and> (disk_inv d' \<and> img d' = img d) \<and> list_all plain_effect es" if "disk_inv d" for p d a v
    using ddisk_write32_inv [OF that, of p a v] disk_cmd_img [of v d]
    by (auto simp: ddisk_write32_def Let_def split: if_splits)
  then show ?thesis
    by (intro dev_keepsI) (auto simp: ddisk_type_def ddisk_read32_def Let_def intro!: read_keepsI write_keepsI)
qed

lemma disk_advance_inv: "disk_inv d \<Longrightarrow> disk_inv (fst (disk_advance d))"
  by (auto simp: disk_advance_def disk_inv_def Let_def)

lemma disk_advance_plain: "list_all plain_effect (snd (disk_advance d))"
  by (simp add: disk_advance_def Let_def)

lemma disk_pos_inside: "disk_inv d \<Longrightarrow> action d \<noteq> ACTION_NONE \<Longrightarrow> 4 * disk_pos d + 4 \<le> length (img d)"
  by (auto simp: disk_inv_def disk_pos_def)

lemma img_put_length: "img_put bs pos v = Some bs' \<Longrightarrow> length bs' = length bs"
  by (auto simp: img_put_def split: if_splits)

lemma disk_inv_img: "disk_inv d \<Longrightarrow> length bs = length (img d) \<Longrightarrow> disk_inv (d\<lparr>img := bs\<rparr>)"
  by (simp add: disk_inv_def)

text \<open>Everything that happens to a disk: register writes, words moved, commands of the user.\<close>

datatype disk_event =
    Ev_write ptr36 u32
  | Ev_word
  | Ev_generic u64
  | Ev_fmap "u8 list option" bool
  | Ev_fill parm
  | Ev_load "u8 list option" nat

definition disk_react :: "disk_event \<Rightarrow> disk_data \<Rightarrow> disk_data option" where
  "disk_react e d =
     (case e of
        Ev_write a v \<Rightarrow> map_option fst (ddisk_write32 0 d a v)
      | Ev_word \<Rightarrow> Some (if action d = ACTION_NONE then d else fst (disk_advance d))
      | Ev_generic sz \<Rightarrow> Some (case ddisk_generic sz d of Inl _ \<Rightarrow> d | Inr d' \<Rightarrow> d')
      | Ev_fmap file mapped \<Rightarrow> Some (case ddisk_fmap file mapped d of Inl _ \<Rightarrow> d | Inr d' \<Rightarrow> d')
      | Ev_fill p \<Rightarrow> Some (case ddisk_fill p d of Inl _ \<Rightarrow> d | Inr d' \<Rightarrow> d')
      | Ev_load file rd \<Rightarrow> Some (snd (ddisk_load file rd d)))"

fun disk_events :: "disk_event list \<Rightarrow> disk_data \<Rightarrow> disk_data option" where
  "disk_events [] d = Some d"
| "disk_events (e # es) d = do { d1 \<leftarrow> disk_react e d; disk_events es d1 }"

lemma disk_event_inv: "disk_inv d \<Longrightarrow> \<exists>d'. disk_react e d = Some d' \<and> disk_inv d'"
proof (cases e)
  case (Ev_write a v)
  moreover assume "disk_inv d"
  ultimately show ?thesis using ddisk_write32_inv [of d 0 a v] by (auto simp: disk_react_def)
qed (auto simp: disk_react_def disk_advance_inv ddisk_load_inv
      dest: ddisk_generic_inv ddisk_fmap_inv ddisk_fill_inv split: sum.splits)

lemma disk_events_inv: "disk_inv d \<Longrightarrow> \<exists>d'. disk_events es d = Some d' \<and> disk_inv d'"
proof (induction es arbitrary: d)
  case (Cons e es)
  obtain d1 where "disk_react e d = Some d1" "disk_inv d1" using disk_event_inv [OF Cons.prems] by blast
  then show ?case using Cons.IH by simp
qed simp

end
