(* ===== verification/Mem_Device.thy ===== *)
theory Mem_Device
  imports Device_Init Physmem_Facts
begin

text \<open>
  The memory devices, \<open>src/src/device/mem.c\<close>: the commands that create, map, fill, load and dispose a
  physical memory area. An area is an entry of \<open>areas\<close>; the memory that a command allocates or maps
  is the block \<open>b\<close>, a number that the allocation chose. Disposing of the memory of an area leaves its
  block with size zero. Outcomes of host calls are arguments.
\<close>

definition ADDR2FRAME :: "ptr36 \<Rightarrow> u32" where
  "ADDR2FRAME addr = ucast (drop_bit FRAME_WIDTH addr)"

definition SIZE2FRAMES :: "len36 \<Rightarrow> u32" where
  "SIZE2FRAMES sz = ucast (drop_bit FRAME_WIDTH sz)"

definition mem_init :: "string \<Rightarrow> u64 \<Rightarrow> cmd_error + physmem_area" where
  "mem_init type_name start0 =
     (if \<not> phys_range start0 then Inl Addr_out_of_range
      else if \<not> ptr36_frame_aligned start0 then Inl Addr_not_aligned
      else Inr \<lparr>area_type = MEMT_NONE, writable = (type_name = ''rwm''), area_start = ADDR2FRAME start0,
                area_count = 0, area_data = None\<rparr>)"

text \<open>The area \<open>a\<close> gets the block \<open>b\<close> of \<open>sz\<close> bytes with the contents \<open>bytes\<close>.\<close>

definition establish ::
    "nat \<Rightarrow> physmem_type \<Rightarrow> nat \<Rightarrow> len36 \<Rightarrow> (nat \<Rightarrow> u8) \<Rightarrow> ('c, 'd, 'z) machine_scheme \<Rightarrow> ('c, 'd, 'z) machine_scheme" where
  "establish a ty b sz bytes s =
     s\<lparr>areas := (areas s)(a := (areas s a)\<lparr>area_type := ty, area_count := SIZE2FRAMES sz, area_data := Some (b, 0)\<rparr>),
       mem_size := (mem_size s)(b := unat sz), mem_bytes := (mem_bytes s)(b := bytes)\<rparr>"

definition mem_generic ::
    "nat \<Rightarrow> nat \<Rightarrow> u64 \<Rightarrow> ('c, 'd, 'z) machine_scheme \<Rightarrow> (cmd_error + ('c, 'd, 'z) machine_scheme) option" where
  "mem_generic a b size0 s =
     (if area_type (areas s a) \<noteq> MEMT_NONE then Some (Inl Already_established)
      else if size0 = 0 then Some (Inl Size_zero)
      else if \<not> phys_range size0 then Some (Inl Size_out_of_range)
      else if \<not> phys_range (FRAME2ADDR (area_start (areas s a)) + size0) then Some (Inl Size_out_of_range)
      else if \<not> ptr36_frame_aligned size0 then Some (Inl Size_not_aligned)
      else do {
        s1 \<leftarrow> physmem_wire a (establish a MEMT_MEM b size0 (\<lambda>_. 0) s);
        Some (Inr s1)
      })"

text \<open>
  A mapped file is padded with zeros to whole frames. \<open>mapped\<close> is whether \<open>mmap\<close> succeeds; the
  arithmetic on the size is that of \<open>size_t\<close>.
\<close>

definition mem_fmap ::
    "nat \<Rightarrow> nat \<Rightarrow> u8 list option \<Rightarrow> bool \<Rightarrow> ('c, 'd, 'z) machine_scheme \<Rightarrow> (cmd_error + ('c, 'd, 'z) machine_scheme) option" where
  "mem_fmap a b file mapped s =
     (if area_type (areas s a) \<noteq> MEMT_NONE then Some (Inl Already_established)
      else (case file of
          None \<Rightarrow> Some (Inl File_io_error)
        | Some bytes \<Rightarrow>
            (let fsize = (of_nat (length bytes) + 0xFFF) AND NOT 0xFFF :: u64
             in if fsize = 0 then Some (Inl Empty_file)
                else if \<not> phys_range fsize then Some (Inl Size_out_of_range)
                else if \<not> phys_range (FRAME2ADDR (area_start (areas s a)) + fsize) then Some (Inl Size_out_of_range)
                else if \<not> mapped then Some (Inl File_io_error)
                else do {
                  s1 \<leftarrow> physmem_wire a (establish a MEMT_FMAP b fsize (\<lambda>i. if i < length bytes then bytes ! i else 0) s);
                  Some (Inr s1)
                })))"

definition area_bytes :: "nat \<Rightarrow> ('c, 'd, 'z) machine_scheme \<Rightarrow> nat" where
  "area_bytes a s = FRAMES2SIZE (area_count (areas s a))"

text \<open>Writing \<open>n\<close> bytes \<open>f 0, f 1, \<dots>\<close> from the start of the area's memory.\<close>

definition area_overwrite ::
    "nat \<Rightarrow> nat \<Rightarrow> (nat \<Rightarrow> u8) \<Rightarrow> ('c, 'd, 'z) machine_scheme \<Rightarrow> ('c, 'd, 'z) machine_scheme option" where
  "area_overwrite a n f s =
     (if n = 0 then Some s
      else do {
        (b, off) \<leftarrow> area_data (areas s a);
        ASSERT (off + n \<le> mem_size s b);
        Some (s\<lparr>mem_bytes := (mem_bytes s)(b := (\<lambda>i. if off \<le> i \<and> i < off + n then f (i - off) else mem_bytes s b i))\<rparr>)
      })"

text \<open>\<open>fread\<close> returns \<open>rd\<close> bytes; after a short read the bytes it read stay in the memory.\<close>

definition mem_load ::
    "nat \<Rightarrow> u8 list option \<Rightarrow> nat \<Rightarrow> ('c, 'd, 'z) machine_scheme \<Rightarrow> (cmd_error option \<times> ('c, 'd, 'z) machine_scheme) option" where
  "mem_load a file rd s =
     (if area_type (areas s a) = MEMT_NONE then Some (Some Not_established, s)
      else if area_type (areas s a) = MEMT_FMAP then Some (Some Already_established, s)
      else (case file of
          None \<Rightarrow> Some (Some File_io_error, s)
        | Some bytes \<Rightarrow>
            if bytes = [] then Some (Some Empty_file, s)
            else if length bytes > area_bytes a s then Some (Some File_too_large, s)
            else do {
              let got = take rd bytes;
              s1 \<leftarrow> area_overwrite a (length got) (nth got) s;
              Some (if length got \<noteq> length bytes then Some File_io_error else None, s1)
            }))"

definition mem_fill ::
    "nat \<Rightarrow> parm \<Rightarrow> ('c, 'd, 'z) machine_scheme \<Rightarrow> (cmd_error + ('c, 'd, 'z) machine_scheme) option" where
  "mem_fill a p s =
     (case char_parm p of
        Inl e \<Rightarrow> Some (Inl e)
      | Inr c \<Rightarrow> do {
          s1 \<leftarrow> area_overwrite a (area_bytes a s) (\<lambda>_. c) s;
          Some (Inr s1)
        })"

text \<open>The bytes written to the file.\<close>

definition mem_save :: "nat \<Rightarrow> bool \<Rightarrow> ('c, 'd, 'z) machine_scheme \<Rightarrow> (cmd_error + u8 list) option" where
  "mem_save a written s =
     (if area_type (areas s a) = MEMT_NONE then Some (Inl Not_established)
      else if \<not> written then Some (Inl File_io_error)
      else do {
        (b, off) \<leftarrow> area_data (areas s a);
        ASSERT (off + area_bytes a s \<le> mem_size s b);
        Some (Inr (map (\<lambda>i. mem_bytes s b (off + i)) [0..<area_bytes a s]))
      })"

definition physmem_cleanup :: "nat \<Rightarrow> ('c, 'd, 'z) machine_scheme \<Rightarrow> ('c, 'd, 'z) machine_scheme option" where
  "physmem_cleanup a s = do {
     let dispose = (\<lambda>data s. case area_data (areas s a) of
           None \<Rightarrow> s
         | Some (b, off) \<Rightarrow> s\<lparr>mem_size := (mem_size s)(b := 0), areas := (areas s)(a := (areas s a)\<lparr>area_data := data\<rparr>)\<rparr>);
     s1 \<leftarrow> (case area_type (areas s a) of
        MEMT_NONE \<Rightarrow> Some s
      | MEMT_MEM \<Rightarrow> do { s1 \<leftarrow> physmem_unwire a s; Some (dispose None s1) }
      | MEMT_FMAP \<Rightarrow> do { s1 \<leftarrow> physmem_unwire a s; Some (dispose (area_data (areas s1 a)) s1) });
     Some (s1\<lparr>areas := (areas s1)(a := (areas s1 a)\<lparr>area_type := MEMT_NONE, area_count := 0\<rparr>)\<rparr>)
   }"

subsection \<open>Wiring always succeeds while no second-level table has been freed\<close>

lemma wire_loop_total:
  assumes "\<forall>i. ftl0 s i \<noteq> FTL1_FREED" "area_data (areas s area) = Some (b, off)"
  shows "\<exists>t. wire_loop n area pfn s = Some (s\<lparr>ftl0 := t\<rparr>) \<and> (\<forall>i. t i \<noteq> FTL1_FREED)"
  using assms
proof (induction n arbitrary: pfn s)
  case 0
  have "s = s\<lparr>ftl0 := ftl0 s\<rparr>" by simp
  then show ?case using 0 by (metis wire_loop.simps(1))
next
  case (Suc n)
  obtain t where t: "wire_frame area pfn s = Some (s\<lparr>ftl0 := t\<rparr>)" "\<forall>i. t i \<noteq> FTL1_FREED"
    using Suc.prems by (auto simp: wire_frame_def set_frame_def Let_def split: ftl1_ptr.splits)
  obtain t' where "wire_loop n area (pfn + 1) (s\<lparr>ftl0 := t\<rparr>) = Some ((s\<lparr>ftl0 := t\<rparr>)\<lparr>ftl0 := t'\<rparr>)" "\<forall>i. t' i \<noteq> FTL1_FREED"
    using Suc.IH [of "s\<lparr>ftl0 := t\<rparr>" "pfn + 1"] Suc.prems(2) t(2) by auto
  then show ?case using t(1) by auto
qed

subsection \<open>What an accepted size means\<close>

lemma frames_of_size:
  assumes "phys_range sz" "ptr36_frame_aligned sz" "phys_range (FRAME2ADDR st + sz)"
  shows "unat (SIZE2FRAMES sz) * 4096 = unat sz" "unat st + unat (SIZE2FRAMES sz) < 2 ^ 24"
proof -
  have z: "unat sz < 2 ^ 36" using assms(1) by (simp add: phys_range_unat)
  have "4096 dvd unat sz" using assms(2) frame_offset [of sz] by (simp add: ptr36_frame_aligned_def mod_eq_0_iff_dvd)
  then obtain n where n: "unat sz = n * 4096" by (metis dvd_div_mult_self)
  have f: "unat (SIZE2FRAMES sz) = n"
    using z n by (simp add: SIZE2FRAMES_def unsigned_ucast_eq take_bit_eq_mod unat_drop_bit)
  then show "unat (SIZE2FRAMES sz) * 4096 = unat sz" using n by simp
  have b: "unat st < 2 ^ 32" using unsigned_less [of st, where 'a = nat] by simp
  then have st: "unat (FRAME2ADDR st) = unat st * 4096"
    by (simp add: FRAME2ADDR_def push_bit_eq_mult unat_word_ariths unsigned_ucast_eq take_bit_eq_mod)
  have "unat (FRAME2ADDR st + sz) = unat st * 4096 + unat sz" using b z by (simp add: unat_word_ariths st)
  then have "unat st * 4096 + n * 4096 < 2 ^ 36" using assms(3) n by (simp add: phys_range_unat)
  then show "unat st + unat (SIZE2FRAMES sz) < 2 ^ 24" using f by simp
qed

text \<open>The frames after a block is established and wired, and the memory they hold.\<close>

definition block_fresh :: "nat \<Rightarrow> ('c, 'd, 'z) machine_scheme \<Rightarrow> bool" where
  "block_fresh b s \<longleftrightarrow> (\<forall>p f off. frame_at p s = Some f \<longrightarrow> frame_data f \<noteq> Some (b, off))"

definition in_area :: "nat \<Rightarrow> ('c, 'd, 'z) machine_scheme \<Rightarrow> nat \<Rightarrow> bool" where
  "in_area a s p \<longleftrightarrow> unat (area_start (areas s a)) \<le> p \<and> p < unat (area_start (areas s a)) + unat (area_count (areas s a))"

lemma establish_parts:
  "areas (establish a ty b sz bs s) a = (areas s a)\<lparr>area_type := ty, area_count := SIZE2FRAMES sz, area_data := Some (b, 0)\<rparr>"
  "mem_size (establish a ty b sz bs s) = (mem_size s)(b := unat sz)"
  "mem_bytes (establish a ty b sz bs s) = (mem_bytes s)(b := bs)"
  "ftl0 (establish a ty b sz bs s) = ftl0 s"
  by (simp_all add: establish_def)

lemma wire_established:
  assumes ok: "physmem_ok s" and fresh: "block_fresh b s" and ty: "ty \<noteq> MEMT_NONE" and pos: "sz \<noteq> 0"
    and sz: "phys_range sz" "ptr36_frame_aligned sz" "phys_range (FRAME2ADDR (area_start (areas s a)) + sz)"
    and s1_def: "s1 = establish a ty b sz bs s"
  shows "\<exists>t. physmem_wire a s1 = Some (s1\<lparr>ftl0 := t\<rparr>) \<and> (\<forall>i. t i \<noteq> FTL1_FREED) \<and>
     (\<forall>p. frame_at p (s1\<lparr>ftl0 := t\<rparr>) =
        (if in_area a s1 p then Some \<lparr>frame_area = Some a, frame_data = Some (b, (p - unat (area_start (areas s a))) * 4096), valid = False\<rparr>
         else frame_at p s))"
proof -
  note fr = frames_of_size [OF sz]
  have a: "areas s1 a = (areas s a)\<lparr>area_type := ty, area_count := SIZE2FRAMES sz, area_data := Some (b, 0)\<rparr>"
    by (simp add: s1_def establish_parts)
  have c: "area_count (areas s1 a) > 0" using fr(1) pos by (auto simp: a word_gt_0 unat_eq_0)
  obtain t where t: "wire_loop (unat (area_count (areas s1 a))) a 0 s1 = Some (s1\<lparr>ftl0 := t\<rparr>)" "\<forall>i. t i \<noteq> FTL1_FREED"
    using wire_loop_total [of s1 a b 0 "unat (area_count (areas s1 a))" 0] ok
    by (auto simp: a physmem_ok_def) (auto simp: s1_def establish_parts)
  then have w: "physmem_wire a s1 = Some (s1\<lparr>ftl0 := t\<rparr>)" using c ty by (simp add: physmem_wire_def a)
  have "frame_at p s1 = frame_at p s" for p by (rule frame_at_cong) (simp add: s1_def establish_parts)
  then have "frame_at p (s1\<lparr>ftl0 := t\<rparr>) =
      (if in_area a s1 p then Some \<lparr>frame_area = Some a, frame_data = Some (b, (p - unat (area_start (areas s a))) * 4096), valid = False\<rparr>
       else frame_at p s)" for p
    using physmem_wire_frames [OF w, of p] fr(2) by (simp add: a in_area_def wired_frame_def mult.commute)
  then show ?thesis using w t(2) by blast
qed

lemma in_area_bound: "in_area a s p \<Longrightarrow> (p - unat (area_start (areas s a))) * 4096 + 4096 \<le> unat (area_count (areas s a)) * 4096"
proof -
  assume "in_area a s p"
  then have "p - unat (area_start (areas s a)) + 1 \<le> unat (area_count (areas s a))" by (auto simp: in_area_def)
  then have "(p - unat (area_start (areas s a)) + 1) * 4096 \<le> unat (area_count (areas s a)) * 4096" by (rule mult_right_mono) simp
  then show ?thesis by simp
qed

lemma wired_disjoint: "(p :: nat) \<noteq> q \<Longrightarrow> st \<le> p \<Longrightarrow> st \<le> q \<Longrightarrow> (p - st) * 4096 + 4096 \<le> (q - st) * 4096 \<or> (q - st) * 4096 + 4096 \<le> (p - st) * 4096"
  by linarith

lemma established_ok:
  assumes ok: "physmem_ok s" and fresh: "block_fresh b s"
    and s1: "s1 = establish a ty b sz bs s" and sz: "unat (SIZE2FRAMES sz) * 4096 = unat sz"
    and t: "\<forall>i. t i \<noteq> FTL1_FREED"
    and fr: "\<And>p. frame_at p (s1\<lparr>ftl0 := t\<rparr>) =
        (if in_area a s1 p then Some \<lparr>frame_area = Some a, frame_data = Some (b, (p - unat (area_start (areas s a))) * 4096), valid = False\<rparr>
         else frame_at p s)"
  shows "physmem_ok (s1\<lparr>ftl0 := t\<rparr>)"
    "phys_byte (s1\<lparr>ftl0 := t\<rparr>) x = (if in_area a s1 (unat x div 4096)
       then Some (bs ((unat x div 4096 - unat (area_start (areas s a))) * 4096 + unat x mod 4096)) else phys_byte s x)"
proof -
  have st: "area_start (areas s1 a) = area_start (areas s a)" "area_count (areas s1 a) = SIZE2FRAMES sz" by (simp_all add: s1 establish_parts)
  have m: "mem_size (s1\<lparr>ftl0 := t\<rparr>) = (mem_size s)(b := unat sz)" "mem_bytes (s1\<lparr>ftl0 := t\<rparr>) = (mem_bytes s)(b := bs)"
    by (simp_all add: s1 establish_parts)
  have other: "frame_data f \<noteq> Some (b, off)" if "frame_at p s = Some f" for p f off using fresh that by (auto simp: block_fresh_def)
  have A: "\<exists>ar bl off. frame_area f = Some ar \<and> frame_data f = Some (bl, off) \<and> off + 4096 \<le> mem_size (s1\<lparr>ftl0 := t\<rparr>) bl"
    if "frame_at p (s1\<lparr>ftl0 := t\<rparr>) = Some f" for p f
  proof (cases "in_area a s1 p")
    case True
    then show ?thesis using that in_area_bound [OF True] sz by (auto simp: fr m st)
  next
    case False
    then have p: "frame_at p s = Some f" using that by (simp add: fr)
    then show ?thesis using physmem_okD [OF ok p] other [OF p] unfolding m by (metis fun_upd_apply)
  qed
  have D: "off + 4096 \<le> off' \<or> off' + 4096 \<le> off"
    if "frame_at p (s1\<lparr>ftl0 := t\<rparr>) = Some f" "frame_at q (s1\<lparr>ftl0 := t\<rparr>) = Some g" "p \<noteq> q"
      "frame_data f = Some (bl, off)" "frame_data g = Some (bl, off')" for p q f g bl off off'
  proof -
    consider "in_area a s1 p" "in_area a s1 q" | "\<not> in_area a s1 p" "\<not> in_area a s1 q"
      | "in_area a s1 p" "\<not> in_area a s1 q" | "\<not> in_area a s1 p" "in_area a s1 q" by blast
    then show ?thesis
    proof cases
      case 1
      then show ?thesis using that wired_disjoint [of p q "unat (area_start (areas s a))"] by (auto simp: fr in_area_def st)
    next
      case 2
      then show ?thesis using that ok by (simp add: fr physmem_ok_def)
    qed (use that other in \<open>auto simp: fr\<close>)
  qed
  show "physmem_ok (s1\<lparr>ftl0 := t\<rparr>)"
    unfolding physmem_ok_def by (intro conjI allI impI) (simp add: t, erule A, elim conjE, erule (4) D)
  show "phys_byte (s1\<lparr>ftl0 := t\<rparr>) x = (if in_area a s1 (unat x div 4096)
       then Some (bs ((unat x div 4096 - unat (area_start (areas s a))) * 4096 + unat x mod 4096)) else phys_byte s x)"
    using other by (auto simp: phys_byte_def fr m intro!: bind_option_cong)
qed

lemma wired_memory:
  assumes ok: "physmem_ok s" and fresh: "block_fresh b s" and ty: "ty \<noteq> MEMT_NONE" and pos: "sz \<noteq> 0"
    and sz: "phys_range sz" "ptr36_frame_aligned sz" "phys_range (FRAME2ADDR (area_start (areas s a)) + sz)"
  shows "\<exists>s'. physmem_wire a (establish a ty b sz bs s) = Some s' \<and> physmem_ok s' \<and>
     (\<forall>x. phys_byte s' x = (if in_area a s' (unat x div 4096)
        then Some (bs ((unat x div 4096 - unat (area_start (areas s a))) * 4096 + unat x mod 4096)) else phys_byte s x)) \<and>
     unat (area_count (areas s' a)) * 4096 = unat sz"
proof -
  define s1 where "s1 = establish a ty b sz bs s"
  obtain t where t: "physmem_wire a s1 = Some (s1\<lparr>ftl0 := t\<rparr>)" "\<forall>i. t i \<noteq> FTL1_FREED"
    "\<And>p. frame_at p (s1\<lparr>ftl0 := t\<rparr>) =
        (if in_area a s1 p then Some \<lparr>frame_area = Some a, frame_data = Some (b, (p - unat (area_start (areas s a))) * 4096), valid = False\<rparr>
         else frame_at p s)"
    using wire_established [OF ok fresh ty pos sz s1_def] by blast
  note e = established_ok [OF ok fresh s1_def frames_of_size(1) [OF sz] t(2,3)]
  have "in_area a (s1\<lparr>ftl0 := t\<rparr>) p = in_area a s1 p" for p by (simp add: in_area_def)
  moreover have "unat (area_count (areas s1 a)) * 4096 = unat sz"
    using frames_of_size(1) [OF sz] by (simp add: s1_def establish_parts)
  ultimately show ?thesis using t(1) e unfolding s1_def [symmetric] by (intro exI [of _ "s1\<lparr>ftl0 := t\<rparr>"]) simp
qed

lemma mem_generic_accepted:
  assumes "physmem_ok s" "block_fresh b s" "area_type (areas s a) = MEMT_NONE" "sz \<noteq> 0"
    "phys_range sz" "ptr36_frame_aligned sz" "phys_range (FRAME2ADDR (area_start (areas s a)) + sz)"
  shows "\<exists>s'. mem_generic a b sz s = Some (Inr s') \<and> physmem_ok s' \<and> unat (area_count (areas s' a)) * 4096 = unat sz \<and>
     (\<forall>x. phys_byte s' x = (if in_area a s' (unat x div 4096) then Some 0 else phys_byte s x))"
  using wired_memory [OF assms(1,2) _ assms(4-7), of MEMT_MEM "\<lambda>_. 0"] assms(3-7) by (auto simp: mem_generic_def)

lemma mem_generic_rejected:
  "area_type (areas s a) \<noteq> MEMT_NONE \<or> sz = 0 \<or> \<not> phys_range sz \<or> \<not> ptr36_frame_aligned sz \<or>
     \<not> phys_range (FRAME2ADDR (area_start (areas s a)) + sz) \<longleftrightarrow> (\<exists>e. mem_generic a b sz s = Some (Inl e))"
  by (auto simp: mem_generic_def bind_eq_Some_conv)

end
