(* ===== verification/Devices.thy ===== *)
theory Devices
  imports Dorder Dkeyboard Dcycle Dnomem Dprinter Dlcd Ddisk Mem_Device Rv32_Step
begin

text \<open>
  The machine with its devices. The \<open>void *\<close> data of a device is a value of \<open>dev_state\<close>, one
  constructor for each device type; a callback on the data of another type is undefined. The theory
  holds the methods that reach beyond a device's own data, \<open>ddisk_step\<close> of
  \<open>src/src/device/ddisk.c\<close> and the step methods of the other devices, and \<open>machine_step\<close> of
  \<open>src/src/main.c\<close>, which composes them with the steps of the processors.

  Lemmas: the devices with their invariants are what the processors rely on, and a machine step
  keeps the invariant of processors, memory, instruction cache and devices together.
\<close>

datatype dev_state =
    D_order dorder_data
  | D_keyboard keyboard_data
  | D_cycle dcycle_data
  | D_time dtime_data
  | D_nomem dnomem_data
  | D_printer printer_data
  | D_lcd lcd_data
  | D_disk disk_data
  | D_mem nat
  | D_rvcpu nat

subsection \<open>Methods on the data of one type\<close>

definition lift_read :: "('x \<Rightarrow> 'd) \<Rightarrow> ('d \<Rightarrow> 'x option) \<Rightarrow> ('x, 'w) dev_read \<Rightarrow> ('d, 'w) dev_read" where
  "lift_read emb prj f = (\<lambda>p d a v. do { x \<leftarrow> prj d; (v', x', es) \<leftarrow> f p x a v; Some (v', emb x', es) })"

definition lift_write :: "('x \<Rightarrow> 'd) \<Rightarrow> ('d \<Rightarrow> 'x option) \<Rightarrow> ('x, 'w) dev_write \<Rightarrow> ('d, 'w) dev_write" where
  "lift_write emb prj f = (\<lambda>p d a v. do { x \<leftarrow> prj d; (x', es) \<leftarrow> f p x a v; Some (emb x', es) })"

definition lift_type :: "('x \<Rightarrow> 'd) \<Rightarrow> ('d \<Rightarrow> 'x option) \<Rightarrow> 'x device_type \<Rightarrow> 'd device_type" where
  "lift_type emb prj t =
     \<lparr>read8 = map_option (lift_read emb prj) (read8 t), read16 = map_option (lift_read emb prj) (read16 t),
      read32 = map_option (lift_read emb prj) (read32 t), read64 = map_option (lift_read emb prj) (read64 t),
      write8 = map_option (lift_write emb prj) (write8 t), write16 = map_option (lift_write emb prj) (write16 t),
      write32 = map_option (lift_write emb prj) (write32 t), write64 = map_option (lift_write emb prj) (write64 t)\<rparr>"

text \<open>
  A device type promises an invariant of its data; a machine that holds the data as one
  alternative of a larger type relies on it.
\<close>

locale device_class =
  fixes emb :: "'x \<Rightarrow> 'd" and prj :: "'d \<Rightarrow> 'x option" and okd :: "'x \<Rightarrow> bool" and ty :: "'x device_type"
  assumes prj_emb: "prj (emb x) = Some x"
    and keeps: "dev_keeps okd ty"
begin

lemma lift_read_keeps: "read_keeps okd r \<Longrightarrow> read_keeps (\<lambda>d. \<exists>x. d = emb x \<and> okd x) (map_option (lift_read emb prj) r)"
proof (cases r)
  case (Some f)
  assume k: "read_keeps okd r"
  have "\<exists>v' d' es. lift_read emb prj f p (emb x) a v = Some (v', d', es) \<and> (\<exists>x. d' = emb x \<and> okd x) \<and> list_all plain_effect es"
    if x: "okd x" for p x a v
  proof -
    obtain v' x' es where "f p x a v = Some (v', x', es)" "okd x'" "list_all plain_effect es"
      using read_keepsD [OF k [unfolded Some] x] by blast
    then show ?thesis by (auto simp: lift_read_def prj_emb)
  qed
  then show ?thesis using Some by (auto intro!: read_keepsI)
qed simp

lemma lift_write_keeps: "write_keeps okd w \<Longrightarrow> write_keeps (\<lambda>d. \<exists>x. d = emb x \<and> okd x) (map_option (lift_write emb prj) w)"
proof (cases w)
  case (Some f)
  assume k: "write_keeps okd w"
  have "\<exists>d' es. lift_write emb prj f p (emb x) a v = Some (d', es) \<and> (\<exists>x. d' = emb x \<and> okd x) \<and> list_all plain_effect es"
    if x: "okd x" for p x a v
  proof -
    obtain x' es where "f p x a v = Some (x', es)" "okd x'" "list_all plain_effect es"
      using write_keepsD [OF k [unfolded Some] x] by blast
    then show ?thesis by (auto simp: lift_write_def prj_emb)
  qed
  then show ?thesis using Some by (auto intro!: write_keepsI)
qed simp

lemma lifted_keeps: "dev_keeps (\<lambda>d. \<exists>x. d = emb x \<and> okd x) (lift_type emb prj ty)"
  using keeps unfolding dev_keeps_def by (simp add: lift_type_def lift_read_keeps lift_write_keeps)

lemma lifted_ok: "dev_type d = lift_type emb prj ty \<Longrightarrow> dev_data d = emb x \<Longrightarrow> okd x \<Longrightarrow> dev_ok d"
  unfolding dev_ok_def using lifted_keeps by auto

lemma lifted_evolves:
  assumes "dev_evolves d d'" "dev_type d = lift_type emb prj ty" "dev_data d = emb x" "okd x"
  shows "\<exists>x'. dev_data d' = emb x' \<and> okd x'"
  using dev_evolvesD [OF assms(1), of "\<lambda>d. \<exists>x. d = emb x \<and> okd x"] lifted_keeps assms(2-4) by auto

end

definition prj_order where "prj_order d = (case d of D_order x \<Rightarrow> Some x | _ \<Rightarrow> None)"
definition prj_keyboard where "prj_keyboard d = (case d of D_keyboard x \<Rightarrow> Some x | _ \<Rightarrow> None)"
definition prj_cycle where "prj_cycle d = (case d of D_cycle x \<Rightarrow> Some x | _ \<Rightarrow> None)"
definition prj_time where "prj_time d = (case d of D_time x \<Rightarrow> Some x | _ \<Rightarrow> None)"
definition prj_nomem where "prj_nomem d = (case d of D_nomem x \<Rightarrow> Some x | _ \<Rightarrow> None)"
definition prj_printer where "prj_printer d = (case d of D_printer x \<Rightarrow> Some x | _ \<Rightarrow> None)"
definition prj_lcd where "prj_lcd d = (case d of D_lcd x \<Rightarrow> Some x | _ \<Rightarrow> None)"
definition prj_disk where "prj_disk d = (case d of D_disk x \<Rightarrow> Some x | _ \<Rightarrow> None)"

interpretation order: device_class D_order prj_order "\<lambda>_. True" dorder_type
  by unfold_locales (simp_all add: prj_order_def dorder_keeps)

interpretation keyboard: device_class D_keyboard prj_keyboard kbd_counts dkeyboard_type
  by unfold_locales (simp_all add: prj_keyboard_def keyboard_keeps)

interpretation cycle: device_class D_cycle prj_cycle "\<lambda>_. True" dcycle_type
  by unfold_locales (simp_all add: prj_cycle_def dcycle_type_keeps)

interpretation time: device_class D_time prj_time "\<lambda>_. True" dtime_type
  by unfold_locales (simp_all add: prj_time_def dtime_keeps)

interpretation nomem: device_class D_nomem prj_nomem dnomem_quiet dnomem_type
  by unfold_locales (simp_all add: prj_nomem_def dnomem_keeps)

interpretation printer: device_class D_printer prj_printer printer_counts dprinter_type
  by unfold_locales (simp_all add: prj_printer_def printer_keeps)

interpretation lcd: device_class D_lcd prj_lcd lcd_inv dlcd_type
  by unfold_locales (simp_all add: prj_lcd_def lcd_keeps)

interpretation disk: device_class D_disk prj_disk disk_inv ddisk_type
  by unfold_locales (simp_all add: prj_disk_def disk_keeps)

interpretation disk_img: device_class D_disk prj_disk "\<lambda>x. disk_inv x \<and> img x = bs" ddisk_type for bs
  by unfold_locales (simp_all add: prj_disk_def disk_keeps_img)

text \<open>The method table of each device, and the invariant of its data.\<close>

primrec type_of :: "dev_state \<Rightarrow> dev_state device_type" where
  "type_of (D_order _) = lift_type D_order prj_order dorder_type"
| "type_of (D_keyboard _) = lift_type D_keyboard prj_keyboard dkeyboard_type"
| "type_of (D_cycle _) = lift_type D_cycle prj_cycle dcycle_type"
| "type_of (D_time _) = lift_type D_time prj_time dtime_type"
| "type_of (D_nomem _) = lift_type D_nomem prj_nomem dnomem_type"
| "type_of (D_printer _) = lift_type D_printer prj_printer dprinter_type"
| "type_of (D_lcd _) = lift_type D_lcd prj_lcd dlcd_type"
| "type_of (D_disk _) = lift_type D_disk prj_disk ddisk_type"
| "type_of (D_mem _) = no_methods"
| "type_of (D_rvcpu _) = no_methods"

primrec state_inv :: "dev_state \<Rightarrow> bool" where
  "state_inv (D_order _) = True"
| "state_inv (D_keyboard x) = kbd_counts x"
| "state_inv (D_cycle _) = True"
| "state_inv (D_time _) = True"
| "state_inv (D_nomem x) = dnomem_quiet x"
| "state_inv (D_printer x) = printer_counts x"
| "state_inv (D_lcd x) = lcd_inv x"
| "state_inv (D_disk x) = disk_inv x"
| "state_inv (D_mem _) = True"
| "state_inv (D_rvcpu _) = True"

definition dev_wf :: "dev_state device \<Rightarrow> bool" where
  "dev_wf d \<longleftrightarrow> dev_type d = type_of (dev_data d) \<and> state_inv (dev_data d)"

lemma no_methods_keeps: "dev_keeps I no_methods"
  by (simp add: dev_keeps_def)

lemma no_methods_evolves: "dev_evolves d d' \<Longrightarrow> dev_type d = no_methods \<Longrightarrow> dev_data d' = dev_data d"
  using dev_evolvesD [of d d' "\<lambda>x. x = dev_data d"] no_methods_keeps by metis

lemma dev_wf_ok: "dev_wf d \<Longrightarrow> dev_ok d"
  by (cases "dev_data d")
    (auto simp: dev_wf_def intro: order.lifted_ok keyboard.lifted_ok cycle.lifted_ok time.lifted_ok nomem.lifted_ok
      printer.lifted_ok lcd.lifted_ok disk.lifted_ok, auto simp: dev_ok_def no_methods_keeps)

lemma dev_wf_evolves:
  assumes "dev_wf d" "dev_evolves d d'"
  shows "dev_wf d'"
proof -
  have t: "dev_type d' = dev_type d" using assms(2) by (simp add: dev_evolves_def)
  show ?thesis using assms t
    by (cases "dev_data d")
      (auto simp: dev_wf_def dest: order.lifted_evolves keyboard.lifted_evolves cycle.lifted_evolves time.lifted_evolves
        nomem.lifted_evolves printer.lifted_evolves lcd.lifted_evolves disk.lifted_evolves no_methods_evolves)
qed

subsection \<open>The step methods\<close>

definition set_dev :: "nat \<Rightarrow> dev_state \<Rightarrow> (dev_state, 'z) rv32_sim \<Rightarrow> (dev_state, 'z) rv32_sim" where
  "set_dev i d s = s\<lparr>devices := (devices s)[i := (devices s ! i)\<lparr>dev_data := d\<rparr>]\<rparr>"

definition disk_at :: "nat \<Rightarrow> (dev_state, 'z) rv32_sim \<Rightarrow> disk_data option" where
  "disk_at i s = prj_disk (dev_data (devices s ! i))"

text \<open>The processor number that the disk passes on, \<open>-1\<close> as an \<open>unsigned int\<close>.\<close>

definition no_procno :: nat where
  "no_procno = 2 ^ 32 - 1"

definition disk_next :: "nat \<Rightarrow> (dev_state, 'z) rv32_sim \<Rightarrow> (dev_state, 'z) rv32_sim option" where
  "disk_next i s = do {
     data \<leftarrow> disk_at i s;
     let (data1, es) = disk_advance data;
     apply_effects es (set_dev i (D_disk data1) s)
   }"

text \<open>
  The transfer may reach the registers of the disk itself, so its data are read again after the
  memory access.
\<close>

definition ddisk_step :: "nat \<Rightarrow> (dev_state, 'z) rv32_sim \<Rightarrow> (dev_state, 'z) rv32_sim option" where
  "ddisk_step i s = do {
     data \<leftarrow> disk_at i s;
     (case action data of
        ACTION_READ \<Rightarrow> do {
          w \<leftarrow> img_word (img data) (disk_pos data);
          (_, s1) \<leftarrow> physmem_write32 no_procno (disk_ptr data) w True s;
          disk_next i s1
        }
      | ACTION_WRITE \<Rightarrow> do {
          (v, s1) \<leftarrow> physmem_read32 no_procno (disk_ptr data) True s;
          data1 \<leftarrow> disk_at i s1;
          bs \<leftarrow> img_put (img data1) (disk_pos data) v;
          disk_next i (set_dev i (D_disk (data1\<lparr>img := bs\<rparr>)) s1)
        }
      | ACTION_NONE \<Rightarrow> Some s)
   }"

text \<open>What a machine step gets from the host: the time, and a key from \<open>stdin_poll\<close>, at each device.\<close>

record host =
  host_now :: "nat \<Rightarrow> u64"
  host_key :: "nat \<Rightarrow> u8 option"

definition dev_step :: "host \<Rightarrow> nat \<Rightarrow> (dev_state, 'z) rv32_sim \<Rightarrow> (dev_state, 'z) rv32_sim option" where
  "dev_step h i s =
     (case dev_data (devices s ! i) of
        D_rvcpu k \<Rightarrow> rv32_cpu_step (host_now h i) k s
      | D_cycle x \<Rightarrow> Some (set_dev i (D_cycle (dcycle_step x)) s)
      | D_disk _ \<Rightarrow> ddisk_step i s
      | _ \<Rightarrow> Some s)"

definition dev_step4k :: "host \<Rightarrow> nat \<Rightarrow> (dev_state, 'z) rv32_sim \<Rightarrow> (dev_state, 'z) rv32_sim option" where
  "dev_step4k h i s =
     (case dev_data (devices s ! i) of
        D_keyboard x \<Rightarrow> (let (x1, es) = keyboard_step4k (host_key h i) x in apply_effects es (set_dev i (D_keyboard x1) s))
      | _ \<Rightarrow> Some s)"

fun dev_loop ::
    "(nat \<Rightarrow> (dev_state, 'z) rv32_sim \<Rightarrow> (dev_state, 'z) rv32_sim option) \<Rightarrow> nat list \<Rightarrow> (dev_state, 'z) rv32_sim \<Rightarrow>
     (dev_state, 'z) rv32_sim option" where
  "dev_loop f [] s = Some s"
| "dev_loop f (i # is) s = do { s1 \<leftarrow> f i s; dev_loop f is s1 }"

definition machine_step :: "host \<Rightarrow> u64 \<times> (dev_state, 'z) rv32_sim \<Rightarrow> (u64 \<times> (dev_state, 'z) rv32_sim) option" where
  "machine_step h = (\<lambda>(steps, s). do {
     s1 \<leftarrow> dev_loop (dev_step h) [0..<length (devices s)] s;
     let steps1 = steps + 1;
     s2 \<leftarrow> (if steps1 mod 4096 = 0 then dev_loop (dev_step4k h) [0..<length (devices s1)] s1 else Some s1);
     Some (steps1, s2)
   })"

fun machine_steps :: "host list \<Rightarrow> u64 \<times> (dev_state, 'z) rv32_sim \<Rightarrow> (u64 \<times> (dev_state, 'z) rv32_sim) option" where
  "machine_steps [] m = Some m"
| "machine_steps (h # hs) m = do { m1 \<leftarrow> machine_step h m; machine_steps hs m1 }"

subsection \<open>The invariant of the whole machine\<close>

definition machine_inv :: "nat set \<Rightarrow> (dev_state, 'z) rv32_sim \<Rightarrow> bool" where
  "machine_inv K s \<longleftrightarrow> sim_inv K s \<and> (\<forall>d \<in> set (devices s). dev_wf d \<and> (\<forall>k. dev_data d = D_rvcpu k \<longrightarrow> k \<in> K))"

lemma dev_evolves_rvcpu: "dev_wf d \<Longrightarrow> dev_evolves d d' \<Longrightarrow> dev_data d' = D_rvcpu k \<longleftrightarrow> dev_data d = D_rvcpu k"
  by (cases "dev_data d")
    (auto simp: dev_wf_def dest: order.lifted_evolves keyboard.lifted_evolves cycle.lifted_evolves time.lifted_evolves
      nomem.lifted_evolves printer.lifted_evolves lcd.lifted_evolves disk.lifted_evolves no_methods_evolves)

lemma machine_inv_evolves:
  assumes "machine_inv K s" "sim_inv K s'" "devs_evolve (devices s) (devices s')"
  shows "machine_inv K s'"
proof -
  have "dev_wf d' \<and> (\<forall>k. dev_data d' = D_rvcpu k \<longrightarrow> k \<in> K)" if m: "d' \<in> set (devices s')" for d'
  proof -
    obtain i where i: "i < length (devices s')" "d' = devices s' ! i" using m by (auto simp: in_set_conv_nth)
    then have e: "dev_evolves (devices s ! i) d'" and l: "devices s ! i \<in> set (devices s)"
      using assms(3) by (simp_all add: list_all2_conv_all_nth)
    have w: "dev_wf (devices s ! i)" "\<And>k. dev_data (devices s ! i) = D_rvcpu k \<Longrightarrow> k \<in> K"
      using assms(1) l by (auto simp: machine_inv_def)
    show ?thesis using dev_wf_evolves [OF w(1) e] dev_evolves_rvcpu [OF w(1) e] w(2) by blast
  qed
  then show ?thesis using assms(2) by (simp add: machine_inv_def)
qed

lemma cache_ok_set_dev: "cache_ok (set_dev i d s) = cache_ok s"
proof -
  have f: "frame_at p (set_dev i d s) = frame_at p s" "phys_byte (set_dev i d s) = phys_byte s" for p
    by (auto simp: set_dev_def intro: frame_at_cong phys_byte_cong)
  then have "decode_word (set_dev i d s) = decode_word s"
    by (intro ext) (simp add: decode_word_def mem_word_def set_dev_def f [unfolded set_dev_def])
  then show ?thesis by (simp add: cache_ok_def pages_ok_def page_ok_def page_right_def f) (simp add: set_dev_def)
qed

lemma machine_inv_set_dev:
  assumes "machine_inv K s" "i < length (devices s)" "type_of d = type_of (dev_data (devices s ! i))" "state_inv d"
    and "\<And>k. d = D_rvcpu k \<Longrightarrow> k \<in> K"
  shows "machine_inv K (set_dev i d s)"
proof -
  have wf: "dev_wf x" "\<And>k. dev_data x = D_rvcpu k \<Longrightarrow> k \<in> K" if "x \<in> set (devices (set_dev i d s))" for x
    using that assms set_update_subset_insert [of "devices s" i "(devices s ! i)\<lparr>dev_data := d\<rparr>"]
    by (auto simp: set_dev_def machine_inv_def dev_wf_def)
  moreover have "physmem_ok (set_dev i d s)"
    using assms(1) physmem_ok_cong [of "set_dev i d s" s] by (simp add: machine_inv_def sim_inv_def mach_ok_def set_dev_def)
  then have "mach_ok (set_dev i d s)"
    using assms(1) wf(1) dev_wf_ok by (auto simp: machine_inv_def sim_inv_def mach_ok_def set_dev_def)
  ultimately show ?thesis
    using assms(1) by (simp add: machine_inv_def sim_inv_def cache_ok_set_dev) (simp add: set_dev_def)
qed

lemma machine_inv_env:
  assumes "machine_inv K s" "env_step s s'"
  shows "machine_inv K s'"
proof -
  have "sim_inv K s'"
    using assms evolves_cache_ok [OF env_stepD(1) [OF assms(2)]] env_stepD(2,3) [OF assms(2)] touched_cpu_inv
    by (auto simp: machine_inv_def sim_inv_def)
  then show ?thesis using machine_inv_evolves [OF assms(1)] sys_evolves_basic(5) [OF env_stepD(1) [OF assms(2)]] by blast
qed

lemma env_step_devices: "env_step s s' \<Longrightarrow> length (devices s') = length (devices s)"
  using sys_evolves_basic(5) [OF env_stepD(1)] list_all2_lengthD by fastforce

lemma machine_inv_mach: "machine_inv K s \<Longrightarrow> mach_ok s"
  by (simp add: machine_inv_def sim_inv_def)

lemma set_dev_length [simp]: "length (devices (set_dev i d s)) = length (devices s)"
  by (simp add: set_dev_def)

lemma machine_inv_dev: "machine_inv K s \<Longrightarrow> i < length (devices s) \<Longrightarrow> dev_wf (devices s ! i)"
  by (simp add: machine_inv_def)

text \<open>A change of the data of one device together with its effects on the machine.\<close>

lemma machine_inv_update:
  assumes "machine_inv K s" "i < length (devices s)" "type_of d = type_of (dev_data (devices s ! i))" "state_inv d"
    and "\<And>k. d \<noteq> D_rvcpu k" "list_all plain_effect es"
  shows "\<exists>s'. apply_effects es (set_dev i d s) = Some s' \<and> machine_inv K s' \<and> length (devices s') = length (devices s)"
proof -
  have m: "machine_inv K (set_dev i d s)" using machine_inv_set_dev [OF assms(1-4)] assms(5) by blast
  obtain s' where s': "apply_effects es (set_dev i d s) = Some s'" "env_step (set_dev i d s) s'"
    using apply_effects_env [OF machine_inv_mach [OF m] assms(6)] by blast
  then show ?thesis using machine_inv_env [OF m s'(2)] env_step_devices [OF s'(2)] by simp
qed

lemma disk_at_evolves:
  assumes "machine_inv K s" "i < length (devices s)" "env_step s s'" "disk_at i s = Some x"
  shows "\<exists>x'. disk_at i s' = Some x' \<and> disk_inv x' \<and> img x' = img x"
proof -
  have d: "dev_data (devices s ! i) = D_disk x" using assms(4) by (auto simp: disk_at_def prj_disk_def split: dev_state.splits)
  moreover have "dev_evolves (devices s ! i) (devices s' ! i)"
    using sys_evolves_basic(5) [OF env_stepD(1) [OF assms(3)]] assms(2) by (simp add: list_all2_conv_all_nth)
  ultimately show ?thesis
    using disk_img.lifted_evolves [of "devices s ! i" "devices s' ! i" x "img x"] machine_inv_dev [OF assms(1,2)]
    by (auto simp: dev_wf_def disk_at_def prj_disk_def)
qed

lemma disk_at_data: "disk_at i s = Some x \<longleftrightarrow> dev_data (devices s ! i) = D_disk x"
  by (auto simp: disk_at_def prj_disk_def split: dev_state.splits)

lemma disk_at_inv: "machine_inv K s \<Longrightarrow> i < length (devices s) \<Longrightarrow> disk_at i s = Some x \<Longrightarrow> disk_inv x"
  using machine_inv_dev [of K s i] by (auto simp: dev_wf_def disk_at_data)

lemma disk_next_safe:
  assumes "machine_inv K s" "i < length (devices s)" "disk_at i s = Some x"
  shows "\<exists>s'. disk_next i s = Some s' \<and> machine_inv K s' \<and> length (devices s') = length (devices s)"
  using machine_inv_update [OF assms(1,2), of "D_disk (fst (disk_advance x))" "snd (disk_advance x)"]
    disk_advance_inv [OF disk_at_inv [OF assms]] disk_advance_plain [of x] assms(3)
  by (simp add: disk_next_def split_beta) (simp add: disk_at_data)

lemma ddisk_step_safe:
  assumes "machine_inv K s" "i < length (devices s)" "disk_at i s = Some x"
    and "action x \<noteq> ACTION_NONE \<Longrightarrow> IS_ALIGNED (disk_ptr x) 4"
  shows "\<exists>s'. ddisk_step i s = Some s' \<and> machine_inv K s' \<and> length (devices s') = length (devices s)"
proof (cases "action x")
  case ACTION_NONE
  then show ?thesis using assms(1,3) by (simp add: ddisk_step_def)
next
  case ACTION_READ
  have al: "IS_ALIGNED (disk_ptr x) 4" using assms(4) ACTION_READ by simp
  obtain w where w: "img_word (img x) (disk_pos x) = Some w"
    using disk_pos_inside [OF disk_at_inv [OF assms(1-3)]] ACTION_READ by (simp add: img_word_def)
  obtain b s1 where s1: "physmem_write32 no_procno (disk_ptr x) w True s = Some (b, s1)" "env_step s s1"
    using physmem_write_env(3) [OF machine_inv_mach [OF assms(1)] al] by blast
  obtain x1 where "disk_at i s1 = Some x1" using disk_at_evolves [OF assms(1,2) s1(2) assms(3)] by blast
  then show ?thesis using disk_next_safe [OF machine_inv_env [OF assms(1) s1(2)], of i x1] env_step_devices [OF s1(2)] assms(2,3) ACTION_READ w s1(1)
    by (simp add: ddisk_step_def)
next
  case ACTION_WRITE
  have al: "IS_ALIGNED (disk_ptr x) 4" using assms(4) ACTION_WRITE by simp
  obtain v s1 where s1: "physmem_read32 no_procno (disk_ptr x) True s = Some (v, s1)" "env_step s s1"
    using physmem_read_env(3) [OF machine_inv_mach [OF assms(1)] al] by blast
  obtain x1 where x1: "disk_at i s1 = Some x1" "disk_inv x1" "img x1 = img x"
    using disk_at_evolves [OF assms(1,2) s1(2) assms(3)] by blast
  obtain bs where bs: "img_put (img x1) (disk_pos x) v = Some bs"
    using disk_pos_inside [OF disk_at_inv [OF assms(1-3)]] ACTION_WRITE by (simp add: img_put_def x1(3))
  note m1 = machine_inv_env [OF assms(1) s1(2)] and l1 = env_step_devices [OF s1(2)]
  let ?s2 = "set_dev i (D_disk (x1\<lparr>img := bs\<rparr>)) s1"
  have m2: "machine_inv K ?s2"
    using machine_inv_set_dev [OF m1, of i "D_disk (x1\<lparr>img := bs\<rparr>)"] l1 assms(2) x1 disk_inv_img [OF x1(2) img_put_length [OF bs]]
    by (simp add: disk_at_data)
  have "disk_at i ?s2 = Some (x1\<lparr>img := bs\<rparr>)" using l1 assms(2) by (simp add: disk_at_data set_dev_def)
  then obtain s' where "disk_next i ?s2 = Some s'" "machine_inv K s'" "length (devices s') = length (devices s)"
    using disk_next_safe [OF m2, of i] l1 assms(2) by auto
  then show ?thesis using assms(3) ACTION_WRITE s1(1) x1(1) bs by (simp add: ddisk_step_def)
qed

subsection \<open>Machine steps\<close>

text \<open>
  What a step of a device needs: a processor that is not waiting executes an instruction from
  memory, none of those in \<open>csr_risky\<close>; a transfer has a word-aligned memory pointer, which the
  disk does not check.
\<close>

definition step_plain :: "nat \<Rightarrow> (dev_state, 'z) rv32_sim \<Rightarrow> bool" where
  "step_plain i s \<longleftrightarrow>
     (case dev_data (devices s ! i) of
        D_rvcpu k \<Rightarrow> stdby (cpu_mem s k) \<or> fetch_plain k s
      | D_disk x \<Rightarrow> action x = ACTION_NONE \<or> IS_ALIGNED (disk_ptr x) 4
      | _ \<Rightarrow> True)"

fun loop_plain :: "host \<Rightarrow> nat list \<Rightarrow> (dev_state, 'z) rv32_sim \<Rightarrow> bool" where
  "loop_plain h [] s \<longleftrightarrow> True"
| "loop_plain h (i # is) s \<longleftrightarrow> step_plain i s \<and> (case dev_step h i s of None \<Rightarrow> True | Some s1 \<Rightarrow> loop_plain h is s1)"

fun run_plain :: "host list \<Rightarrow> u64 \<times> (dev_state, 'z) rv32_sim \<Rightarrow> bool" where
  "run_plain [] m \<longleftrightarrow> True"
| "run_plain (h # hs) m \<longleftrightarrow> loop_plain h [0..<length (devices (snd m))] (snd m) \<and>
     (case machine_step h m of None \<Rightarrow> True | Some m1 \<Rightarrow> run_plain hs m1)"

abbreviation stays :: "nat set \<Rightarrow> nat \<Rightarrow> (dev_state, 'z) rv32_sim \<Rightarrow> bool" where
  "stays K n s \<equiv> machine_inv K s \<and> length (devices s) = n"

lemma dev_step_safe:
  assumes m: "machine_inv K s" and i: "i < length (devices s)" and p: "step_plain i s"
  shows "\<exists>s'. dev_step h i s = Some s' \<and> stays K (length (devices s)) s'"
proof (cases "dev_data (devices s ! i)")
  case (D_rvcpu k)
  then have "k \<in> K" using m i by (auto simp: machine_inv_def)
  moreover have "sim_inv K s" using m by (simp add: machine_inv_def)
  ultimately obtain s' where s': "rv32_cpu_step (host_now h i) k s = Some s'" "sim_inv K s'" "devs_evolve (devices s) (devices s')"
    using rv32_cpu_step_safe [of K s k "host_now h i"] p D_rvcpu by (auto simp: step_plain_def)
  then show ?thesis using machine_inv_evolves [OF m s'(2,3)] D_rvcpu by (simp add: dev_step_def list_all2_lengthD)
next
  case (D_cycle x)
  then show ?thesis using machine_inv_set_dev [OF m i, of "D_cycle (dcycle_step x)"] by (simp add: dev_step_def)
next
  case (D_disk x)
  then show ?thesis using ddisk_step_safe [OF m i, of x] p by (auto simp: dev_step_def step_plain_def disk_at_data)
qed (use m in \<open>simp_all add: dev_step_def\<close>)

lemma dev_step4k_safe:
  assumes m: "machine_inv K s" and i: "i < length (devices s)"
  shows "\<exists>s'. dev_step4k h i s = Some s' \<and> stays K (length (devices s)) s'"
proof (cases "dev_data (devices s ! i)")
  case (D_keyboard x)
  obtain x1 es where x1: "keyboard_step4k (host_key h i) x = (x1, es)" by (cases "keyboard_step4k (host_key h i) x")
  have "kbd_counts x" using machine_inv_dev [OF m i] D_keyboard by (simp add: dev_wf_def)
  then have "kbd_counts x1" "list_all plain_effect es"
    using x1 gen_key_counts [of x] gen_key_plain [of _ x] by (auto simp: keyboard_step4k_def split: option.splits) (metis fst_conv, metis snd_conv)
  then show ?thesis using machine_inv_update [OF m i, of "D_keyboard x1" es] D_keyboard x1 by (simp add: dev_step4k_def)
qed (use m in \<open>simp_all add: dev_step4k_def\<close>)

lemma dev_loop_safe:
  assumes "\<And>i s. P s \<Longrightarrow> i \<in> set is \<Longrightarrow> \<exists>s'. f i s = Some s' \<and> P s'" "P s"
  shows "\<exists>s'. dev_loop f is s = Some s' \<and> P s'"
  using assms
proof (induction "is" arbitrary: s)
  case (Cons i "is")
  obtain s1 where "f i s = Some s1" "P s1" using Cons.prems(1) [OF Cons.prems(2), of i] by auto
  moreover have "\<exists>s'. dev_loop f is s1 = Some s' \<and> P s'" by (rule Cons.IH) (use Cons.prems(1) calculation(2) in auto)
  ultimately show ?case by simp
qed simp

lemma dev_steps_safe:
  assumes "stays K n s" "set is \<subseteq> {..<n}" "loop_plain h is s"
  shows "\<exists>s'. dev_loop (dev_step h) is s = Some s' \<and> stays K n s'"
  using assms
proof (induction "is" arbitrary: s)
  case (Cons i "is")
  obtain s1 where s1: "dev_step h i s = Some s1" "stays K n s1"
    using dev_step_safe [of K s i h] Cons.prems by auto
  then show ?case using Cons.IH [OF s1(2)] Cons.prems by simp
qed simp

lemma machine_step_safe:
  assumes m: "machine_inv K s" and p: "loop_plain h [0..<length (devices s)] s"
  shows "\<exists>s'. machine_step h (steps, s) = Some (steps + 1, s') \<and> stays K (length (devices s)) s'"
proof -
  obtain s1 where s1: "dev_loop (dev_step h) [0..<length (devices s)] s = Some s1" "stays K (length (devices s)) s1"
    using dev_steps_safe [of K s "length (devices s)" "[0..<length (devices s)]" h] m p by (auto simp: lessThan_atLeast0)
  have "\<exists>s'. dev_step4k h i t = Some s' \<and> stays K (length (devices s)) s'"
    if "stays K (length (devices s)) t" "i \<in> set [0..<length (devices s1)]" for i t
    using dev_step4k_safe [of K t i h] that s1(2) by auto
  then obtain s2 where "dev_loop (dev_step4k h) [0..<length (devices s1)] s1 = Some s2" "stays K (length (devices s)) s2"
    using dev_loop_safe [of "stays K (length (devices s))" "[0..<length (devices s1)]" "dev_step4k h" s1] s1(2) by blast
  then show ?thesis using s1 by (simp add: machine_step_def Let_def)
qed

lemma machine_steps_safe:
  assumes "machine_inv K s" "run_plain hs (steps, s)"
  shows "\<exists>s'. machine_steps hs (steps, s) = Some (steps + of_nat (length hs), s') \<and> stays K (length (devices s)) s'"
  using assms
proof (induction hs arbitrary: steps s)
  case (Cons h hs)
  obtain s1 where s1: "machine_step h (steps, s) = Some (steps + 1, s1)" "stays K (length (devices s)) s1"
    using machine_step_safe [OF Cons.prems(1), of h steps] Cons.prems(2) by auto
  then show ?case using Cons.IH [of s1 "steps + 1"] Cons.prems(2) by (auto simp: algebra_simps)
qed simp

end
