(* ===== verification/Disk_Transfer.thy ===== *)
theory Disk_Transfer
  imports Devices
begin

text \<open>
  Transfers of the disk to and from memory: 128 steps move one sector, word by word, between the
  image and the physical memory, and end with the disk idle.
\<close>

fun disk_steps :: "nat \<Rightarrow> nat \<Rightarrow> (dev_state, 'z) rv32_sim \<Rightarrow> (dev_state, 'z) rv32_sim option" where
  "disk_steps 0 i s = Some s"
| "disk_steps (Suc n) i s = do { s1 \<leftarrow> disk_steps n i s; ddisk_step i s1 }"

subsection \<open>Memory accesses that reach memory, not devices\<close>

definition same_memory :: "('d, 'z) rv32_machine \<Rightarrow> ('d, 'z) rv32_machine \<Rightarrow> bool" where
  "same_memory s s' \<longleftrightarrow> ftl0 s' = ftl0 s \<and> mem_bytes s' = mem_bytes s \<and> areas s' = areas s"

lemma same_memory_trans: "same_memory a b \<Longrightarrow> same_memory b c \<Longrightarrow> same_memory a c"
  by (simp add: same_memory_def)

lemma same_memoryD: "same_memory s s' \<Longrightarrow> phys_byte s' = phys_byte s" "same_memory s s' \<Longrightarrow> writable_at s' = writable_at s"
  by (auto simp: same_memory_def intro: phys_byte_cong writable_at_cong)

lemma apply_effect_memory: "apply_effect e s = Some s' \<Longrightarrow> same_memory s s' \<and> devices s' = devices s"
  by (auto simp: apply_effect_def same_memory_def cpu_interrupt_up_def cpu_interrupt_down_def bind_Some_iff Let_def
      split: dev_effect.splits)

lemma apply_effects_memory: "apply_effects es s = Some s' \<Longrightarrow> same_memory s s' \<and> devices s' = devices s"
proof (induction es arbitrary: s)
  case (Cons e es)
  obtain s1 where s1: "apply_effect e s = Some s1" "apply_effects es s1 = Some s'" using Cons.prems by (auto simp: bind_Some_iff)
  show ?case using apply_effect_memory [OF s1(1)] Cons.IH [OF s1(2)] same_memory_trans by auto
qed (simp add: same_memory_def)

lemma writable_mapped: "mach_ok s \<Longrightarrow> writable_at s a \<Longrightarrow> phys_byte s (ucast a) \<noteq> None"
  by (auto simp: writable_at_def phys_byte_def page_of_def mach_ok_def elim: physmem_okD)

lemma ram_write32:
  assumes ok: "mach_ok s" and al: "IS_ALIGNED a 4" and w: "writable_at s a"
  shows "\<exists>s'. physmem_write32 p a v True s = Some (True, s') \<and> env_step s s' \<and> devices s' = devices s \<and>
     phys_byte s' = abs_store 4 (phys_byte s) (ucast a) v \<and> writable_at s' = writable_at s"
proof -
  have d: "4 dvd unat a" using al IS_ALIGNED_dvd [of a 2] by simp
  obtain s' where s': "physmem_write32 p a v True s = Some (True, s')" "phys_byte s' = abs_store 4 (phys_byte s) (ucast a) v"
    "writable_at s' = writable_at s"
    using mem32.wr_ok [OF mach_ok_mem_inv [OF ok] d writable_mapped [OF ok w] w, of p v True] by blast
  have e: "env_step s s'" using physmem_write_env(3) [OF ok al, of p v True] s'(1) by auto
  obtain f where "physmem_find_frame a s = Some (Some f)" using w frame_at_find_frame by (auto simp: writable_at_def)
  then have "devices s' = devices s"
    using s'(1) sc_control_frame [of a 4 s]
    by (auto simp: physmem_write32_def bind_Some_iff Let_def frame_store_def set_frame_def split: if_splits)
  then show ?thesis using s' e by blast
qed

lemma ram_read32:
  assumes ok: "mach_ok s" and al: "IS_ALIGNED a 4" and m: "phys_byte s (ucast a) \<noteq> None"
  shows "\<exists>s'. physmem_read32 p a True s = Some (mem_word s a, s') \<and> env_step s s' \<and> devices s' = devices s \<and> same_memory s s'"
proof -
  obtain s' where s': "physmem_read32 p a True s = Some (mem_word s a, s')" "env_step s s'"
    using physmem_read32_word [OF ok al m] by blast
  obtain f where "physmem_find_frame a s = Some (Some f)" using phys_byte_frame [OF m] frame_at_find_frame by blast
  then have "s' = physmem_breakpoint_find a 4 ACCESS_READ s" using s'(1) by (auto simp: physmem_read32_def bind_Some_iff Let_def)
  then show ?thesis using s' by (simp add: same_memory_def)
qed

subsection \<open>Bytes of words\<close>

lemma load_le_byte:
  assumes "k < 4"
  shows "(ucast (drop_bit (8 * k) (load_le 4 f p :: u32)) :: u8) = f (p + k)"
  using assms by (intro bit_word_eqI) (auto simp: bit_simps bit_load_le)

lemma offset_shift:
  fixes x b :: "36 word"
  assumes "m + 4 \<le> 2 ^ 36"
  shows "unat (x - (b + of_nat m)) < 4 \<longleftrightarrow> m \<le> unat (x - b) \<and> unat (x - b) < m + 4"
    "m \<le> unat (x - b) \<Longrightarrow> unat (x - (b + of_nat m)) = unat (x - b) - m"
proof -
  define y where "y = x - b"
  have y: "x - (b + of_nat m) = y - of_nat m" by (simp add: y_def algebra_simps)
  have m: "unat (of_nat m :: 36 word) = m" using assms by (simp add: unat_of_nat)
  have ge: "unat (y - of_nat m) = unat y - m" if "m \<le> unat y" using that m by (simp add: unat_sub word_le_nat_alt)
  have lt: "unat (y - of_nat m) = 2 ^ 36 + unat y - m" if "unat y < m"
    using that m unsigned_less [of "of_nat m :: 36 word", where 'a = nat] by (simp add: unat_sub_if_size word_size)
  show "unat (x - (b + of_nat m)) < 4 \<longleftrightarrow> m \<le> unat (x - b) \<and> unat (x - b) < m + 4"
    unfolding y y_def [symmetric] using ge lt assms by (cases "m \<le> unat y") auto
  show "m \<le> unat (x - b) \<Longrightarrow> unat (x - (b + of_nat m)) = unat (x - b) - m"
    unfolding y y_def [symmetric] by (rule ge)
qed

subsection \<open>One word\<close>

lemma disk_next_result:
  assumes "machine_inv K s" "i < length (devices s)" "disk_at i s = Some x"
  shows "\<exists>s'. disk_next i s = Some s' \<and> machine_inv K s' \<and> length (devices s') = length (devices s) \<and>
     same_memory s s' \<and> disk_at i s' = Some (fst (disk_advance x))"
proof -
  obtain s' where s': "disk_next i s = Some s'" "machine_inv K s'" "length (devices s') = length (devices s)"
    using disk_next_safe [OF assms] by blast
  then have a: "apply_effects (snd (disk_advance x)) (set_dev i (D_disk (fst (disk_advance x))) s) = Some s'"
    using assms(3) by (simp add: disk_next_def split_beta)
  have "same_memory s (set_dev i (D_disk (fst (disk_advance x))) s)" by (simp add: same_memory_def set_dev_def)
  then have "same_memory s s'" "devices s' = devices (set_dev i (D_disk (fst (disk_advance x))) s)"
    using apply_effects_memory [OF a] same_memory_trans by blast+
  then show ?thesis using s' assms(2) by (simp add: disk_at_data set_dev_def)
qed

lemma disk_read_word:
  assumes m: "machine_inv K s" and i: "i < length (devices s)" and x: "disk_at i s = Some x" "action x = ACTION_READ"
    and a: "IS_ALIGNED (disk_ptr x) 4" "writable_at s (disk_ptr x)"
  shows "\<exists>s'. ddisk_step i s = Some s' \<and> machine_inv K s' \<and> length (devices s') = length (devices s) \<and>
     disk_at i s' = Some (fst (disk_advance x)) \<and> writable_at s' = writable_at s \<and>
     phys_byte s' = abs_store 4 (phys_byte s) (ucast (disk_ptr x)) (load_le 4 (nth (img x)) (4 * disk_pos x) :: u32)"
proof -
  have w: "img_word (img x) (disk_pos x) = Some (load_le 4 (nth (img x)) (4 * disk_pos x))"
    using disk_pos_inside [OF disk_at_inv [OF m i x(1)]] x(2) by (simp add: img_word_def)
  obtain s1 where s1: "physmem_write32 no_procno (disk_ptr x) (load_le 4 (nth (img x)) (4 * disk_pos x)) True s = Some (True, s1)"
    "env_step s s1" "devices s1 = devices s" "writable_at s1 = writable_at s"
    "phys_byte s1 = abs_store 4 (phys_byte s) (ucast (disk_ptr x)) (load_le 4 (nth (img x)) (4 * disk_pos x) :: u32)"
    using ram_write32 [OF machine_inv_mach [OF m] a] by blast
  obtain s' where s': "disk_next i s1 = Some s'" "machine_inv K s'" "length (devices s') = length (devices s)" "same_memory s1 s'"
    "disk_at i s' = Some (fst (disk_advance x))"
    using disk_next_result [OF machine_inv_env [OF m s1(2)], of i x] s1(3) i x(1) by (auto simp: disk_at_data)
  then show ?thesis using x w s1 same_memoryD [OF s'(4)] by (simp add: ddisk_step_def)
qed

lemma disk_write_word:
  assumes m: "machine_inv K s" and i: "i < length (devices s)" and x: "disk_at i s = Some x" "action x = ACTION_WRITE"
    and a: "IS_ALIGNED (disk_ptr x) 4" "phys_byte s (ucast (disk_ptr x)) \<noteq> None"
  shows "\<exists>s' bs. ddisk_step i s = Some s' \<and> machine_inv K s' \<and> length (devices s') = length (devices s) \<and>
     img_put (img x) (disk_pos x) (mem_word s (disk_ptr x)) = Some bs \<and>
     disk_at i s' = Some (fst (disk_advance (x\<lparr>img := bs\<rparr>))) \<and> same_memory s s'"
proof -
  obtain s1 where s1: "physmem_read32 no_procno (disk_ptr x) True s = Some (mem_word s (disk_ptr x), s1)"
    "env_step s s1" "devices s1 = devices s" "same_memory s s1"
    using ram_read32 [OF machine_inv_mach [OF m] a] by blast
  have inv: "disk_inv x" by (rule disk_at_inv [OF m i x(1)])
  obtain bs where bs: "img_put (img x) (disk_pos x) (mem_word s (disk_ptr x)) = Some bs"
    using disk_pos_inside [OF inv] x(2) by (simp add: img_put_def)
  let ?s2 = "set_dev i (D_disk (x\<lparr>img := bs\<rparr>)) s1"
  have m2: "machine_inv K ?s2"
    using machine_inv_set_dev [OF machine_inv_env [OF m s1(2)], of i "D_disk (x\<lparr>img := bs\<rparr>)"] i x(1) s1(3)
      disk_inv_img [OF inv img_put_length [OF bs]] by (simp add: disk_at_data)
  have "disk_at i ?s2 = Some (x\<lparr>img := bs\<rparr>)" using i s1(3) by (simp add: disk_at_data set_dev_def)
  then obtain s' where s': "disk_next i ?s2 = Some s'" "machine_inv K s'" "length (devices s') = length (devices s)" "same_memory ?s2 s'"
    "disk_at i s' = Some (fst (disk_advance (x\<lparr>img := bs\<rparr>)))"
    using disk_next_result [OF m2, of i] i s1(3) by auto
  have "disk_at i s1 = Some x" using x(1) s1(3) by (simp add: disk_at_data)
  then have "ddisk_step i s = Some s'" using x s1(1) bs s'(1) by (simp add: ddisk_step_def)
  moreover have "same_memory s s'" using s1(4) s'(4) by (simp add: same_memory_def set_dev_def)
  ultimately show ?thesis using s' bs by blast
qed

subsection \<open>A sector\<close>

text \<open>The disk after \<open>n\<close> words of a transfer that began in \<open>d\<close>.\<close>

definition disk_after :: "nat \<Rightarrow> disk_data \<Rightarrow> disk_data" where
  "disk_after n d =
     (if n < 128 then d\<lparr>disk_ptr := disk_ptr d + of_nat (4 * n), cnt := n\<rparr>
      else fst (disk_advance (d\<lparr>disk_ptr := disk_ptr d + of_nat (4 * 127), cnt := 127\<rparr>)))"

lemma disk_after_Suc: "n < 128 \<Longrightarrow> fst (disk_advance (disk_after n d)) = disk_after (Suc n) d"
proof -
  assume n: "n < 128"
  show ?thesis
  proof (cases "Suc n < 128")
    case True
    then show ?thesis by (simp add: disk_after_def disk_advance_def algebra_simps)
  next
    case False
    then have "n = 127" using n by simp
    then show ?thesis by (simp add: disk_after_def)
  qed
qed

lemma disk_after_img: "(disk_after n d)\<lparr>img := bs\<rparr> = disk_after n (d\<lparr>img := bs\<rparr>)"
  by (simp add: disk_after_def disk_advance_def Let_def)

lemma disk_after_done:
  "action (disk_after 128 d) = ACTION_NONE" "disk_status (disk_after 128 d) AND STATUS_BUSY = 0"
  "\<not> uses_busy_bit d \<Longrightarrow> disk_ig (disk_after 128 d) \<and> disk_intrcount (disk_after 128 d) = disk_intrcount d + 1"
proof -
  have "(x AND NOT 0x10 OR 0x04) AND 0x10 = 0" "(x AND NOT 0x10) AND 0x10 = 0" for x :: u32
    by (simp_all add: bit.conj_disj_distrib2 and.assoc)
  then show "disk_status (disk_after 128 d) AND STATUS_BUSY = 0"
    by (simp add: disk_after_def disk_advance_def Let_def STATUS_BUSY_def STATUS_INT_def)
qed (simp_all add: disk_after_def disk_advance_def Let_def)

lemma aligned_word: "IS_ALIGNED p 4 \<Longrightarrow> IS_ALIGNED (p + of_nat (4 * n)) 4" for p :: ptr36
proof -
  assume "IS_ALIGNED p 4"
  then have "4 dvd unat p" using IS_ALIGNED_dvd [of p 2] by simp
  moreover have "4 dvd unat (of_nat (4 * n) :: ptr36)" by (simp only: unat_of_nat) (simp add: dvd_mod_iff)
  ultimately have "4 dvd unat (p + of_nat (4 * n))" by (simp only: unat_word_ariths) (simp add: dvd_mod_iff)
  then show ?thesis using IS_ALIGNED_dvd [of "p + of_nat (4 * n)" 2] by simp
qed

lemma ucast_add_nat: "(ucast (p + of_nat m :: ptr36) :: 36 word) = ucast p + of_nat m"
proof (rule unsigned_word_eqI [where 'a = nat])
  have "((unat p + m) mod 2 ^ 64) mod 2 ^ 36 = (unat p mod 2 ^ 36 + m mod 2 ^ 36) mod 2 ^ 36"
    by (simp only: mod_add_eq) (rule mod_mod_cancel, simp add: le_imp_power_dvd)
  moreover have "unat (p + of_nat m) = (unat p + m) mod 2 ^ 64"
    by (simp only: unat_word_ariths unat_of_nat mod_add_right_eq) simp
  ultimately show "unat (ucast (p + of_nat m) :: 36 word) = unat (ucast p + of_nat m :: 36 word)"
    by (simp only: unsigned_ucast_eq take_bit_eq_mod unat_word_ariths unat_of_nat) simp
qed

lemma disk_read_words:
  assumes m: "machine_inv K s" and i: "i < length (devices s)" and d: "disk_at i s = Some d" "action d = ACTION_READ" "cnt d = 0"
    and a: "IS_ALIGNED (disk_ptr d) 4" and w: "\<And>k. k < 128 \<Longrightarrow> writable_at s (disk_ptr d + of_nat (4 * k))"
    and n: "n \<le> 128"
  shows "\<exists>s'. disk_steps n i s = Some s' \<and> machine_inv K s' \<and> length (devices s') = length (devices s) \<and>
     disk_at i s' = Some (disk_after n d) \<and> writable_at s' = writable_at s \<and>
     (\<forall>x. phys_byte s' x = (let j = unat (x - ucast (disk_ptr d))
        in if j < 4 * n then Some (img d ! (secno d * 512 + j)) else phys_byte s x))"
  using n
proof (induction n)
  case 0
  have "d\<lparr>cnt := 0\<rparr> = d" using d(3) by simp
  then show ?case using m d(1) by (simp add: disk_after_def)
next
  case (Suc n)
  then obtain s1 where s1: "disk_steps n i s = Some s1" "machine_inv K s1" "length (devices s1) = length (devices s)"
     "disk_at i s1 = Some (disk_after n d)" "writable_at s1 = writable_at s"
     "\<And>x. phys_byte s1 x = (let j = unat (x - ucast (disk_ptr d))
        in if j < 4 * n then Some (img d ! (secno d * 512 + j)) else phys_byte s x)" by auto
  have n: "n < 128" using Suc.prems by simp
  let ?d = "disk_after n d"
  have da: "action ?d = ACTION_READ" "disk_ptr ?d = disk_ptr d + of_nat (4 * n)" "img ?d = img d" "4 * disk_pos ?d = secno d * 512 + 4 * n"
    using n d(2) by (simp_all add: disk_after_def disk_pos_def)
  have al: "IS_ALIGNED (disk_ptr ?d) 4" unfolding da(2) by (rule aligned_word [OF a])
  have wr: "writable_at s1 (disk_ptr ?d)" unfolding da(2) s1(5) by (rule w [OF n])
  obtain s' where s': "ddisk_step i s1 = Some s'" "machine_inv K s'" "length (devices s') = length (devices s)"
     "disk_at i s' = Some (fst (disk_advance ?d))" "writable_at s' = writable_at s"
     "phys_byte s' = abs_store 4 (phys_byte s1) (ucast (disk_ptr ?d)) (load_le 4 (nth (img d)) (secno d * 512 + 4 * n) :: u32)"
    using disk_read_word [OF s1(2) _ s1(4) da(1) al wr] i s1(3,5) unfolding da(3,4) by auto
  have "phys_byte s' x = (let j = unat (x - ucast (disk_ptr d))
      in if j < 4 * Suc n then Some (img d ! (secno d * 512 + j)) else phys_byte s x)" for x
  proof -
    let ?j = "unat (x - ucast (disk_ptr d) :: 36 word)"
    have o: "4 * n + 4 \<le> (2 :: nat) ^ 36" using n by simp
    have "unat (x - ucast (disk_ptr ?d)) < 4 \<longleftrightarrow> 4 * n \<le> ?j \<and> ?j < 4 * n + 4"
      "4 * n \<le> ?j \<Longrightarrow> unat (x - ucast (disk_ptr ?d)) = ?j - 4 * n"
      unfolding da(2) ucast_add_nat using offset_shift [OF o, of x "ucast (disk_ptr d)"] by blast+
    then show ?thesis using load_le_byte [of "?j - 4 * n" "nth (img d)" "secno d * 512 + 4 * n"]
      by (auto simp: s'(6) abs_store_def s1(6) Let_def)
  qed
  then show ?case using s1(1) s' disk_after_Suc [OF n] by auto
qed

lemma img_put_nth:
  assumes "img_put bs pos v = Some bs'" "q < length bs"
  shows "bs' ! q = (if 4 * pos \<le> q \<and> q < 4 * pos + 4 then ucast (drop_bit (8 * (q - 4 * pos)) v) else bs ! q)"
proof -
  have len: "4 * pos + 4 \<le> length bs" using assms(1) by (simp add: img_put_def split: if_splits)
  have bs': "bs' = bs[4 * pos := ucast v, 4 * pos + 1 := ucast (drop_bit 8 v), 4 * pos + 2 := ucast (drop_bit 16 v),
      4 * pos + 3 := ucast (drop_bit 24 v)]" using assms(1) len by (simp add: img_put_def)
  consider "q < 4 * pos" | "q = 4 * pos" | "q = 4 * pos + 1" | "q = 4 * pos + 2" | "q = 4 * pos + 3" | "4 * pos + 4 \<le> q" by linarith
  then show ?thesis by cases (use len in \<open>simp_all add: bs' nth_list_update\<close>)
qed

lemma mem_word_byte: "k < 4 \<Longrightarrow> (ucast (drop_bit (8 * k) (mem_word s a)) :: u8) = the (phys_byte s (ucast a + of_nat k))"
  by (simp add: mem_word_def abs_load_def load_le_byte)

lemma disk_write_words:
  assumes m: "machine_inv K s" and i: "i < length (devices s)" and d: "disk_at i s = Some d" "action d = ACTION_WRITE" "cnt d = 0"
    and a: "IS_ALIGNED (disk_ptr d) 4" and w: "\<And>k. k < 128 \<Longrightarrow> phys_byte s (ucast (disk_ptr d + of_nat (4 * k))) \<noteq> None"
    and n: "n \<le> 128"
  shows "\<exists>s' bs. disk_steps n i s = Some s' \<and> machine_inv K s' \<and> length (devices s') = length (devices s) \<and>
     disk_at i s' = Some (disk_after n (d\<lparr>img := bs\<rparr>)) \<and> same_memory s s' \<and> length bs = length (img d) \<and>
     (\<forall>q < length bs. bs ! q = (if secno d * 512 \<le> q \<and> q < secno d * 512 + 4 * n
        then the (phys_byte s (ucast (disk_ptr d) + of_nat (q - secno d * 512))) else img d ! q))"
  using n
proof (induction n)
  case 0
  have "d\<lparr>img := img d, cnt := 0\<rparr> = d" using d(3) by simp
  then show ?case using m d(1) by (intro exI [of _ s] exI [of _ "img d"]) (auto simp: disk_after_def same_memory_def)
next
  case (Suc n)
  then obtain s1 bs where s1: "disk_steps n i s = Some s1" "machine_inv K s1" "length (devices s1) = length (devices s)"
     "disk_at i s1 = Some (disk_after n (d\<lparr>img := bs\<rparr>))" "same_memory s s1" "length bs = length (img d)"
     "\<And>q. q < length bs \<Longrightarrow> bs ! q = (if secno d * 512 \<le> q \<and> q < secno d * 512 + 4 * n
        then the (phys_byte s (ucast (disk_ptr d) + of_nat (q - secno d * 512))) else img d ! q)" by auto
  have n: "n < 128" using Suc.prems by simp
  let ?d = "disk_after n (d\<lparr>img := bs\<rparr>)"
  have da: "action ?d = ACTION_WRITE" "disk_ptr ?d = disk_ptr d + of_nat (4 * n)" "img ?d = bs" "4 * disk_pos ?d = secno d * 512 + 4 * n"
    using n d(2) by (simp_all add: disk_after_def disk_pos_def)
  have al: "IS_ALIGNED (disk_ptr ?d) 4" unfolding da(2) by (rule aligned_word [OF a])
  note pb = same_memoryD(1) [OF s1(5)]
  have rd: "phys_byte s1 (ucast (disk_ptr ?d)) \<noteq> None" unfolding da(2) pb by (rule w [OF n])
  obtain s' bs' where s': "ddisk_step i s1 = Some s'" "machine_inv K s'" "length (devices s') = length (devices s)"
     "img_put bs (disk_pos ?d) (mem_word s1 (disk_ptr ?d)) = Some bs'"
     "disk_at i s' = Some (fst (disk_advance (?d\<lparr>img := bs'\<rparr>)))" "same_memory s1 s'"
    using disk_write_word [OF s1(2) _ s1(4) da(1) al rd] i s1(3) unfolding da(3) by auto
  have "bs' ! q = (if secno d * 512 \<le> q \<and> q < secno d * 512 + 4 * Suc n
        then the (phys_byte s (ucast (disk_ptr d) + of_nat (q - secno d * 512))) else img d ! q)" if "q < length bs'" for q
  proof -
    have q: "q < length bs" using that img_put_length [OF s'(4)] by simp
    show ?thesis
    proof (cases "secno d * 512 + 4 * n \<le> q \<and> q < secno d * 512 + 4 * n + 4")
      case True
      then have k: "q - (secno d * 512 + 4 * n) < 4" "q - secno d * 512 = 4 * n + (q - (secno d * 512 + 4 * n))" by auto
      have "bs' ! q = the (phys_byte s (ucast (disk_ptr d) + of_nat (4 * n) + of_nat (q - (secno d * 512 + 4 * n))))"
        using True by (simp only: img_put_nth [OF s'(4) q] da(4) mem_word_byte [OF k(1)] if_True)
          (simp only: da(2) ucast_add_nat pb simp_thms if_True)
      also have "ucast (disk_ptr d) + of_nat (4 * n) + of_nat (q - (secno d * 512 + 4 * n)) = (ucast (disk_ptr d) + of_nat (q - secno d * 512) :: 36 word)"
        by (subst k(2)) (simp only: of_nat_add add.assoc)
      finally show ?thesis using True by auto
    next
      case False
      then show ?thesis using s1(7) [OF q] by (auto simp: img_put_nth [OF s'(4) q] da(4))
    qed
  qed
  moreover have "disk_at i s' = Some (disk_after (Suc n) (d\<lparr>img := bs'\<rparr>))"
    using s'(5) disk_after_Suc [OF n, of "d\<lparr>img := bs'\<rparr>"] by (simp add: disk_after_img)
  ultimately show ?case using s1 s' img_put_length [OF s'(4)] same_memory_trans [OF s1(5) s'(6)] by auto
qed

end
