(* ===== verification/Device_Properties.thy ===== *)
theory Device_Properties
  imports Disk_Transfer Sim_Demo
begin

text \<open>The properties of the devices and of the whole machine, each with its witness.\<close>

subsection \<open>A machine with devices for the witnesses\<close>

definition demo_disk :: "disk_action \<Rightarrow> disk_data" where
  "demo_disk act =
     \<lparr>img = replicate 512 0xAB, disk_intno = 2, disk_cpuid = 0, uses_busy_bit = False, disk_type = DISKT_MEM,
      disk_addr = 0x20000000, disk_size = 512, disk_ptr = 0x1000, disk_secno = 0, disk_status = 0x10, disk_command = 0,
      action = act, secno = 0, cnt = 0, disk_ig = False, disk_intrcount = 0, cmds_read = 1, cmds_write = 0, cmds_error = 0\<rparr>"

definition demo_device :: "dev_state \<Rightarrow> dev_state device" where
  "demo_device x = \<lparr>dev_type = type_of x, dev_name = ''demo'', dev_data = x\<rparr>"

definition demo_devices :: "u64 \<Rightarrow> disk_action \<Rightarrow> dev_state device list" where
  "demo_devices n act = [demo_device (D_cycle \<lparr>dcycle_addr = 0x20000100, cycle = n\<rparr>), demo_device (D_disk (demo_disk act)), demo_device (D_rvcpu 0)]"

lemma demo_disk_inv: "disk_inv (demo_disk act)"
  by (simp add: demo_disk_def disk_inv_def)

lemma demo_disk_action: "action (demo_disk act) = act" "cnt (demo_disk act) = 0" "disk_ptr (demo_disk act) = 0x1000"
  "secno (demo_disk act) = 0" "img (demo_disk act) = replicate 512 0xAB" "\<not> uses_busy_bit (demo_disk act)" "IS_ALIGNED (0x1000 :: ptr36) 4"
  by (simp_all add: demo_disk_def IS_ALIGNED_def)

lemma demo_device_wf: "state_inv x \<Longrightarrow> dev_wf (demo_device x)"
  by (simp add: demo_device_def dev_wf_def)

lemma demo_devices_length: "length (demo_devices n act) = 3"
  by (simp add: demo_devices_def)

lemma demo_devices_wf: "\<forall>d \<in> set (demo_devices n act). dev_wf d"
  by (simp add: demo_devices_def demo_device_wf demo_disk_inv)

abbreviation demo_sim :: "u64 \<Rightarrow> disk_action \<Rightarrow> (dev_state, unit) rv32_sim" where
  "demo_sim n act \<equiv> sim_dev (demo_devices n act) rv_mmode"

lemma demo_machine_inv: "machine_inv {0} (demo_sim n act)"
proof -
  have "sim_inv {0} (demo_sim n act)" using demo_devices_wf dev_wf_ok by (intro sim_dev_sim_inv) auto
  then show ?thesis using demo_devices_wf [of n act] by (auto simp: machine_inv_def demo_devices_def demo_device_def)
qed

lemma demo_disk_at: "disk_at 1 (demo_sim n act) = Some (demo_disk act)"
  by (simp add: disk_at_data demo_devices_def demo_device_def)

lemma demo_sim_writable: "k < 128 \<Longrightarrow> writable_at (demo_sim n act) (0x1000 + of_nat (4 * k))"
proof -
  assume k: "k < 128"
  have "unat (of_nat (4 * k) :: ptr36) = 4 * k" using k by (simp only: unat_of_nat) simp
  then have "unat (0x1000 + of_nat (4 * k) :: ptr36) = 0x1000 + 4 * k" using k by (simp only: unat_word_ariths) simp
  then have "page_of (0x1000 + of_nat (4 * k)) = 1" using k by (simp add: page_of_div del: of_nat_mult)
  then show ?thesis by (simp add: writable_at_def sim_frame_at sim_frame_def)
qed

lemma demo_cycle_step: "set_dev 0 (D_cycle \<lparr>dcycle_addr = 0x20000100, cycle = n + 1\<rparr>) (demo_sim n act) = demo_sim (n + 1) act"
  by (simp add: set_dev_def sim_dev_def demo_devices_def demo_device_def)

lemma demo_run_plain: "run_plain [h] (0, demo_sim 0 ACTION_NONE)"
proof -
  have "dev_step h 0 (demo_sim 0 ACTION_NONE) = Some (demo_sim 1 ACTION_NONE)"
    using demo_cycle_step [of 0 ACTION_NONE] by (simp add: dev_step_def demo_devices_def demo_device_def dcycle_step_def)
  moreover have "dev_step h 1 (demo_sim 1 ACTION_NONE) = Some (demo_sim 1 ACTION_NONE)"
    using demo_disk_at [of 1 ACTION_NONE] demo_disk_at [of 1 ACTION_NONE, unfolded disk_at_data]
    by (simp add: dev_step_def ddisk_step_def demo_disk_action)
  moreover have "step_plain 0 (demo_sim 0 ACTION_NONE)" "step_plain 1 (demo_sim 1 ACTION_NONE)" "step_plain 2 (demo_sim 1 ACTION_NONE)"
    by (simp_all add: step_plain_def sim_plain demo_devices_def demo_device_def demo_disk_def)
  moreover have "[0..<length (devices (demo_sim 0 ACTION_NONE))] = [0, 1, 2]" by (simp add: demo_devices_def upt_rec)
  ultimately show ?thesis by (simp split: option.splits del: upt.simps)
qed

subsection \<open>The machine\<close>



subsection \<open>The disk\<close>

text \<open>
  C21: a sector that the disk is told to read arrives in memory. In 128 steps the 512 bytes of the
  sector are stored at the address in the pointer register, no other byte of memory changes, and
  then the disk is idle, not busy, and has asserted its interrupt if it uses one.
\<close>

theorem disk_reads_sector:
  assumes "machine_inv K s" "i < length (devices s)" "disk_at i s = Some d" "action d = ACTION_READ" "cnt d = 0"
    and "IS_ALIGNED (disk_ptr d) 4" "\<forall>k < 128. writable_at s (disk_ptr d + of_nat (4 * k))"
  shows "\<exists>s' d'. disk_steps 128 i s = Some s' \<and> machine_inv K s' \<and> disk_at i s' = Some d' \<and>
     (\<forall>x. phys_byte s' x = (let j = unat (x - ucast (disk_ptr d))
        in if j < 512 then Some (img d ! (secno d * 512 + j)) else phys_byte s x)) \<and>
     action d' = ACTION_NONE \<and> disk_status d' AND STATUS_BUSY = 0 \<and>
     (\<not> uses_busy_bit d \<longrightarrow> disk_ig d' \<and> disk_intrcount d' = disk_intrcount d + 1)"
proof -
  obtain s' where s': "disk_steps 128 i s = Some s'" "machine_inv K s'" "disk_at i s' = Some (disk_after 128 d)"
     "\<forall>x. phys_byte s' x = (let j = unat (x - ucast (disk_ptr d))
        in if j < 4 * 128 then Some (img d ! (secno d * 512 + j)) else phys_byte s x)"
    using disk_read_words [OF assms(1-6), of 128] assms(7) by blast
  then show ?thesis using disk_after_done [of d] by (intro exI [of _ s'] exI [of _ "disk_after 128 d"]) simp
qed

theorem disk_reads_sector_witness:
  "\<exists>s' d'. disk_steps 128 1 (demo_sim 0 ACTION_READ) = Some s' \<and> phys_byte s' 0x1003 = Some 0xAB \<and>
     disk_at 1 s' = Some d' \<and> action d' = ACTION_NONE \<and> disk_ig d'"
proof -
  obtain s' d' where s': "disk_steps 128 1 (demo_sim 0 ACTION_READ) = Some s'" "disk_at 1 s' = Some d'" "action d' = ACTION_NONE" "disk_ig d'"
    "\<forall>x. phys_byte s' x = (let j = unat (x - ucast (0x1000 :: ptr36))
        in if j < 512 then Some (replicate 512 0xAB ! (0 * 512 + j)) else phys_byte (demo_sim 0 ACTION_READ) x)"
    using disk_reads_sector [OF demo_machine_inv _ demo_disk_at, of 0 ACTION_READ] demo_sim_writable [of _ 0 ACTION_READ]
    unfolding demo_disk_action(1-5) sim_parts(8) demo_devices_length by (auto simp: demo_disk_action(6,7))
  have "phys_byte s' 0x1003 = Some 0xAB" unfolding s'(5) [rule_format] by (simp add: Let_def)
  then show ?thesis using s' by blast
qed

text \<open>
  C22: a sector that the disk is told to write is taken from memory. In 128 steps the bytes of the
  sector in the image become the 512 bytes of memory at the address in the pointer register, no
  other byte of the image and no byte of memory changes, and then the disk is idle.
\<close>

theorem disk_writes_sector:
  assumes "machine_inv K s" "i < length (devices s)" "disk_at i s = Some d" "action d = ACTION_WRITE" "cnt d = 0"
    and "IS_ALIGNED (disk_ptr d) 4" "\<forall>k < 128. phys_byte s (ucast (disk_ptr d + of_nat (4 * k))) \<noteq> None"
  shows "\<exists>s' d'. disk_steps 128 i s = Some s' \<and> machine_inv K s' \<and> disk_at i s' = Some d' \<and> phys_byte s' = phys_byte s \<and>
     length (img d') = length (img d) \<and>
     (\<forall>q < length (img d). img d' ! q = (if q div 512 = secno d
        then the (phys_byte s (ucast (disk_ptr d) + of_nat (q mod 512))) else img d ! q)) \<and>
     action d' = ACTION_NONE \<and> disk_status d' AND STATUS_BUSY = 0"
proof -
  obtain s' bs where s': "disk_steps 128 i s = Some s'" "machine_inv K s'" "disk_at i s' = Some (disk_after 128 (d\<lparr>img := bs\<rparr>))"
     "same_memory s s'" "length bs = length (img d)"
     "\<And>q. q < length bs \<Longrightarrow> bs ! q = (if secno d * 512 \<le> q \<and> q < secno d * 512 + 4 * 128
        then the (phys_byte s (ucast (disk_ptr d) + of_nat (q - secno d * 512))) else img d ! q)"
    using disk_write_words [OF assms(1-6), of 128] assms(7) by blast
  have b: "bs ! q = (if q div 512 = secno d then the (phys_byte s (ucast (disk_ptr d) + of_nat (q mod 512))) else img d ! q)"
    if "q < length (img d)" for q
  proof -
    have "secno d * 512 \<le> q \<and> q < secno d * 512 + 4 * 128 \<longleftrightarrow> q div 512 = secno d"
      by (auto intro: div_nat_eqI)
    moreover have "q div 512 = secno d \<Longrightarrow> q - secno d * 512 = q mod 512" by (metis minus_div_mult_eq_mod)
    ultimately show ?thesis using s'(6) [of q] that s'(5) by (simp split: if_splits)
  qed
  have "img (disk_after 128 (d\<lparr>img := bs\<rparr>)) = bs" by (simp add: disk_after_def disk_advance_def Let_def)
  then show ?thesis using s' b same_memoryD(1) [OF s'(4)] disk_after_done(1,2) [of "d\<lparr>img := bs\<rparr>"]
    by (intro exI [of _ s'] exI [of _ "disk_after 128 (d\<lparr>img := bs\<rparr>)"]) simp
qed

theorem disk_writes_sector_witness:
  "\<exists>s' d'. disk_steps 128 1 (demo_sim 0 ACTION_WRITE) = Some s' \<and> disk_at 1 s' = Some d' \<and> img d' ! 0 = 0xCF \<and> img d' ! 5 = 0"
proof -
  have m: "phys_byte (demo_sim 0 ACTION_WRITE) (ucast (0x1000 + of_nat (4 * k) :: ptr36)) \<noteq> None" if "k < 128" for k
    by (rule writable_mapped [OF machine_inv_mach [OF demo_machine_inv] demo_sim_writable [OF that]])
  obtain s' d' where s': "disk_steps 128 1 (demo_sim 0 ACTION_WRITE) = Some s'" "disk_at 1 s' = Some d'"
    "\<And>q. q < 512 \<Longrightarrow> img d' ! q = (if q div 512 = 0 then the (phys_byte (demo_sim 0 ACTION_WRITE) (ucast (0x1000 :: ptr36) + of_nat (q mod 512)))
       else replicate 512 0xAB ! q)"
    using disk_writes_sector [OF demo_machine_inv _ demo_disk_at, of 0 ACTION_WRITE] m
    unfolding demo_disk_action(1-5) sim_parts(8) demo_devices_length length_replicate by (auto simp: demo_disk_action(7))
  have "img d' ! 0 = 0xCF" "img d' ! 5 = 0" by (simp_all add: s'(3) sim_phys_byte sim_byte_def)
  then show ?thesis using s' by blast
qed

text \<open>
  C23: whatever a program writes to the registers of a disk, whatever the user does to its image,
  and however these are interleaved with the words of transfers, a disk returns from each of them,
  and the word that an active transfer moves next lies inside the image.
\<close>

theorem disk_image_bounds:
  assumes "ddisk_init junk devs addr p1 p2 = Inr d"
  shows "\<exists>d'. disk_events es d = Some d' \<and> length (img d') = unat (disk_size d') \<and>
     (action d' \<noteq> ACTION_NONE \<longrightarrow> disk_type d' \<noteq> DISKT_NONE \<and> 4 * disk_pos d' + 4 \<le> length (img d'))"
proof -
  obtain d' where d': "disk_events es d = Some d'" "disk_inv d'" using disk_events_inv [OF ddisk_init_inv [OF assms]] by blast
  then show ?thesis using disk_pos_inside [OF d'(2)] by (auto simp: disk_inv_def)
qed

theorem disk_image_bounds_witness:
  "\<exists>d d'. ddisk_init 0 [] 0x20000000 Parm_end Parm_end = Inr d \<and>
     disk_events [Ev_generic 1024, Ev_write 0x20000004 1, Ev_write 0x20000008 1, Ev_word] d = Some d' \<and>
     action d' = ACTION_READ \<and> 4 * disk_pos d' + 4 \<le> 1024"
proof -
  define d where "d = (case ddisk_init 0 [] 0x20000000 Parm_end Parm_end of Inr x \<Rightarrow> x)"
  have i: "ddisk_init 0 [] 0x20000000 Parm_end Parm_end = Inr d"
    by (simp add: d_def ddisk_init_def ddisk_int_parms_def check_block_def phys_range_def ptr36_dword_aligned_def)
  obtain d' where d': "disk_events [Ev_generic 1024, Ev_write 0x20000004 1, Ev_write 0x20000008 1, Ev_word] d = Some d'"
    "length (img d') = unat (disk_size d')" "action d' \<noteq> ACTION_NONE \<longrightarrow> 4 * disk_pos d' + 4 \<le> length (img d')"
    using disk_image_bounds [OF i] by blast
  moreover have "action d' = ACTION_READ" "disk_size d' = 1024"
    using d'(1) by (auto simp: d_def ddisk_init_def ddisk_int_parms_def check_block_def phys_range_def ptr36_dword_aligned_def
        disk_react_def ddisk_generic_def ddisk_clean_up_def ddisk_write32_def disk_cmd_def disk_ack_def disk_bound_ok_def disk_start_def
        disk_advance_def COMMAND_MASK_def COMMAND_READ_def COMMAND_WRITE_def COMMAND_INT_ACK_def Let_def)
  ultimately show ?thesis using i by auto
qed

subsection \<open>Other devices\<close>

text \<open>
  C24: stores to an LCD of any accepted size never address its buffer outside its bounds or divide
  by zero, and leave the cursor on the display.
\<close>

theorem lcd_stays_on_display:
  assumes "dlcd_init junk junk_prev c r addr = Some (Inr d)"
  shows "\<exists>d'. lcd_writes ws d = Some d' \<and> 0 \<le> current_row d' \<and> current_row d' < rows d \<and>
     0 \<le> current_col d' \<and> current_col d' < cols d \<and> int (length (lcd_buffer d')) = rows d * cols d"
  using lcd_writes_inv [OF dlcd_init_inv [OF assms], of ws] by (auto simp: lcd_inv_def)

theorem lcd_stays_on_display_witness:
  "\<exists>d d'. dlcd_init \<lparr>lcd_rs = False, lcd_rw = False, lcd_e = False, lcd_byte = 0\<rparr>
       \<lparr>lcd_rs = False, lcd_rw = False, lcd_e = False, lcd_byte = 0\<rparr> 2 1 0x30000000 = Some (Inr d) \<and>
     lcd_writes [(0x30000000, 65), (0x30000001, 5), (0x30000001, 1)] d = Some d' \<and> current_col d' < 2"
proof -
  let ?r = "\<lparr>lcd_rs = False, lcd_rw = False, lcd_e = False, lcd_byte = 0\<rparr>"
  obtain d where d: "dlcd_init ?r ?r 2 1 0x30000000 = Some (Inr d)" "cols d = 2" by (simp add: dlcd_init_def phys_range_def)
  then show ?thesis using lcd_stays_on_display [OF d(1), of "[(0x30000000, 65), (0x30000001, 5), (0x30000001, 1)]"]
    by (simp del: lcd_writes.simps) blast
qed



text \<open>
  C26: giving a memory device a size it accepts creates memory: the physical memory stays
  consistent, the area has that many bytes, they read as zero, and all other memory is unchanged.
\<close>

theorem mem_generic_creates:
  assumes "physmem_ok s" "block_fresh b s" "area_type (areas s a) = MEMT_NONE" "sz \<noteq> 0"
    and "phys_range sz" "ptr36_frame_aligned sz" "phys_range (FRAME2ADDR (area_start (areas s a)) + sz)"
  shows "\<exists>s'. mem_generic a b sz s = Some (Inr s') \<and> physmem_ok s' \<and> unat (area_count (areas s' a)) * 4096 = unat sz \<and>
     (\<forall>x. phys_byte s' x = (if in_area a s' (unat x div 4096) then Some 0 else phys_byte s x))"
  by (rule mem_generic_accepted [OF assms])

definition demo_empty_area :: "(unit, unit) rv32_sim" where
  "demo_empty_area = (sim rv_mmode)\<lparr>areas := (areas (sim rv_mmode))(7 := \<lparr>area_type = MEMT_NONE, writable = True, area_start = 3, area_count = 0, area_data = None\<rparr>)\<rparr>"

theorem mem_generic_creates_witness:
  "\<exists>s'. mem_generic 7 9 0x2000 demo_empty_area = Some (Inr s') \<and> physmem_ok s' \<and> unat (area_count (areas s' 7)) * 4096 = 0x2000"
proof -
  have f: "frame_at p demo_empty_area = frame_at p (sim rv_mmode)" for p by (rule frame_at_cong) (simp add: demo_empty_area_def)
  have "physmem_ok demo_empty_area"
    using sim_mach_ok [of rv_mmode] physmem_ok_cong [of demo_empty_area "sim rv_mmode"] by (simp add: mach_ok_def demo_empty_area_def)
  moreover have "block_fresh 9 demo_empty_area" by (simp add: block_fresh_def f sim_frame_at sim_frame_def)
  moreover have a: "areas demo_empty_area 7 = \<lparr>area_type = MEMT_NONE, writable = True, area_start = 3, area_count = 0, area_data = None\<rparr>"
    by (simp add: demo_empty_area_def)
  ultimately show ?thesis using mem_generic_creates [of demo_empty_area 9 7 "0x2000"]
    by (auto simp: phys_range_def ptr36_frame_aligned_def FRAME2ADDR_def)
qed

end
