(* ===== verification/Sh2e_Intc.thy ===== *)
theory Sh2e_Intc
  imports Device_Init
begin

text \<open>
  The interrupt controller of the SH-2E, \<open>intc/superh_sh2e/intc.c\<close> and \<open>intc.h\<close>, and the register
  block of its device, \<open>dsh2eintc.c\<close>. An interrupt source is pending by its flag or, for the eight
  IRQ lines, by a bit of \<open>isr\<close>; its priority is a half byte of one of the twelve priority
  registers. \<open>sh2e_check_pending_interrupts\<close> selects the pending source of the highest priority
  above the mask of the processor.
\<close>

abbreviation (input) SH2E_INTC_IPR_REGISTERS_COUNT :: nat where "SH2E_INTC_IPR_REGISTERS_COUNT \<equiv> 12"
abbreviation (input) SH2E_INTC_PRIORITY_MAX_VALUE :: nat where "SH2E_INTC_PRIORITY_MAX_VALUE \<equiv> 15"
abbreviation (input) SH2E_INTC_SOURCE_MAX_VALUE :: nat where "SH2E_INTC_SOURCE_MAX_VALUE \<equiv> 255"
abbreviation (input) SH2E_INTC_IPR_HALF_BYTES_LENGTH :: nat where "SH2E_INTC_IPR_HALF_BYTES_LENGTH \<equiv> 48"
abbreviation (input) SH2E_INTC_IRQ_NUMBER_OF_SOURCES :: nat where "SH2E_INTC_IRQ_NUMBER_OF_SOURCES \<equiv> 8"
abbreviation (input) SH2E_INTC_POWER_ON_RESET_EXTERNAL_OFFSET :: nat where "SH2E_INTC_POWER_ON_RESET_EXTERNAL_OFFSET \<equiv> 0"
abbreviation (input) SH2E_INTC_POWER_ON_RESET_INTERNAL_OFFSET :: nat where "SH2E_INTC_POWER_ON_RESET_INTERNAL_OFFSET \<equiv> 1"
abbreviation (input) SH2E_INTC_MANUAL_RESET_OFFSET :: nat where "SH2E_INTC_MANUAL_RESET_OFFSET \<equiv> 2"
abbreviation (input) SH2E_INTC_SLEEP_MODE_OFFSET :: nat where "SH2E_INTC_SLEEP_MODE_OFFSET \<equiv> 5"
abbreviation (input) SH2E_INTC_DMAC_VECTOR_ADDRESS_OFFSET :: nat where "SH2E_INTC_DMAC_VECTOR_ADDRESS_OFFSET \<equiv> 10"
abbreviation (input) SH2E_INTC_NMI_VECTOR_ADDRESS_OFFSET :: nat where "SH2E_INTC_NMI_VECTOR_ADDRESS_OFFSET \<equiv> 11"
abbreviation (input) SH2E_INTC_UBC_VECTOR_ADDRESS_OFFSET :: nat where "SH2E_INTC_UBC_VECTOR_ADDRESS_OFFSET \<equiv> 12"
abbreviation (input) SH2E_INTC_HUDI_VECTOR_ADDRESS_OFFSET :: nat where "SH2E_INTC_HUDI_VECTOR_ADDRESS_OFFSET \<equiv> 14"
abbreviation (input) SH2E_INTC_IRQ_VECTOR_ADDRESS_OFFSET :: nat where "SH2E_INTC_IRQ_VECTOR_ADDRESS_OFFSET \<equiv> 64"

definition SH2E_INTC_VALID_RESET_ID :: "nat \<Rightarrow> bool" where
  "SH2E_INTC_VALID_RESET_ID n \<longleftrightarrow> n \<le> SH2E_INTC_MANUAL_RESET_OFFSET"

definition SH2E_INTC_VALID_IRQ_SOURCE_ID :: "nat \<Rightarrow> bool" where
  "SH2E_INTC_VALID_IRQ_SOURCE_ID n \<longleftrightarrow> n \<ge> SH2E_INTC_IRQ_VECTOR_ADDRESS_OFFSET \<and>
     n < SH2E_INTC_IRQ_VECTOR_ADDRESS_OFFSET + SH2E_INTC_IRQ_NUMBER_OF_SOURCES"

definition SH2E_INTC_VALID_SOURCE_ID :: "nat \<Rightarrow> bool" where
  "SH2E_INTC_VALID_SOURCE_ID n \<longleftrightarrow> SH2E_INTC_VALID_RESET_ID n \<or> n = SH2E_INTC_HUDI_VECTOR_ADDRESS_OFFSET \<or>
     n = SH2E_INTC_UBC_VECTOR_ADDRESS_OFFSET \<or> SH2E_INTC_VALID_IRQ_SOURCE_ID n \<or>
     (n \<ge> SH2E_INTC_IRQ_VECTOR_ADDRESS_OFFSET + SH2E_INTC_IRQ_NUMBER_OF_SOURCES \<and> n \<le> SH2E_INTC_SOURCE_MAX_VALUE)"

record sh2e_intc_source =
  priority_pool_index :: u8
  registered :: bool
  pending :: bool

record sh2e_intc =
  intc_regs_addr :: u64
  priority :: "u16 list"
  icr :: u16
  isr :: u16
  nmi_prev_value :: u16
  sources :: "nat \<Rightarrow> sh2e_intc_source"
  interrupt_out :: u8
  priority_out :: u32
  accepted_interrupts :: u32
  accepted_resets :: u32
  intc_id :: nat

text \<open>The bit fields of \<open>icr\<close>: the four reserved bits put \<open>nmil\<close> at bit 13.\<close>

definition icr_nmie :: "sh2e_intc \<Rightarrow> bool" where "icr_nmie ic = bit (icr ic) 8"
definition icr_nmil :: "sh2e_intc \<Rightarrow> bool" where "icr_nmil ic = bit (icr ic) 13"

definition set_source :: "nat \<Rightarrow> (sh2e_intc_source \<Rightarrow> sh2e_intc_source) \<Rightarrow> sh2e_intc \<Rightarrow> sh2e_intc" where
  "set_source n f ic = ic\<lparr>sources := (sources ic)(n := f (sources ic n))\<rparr>"

subsection \<open>Registers and initialisation\<close>

definition sh2e_intc_priority_register_read :: "sh2e_intc \<Rightarrow> nat \<Rightarrow> u16 option" where
  "sh2e_intc_priority_register_read ic index = do {
     ASSERT (index < SH2E_INTC_IPR_REGISTERS_COUNT);
     Some (priority ic ! index)
   }"

definition sh2e_intc_priority_register_write :: "sh2e_intc \<Rightarrow> nat \<Rightarrow> u16 \<Rightarrow> sh2e_intc option" where
  "sh2e_intc_priority_register_write ic index value = do {
     ASSERT (index < SH2E_INTC_IPR_REGISTERS_COUNT);
     Some (ic\<lparr>priority := (priority ic)[index := value]\<rparr>)
   }"

definition sh2e_intc_init_regs :: "sh2e_intc \<Rightarrow> sh2e_intc" where
  "sh2e_intc_init_regs ic = ic\<lparr>priority := replicate SH2E_INTC_IPR_REGISTERS_COUNT 0, icr := 0, isr := 0\<rparr>"

definition sh2e_intc_init :: "nat \<Rightarrow> u64 \<Rightarrow> sh2e_intc" where
  "sh2e_intc_init n regs_addr = sh2e_intc_init_regs
     \<lparr>intc_regs_addr = regs_addr, priority = replicate SH2E_INTC_IPR_REGISTERS_COUNT 0, icr = 0, isr = 0, nmi_prev_value = 0,
      sources = (\<lambda>_. \<lparr>priority_pool_index = 0, registered = False, pending = False\<rparr>),
      interrupt_out = 0, priority_out = 0, accepted_interrupts = 0, accepted_resets = 0, intc_id = n\<rparr>"

definition sh2e_intc_add_interrupt_source :: "sh2e_intc \<Rightarrow> u8 \<Rightarrow> u8 \<Rightarrow> u8 \<Rightarrow> sh2e_intc option" where
  "sh2e_intc_add_interrupt_source ic source_id pool_index prio = do {
     let n = unat source_id;
     ASSERT (SH2E_INTC_VALID_SOURCE_ID n);
     ASSERT (unat pool_index < SH2E_INTC_IPR_HALF_BYTES_LENGTH);
     ASSERT (unat prio \<le> SH2E_INTC_PRIORITY_MAX_VALUE);
     ASSERT (\<not> registered (sources ic n));
     let ic1 = set_source n (\<lambda>_. \<lparr>priority_pool_index = pool_index, registered = True, pending = False\<rparr>) ic;
     Some (if \<not> SH2E_INTC_VALID_RESET_ID n then
             (let shift = (3 - unat pool_index mod 4) * 4; i = unat pool_index div 4; v = priority ic1 ! i
              in ic1\<lparr>priority := (priority ic1)[i := (v AND NOT (push_bit shift 0xF)) OR push_bit shift (ucast prio AND 0xF)]\<rparr>)
           else ic1)
   }"

subsection \<open>Pending interrupts\<close>

definition sh2e_check_nmi_interrupt :: "sh2e_intc \<Rightarrow> bool" where
  "sh2e_check_nmi_interrupt ic =
     (if icr_nmie ic then nmi_prev_value ic = 0 \<and> icr_nmil ic else nmi_prev_value ic \<noteq> 0 \<and> \<not> icr_nmil ic)"

definition sh2e_check_nmi_and_update_nmi_prev_value :: "sh2e_intc \<Rightarrow> bool \<times> sh2e_intc" where
  "sh2e_check_nmi_and_update_nmi_prev_value ic =
     (sh2e_check_nmi_interrupt ic, ic\<lparr>nmi_prev_value := (if icr_nmil ic then 1 else 0)\<rparr>)"

definition sh2e_check_irq_interrupt :: "sh2e_intc \<Rightarrow> nat \<Rightarrow> bool option" where
  "sh2e_check_irq_interrupt ic irq_index = do {
     ASSERT (irq_index < SH2E_INTC_IRQ_NUMBER_OF_SOURCES);
     Some (bit (isr ic) (7 - irq_index))
   }"

definition sh2e_assert_irq_interrupt :: "sh2e_intc \<Rightarrow> nat \<Rightarrow> sh2e_intc option" where
  "sh2e_assert_irq_interrupt ic irq_index = do {
     ASSERT (irq_index < SH2E_INTC_IRQ_NUMBER_OF_SOURCES);
     Some (ic\<lparr>isr := isr ic OR push_bit (7 - irq_index) 1\<rparr>)
   }"

text \<open>An edge-sensitive request is cleared, a level-sensitive one stays.\<close>

definition sh2e_clear_irq_interrupt :: "sh2e_intc \<Rightarrow> nat \<Rightarrow> sh2e_intc option" where
  "sh2e_clear_irq_interrupt ic irq_index = do {
     ASSERT (irq_index < SH2E_INTC_IRQ_NUMBER_OF_SOURCES);
     Some (if bit (icr ic) (7 - irq_index) then ic\<lparr>isr := isr ic AND NOT (push_bit (7 - irq_index) 1)\<rparr> else ic)
   }"

definition sh2e_get_priority :: "sh2e_intc \<Rightarrow> sh2e_intc_source \<Rightarrow> u8 option" where
  "sh2e_get_priority ic src = do {
     let reg_index = unat (priority_pool_index src) div 4;
     let shift = (3 - unat (priority_pool_index src) mod 4) * 4;
     ASSERT (reg_index < SH2E_INTC_IPR_REGISTERS_COUNT);
     Some (ucast (drop_bit shift (priority ic ! reg_index) AND 0x0F))
   }"

definition source_pending :: "sh2e_intc \<Rightarrow> nat \<Rightarrow> bool option" where
  "source_pending ic i =
     (if SH2E_INTC_VALID_IRQ_SOURCE_ID i then sh2e_check_irq_interrupt ic (i - SH2E_INTC_IRQ_VECTOR_ADDRESS_OFFSET)
      else Some (pending (sources ic i)))"

text \<open>The loop over the sources, with the best source and priority so far.\<close>

fun scan_sources :: "sh2e_intc \<Rightarrow> u8 \<Rightarrow> nat list \<Rightarrow> u8 \<Rightarrow> u32 \<Rightarrow> (u8 \<times> u32) option" where
  "scan_sources ic im [] source prio = Some (source, prio)"
| "scan_sources ic im (i # is) source prio =
     (if SH2E_INTC_VALID_SOURCE_ID i \<and> registered (sources ic i) then do {
        p \<leftarrow> source_pending ic i;
        (if p then do {
           curr8 \<leftarrow> sh2e_get_priority ic (sources ic i);
           let curr = ucast curr8;
           (if (curr > prio \<or> source = 0) \<and> curr > ucast im
            then scan_sources ic im is (of_nat i) curr
            else scan_sources ic im is source prio)
         } else scan_sources ic im is source prio)
      } else scan_sources ic im is source prio)"

text \<open>The result, the value that \<open>*interrupt_out\<close> has afterwards, and the controller.\<close>

definition sh2e_check_pending_interrupts :: "sh2e_intc \<Rightarrow> u8 \<Rightarrow> u8 \<Rightarrow> (bool \<times> u8 \<times> sh2e_intc) option" where
  "sh2e_check_pending_interrupts ic im out =
     (let (nmi, ic1) = sh2e_check_nmi_and_update_nmi_prev_value ic
      in if nmi then
           Some (True, out, ic1\<lparr>interrupt_out := of_nat SH2E_INTC_NMI_VECTOR_ADDRESS_OFFSET,
                                priority_out := of_nat SH2E_INTC_PRIORITY_MAX_VALUE\<rparr>)
         else do {
           (source, prio) \<leftarrow> scan_sources ic1 im
             [SH2E_INTC_IRQ_VECTOR_ADDRESS_OFFSET + 1..<SH2E_INTC_SOURCE_MAX_VALUE] 0 0;
           Some (source \<noteq> 0, if source \<noteq> 0 then source else out, ic1\<lparr>priority_out := prio, interrupt_out := source\<rparr>)
         })"

definition reset_pending :: "sh2e_intc \<Rightarrow> nat \<Rightarrow> bool" where
  "reset_pending ic n \<longleftrightarrow> registered (sources ic n) \<and> pending (sources ic n)"

definition sh2e_check_pending_resets :: "sh2e_intc \<Rightarrow> nat option" where
  "sh2e_check_pending_resets ic =
     (if reset_pending ic SH2E_INTC_POWER_ON_RESET_EXTERNAL_OFFSET then Some SH2E_INTC_POWER_ON_RESET_EXTERNAL_OFFSET
      else if reset_pending ic SH2E_INTC_POWER_ON_RESET_INTERNAL_OFFSET then Some SH2E_INTC_POWER_ON_RESET_INTERNAL_OFFSET
      else if reset_pending ic SH2E_INTC_MANUAL_RESET_OFFSET then Some SH2E_INTC_MANUAL_RESET_OFFSET
      else None)"

definition sh2e_accept_interrupt :: "sh2e_intc \<Rightarrow> (u32 \<times> sh2e_intc) option" where
  "sh2e_accept_interrupt ic = do {
     let new_mask = priority_out ic;
     let ic1 = ic\<lparr>priority_out := 0\<rparr>;
     let n = unat (interrupt_out ic1);
     ic2 \<leftarrow> (if SH2E_INTC_VALID_IRQ_SOURCE_ID n
             then sh2e_clear_irq_interrupt ic1 (n - SH2E_INTC_IRQ_VECTOR_ADDRESS_OFFSET)
             else Some ((set_source n (\<lambda>x. x\<lparr>pending := False\<rparr>) ic1)\<lparr>interrupt_out := 0\<rparr>));
     Some (new_mask, ic2\<lparr>accepted_interrupts := accepted_interrupts ic2 + 1\<rparr>)
   }"

definition sh2e_accept_reset :: "sh2e_intc \<Rightarrow> sh2e_intc" where
  "sh2e_accept_reset ic =
     (let off = (\<lambda>x. x\<lparr>pending := False\<rparr>);
          ic1 = set_source SH2E_INTC_MANUAL_RESET_OFFSET off (set_source SH2E_INTC_POWER_ON_RESET_INTERNAL_OFFSET off
            (set_source SH2E_INTC_POWER_ON_RESET_EXTERNAL_OFFSET off ic))
      in ic1\<lparr>accepted_resets := accepted_resets ic1 + 1\<rparr>)"

definition sh2e_intc_assert_interrupt :: "sh2e_intc \<Rightarrow> nat \<Rightarrow> sh2e_intc option" where
  "sh2e_intc_assert_interrupt ic num = do {
     ASSERT (SH2E_INTC_VALID_SOURCE_ID num);
     ASSERT (registered (sources ic num));
     (if SH2E_INTC_VALID_IRQ_SOURCE_ID num then sh2e_assert_irq_interrupt ic (num - SH2E_INTC_IRQ_VECTOR_ADDRESS_OFFSET)
      else Some (set_source num (\<lambda>x. x\<lparr>pending := True\<rparr>) ic))
   }"

definition sh2e_intc_deassert_interrupt :: "sh2e_intc \<Rightarrow> nat \<Rightarrow> sh2e_intc option" where
  "sh2e_intc_deassert_interrupt ic num = do {
     ASSERT (SH2E_INTC_VALID_SOURCE_ID num);
     ASSERT (registered (sources ic num));
     (if SH2E_INTC_VALID_IRQ_SOURCE_ID num then sh2e_clear_irq_interrupt ic (num - SH2E_INTC_IRQ_VECTOR_ADDRESS_OFFSET)
      else Some (set_source num (\<lambda>x. x\<lparr>pending := False\<rparr>) ic))
   }"

subsection \<open>The device\<close>

text \<open>
  The numbers of controllers of \<open>intc/general_intc.c\<close>: the list of controllers is the list of their
  numbers.
\<close>

abbreviation (input) MAX_INTCS :: nat where "MAX_INTCS \<equiv> 32"

fun intc_id_mask :: "nat list \<Rightarrow> u32 \<Rightarrow> u32 option" where
  "intc_id_mask [] id_mask = Some id_mask"
| "intc_id_mask (no # nos) id_mask = (if no < 32 then intc_id_mask nos (id_mask OR push_bit no 1) else None)"

definition get_free_intcno :: "nat list \<Rightarrow> nat option" where
  "get_free_intcno nos = do {
     id_mask \<leftarrow> intc_id_mask nos 0;
     Some (first_clear MAX_INTCS 0 id_mask)
   }"

definition dsh2eintc_cmd_init :: "nat list \<Rightarrow> u64 option \<Rightarrow> (cmd_error + sh2e_intc) option" where
  "dsh2eintc_cmd_init nos parm = do {
     n \<leftarrow> get_free_intcno nos;
     Some (if n = MAX_INTCS then Inl Too_many_controllers
           else (case check_block ((12 + 2) * 2) (case parm of None \<Rightarrow> 0xFFFFED00 | Some addr \<Rightarrow> addr) of
                   Inl e \<Rightarrow> Inl e
                 | Inr addr \<Rightarrow> Inr (sh2e_intc_init n addr)))
   }"

definition dsh2eintc_cmd_add_interrupt_source :: "u64 \<Rightarrow> u64 \<Rightarrow> u64 \<Rightarrow> sh2e_intc \<Rightarrow> sh2e_intc option" where
  "dsh2eintc_cmd_add_interrupt_source source_id pool_index prio ic =
     sh2e_intc_add_interrupt_source ic (ucast (ucast source_id :: u16)) (ucast pool_index) (ucast (ucast prio :: u32))"

definition dsh2eintc_read16 :: "(sh2e_intc, u16) dev_read" where
  "dsh2eintc_read16 procno ic addr val = (let off = addr - intc_regs_addr ic in
     (if off < 0x18 \<and> off AND 1 = 0 then do {
        v \<leftarrow> sh2e_intc_priority_register_read ic (unat off div 2);
        Some (be16toh v, ic, [])
      } else if off = 0x18 then Some (be16toh (icr ic), ic, [])
      else if off = 0x1A then Some (be16toh (isr ic), ic, [])
      else Some (val, ic, [])))"

definition dsh2eintc_write16 :: "(sh2e_intc, u16) dev_write" where
  "dsh2eintc_write16 procno ic addr val = (let off = addr - intc_regs_addr ic; be_val = be16toh val in
     (if off < 0x18 \<and> off AND 1 = 0 then do {
        ic1 \<leftarrow> sh2e_intc_priority_register_write ic (unat off div 2) be_val;
        Some (ic1, [])
      } else if off = 0x18 then Some (ic\<lparr>icr := be_val\<rparr>, [])
      else if off = 0x1A then Some (ic\<lparr>isr := be_val\<rparr>, [])
      else Some (ic, [])))"

end
