(* ===== verification/Sh2e_Types.thy ===== *)
theory Sh2e_Types
  imports Sh2e_Intc
begin

text \<open>
  The data of the SuperH SH-2E processor: \<open>superh_sh2e/cpu.h\<close>, the instruction formats of
  \<open>superh_sh2e/insn.h\<close> and the bit operations of \<open>superh_sh2e/bitops.h\<close>.

  A register number is a four-bit field of the instruction, so that the register files are
  functions on four-bit words. A floating-point register holds the bits of its value. The
  structures of bit fields are words with accessors for the fields. The interrupt controller that
  \<open>intc\<close> points to is held in the processor; \<open>None\<close> is a machine without a controller. The on-chip
  peripherals are numbers of devices.
\<close>

subsection \<open>Enumerations\<close>

datatype sh2e_branch_state =
    SH2E_BRANCH_STATE_NONE | SH2E_BRANCH_STATE_DELAY_NEXT | SH2E_BRANCH_STATE_DELAY | SH2E_BRANCH_STATE_EXECUTE

datatype sh2e_processing_state =
    SH2E_PSTATE_RESET | SH2E_PSTATE_EXCEPTION_PROCESSING | SH2E_PSTATE_BUS_RELEASE
  | SH2E_PSTATE_PROGRAM_EXECUTION | SH2E_PSTATE_POWER_DOWN

datatype sh2e_exception =
    SH2E_EXCEPTION_CPU_ADDRESS_ERROR | SH2E_EXCEPTION_DMAC_ADDRESS_ERROR | SH2E_EXCEPTION_ILLEGAL_INSTRUCTION
  | SH2E_EXCEPTION_ILLEGAL_SLOT_INSTRUCTION | SH2E_EXCEPTION_FPU_OPERATION | SH2E_EXCEPTION_NONE

datatype sh2e_reset_req =
    SH2E_RESET_REQ_NONE | SH2E_POWER_ON_RESET_INITIAL | SH2E_POWER_ON_RESET_REQ_INTERNAL
  | SH2E_POWER_ON_RESET_REQ_EXTERNAL | SH2E_MANUAL_RESET_REQ

subsection \<open>The processor\<close>

type_synonym reg4 = "4 word"

record sh2e_cpu =
  sh_general :: "reg4 \<Rightarrow> u32"
  sh_sr :: u32
  sh_gbr :: u32
  sh_vbr :: u32
  sh_mach :: u32
  sh_macl :: u32
  sh_pr :: u32
  sh_pc :: u32
  sh_fr :: "reg4 \<Rightarrow> u32"
  sh_fpu_rsv0 :: u32
  sh_fpul :: u32
  sh_fpscr :: u32
  sh_fpu_rsv3 :: u32
  pc_target :: u32
  pr_state :: sh2e_processing_state
  br_state :: sh2e_branch_state
  sh_id :: nat
  program_execution_cycles :: u64
  power_down_cycles :: u64
  intc :: "sh2e_intc option"
  disable_interrupts :: bool
  disable_address_errors :: bool
  insn_exception :: sh2e_exception
  pending_interrupt :: u8
  pending_address_error :: sh2e_exception
  reset_req :: sh2e_reset_req
  on_chip_peripherals :: "nat list"

definition set_gr :: "reg4 \<Rightarrow> u32 \<Rightarrow> sh2e_cpu \<Rightarrow> sh2e_cpu" where
  "set_gr i v cpu = cpu\<lparr>sh_general := (sh_general cpu)(i := v)\<rparr>"

definition set_fr :: "reg4 \<Rightarrow> u32 \<Rightarrow> sh2e_cpu \<Rightarrow> sh2e_cpu" where
  "set_fr i v cpu = cpu\<lparr>sh_fr := (sh_fr cpu)(i := v)\<rparr>"

text \<open>The stack pointer is general register 15.\<close>

abbreviation sh_sp :: "sh2e_cpu \<Rightarrow> u32" where "sh_sp cpu \<equiv> sh_general cpu 15"

text \<open>The arrays \<open>control\<close> and \<open>system\<close> that overlay the registers; an index outside them is undefined.\<close>

definition control_reg :: "sh2e_cpu \<Rightarrow> nat \<Rightarrow> u32 option" where
  "control_reg cpu i = (if i = 0 then Some (sh_sr cpu) else if i = 1 then Some (sh_gbr cpu)
     else if i = 2 then Some (sh_vbr cpu) else None)"

definition system_reg :: "sh2e_cpu \<Rightarrow> nat \<Rightarrow> u32 option" where
  "system_reg cpu i = (if i = 0 then Some (sh_mach cpu) else if i = 1 then Some (sh_macl cpu)
     else if i = 2 then Some (sh_pr cpu) else if i = 3 then Some (sh_pc cpu) else None)"

definition fpu_system_reg :: "sh2e_cpu \<Rightarrow> nat \<Rightarrow> u32 option" where
  "fpu_system_reg cpu i = (if i = 0 then Some (sh_fpu_rsv0 cpu) else if i = 1 then Some (sh_fpul cpu)
     else if i = 2 then Some (sh_fpscr cpu) else if i = 3 then Some (sh_fpu_rsv3 cpu) else None)"

subsection \<open>Bit fields of the status registers\<close>

definition put_bit :: "nat \<Rightarrow> bool \<Rightarrow> u32 \<Rightarrow> u32" where
  "put_bit n b w = (if b then w OR push_bit n 1 else w AND NOT (push_bit n 1))"

definition sr_t :: "sh2e_cpu \<Rightarrow> bool" where "sr_t cpu = bit (sh_sr cpu) 0"
definition sr_s :: "sh2e_cpu \<Rightarrow> bool" where "sr_s cpu = bit (sh_sr cpu) 1"
definition sr_im :: "sh2e_cpu \<Rightarrow> u8" where "sr_im cpu = ucast (drop_bit 4 (sh_sr cpu) AND 0xF)"
definition sr_q :: "sh2e_cpu \<Rightarrow> bool" where "sr_q cpu = bit (sh_sr cpu) 8"
definition sr_m :: "sh2e_cpu \<Rightarrow> bool" where "sr_m cpu = bit (sh_sr cpu) 9"

definition set_sr_t :: "bool \<Rightarrow> sh2e_cpu \<Rightarrow> sh2e_cpu" where
  "set_sr_t b cpu = cpu\<lparr>sh_sr := put_bit 0 b (sh_sr cpu)\<rparr>"

definition set_sr_q :: "bool \<Rightarrow> sh2e_cpu \<Rightarrow> sh2e_cpu" where
  "set_sr_q b cpu = cpu\<lparr>sh_sr := put_bit 8 b (sh_sr cpu)\<rparr>"

definition set_sr_m :: "bool \<Rightarrow> sh2e_cpu \<Rightarrow> sh2e_cpu" where
  "set_sr_m b cpu = cpu\<lparr>sh_sr := put_bit 9 b (sh_sr cpu)\<rparr>"

definition set_sr_im :: "u32 \<Rightarrow> sh2e_cpu \<Rightarrow> sh2e_cpu" where
  "set_sr_im v cpu = cpu\<lparr>sh_sr := (sh_sr cpu AND NOT 0xF0) OR push_bit 4 (v AND 0xF)\<rparr>"

text \<open>The fields of \<open>fpscr\<close> that the code uses: flags, enable bits and causes of two exceptions.\<close>

abbreviation (input) FPSCR_FZ :: nat where "FPSCR_FZ \<equiv> 5"
abbreviation (input) FPSCR_FV :: nat where "FPSCR_FV \<equiv> 6"
abbreviation (input) FPSCR_EZ :: nat where "FPSCR_EZ \<equiv> 10"
abbreviation (input) FPSCR_EV :: nat where "FPSCR_EV \<equiv> 11"
abbreviation (input) FPSCR_CZ :: nat where "FPSCR_CZ \<equiv> 15"
abbreviation (input) FPSCR_CV :: nat where "FPSCR_CV \<equiv> 16"

definition fpscr_bit :: "nat \<Rightarrow> sh2e_cpu \<Rightarrow> bool" where
  "fpscr_bit n cpu = bit (sh_fpscr cpu) n"

definition set_fpscr_bit :: "nat \<Rightarrow> bool \<Rightarrow> sh2e_cpu \<Rightarrow> sh2e_cpu" where
  "set_fpscr_bit n b cpu = cpu\<lparr>sh_fpscr := put_bit n b (sh_fpscr cpu)\<rparr>"

subsection \<open>Instruction fields\<close>

type_synonym sh2e_insn = u16

text \<open>
  Register fields in bits 11 to 8 (\<open>rn\<close> of the n, nm, nmd, nd8 and ni formats, \<open>rm\<close> of the m format)
  and in bits 7 to 4 (\<open>rm\<close> of the nm, nmd and md formats, \<open>rn\<close> of the nd4 format).
\<close>

definition insn_r_hi :: "sh2e_insn \<Rightarrow> reg4" where "insn_r_hi w = ucast (drop_bit 8 w)"
definition insn_r_lo :: "sh2e_insn \<Rightarrow> reg4" where "insn_r_lo w = ucast (drop_bit 4 w)"

definition insn_d4 :: "sh2e_insn \<Rightarrow> u32" where "insn_d4 w = ucast (w AND 0xF)"
definition insn_d8 :: "sh2e_insn \<Rightarrow> u32" where "insn_d8 w = ucast (w AND 0xFF)"
definition insn_d12 :: "sh2e_insn \<Rightarrow> u32" where "insn_d12 w = ucast (w AND 0xFFF)"

definition insn_ic_h :: "sh2e_insn \<Rightarrow> u16" where "insn_ic_h w = drop_bit 12 w"
definition insn_ic_l4 :: "sh2e_insn \<Rightarrow> u16" where "insn_ic_l4 w = w AND 0xF"
definition insn_ic_l8 :: "sh2e_insn \<Rightarrow> u16" where "insn_ic_l8 w = w AND 0xFF"
definition insn_ic_h8 :: "sh2e_insn \<Rightarrow> u16" where "insn_ic_h8 w = drop_bit 8 w"

subsection \<open>Extensions and rotations\<close>

definition sign_extend_8_32 :: "u32 \<Rightarrow> u32" where "sign_extend_8_32 v = scast (ucast v :: 8 word)"
definition sign_extend_12_32 :: "u32 \<Rightarrow> u32" where
  "sign_extend_12_32 v = scast (signed_drop_bit 4 (ucast (push_bit 4 v) :: 16 word))"
definition sign_extend_16_32 :: "u32 \<Rightarrow> u32" where "sign_extend_16_32 v = scast (ucast v :: 16 word)"
definition sign_extend_32_32 :: "u32 \<Rightarrow> u32" where "sign_extend_32_32 v = v"
definition zero_extend_4_32 :: "u32 \<Rightarrow> u32" where
  "zero_extend_4_32 v = ucast (drop_bit 4 (ucast (push_bit 4 v) :: 8 word))"
definition zero_extend_8_32 :: "u32 \<Rightarrow> u32" where "zero_extend_8_32 v = ucast (ucast v :: 8 word)"
definition zero_extend_16_32 :: "u32 \<Rightarrow> u32" where "zero_extend_16_32 v = ucast (ucast v :: 16 word)"

definition bit_value_msb :: "u32 \<Rightarrow> bool" where "bit_value_msb v = bit v 31"
definition bit_value_lsb :: "u32 \<Rightarrow> bool" where "bit_value_lsb v = bit v 0"

definition rotate_left :: "u32 \<Rightarrow> nat \<Rightarrow> u32" where
  "rotate_left v n = push_bit n v OR drop_bit (32 - n) v"
definition rotate_right :: "u32 \<Rightarrow> nat \<Rightarrow> u32" where
  "rotate_right v n = push_bit (32 - n) v OR drop_bit n v"

definition get_upper_32_bits_from_64 :: "u64 \<Rightarrow> u32" where "get_upper_32_bits_from_64 v = ucast (drop_bit 32 v)"
definition get_lower_32_bits_from_64 :: "u64 \<Rightarrow> u32" where "get_lower_32_bits_from_64 v = ucast (v AND 0xFFFFFFFF)"
definition get_lower_48_bits_from_64 :: "u64 \<Rightarrow> u64" where "get_lower_48_bits_from_64 v = v AND 0x0000FFFFFFFFFFFF"

lemma set_gr_simps [simp]:
  "sh_general (set_gr i v cpu) = (sh_general cpu)(i := v)" "sh_sr (set_gr i v cpu) = sh_sr cpu"
  "sh_pc (set_gr i v cpu) = sh_pc cpu" "sh_mach (set_gr i v cpu) = sh_mach cpu" "sh_macl (set_gr i v cpu) = sh_macl cpu"
  "sh_gbr (set_gr i v cpu) = sh_gbr cpu" "sh_vbr (set_gr i v cpu) = sh_vbr cpu" "sh_pr (set_gr i v cpu) = sh_pr cpu"
  "sh_id (set_gr i v cpu) = sh_id cpu" "br_state (set_gr i v cpu) = br_state cpu" "pr_state (set_gr i v cpu) = pr_state cpu"
  "pc_target (set_gr i v cpu) = pc_target cpu" "intc (set_gr i v cpu) = intc cpu"
  "sr_t (set_gr i v cpu) = sr_t cpu" "sr_q (set_gr i v cpu) = sr_q cpu" "sr_m (set_gr i v cpu) = sr_m cpu"
  by (simp_all add: set_gr_def sr_t_def sr_q_def sr_m_def)

lemma put_bit_bit [simp]: "n < 32 \<Longrightarrow> bit (put_bit n b w) k \<longleftrightarrow> (if k = n then b else bit w k)"
  by (auto simp: put_bit_def bit_simps dest: bit_imp_le_length)

lemma set_sr_simps [simp]:
  "sr_t (set_sr_t b cpu) = b" "sr_q (set_sr_t b cpu) = sr_q cpu" "sr_m (set_sr_t b cpu) = sr_m cpu"
  "sr_t (set_sr_q b cpu) = sr_t cpu" "sr_q (set_sr_q b cpu) = b" "sr_m (set_sr_q b cpu) = sr_m cpu"
  "sr_t (set_sr_m b cpu) = sr_t cpu" "sr_q (set_sr_m b cpu) = sr_q cpu" "sr_m (set_sr_m b cpu) = b"
  "sh_general (set_sr_t b cpu) = sh_general cpu" "sh_general (set_sr_q b cpu) = sh_general cpu"
  "sh_general (set_sr_m b cpu) = sh_general cpu"
  by (simp_all add: set_sr_t_def set_sr_q_def set_sr_m_def sr_t_def sr_q_def sr_m_def)

lemma extend_field_simps [simp]:
  "sign_extend_12_32 v = scast (ucast v :: 12 word)" "zero_extend_4_32 v = v AND 0xF"
  "zero_extend_8_32 v = v AND 0xFF" "zero_extend_16_32 v = v AND 0xFFFF"
proof -
  show "sign_extend_12_32 v = scast (ucast v :: 12 word)"
  proof (rule bit_word_eqI)
    fix n :: nat
    consider "n < 11" | "n = 11" | "12 \<le> n" by linarith
    then show "bit (sign_extend_12_32 v) n \<longleftrightarrow> bit (scast (ucast v :: 12 word) :: u32) n"
      by cases (auto simp: sign_extend_12_32_def bit_simps min_def)
  qed
  have m: "(0xF :: u32) = mask 4" "(0xFF :: u32) = mask 8" "(0xFFFF :: u32) = mask 16" by (simp_all add: mask_eq_decr_exp)
  show "zero_extend_4_32 v = v AND 0xF" "zero_extend_8_32 v = v AND 0xFF" "zero_extend_16_32 v = v AND 0xFFFF"
    unfolding m by (rule bit_word_eqI, auto simp: zero_extend_4_32_def zero_extend_8_32_def zero_extend_16_32_def bit_simps)+
qed

end
