(* ===== verification/Sh2e_Decode.thy ===== *)
theory Sh2e_Decode
  imports Sh2e_Types
begin

text \<open>
  The instruction decoder of the SH-2E, \<open>superh_sh2e/decode.c\<close>. A descriptor names the function
  that executes the instruction, its cycles, and whether interrupts and address errors are put off
  until the next instruction; the texts for disassembly are left out. The tables are those of the
  source, one function per instruction format, the large ones split at the tables of the hardware
  manual that the source refers to. Pointers to instruction functions are values of \<open>sh2e_exec_fn\<close>.
\<close>

subsection \<open>Instruction functions\<close>

datatype fn_Z =
    Exec_illegal | Exec_clrt | Exec_nop | Exec_rts | Exec_sett | Exec_div0u | Exec_sleep | Exec_clrmac | Exec_rte
  | Exec_halt | Exec_cpu_reg_dump | Exec_fpu_reg_dump

datatype fn_N =
    Exec_cmppl | Exec_cmppz | Exec_dt | Exec_movt | Exec_rotl | Exec_rotr | Exec_rotcl | Exec_rotcr | Exec_shal
  | Exec_shar | Exec_shll | Exec_shlr | Exec_shll2 | Exec_shll8 | Exec_shll16 | Exec_shlr2 | Exec_shlr8 | Exec_shlr16
  | Exec_stc_cpu | Exec_sts_fpu | Exec_sts_cpu | Exec_tas | Exec_stcm_cpu | Exec_stsm_fpu | Exec_stsm_cpu

datatype fn_M =
    Exec_ldc_sr | Exec_ldc_gbr | Exec_ldc_vbr | Exec_lds_fpul | Exec_lds_fpscr | Exec_lds_mach | Exec_lds_macl | Exec_lds_pr | Exec_jmp
  | Exec_jsr | Exec_ldcl_sr | Exec_ldcl_gbr | Exec_ldcl_vbr | Exec_ldsl_fpul | Exec_ldsl_fpscr | Exec_ldsl_mach | Exec_ldsl_macl | Exec_ldsl_pr
  | Exec_braf | Exec_bsrf

datatype fn_A =
    Exec_add | Exec_addc | Exec_addv | Exec_and | Exec_cmpeq | Exec_cmphs | Exec_cmpge | Exec_cmphi | Exec_cmpgt
  | Exec_cmpstr | Exec_div1 | Exec_div0s | Exec_dmulsl | Exec_dmulul | Exec_extsb | Exec_extsw | Exec_extub | Exec_extuw
  | Exec_mov | Exec_mull | Exec_mulsw | Exec_muluw | Exec_neg | Exec_negc | Exec_not | Exec_or | Exec_sub
  | Exec_subc | Exec_subv | Exec_swapb | Exec_swapw | Exec_tst | Exec_xor | Exec_xtrct

datatype fn_X =
    Exec_movbs | Exec_movws | Exec_movls | Exec_movbl | Exec_movwl | Exec_movll | Exec_macl | Exec_macw | Exec_movbp
  | Exec_movwp | Exec_movlp | Exec_movbm | Exec_movwm | Exec_movlm | Exec_movbs0 | Exec_movws0 | Exec_movls0 | Exec_movbl0
  | Exec_movwl0 | Exec_movll0

datatype fn_F =
    Exec_fsts | Exec_float | Exec_fneg | Exec_fabs | Exec_fldi0 | Exec_fldi1 | Exec_flds | Exec_ftrc | Exec_fadd
  | Exec_fcmpeq | Exec_fcmpgt | Exec_fdiv | Exec_fmac | Exec_fmov | Exec_fmovli | Exec_fmovlr | Exec_fmovl | Exec_fmovsi
  | Exec_fmovss | Exec_fmovs | Exec_fmul | Exec_fsub

datatype fn_D =
    Exec_movbl4 | Exec_movwl4 | Exec_movbs4 | Exec_movws4 | Exec_movls4 | Exec_movll4 | Exec_movblg | Exec_movwlg | Exec_movllg
  | Exec_movbsg | Exec_movwsg | Exec_movlsg | Exec_mova | Exec_bf | Exec_bfs | Exec_bt | Exec_bts | Exec_bra
  | Exec_bsr | Exec_movwi | Exec_movli

datatype fn_I =
    Exec_tstm | Exec_andm | Exec_xorm | Exec_orm | Exec_cmpim | Exec_tsti | Exec_andi | Exec_xori | Exec_ori
  | Exec_trapa | Exec_addi | Exec_movi

datatype sh2e_exec_fn =
    Fn_Z fn_Z | Fn_N fn_N | Fn_M fn_M | Fn_A fn_A | Fn_X fn_X | Fn_F fn_F | Fn_D fn_D | Fn_I fn_I

record sh2e_insn_desc =
  exec :: sh2e_exec_fn
  cycles :: nat
  desc_disable_interrupts :: bool
  desc_disable_address_errors :: bool

definition insn_desc :: "sh2e_exec_fn \<Rightarrow> nat \<Rightarrow> bool \<Rightarrow> bool \<Rightarrow> sh2e_insn_desc" where
  "insn_desc f n i a = \<lparr>exec = f, cycles = n, desc_disable_interrupts = i, desc_disable_address_errors = a\<rparr>"

definition illegal :: sh2e_insn_desc where
  "illegal = insn_desc (Fn_Z Exec_illegal) 1 False False"

text \<open>The first descriptor that is not null.\<close>

definition or_else :: "'a option \<Rightarrow> 'a option \<Rightarrow> 'a option" where
  "or_else x y = (case x of Some v \<Rightarrow> Some v | None \<Rightarrow> y)"

subsection \<open>The tables\<close>

definition sh2e_insn_decode_z_format :: "sh2e_insn \<Rightarrow> sh2e_insn_desc option" where
  "sh2e_insn_decode_z_format w =
     (let ic = w in
      if ic = 0x0008 then Some (insn_desc (Fn_Z Exec_clrt) 1 False False)
      else if ic = 0x0009 then Some (insn_desc (Fn_Z Exec_nop) 1 False False)
      else if ic = 0x000B then Some (insn_desc (Fn_Z Exec_rts) 2 True True)
      else if ic = 0x0018 then Some (insn_desc (Fn_Z Exec_sett) 1 False False)
      else if ic = 0x0019 then Some (insn_desc (Fn_Z Exec_div0u) 1 False False)
      else if ic = 0x001B then Some (insn_desc (Fn_Z Exec_sleep) 3 False False)
      else if ic = 0x0028 then Some (insn_desc (Fn_Z Exec_clrmac) 1 False False)
      else if ic = 0x002B then Some (insn_desc (Fn_Z Exec_rte) 4 True True)
      else None)"

definition n_table_A26a :: "u16 \<Rightarrow> sh2e_insn_desc option" where
  "n_table_A26a ic =
     (if ic = 0x415 then Some (insn_desc (Fn_N Exec_cmppl) 1 False False)
      else if ic = 0x411 then Some (insn_desc (Fn_N Exec_cmppz) 1 False False)
      else if ic = 0x410 then Some (insn_desc (Fn_N Exec_dt) 1 False False)
      else if ic = 0x029 then Some (insn_desc (Fn_N Exec_movt) 1 False False)
      else if ic = 0x404 then Some (insn_desc (Fn_N Exec_rotl) 1 False False)
      else if ic = 0x405 then Some (insn_desc (Fn_N Exec_rotr) 1 False False)
      else if ic = 0x424 then Some (insn_desc (Fn_N Exec_rotcl) 1 False False)
      else if ic = 0x425 then Some (insn_desc (Fn_N Exec_rotcr) 1 False False)
      else if ic = 0x420 then Some (insn_desc (Fn_N Exec_shal) 1 False False)
      else None)"

definition n_table_A26b :: "u16 \<Rightarrow> sh2e_insn_desc option" where
  "n_table_A26b ic =
     (if ic = 0x421 then Some (insn_desc (Fn_N Exec_shar) 1 False False)
      else if ic = 0x400 then Some (insn_desc (Fn_N Exec_shll) 1 False False)
      else if ic = 0x401 then Some (insn_desc (Fn_N Exec_shlr) 1 False False)
      else if ic = 0x408 then Some (insn_desc (Fn_N Exec_shll2) 1 False False)
      else if ic = 0x418 then Some (insn_desc (Fn_N Exec_shll8) 1 False False)
      else if ic = 0x428 then Some (insn_desc (Fn_N Exec_shll16) 1 False False)
      else if ic = 0x409 then Some (insn_desc (Fn_N Exec_shlr2) 1 False False)
      else if ic = 0x419 then Some (insn_desc (Fn_N Exec_shlr8) 1 False False)
      else if ic = 0x429 then Some (insn_desc (Fn_N Exec_shlr16) 1 False False)
      else None)"

definition n_table_A27 :: "u16 \<Rightarrow> sh2e_insn_desc option" where
  "n_table_A27 ic =
     (if ic = 0x002 then Some (insn_desc (Fn_N Exec_stc_cpu) 1 True False)
      else if ic = 0x012 then Some (insn_desc (Fn_N Exec_stc_cpu) 1 True False)
      else if ic = 0x022 then Some (insn_desc (Fn_N Exec_stc_cpu) 1 True False)
      else if ic = 0x05A then Some (insn_desc (Fn_N Exec_sts_fpu) 1 False False)
      else if ic = 0x06A then Some (insn_desc (Fn_N Exec_sts_fpu) 1 False False)
      else if ic = 0x00A then Some (insn_desc (Fn_N Exec_sts_cpu) 1 True False)
      else if ic = 0x01A then Some (insn_desc (Fn_N Exec_sts_cpu) 1 True False)
      else if ic = 0x02A then Some (insn_desc (Fn_N Exec_sts_cpu) 1 True False)
      else None)"

definition n_table_A28 :: "u16 \<Rightarrow> sh2e_insn_desc option" where
  "n_table_A28 ic =
     (if ic = 0x41B then Some (insn_desc (Fn_N Exec_tas) 1 False False)
      else None)"

definition n_table_A29 :: "u16 \<Rightarrow> sh2e_insn_desc option" where
  "n_table_A29 ic =
     (if ic = 0x403 then Some (insn_desc (Fn_N Exec_stcm_cpu) 1 True False)
      else if ic = 0x413 then Some (insn_desc (Fn_N Exec_stcm_cpu) 1 True False)
      else if ic = 0x423 then Some (insn_desc (Fn_N Exec_stcm_cpu) 1 True False)
      else if ic = 0x452 then Some (insn_desc (Fn_N Exec_stsm_fpu) 1 False False)
      else if ic = 0x462 then Some (insn_desc (Fn_N Exec_stsm_fpu) 1 False False)
      else if ic = 0x402 then Some (insn_desc (Fn_N Exec_stsm_cpu) 1 True False)
      else if ic = 0x412 then Some (insn_desc (Fn_N Exec_stsm_cpu) 1 True False)
      else if ic = 0x422 then Some (insn_desc (Fn_N Exec_stsm_cpu) 1 True False)
      else None)"

definition sh2e_insn_decode_n_format :: "sh2e_insn \<Rightarrow> sh2e_insn_desc option" where
  "sh2e_insn_decode_n_format w =
     (let ic = push_bit 8 (insn_ic_h w) OR insn_ic_l8 w in
      or_else (n_table_A26a ic) (
      or_else (n_table_A26b ic) (
      or_else (n_table_A27 ic) (
      or_else (n_table_A28 ic) (
      n_table_A29 ic)))))"

definition sh2e_insn_decode_n_format_fpu :: "sh2e_insn \<Rightarrow> sh2e_insn_desc option" where
  "sh2e_insn_decode_n_format_fpu w =
     (let ic = insn_ic_l8 w in
      if ic = 0x0D then Some (insn_desc (Fn_F Exec_fsts) 1 False False)
      else if ic = 0x2D then Some (insn_desc (Fn_F Exec_float) 1 False False)
      else if ic = 0x4D then Some (insn_desc (Fn_F Exec_fneg) 1 False False)
      else if ic = 0x5D then Some (insn_desc (Fn_F Exec_fabs) 1 False False)
      else if ic = 0x8D then Some (insn_desc (Fn_F Exec_fldi0) 1 False False)
      else if ic = 0x9D then Some (insn_desc (Fn_F Exec_fldi1) 1 False False)
      else None)"

definition m_table_A31 :: "u16 \<Rightarrow> sh2e_insn_desc option" where
  "m_table_A31 ic =
     (if ic = 0x40E then Some (insn_desc (Fn_M Exec_ldc_sr) 1 True False)
      else if ic = 0x41E then Some (insn_desc (Fn_M Exec_ldc_gbr) 1 True False)
      else if ic = 0x42E then Some (insn_desc (Fn_M Exec_ldc_vbr) 1 True False)
      else if ic = 0x45A then Some (insn_desc (Fn_M Exec_lds_fpul) 1 False False)
      else if ic = 0x46A then Some (insn_desc (Fn_M Exec_lds_fpscr) 1 False False)
      else if ic = 0x40A then Some (insn_desc (Fn_M Exec_lds_mach) 1 True False)
      else if ic = 0x41A then Some (insn_desc (Fn_M Exec_lds_macl) 1 True False)
      else if ic = 0x42A then Some (insn_desc (Fn_M Exec_lds_pr) 1 True False)
      else None)"

definition m_table_A32 :: "u16 \<Rightarrow> sh2e_insn_desc option" where
  "m_table_A32 ic =
     (if ic = 0x42B then Some (insn_desc (Fn_M Exec_jmp) 2 True True)
      else if ic = 0x40B then Some (insn_desc (Fn_M Exec_jsr) 2 True True)
      else None)"

definition m_table_A33 :: "u16 \<Rightarrow> sh2e_insn_desc option" where
  "m_table_A33 ic =
     (if ic = 0x407 then Some (insn_desc (Fn_M Exec_ldcl_sr) 3 True False)
      else if ic = 0x417 then Some (insn_desc (Fn_M Exec_ldcl_gbr) 3 True False)
      else if ic = 0x427 then Some (insn_desc (Fn_M Exec_ldcl_vbr) 3 True False)
      else if ic = 0x456 then Some (insn_desc (Fn_M Exec_ldsl_fpul) 1 False False)
      else if ic = 0x466 then Some (insn_desc (Fn_M Exec_ldsl_fpscr) 1 False False)
      else if ic = 0x406 then Some (insn_desc (Fn_M Exec_ldsl_mach) 1 True False)
      else if ic = 0x416 then Some (insn_desc (Fn_M Exec_ldsl_macl) 1 True False)
      else if ic = 0x426 then Some (insn_desc (Fn_M Exec_ldsl_pr) 1 True False)
      else None)"

definition m_table_A34 :: "u16 \<Rightarrow> sh2e_insn_desc option" where
  "m_table_A34 ic =
     (if ic = 0x023 then Some (insn_desc (Fn_M Exec_braf) 2 True True)
      else if ic = 0x003 then Some (insn_desc (Fn_M Exec_bsrf) 2 True True)
      else None)"

definition sh2e_insn_decode_m_format :: "sh2e_insn \<Rightarrow> sh2e_insn_desc option" where
  "sh2e_insn_decode_m_format w =
     (let ic = push_bit 8 (insn_ic_h w) OR insn_ic_l8 w in
      or_else (m_table_A31 ic) (
      or_else (m_table_A32 ic) (
      or_else (m_table_A33 ic) (
      m_table_A34 ic))))"

definition sh2e_insn_decode_m_format_fpu :: "sh2e_insn \<Rightarrow> sh2e_insn_desc option" where
  "sh2e_insn_decode_m_format_fpu w =
     (let ic = insn_ic_l8 w in
      if ic = 0x1D then Some (insn_desc (Fn_F Exec_flds) 1 False False)
      else if ic = 0x3D then Some (insn_desc (Fn_F Exec_ftrc) 1 False False)
      else None)"

definition nm_table_A36a :: "u16 \<Rightarrow> sh2e_insn_desc option" where
  "nm_table_A36a ic =
     (if ic = 0x3C then Some (insn_desc (Fn_A Exec_add) 1 False False)
      else if ic = 0x3E then Some (insn_desc (Fn_A Exec_addc) 1 False False)
      else if ic = 0x3F then Some (insn_desc (Fn_A Exec_addv) 1 False False)
      else if ic = 0x29 then Some (insn_desc (Fn_A Exec_and) 1 False False)
      else if ic = 0x30 then Some (insn_desc (Fn_A Exec_cmpeq) 1 False False)
      else if ic = 0x32 then Some (insn_desc (Fn_A Exec_cmphs) 1 False False)
      else if ic = 0x33 then Some (insn_desc (Fn_A Exec_cmpge) 1 False False)
      else if ic = 0x36 then Some (insn_desc (Fn_A Exec_cmphi) 1 False False)
      else if ic = 0x37 then Some (insn_desc (Fn_A Exec_cmpgt) 1 False False)
      else if ic = 0x2C then Some (insn_desc (Fn_A Exec_cmpstr) 1 False False)
      else if ic = 0x34 then Some (insn_desc (Fn_A Exec_div1) 1 False False)
      else if ic = 0x27 then Some (insn_desc (Fn_A Exec_div0s) 1 False False)
      else None)"

definition nm_table_A36b :: "u16 \<Rightarrow> sh2e_insn_desc option" where
  "nm_table_A36b ic =
     (if ic = 0x3D then Some (insn_desc (Fn_A Exec_dmulsl) 2 False False)
      else if ic = 0x35 then Some (insn_desc (Fn_A Exec_dmulul) 2 False False)
      else if ic = 0x6E then Some (insn_desc (Fn_A Exec_extsb) 1 False False)
      else if ic = 0x6F then Some (insn_desc (Fn_A Exec_extsw) 1 False False)
      else if ic = 0x6C then Some (insn_desc (Fn_A Exec_extub) 1 False False)
      else if ic = 0x6D then Some (insn_desc (Fn_A Exec_extuw) 1 False False)
      else if ic = 0x63 then Some (insn_desc (Fn_A Exec_mov) 1 False False)
      else if ic = 0x07 then Some (insn_desc (Fn_A Exec_mull) 2 False False)
      else if ic = 0x2F then Some (insn_desc (Fn_A Exec_mulsw) 1 False False)
      else if ic = 0x2E then Some (insn_desc (Fn_A Exec_muluw) 1 False False)
      else if ic = 0x6B then Some (insn_desc (Fn_A Exec_neg) 1 False False)
      else if ic = 0x6A then Some (insn_desc (Fn_A Exec_negc) 1 False False)
      else None)"

definition nm_table_A36c :: "u16 \<Rightarrow> sh2e_insn_desc option" where
  "nm_table_A36c ic =
     (if ic = 0x67 then Some (insn_desc (Fn_A Exec_not) 1 False False)
      else if ic = 0x2B then Some (insn_desc (Fn_A Exec_or) 1 False False)
      else if ic = 0x38 then Some (insn_desc (Fn_A Exec_sub) 1 False False)
      else if ic = 0x3A then Some (insn_desc (Fn_A Exec_subc) 1 False False)
      else if ic = 0x3B then Some (insn_desc (Fn_A Exec_subv) 1 False False)
      else if ic = 0x68 then Some (insn_desc (Fn_A Exec_swapb) 1 False False)
      else if ic = 0x69 then Some (insn_desc (Fn_A Exec_swapw) 1 False False)
      else if ic = 0x28 then Some (insn_desc (Fn_A Exec_tst) 1 False False)
      else if ic = 0x2A then Some (insn_desc (Fn_A Exec_xor) 1 False False)
      else if ic = 0x2D then Some (insn_desc (Fn_A Exec_xtrct) 1 False False)
      else None)"

definition nm_table_A37 :: "u16 \<Rightarrow> sh2e_insn_desc option" where
  "nm_table_A37 ic =
     (if ic = 0x20 then Some (insn_desc (Fn_X Exec_movbs) 1 False False)
      else if ic = 0x21 then Some (insn_desc (Fn_X Exec_movws) 1 False False)
      else if ic = 0x22 then Some (insn_desc (Fn_X Exec_movls) 1 False False)
      else if ic = 0x60 then Some (insn_desc (Fn_X Exec_movbl) 1 False False)
      else if ic = 0x61 then Some (insn_desc (Fn_X Exec_movwl) 1 False False)
      else if ic = 0x62 then Some (insn_desc (Fn_X Exec_movll) 1 False False)
      else None)"

definition nm_table_A38 :: "u16 \<Rightarrow> sh2e_insn_desc option" where
  "nm_table_A38 ic =
     (if ic = 0x0F then Some (insn_desc (Fn_X Exec_macl) 3 False False)
      else if ic = 0x4F then Some (insn_desc (Fn_X Exec_macw) 3 False False)
      else None)"

definition nm_table_A39 :: "u16 \<Rightarrow> sh2e_insn_desc option" where
  "nm_table_A39 ic =
     (if ic = 0x64 then Some (insn_desc (Fn_X Exec_movbp) 1 False False)
      else if ic = 0x65 then Some (insn_desc (Fn_X Exec_movwp) 1 False False)
      else if ic = 0x66 then Some (insn_desc (Fn_X Exec_movlp) 1 False False)
      else None)"

definition nm_table_A40 :: "u16 \<Rightarrow> sh2e_insn_desc option" where
  "nm_table_A40 ic =
     (if ic = 0x24 then Some (insn_desc (Fn_X Exec_movbm) 1 False False)
      else if ic = 0x25 then Some (insn_desc (Fn_X Exec_movwm) 1 False False)
      else if ic = 0x26 then Some (insn_desc (Fn_X Exec_movlm) 1 False False)
      else None)"

definition nm_table_A41 :: "u16 \<Rightarrow> sh2e_insn_desc option" where
  "nm_table_A41 ic =
     (if ic = 0x04 then Some (insn_desc (Fn_X Exec_movbs0) 1 False False)
      else if ic = 0x05 then Some (insn_desc (Fn_X Exec_movws0) 1 False False)
      else if ic = 0x06 then Some (insn_desc (Fn_X Exec_movls0) 1 False False)
      else if ic = 0x0C then Some (insn_desc (Fn_X Exec_movbl0) 1 False False)
      else if ic = 0x0D then Some (insn_desc (Fn_X Exec_movwl0) 1 False False)
      else if ic = 0x0E then Some (insn_desc (Fn_X Exec_movll0) 1 False False)
      else None)"

definition sh2e_insn_decode_nm_format :: "sh2e_insn \<Rightarrow> sh2e_insn_desc option" where
  "sh2e_insn_decode_nm_format w =
     (let ic = push_bit 4 (insn_ic_h w) OR insn_ic_l4 w in
      or_else (nm_table_A36a ic) (
      or_else (nm_table_A36b ic) (
      or_else (nm_table_A36c ic) (
      or_else (nm_table_A37 ic) (
      or_else (nm_table_A38 ic) (
      or_else (nm_table_A39 ic) (
      or_else (nm_table_A40 ic) (
      nm_table_A41 ic))))))))"

definition sh2e_insn_decode_nm_format_fpu :: "sh2e_insn \<Rightarrow> sh2e_insn_desc option" where
  "sh2e_insn_decode_nm_format_fpu w =
     (let ic = insn_ic_l4 w in
      if ic = 0x00 then Some (insn_desc (Fn_F Exec_fadd) 1 False False)
      else if ic = 0x04 then Some (insn_desc (Fn_F Exec_fcmpeq) 1 False False)
      else if ic = 0x05 then Some (insn_desc (Fn_F Exec_fcmpgt) 1 False False)
      else if ic = 0x03 then Some (insn_desc (Fn_F Exec_fdiv) 13 False False)
      else if ic = 0x0E then Some (insn_desc (Fn_F Exec_fmac) 1 False False)
      else if ic = 0x0C then Some (insn_desc (Fn_F Exec_fmov) 1 False False)
      else if ic = 0x06 then Some (insn_desc (Fn_F Exec_fmovli) 1 False False)
      else if ic = 0x09 then Some (insn_desc (Fn_F Exec_fmovlr) 1 False False)
      else if ic = 0x08 then Some (insn_desc (Fn_F Exec_fmovl) 1 False False)
      else if ic = 0x07 then Some (insn_desc (Fn_F Exec_fmovsi) 1 False False)
      else if ic = 0x0B then Some (insn_desc (Fn_F Exec_fmovss) 1 False False)
      else if ic = 0x0A then Some (insn_desc (Fn_F Exec_fmovs) 1 False False)
      else if ic = 0x02 then Some (insn_desc (Fn_F Exec_fmul) 1 False False)
      else if ic = 0x01 then Some (insn_desc (Fn_F Exec_fsub) 1 False False)
      else None)"

definition sh2e_insn_decode_md_format :: "sh2e_insn \<Rightarrow> sh2e_insn_desc option" where
  "sh2e_insn_decode_md_format w =
     (let ic = insn_ic_h8 w in
      if ic = 0x84 then Some (insn_desc (Fn_D Exec_movbl4) 1 False False)
      else if ic = 0x85 then Some (insn_desc (Fn_D Exec_movwl4) 1 False False)
      else None)"

definition sh2e_insn_decode_nd4_format :: "sh2e_insn \<Rightarrow> sh2e_insn_desc option" where
  "sh2e_insn_decode_nd4_format w =
     (let ic = insn_ic_h8 w in
      if ic = 0x80 then Some (insn_desc (Fn_D Exec_movbs4) 1 False False)
      else if ic = 0x81 then Some (insn_desc (Fn_D Exec_movws4) 1 False False)
      else None)"

definition sh2e_insn_decode_nmd_format :: "sh2e_insn \<Rightarrow> sh2e_insn_desc option" where
  "sh2e_insn_decode_nmd_format w =
     (let ic = insn_ic_h w in
      if ic = 0x01 then Some (insn_desc (Fn_D Exec_movls4) 1 False False)
      else if ic = 0x05 then Some (insn_desc (Fn_D Exec_movll4) 1 False False)
      else None)"

definition sh2e_insn_decode_d_format :: "sh2e_insn \<Rightarrow> sh2e_insn_desc option" where
  "sh2e_insn_decode_d_format w =
     (let ic = insn_ic_h8 w in
      if ic = 0xC4 then Some (insn_desc (Fn_D Exec_movblg) 1 False False)
      else if ic = 0xC5 then Some (insn_desc (Fn_D Exec_movwlg) 1 False False)
      else if ic = 0xC6 then Some (insn_desc (Fn_D Exec_movllg) 1 False False)
      else if ic = 0xC0 then Some (insn_desc (Fn_D Exec_movbsg) 1 False False)
      else if ic = 0xC1 then Some (insn_desc (Fn_D Exec_movwsg) 1 False False)
      else if ic = 0xC2 then Some (insn_desc (Fn_D Exec_movlsg) 1 False False)
      else if ic = 0xC7 then Some (insn_desc (Fn_D Exec_mova) 1 False False)
      else if ic = 0x8B then Some (insn_desc (Fn_D Exec_bf) 1 False False)
      else if ic = 0x8F then Some (insn_desc (Fn_D Exec_bfs) 1 True True)
      else if ic = 0x89 then Some (insn_desc (Fn_D Exec_bt) 1 False False)
      else if ic = 0x8D then Some (insn_desc (Fn_D Exec_bts) 1 True True)
      else None)"

definition sh2e_insn_decode_d12_format :: "sh2e_insn \<Rightarrow> sh2e_insn_desc option" where
  "sh2e_insn_decode_d12_format w =
     (let ic = insn_ic_h w in
      if ic = 0x0A then Some (insn_desc (Fn_D Exec_bra) 2 True True)
      else if ic = 0x0B then Some (insn_desc (Fn_D Exec_bsr) 2 True True)
      else None)"

definition sh2e_insn_decode_nd8_format :: "sh2e_insn \<Rightarrow> sh2e_insn_desc option" where
  "sh2e_insn_decode_nd8_format w =
     (let ic = insn_ic_h w in
      if ic = 0x09 then Some (insn_desc (Fn_D Exec_movwi) 1 False False)
      else if ic = 0x0D then Some (insn_desc (Fn_D Exec_movli) 1 False False)
      else None)"

definition sh2e_insn_decode_i_format :: "sh2e_insn \<Rightarrow> sh2e_insn_desc option" where
  "sh2e_insn_decode_i_format w =
     (let ic = insn_ic_h8 w in
      if ic = 0xCC then Some (insn_desc (Fn_I Exec_tstm) 3 False False)
      else if ic = 0xCD then Some (insn_desc (Fn_I Exec_andm) 3 False False)
      else if ic = 0xCE then Some (insn_desc (Fn_I Exec_xorm) 3 False False)
      else if ic = 0xCF then Some (insn_desc (Fn_I Exec_orm) 3 False False)
      else if ic = 0x88 then Some (insn_desc (Fn_I Exec_cmpim) 1 False False)
      else if ic = 0xC8 then Some (insn_desc (Fn_I Exec_tsti) 1 False False)
      else if ic = 0xC9 then Some (insn_desc (Fn_I Exec_andi) 1 False False)
      else if ic = 0xCA then Some (insn_desc (Fn_I Exec_xori) 1 False False)
      else if ic = 0xCB then Some (insn_desc (Fn_I Exec_ori) 1 False False)
      else if ic = 0xC3 then Some (insn_desc (Fn_I Exec_trapa) 8 False False)
      else None)"

definition sh2e_insn_decode_ni_format :: "sh2e_insn \<Rightarrow> sh2e_insn_desc option" where
  "sh2e_insn_decode_ni_format w =
     (let ic = insn_ic_h w in
      if ic = 0x07 then Some (insn_desc (Fn_I Exec_addi) 1 False False)
      else if ic = 0x0E then Some (insn_desc (Fn_I Exec_movi) 1 False False)
      else None)"

definition sh2e_insn_decode_msim_format :: "bool \<Rightarrow> sh2e_insn \<Rightarrow> sh2e_insn_desc option" where
  "sh2e_insn_decode_msim_format specific w =
     (let ic = w in
      if ic = 0x8200 then Some (if specific then insn_desc (Fn_Z Exec_halt) 1 False False else illegal)
      else if ic = 0x8201 then Some (if specific then insn_desc (Fn_Z Exec_cpu_reg_dump) 1 False False else illegal)
      else if ic = 0x8202 then Some (if specific then insn_desc (Fn_Z Exec_fpu_reg_dump) 1 False False else illegal)
      else None)"

subsection \<open>The decoder\<close>

definition sh2e_insn_decode :: "bool \<Rightarrow> sh2e_insn \<Rightarrow> sh2e_insn_desc" where
  "sh2e_insn_decode specific w =
     (let op = drop_bit 12 w;
          desc =
            (if op = 0b0000 then
               or_else (sh2e_insn_decode_z_format w)
               (or_else (sh2e_insn_decode_n_format w)
               (or_else (sh2e_insn_decode_m_format w) (sh2e_insn_decode_nm_format w)))
             else if op = 0b0001 \<or> op = 0b0101 then sh2e_insn_decode_nmd_format w
             else if op = 0b0010 \<or> op = 0b0011 \<or> op = 0b0110 then sh2e_insn_decode_nm_format w
             else if op = 0b0100 then
               or_else (sh2e_insn_decode_n_format w)
               (or_else (sh2e_insn_decode_m_format w) (sh2e_insn_decode_nm_format w))
             else if op = 0b0111 \<or> op = 0b1110 then sh2e_insn_decode_ni_format w
             else if op = 0b1000 then
               or_else (sh2e_insn_decode_md_format w)
               (or_else (sh2e_insn_decode_nd4_format w)
               (or_else (sh2e_insn_decode_d_format w)
               (or_else (sh2e_insn_decode_i_format w) (sh2e_insn_decode_msim_format specific w))))
             else if op = 0b1001 \<or> op = 0b1101 then sh2e_insn_decode_nd8_format w
             else if op = 0b1010 \<or> op = 0b1011 then sh2e_insn_decode_d12_format w
             else if op = 0b1100 then or_else (sh2e_insn_decode_d_format w) (sh2e_insn_decode_i_format w)
             else if op = 0b1111 then
               or_else (sh2e_insn_decode_n_format_fpu w)
               (or_else (sh2e_insn_decode_m_format_fpu w) (sh2e_insn_decode_nm_format_fpu w))
             else None)
      in case desc of Some d \<Rightarrow> d | None \<Rightarrow> illegal)"

end
