(* ===== verification/Sh2e_Memops.thy ===== *)
theory Sh2e_Memops
  imports Sh2e_Decode Physmem_Facts
begin

text \<open>
  The memory accesses of the SH-2E, \<open>superh_sh2e/memops.h\<close>, over the machine with the instruction
  cache of \<open>superh_sh2e/cpu.c\<close>. The processor is big endian: a value is swapped on its way from and
  to the little-endian physical memory. Misaligned accesses and failed writes are address errors.
  The processor is given by its index \<open>k\<close> in the store of processors.
\<close>

record cached_insn =
  ci_insn :: sh2e_exec_fn
  ci_cycles :: nat
  ci_disable_interrupts :: bool
  ci_disable_address_errors :: bool

record sh2e_cache_item =
  page_addr :: ptr36
  page_insns :: "nat \<Rightarrow> cached_insn"

record ('c, 'd) sh2e_machine = "('c, 'd) machine" +
  machine_unit_testing :: bool
  sh2e_insn_cache :: "sh2e_cache_item list"

type_synonym ('d, 'z) sh2e_sim = "(sh2e_cpu, 'd, 'z) sh2e_machine_scheme"

abbreviation sh_cpu :: "nat \<Rightarrow> ('d, 'z) sh2e_sim \<Rightarrow> sh2e_cpu" where
  "sh_cpu k s \<equiv> cpu_mem s k"

definition upd_cpu :: "nat \<Rightarrow> (sh2e_cpu \<Rightarrow> sh2e_cpu) \<Rightarrow> ('d, 'z) sh2e_sim \<Rightarrow> ('d, 'z) sh2e_sim" where
  "upd_cpu k f s = s\<lparr>cpu_mem := (cpu_mem s)(k := f (cpu_mem s k))\<rparr>"

type_synonym ('v, 'd, 'z) sh2e_read = "nat \<Rightarrow> u32 \<Rightarrow> ('d, 'z) sh2e_sim \<Rightarrow> ((sh2e_exception + 'v) \<times> ('d, 'z) sh2e_sim) option"
type_synonym ('d, 'z) sh2e_write = "nat \<Rightarrow> u32 \<Rightarrow> u32 \<Rightarrow> ('d, 'z) sh2e_sim \<Rightarrow> (sh2e_exception \<times> ('d, 'z) sh2e_sim) option"

subsection \<open>Reads\<close>

definition sh2e_physmem_read8 :: "nat \<Rightarrow> u32 \<Rightarrow> bool \<Rightarrow> ('d, 'z) sh2e_sim \<Rightarrow> (u8 \<times> ('d, 'z) sh2e_sim) option" where
  "sh2e_physmem_read8 cpu_id addr prot s = physmem_read8 cpu_id (ucast addr) prot s"

definition sh2e_physmem_read16 :: "nat \<Rightarrow> u32 \<Rightarrow> bool \<Rightarrow> ('d, 'z) sh2e_sim \<Rightarrow> (u16 \<times> ('d, 'z) sh2e_sim) option" where
  "sh2e_physmem_read16 cpu_id addr prot s = do {
     (v, s1) \<leftarrow> physmem_read16 cpu_id (ucast addr) prot s;
     Some (be16toh v, s1)
   }"

definition sh2e_physmem_read32 :: "nat \<Rightarrow> u32 \<Rightarrow> bool \<Rightarrow> ('d, 'z) sh2e_sim \<Rightarrow> (u32 \<times> ('d, 'z) sh2e_sim) option" where
  "sh2e_physmem_read32 cpu_id addr prot s = do {
     (v, s1) \<leftarrow> physmem_read32 cpu_id (ucast addr) prot s;
     Some (be32toh v, s1)
   }"

definition sh2e_cpu_readz_byte :: "(u32, 'd, 'z) sh2e_read" where
  "sh2e_cpu_readz_byte k addr s = do {
     (v, s1) \<leftarrow> sh2e_physmem_read8 (sh_id (sh_cpu k s)) addr True s;
     Some (Inr (ucast v), s1)
   }"

definition sh2e_cpu_reads_byte :: "(u32, 'd, 'z) sh2e_read" where
  "sh2e_cpu_reads_byte k addr s = do {
     (v, s1) \<leftarrow> sh2e_physmem_read8 (sh_id (sh_cpu k s)) addr True s;
     Some (Inr (sign_extend_8_32 (ucast v)), s1)
   }"

definition sh2e_cpu_readz_word :: "(u32, 'd, 'z) sh2e_read" where
  "sh2e_cpu_readz_word k addr s =
     (if addr AND 1 \<noteq> 0 then Some (Inl SH2E_EXCEPTION_CPU_ADDRESS_ERROR, s)
      else do {
        (v, s1) \<leftarrow> sh2e_physmem_read16 (sh_id (sh_cpu k s)) addr True s;
        Some (Inr (ucast v), s1)
      })"

definition sh2e_cpu_reads_word :: "(u32, 'd, 'z) sh2e_read" where
  "sh2e_cpu_reads_word k addr s =
     (if addr AND 1 \<noteq> 0 then Some (Inl SH2E_EXCEPTION_CPU_ADDRESS_ERROR, s)
      else do {
        (v, s1) \<leftarrow> sh2e_physmem_read16 (sh_id (sh_cpu k s)) addr True s;
        Some (Inr (sign_extend_16_32 (ucast v)), s1)
      })"

definition sh2e_cpu_read_long :: "(u32, 'd, 'z) sh2e_read" where
  "sh2e_cpu_read_long k addr s =
     (if addr AND 3 \<noteq> 0 then Some (Inl SH2E_EXCEPTION_CPU_ADDRESS_ERROR, s)
      else do {
        (v, s1) \<leftarrow> sh2e_physmem_read32 (sh_id (sh_cpu k s)) addr True s;
        Some (Inr v, s1)
      })"

text \<open>A float is read as its bits.\<close>

definition sh2e_cpu_read_float :: "(u32, 'd, 'z) sh2e_read" where
  "sh2e_cpu_read_float k addr s =
     (if addr AND 3 \<noteq> 0 then Some (Inl SH2E_EXCEPTION_CPU_ADDRESS_ERROR, s)
      else do {
        (v, s1) \<leftarrow> sh2e_physmem_read32 (sh_id (sh_cpu k s)) addr True s;
        Some (Inr v, s1)
      })"

definition sh2e_cpu_fetch_insn :: "(sh2e_insn, 'd, 'z) sh2e_read" where
  "sh2e_cpu_fetch_insn k addr s =
     (if addr AND 1 \<noteq> 0 then Some (Inl SH2E_EXCEPTION_CPU_ADDRESS_ERROR, s)
      else do {
        (v, s1) \<leftarrow> sh2e_physmem_read16 (sh_id (sh_cpu k s)) addr True s;
        Some (Inr v, s1)
      })"

subsection \<open>Writes\<close>

definition write_result :: "(bool \<times> ('d, 'z) sh2e_sim) option \<Rightarrow> (sh2e_exception \<times> ('d, 'z) sh2e_sim) option" where
  "write_result r = do {
     (success, s1) \<leftarrow> r;
     Some (if success then SH2E_EXCEPTION_NONE else SH2E_EXCEPTION_CPU_ADDRESS_ERROR, s1)
   }"

definition sh2e_cpu_write_byte :: "('d, 'z) sh2e_write" where
  "sh2e_cpu_write_byte k addr value s =
     (if machine_unit_testing s then Some (SH2E_EXCEPTION_NONE, s)
      else write_result (physmem_write8 (sh_id (sh_cpu k s)) (ucast addr) (ucast value) True s))"

definition sh2e_cpu_write_word :: "('d, 'z) sh2e_write" where
  "sh2e_cpu_write_word k addr value s =
     (if addr AND 1 \<noteq> 0 then Some (SH2E_EXCEPTION_CPU_ADDRESS_ERROR, s)
      else if machine_unit_testing s then Some (SH2E_EXCEPTION_NONE, s)
      else write_result (physmem_write16 (sh_id (sh_cpu k s)) (ucast addr) (be16toh (ucast value)) True s))"

definition sh2e_cpu_write_long :: "('d, 'z) sh2e_write" where
  "sh2e_cpu_write_long k addr value s =
     (if addr AND 3 \<noteq> 0 then Some (SH2E_EXCEPTION_CPU_ADDRESS_ERROR, s)
      else if machine_unit_testing s then Some (SH2E_EXCEPTION_NONE, s)
      else write_result (physmem_write32 (sh_id (sh_cpu k s)) (ucast addr) (be32toh value) True s))"

definition sh2e_cpu_write_float :: "('d, 'z) sh2e_write" where
  "sh2e_cpu_write_float k addr value s =
     (if addr AND 3 \<noteq> 0 then Some (SH2E_EXCEPTION_CPU_ADDRESS_ERROR, s)
      else if machine_unit_testing s then Some (SH2E_EXCEPTION_NONE, s)
      else write_result (physmem_write32 (sh_id (sh_cpu k s)) (ucast addr) (be32toh value) True s))"

end
