(* ===== verification/Sh2e_Exec.thy ===== *)
theory Sh2e_Exec
  imports Sh2e_Memops
begin

text \<open>
  The instructions of the SH-2E that work on registers alone, from \<open>superh_sh2e/exec.c\<close> in the order
  of the source. An instruction maps the processor and the instruction word to the exception it
  returns and the new processor. The T, Q and M bits of the status register are booleans; where
  the source computes with a bit, it is \<open>of_bool\<close> of it.
\<close>

type_synonym reg_insn = "sh2e_cpu \<Rightarrow> sh2e_insn \<Rightarrow> sh2e_exception \<times> sh2e_cpu"

abbreviation no_exception :: "sh2e_cpu \<Rightarrow> sh2e_exception \<times> sh2e_cpu" where
  "no_exception cpu \<equiv> (SH2E_EXCEPTION_NONE, cpu)"

subsection \<open>Templates\<close>

definition sh2e_addr_pc_relative_insn :: "sh2e_cpu \<Rightarrow> u32 \<Rightarrow> u32 \<Rightarrow> u32" where
  "sh2e_addr_pc_relative_insn cpu insn_offset disp = sh_pc cpu + (insn_offset + disp) * 2"

definition sh2e_addr_pc_relative_data :: "u32 \<Rightarrow> u32 \<Rightarrow> u32 \<Rightarrow> u32" where
  "sh2e_addr_pc_relative_data pc_addr disp scale = ALIGN_DOWN pc_addr scale + disp * scale"

definition sh2e_insn_branch_t_eq :: "sh2e_cpu \<Rightarrow> sh2e_insn \<Rightarrow> bool \<Rightarrow> bool \<Rightarrow> sh2e_exception \<times> sh2e_cpu" where
  "sh2e_insn_branch_t_eq cpu w t_expected delayed =
     (let disp = sign_extend_8_32 (insn_d8 w); target = sh2e_addr_pc_relative_insn cpu 2 disp
      in if br_state cpu = SH2E_BRANCH_STATE_DELAY then (SH2E_EXCEPTION_ILLEGAL_SLOT_INSTRUCTION, cpu)
         else if sr_t cpu = t_expected then
           no_exception (cpu\<lparr>program_execution_cycles := program_execution_cycles cpu + (if delayed then 1 else 2),
             pc_target := target,
             br_state := (if delayed then SH2E_BRANCH_STATE_DELAY_NEXT else SH2E_BRANCH_STATE_EXECUTE)\<rparr>)
         else no_exception (cpu\<lparr>pc_target := sh_pc cpu + 2 * 2\<rparr>))"

definition sh2e_insn_ext :: "sh2e_cpu \<Rightarrow> sh2e_insn \<Rightarrow> (u32 \<Rightarrow> u32) \<Rightarrow> sh2e_exception \<times> sh2e_cpu" where
  "sh2e_insn_ext cpu w xt = no_exception (set_gr (insn_r_hi w) (xt (sh_general cpu (insn_r_lo w))) cpu)"

definition sh2e_insn_set_t :: "sh2e_cpu \<Rightarrow> bool \<Rightarrow> sh2e_exception \<times> sh2e_cpu" where
  "sh2e_insn_set_t cpu value = no_exception (set_sr_t value cpu)"

text \<open>The instruction field that selects a control or system register.\<close>

definition csr_field :: "sh2e_insn \<Rightarrow> nat" where
  "csr_field w = unat (drop_bit 4 (insn_ic_l8 w) AND 0b11)"

definition sh2e_insn_stcsr :: "sh2e_cpu \<Rightarrow> sh2e_insn \<Rightarrow> (sh2e_cpu \<Rightarrow> nat \<Rightarrow> u32 option) \<Rightarrow> (sh2e_exception \<times> sh2e_cpu) option" where
  "sh2e_insn_stcsr cpu w csrs = do {
     v \<leftarrow> csrs cpu (csr_field w);
     Some (no_exception (set_gr (insn_r_hi w) v cpu))
   }"

subsection \<open>Arithmetic and logic\<close>

definition sh2e_insn_exec_add :: reg_insn where
  "sh2e_insn_exec_add cpu w =
     no_exception (set_gr (insn_r_hi w) (sh_general cpu (insn_r_hi w) + sh_general cpu (insn_r_lo w)) cpu)"

definition sh2e_insn_exec_addi :: reg_insn where
  "sh2e_insn_exec_addi cpu w =
     no_exception (set_gr (insn_r_hi w) (sh_general cpu (insn_r_hi w) + sign_extend_8_32 (insn_d8 w)) cpu)"

definition sh2e_insn_exec_addc :: reg_insn where
  "sh2e_insn_exec_addc cpu w =
     (let rn = sh_general cpu (insn_r_hi w);
          sum = rn + sh_general cpu (insn_r_lo w);
          sum_with_carry = sum + of_bool (sr_t cpu)
      in no_exception (set_sr_t (rn > sum \<or> sum > sum_with_carry) (set_gr (insn_r_hi w) sum_with_carry cpu)))"

definition sh2e_insn_exec_addv :: reg_insn where
  "sh2e_insn_exec_addv cpu w =
     (let rn = sh_general cpu (insn_r_hi w); rm = sh_general cpu (insn_r_lo w); result = rn + rm
      in no_exception (set_sr_t (bit_value_msb rn = bit_value_msb rm \<and> bit_value_msb rm \<noteq> bit_value_msb result)
           (set_gr (insn_r_hi w) result cpu)))"

definition sh2e_insn_exec_and :: reg_insn where
  "sh2e_insn_exec_and cpu w =
     no_exception (set_gr (insn_r_hi w) (sh_general cpu (insn_r_hi w) AND sh_general cpu (insn_r_lo w)) cpu)"

definition sh2e_insn_exec_andi :: reg_insn where
  "sh2e_insn_exec_andi cpu w = no_exception (set_gr 0 (sh_general cpu 0 AND zero_extend_8_32 (insn_d8 w)) cpu)"

subsection \<open>Branches\<close>

definition sh2e_insn_exec_bf :: reg_insn where
  "sh2e_insn_exec_bf cpu w = sh2e_insn_branch_t_eq cpu w False False"

definition sh2e_insn_exec_bfs :: reg_insn where
  "sh2e_insn_exec_bfs cpu w = sh2e_insn_branch_t_eq cpu w False True"

definition sh2e_insn_exec_bra :: reg_insn where
  "sh2e_insn_exec_bra cpu w =
     (if br_state cpu = SH2E_BRANCH_STATE_DELAY then (SH2E_EXCEPTION_ILLEGAL_SLOT_INSTRUCTION, cpu)
      else no_exception (cpu\<lparr>pc_target := sh2e_addr_pc_relative_insn cpu 2 (sign_extend_12_32 (insn_d12 w)),
                             br_state := SH2E_BRANCH_STATE_DELAY_NEXT\<rparr>))"

definition sh2e_insn_exec_braf :: reg_insn where
  "sh2e_insn_exec_braf cpu w =
     (if br_state cpu = SH2E_BRANCH_STATE_DELAY then (SH2E_EXCEPTION_ILLEGAL_SLOT_INSTRUCTION, cpu)
      else no_exception (cpu\<lparr>pc_target := sh2e_addr_pc_relative_insn cpu 2 0 + sh_general cpu (insn_r_hi w),
                             br_state := SH2E_BRANCH_STATE_DELAY_NEXT\<rparr>))"

definition sh2e_insn_exec_bsr :: reg_insn where
  "sh2e_insn_exec_bsr cpu w =
     (if br_state cpu = SH2E_BRANCH_STATE_DELAY then (SH2E_EXCEPTION_ILLEGAL_SLOT_INSTRUCTION, cpu)
      else no_exception (cpu\<lparr>sh_pr := sh2e_addr_pc_relative_insn cpu 2 0,
                             pc_target := sh2e_addr_pc_relative_insn cpu 2 (sign_extend_12_32 (insn_d12 w)),
                             br_state := SH2E_BRANCH_STATE_DELAY_NEXT\<rparr>))"

definition sh2e_insn_exec_bsrf :: reg_insn where
  "sh2e_insn_exec_bsrf cpu w =
     (if br_state cpu = SH2E_BRANCH_STATE_DELAY then (SH2E_EXCEPTION_ILLEGAL_SLOT_INSTRUCTION, cpu)
      else no_exception (cpu\<lparr>sh_pr := sh2e_addr_pc_relative_insn cpu 2 0,
                             pc_target := sh2e_addr_pc_relative_insn cpu 2 0 + sh_general cpu (insn_r_hi w),
                             br_state := SH2E_BRANCH_STATE_DELAY_NEXT\<rparr>))"

definition sh2e_insn_exec_bt :: reg_insn where
  "sh2e_insn_exec_bt cpu w = sh2e_insn_branch_t_eq cpu w True False"

definition sh2e_insn_exec_bts :: reg_insn where
  "sh2e_insn_exec_bts cpu w = sh2e_insn_branch_t_eq cpu w True True"

subsection \<open>Comparisons\<close>

definition sh2e_insn_exec_clrmac :: reg_insn where
  "sh2e_insn_exec_clrmac cpu w = no_exception (cpu\<lparr>sh_mach := 0, sh_macl := 0\<rparr>)"

definition sh2e_insn_exec_clrt :: reg_insn where
  "sh2e_insn_exec_clrt cpu w = sh2e_insn_set_t cpu False"

definition sh2e_insn_exec_cmpeq :: reg_insn where
  "sh2e_insn_exec_cmpeq cpu w =
     no_exception (set_sr_t (sh_general cpu (insn_r_hi w) = sh_general cpu (insn_r_lo w)) cpu)"

definition sh2e_insn_exec_cmpge :: reg_insn where
  "sh2e_insn_exec_cmpge cpu w =
     no_exception (set_sr_t (sint (sh_general cpu (insn_r_hi w)) \<ge> sint (sh_general cpu (insn_r_lo w))) cpu)"

definition sh2e_insn_exec_cmpgt :: reg_insn where
  "sh2e_insn_exec_cmpgt cpu w =
     no_exception (set_sr_t (sint (sh_general cpu (insn_r_hi w)) > sint (sh_general cpu (insn_r_lo w))) cpu)"

definition sh2e_insn_exec_cmphi :: reg_insn where
  "sh2e_insn_exec_cmphi cpu w =
     no_exception (set_sr_t (sh_general cpu (insn_r_hi w) > sh_general cpu (insn_r_lo w)) cpu)"

definition sh2e_insn_exec_cmphs :: reg_insn where
  "sh2e_insn_exec_cmphs cpu w =
     no_exception (set_sr_t (sh_general cpu (insn_r_hi w) \<ge> sh_general cpu (insn_r_lo w)) cpu)"

definition sh2e_insn_exec_cmpim :: reg_insn where
  "sh2e_insn_exec_cmpim cpu w = no_exception (set_sr_t (sh_general cpu 0 = sign_extend_8_32 (insn_d8 w)) cpu)"

definition sh2e_insn_exec_cmppl :: reg_insn where
  "sh2e_insn_exec_cmppl cpu w = no_exception (set_sr_t (sint (sh_general cpu (insn_r_hi w)) > 0) cpu)"

definition sh2e_insn_exec_cmppz :: reg_insn where
  "sh2e_insn_exec_cmppz cpu w = no_exception (set_sr_t (sint (sh_general cpu (insn_r_hi w)) \<ge> 0) cpu)"

definition sh2e_insn_exec_cmpstr :: reg_insn where
  "sh2e_insn_exec_cmpstr cpu w =
     (let rn = sh_general cpu (insn_r_hi w); rm = sh_general cpu (insn_r_lo w);
          rn_xor_rm = rn XOR rm;
          sub_val = rn_xor_rm - 0x01010101;
          andc_val = sub_val AND NOT rn_xor_rm;
          sign_val = andc_val AND 0x80808080
      in no_exception (set_sr_t (sign_val \<noteq> 0) cpu))"

subsection \<open>Division, multiplication, extension\<close>

definition sh2e_insn_exec_div0s :: reg_insn where
  "sh2e_insn_exec_div0s cpu w =
     (let q = bit_value_msb (sh_general cpu (insn_r_hi w)); m = bit_value_msb (sh_general cpu (insn_r_lo w))
      in no_exception (set_sr_t (q \<noteq> m) (set_sr_m m (set_sr_q q cpu))))"

definition sh2e_insn_exec_div0u :: reg_insn where
  "sh2e_insn_exec_div0u cpu w = no_exception (set_sr_t False (set_sr_q False (set_sr_m False cpu)))"

definition sh2e_insn_exec_div1 :: reg_insn where
  "sh2e_insn_exec_div1 cpu w =
     (let rn = sh_general cpu (insn_r_hi w);
          rn_sign_xor_m = (bit_value_msb rn \<noteq> sr_m cpu);
          shifted_rn = push_bit 1 rn OR of_bool (sr_t cpu);
          q_xor_m = (sr_q cpu \<noteq> sr_m cpu);
          rm = sh_general cpu (insn_r_lo w);
          next_rn = shifted_rn + (if \<not> q_xor_m then - rm else rm);
          carry = (if \<not> q_xor_m then next_rn > shifted_rn else next_rn < shifted_rn);
          q = (carry \<noteq> rn_sign_xor_m)
      in no_exception (set_sr_t (q = sr_m cpu) (set_sr_q q (set_gr (insn_r_hi w) next_rn cpu))))"

definition sh2e_insn_exec_dmulsl :: reg_insn where
  "sh2e_insn_exec_dmulsl cpu w =
     (let result = of_int (sint (sh_general cpu (insn_r_hi w)) * sint (sh_general cpu (insn_r_lo w))) :: u64
      in no_exception (cpu\<lparr>sh_mach := get_upper_32_bits_from_64 result, sh_macl := get_lower_32_bits_from_64 result\<rparr>))"

definition sh2e_insn_exec_dmulul :: reg_insn where
  "sh2e_insn_exec_dmulul cpu w =
     (let result = ucast (sh_general cpu (insn_r_hi w)) * ucast (sh_general cpu (insn_r_lo w)) :: u64
      in no_exception (cpu\<lparr>sh_mach := get_upper_32_bits_from_64 result, sh_macl := get_lower_32_bits_from_64 result\<rparr>))"

definition sh2e_insn_exec_dt :: reg_insn where
  "sh2e_insn_exec_dt cpu w =
     (let rn_dec = sh_general cpu (insn_r_hi w) - 1
      in no_exception (set_sr_t (rn_dec = 0) (set_gr (insn_r_hi w) rn_dec cpu)))"

definition sh2e_insn_exec_extsb :: reg_insn where "sh2e_insn_exec_extsb cpu w = sh2e_insn_ext cpu w sign_extend_8_32"
definition sh2e_insn_exec_extsw :: reg_insn where "sh2e_insn_exec_extsw cpu w = sh2e_insn_ext cpu w sign_extend_16_32"
definition sh2e_insn_exec_extub :: reg_insn where "sh2e_insn_exec_extub cpu w = sh2e_insn_ext cpu w zero_extend_8_32"
definition sh2e_insn_exec_extuw :: reg_insn where "sh2e_insn_exec_extuw cpu w = sh2e_insn_ext cpu w zero_extend_16_32"

definition sh2e_insn_exec_jmp :: reg_insn where
  "sh2e_insn_exec_jmp cpu w =
     (if br_state cpu = SH2E_BRANCH_STATE_DELAY then (SH2E_EXCEPTION_ILLEGAL_SLOT_INSTRUCTION, cpu)
      else no_exception (cpu\<lparr>pc_target := sh_general cpu (insn_r_hi w), br_state := SH2E_BRANCH_STATE_DELAY_NEXT\<rparr>))"

definition sh2e_insn_exec_jsr :: reg_insn where
  "sh2e_insn_exec_jsr cpu w =
     (if br_state cpu = SH2E_BRANCH_STATE_DELAY then (SH2E_EXCEPTION_ILLEGAL_SLOT_INSTRUCTION, cpu)
      else no_exception (cpu\<lparr>sh_pr := sh2e_addr_pc_relative_insn cpu 2 0, pc_target := sh_general cpu (insn_r_hi w),
                             br_state := SH2E_BRANCH_STATE_DELAY_NEXT\<rparr>))"

subsection \<open>Loads of control and system registers\<close>

abbreviation LDC_SR_MASK :: u32 where "LDC_SR_MASK \<equiv> 0x0FFF0FFF"
abbreviation LDS_FPSCR_MASK :: u32 where "LDS_FPSCR_MASK \<equiv> 0x00018C60"

definition sh2e_insn_exec_ldc_sr :: reg_insn where
  "sh2e_insn_exec_ldc_sr cpu w = no_exception (cpu\<lparr>sh_sr := sh_general cpu (insn_r_hi w) AND LDC_SR_MASK\<rparr>)"

definition sh2e_insn_exec_ldc_gbr :: reg_insn where
  "sh2e_insn_exec_ldc_gbr cpu w = no_exception (cpu\<lparr>sh_gbr := sh_general cpu (insn_r_hi w)\<rparr>)"

definition sh2e_insn_exec_ldc_vbr :: reg_insn where
  "sh2e_insn_exec_ldc_vbr cpu w = no_exception (cpu\<lparr>sh_vbr := sh_general cpu (insn_r_hi w)\<rparr>)"

definition sh2e_insn_exec_lds_mach :: reg_insn where
  "sh2e_insn_exec_lds_mach cpu w = no_exception (cpu\<lparr>sh_mach := sh_general cpu (insn_r_hi w)\<rparr>)"

definition sh2e_insn_exec_lds_macl :: reg_insn where
  "sh2e_insn_exec_lds_macl cpu w = no_exception (cpu\<lparr>sh_macl := sh_general cpu (insn_r_hi w)\<rparr>)"

definition sh2e_insn_exec_lds_pr :: reg_insn where
  "sh2e_insn_exec_lds_pr cpu w = no_exception (cpu\<lparr>sh_pr := sh_general cpu (insn_r_hi w)\<rparr>)"

definition sh2e_insn_exec_lds_fpscr :: reg_insn where
  "sh2e_insn_exec_lds_fpscr cpu w = no_exception (cpu\<lparr>sh_fpscr := sh_general cpu (insn_r_hi w) AND LDS_FPSCR_MASK\<rparr>)"

definition sh2e_insn_exec_lds_fpul :: reg_insn where
  "sh2e_insn_exec_lds_fpul cpu w = no_exception (cpu\<lparr>sh_fpul := sh_general cpu (insn_r_hi w)\<rparr>)"

subsection \<open>Moves and multiplication\<close>

definition sh2e_insn_exec_mov :: reg_insn where
  "sh2e_insn_exec_mov cpu w = no_exception (set_gr (insn_r_hi w) (sh_general cpu (insn_r_lo w)) cpu)"

definition sh2e_insn_exec_movi :: reg_insn where
  "sh2e_insn_exec_movi cpu w = no_exception (set_gr (insn_r_hi w) (sign_extend_8_32 (insn_d8 w)) cpu)"

definition sh2e_insn_exec_mova :: reg_insn where
  "sh2e_insn_exec_mova cpu w =
     (let disp = zero_extend_8_32 (insn_d8 w);
          pc_addr = (if br_state cpu \<noteq> SH2E_BRANCH_STATE_DELAY then sh_pc cpu + 2 * 2 else pc_target cpu + 2)
      in no_exception (set_gr 0 (sh2e_addr_pc_relative_data pc_addr disp 4) cpu))"

definition sh2e_insn_exec_movt :: reg_insn where
  "sh2e_insn_exec_movt cpu w = no_exception (set_gr (insn_r_hi w) (of_bool (sr_t cpu)) cpu)"

definition sh2e_insn_exec_mull :: reg_insn where
  "sh2e_insn_exec_mull cpu w =
     no_exception (cpu\<lparr>sh_macl := sh_general cpu (insn_r_hi w) * sh_general cpu (insn_r_lo w)\<rparr>)"

definition sh2e_insn_exec_mulsw :: reg_insn where
  "sh2e_insn_exec_mulsw cpu w =
     (let rn = sint (ucast (sh_general cpu (insn_r_hi w)) :: u16); rm = sint (ucast (sh_general cpu (insn_r_lo w)) :: u16)
      in no_exception (cpu\<lparr>sh_macl := of_int (rn * rm)\<rparr>))"

definition sh2e_insn_exec_muluw :: reg_insn where
  "sh2e_insn_exec_muluw cpu w =
     (let rn = ucast (ucast (sh_general cpu (insn_r_hi w)) :: u16); rm = ucast (ucast (sh_general cpu (insn_r_lo w)) :: u16)
      in no_exception (cpu\<lparr>sh_macl := rn * rm\<rparr>))"

definition sh2e_insn_exec_neg :: reg_insn where
  "sh2e_insn_exec_neg cpu w = no_exception (set_gr (insn_r_hi w) (0 - sh_general cpu (insn_r_lo w)) cpu)"

definition sh2e_insn_exec_negc :: reg_insn where
  "sh2e_insn_exec_negc cpu w =
     (let neg_rm = 0 - sh_general cpu (insn_r_lo w); neg_rm_with_carry = neg_rm - of_bool (sr_t cpu)
      in no_exception (set_sr_t (0 < neg_rm \<or> neg_rm < neg_rm_with_carry) (set_gr (insn_r_hi w) neg_rm_with_carry cpu)))"

definition sh2e_insn_exec_nop :: reg_insn where
  "sh2e_insn_exec_nop cpu w = no_exception cpu"

definition sh2e_insn_exec_not :: reg_insn where
  "sh2e_insn_exec_not cpu w = no_exception (set_gr (insn_r_hi w) (NOT (sh_general cpu (insn_r_lo w))) cpu)"

definition sh2e_insn_exec_or :: reg_insn where
  "sh2e_insn_exec_or cpu w =
     no_exception (set_gr (insn_r_hi w) (sh_general cpu (insn_r_hi w) OR sh_general cpu (insn_r_lo w)) cpu)"

definition sh2e_insn_exec_ori :: reg_insn where
  "sh2e_insn_exec_ori cpu w = no_exception (set_gr 0 (sh_general cpu 0 OR zero_extend_8_32 (insn_d8 w)) cpu)"

definition sh2e_insn_exec_rts :: reg_insn where
  "sh2e_insn_exec_rts cpu w =
     (if br_state cpu = SH2E_BRANCH_STATE_DELAY then (SH2E_EXCEPTION_ILLEGAL_SLOT_INSTRUCTION, cpu)
      else no_exception (cpu\<lparr>pc_target := sh_pr cpu, br_state := SH2E_BRANCH_STATE_DELAY_NEXT\<rparr>))"

subsection \<open>Rotations and shifts\<close>

definition sh2e_insn_exec_rotcl :: reg_insn where
  "sh2e_insn_exec_rotcl cpu w =
     (let lsb = of_bool (sr_t cpu); rn = sh_general cpu (insn_r_hi w)
      in no_exception (set_sr_t (bit_value_msb rn) (set_gr (insn_r_hi w) (push_bit 1 rn OR lsb) cpu)))"

definition sh2e_insn_exec_rotcr :: reg_insn where
  "sh2e_insn_exec_rotcr cpu w =
     (let msb = push_bit 31 (of_bool (sr_t cpu)); rn = sh_general cpu (insn_r_hi w)
      in no_exception (set_sr_t (bit_value_lsb rn) (set_gr (insn_r_hi w) (msb OR drop_bit 1 rn) cpu)))"

definition sh2e_insn_exec_rotl :: reg_insn where
  "sh2e_insn_exec_rotl cpu w =
     (let rn = sh_general cpu (insn_r_hi w)
      in no_exception (set_sr_t (bit_value_msb rn) (set_gr (insn_r_hi w) (rotate_left rn 1) cpu)))"

definition sh2e_insn_exec_rotr :: reg_insn where
  "sh2e_insn_exec_rotr cpu w =
     (let rn = sh_general cpu (insn_r_hi w)
      in no_exception (set_sr_t (bit_value_lsb rn) (set_gr (insn_r_hi w) (rotate_right rn 1) cpu)))"

definition sh2e_insn_exec_sett :: reg_insn where
  "sh2e_insn_exec_sett cpu w = sh2e_insn_set_t cpu True"

definition sh2e_insn_exec_shal :: reg_insn where
  "sh2e_insn_exec_shal cpu w =
     (let rn = sh_general cpu (insn_r_hi w)
      in no_exception (set_sr_t (bit_value_msb rn) (set_gr (insn_r_hi w) (push_bit 1 rn) cpu)))"

definition sh2e_insn_exec_shar :: reg_insn where
  "sh2e_insn_exec_shar cpu w =
     (let rn = sh_general cpu (insn_r_hi w)
      in no_exception (set_sr_t (bit_value_lsb rn) (set_gr (insn_r_hi w) (signed_drop_bit 1 rn) cpu)))"

definition sh2e_insn_exec_shll :: reg_insn where
  "sh2e_insn_exec_shll cpu w =
     (let rn = sh_general cpu (insn_r_hi w)
      in no_exception (set_sr_t (bit_value_msb rn) (set_gr (insn_r_hi w) (push_bit 1 rn) cpu)))"

definition sh2e_insn_shlln :: "sh2e_cpu \<Rightarrow> sh2e_insn \<Rightarrow> nat \<Rightarrow> sh2e_exception \<times> sh2e_cpu" where
  "sh2e_insn_shlln cpu w amount =
     no_exception (set_gr (insn_r_hi w) (push_bit amount (sh_general cpu (insn_r_hi w))) cpu)"

definition sh2e_insn_exec_shll2 :: reg_insn where "sh2e_insn_exec_shll2 cpu w = sh2e_insn_shlln cpu w 2"
definition sh2e_insn_exec_shll8 :: reg_insn where "sh2e_insn_exec_shll8 cpu w = sh2e_insn_shlln cpu w 8"
definition sh2e_insn_exec_shll16 :: reg_insn where "sh2e_insn_exec_shll16 cpu w = sh2e_insn_shlln cpu w 16"

definition sh2e_insn_exec_shlr :: reg_insn where
  "sh2e_insn_exec_shlr cpu w =
     (let rn = sh_general cpu (insn_r_hi w)
      in no_exception (set_sr_t (bit_value_lsb rn) (set_gr (insn_r_hi w) (drop_bit 1 rn) cpu)))"

definition sh2e_insn_shlrn :: "sh2e_cpu \<Rightarrow> sh2e_insn \<Rightarrow> nat \<Rightarrow> sh2e_exception \<times> sh2e_cpu" where
  "sh2e_insn_shlrn cpu w amount =
     no_exception (set_gr (insn_r_hi w) (drop_bit amount (sh_general cpu (insn_r_hi w))) cpu)"

definition sh2e_insn_exec_shlr2 :: reg_insn where "sh2e_insn_exec_shlr2 cpu w = sh2e_insn_shlrn cpu w 2"
definition sh2e_insn_exec_shlr8 :: reg_insn where "sh2e_insn_exec_shlr8 cpu w = sh2e_insn_shlrn cpu w 8"
definition sh2e_insn_exec_shlr16 :: reg_insn where "sh2e_insn_exec_shlr16 cpu w = sh2e_insn_shlrn cpu w 16"

definition sh2e_insn_exec_sleep :: reg_insn where
  "sh2e_insn_exec_sleep cpu w = no_exception (cpu\<lparr>pr_state := SH2E_PSTATE_POWER_DOWN\<rparr>)"

subsection \<open>Stores of control and system registers, subtraction, exchange, tests\<close>

definition sh2e_insn_exec_stc_cpu :: "sh2e_cpu \<Rightarrow> sh2e_insn \<Rightarrow> (sh2e_exception \<times> sh2e_cpu) option" where
  "sh2e_insn_exec_stc_cpu cpu w = sh2e_insn_stcsr cpu w control_reg"

definition sh2e_insn_exec_sts_cpu :: "sh2e_cpu \<Rightarrow> sh2e_insn \<Rightarrow> (sh2e_exception \<times> sh2e_cpu) option" where
  "sh2e_insn_exec_sts_cpu cpu w = sh2e_insn_stcsr cpu w system_reg"

definition sh2e_insn_exec_sts_fpu :: "sh2e_cpu \<Rightarrow> sh2e_insn \<Rightarrow> (sh2e_exception \<times> sh2e_cpu) option" where
  "sh2e_insn_exec_sts_fpu cpu w = sh2e_insn_stcsr cpu w fpu_system_reg"

definition sh2e_insn_exec_sub :: reg_insn where
  "sh2e_insn_exec_sub cpu w =
     no_exception (set_gr (insn_r_hi w) (sh_general cpu (insn_r_hi w) - sh_general cpu (insn_r_lo w)) cpu)"

definition sh2e_insn_exec_subc :: reg_insn where
  "sh2e_insn_exec_subc cpu w =
     (let rn = sh_general cpu (insn_r_hi w);
          result = rn - sh_general cpu (insn_r_lo w);
          result_with_borrow = result - of_bool (sr_t cpu)
      in no_exception (set_sr_t (rn < result \<or> result < result_with_borrow) (set_gr (insn_r_hi w) result_with_borrow cpu)))"

definition sh2e_insn_exec_subv :: reg_insn where
  "sh2e_insn_exec_subv cpu w =
     (let rn = sh_general cpu (insn_r_hi w); rm = sh_general cpu (insn_r_lo w); result = rn - rm
      in no_exception (set_sr_t (bit_value_msb rn \<noteq> bit_value_msb rm \<and> bit_value_msb rn \<noteq> bit_value_msb result)
           (set_gr (insn_r_hi w) result cpu)))"

definition sh2e_insn_exec_swapb :: reg_insn where
  "sh2e_insn_exec_swapb cpu w =
     (let rm = sh_general cpu (insn_r_lo w)
      in no_exception (set_gr (insn_r_hi w)
           ((rm AND 0xFFFF0000) OR push_bit 8 (rm AND 0xFF) OR (drop_bit 8 rm AND 0xFF)) cpu))"

definition sh2e_insn_exec_swapw :: reg_insn where
  "sh2e_insn_exec_swapw cpu w = no_exception (set_gr (insn_r_hi w) (rotate_left (sh_general cpu (insn_r_lo w)) 16) cpu)"

definition sh2e_insn_exec_tst :: reg_insn where
  "sh2e_insn_exec_tst cpu w =
     no_exception (set_sr_t (sh_general cpu (insn_r_hi w) AND sh_general cpu (insn_r_lo w) = 0) cpu)"

definition sh2e_insn_exec_tsti :: reg_insn where
  "sh2e_insn_exec_tsti cpu w = no_exception (set_sr_t (sh_general cpu 0 AND zero_extend_8_32 (insn_d8 w) = 0) cpu)"

definition sh2e_insn_exec_xor :: reg_insn where
  "sh2e_insn_exec_xor cpu w =
     no_exception (set_gr (insn_r_hi w) (sh_general cpu (insn_r_hi w) XOR sh_general cpu (insn_r_lo w)) cpu)"

definition sh2e_insn_exec_xori :: reg_insn where
  "sh2e_insn_exec_xori cpu w = no_exception (set_gr 0 (sh_general cpu 0 XOR zero_extend_8_32 (insn_d8 w)) cpu)"

definition sh2e_insn_exec_xtrct :: reg_insn where
  "sh2e_insn_exec_xtrct cpu w =
     (let rn = sh_general cpu (insn_r_hi w); rm = sh_general cpu (insn_r_lo w)
      in no_exception (set_gr (insn_r_hi w) (push_bit 16 rm OR drop_bit 16 rn) cpu))"

subsection \<open>Words that are no instruction, and the diagnostic instructions\<close>

definition sh2e_insn_exec_illegal :: reg_insn where
  "sh2e_insn_exec_illegal cpu w =
     (if br_state cpu = SH2E_BRANCH_STATE_DELAY then (SH2E_EXCEPTION_ILLEGAL_SLOT_INSTRUCTION, cpu)
      else (SH2E_EXCEPTION_ILLEGAL_INSTRUCTION, cpu))"

definition sh2e_insn_exec_cpu_reg_dump :: reg_insn where
  "sh2e_insn_exec_cpu_reg_dump cpu w = no_exception cpu"

definition sh2e_insn_exec_fpu_reg_dump :: reg_insn where
  "sh2e_insn_exec_fpu_reg_dump cpu w = no_exception cpu"

end
