(* ===== verification/Sh2e_Exec_Mem.thy ===== *)
theory Sh2e_Exec_Mem
  imports Sh2e_Exec
begin

text \<open>
  The instructions of the SH-2E that access memory, from \<open>superh_sh2e/exec.c\<close>: the templates that
  take the access as an argument, then the instructions in the order of the source. An instruction
  acts on the machine and the index \<open>k\<close> of the processor and gives the exception it returns. A sum
  that overflows the signed 64-bit accumulator has no result, as signed overflow is undefined.
\<close>

type_synonym ('d, 'z) mem_insn = "nat \<Rightarrow> sh2e_insn \<Rightarrow> ('d, 'z) sh2e_sim \<Rightarrow> (sh2e_exception \<times> ('d, 'z) sh2e_sim) option"

subsection \<open>Sequencing of accesses\<close>

text \<open>Run a read and go on with its value; an exception ends the instruction.\<close>

definition with_read :: "((sh2e_exception + 'v) \<times> ('d, 'z) sh2e_sim) option \<Rightarrow>
    ('v \<Rightarrow> ('d, 'z) sh2e_sim \<Rightarrow> (sh2e_exception \<times> ('d, 'z) sh2e_sim) option) \<Rightarrow>
    (sh2e_exception \<times> ('d, 'z) sh2e_sim) option" where
  "with_read r f = do {
     (x, s1) \<leftarrow> r;
     (case x of Inl ex \<Rightarrow> Some (ex, s1) | Inr v \<Rightarrow> f v s1)
   }"

text \<open>Run a write and go on unless it returned an exception.\<close>

definition with_write :: "(sh2e_exception \<times> ('d, 'z) sh2e_sim) option \<Rightarrow>
    (('d, 'z) sh2e_sim \<Rightarrow> (sh2e_exception \<times> ('d, 'z) sh2e_sim) option) \<Rightarrow>
    (sh2e_exception \<times> ('d, 'z) sh2e_sim) option" where
  "with_write r f = do {
     (ex, s1) \<leftarrow> r;
     (if ex \<noteq> SH2E_EXCEPTION_NONE then Some (ex, s1) else f s1)
   }"

text \<open>End an instruction with an update of its processor and no exception.\<close>

definition finish :: "nat \<Rightarrow> (sh2e_cpu \<Rightarrow> sh2e_cpu) \<Rightarrow> ('d, 'z) sh2e_sim \<Rightarrow> (sh2e_exception \<times> ('d, 'z) sh2e_sim) option" where
  "finish k f s = Some (SH2E_EXCEPTION_NONE, upd_cpu k f s)"

subsection \<open>Templates\<close>

definition sh2e_addr_gbr_relative_data :: "sh2e_cpu \<Rightarrow> u32 \<Rightarrow> u32 \<Rightarrow> u32" where
  "sh2e_addr_gbr_relative_data cpu disp scale = sh_gbr cpu + disp * scale"

definition sh2e_insn_movi :: "u32 \<Rightarrow> (u32, 'd, 'z) sh2e_read \<Rightarrow> (u32 \<Rightarrow> u32) \<Rightarrow> ('d, 'z) mem_insn" where
  "sh2e_insn_movi scale rd xt k w s =
     (let cpu = sh_cpu k s; disp = zero_extend_8_32 (insn_d8 w);
          pc_addr = (if br_state cpu \<noteq> SH2E_BRANCH_STATE_DELAY then sh_pc cpu + 2 * 2 else pc_target cpu + 2);
          addr = sh2e_addr_pc_relative_data pc_addr disp scale
      in with_read (rd k addr s) (\<lambda>v. finish k (set_gr (insn_r_hi w) (xt v))))"

definition sh2e_insn_movl :: "(u32, 'd, 'z) sh2e_read \<Rightarrow> ('d, 'z) mem_insn" where
  "sh2e_insn_movl rd k w s =
     with_read (rd k (sh_general (sh_cpu k s) (insn_r_lo w)) s) (\<lambda>v. finish k (set_gr (insn_r_hi w) v))"

definition sh2e_insn_movs :: "('d, 'z) sh2e_write \<Rightarrow> ('d, 'z) mem_insn" where
  "sh2e_insn_movs wr k w s =
     (let cpu = sh_cpu k s in wr k (sh_general cpu (insn_r_hi w)) (sh_general cpu (insn_r_lo w)) s)"

definition sh2e_insn_movp :: "u32 \<Rightarrow> (u32, 'd, 'z) sh2e_read \<Rightarrow> ('d, 'z) mem_insn" where
  "sh2e_insn_movp scale rd k w s =
     (let addr = sh_general (sh_cpu k s) (insn_r_lo w)
      in with_read (rd k addr s) (\<lambda>v. finish k (\<lambda>cpu.
           let cpu1 = set_gr (insn_r_hi w) v cpu
           in if insn_r_hi w \<noteq> insn_r_lo w then set_gr (insn_r_lo w) (addr + scale) cpu1 else cpu1)))"

definition sh2e_insn_movm :: "u32 \<Rightarrow> ('d, 'z) sh2e_write \<Rightarrow> ('d, 'z) mem_insn" where
  "sh2e_insn_movm scale wr k w s =
     (let cpu = sh_cpu k s; addr = sh_general cpu (insn_r_hi w) - scale
      in with_write (wr k addr (sh_general cpu (insn_r_lo w)) s) (finish k (set_gr (insn_r_hi w) addr)))"

definition sh2e_insn_movl0 :: "(u32, 'd, 'z) sh2e_read \<Rightarrow> ('d, 'z) mem_insn" where
  "sh2e_insn_movl0 rd k w s =
     (let cpu = sh_cpu k s; addr = sh_general cpu 0 + sh_general cpu (insn_r_lo w)
      in with_read (rd k addr s) (\<lambda>v. finish k (set_gr (insn_r_hi w) v)))"

definition sh2e_insn_movs0 :: "('d, 'z) sh2e_write \<Rightarrow> ('d, 'z) mem_insn" where
  "sh2e_insn_movs0 wr k w s =
     (let cpu = sh_cpu k s; addr = sh_general cpu 0 + sh_general cpu (insn_r_hi w)
      in wr k addr (sh_general cpu (insn_r_lo w)) s)"

definition sh2e_insn_movl4 :: "u32 \<Rightarrow> (u32, 'd, 'z) sh2e_read \<Rightarrow> ('d, 'z) mem_insn" where
  "sh2e_insn_movl4 scale rd k w s =
     (let addr = sh_general (sh_cpu k s) (insn_r_lo w) + zero_extend_4_32 (insn_d4 w) * scale
      in with_read (rd k addr s) (\<lambda>v. finish k (set_gr 0 v)))"

definition sh2e_insn_movs4 :: "u32 \<Rightarrow> ('d, 'z) sh2e_write \<Rightarrow> ('d, 'z) mem_insn" where
  "sh2e_insn_movs4 scale wr k w s =
     (let cpu = sh_cpu k s; addr = sh_general cpu (insn_r_lo w) + zero_extend_4_32 (insn_d4 w) * scale
      in wr k addr (sh_general cpu 0) s)"

definition sh2e_insn_movlg :: "u32 \<Rightarrow> (u32, 'd, 'z) sh2e_read \<Rightarrow> ('d, 'z) mem_insn" where
  "sh2e_insn_movlg scale rd k w s =
     (let addr = sh2e_addr_gbr_relative_data (sh_cpu k s) (zero_extend_8_32 (insn_d8 w)) scale
      in with_read (rd k addr s) (\<lambda>v. finish k (set_gr 0 v)))"

definition sh2e_insn_movsg :: "u32 \<Rightarrow> ('d, 'z) sh2e_write \<Rightarrow> ('d, 'z) mem_insn" where
  "sh2e_insn_movsg scale wr k w s =
     (let addr = sh2e_addr_gbr_relative_data (sh_cpu k s) (zero_extend_8_32 (insn_d8 w)) scale
      in wr k addr (sh_general (sh_cpu k s) 0) s)"

definition sh2e_insn_stcsrm :: "(sh2e_cpu \<Rightarrow> nat \<Rightarrow> u32 option) \<Rightarrow> ('d, 'z) mem_insn" where
  "sh2e_insn_stcsrm csrs k w s = (let cpu = sh_cpu k s; addr = sh_general cpu (insn_r_hi w) - 4 in do {
     v \<leftarrow> csrs cpu (csr_field w);
     with_write (sh2e_cpu_write_long k addr v s) (finish k (set_gr (insn_r_hi w) addr))
   })"

text \<open>The loads of control and system registers from memory with post-increment.\<close>

definition load_csr :: "(u32 \<Rightarrow> sh2e_cpu \<Rightarrow> sh2e_cpu) \<Rightarrow> ('d, 'z) mem_insn" where
  "load_csr put k w s =
     with_read (sh2e_cpu_read_long k (sh_general (sh_cpu k s) (insn_r_hi w)) s)
       (\<lambda>v. finish k (\<lambda>cpu. put v (set_gr (insn_r_hi w) (sh_general cpu (insn_r_hi w) + 4) cpu)))"

text \<open>The byte at @(R0, GBR) combined with the immediate.\<close>

definition gbr_byte_op :: "(u32 \<Rightarrow> u32 \<Rightarrow> u32) \<Rightarrow> ('d, 'z) mem_insn" where
  "gbr_byte_op f k w s =
     (let cpu = sh_cpu k s; addr = sh_gbr cpu + sh_general cpu 0
      in with_read (sh2e_cpu_readz_byte k addr s)
           (\<lambda>v s1. sh2e_cpu_write_byte k addr (f v (zero_extend_8_32 (insn_d8 w))) s1))"

subsection \<open>Logic on a byte of memory, loads of control and system registers\<close>

definition sh2e_insn_exec_andm :: "('d, 'z) mem_insn" where
  "sh2e_insn_exec_andm = gbr_byte_op (AND)"

definition sh2e_insn_exec_ldcl_sr :: "('d, 'z) mem_insn" where
  "sh2e_insn_exec_ldcl_sr = load_csr (\<lambda>v cpu. cpu\<lparr>sh_sr := v AND LDC_SR_MASK\<rparr>)"

definition sh2e_insn_exec_ldcl_gbr :: "('d, 'z) mem_insn" where
  "sh2e_insn_exec_ldcl_gbr = load_csr (\<lambda>v cpu. cpu\<lparr>sh_gbr := v\<rparr>)"

definition sh2e_insn_exec_ldcl_vbr :: "('d, 'z) mem_insn" where
  "sh2e_insn_exec_ldcl_vbr = load_csr (\<lambda>v cpu. cpu\<lparr>sh_vbr := v\<rparr>)"

definition sh2e_insn_exec_ldsl_mach :: "('d, 'z) mem_insn" where
  "sh2e_insn_exec_ldsl_mach = load_csr (\<lambda>v cpu. cpu\<lparr>sh_mach := v\<rparr>)"

definition sh2e_insn_exec_ldsl_macl :: "('d, 'z) mem_insn" where
  "sh2e_insn_exec_ldsl_macl = load_csr (\<lambda>v cpu. cpu\<lparr>sh_macl := v\<rparr>)"

definition sh2e_insn_exec_ldsl_pr :: "('d, 'z) mem_insn" where
  "sh2e_insn_exec_ldsl_pr = load_csr (\<lambda>v cpu. cpu\<lparr>sh_pr := v\<rparr>)"

definition sh2e_insn_exec_ldsl_fpscr :: "('d, 'z) mem_insn" where
  "sh2e_insn_exec_ldsl_fpscr = load_csr (\<lambda>v cpu. cpu\<lparr>sh_fpscr := v AND LDS_FPSCR_MASK\<rparr>)"

definition sh2e_insn_exec_ldsl_fpul :: "('d, 'z) mem_insn" where
  "sh2e_insn_exec_ldsl_fpul = load_csr (\<lambda>v cpu. cpu\<lparr>sh_fpul := v\<rparr>)"

subsection \<open>Multiply and accumulate\<close>

text \<open>The accumulator \<open>MACH:MACL\<close> as a signed 64-bit integer, and signed addition in 64 bits.\<close>

definition mac_value :: "sh2e_cpu \<Rightarrow> int" where
  "mac_value cpu = sint (push_bit 32 (ucast (sh_mach cpu)) OR ucast (sh_macl cpu) :: u64)"

definition int64_add :: "int \<Rightarrow> int \<Rightarrow> int option" where
  "int64_add a b = (if - (2 ^ 63) \<le> a + b \<and> a + b < 2 ^ 63 then Some (a + b) else None)"

definition put_mac :: "u64 \<Rightarrow> sh2e_cpu \<Rightarrow> sh2e_cpu" where
  "put_mac mac cpu = cpu\<lparr>sh_mach := get_upper_32_bits_from_64 mac, sh_macl := get_lower_32_bits_from_64 mac\<rparr>"

text \<open>Both registers are incremented, twice by the same amount if they are the same register.\<close>

definition inc_both :: "u32 \<Rightarrow> sh2e_insn \<Rightarrow> sh2e_cpu \<Rightarrow> sh2e_cpu" where
  "inc_both n w cpu =
     (let cpu1 = set_gr (insn_r_hi w) (sh_general cpu (insn_r_hi w) + n) cpu
      in set_gr (insn_r_lo w) (sh_general cpu1 (insn_r_lo w) + n) cpu1)"

definition macl_accumulate :: "u32 \<Rightarrow> u32 \<Rightarrow> sh2e_cpu \<Rightarrow> sh2e_cpu option" where
  "macl_accumulate value_rn value_rm cpu = do {
     sum \<leftarrow> int64_add (mac_value cpu) (sint value_rn * sint value_rm);
     let mac = (of_int sum :: u64);
     let lower_48 = get_lower_48_bits_from_64 mac;
     let mac1 = (if sr_s cpu then (if lower_48 AND push_bit 47 1 \<noteq> 0 then lower_48 OR 0xFFFF000000000000
                                   else lower_48 AND 0x0000FFFFFFFFFFFF) else mac);
     Some (put_mac mac1 cpu)
   }"

definition sh2e_insn_exec_macl :: "('d, 'z) mem_insn" where
  "sh2e_insn_exec_macl k w s =
     (let cpu = sh_cpu k s; addr_rn = sh_general cpu (insn_r_hi w); addr_rm = sh_general cpu (insn_r_lo w)
      in with_read (sh2e_cpu_read_long k addr_rn s) (\<lambda>value_rn s1.
           with_read (sh2e_cpu_read_long k addr_rm s1) (\<lambda>value_rm s2. do {
             cpu1 \<leftarrow> macl_accumulate value_rn value_rm (inc_both 4 w (sh_cpu k s2));
             finish k (\<lambda>_. cpu1) s2
           })))"

definition macw_accumulate :: "u32 \<Rightarrow> u32 \<Rightarrow> sh2e_cpu \<Rightarrow> sh2e_cpu option" where
  "macw_accumulate value_rn value_rm cpu =
     (let product = sint (of_int (sint value_rn * sint value_rm) :: u32)
      in if sr_s cpu then
           (let val = sint (sh_macl cpu) + product
            in Some (if val > 0x7FFFFFFF then cpu\<lparr>sh_mach := sh_mach cpu OR 1, sh_macl := 0x7FFFFFFF\<rparr>
                     else if val < 0x80000000 then cpu\<lparr>sh_mach := sh_mach cpu OR 1, sh_macl := 0x80000000\<rparr>
                     else cpu\<lparr>sh_macl := of_int val\<rparr>))
         else do {
           mac \<leftarrow> int64_add (mac_value cpu) product;
           Some (put_mac (of_int mac) cpu)
         })"

definition sh2e_insn_exec_macw :: "('d, 'z) mem_insn" where
  "sh2e_insn_exec_macw k w s =
     (let cpu = sh_cpu k s; addr_rn = sh_general cpu (insn_r_hi w); addr_rm = sh_general cpu (insn_r_lo w)
      in with_read (sh2e_cpu_reads_word k addr_rn s) (\<lambda>value_rn s1.
           with_read (sh2e_cpu_reads_word k addr_rm s1) (\<lambda>value_rm s2. do {
             cpu1 \<leftarrow> macw_accumulate value_rn value_rm (inc_both 2 w (sh_cpu k s2));
             finish k (\<lambda>_. cpu1) s2
           })))"

subsection \<open>Moves\<close>

definition sh2e_insn_exec_movbs :: "('d, 'z) mem_insn" where
  "sh2e_insn_exec_movbs = sh2e_insn_movs sh2e_cpu_write_byte"

definition sh2e_insn_exec_movws :: "('d, 'z) mem_insn" where
  "sh2e_insn_exec_movws = sh2e_insn_movs sh2e_cpu_write_word"

definition sh2e_insn_exec_movls :: "('d, 'z) mem_insn" where
  "sh2e_insn_exec_movls = sh2e_insn_movs sh2e_cpu_write_long"

definition sh2e_insn_exec_movbl :: "('d, 'z) mem_insn" where
  "sh2e_insn_exec_movbl = sh2e_insn_movl sh2e_cpu_reads_byte"

definition sh2e_insn_exec_movwl :: "('d, 'z) mem_insn" where
  "sh2e_insn_exec_movwl = sh2e_insn_movl sh2e_cpu_reads_word"

definition sh2e_insn_exec_movll :: "('d, 'z) mem_insn" where
  "sh2e_insn_exec_movll = sh2e_insn_movl sh2e_cpu_read_long"

definition sh2e_insn_exec_movbm :: "('d, 'z) mem_insn" where
  "sh2e_insn_exec_movbm = sh2e_insn_movm 1 sh2e_cpu_write_byte"

definition sh2e_insn_exec_movwm :: "('d, 'z) mem_insn" where
  "sh2e_insn_exec_movwm = sh2e_insn_movm 2 sh2e_cpu_write_word"

definition sh2e_insn_exec_movlm :: "('d, 'z) mem_insn" where
  "sh2e_insn_exec_movlm = sh2e_insn_movm 4 sh2e_cpu_write_long"

definition sh2e_insn_exec_movbp :: "('d, 'z) mem_insn" where
  "sh2e_insn_exec_movbp = sh2e_insn_movp 1 sh2e_cpu_reads_byte"

definition sh2e_insn_exec_movwp :: "('d, 'z) mem_insn" where
  "sh2e_insn_exec_movwp = sh2e_insn_movp 2 sh2e_cpu_reads_word"

definition sh2e_insn_exec_movlp :: "('d, 'z) mem_insn" where
  "sh2e_insn_exec_movlp = sh2e_insn_movp 4 sh2e_cpu_read_long"

definition sh2e_insn_exec_movbs0 :: "('d, 'z) mem_insn" where
  "sh2e_insn_exec_movbs0 = sh2e_insn_movs0 sh2e_cpu_write_byte"

definition sh2e_insn_exec_movws0 :: "('d, 'z) mem_insn" where
  "sh2e_insn_exec_movws0 = sh2e_insn_movs0 sh2e_cpu_write_word"

definition sh2e_insn_exec_movls0 :: "('d, 'z) mem_insn" where
  "sh2e_insn_exec_movls0 = sh2e_insn_movs0 sh2e_cpu_write_long"

definition sh2e_insn_exec_movbl0 :: "('d, 'z) mem_insn" where
  "sh2e_insn_exec_movbl0 = sh2e_insn_movl0 sh2e_cpu_reads_byte"

definition sh2e_insn_exec_movwl0 :: "('d, 'z) mem_insn" where
  "sh2e_insn_exec_movwl0 = sh2e_insn_movl0 sh2e_cpu_reads_word"

definition sh2e_insn_exec_movll0 :: "('d, 'z) mem_insn" where
  "sh2e_insn_exec_movll0 = sh2e_insn_movl0 sh2e_cpu_read_long"

definition sh2e_insn_exec_movwi :: "('d, 'z) mem_insn" where
  "sh2e_insn_exec_movwi = sh2e_insn_movi 2 sh2e_cpu_readz_word sign_extend_16_32"

definition sh2e_insn_exec_movli :: "('d, 'z) mem_insn" where
  "sh2e_insn_exec_movli = sh2e_insn_movi 4 sh2e_cpu_read_long sign_extend_32_32"

definition sh2e_insn_exec_movblg :: "('d, 'z) mem_insn" where
  "sh2e_insn_exec_movblg = sh2e_insn_movlg 1 sh2e_cpu_reads_byte"

definition sh2e_insn_exec_movwlg :: "('d, 'z) mem_insn" where
  "sh2e_insn_exec_movwlg = sh2e_insn_movlg 2 sh2e_cpu_reads_word"

definition sh2e_insn_exec_movllg :: "('d, 'z) mem_insn" where
  "sh2e_insn_exec_movllg = sh2e_insn_movlg 4 sh2e_cpu_read_long"

definition sh2e_insn_exec_movbsg :: "('d, 'z) mem_insn" where
  "sh2e_insn_exec_movbsg = sh2e_insn_movsg 1 sh2e_cpu_write_byte"

definition sh2e_insn_exec_movwsg :: "('d, 'z) mem_insn" where
  "sh2e_insn_exec_movwsg = sh2e_insn_movsg 2 sh2e_cpu_write_word"

definition sh2e_insn_exec_movlsg :: "('d, 'z) mem_insn" where
  "sh2e_insn_exec_movlsg = sh2e_insn_movsg 4 sh2e_cpu_write_long"

definition sh2e_insn_exec_movbl4 :: "('d, 'z) mem_insn" where
  "sh2e_insn_exec_movbl4 = sh2e_insn_movl4 1 sh2e_cpu_reads_byte"

definition sh2e_insn_exec_movwl4 :: "('d, 'z) mem_insn" where
  "sh2e_insn_exec_movwl4 = sh2e_insn_movl4 2 sh2e_cpu_reads_word"

definition sh2e_insn_exec_movll4 :: "('d, 'z) mem_insn" where
  "sh2e_insn_exec_movll4 k w s =
     (let addr = sh_general (sh_cpu k s) (insn_r_lo w) + zero_extend_4_32 (insn_d4 w) * 4
      in with_read (sh2e_cpu_read_long k addr s) (\<lambda>v. finish k (set_gr (insn_r_hi w) v)))"

definition sh2e_insn_exec_movbs4 :: "('d, 'z) mem_insn" where
  "sh2e_insn_exec_movbs4 = sh2e_insn_movs4 1 sh2e_cpu_write_byte"

definition sh2e_insn_exec_movws4 :: "('d, 'z) mem_insn" where
  "sh2e_insn_exec_movws4 = sh2e_insn_movs4 2 sh2e_cpu_write_word"

definition sh2e_insn_exec_movls4 :: "('d, 'z) mem_insn" where
  "sh2e_insn_exec_movls4 k w s =
     (let cpu = sh_cpu k s; addr = sh_general cpu (insn_r_hi w) + zero_extend_4_32 (insn_d4 w) * 4
      in sh2e_cpu_write_long k addr (sh_general cpu (insn_r_lo w)) s)"

subsection \<open>Return from exception, register stores, test and set, trap\<close>

definition sh2e_insn_exec_orm :: "('d, 'z) mem_insn" where
  "sh2e_insn_exec_orm = gbr_byte_op (OR)"

definition sh2e_insn_exec_rte :: "('d, 'z) mem_insn" where
  "sh2e_insn_exec_rte k w s =
     (if br_state (sh_cpu k s) = SH2E_BRANCH_STATE_DELAY then Some (SH2E_EXCEPTION_ILLEGAL_SLOT_INSTRUCTION, s)
      else (let stack_pc_addr = sh_sp (sh_cpu k s); stack_sr_addr = stack_pc_addr + 4
            in with_read (sh2e_cpu_read_long k stack_pc_addr s) (\<lambda>stack_pc s1.
                 with_read (sh2e_cpu_read_long k stack_sr_addr s1) (\<lambda>stack_sr.
                   finish k (\<lambda>cpu. (set_gr 15 (stack_sr_addr + 4) cpu)\<lparr>sh_sr := stack_sr AND 0x0FFF0FFF,
                     pc_target := stack_pc, br_state := SH2E_BRANCH_STATE_DELAY_NEXT\<rparr>)))))"

definition sh2e_insn_exec_stcm_cpu :: "('d, 'z) mem_insn" where
  "sh2e_insn_exec_stcm_cpu = sh2e_insn_stcsrm control_reg"

definition sh2e_insn_exec_stsm_cpu :: "('d, 'z) mem_insn" where
  "sh2e_insn_exec_stsm_cpu = sh2e_insn_stcsrm system_reg"

definition sh2e_insn_exec_stsm_fpu :: "('d, 'z) mem_insn" where
  "sh2e_insn_exec_stsm_fpu = sh2e_insn_stcsrm fpu_system_reg"

definition sh2e_insn_exec_tas :: "('d, 'z) mem_insn" where
  "sh2e_insn_exec_tas k w s =
     (let addr = sh_general (sh_cpu k s) (insn_r_hi w)
      in with_read (sh2e_cpu_reads_byte k addr s) (\<lambda>value s1.
           with_write (sh2e_cpu_write_byte k addr (value OR 0x80) s1)
             (finish k (set_sr_t (value = 0)))))"

definition sh2e_insn_exec_trapa :: "('d, 'z) mem_insn" where
  "sh2e_insn_exec_trapa k w s =
     (let cpu = sh_cpu k s; stack_sr_addr = sh_sp cpu - 4; stack_pc = sh2e_addr_pc_relative_insn cpu 1 0;
          stack_pc_addr = stack_sr_addr - 4; vbr_pc_addr = sh_vbr cpu + push_bit 2 (zero_extend_8_32 (insn_d8 w))
      in with_write (sh2e_cpu_write_long k stack_sr_addr (sh_sr cpu) s) (\<lambda>s1.
           with_write (sh2e_cpu_write_long k stack_pc_addr stack_pc s1) (\<lambda>s2.
             with_read (sh2e_cpu_read_long k vbr_pc_addr s2) (\<lambda>vbr_pc.
               finish k (\<lambda>cpu. (set_gr 15 stack_pc_addr cpu)\<lparr>pc_target := vbr_pc,
                 br_state := SH2E_BRANCH_STATE_EXECUTE\<rparr>)))))"

definition sh2e_insn_exec_tstm :: "('d, 'z) mem_insn" where
  "sh2e_insn_exec_tstm k w s =
     (let cpu = sh_cpu k s
      in with_read (sh2e_cpu_readz_byte k (sh_gbr cpu + sh_general cpu 0) s)
           (\<lambda>v. finish k (set_sr_t (v AND zero_extend_8_32 (insn_d8 w) = 0))))"

definition sh2e_insn_exec_xorm :: "('d, 'z) mem_insn" where
  "sh2e_insn_exec_xorm = gbr_byte_op (XOR)"

subsection \<open>The halt instruction\<close>

definition sh2e_insn_exec_halt :: "('d, 'z) mem_insn" where
  "sh2e_insn_exec_halt k w s = Some (SH2E_EXCEPTION_NONE, s\<lparr>machine_halt := True\<rparr>)"

end
