(* ===== verification/Sh2e_Float.thy ===== *)
theory Sh2e_Float
  imports Sh2e_Types
begin

text \<open>
  The single-precision arithmetic of C that the floating-point instructions use, on the bits of
  the values, as IEEE 754 and Annex F of the C standard define it: results are rounded to nearest,
  ties to even. A finite value is a sign and an integer \<open>m\<close> times a power of two; sums, products
  and quotients are computed exactly (a quotient up to a remainder that only breaks ties) and
  rounded once by \<open>float_round\<close>. What the standards leave open is the argument \<open>host_float\<close>: the sign and
  the payload of a quiet NaN result, and the integer that a conversion out of range gives.
\<close>

record host_float =
  host_nan :: "u32 \<Rightarrow> u32 \<Rightarrow> u32"
  host_int64 :: "u32 \<Rightarrow> int"

definition float_sign :: "u32 \<Rightarrow> bool" where "float_sign x = bit x 31"
definition float_exponent :: "u32 \<Rightarrow> int" where "float_exponent x = uint (drop_bit 23 x AND 0xFF)"
definition float_mantissa :: "u32 \<Rightarrow> int" where "float_mantissa x = uint (x AND 0x7FFFFF)"

definition float_make :: "bool \<Rightarrow> int \<Rightarrow> int \<Rightarrow> u32" where
  "float_make s e m = (if s then 0x80000000 else 0) OR push_bit 23 (of_int e) OR of_int m"

definition isnan :: "u32 \<Rightarrow> bool" where "isnan x \<longleftrightarrow> float_exponent x = 255 \<and> float_mantissa x \<noteq> 0"
definition float_inf :: "u32 \<Rightarrow> bool" where "float_inf x \<longleftrightarrow> float_exponent x = 255 \<and> float_mantissa x = 0"
definition float_zero :: "u32 \<Rightarrow> bool" where "float_zero x \<longleftrightarrow> float_exponent x = 0 \<and> float_mantissa x = 0"
definition isfinite :: "u32 \<Rightarrow> bool" where "isfinite x \<longleftrightarrow> float_exponent x \<noteq> 255"

text \<open>\<open>isinf\<close> of the C library is 1 for positive and -1 for negative infinity.\<close>

definition isinf :: "u32 \<Rightarrow> int" where
  "isinf x = (if float_inf x then (if float_sign x then -1 else 1) else 0)"

text \<open>The value of a finite number is \<open>float_int x\<close> times 2 to the power \<open>float_scale x\<close>, up to its sign.\<close>

definition float_int :: "u32 \<Rightarrow> int" where
  "float_int x = (if float_exponent x = 0 then float_mantissa x else float_mantissa x + 2 ^ 23)"

definition float_scale :: "u32 \<Rightarrow> int" where
  "float_scale x = (if float_exponent x = 0 then -149 else float_exponent x - 150)"

definition float_signed_int :: "u32 \<Rightarrow> int" where
  "float_signed_int x = (if float_sign x then - float_int x else float_int x)"

subsection \<open>Rounding\<close>

function bit_length :: "int \<Rightarrow> int" where
  "bit_length n = (if n \<le> 0 then 0 else bit_length (n div 2) + 1)"
  by auto
termination by (relation "measure nat") auto

declare bit_length.simps [simp del]

text \<open>Division of \<open>n\<close>, plus a remainder below one if \<open>sticky\<close>, by \<open>2 ^ d\<close>, to nearest, ties to even.\<close>

definition round_shift :: "nat \<Rightarrow> int \<Rightarrow> bool \<Rightarrow> int" where
  "round_shift d n sticky =
     (let q = n div 2 ^ d; r = n mod 2 ^ d; half = 2 ^ (d - 1)
      in if d \<noteq> 0 \<and> (r > half \<or> r = half \<and> (sticky \<or> odd q)) then q + 1 else q)"

definition float_round :: "bool \<Rightarrow> int \<Rightarrow> int \<Rightarrow> bool \<Rightarrow> u32" where
  "float_round s n e sticky =
     (if n = 0 then float_make s 0 0
      else (let q = max (e + bit_length n - 24) (-149);
                m = (if q \<le> e then n * 2 ^ nat (e - q) else round_shift (nat (q - e)) n sticky);
                field = (q + 149) * 2 ^ 23 + m
            in if field \<ge> 255 * 2 ^ 23 then float_make s 255 0 else float_make s (field div 2 ^ 23) (field mod 2 ^ 23)))"

subsection \<open>Operations\<close>

definition float_nan :: "host_float \<Rightarrow> u32 \<Rightarrow> u32 \<Rightarrow> u32" where
  "float_nan H a b = host_nan H a b OR 0x7FC00000"

definition float_neg :: "u32 \<Rightarrow> u32" where "float_neg a = a XOR 0x80000000"
definition float_abs :: "u32 \<Rightarrow> u32" where "float_abs a = a AND 0x7FFFFFFF"

definition float_add :: "host_float \<Rightarrow> u32 \<Rightarrow> u32 \<Rightarrow> u32" where
  "float_add H a b =
     (if isnan a \<or> isnan b then float_nan H a b
      else if float_inf a then (if float_inf b \<and> float_sign a \<noteq> float_sign b then float_nan H a b else a)
      else if float_inf b then b
      else (let e = min (float_scale a) (float_scale b);
                v = float_signed_int a * 2 ^ nat (float_scale a - e) + float_signed_int b * 2 ^ nat (float_scale b - e)
            in if v = 0 then float_make (float_sign a \<and> float_sign b) 0 0
               else float_round (v < 0) \<bar>v\<bar> e False))"

definition float_sub :: "host_float \<Rightarrow> u32 \<Rightarrow> u32 \<Rightarrow> u32" where
  "float_sub H a b = (if isnan a \<or> isnan b then float_nan H a b else float_add H a (float_neg b))"

definition float_mul :: "host_float \<Rightarrow> u32 \<Rightarrow> u32 \<Rightarrow> u32" where
  "float_mul H a b =
     (let s = (float_sign a \<noteq> float_sign b)
      in if isnan a \<or> isnan b then float_nan H a b
         else if float_inf a \<and> float_zero b \<or> float_zero a \<and> float_inf b then float_nan H a b
         else if float_inf a \<or> float_inf b then float_make s 255 0
         else float_round s (float_int a * float_int b) (float_scale a + float_scale b) False)"

definition float_div :: "host_float \<Rightarrow> u32 \<Rightarrow> u32 \<Rightarrow> u32" where
  "float_div H a b =
     (let s = (float_sign a \<noteq> float_sign b)
      in if isnan a \<or> isnan b then float_nan H a b
         else if float_inf a \<and> float_inf b \<or> float_zero a \<and> float_zero b then float_nan H a b
         else if float_inf a \<or> float_zero b then float_make s 255 0
         else if float_inf b then float_make s 0 0
         else (let n = float_int a * 2 ^ 60
               in float_round s (n div float_int b) (float_scale a - float_scale b - 60) (n mod float_int b \<noteq> 0)))"

definition float_of_int :: "int \<Rightarrow> u32" where
  "float_of_int i = float_round (i < 0) \<bar>i\<bar> 0 False"

text \<open>The integer part of a finite number.\<close>

definition float_trunc :: "u32 \<Rightarrow> int" where
  "float_trunc x =
     (let n = (if 0 \<le> float_scale x then float_int x * 2 ^ nat (float_scale x) else float_int x div 2 ^ nat (- float_scale x))
      in if float_sign x then - n else n)"

definition float_to_int64 :: "host_float \<Rightarrow> u32 \<Rightarrow> int" where
  "float_to_int64 H x =
     (if isfinite x \<and> - (2 ^ 63) \<le> float_trunc x \<and> float_trunc x < 2 ^ 63 then float_trunc x else host_int64 H x)"

definition float_key :: "u32 \<Rightarrow> int" where
  "float_key x = (if float_sign x then - uint (x AND 0x7FFFFFFF) else uint (x AND 0x7FFFFFFF))"

definition float_eq :: "u32 \<Rightarrow> u32 \<Rightarrow> bool" where
  "float_eq a b \<longleftrightarrow> \<not> isnan a \<and> \<not> isnan b \<and> float_key a = float_key b"

definition isgreater :: "u32 \<Rightarrow> u32 \<Rightarrow> bool" where
  "isgreater a b \<longleftrightarrow> \<not> isnan a \<and> \<not> isnan b \<and> float_key a > float_key b"

definition isunordered :: "u32 \<Rightarrow> u32 \<Rightarrow> bool" where
  "isunordered a b \<longleftrightarrow> isnan a \<or> isnan b"

end
