(* ===== verification/Sh2e_Fpu.thy ===== *)
theory Sh2e_Fpu
  imports Sh2e_Exec_Mem Sh2e_Float
begin

text \<open>
  The floating-point instructions of the SH-2E, from \<open>superh_sh2e/exec.c\<close>. The argument \<open>H\<close> is what the
  C standard leaves open of the host's arithmetic. A signalling NaN of the SH-2E has the top bit of
  its mantissa set, the opposite of the host's convention.
\<close>

type_synonym fpu_insn = "host_float \<Rightarrow> sh2e_cpu \<Rightarrow> sh2e_insn \<Rightarrow> sh2e_exception \<times> sh2e_cpu"

subsection \<open>Classification and the status register\<close>

definition is_snan :: "u32 \<Rightarrow> bool" where
  "is_snan x \<longleftrightarrow> float_exponent x = 0xFF \<and> bit x 22"

definition qnan :: "sh2e_insn \<Rightarrow> u32" where
  "qnan bits = 0x7FC00000 OR ucast bits"

definition is_qnan :: "u32 \<Rightarrow> bool" where
  "is_qnan x \<longleftrightarrow> float_exponent x = 0xFF \<and> float_mantissa x \<noteq> 0 \<and> \<not> bit x 22"

definition is_pos_inf :: "u32 \<Rightarrow> bool" where "is_pos_inf x \<longleftrightarrow> \<not> float_sign x \<and> float_exponent x = 0xFF \<and> float_mantissa x = 0"
definition is_neg_inf :: "u32 \<Rightarrow> bool" where "is_neg_inf x \<longleftrightarrow> float_sign x \<and> float_exponent x = 0xFF \<and> float_mantissa x = 0"

definition sh2e_cpu_clear_cv_cz :: "sh2e_cpu \<Rightarrow> sh2e_cpu" where
  "sh2e_cpu_clear_cv_cz cpu = set_fpscr_bit FPSCR_CZ False (set_fpscr_bit FPSCR_CV False cpu)"

definition sh2e_cpu_set_cv_fv :: "sh2e_cpu \<Rightarrow> sh2e_cpu" where
  "sh2e_cpu_set_cv_fv cpu = set_fpscr_bit FPSCR_FV True (set_fpscr_bit FPSCR_CV True cpu)"

definition sh2e_cpu_set_cz_fz :: "sh2e_cpu \<Rightarrow> sh2e_cpu" where
  "sh2e_cpu_set_cz_fz cpu = set_fpscr_bit FPSCR_FZ True (set_fpscr_bit FPSCR_CZ True cpu)"

text \<open>
  The end that the operations share: an invalid operation sets its cause and its flag, raises the
  exception if that is enabled and otherwise gives the quiet NaN.
\<close>

definition fpu_result :: "bool \<Rightarrow> sh2e_insn \<Rightarrow> reg4 \<Rightarrow> u32 \<Rightarrow> sh2e_cpu \<Rightarrow> sh2e_exception \<times> sh2e_cpu" where
  "fpu_result invalid w n result cpu =
     (if invalid then
        (let cpu1 = sh2e_cpu_set_cv_fv cpu
         in if fpscr_bit FPSCR_EV cpu1 then (SH2E_EXCEPTION_FPU_OPERATION, cpu1)
            else no_exception (set_fr n (qnan w) cpu1))
      else no_exception (set_fr n result cpu))"

subsection \<open>Arithmetic\<close>

definition sh2e_insn_exec_fabs :: fpu_insn where
  "sh2e_insn_exec_fabs H cpu w =
     (let cpu1 = sh2e_cpu_clear_cv_cz cpu; frn = sh_fr cpu1 (insn_r_hi w); result = float_abs frn
      in fpu_result (isnan result \<and> is_snan frn) w (insn_r_hi w) result cpu1)"

definition fadd_invalid :: "u32 \<Rightarrow> u32 \<Rightarrow> bool" where
  "fadd_invalid frn frm \<longleftrightarrow> is_snan frn \<or> is_snan frm \<or> is_neg_inf frn \<and> is_pos_inf frm \<or> is_pos_inf frn \<and> is_neg_inf frm"

definition sh2e_insn_exec_fadd :: fpu_insn where
  "sh2e_insn_exec_fadd H cpu w =
     (let cpu1 = sh2e_cpu_clear_cv_cz cpu; frn = sh_fr cpu1 (insn_r_hi w); frm = sh_fr cpu1 (insn_r_lo w);
          result = float_add H frn frm
      in fpu_result (isnan result \<and> fadd_invalid frn frm) w (insn_r_hi w) result cpu1)"

definition sh2e_insn_exec_fcmpeq :: fpu_insn where
  "sh2e_insn_exec_fcmpeq H cpu w =
     (let cpu1 = sh2e_cpu_clear_cv_cz cpu; frn = sh_fr cpu1 (insn_r_hi w); frm = sh_fr cpu1 (insn_r_lo w);
          result = float_eq frn frm;
          invalid = (\<not> result \<and> (is_snan frn \<or> is_snan frm));
          cpu2 = (if invalid then sh2e_cpu_set_cv_fv cpu1 else cpu1)
      in if invalid \<and> fpscr_bit FPSCR_EV cpu2 then (SH2E_EXCEPTION_FPU_OPERATION, cpu2)
         else no_exception (set_sr_t result cpu2))"

definition sh2e_insn_exec_fcmpgt :: fpu_insn where
  "sh2e_insn_exec_fcmpgt H cpu w =
     (let cpu1 = sh2e_cpu_clear_cv_cz cpu; frn = sh_fr cpu1 (insn_r_hi w); frm = sh_fr cpu1 (insn_r_lo w);
          result = isgreater frn frm;
          invalid = (\<not> result \<and> isunordered frn frm);
          cpu2 = (if invalid then sh2e_cpu_set_cv_fv cpu1 else cpu1)
      in if invalid \<and> fpscr_bit FPSCR_EV cpu2 then (SH2E_EXCEPTION_FPU_OPERATION, cpu2)
         else no_exception (set_sr_t result cpu2))"

definition fdiv_invalid :: "u32 \<Rightarrow> u32 \<Rightarrow> bool" where
  "fdiv_invalid frn frm \<longleftrightarrow> is_snan frn \<or> is_snan frm \<or> isinf frn \<noteq> 0 \<and> isinf frm \<noteq> 0 \<or> float_zero frn \<and> float_zero frm"

definition sh2e_insn_exec_fdiv :: fpu_insn where
  "sh2e_insn_exec_fdiv H cpu w =
     (let cpu1 = sh2e_cpu_clear_cv_cz cpu; frn = sh_fr cpu1 (insn_r_hi w); frm = sh_fr cpu1 (insn_r_lo w)
      in if fdiv_invalid frn frm then fpu_result True w (insn_r_hi w) 0 cpu1
         else if float_zero frm \<and> \<not> is_qnan frn \<and> isinf frn = 0 then
           (let cpu2 = sh2e_cpu_set_cz_fz cpu1
            in if fpscr_bit FPSCR_EZ cpu2 then (SH2E_EXCEPTION_FPU_OPERATION, cpu2)
               else no_exception (set_fr (insn_r_hi w) (float_make (float_sign frn \<noteq> float_sign frm) 0xFF 0) cpu2))
         else no_exception (set_fr (insn_r_hi w) (float_div H frn frm) cpu1))"

definition sh2e_insn_exec_fldi0 :: fpu_insn where
  "sh2e_insn_exec_fldi0 H cpu w = no_exception (set_fr (insn_r_hi w) 0 cpu)"

definition sh2e_insn_exec_fldi1 :: fpu_insn where
  "sh2e_insn_exec_fldi1 H cpu w = no_exception (set_fr (insn_r_hi w) 0x3F800000 cpu)"

definition sh2e_insn_exec_flds :: fpu_insn where
  "sh2e_insn_exec_flds H cpu w = no_exception (cpu\<lparr>sh_fpul := sh_fr cpu (insn_r_hi w)\<rparr>)"

definition sh2e_insn_exec_float :: fpu_insn where
  "sh2e_insn_exec_float H cpu w =
     (let cpu1 = sh2e_cpu_clear_cv_cz cpu in no_exception (set_fr (insn_r_hi w) (float_of_int (sint (sh_fpul cpu1))) cpu1))"

definition fmul_invalid :: "u32 \<Rightarrow> u32 \<Rightarrow> bool" where
  "fmul_invalid frn frm \<longleftrightarrow> is_snan frn \<or> is_snan frm \<or> isinf frn \<noteq> 0 \<and> float_zero frm \<or> float_zero frn \<and> isinf frm \<noteq> 0"

definition sh2e_insn_exec_fmac :: fpu_insn where
  "sh2e_insn_exec_fmac H cpu w =
     (let cpu1 = sh2e_cpu_clear_cv_cz cpu; frm = sh_fr cpu1 (insn_r_lo w); fr0 = sh_fr cpu1 0;
          result_of_fmul = float_mul H fr0 frm;
          mul_invalid = (isnan result_of_fmul \<and> fmul_invalid fr0 frm);
          cpu2 = (if mul_invalid then sh2e_cpu_set_cv_fv cpu1 else cpu1)
      in if mul_invalid \<and> fpscr_bit FPSCR_EV cpu2 then (SH2E_EXCEPTION_FPU_OPERATION, cpu2)
         else (let product = (if mul_invalid then qnan w else result_of_fmul);
                   tmp_fpscr = sh_fpscr cpu2;
                   cpu3 = sh2e_cpu_clear_cv_cz cpu2; frn = sh_fr cpu3 (insn_r_hi w);
                   result_of_fadd = float_add H product frn
               in case fpu_result (isnan result_of_fadd \<and> fadd_invalid frn product) w (insn_r_hi w) result_of_fadd cpu3 of
                    (ex, cpu4) \<Rightarrow> (ex, if ex = SH2E_EXCEPTION_NONE then cpu4\<lparr>sh_fpscr := sh_fpscr cpu4 OR tmp_fpscr\<rparr> else cpu4)))"

definition sh2e_insn_exec_fmov :: fpu_insn where
  "sh2e_insn_exec_fmov H cpu w = no_exception (set_fr (insn_r_hi w) (sh_fr cpu (insn_r_lo w)) cpu)"

definition sh2e_insn_exec_fmul :: fpu_insn where
  "sh2e_insn_exec_fmul H cpu w =
     (let cpu1 = sh2e_cpu_clear_cv_cz cpu; frn = sh_fr cpu1 (insn_r_hi w); frm = sh_fr cpu1 (insn_r_lo w);
          result = float_mul H frn frm
      in fpu_result (isnan result \<and> fmul_invalid frn frm) w (insn_r_hi w) result cpu1)"

definition sh2e_insn_exec_fneg :: fpu_insn where
  "sh2e_insn_exec_fneg H cpu w =
     (let cpu1 = sh2e_cpu_clear_cv_cz cpu; frn = sh_fr cpu1 (insn_r_hi w); result = float_neg frn
      in fpu_result (isnan result \<and> is_snan frn) w (insn_r_hi w) result cpu1)"

definition sh2e_insn_exec_fsts :: fpu_insn where
  "sh2e_insn_exec_fsts H cpu w = no_exception (set_fr (insn_r_hi w) (sh_fpul cpu) cpu)"

definition sh2e_insn_exec_fsub :: fpu_insn where
  "sh2e_insn_exec_fsub H cpu w =
     (let cpu1 = sh2e_cpu_clear_cv_cz cpu; frn = sh_fr cpu1 (insn_r_hi w); frm = sh_fr cpu1 (insn_r_lo w);
          result = float_sub H frn frm
      in fpu_result (isnan result \<and> (is_snan frn \<or> is_snan frm \<or> isinf frn * isinf frm = 1)) w (insn_r_hi w) result cpu1)"

definition sh2e_insn_exec_ftrc :: fpu_insn where
  "sh2e_insn_exec_ftrc H cpu w =
     (let cpu1 = sh2e_cpu_clear_cv_cz cpu; frm = sh_fr cpu1 (insn_r_hi w);
          result = of_int (min (max (- (2 ^ 31)) (float_to_int64 H frm)) (2 ^ 31 - 1));
          invalid = (\<not> isfinite frm);
          cpu2 = (if invalid then sh2e_cpu_set_cv_fv cpu1 else cpu1)
      in if invalid \<and> fpscr_bit FPSCR_EV cpu2 then (SH2E_EXCEPTION_FPU_OPERATION, cpu2)
         else no_exception (cpu2\<lparr>sh_fpul := (if invalid then (if isinf frm > 0 then 0x7FFFFFFF else 0x80000000) else result)\<rparr>))"

subsection \<open>Moves from and to memory\<close>

definition sh2e_insn_fmovl :: "u32 \<Rightarrow> ('d, 'z) mem_insn" where
  "sh2e_insn_fmovl base k w s =
     with_read (sh2e_cpu_read_float k (base + sh_general (sh_cpu k s) (insn_r_lo w)) s) (\<lambda>v. finish k (set_fr (insn_r_hi w) v))"

definition sh2e_insn_exec_fmovl :: "('d, 'z) mem_insn" where
  "sh2e_insn_exec_fmovl k w s = sh2e_insn_fmovl 0 k w s"

definition sh2e_insn_exec_fmovli :: "('d, 'z) mem_insn" where
  "sh2e_insn_exec_fmovli k w s = sh2e_insn_fmovl (sh_general (sh_cpu k s) 0) k w s"

definition sh2e_insn_exec_fmovlr :: "('d, 'z) mem_insn" where
  "sh2e_insn_exec_fmovlr k w s =
     (let addr = sh_general (sh_cpu k s) (insn_r_lo w)
      in with_read (sh2e_cpu_read_float k addr s)
           (\<lambda>v. finish k (\<lambda>cpu. set_gr (insn_r_lo w) (addr + 4) (set_fr (insn_r_hi w) v cpu))))"

definition sh2e_insn_fmovs :: "u32 \<Rightarrow> ('d, 'z) mem_insn" where
  "sh2e_insn_fmovs base k w s =
     (let cpu = sh_cpu k s in sh2e_cpu_write_float k (base + sh_general cpu (insn_r_hi w)) (sh_fr cpu (insn_r_lo w)) s)"

definition sh2e_insn_exec_fmovs :: "('d, 'z) mem_insn" where
  "sh2e_insn_exec_fmovs k w s = sh2e_insn_fmovs 0 k w s"

definition sh2e_insn_exec_fmovsi :: "('d, 'z) mem_insn" where
  "sh2e_insn_exec_fmovsi k w s = sh2e_insn_fmovs (sh_general (sh_cpu k s) 0) k w s"

definition sh2e_insn_exec_fmovss :: "('d, 'z) mem_insn" where
  "sh2e_insn_exec_fmovss k w s =
     (let cpu = sh_cpu k s; addr = sh_general cpu (insn_r_hi w) - 4
      in with_write (sh2e_cpu_write_float k addr (sh_fr cpu (insn_r_lo w)) s) (finish k (set_gr (insn_r_hi w) addr)))"

end
