(* ===== verification/Sh2e_Call.thy ===== *)
theory Sh2e_Call
  imports Sh2e_Fpu
begin

text \<open>
  The call through the function pointer that the decoder of the SH-2E returns: each name of the
  decoder's tables stands for one instruction of \<open>superh_sh2e/exec.c\<close>.
\<close>

definition run_reg :: "reg_insn \<Rightarrow> ('d, 'z) mem_insn" where
  "run_reg f k w s = (case f (sh_cpu k s) w of (ex, cpu) \<Rightarrow> Some (ex, upd_cpu k (\<lambda>_. cpu) s))"

definition run_reg_option :: "(sh2e_cpu \<Rightarrow> sh2e_insn \<Rightarrow> (sh2e_exception \<times> sh2e_cpu) option) \<Rightarrow> ('d, 'z) mem_insn" where
  "run_reg_option f k w s = do {
     (ex, cpu) \<leftarrow> f (sh_cpu k s) w;
     Some (ex, upd_cpu k (\<lambda>_. cpu) s)
   }"

primrec exec_Z :: "fn_Z \<Rightarrow> ('d, 'z) mem_insn" where
  "exec_Z Exec_illegal = run_reg sh2e_insn_exec_illegal"
| "exec_Z Exec_clrt = run_reg sh2e_insn_exec_clrt"
| "exec_Z Exec_nop = run_reg sh2e_insn_exec_nop"
| "exec_Z Exec_rts = run_reg sh2e_insn_exec_rts"
| "exec_Z Exec_sett = run_reg sh2e_insn_exec_sett"
| "exec_Z Exec_div0u = run_reg sh2e_insn_exec_div0u"
| "exec_Z Exec_sleep = run_reg sh2e_insn_exec_sleep"
| "exec_Z Exec_clrmac = run_reg sh2e_insn_exec_clrmac"
| "exec_Z Exec_rte = sh2e_insn_exec_rte"
| "exec_Z Exec_halt = sh2e_insn_exec_halt"
| "exec_Z Exec_cpu_reg_dump = run_reg sh2e_insn_exec_cpu_reg_dump"
| "exec_Z Exec_fpu_reg_dump = run_reg sh2e_insn_exec_fpu_reg_dump"

primrec exec_N :: "fn_N \<Rightarrow> ('d, 'z) mem_insn" where
  "exec_N Exec_cmppl = run_reg sh2e_insn_exec_cmppl"
| "exec_N Exec_cmppz = run_reg sh2e_insn_exec_cmppz"
| "exec_N Exec_dt = run_reg sh2e_insn_exec_dt"
| "exec_N Exec_movt = run_reg sh2e_insn_exec_movt"
| "exec_N Exec_rotl = run_reg sh2e_insn_exec_rotl"
| "exec_N Exec_rotr = run_reg sh2e_insn_exec_rotr"
| "exec_N Exec_rotcl = run_reg sh2e_insn_exec_rotcl"
| "exec_N Exec_rotcr = run_reg sh2e_insn_exec_rotcr"
| "exec_N Exec_shal = run_reg sh2e_insn_exec_shal"
| "exec_N Exec_shar = run_reg sh2e_insn_exec_shar"
| "exec_N Exec_shll = run_reg sh2e_insn_exec_shll"
| "exec_N Exec_shlr = run_reg sh2e_insn_exec_shlr"
| "exec_N Exec_shll2 = run_reg sh2e_insn_exec_shll2"
| "exec_N Exec_shll8 = run_reg sh2e_insn_exec_shll8"
| "exec_N Exec_shll16 = run_reg sh2e_insn_exec_shll16"
| "exec_N Exec_shlr2 = run_reg sh2e_insn_exec_shlr2"
| "exec_N Exec_shlr8 = run_reg sh2e_insn_exec_shlr8"
| "exec_N Exec_shlr16 = run_reg sh2e_insn_exec_shlr16"
| "exec_N Exec_stc_cpu = run_reg_option sh2e_insn_exec_stc_cpu"
| "exec_N Exec_sts_fpu = run_reg_option sh2e_insn_exec_sts_fpu"
| "exec_N Exec_sts_cpu = run_reg_option sh2e_insn_exec_sts_cpu"
| "exec_N Exec_tas = sh2e_insn_exec_tas"
| "exec_N Exec_stcm_cpu = sh2e_insn_exec_stcm_cpu"
| "exec_N Exec_stsm_fpu = sh2e_insn_exec_stsm_fpu"
| "exec_N Exec_stsm_cpu = sh2e_insn_exec_stsm_cpu"

primrec exec_M :: "fn_M \<Rightarrow> ('d, 'z) mem_insn" where
  "exec_M Exec_ldc_sr = run_reg sh2e_insn_exec_ldc_sr"
| "exec_M Exec_ldc_gbr = run_reg sh2e_insn_exec_ldc_gbr"
| "exec_M Exec_ldc_vbr = run_reg sh2e_insn_exec_ldc_vbr"
| "exec_M Exec_lds_fpul = run_reg sh2e_insn_exec_lds_fpul"
| "exec_M Exec_lds_fpscr = run_reg sh2e_insn_exec_lds_fpscr"
| "exec_M Exec_lds_mach = run_reg sh2e_insn_exec_lds_mach"
| "exec_M Exec_lds_macl = run_reg sh2e_insn_exec_lds_macl"
| "exec_M Exec_lds_pr = run_reg sh2e_insn_exec_lds_pr"
| "exec_M Exec_jmp = run_reg sh2e_insn_exec_jmp"
| "exec_M Exec_jsr = run_reg sh2e_insn_exec_jsr"
| "exec_M Exec_ldcl_sr = sh2e_insn_exec_ldcl_sr"
| "exec_M Exec_ldcl_gbr = sh2e_insn_exec_ldcl_gbr"
| "exec_M Exec_ldcl_vbr = sh2e_insn_exec_ldcl_vbr"
| "exec_M Exec_ldsl_fpul = sh2e_insn_exec_ldsl_fpul"
| "exec_M Exec_ldsl_fpscr = sh2e_insn_exec_ldsl_fpscr"
| "exec_M Exec_ldsl_mach = sh2e_insn_exec_ldsl_mach"
| "exec_M Exec_ldsl_macl = sh2e_insn_exec_ldsl_macl"
| "exec_M Exec_ldsl_pr = sh2e_insn_exec_ldsl_pr"
| "exec_M Exec_braf = run_reg sh2e_insn_exec_braf"
| "exec_M Exec_bsrf = run_reg sh2e_insn_exec_bsrf"

primrec exec_A :: "fn_A \<Rightarrow> ('d, 'z) mem_insn" where
  "exec_A Exec_add = run_reg sh2e_insn_exec_add"
| "exec_A Exec_addc = run_reg sh2e_insn_exec_addc"
| "exec_A Exec_addv = run_reg sh2e_insn_exec_addv"
| "exec_A Exec_and = run_reg sh2e_insn_exec_and"
| "exec_A Exec_cmpeq = run_reg sh2e_insn_exec_cmpeq"
| "exec_A Exec_cmphs = run_reg sh2e_insn_exec_cmphs"
| "exec_A Exec_cmpge = run_reg sh2e_insn_exec_cmpge"
| "exec_A Exec_cmphi = run_reg sh2e_insn_exec_cmphi"
| "exec_A Exec_cmpgt = run_reg sh2e_insn_exec_cmpgt"
| "exec_A Exec_cmpstr = run_reg sh2e_insn_exec_cmpstr"
| "exec_A Exec_div1 = run_reg sh2e_insn_exec_div1"
| "exec_A Exec_div0s = run_reg sh2e_insn_exec_div0s"
| "exec_A Exec_dmulsl = run_reg sh2e_insn_exec_dmulsl"
| "exec_A Exec_dmulul = run_reg sh2e_insn_exec_dmulul"
| "exec_A Exec_extsb = run_reg sh2e_insn_exec_extsb"
| "exec_A Exec_extsw = run_reg sh2e_insn_exec_extsw"
| "exec_A Exec_extub = run_reg sh2e_insn_exec_extub"
| "exec_A Exec_extuw = run_reg sh2e_insn_exec_extuw"
| "exec_A Exec_mov = run_reg sh2e_insn_exec_mov"
| "exec_A Exec_mull = run_reg sh2e_insn_exec_mull"
| "exec_A Exec_mulsw = run_reg sh2e_insn_exec_mulsw"
| "exec_A Exec_muluw = run_reg sh2e_insn_exec_muluw"
| "exec_A Exec_neg = run_reg sh2e_insn_exec_neg"
| "exec_A Exec_negc = run_reg sh2e_insn_exec_negc"
| "exec_A Exec_not = run_reg sh2e_insn_exec_not"
| "exec_A Exec_or = run_reg sh2e_insn_exec_or"
| "exec_A Exec_sub = run_reg sh2e_insn_exec_sub"
| "exec_A Exec_subc = run_reg sh2e_insn_exec_subc"
| "exec_A Exec_subv = run_reg sh2e_insn_exec_subv"
| "exec_A Exec_swapb = run_reg sh2e_insn_exec_swapb"
| "exec_A Exec_swapw = run_reg sh2e_insn_exec_swapw"
| "exec_A Exec_tst = run_reg sh2e_insn_exec_tst"
| "exec_A Exec_xor = run_reg sh2e_insn_exec_xor"
| "exec_A Exec_xtrct = run_reg sh2e_insn_exec_xtrct"

primrec exec_X :: "fn_X \<Rightarrow> ('d, 'z) mem_insn" where
  "exec_X Exec_movbs = sh2e_insn_exec_movbs"
| "exec_X Exec_movws = sh2e_insn_exec_movws"
| "exec_X Exec_movls = sh2e_insn_exec_movls"
| "exec_X Exec_movbl = sh2e_insn_exec_movbl"
| "exec_X Exec_movwl = sh2e_insn_exec_movwl"
| "exec_X Exec_movll = sh2e_insn_exec_movll"
| "exec_X Exec_macl = sh2e_insn_exec_macl"
| "exec_X Exec_macw = sh2e_insn_exec_macw"
| "exec_X Exec_movbp = sh2e_insn_exec_movbp"
| "exec_X Exec_movwp = sh2e_insn_exec_movwp"
| "exec_X Exec_movlp = sh2e_insn_exec_movlp"
| "exec_X Exec_movbm = sh2e_insn_exec_movbm"
| "exec_X Exec_movwm = sh2e_insn_exec_movwm"
| "exec_X Exec_movlm = sh2e_insn_exec_movlm"
| "exec_X Exec_movbs0 = sh2e_insn_exec_movbs0"
| "exec_X Exec_movws0 = sh2e_insn_exec_movws0"
| "exec_X Exec_movls0 = sh2e_insn_exec_movls0"
| "exec_X Exec_movbl0 = sh2e_insn_exec_movbl0"
| "exec_X Exec_movwl0 = sh2e_insn_exec_movwl0"
| "exec_X Exec_movll0 = sh2e_insn_exec_movll0"

primrec exec_F :: "host_float \<Rightarrow> fn_F \<Rightarrow> ('d, 'z) mem_insn" where
  "exec_F H Exec_fsts = run_reg (sh2e_insn_exec_fsts H)"
| "exec_F H Exec_float = run_reg (sh2e_insn_exec_float H)"
| "exec_F H Exec_fneg = run_reg (sh2e_insn_exec_fneg H)"
| "exec_F H Exec_fabs = run_reg (sh2e_insn_exec_fabs H)"
| "exec_F H Exec_fldi0 = run_reg (sh2e_insn_exec_fldi0 H)"
| "exec_F H Exec_fldi1 = run_reg (sh2e_insn_exec_fldi1 H)"
| "exec_F H Exec_flds = run_reg (sh2e_insn_exec_flds H)"
| "exec_F H Exec_ftrc = run_reg (sh2e_insn_exec_ftrc H)"
| "exec_F H Exec_fadd = run_reg (sh2e_insn_exec_fadd H)"
| "exec_F H Exec_fcmpeq = run_reg (sh2e_insn_exec_fcmpeq H)"
| "exec_F H Exec_fcmpgt = run_reg (sh2e_insn_exec_fcmpgt H)"
| "exec_F H Exec_fdiv = run_reg (sh2e_insn_exec_fdiv H)"
| "exec_F H Exec_fmac = run_reg (sh2e_insn_exec_fmac H)"
| "exec_F H Exec_fmov = run_reg (sh2e_insn_exec_fmov H)"
| "exec_F H Exec_fmovli = sh2e_insn_exec_fmovli"
| "exec_F H Exec_fmovlr = sh2e_insn_exec_fmovlr"
| "exec_F H Exec_fmovl = sh2e_insn_exec_fmovl"
| "exec_F H Exec_fmovsi = sh2e_insn_exec_fmovsi"
| "exec_F H Exec_fmovss = sh2e_insn_exec_fmovss"
| "exec_F H Exec_fmovs = sh2e_insn_exec_fmovs"
| "exec_F H Exec_fmul = run_reg (sh2e_insn_exec_fmul H)"
| "exec_F H Exec_fsub = run_reg (sh2e_insn_exec_fsub H)"

primrec exec_D :: "fn_D \<Rightarrow> ('d, 'z) mem_insn" where
  "exec_D Exec_movbl4 = sh2e_insn_exec_movbl4"
| "exec_D Exec_movwl4 = sh2e_insn_exec_movwl4"
| "exec_D Exec_movbs4 = sh2e_insn_exec_movbs4"
| "exec_D Exec_movws4 = sh2e_insn_exec_movws4"
| "exec_D Exec_movls4 = sh2e_insn_exec_movls4"
| "exec_D Exec_movll4 = sh2e_insn_exec_movll4"
| "exec_D Exec_movblg = sh2e_insn_exec_movblg"
| "exec_D Exec_movwlg = sh2e_insn_exec_movwlg"
| "exec_D Exec_movllg = sh2e_insn_exec_movllg"
| "exec_D Exec_movbsg = sh2e_insn_exec_movbsg"
| "exec_D Exec_movwsg = sh2e_insn_exec_movwsg"
| "exec_D Exec_movlsg = sh2e_insn_exec_movlsg"
| "exec_D Exec_mova = run_reg sh2e_insn_exec_mova"
| "exec_D Exec_bf = run_reg sh2e_insn_exec_bf"
| "exec_D Exec_bfs = run_reg sh2e_insn_exec_bfs"
| "exec_D Exec_bt = run_reg sh2e_insn_exec_bt"
| "exec_D Exec_bts = run_reg sh2e_insn_exec_bts"
| "exec_D Exec_bra = run_reg sh2e_insn_exec_bra"
| "exec_D Exec_bsr = run_reg sh2e_insn_exec_bsr"
| "exec_D Exec_movwi = sh2e_insn_exec_movwi"
| "exec_D Exec_movli = sh2e_insn_exec_movli"

primrec exec_I :: "fn_I \<Rightarrow> ('d, 'z) mem_insn" where
  "exec_I Exec_tstm = sh2e_insn_exec_tstm"
| "exec_I Exec_andm = sh2e_insn_exec_andm"
| "exec_I Exec_xorm = sh2e_insn_exec_xorm"
| "exec_I Exec_orm = sh2e_insn_exec_orm"
| "exec_I Exec_cmpim = run_reg sh2e_insn_exec_cmpim"
| "exec_I Exec_tsti = run_reg sh2e_insn_exec_tsti"
| "exec_I Exec_andi = run_reg sh2e_insn_exec_andi"
| "exec_I Exec_xori = run_reg sh2e_insn_exec_xori"
| "exec_I Exec_ori = run_reg sh2e_insn_exec_ori"
| "exec_I Exec_trapa = sh2e_insn_exec_trapa"
| "exec_I Exec_addi = run_reg sh2e_insn_exec_addi"
| "exec_I Exec_movi = run_reg sh2e_insn_exec_movi"

primrec exec_insn :: "host_float \<Rightarrow> sh2e_exec_fn \<Rightarrow> ('d, 'z) mem_insn" where
  "exec_insn H (Fn_Z f) = exec_Z f"
| "exec_insn H (Fn_N f) = exec_N f"
| "exec_insn H (Fn_M f) = exec_M f"
| "exec_insn H (Fn_A f) = exec_A f"
| "exec_insn H (Fn_X f) = exec_X f"
| "exec_insn H (Fn_F f) = exec_F H f"
| "exec_insn H (Fn_D f) = exec_D f"
| "exec_insn H (Fn_I f) = exec_I f"

end
