(* ===== verification/Sh2e_Cpu.thy ===== *)
theory Sh2e_Cpu
  imports Sh2e_Call
begin

text \<open>
  The SH-2E processor of \<open>superh_sh2e/cpu.c\<close>: the cache of decoded instructions, the execution of an
  instruction, exception and interrupt processing, the steps of the processing states, and the
  processor device of \<open>dsh2ecpu.c\<close>. An on-chip peripheral is the number of a device; its callbacks
  are the argument \<open>P\<close>, functions on the data of the device.
\<close>

record 'd peripheral_ops =
  interrupt_up_from_cpu :: "nat \<Rightarrow> 'd \<Rightarrow> 'd option"
  update_cycles :: "u32 \<Rightarrow> 'd \<Rightarrow> 'd option"

fun for_each_peripheral :: "('d \<Rightarrow> 'd option) \<Rightarrow> nat list \<Rightarrow> ('d, 'z) sh2e_sim \<Rightarrow> ('d, 'z) sh2e_sim option" where
  "for_each_peripheral f [] s = Some s"
| "for_each_peripheral f (i # is) s = do {
     ASSERT (i < length (devices s));
     d \<leftarrow> f (dev_data (devices s ! i));
     for_each_peripheral f is (s\<lparr>devices := (devices s)[i := (devices s ! i)\<lparr>dev_data := d\<rparr>]\<rparr>)
   }"

text \<open>An operation of the interrupt controller; without a controller the fallback does not exist.\<close>

definition on_intc :: "nat \<Rightarrow> (sh2e_intc \<Rightarrow> ('r \<times> sh2e_intc) option) \<Rightarrow> ('d, 'z) sh2e_sim \<Rightarrow> ('r \<times> ('d, 'z) sh2e_sim) option" where
  "on_intc k f s = do {
     ic \<leftarrow> intc (sh_cpu k s);
     (r, ic1) \<leftarrow> f ic;
     Some (r, upd_cpu k (\<lambda>cpu. cpu\<lparr>intc := Some ic1\<rparr>) s)
   }"

text \<open>There is no memory mapping: the conversion of addresses always succeeds with the same address.\<close>

definition sh2e_cpu_convert_addr :: "u64 \<Rightarrow> bool \<times> ptr36" where
  "sh2e_cpu_convert_addr virt = (True, virt)"

subsection \<open>The instruction cache\<close>

definition sh2e_PHYS2CACHEINSTR :: "ptr36 \<Rightarrow> nat" where
  "sh2e_PHYS2CACHEINSTR phys = unat (phys AND 0xFFF) div 2"

definition sh2e_cpu_insn_cache_get :: "ptr36 \<Rightarrow> ('d, 'z) sh2e_sim \<Rightarrow> sh2e_cache_item option" where
  "sh2e_cpu_insn_cache_get phys s = List.find (\<lambda>item. page_addr item = ALIGN_DOWN phys 4096) (sh2e_insn_cache s)"

definition cached :: "sh2e_insn_desc \<Rightarrow> cached_insn" where
  "cached desc = \<lparr>ci_insn = exec desc, ci_cycles = cycles desc, ci_disable_interrupts = desc_disable_interrupts desc,
     ci_disable_address_errors = desc_disable_address_errors desc\<rparr>"

fun decode_loop :: "nat \<Rightarrow> ptr36 \<Rightarrow> nat list \<Rightarrow> (nat \<Rightarrow> cached_insn) \<Rightarrow> ('d, 'z) sh2e_sim \<Rightarrow>
    ((nat \<Rightarrow> cached_insn) \<times> ('d, 'z) sh2e_sim) option" where
  "decode_loop k base [] insns s = Some (insns, s)"
| "decode_loop k base (i # is) insns s = do {
     (w, s1) \<leftarrow> sh2e_physmem_read16 (sh_id (sh_cpu k s)) (ucast (base + of_nat (i * 2))) False s;
     decode_loop k base is (insns(i := cached (sh2e_insn_decode (machine_specific_instructions s1) w))) s1
   }"

definition sh2e_cpu_insn_cache_decode_page :: "nat \<Rightarrow> sh2e_cache_item \<Rightarrow> ('d, 'z) sh2e_sim \<Rightarrow>
    (sh2e_cache_item \<times> ('d, 'z) sh2e_sim) option" where
  "sh2e_cpu_insn_cache_decode_page k item s = do {
     (insns, s1) \<leftarrow> decode_loop k (page_addr item) [0..<2048] (page_insns item) s;
     Some (item\<lparr>page_insns := insns\<rparr>, s1)
   }"

definition mark_valid :: "ptr36 \<Rightarrow> ('d, 'z) sh2e_sim \<Rightarrow> ('d, 'z) sh2e_sim option" where
  "mark_valid phys s = do {
     f \<leftarrow> physmem_find_frame phys s;
     f1 \<leftarrow> f;
     Some (set_frame phys (Some (f1\<lparr>valid := True\<rparr>)) s)
   }"

definition sh2e_cpu_insn_cache_update :: "nat \<Rightarrow> sh2e_cache_item \<Rightarrow> ('d, 'z) sh2e_sim \<Rightarrow>
    (sh2e_cache_item \<times> ('d, 'z) sh2e_sim) option" where
  "sh2e_cpu_insn_cache_update k item s = do {
     f \<leftarrow> physmem_find_frame (page_addr item) s;
     f1 \<leftarrow> f;
     (if \<not> valid f1 then do {
        (item1, s1) \<leftarrow> sh2e_cpu_insn_cache_decode_page k item s;
        s2 \<leftarrow> mark_valid (page_addr item) s1;
        Some (item1, s2)
      } else Some (item, s))
   }"

text \<open>The page that \<open>malloc\<close> returns is decoded in full before it is used.\<close>

definition sh2e_cpu_insn_cache_try_add :: "nat \<Rightarrow> ptr36 \<Rightarrow> ('d, 'z) sh2e_sim \<Rightarrow>
    (sh2e_cache_item option \<times> ('d, 'z) sh2e_sim) option" where
  "sh2e_cpu_insn_cache_try_add k phys s = do {
     f \<leftarrow> physmem_find_frame phys s;
     (case f of
        None \<Rightarrow> Some (None, s)
      | Some _ \<Rightarrow> do {
          let item = \<lparr>page_addr = ALIGN_DOWN phys 4096, page_insns = (\<lambda>_. cached illegal)\<rparr>;
          (item1, s1) \<leftarrow> sh2e_cpu_insn_cache_decode_page k item s;
          s2 \<leftarrow> mark_valid phys s1;
          Some (Some item1, s2\<lparr>sh2e_insn_cache := item1 # sh2e_insn_cache s2\<rparr>)
        })
   }"

text \<open>Replacing a page that \<open>sh2e_cpu_insn_cache_get\<close> found by its new state at the head of the list.\<close>

fun cache_unlink_page :: "ptr36 \<Rightarrow> sh2e_cache_item list \<Rightarrow> sh2e_cache_item list" where
  "cache_unlink_page a [] = []"
| "cache_unlink_page a (item # items) = (if page_addr item = a then items else item # cache_unlink_page a items)"

definition take_insn :: "nat \<Rightarrow> cached_insn \<Rightarrow> ('d, 'z) sh2e_sim \<Rightarrow> ('d, 'z) sh2e_sim" where
  "take_insn k ci = upd_cpu k (\<lambda>cpu. cpu\<lparr>disable_interrupts := ci_disable_interrupts ci,
     disable_address_errors := ci_disable_address_errors ci\<rparr>)"

text \<open>The result is the instruction and its cycles; the null pointer is \<open>None\<close>.\<close>

definition sh2e_cpu_fetch_insn_func :: "nat \<Rightarrow> ptr36 \<Rightarrow> ('d, 'z) sh2e_sim \<Rightarrow>
    ((sh2e_exec_fn \<times> nat) option \<times> ('d, 'z) sh2e_sim) option" where
  "sh2e_cpu_fetch_insn_func k phys s =
     (case sh2e_cpu_insn_cache_get phys s of
        Some item \<Rightarrow> do {
          (item1, s1) \<leftarrow> sh2e_cpu_insn_cache_update k item s;
          let s2 = s1\<lparr>sh2e_insn_cache := item1 # cache_unlink_page (page_addr item) (sh2e_insn_cache s1)\<rparr>;
          let ci = page_insns item1 (sh2e_PHYS2CACHEINSTR phys);
          Some (Some (ci_insn ci, ci_cycles ci), take_insn k ci s2)
        }
      | None \<Rightarrow> do {
          (added, s1) \<leftarrow> sh2e_cpu_insn_cache_try_add k phys s;
          (case added of
             None \<Rightarrow> Some (None, s1)
           | Some item \<Rightarrow> (let ci = page_insns item (sh2e_PHYS2CACHEINSTR phys)
                          in Some (Some (ci_insn ci, ci_cycles ci), take_insn k ci s1)))
        })"

text \<open>The exception and the cycles, 0 if the fetch itself failed; the call of a null pointer is undefined.\<close>

definition sh2e_cpu_execute_insn :: "host_float \<Rightarrow> nat \<Rightarrow> ('d, 'z) sh2e_sim \<Rightarrow>
    (sh2e_exception \<times> nat \<times> ('d, 'z) sh2e_sim) option" where
  "sh2e_cpu_execute_insn H k s = do {
     let pc = sh_pc (sh_cpu k s);
     (fetched, s1) \<leftarrow> sh2e_cpu_fetch_insn k pc s;
     (case fetched of
        Inl ex \<Rightarrow> Some (ex, 0, s1)
      | Inr w \<Rightarrow> do {
          (func, s2) \<leftarrow> sh2e_cpu_fetch_insn_func k (ucast pc) s1;
          (f, n) \<leftarrow> func;
          (ex, s3) \<leftarrow> exec_insn H f k w s2;
          Some (ex, n, s3)
        })
   }"

subsection \<open>Exceptions and interrupts\<close>

text \<open>The address of an entry of the exception vector table, and the saved program counter.\<close>

definition eva :: "sh2e_cpu \<Rightarrow> nat \<Rightarrow> u32" where
  "eva cpu i = sh_vbr cpu + of_nat (4 * i)"

primrec exception_vector :: "sh2e_exception \<Rightarrow> nat option" where
  "exception_vector SH2E_EXCEPTION_ILLEGAL_INSTRUCTION = Some 4"
| "exception_vector SH2E_EXCEPTION_ILLEGAL_SLOT_INSTRUCTION = Some 6"
| "exception_vector SH2E_EXCEPTION_CPU_ADDRESS_ERROR = Some 9"
| "exception_vector SH2E_EXCEPTION_DMAC_ADDRESS_ERROR = Some 10"
| "exception_vector SH2E_EXCEPTION_FPU_OPERATION = Some 13"
| "exception_vector SH2E_EXCEPTION_NONE = None"

definition exception_pc :: "sh2e_exception \<Rightarrow> sh2e_cpu \<Rightarrow> u32" where
  "exception_pc ex cpu =
     (if ex = SH2E_EXCEPTION_ILLEGAL_INSTRUCTION then sh_pc cpu
      else if ex = SH2E_EXCEPTION_ILLEGAL_SLOT_INSTRUCTION then pc_target cpu
      else sh_pc cpu + 2)"

text \<open>Both words are pushed even if the first write fails; the flag tells whether one failed.\<close>

definition push_sr_pc :: "nat \<Rightarrow> u32 \<Rightarrow> ('d, 'z) sh2e_sim \<Rightarrow> (bool \<times> u32 \<times> ('d, 'z) sh2e_sim) option" where
  "push_sr_pc k stack_pc s = do {
     let cpu = sh_cpu k s;
     let stack_sr_addr = sh_sp cpu - 4;
     let stack_pc_addr = stack_sr_addr - 4;
     (ex1, s1) \<leftarrow> sh2e_cpu_write_long k stack_sr_addr (sh_sr cpu) s;
     (ex2, s2) \<leftarrow> sh2e_cpu_write_long k stack_pc_addr stack_pc s1;
     Some (ex1 \<noteq> SH2E_EXCEPTION_NONE \<or> ex2 \<noteq> SH2E_EXCEPTION_NONE, stack_pc_addr, s2)
   }"

definition jump_vector :: "nat \<Rightarrow> u32 \<Rightarrow> u32 \<Rightarrow> ('d, 'z) sh2e_sim \<Rightarrow> ('d, 'z) sh2e_sim option" where
  "jump_vector k sp vector_addr s = do {
     let s1 = upd_cpu k (set_gr 15 sp) s;
     (pc, s2) \<leftarrow> sh2e_physmem_read32 (sh_id (sh_cpu k s1)) vector_addr False s1;
     Some (upd_cpu k (\<lambda>cpu. cpu\<lparr>sh_pc := pc\<rparr>) s2)
   }"

function sh2e_cpu_handle_exception :: "nat \<Rightarrow> sh2e_exception \<Rightarrow> bool \<Rightarrow> ('d, 'z) sh2e_sim \<Rightarrow> ('d, 'z) sh2e_sim option" where
  "sh2e_cpu_handle_exception k ex disable_stacking_exception s = do {
     i \<leftarrow> exception_vector ex;
     let vector_addr = eva (sh_cpu k s) i;
     let stack_pc = exception_pc ex (sh_cpu k s);
     let s1 = upd_cpu k (\<lambda>cpu. cpu\<lparr>pr_state := SH2E_PSTATE_EXCEPTION_PROCESSING,
                br_state := (if ex = SH2E_EXCEPTION_ILLEGAL_SLOT_INSTRUCTION then SH2E_BRANCH_STATE_NONE else br_state cpu)\<rparr>) s;
     (stack_ex, sp, s2) \<leftarrow> push_sr_pc k stack_pc s1;
     s3 \<leftarrow> jump_vector k sp vector_addr s2;
     s4 \<leftarrow> (if stack_ex \<and> \<not> disable_stacking_exception
            then sh2e_cpu_handle_exception k SH2E_EXCEPTION_CPU_ADDRESS_ERROR True s3 else Some s3);
     Some (upd_cpu k (\<lambda>cpu. cpu\<lparr>insn_exception := SH2E_EXCEPTION_NONE, pr_state := SH2E_PSTATE_PROGRAM_EXECUTION\<rparr>) s4)
   }"
  by pat_completeness auto
termination by (relation "measure (\<lambda>(k, ex, disabled, s). if disabled then 0 else 1)") simp_all

declare sh2e_cpu_handle_exception.simps [simp del]

definition interrupt_pc :: "sh2e_cpu \<Rightarrow> u32" where
  "interrupt_pc cpu =
     (if br_state cpu = SH2E_BRANCH_STATE_EXECUTE \<or> br_state cpu = SH2E_BRANCH_STATE_DELAY then pc_target cpu
      else sh_pc cpu + 2)"

definition sh2e_cpu_handle_interrupt :: "'d peripheral_ops \<Rightarrow> nat \<Rightarrow> ('d, 'z) sh2e_sim \<Rightarrow> ('d, 'z) sh2e_sim option" where
  "sh2e_cpu_handle_interrupt P k s = do {
     let s1 = upd_cpu k (\<lambda>cpu. cpu\<lparr>pr_state := SH2E_PSTATE_EXCEPTION_PROCESSING\<rparr>) s;
     let source = unat (pending_interrupt (sh_cpu k s1));
     s2 \<leftarrow> for_each_peripheral (interrupt_up_from_cpu P source) (on_chip_peripherals (sh_cpu k s1)) s1;
     (stack_ex, sp, s3) \<leftarrow> push_sr_pc k (interrupt_pc (sh_cpu k s2)) s2;
     s4 \<leftarrow> jump_vector k sp (eva (sh_cpu k s3) (unat (pending_interrupt (sh_cpu k s3)))) s3;
     (new_mask, s5) \<leftarrow> on_intc k sh2e_accept_interrupt s4;
     let s6 = upd_cpu k (set_sr_im new_mask) s5;
     s7 \<leftarrow> (if stack_ex then sh2e_cpu_handle_exception k SH2E_EXCEPTION_CPU_ADDRESS_ERROR True s6 else Some s6);
     Some (upd_cpu k (\<lambda>cpu. cpu\<lparr>br_state := SH2E_BRANCH_STATE_NONE, pending_interrupt := 0,
       pr_state := SH2E_PSTATE_PROGRAM_EXECUTION\<rparr>) s7)
   }"

subsection \<open>Resets\<close>

text \<open>An unknown reset number leaves the request as it is.\<close>

definition reset_request :: "nat \<Rightarrow> sh2e_cpu \<Rightarrow> sh2e_reset_req" where
  "reset_request reset cpu =
     (if reset = SH2E_INTC_POWER_ON_RESET_EXTERNAL_OFFSET then SH2E_POWER_ON_RESET_REQ_EXTERNAL
      else if reset = SH2E_INTC_POWER_ON_RESET_INTERNAL_OFFSET then SH2E_POWER_ON_RESET_REQ_INTERNAL
      else if reset = SH2E_INTC_MANUAL_RESET_OFFSET then SH2E_MANUAL_RESET_REQ
      else reset_req cpu)"

definition sh2e_cpu_check_reset_req :: "sh2e_cpu \<Rightarrow> (bool \<times> sh2e_cpu) option" where
  "sh2e_cpu_check_reset_req cpu = do {
     ic \<leftarrow> intc cpu;
     Some (case sh2e_check_pending_resets ic of
             None \<Rightarrow> (False, cpu)
           | Some reset \<Rightarrow> (True, cpu\<lparr>reset_req := reset_request reset cpu, pr_state := SH2E_PSTATE_RESET\<rparr>))
   }"

text \<open>The entries of the vector table with the initial program counter and stack pointer.\<close>

primrec reset_vectors :: "sh2e_reset_req \<Rightarrow> (nat \<times> nat) option" where
  "reset_vectors SH2E_POWER_ON_RESET_REQ_INTERNAL = Some (0, 1)"
| "reset_vectors SH2E_POWER_ON_RESET_REQ_EXTERNAL = Some (0, 1)"
| "reset_vectors SH2E_POWER_ON_RESET_INITIAL = Some (0, 1)"
| "reset_vectors SH2E_MANUAL_RESET_REQ = Some (2, 3)"
| "reset_vectors SH2E_RESET_REQ_NONE = None"

definition sh2e_cpu_reset :: "nat \<Rightarrow> ('d, 'z) sh2e_sim \<Rightarrow> ('d, 'z) sh2e_sim option" where
  "sh2e_cpu_reset k s = do {
     let s1 = upd_cpu k (\<lambda>cpu. cpu\<lparr>sh_vbr := 0, sh_sr := 0xF0, sh_fpscr := 0x40001\<rparr>) s;
     let cpu = sh_cpu k s1;
     let (eva_pc_addr, eva_sp_addr) = (case reset_vectors (reset_req cpu) of
           None \<Rightarrow> (0, 0) | Some (p, q) \<Rightarrow> (eva cpu p, eva cpu q));
     (sp, s2) \<leftarrow> sh2e_physmem_read32 (sh_id cpu) eva_sp_addr False s1;
     let s3 = upd_cpu k (set_gr 15 sp) s2;
     (pc, s4) \<leftarrow> sh2e_physmem_read32 (sh_id (sh_cpu k s3)) eva_pc_addr False s3;
     let s5 = upd_cpu k (\<lambda>cpu. cpu\<lparr>sh_pc := pc\<rparr>) s4;
     (if reset_req (sh_cpu k s5) \<noteq> SH2E_POWER_ON_RESET_INITIAL
      then map_option snd (on_intc k (\<lambda>ic. Some ((), sh2e_intc_init_regs ic)) s5)
      else Some s5)
   }"

text \<open>The number that tells the peripherals of a reset, if they are told.\<close>

primrec reset_signal :: "sh2e_reset_req \<Rightarrow> nat option" where
  "reset_signal SH2E_POWER_ON_RESET_REQ_INTERNAL = Some SH2E_INTC_POWER_ON_RESET_INTERNAL_OFFSET"
| "reset_signal SH2E_POWER_ON_RESET_REQ_EXTERNAL = Some SH2E_INTC_POWER_ON_RESET_EXTERNAL_OFFSET"
| "reset_signal SH2E_POWER_ON_RESET_INITIAL = None"
| "reset_signal SH2E_MANUAL_RESET_REQ = Some SH2E_INTC_MANUAL_RESET_OFFSET"
| "reset_signal SH2E_RESET_REQ_NONE = None"

subsection \<open>The steps of the processing states\<close>

definition sh2e_standby_state_step :: "nat \<Rightarrow> ('d, 'z) sh2e_sim \<Rightarrow> ('d, 'z) sh2e_sim option" where
  "sh2e_standby_state_step k s = do {
     (reset, cpu) \<leftarrow> sh2e_cpu_check_reset_req (sh_cpu k s);
     let s1 = upd_cpu k (\<lambda>_. cpu) s;
     (if reset then Some s1
      else do {
        ((interrupt_pending, interrupt_source), s2) \<leftarrow>
          on_intc k (\<lambda>ic. map_option (\<lambda>(p, n, ic1). ((p, n), ic1)) (sh2e_check_pending_interrupts ic (sr_im cpu) 0)) s1;
        let s3 = (if interrupt_pending
                  then upd_cpu k (\<lambda>cpu. cpu\<lparr>pending_interrupt := interrupt_source, pr_state := SH2E_PSTATE_EXCEPTION_PROCESSING\<rparr>) s2
                  else s2);
        Some (upd_cpu k (\<lambda>cpu. cpu\<lparr>power_down_cycles := power_down_cycles cpu + 1\<rparr>) s3)
      })
   }"

definition sh2e_reset_state_step :: "'d peripheral_ops \<Rightarrow> nat \<Rightarrow> ('d, 'z) sh2e_sim \<Rightarrow> ('d, 'z) sh2e_sim option" where
  "sh2e_reset_state_step P k s = do {
     (_, s1) \<leftarrow> on_intc k (\<lambda>ic. Some ((), sh2e_accept_reset ic)) s;
     s2 \<leftarrow> sh2e_cpu_reset k s1;
     s3 \<leftarrow> (case reset_signal (reset_req (sh_cpu k s2)) of
              Some int_no \<Rightarrow> for_each_peripheral (interrupt_up_from_cpu P int_no) (on_chip_peripherals (sh_cpu k s2)) s2
            | None \<Rightarrow> Some s2);
     Some (upd_cpu k (\<lambda>cpu. cpu\<lparr>reset_req := SH2E_RESET_REQ_NONE, pr_state := SH2E_PSTATE_PROGRAM_EXECUTION\<rparr>) s3)
   }"

text \<open>Address errors are postponed while the instruction disables them.\<close>

definition is_address_error :: "sh2e_exception \<Rightarrow> bool" where
  "is_address_error ex \<longleftrightarrow> ex = SH2E_EXCEPTION_CPU_ADDRESS_ERROR \<or> ex = SH2E_EXCEPTION_DMAC_ADDRESS_ERROR"

definition postpone_address_error :: "sh2e_cpu \<Rightarrow> sh2e_cpu" where
  "postpone_address_error cpu =
     (if disable_address_errors cpu \<and> is_address_error (insn_exception cpu)
      then cpu\<lparr>pending_address_error := insn_exception cpu, insn_exception := SH2E_EXCEPTION_NONE\<rparr> else cpu)"

text \<open>The address error that is accepted and what is pending afterwards.\<close>

definition accepted_addr_error :: "sh2e_cpu \<Rightarrow> sh2e_exception" where
  "accepted_addr_error cpu =
     (if pending_address_error cpu \<noteq> SH2E_EXCEPTION_NONE then pending_address_error cpu else insn_exception cpu)"

definition accept_addr_error :: "sh2e_exception \<Rightarrow> sh2e_cpu \<Rightarrow> sh2e_cpu" where
  "accept_addr_error ex cpu = cpu\<lparr>pending_address_error :=
     (if pending_address_error cpu = ex then insn_exception cpu else SH2E_EXCEPTION_NONE)\<rparr>"

definition addr_error_raised :: "sh2e_exception \<Rightarrow> sh2e_cpu \<Rightarrow> bool" where
  "addr_error_raised ex cpu \<longleftrightarrow>
     (pending_address_error cpu = ex \<or> insn_exception cpu = ex) \<and> \<not> disable_address_errors cpu"

definition sh2e_exception_state_step :: "'d peripheral_ops \<Rightarrow> nat \<Rightarrow> ('d, 'z) sh2e_sim \<Rightarrow> ('d, 'z) sh2e_sim option" where
  "sh2e_exception_state_step P k s =
     (let s1 = upd_cpu k postpone_address_error s; cpu = sh_cpu k s1
      in if addr_error_raised SH2E_EXCEPTION_CPU_ADDRESS_ERROR cpu then
           sh2e_cpu_handle_exception k (accepted_addr_error cpu) False
             (upd_cpu k (accept_addr_error SH2E_EXCEPTION_CPU_ADDRESS_ERROR) s1)
         else if addr_error_raised SH2E_EXCEPTION_DMAC_ADDRESS_ERROR cpu then
           sh2e_cpu_handle_exception k (accepted_addr_error cpu) False
             (upd_cpu k (accept_addr_error SH2E_EXCEPTION_DMAC_ADDRESS_ERROR) s1)
         else if insn_exception cpu = SH2E_EXCEPTION_FPU_OPERATION then
           sh2e_cpu_handle_exception k (insn_exception cpu) False s1
         else if pending_interrupt cpu \<noteq> 0 then sh2e_cpu_handle_interrupt P k s1
         else if insn_exception cpu \<noteq> SH2E_EXCEPTION_NONE then
           sh2e_cpu_handle_exception k (insn_exception cpu) False s1
         else Some s1)"

text \<open>The update of the program counter with delay slots.\<close>

definition advance_pc :: "sh2e_cpu \<Rightarrow> sh2e_cpu" where
  "advance_pc cpu =
     (if pr_state cpu = SH2E_PSTATE_PROGRAM_EXECUTION then
        (case br_state cpu of
           SH2E_BRANCH_STATE_DELAY_NEXT \<Rightarrow> cpu\<lparr>br_state := SH2E_BRANCH_STATE_DELAY, sh_pc := sh_pc cpu + 2\<rparr>
         | SH2E_BRANCH_STATE_NONE \<Rightarrow> cpu\<lparr>sh_pc := sh_pc cpu + 2\<rparr>
         | SH2E_BRANCH_STATE_DELAY \<Rightarrow> cpu\<lparr>sh_pc := pc_target cpu, br_state := SH2E_BRANCH_STATE_NONE\<rparr>
         | SH2E_BRANCH_STATE_EXECUTE \<Rightarrow> cpu\<lparr>sh_pc := pc_target cpu, br_state := SH2E_BRANCH_STATE_NONE\<rparr>)
      else cpu)"

text \<open>The polling of the controller after an instruction that does not disable interrupts.\<close>

definition poll_interrupts :: "nat \<Rightarrow> ('d, 'z) sh2e_sim \<Rightarrow> ('d, 'z) sh2e_sim option" where
  "poll_interrupts k s =
     (if \<not> disable_interrupts (sh_cpu k s) then do {
        ((interrupt_pending, interrupt_source), s1) \<leftarrow>
          on_intc k (\<lambda>ic. map_option (\<lambda>(p, n, ic1). ((p, n), ic1)) (sh2e_check_pending_interrupts ic (sr_im (sh_cpu k s)) 0)) s;
        Some (if interrupt_pending then upd_cpu k (\<lambda>cpu. cpu\<lparr>pending_interrupt := interrupt_source\<rparr>) s1 else s1)
      } else Some s)"

definition exception_due :: "sh2e_cpu \<Rightarrow> bool" where
  "exception_due cpu \<longleftrightarrow> insn_exception cpu \<noteq> SH2E_EXCEPTION_NONE \<or>
     pending_address_error cpu \<noteq> SH2E_EXCEPTION_NONE \<or> pending_interrupt cpu \<noteq> 0"

definition sh2e_program_execution_state_step :: "host_float \<Rightarrow> 'd peripheral_ops \<Rightarrow> nat \<Rightarrow> ('d, 'z) sh2e_sim \<Rightarrow>
    ('d, 'z) sh2e_sim option" where
  "sh2e_program_execution_state_step H P k s = do {
     (reset, cpu) \<leftarrow> sh2e_cpu_check_reset_req (sh_cpu k s);
     let s0 = upd_cpu k (\<lambda>_. cpu) s;
     (if reset then Some s0
      else do {
        (insn_cycles, s1) \<leftarrow>
          (if pr_state cpu \<noteq> SH2E_PSTATE_POWER_DOWN then do {
             (ex, n, s1) \<leftarrow> sh2e_cpu_execute_insn H k s0;
             Some (n, upd_cpu k (\<lambda>cpu. cpu\<lparr>insn_exception := ex\<rparr>) s1)
           } else Some (0, s0));
        s2 \<leftarrow> (if pr_state (sh_cpu k s1) = SH2E_PSTATE_POWER_DOWN
               then for_each_peripheral (interrupt_up_from_cpu P SH2E_INTC_SLEEP_MODE_OFFSET) (on_chip_peripherals (sh_cpu k s1)) s1
               else Some s1);
        s3 \<leftarrow> poll_interrupts k s2;
        let s4 = (if exception_due (sh_cpu k s3)
                  then upd_cpu k (\<lambda>cpu. cpu\<lparr>pr_state := SH2E_PSTATE_EXCEPTION_PROCESSING\<rparr>) s3 else s3);
        let s5 = upd_cpu k (\<lambda>cpu. cpu\<lparr>program_execution_cycles := program_execution_cycles cpu + of_nat insn_cycles\<rparr>) s4;
        s6 \<leftarrow> for_each_peripheral (update_cycles P (of_nat insn_cycles)) (on_chip_peripherals (sh_cpu k s5)) s5;
        Some (upd_cpu k advance_pc s6)
      })
   }"

subsection \<open>The processor and its device\<close>

definition sh2e_cpu_init :: "nat \<Rightarrow> sh2e_cpu" where
  "sh2e_cpu_init n =
     \<lparr>sh_general = (\<lambda>_. 0), sh_sr = 0, sh_gbr = 0, sh_vbr = 0, sh_mach = 0, sh_macl = 0, sh_pr = 0, sh_pc = 0,
      sh_fr = (\<lambda>_. 0), sh_fpu_rsv0 = 0, sh_fpul = 0, sh_fpscr = 0, sh_fpu_rsv3 = 0,
      pc_target = 0, pr_state = SH2E_PSTATE_RESET, br_state = SH2E_BRANCH_STATE_NONE, sh_id = n,
      program_execution_cycles = 0, power_down_cycles = 0, intc = None, disable_interrupts = False,
      disable_address_errors = False, insn_exception = SH2E_EXCEPTION_CPU_ADDRESS_ERROR, pending_interrupt = 0,
      pending_address_error = SH2E_EXCEPTION_NONE, reset_req = SH2E_POWER_ON_RESET_INITIAL, on_chip_peripherals = []\<rparr>"

definition sh2e_cpu_done :: "('d, 'z) sh2e_sim \<Rightarrow> ('d, 'z) sh2e_sim" where
  "sh2e_cpu_done s = s\<lparr>sh2e_insn_cache := []\<rparr>"

definition sh2e_cpu_step :: "host_float \<Rightarrow> 'd peripheral_ops \<Rightarrow> nat \<Rightarrow> ('d, 'z) sh2e_sim \<Rightarrow> ('d, 'z) sh2e_sim option" where
  "sh2e_cpu_step H P k s =
     (case pr_state (sh_cpu k s) of
        SH2E_PSTATE_RESET \<Rightarrow> sh2e_reset_state_step P k s
      | SH2E_PSTATE_EXCEPTION_PROCESSING \<Rightarrow> sh2e_exception_state_step P k s
      | SH2E_PSTATE_PROGRAM_EXECUTION \<Rightarrow> sh2e_program_execution_state_step H P k s
      | SH2E_PSTATE_POWER_DOWN \<Rightarrow> sh2e_standby_state_step k s
      | SH2E_PSTATE_BUS_RELEASE \<Rightarrow> Some s)"

definition sh2e_cpu_goto :: "sh2e_cpu \<Rightarrow> u64 \<Rightarrow> sh2e_cpu option" where
  "sh2e_cpu_goto cpu addr = do {
     let lo = (ucast addr :: u32);
     ASSERT (IS_ALIGNED lo 2);
     Some (cpu\<lparr>sh_pc := lo\<rparr>)
   }"

definition sh2e_cpu_assert_interrupt :: "sh2e_cpu \<Rightarrow> nat \<Rightarrow> sh2e_cpu option" where
  "sh2e_cpu_assert_interrupt cpu num =
     (if num = SH2E_INTC_DMAC_VECTOR_ADDRESS_OFFSET
      then Some (cpu\<lparr>pending_address_error := SH2E_EXCEPTION_DMAC_ADDRESS_ERROR, pr_state := SH2E_PSTATE_EXCEPTION_PROCESSING\<rparr>)
      else do {
        ic \<leftarrow> intc cpu;
        ic1 \<leftarrow> sh2e_intc_assert_interrupt ic num;
        Some (cpu\<lparr>intc := Some ic1\<rparr>)
      })"

definition sh2e_cpu_deassert_interrupt :: "sh2e_cpu \<Rightarrow> nat \<Rightarrow> sh2e_cpu option" where
  "sh2e_cpu_deassert_interrupt cpu num = do {
     ic \<leftarrow> intc cpu;
     ic1 \<leftarrow> sh2e_intc_deassert_interrupt ic num;
     Some (cpu\<lparr>intc := Some ic1\<rparr>)
   }"

text \<open>The table has no \<open>sc_access\<close>: the call of the null pointer is undefined.\<close>

definition sh2e_cpu_ops :: "sh2e_cpu cpu_ops" where
  "sh2e_cpu_ops = \<lparr>op_interrupt_up = sh2e_cpu_assert_interrupt, op_interrupt_down = sh2e_cpu_deassert_interrupt,
     op_set_pc = sh2e_cpu_goto, op_sc_access = (\<lambda>_ _ _. None)\<rparr>"

text \<open>\<open>g\<close> and \<open>d\<close> are the cells that \<open>malloc\<close> returns for the two structures.\<close>

definition dsh2ecpu_cmd_init :: "nat \<Rightarrow> nat \<Rightarrow> ('d, 'z) sh2e_sim \<Rightarrow> (bool \<times> ('d, 'z) sh2e_sim) option" where
  "dsh2ecpu_cmd_init g d s = do {
     no \<leftarrow> get_free_cpuno s;
     (if no = MAX_CPUS then Some (False, s)
      else Some (True, add_cpu g (s\<lparr>cpu_mem := (cpu_mem s)(d := sh2e_cpu_init no),
             gcpus := (gcpus s)(g := \<lparr>cpuno = no, cpu_type = sh2e_cpu_ops, cpu_data = d\<rparr>)\<rparr>)))
   }"

text \<open>The cleanup frees both structures, but leaves the processor in the list of processors.\<close>

definition dsh2ecpu_done :: "('d, 'z) sh2e_sim \<Rightarrow> ('d, 'z) sh2e_sim" where
  "dsh2ecpu_done s = sh2e_cpu_done s"

definition dsh2ecpu_cmd_goto :: "u64 \<Rightarrow> sh2e_cpu \<Rightarrow> sh2e_cpu option" where
  "dsh2ecpu_cmd_goto addr cpu = sh2e_cpu_goto cpu (ALIGN_DOWN addr 2)"

definition dsh2ecpu_cmd_assert_interrupt :: "u64 \<Rightarrow> sh2e_cpu \<Rightarrow> sh2e_cpu option" where
  "dsh2ecpu_cmd_assert_interrupt parm cpu = sh2e_cpu_assert_interrupt cpu (unat (ucast parm :: u16))"

text \<open>
  What \<open>dev_by_name\<close> finds is an argument: \<open>None\<close> for no device, then the controller of the device if
  it is one, or the number of the device if it is a peripheral.
\<close>

definition dsh2ecpu_cmd_set_intc :: "sh2e_intc option option \<Rightarrow> sh2e_cpu \<Rightarrow> bool \<times> sh2e_cpu" where
  "dsh2ecpu_cmd_set_intc intc_dev cpu =
     (case intc_dev of None \<Rightarrow> (False, cpu) | Some ic \<Rightarrow> (ic \<noteq> None, cpu\<lparr>intc := ic\<rparr>))"

definition dsh2ecpu_cmd_add_peripheral :: "nat option option \<Rightarrow> sh2e_cpu \<Rightarrow> bool \<times> sh2e_cpu" where
  "dsh2ecpu_cmd_add_peripheral peripheral_dev cpu =
     (case peripheral_dev of
        Some (Some i) \<Rightarrow> (True, cpu\<lparr>on_chip_peripherals := on_chip_peripherals cpu @ [i]\<rparr>)
      | _ \<Rightarrow> (False, cpu))"

end
