(* ===== verification/Dsh2ecmt.thy ===== *)
theory Dsh2ecmt
  imports Device_Init
begin

text \<open>
  The compare match timer of the SH-2E, \<open>src/src/device/dsh2ecmt.c\<close> and \<open>dsh2ecmt.h\<close>. A channel counts
  processor cycles down to periods of its clock; a compare match restarts the count and may raise an
  interrupt. The step gives the interrupts it raises on the processor of the timer, in order.
\<close>

record sh2e_cmt_channel_reg =
  cmcsr :: u16
  cmcnt :: u16
  cmcor :: u16

record sh2e_cmt =
  cmt_cpu :: "nat option"
  cmt_regs_addr :: u64
  cmstr :: u16
  channel0 :: sh2e_cmt_channel_reg
  channel1 :: sh2e_cmt_channel_reg
  cmt_cycles :: u32
  counter0 :: u64
  counter1 :: u64
  int_no_first_channel :: nat
  int_no_second_channel :: nat
  interrupts_channel_0_count :: u64
  interrupts_channel_1_count :: u64

text \<open>The fields of \<open>cmcsr\<close>: the clock in bits 0 and 1, the interrupt enable in bit 6, the flag in bit 7.\<close>

definition put_bit16 :: "nat \<Rightarrow> bool \<Rightarrow> u16 \<Rightarrow> u16" where
  "put_bit16 n b w = (if b then w OR push_bit n 1 else w AND NOT (push_bit n 1))"

definition channel_of :: "bool \<Rightarrow> sh2e_cmt \<Rightarrow> sh2e_cmt_channel_reg" where
  "channel_of c cmt = (if c then channel1 cmt else channel0 cmt)"

definition upd_channel :: "bool \<Rightarrow> (sh2e_cmt_channel_reg \<Rightarrow> sh2e_cmt_channel_reg) \<Rightarrow> sh2e_cmt \<Rightarrow> sh2e_cmt" where
  "upd_channel c f cmt = (if c then cmt\<lparr>channel1 := f (channel1 cmt)\<rparr> else cmt\<lparr>channel0 := f (channel0 cmt)\<rparr>)"

subsection \<open>Registers\<close>

definition sh2e_cmt_cmstr_reg_write :: "u16 \<Rightarrow> sh2e_cmt \<Rightarrow> sh2e_cmt" where
  "sh2e_cmt_cmstr_reg_write value cmt = cmt\<lparr>cmstr := value AND 0x3\<rparr>"

definition sh2e_cmt_cmcsr_reg_write :: "u16 \<Rightarrow> sh2e_cmt_channel_reg \<Rightarrow> sh2e_cmt_channel_reg" where
  "sh2e_cmt_cmcsr_reg_write value ch =
     (let r = put_bit16 6 (bit value 6) (put_bit16 1 (bit value 1) (put_bit16 0 (bit value 0) (cmcsr ch)))
      in ch\<lparr>cmcsr := (if \<not> bit value 7 then put_bit16 7 False r else r)\<rparr>)"

definition read_byte_from_register :: "u16 \<Rightarrow> bool \<Rightarrow> u8" where
  "read_byte_from_register reg upper_byte = (if upper_byte then ucast (drop_bit 8 reg AND 0xFF) else ucast (reg AND 0xFF))"

definition write_byte_to_register :: "u16 \<Rightarrow> bool \<Rightarrow> u8 \<Rightarrow> u16" where
  "write_byte_to_register reg upper_byte val =
     (if upper_byte then (reg AND 0x00FF) OR push_bit 8 (ucast val) else (reg AND 0xFF00) OR ucast val)"

definition sh2e_cmt_reset :: "sh2e_cmt \<Rightarrow> sh2e_cmt" where
  "sh2e_cmt_reset cmt = cmt\<lparr>counter0 := 0, counter1 := 0, cmstr := 0,
     channel0 := \<lparr>cmcsr = 0, cmcnt = 0, cmcor = 0xFFFF\<rparr>, channel1 := \<lparr>cmcsr = 0, cmcnt = 0, cmcor = 0xFFFF\<rparr>\<rparr>"

definition sh2e_cmt_cpu_cycles_update :: "u32 \<Rightarrow> sh2e_cmt \<Rightarrow> sh2e_cmt" where
  "sh2e_cmt_cpu_cycles_update n cmt = cmt\<lparr>cmt_cycles := n\<rparr>"

definition sh2e_cmt_interrupt_up :: "nat \<Rightarrow> sh2e_cmt \<Rightarrow> sh2e_cmt" where
  "sh2e_cmt_interrupt_up int_no cmt = (if int_no \<in> {0, 1, 5} then sh2e_cmt_reset cmt else cmt)"

text \<open>What \<open>malloc\<close> leaves in the pointer to the processor is the argument \<open>junk\<close>.\<close>

definition dsh2ecmt_init :: "nat option \<Rightarrow> u64 \<Rightarrow> u64 \<Rightarrow> u64 option \<Rightarrow> cmd_error + sh2e_cmt" where
  "dsh2ecmt_init junk first second parm =
     (case check_block (2 * 6 + 2) (case parm of None \<Rightarrow> 0xFFFFF710 | Some addr \<Rightarrow> addr) of
        Inl e \<Rightarrow> Inl e
      | Inr addr \<Rightarrow> Inr (sh2e_cmt_reset
          \<lparr>cmt_cpu = junk, cmt_regs_addr = addr, cmstr = 0,
           channel0 = \<lparr>cmcsr = 0, cmcnt = 0, cmcor = 0\<rparr>, channel1 = \<lparr>cmcsr = 0, cmcnt = 0, cmcor = 0\<rparr>,
           cmt_cycles = 0, counter0 = 0, counter1 = 0,
           int_no_first_channel = unat (ucast first :: u32), int_no_second_channel = unat (ucast second :: u32),
           interrupts_channel_0_count = 0, interrupts_channel_1_count = 0\<rparr>))"

text \<open>
  The 16-bit register at an even offset, if there is one. The channel is chosen by comparing the
  offset with that of \<open>CMCSR1\<close>.
\<close>

definition cmt_register :: "ptr36 \<Rightarrow> sh2e_cmt \<Rightarrow> u16 option" where
  "cmt_register offset cmt = (let ch = channel_of (offset \<ge> 8) cmt in
     (if offset = 0 then Some (cmstr cmt)
      else if offset \<in> {2, 8} then Some (cmcsr ch)
      else if offset \<in> {4, 0xA} then Some (cmcnt ch)
      else if offset \<in> {6, 0xC} then Some (cmcor ch)
      else None))"

definition cmt_register_write :: "ptr36 \<Rightarrow> u16 \<Rightarrow> sh2e_cmt \<Rightarrow> sh2e_cmt" where
  "cmt_register_write offset value cmt = (let c = (offset \<ge> 8) in
     (if offset = 0 then sh2e_cmt_cmstr_reg_write value cmt
      else if offset \<in> {2, 8} then upd_channel c (sh2e_cmt_cmcsr_reg_write value) cmt
      else if offset \<in> {4, 0xA} then upd_channel c (\<lambda>ch. ch\<lparr>cmcnt := value\<rparr>) cmt
      else if offset \<in> {6, 0xC} then upd_channel c (\<lambda>ch. ch\<lparr>cmcor := value\<rparr>) cmt
      else cmt))"

definition dsh2ecmt_read8 :: "(sh2e_cmt, u8) dev_read" where
  "dsh2ecmt_read8 procno cmt addr val = (let offset = addr - cmt_regs_addr cmt in
     (case cmt_register (offset - offset mod 2) cmt of
        Some r \<Rightarrow> Some (read_byte_from_register r (offset mod 2 = 0), cmt, [])
      | None \<Rightarrow> Some (val, cmt, [])))"

definition dsh2ecmt_read16 :: "(sh2e_cmt, u16) dev_read" where
  "dsh2ecmt_read16 procno cmt addr val =
     (case cmt_register (addr - cmt_regs_addr cmt) cmt of
        Some r \<Rightarrow> Some (be16toh r, cmt, [])
      | None \<Rightarrow> Some (val, cmt, []))"

definition dsh2ecmt_read32 :: "(sh2e_cmt, u32) dev_read" where
  "dsh2ecmt_read32 procno cmt addr val = (let offset = addr - cmt_regs_addr cmt;
       pair = (\<lambda>(hi :: u16) (lo :: u16). be32toh (push_bit 16 (ucast hi) OR ucast lo)) in
     (if offset = 0 then Some (pair (cmstr cmt) (cmcsr (channel0 cmt)), cmt, [])
      else if offset = 4 then Some (pair (cmcnt (channel0 cmt)) (cmcor (channel0 cmt)), cmt, [])
      else if offset = 8 then Some (pair (cmcsr (channel1 cmt)) (cmcnt (channel1 cmt)), cmt, [])
      else if offset = 0xC then Some (be32toh (push_bit 16 (ucast (cmcor (channel1 cmt)))), cmt, [])
      else Some (val, cmt, [])))"

definition dsh2ecmt_write8 :: "(sh2e_cmt, u8) dev_write" where
  "dsh2ecmt_write8 procno cmt addr val = (let offset = addr - cmt_regs_addr cmt; base = offset - offset mod 2 in
     (case cmt_register base cmt of
        Some r \<Rightarrow> Some (cmt_register_write base (write_byte_to_register r (offset mod 2 = 0) val) cmt, [])
      | None \<Rightarrow> Some (cmt, [])))"

definition dsh2ecmt_write16 :: "(sh2e_cmt, u16) dev_write" where
  "dsh2ecmt_write16 procno cmt addr val = Some (cmt_register_write (addr - cmt_regs_addr cmt) (be16toh val) cmt, [])"

definition dsh2ecmt_write32 :: "(sh2e_cmt, u32) dev_write" where
  "dsh2ecmt_write32 procno cmt addr val = (let offset = addr - cmt_regs_addr cmt; be_value = be32toh val;
       hi = ucast (drop_bit 16 be_value) :: u16; lo = ucast be_value :: u16 in
     (if offset = 0 then Some (upd_channel False (sh2e_cmt_cmcsr_reg_write lo) (sh2e_cmt_cmstr_reg_write hi cmt), [])
      else if offset = 4 then Some (upd_channel False (\<lambda>ch. ch\<lparr>cmcnt := hi, cmcor := lo\<rparr>) cmt, [])
      else if offset = 8 then Some (upd_channel True (\<lambda>ch. (sh2e_cmt_cmcsr_reg_write hi ch)\<lparr>cmcnt := lo\<rparr>) cmt, [])
      else if offset = 0xC then Some (upd_channel True (\<lambda>ch. ch\<lparr>cmcor := hi\<rparr>) cmt, [])
      else Some (cmt, [])))"

subsection \<open>The step\<close>

definition cmt_period :: "sh2e_cmt_channel_reg \<Rightarrow> u64" where
  "cmt_period ch = (if bit (cmcsr ch) 1 then (if bit (cmcsr ch) 0 then 512 else 128)
                    else (if bit (cmcsr ch) 0 then 32 else 8))"

text \<open>One tick of the counter: the channel and whether it raises its interrupt.\<close>

definition cmt_tick :: "sh2e_cmt_channel_reg \<Rightarrow> bool \<times> sh2e_cmt_channel_reg" where
  "cmt_tick ch =
     (let ch1 = ch\<lparr>cmcnt := cmcnt ch + 1\<rparr>
      in if cmcnt ch1 = cmcor ch1
         then (bit (cmcsr ch1) 6, ch1\<lparr>cmcsr := put_bit16 7 True (cmcsr ch1), cmcnt := 0\<rparr>)
         else (False, ch1))"

text \<open>The loop (no period is 0); the result is the rest of the counter, the channel and the number of interrupts.\<close>

function cmt_loop :: "u64 \<Rightarrow> u64 \<Rightarrow> sh2e_cmt_channel_reg \<Rightarrow> nat \<Rightarrow> u64 \<times> sh2e_cmt_channel_reg \<times> nat" where
  "cmt_loop period counter ch n =
     (if period \<noteq> 0 \<and> counter \<ge> period then
        (let (raised, ch1) = cmt_tick ch in cmt_loop period (counter - period) ch1 (if raised then n + 1 else n))
      else (counter, ch, n))"
  by pat_completeness auto
termination
  by (relation "measure (\<lambda>(period, counter, ch, n). unat counter)") (auto simp: period_decreases)

declare cmt_loop.simps [simp del]

definition update_channel_counter :: "bool \<Rightarrow> sh2e_cmt \<Rightarrow> sh2e_cmt \<times> nat list" where
  "update_channel_counter c cmt =
     (let ch = channel_of c cmt;
          start = (if c then counter1 cmt else counter0 cmt) + ucast (cmt_cycles cmt);
          (counter, ch1, n) = cmt_loop (cmt_period ch) start ch 0;
          cmt1 = upd_channel c (\<lambda>_. ch1) cmt
      in if c then (cmt1\<lparr>counter1 := counter, interrupts_channel_1_count := interrupts_channel_1_count cmt1 + of_nat n\<rparr>,
                    replicate n (int_no_second_channel cmt1))
         else (cmt1\<lparr>counter0 := counter, interrupts_channel_0_count := interrupts_channel_0_count cmt1 + of_nat n\<rparr>,
               replicate n (int_no_first_channel cmt1)))"

definition dsh2ecmt_step :: "sh2e_cmt \<Rightarrow> sh2e_cmt \<times> nat list" where
  "dsh2ecmt_step cmt =
     (let (cmt1, irqs1) = (if bit (cmstr cmt) 0 then update_channel_counter False cmt else (cmt, []));
          (cmt2, irqs2) = (if bit (cmstr cmt1) 1 then update_channel_counter True cmt1 else (cmt1, []))
      in (cmt2\<lparr>cmt_cycles := 0\<rparr>, irqs1 @ irqs2))"

text \<open>The processor that \<open>dev_by_name\<close> finds, and whether it is one, are arguments.\<close>

definition dsh2ecmt_add_cpu :: "nat option option \<Rightarrow> sh2e_cmt \<Rightarrow> cmd_error + sh2e_cmt" where
  "dsh2ecmt_add_cpu cpu_dev cmt =
     (case cpu_dev of
        None \<Rightarrow> Inl No_such_device
      | Some None \<Rightarrow> Inl Not_a_cpu
      | Some (Some g) \<Rightarrow> Inr (cmt\<lparr>cmt_cpu := Some g\<rparr>))"

definition dsh2ecmt_type :: "sh2e_cmt device_type" where
  "dsh2ecmt_type = \<lparr>read8 = Some dsh2ecmt_read8, read16 = Some dsh2ecmt_read16, read32 = Some dsh2ecmt_read32, read64 = None,
     write8 = Some dsh2ecmt_write8, write16 = Some dsh2ecmt_write16, write32 = Some dsh2ecmt_write32, write64 = None\<rparr>"

end
