(* ===== verification/Dsh2ewdt.thy ===== *)
theory Dsh2ewdt
  imports Device_Init
begin

text \<open>
  The watchdog timer of the SH-2E, \<open>src/src/device/dsh2ewdt.c\<close> and \<open>dsh2ewdt.h\<close>. Its counter overflows
  into an interrupt (interval timer) or into a reset (watchdog). The registers are written as 16-bit
  words with a key in the upper byte. The step gives the interrupt numbers it raises, in order.
\<close>

record sh2e_wdt =
  wdt_cpu :: "nat option"
  wdt_regs_addr :: u64
  tcsr :: u8
  tcnt :: u8
  rstcsr :: u8
  wdt_cycles :: u32
  wdt_counter :: u64
  wdt_int_no :: nat
  int_count :: u64
  manual_resets_count :: u64
  power_on_resets_count :: u64

text \<open>
  The fields of \<open>tcsr\<close>: the clock in bits 0 to 2, the enable bit 5, the mode bit 6, the overflow flag
  bit 7; of \<open>rstcsr\<close>: the kind of reset in bit 5, the reset enable bit 6, the overflow flag bit 7.
\<close>

definition put_bit8 :: "nat \<Rightarrow> bool \<Rightarrow> u8 \<Rightarrow> u8" where
  "put_bit8 n b w = (if b then w OR push_bit n 1 else w AND NOT (push_bit n 1))"

subsection \<open>Registers\<close>

definition sh2e_wdt_tcsr_reg_write :: "u8 \<Rightarrow> sh2e_wdt \<Rightarrow> sh2e_wdt" where
  "sh2e_wdt_tcsr_reg_write value wdt =
     (let r = put_bit8 6 (bit value 6) (put_bit8 5 (bit value 5) (put_bit8 2 (bit value 2)
              (put_bit8 1 (bit value 1) (put_bit8 0 (bit value 0) (tcsr wdt)))))
      in wdt\<lparr>tcsr := (if \<not> bit value 7 then put_bit8 7 False r else r)\<rparr>)"

definition sh2e_wdt_tcsr_reset :: "sh2e_wdt \<Rightarrow> sh2e_wdt" where
  "sh2e_wdt_tcsr_reset wdt = wdt\<lparr>tcsr := 0x18\<rparr>"

definition sh2e_wdt_tcnt_reset :: "sh2e_wdt \<Rightarrow> sh2e_wdt" where
  "sh2e_wdt_tcnt_reset wdt = wdt\<lparr>tcnt := 0\<rparr>"

definition sh2e_wdt_rstcsr_reset :: "sh2e_wdt \<Rightarrow> sh2e_wdt" where
  "sh2e_wdt_rstcsr_reset wdt = wdt\<lparr>rstcsr := 0x1F\<rparr>"

definition sh2e_wdt_cpu_cycles_update :: "u32 \<Rightarrow> sh2e_wdt \<Rightarrow> sh2e_wdt" where
  "sh2e_wdt_cpu_cycles_update n wdt = wdt\<lparr>wdt_cycles := n\<rparr>"

definition sh2e_wdt_interrupt_up :: "nat \<Rightarrow> sh2e_wdt \<Rightarrow> sh2e_wdt" where
  "sh2e_wdt_interrupt_up int_no wdt =
     (if int_no \<in> {0, 5} then sh2e_wdt_rstcsr_reset (sh2e_wdt_tcnt_reset (sh2e_wdt_tcsr_reset wdt))
      else if int_no = 1 then sh2e_wdt_tcnt_reset (sh2e_wdt_tcsr_reset wdt)
      else wdt)"

text \<open>
  The structure that \<open>malloc\<close> returns is the argument \<open>junk\<close>; the processor, the counter and the counts
  of resets keep its values.
\<close>

definition dsh2ewdt_init :: "sh2e_wdt \<Rightarrow> u64 \<Rightarrow> u64 option \<Rightarrow> cmd_error + sh2e_wdt" where
  "dsh2ewdt_init junk int_no parm =
     (case check_block 3 (case parm of None \<Rightarrow> 0xFFFFEC10 | Some addr \<Rightarrow> addr) of
        Inl e \<Rightarrow> Inl e
      | Inr addr \<Rightarrow> Inr (sh2e_wdt_rstcsr_reset (sh2e_wdt_tcnt_reset (sh2e_wdt_tcsr_reset
          (junk\<lparr>wdt_regs_addr := addr, wdt_int_no := unat (ucast int_no :: u32), wdt_cycles := 0, int_count := 0\<rparr>)))))"

definition dsh2ewdt_read8 :: "(sh2e_wdt, u8) dev_read" where
  "dsh2ewdt_read8 procno wdt addr val = (let offset = addr - wdt_regs_addr wdt in
     (if offset = 0 then Some (tcsr wdt, wdt, [])
      else if offset = 1 then Some (tcnt wdt, wdt, [])
      else if offset = 3 then Some (rstcsr wdt, wdt, [])
      else Some (val, wdt, [])))"

text \<open>The accesses that only report an error.\<close>

definition dsh2ewdt_read16 :: "(sh2e_wdt, u16) dev_read" where
  "dsh2ewdt_read16 procno wdt addr val = Some (val, wdt, [])"

definition dsh2ewdt_read32 :: "(sh2e_wdt, u32) dev_read" where
  "dsh2ewdt_read32 procno wdt addr val = Some (val, wdt, [])"

definition dsh2ewdt_write8 :: "(sh2e_wdt, u8) dev_write" where
  "dsh2ewdt_write8 procno wdt addr val = Some (wdt, [])"

definition dsh2ewdt_write32 :: "(sh2e_wdt, u32) dev_write" where
  "dsh2ewdt_write32 procno wdt addr val = Some (wdt, [])"

definition dsh2ewdt_write16 :: "(sh2e_wdt, u16) dev_write" where
  "dsh2ewdt_write16 procno wdt addr val =
     (let offset = addr - wdt_regs_addr wdt; be_value = be16toh val;
          upper = ucast (drop_bit 8 be_value AND 0xFF) :: u8; lower = ucast (be_value AND 0xFF) :: u8 in
     (if offset = 0 then
        (if upper = 0xA5 then Some (sh2e_wdt_tcsr_reg_write lower wdt, [])
         else if upper = 0x5A then Some (wdt\<lparr>tcnt := lower\<rparr>, [])
         else Some (wdt, []))
      else if offset = 2 then
        (if upper = 0xA5 then Some (if lower = 0 then wdt\<lparr>rstcsr := put_bit8 7 False (rstcsr wdt)\<rparr> else wdt, [])
         else if upper = 0x5A then Some (wdt\<lparr>rstcsr := put_bit8 5 (bit lower 5) (put_bit8 6 (bit lower 6) (rstcsr wdt))\<rparr>, [])
         else Some (wdt, []))
      else Some (wdt, [])))"

subsection \<open>The step\<close>

definition wdt_period :: "sh2e_wdt \<Rightarrow> u64" where
  "wdt_period wdt = [2, 64, 128, 256, 512, 1024, 4096, 8192] ! unat (tcsr wdt AND 7)"

text \<open>One tick of the counter, with the interrupt numbers it raises.\<close>

definition wdt_tick :: "sh2e_wdt \<Rightarrow> sh2e_wdt \<times> nat list" where
  "wdt_tick wdt =
     (let wdt1 = wdt\<lparr>tcnt := tcnt wdt + 1\<rparr>
      in if tcnt wdt1 \<noteq> 0 then (wdt1, [])
         else if bit (tcsr wdt1) 6 then
           (let wdt2 = wdt1\<lparr>rstcsr := put_bit8 7 True (rstcsr wdt1)\<rparr>
            in if bit (rstcsr wdt2) 6 then
                 (if bit (rstcsr wdt2) 5 then (wdt2\<lparr>manual_resets_count := manual_resets_count wdt2 + 1\<rparr>, [2])
                  else (wdt2\<lparr>power_on_resets_count := power_on_resets_count wdt2 + 1\<rparr>, [1]))
               else (sh2e_wdt_tcnt_reset (sh2e_wdt_tcsr_reset wdt2), []))
         else (wdt1\<lparr>tcsr := put_bit8 7 True (tcsr wdt1), int_count := int_count wdt1 + 1\<rparr>, [wdt_int_no wdt1]))"

text \<open>The loop (no period is 0).\<close>

function wdt_loop :: "u64 \<Rightarrow> u64 \<Rightarrow> sh2e_wdt \<Rightarrow> nat list \<Rightarrow> sh2e_wdt \<times> nat list" where
  "wdt_loop period counter wdt irqs =
     (if period \<noteq> 0 \<and> counter \<ge> period then
        (let (wdt1, irqs1) = wdt_tick wdt in wdt_loop period (counter - period) wdt1 (irqs @ irqs1))
      else (wdt\<lparr>wdt_counter := counter\<rparr>, irqs))"
  by pat_completeness auto
termination
  by (relation "measure (\<lambda>(period, counter, wdt, irqs). unat counter)") (auto simp: period_decreases)

declare wdt_loop.simps [simp del]

definition dsh2ewdt_step :: "sh2e_wdt \<Rightarrow> sh2e_wdt \<times> nat list" where
  "dsh2ewdt_step wdt =
     (let (wdt1, irqs) = (if bit (tcsr wdt) 5
                          then wdt_loop (wdt_period wdt) (wdt_counter wdt + ucast (wdt_cycles wdt)) wdt [] else (wdt, []))
      in (wdt1\<lparr>wdt_cycles := 0\<rparr>, irqs))"

definition dsh2e_wdt_add_cpu :: "nat option option \<Rightarrow> sh2e_wdt \<Rightarrow> cmd_error + sh2e_wdt" where
  "dsh2e_wdt_add_cpu cpu_dev wdt =
     (case cpu_dev of
        None \<Rightarrow> Inl No_such_device
      | Some None \<Rightarrow> Inl Not_a_cpu
      | Some (Some g) \<Rightarrow> Inr (wdt\<lparr>wdt_cpu := Some g\<rparr>))"

definition dsh2ewdt_type :: "sh2e_wdt device_type" where
  "dsh2ewdt_type = \<lparr>read8 = Some dsh2ewdt_read8, read16 = Some dsh2ewdt_read16, read32 = Some dsh2ewdt_read32, read64 = None,
     write8 = Some dsh2ewdt_write8, write16 = Some dsh2ewdt_write16, write32 = Some dsh2ewdt_write32, write64 = None\<rparr>"

end
