(* ===== verification/Dsh2edmac.thy ===== *)
theory Dsh2edmac
  imports Sh2e_Types
begin

text \<open>
  The registers of the direct memory access controller of the SH-2E, \<open>src/src/device/dsh2edmac.c\<close> and
  \<open>dsh2edmac.h\<close>. The transfers, which act on the whole machine, are in \<open>Sh2e_System\<close>. A picked channel of
  \<open>-1\<close> is \<open>None\<close>.
\<close>

record sh2e_dmac_channel_regs =
  sar :: u32
  dar :: u32
  tcr :: u32
  chcr :: u32

datatype sh2e_dmac_transfer_state =
    SH2E_DMAC_TRANSFER_STATE_INITIAL
  | SH2E_DMAC_TRANSFER_STATE_WAITING_FOR_REQUEST
  | SH2E_DMAC_TRANSFER_STATE_TRANSFERRING

datatype sh2e_dmac_peripheral_request_type = RECEIVE | TRANSMIT | DO_NOT_CARE

record sh2e_dmac_peripheral_request_table_entry =
  request_index :: u8
  request_pending :: bool
  request_registered :: bool
  request_type :: sh2e_dmac_peripheral_request_type
  peripheral_request_address :: u32

record sh2e_dmac =
  dmac_cpu :: "nat option"
  dmac_regs_addr :: u64
  dmaor :: u16
  channels :: "nat \<Rightarrow> sh2e_dmac_channel_regs"
  reload_counter :: u32
  interrupt_number :: "nat \<Rightarrow> nat"
  dmac_cycles :: u32
  transfer_state :: sh2e_dmac_transfer_state
  picked_channel :: "nat option"
  initial_sar2 :: u32
  peripheral_request_table :: "nat \<Rightarrow> sh2e_dmac_peripheral_request_table_entry"
  successful_transfers_count :: u64
  interrupts_count :: u64

text \<open>The fields of \<open>chcr\<close> and \<open>dmaor\<close>.\<close>

definition chcr_de :: "u32 \<Rightarrow> bool" where "chcr_de v = bit v 0"
definition chcr_te :: "u32 \<Rightarrow> bool" where "chcr_te v = bit v 1"
definition chcr_ie :: "u32 \<Rightarrow> bool" where "chcr_ie v = bit v 2"
definition chcr_tm :: "u32 \<Rightarrow> bool" where "chcr_tm v = bit v 3"
definition chcr_ts :: "u32 \<Rightarrow> nat" where "chcr_ts v = unat (drop_bit 4 v AND 3)"
definition chcr_dm :: "u32 \<Rightarrow> nat" where "chcr_dm v = unat (drop_bit 8 v AND 3)"
definition chcr_sm :: "u32 \<Rightarrow> nat" where "chcr_sm v = unat (drop_bit 12 v AND 3)"
definition chcr_rs :: "u32 \<Rightarrow> nat" where "chcr_rs v = unat (drop_bit 16 v AND 0x1F)"
definition chcr_di :: "u32 \<Rightarrow> bool" where "chcr_di v = bit v 28"

definition dmaor_dme :: "sh2e_dmac \<Rightarrow> bool" where "dmaor_dme dmac = bit (dmaor dmac) 0"
definition dmaor_nmif :: "sh2e_dmac \<Rightarrow> bool" where "dmaor_nmif dmac = bit (dmaor dmac) 1"
definition dmaor_ae :: "sh2e_dmac \<Rightarrow> bool" where "dmaor_ae dmac = bit (dmaor dmac) 2"

definition upd_chan :: "nat \<Rightarrow> (sh2e_dmac_channel_regs \<Rightarrow> sh2e_dmac_channel_regs) \<Rightarrow> sh2e_dmac \<Rightarrow> sh2e_dmac" where
  "upd_chan c f dmac = dmac\<lparr>channels := (channels dmac)(c := f (channels dmac c))\<rparr>"

definition SH2E_DMAC_VALID_PERIPHERAL_REQUEST :: "nat \<Rightarrow> bool" where
  "SH2E_DMAC_VALID_PERIPHERAL_REQUEST n \<longleftrightarrow> n < 32 \<and> n \<notin> {0b11111, 0b00000, 0b01110, 0b10000, 0b11101, 0b11110}"

abbreviation (input) SH2E_DMAC_RESOURCE_AUTO_REQUEST :: nat where "SH2E_DMAC_RESOURCE_AUTO_REQUEST \<equiv> 0b11111"
abbreviation (input) SH2E_DMAC_RELOAD_COUNTER_INITIAL_VALUE :: u32 where "SH2E_DMAC_RELOAD_COUNTER_INITIAL_VALUE \<equiv> 4"

subsection \<open>Registers\<close>

definition merge_u16 :: "u32 \<Rightarrow> u16 \<Rightarrow> bool \<Rightarrow> u32" where
  "merge_u16 current value upper =
     (if upper then (current AND 0x0000FFFF) OR push_bit 16 (ucast value) else (current AND 0xFFFF0000) OR ucast value)"

definition extract_u16 :: "u32 \<Rightarrow> bool \<Rightarrow> u16" where
  "extract_u16 value upper = (if upper then ucast (drop_bit 16 value AND 0xFFFF) else ucast (value AND 0xFFFF))"

definition channel_reg_ptr :: "sh2e_dmac_channel_regs \<Rightarrow> u32 \<Rightarrow> u32 option" where
  "channel_reg_ptr ch reg_no =
     (if reg_no = 0 then Some (sar ch) else if reg_no = 4 then Some (dar ch)
      else if reg_no = 8 then Some (tcr ch) else if reg_no = 0xC then Some (chcr ch) else None)"

text \<open>
  The assignments to the fields of \<open>chcr\<close>: \<open>di\<close> exists in channel 3 and \<open>ro\<close> in channel 2 only, \<open>te\<close> can only
  be cleared, and \<open>de\<close> can be set only with a request source.
\<close>

definition sh2e_dmac_chcr_write :: "nat \<Rightarrow> u32 \<Rightarrow> sh2e_dmac \<Rightarrow> sh2e_dmac" where
  "sh2e_dmac_chcr_write c_no val dmac =
     (let old = chcr (channels dmac c_no);
          fields = (old AND NOT 0x111F333C) OR (val AND 0x001F333C)
            OR (if c_no = 3 then val AND 0x10000000 else 0) OR (if c_no = 2 then val AND 0x01000000 else 0);
          te = put_bit 1 (chcr_te val \<and> chcr_te old) fields;
          new = (if \<not> chcr_de val \<or> SH2E_DMAC_VALID_PERIPHERAL_REQUEST (chcr_rs val) \<or> chcr_rs val = SH2E_DMAC_RESOURCE_AUTO_REQUEST
                 then put_bit 0 (chcr_de val) te else te);
          dmac1 = upd_chan c_no (\<lambda>ch. ch\<lparr>chcr := new\<rparr>) dmac
      in if \<not> chcr_de new \<and> c_no = 2 then dmac1\<lparr>reload_counter := SH2E_DMAC_RELOAD_COUNTER_INITIAL_VALUE\<rparr> else dmac1)"

definition sh2e_dmac_reset :: "sh2e_dmac \<Rightarrow> sh2e_dmac" where
  "sh2e_dmac_reset dmac = dmac\<lparr>dmaor := 0, channels := (\<lambda>_. \<lparr>sar = 0, dar = 0, tcr = 0, chcr = 0\<rparr>),
     transfer_state := SH2E_DMAC_TRANSFER_STATE_INITIAL, picked_channel := None,
     reload_counter := SH2E_DMAC_RELOAD_COUNTER_INITIAL_VALUE\<rparr>"

definition sh2e_dmac_interrupt_up_from_cpu :: "nat \<Rightarrow> sh2e_dmac \<Rightarrow> sh2e_dmac" where
  "sh2e_dmac_interrupt_up_from_cpu int_no dmac =
     (if int_no \<in> {0, 1, 5, 7, 8} then sh2e_dmac_reset dmac
      else if int_no = 11 then dmac\<lparr>dmaor := dmaor dmac OR 2\<rparr>
      else dmac)"

definition sh2e_dmac_interrupt_up_from_peripheral :: "nat \<Rightarrow> sh2e_dmac \<Rightarrow> sh2e_dmac" where
  "sh2e_dmac_interrupt_up_from_peripheral int_no dmac =
     (if SH2E_DMAC_VALID_PERIPHERAL_REQUEST int_no \<and> request_registered (peripheral_request_table dmac int_no)
      then dmac\<lparr>peripheral_request_table := (peripheral_request_table dmac)
             (int_no := (peripheral_request_table dmac int_no)\<lparr>request_pending := True\<rparr>)\<rparr>
      else dmac)"

definition sh2e_dmac_cpu_cycles_update :: "u32 \<Rightarrow> sh2e_dmac \<Rightarrow> sh2e_dmac" where
  "sh2e_dmac_cpu_cycles_update n dmac = dmac\<lparr>dmac_cycles := n\<rparr>"

text \<open>
  The structure that \<open>malloc\<close> returns is the argument \<open>junk\<close>; the processor, the cycles and the saved
  source address keep its values.
\<close>

definition dsh2edmac_init :: "sh2e_dmac \<Rightarrow> (nat \<Rightarrow> u64) \<Rightarrow> u64 option \<Rightarrow> cmd_error + sh2e_dmac" where
  "dsh2edmac_init junk int_nos parm =
     (case check_block 0x50 (case parm of None \<Rightarrow> 0xFFFFECB0 | Some addr \<Rightarrow> addr) of
        Inl e \<Rightarrow> Inl e
      | Inr addr \<Rightarrow> Inr ((sh2e_dmac_reset (junk\<lparr>dmac_regs_addr := addr\<rparr>))
          \<lparr>interrupt_number := (\<lambda>c. unat (ucast (int_nos c) :: u32)),
           peripheral_request_table := (\<lambda>_. \<lparr>request_index = 0, request_pending = False, request_registered = False,
             request_type = RECEIVE, peripheral_request_address = 0\<rparr>),
           successful_transfers_count := 0, interrupts_count := 0\<rparr>))"

text \<open>The channel and the register of an offset in the block of channel registers.\<close>

definition dmac_location :: "ptr36 \<Rightarrow> nat \<times> u32" where
  "dmac_location offset = (unat (offset - 0x10) div 16, ucast (offset - 0x10) AND 0xF)"

definition dsh2edmac_read8 :: "(sh2e_dmac, u8) dev_read" where
  "dsh2edmac_read8 procno dmac addr val = Some (val, dmac, [])"

definition dsh2edmac_read16 :: "(sh2e_dmac, u16) dev_read" where
  "dsh2edmac_read16 procno dmac addr val = (let offset = addr - dmac_regs_addr dmac in
     (if offset \<ge> 0x50 then Some (val, dmac, [])
      else if offset = 0 then Some (be16toh (dmaor dmac), dmac, [])
      else if offset < 0x10 then Some (val, dmac, [])
      else (let (channel_no, reg_no) = dmac_location offset
            in case channel_reg_ptr (channels dmac channel_no) (reg_no AND NOT 2) of
                 None \<Rightarrow> Some (val, dmac, [])
               | Some r \<Rightarrow> Some (be16toh (extract_u16 r (reg_no mod 4 = 0)), dmac, []))))"

definition dsh2edmac_read32 :: "(sh2e_dmac, u32) dev_read" where
  "dsh2edmac_read32 procno dmac addr val = (let offset = addr - dmac_regs_addr dmac in
     (if offset \<ge> 0x50 \<or> offset < 0x10 then Some (val, dmac, [])
      else (let (channel_no, reg_no) = dmac_location offset
            in case channel_reg_ptr (channels dmac channel_no) reg_no of
                 None \<Rightarrow> Some (val, dmac, [])
               | Some r \<Rightarrow> Some (be32toh r, dmac, []))))"

definition dsh2edmac_write8 :: "(sh2e_dmac, u8) dev_write" where
  "dsh2edmac_write8 procno dmac addr val = Some (dmac, [])"

text \<open>The assignment to a channel register that both widths share.\<close>

definition dmac_channel_write :: "nat \<Rightarrow> u32 \<Rightarrow> u32 \<Rightarrow> sh2e_dmac \<Rightarrow> sh2e_dmac" where
  "dmac_channel_write channel_no reg_no value dmac =
     (if reg_no = 0 then upd_chan channel_no (\<lambda>ch. ch\<lparr>sar := value\<rparr>) dmac
      else if reg_no = 4 then upd_chan channel_no (\<lambda>ch. ch\<lparr>dar := value\<rparr>) dmac
      else if reg_no = 8 then upd_chan channel_no (\<lambda>ch. ch\<lparr>tcr := value AND 0xFFFFFF\<rparr>) dmac
      else if reg_no = 0xC then sh2e_dmac_chcr_write channel_no value dmac
      else dmac)"

definition dsh2edmac_write16 :: "(sh2e_dmac, u16) dev_write" where
  "dsh2edmac_write16 procno dmac addr val = (let offset = addr - dmac_regs_addr dmac; be_value = be16toh val in
     (if offset \<ge> 0x50 then Some (dmac, [])
      else if offset = 0 then Some (dmac\<lparr>dmaor := be_value AND 0x0007\<rparr>, [])
      else if offset < 0x10 then Some (dmac, [])
      else (let (channel_no, reg_no) = dmac_location offset; base = reg_no AND NOT 2
            in case channel_reg_ptr (channels dmac channel_no) base of
                 None \<Rightarrow> Some (dmac, [])
               | Some r \<Rightarrow> Some (dmac_channel_write channel_no base (merge_u16 r be_value (reg_no mod 4 = 0)) dmac, []))))"

definition dsh2edmac_write32 :: "(sh2e_dmac, u32) dev_write" where
  "dsh2edmac_write32 procno dmac addr val = (let offset = addr - dmac_regs_addr dmac in
     (if offset \<ge> 0x50 \<or> offset < 0x10 then Some (dmac, [])
      else (let (channel_no, reg_no) = dmac_location offset
            in Some (dmac_channel_write channel_no reg_no (be32toh val) dmac, []))))"

subsection \<open>Commands\<close>

definition dsh2edmac_cmd_add_cpu :: "nat option option \<Rightarrow> sh2e_dmac \<Rightarrow> cmd_error + sh2e_dmac" where
  "dsh2edmac_cmd_add_cpu cpu_dev dmac =
     (case cpu_dev of
        None \<Rightarrow> Inl No_such_device
      | Some None \<Rightarrow> Inl Not_a_cpu
      | Some (Some g) \<Rightarrow> Inr (dmac\<lparr>dmac_cpu := Some g\<rparr>))"

definition dsh2edmac_cmd_add_source :: "u64 \<Rightarrow> u64 \<Rightarrow> u64 option \<Rightarrow> sh2e_dmac \<Rightarrow> cmd_error + sh2e_dmac" where
  "dsh2edmac_cmd_add_source index type_no parm dmac =
     (if \<not> SH2E_DMAC_VALID_PERIPHERAL_REQUEST (unat index) then Inl Invalid_request_index
      else if type_no \<ge> 3 then Inl Invalid_request_type
      else (let ty = (if type_no = 0 then RECEIVE else if type_no = 1 then TRANSMIT else DO_NOT_CARE)
            in if ty \<noteq> DO_NOT_CARE \<and> parm = None then Inl Request_address_missing
               else Inr (dmac\<lparr>peripheral_request_table := (peripheral_request_table dmac)(unat index :=
                      \<lparr>request_index = ucast index, request_pending = False, request_registered = True, request_type = ty,
                       peripheral_request_address = (case parm of None \<Rightarrow> 0 | Some addr \<Rightarrow> ucast addr)\<rparr>)\<rparr>)))"

definition dsh2edmac_type :: "sh2e_dmac device_type" where
  "dsh2edmac_type = \<lparr>read8 = Some dsh2edmac_read8, read16 = Some dsh2edmac_read16, read32 = Some dsh2edmac_read32, read64 = None,
     write8 = Some dsh2edmac_write8, write16 = Some dsh2edmac_write16, write32 = Some dsh2edmac_write32, write64 = None\<rparr>"

end
