(* ===== verification/Sh2e_System.thy ===== *)
theory Sh2e_System
  imports Sh2e_Cpu Dsh2ecmt Dsh2ewdt Dsh2edmac Devices
begin

text \<open>
  The SH-2E machine: the processor with its on-chip peripherals as devices of one machine, the
  transfers of the direct memory access controller of \<open>src/src/device/dsh2edmac.c\<close>, which read and
  write physical memory, and the composition of the steps in \<open>machine_step\<close> of \<open>src/src/main.c\<close>.
\<close>

datatype sh2e_dev = S_cpu nat | S_cmt sh2e_cmt | S_wdt sh2e_wdt | S_dmac sh2e_dmac | S_mem nat

type_synonym 'z sh2e_system = "(sh2e_dev, 'z) sh2e_sim"

definition prj_cmt where "prj_cmt d = (case d of S_cmt x \<Rightarrow> Some x | _ \<Rightarrow> None)"
definition prj_wdt where "prj_wdt d = (case d of S_wdt x \<Rightarrow> Some x | _ \<Rightarrow> None)"
definition prj_dmac where "prj_dmac d = (case d of S_dmac x \<Rightarrow> Some x | _ \<Rightarrow> None)"

primrec sh2e_type_of :: "sh2e_dev \<Rightarrow> sh2e_dev device_type" where
  "sh2e_type_of (S_cpu _) = no_methods"
| "sh2e_type_of (S_cmt _) = lift_type S_cmt prj_cmt dsh2ecmt_type"
| "sh2e_type_of (S_wdt _) = lift_type S_wdt prj_wdt dsh2ewdt_type"
| "sh2e_type_of (S_dmac _) = lift_type S_dmac prj_dmac dsh2edmac_type"
| "sh2e_type_of (S_mem _) = no_methods"

text \<open>The tables of callbacks of the peripherals; a device that is no peripheral has none.\<close>

definition sh2e_peripherals :: "sh2e_dev peripheral_ops" where
  "sh2e_peripherals =
     \<lparr>interrupt_up_from_cpu = (\<lambda>n d. case d of
        S_cmt x \<Rightarrow> Some (S_cmt (sh2e_cmt_interrupt_up n x))
      | S_wdt x \<Rightarrow> Some (S_wdt (sh2e_wdt_interrupt_up n x))
      | S_dmac x \<Rightarrow> Some (S_dmac (sh2e_dmac_interrupt_up_from_cpu n x))
      | _ \<Rightarrow> None),
      update_cycles = (\<lambda>n d. case d of
        S_cmt x \<Rightarrow> Some (S_cmt (sh2e_cmt_cpu_cycles_update n x))
      | S_wdt x \<Rightarrow> Some (S_wdt (sh2e_wdt_cpu_cycles_update n x))
      | S_dmac x \<Rightarrow> Some (S_dmac (sh2e_dmac_cpu_cycles_update n x))
      | _ \<Rightarrow> None)\<rparr>"

definition set_data :: "nat \<Rightarrow> sh2e_dev \<Rightarrow> 'z sh2e_system \<Rightarrow> 'z sh2e_system" where
  "set_data i d s = s\<lparr>devices := (devices s)[i := (devices s ! i)\<lparr>dev_data := d\<rparr>]\<rparr>"

fun raise_interrupts :: "nat option \<Rightarrow> nat list \<Rightarrow> 'z sh2e_system \<Rightarrow> 'z sh2e_system option" where
  "raise_interrupts cpu [] s = Some s"
| "raise_interrupts cpu (no # nos) s = do { s1 \<leftarrow> cpu_interrupt_up cpu no s; raise_interrupts cpu nos s1 }"

subsection \<open>The transfers of the direct memory access controller\<close>

definition dmac_at :: "nat \<Rightarrow> 'z sh2e_system \<Rightarrow> sh2e_dmac option" where
  "dmac_at i s = (if i < length (devices s) then prj_dmac (dev_data (devices s ! i)) else None)"

definition put_dmac :: "nat \<Rightarrow> sh2e_dmac \<Rightarrow> 'z sh2e_system \<Rightarrow> 'z sh2e_system" where
  "put_dmac i dmac s = set_data i (S_dmac dmac) s"

definition byte_transfer :: "u32 \<Rightarrow> u32 \<Rightarrow> 'z sh2e_system \<Rightarrow> 'z sh2e_system option" where
  "byte_transfer s_addr d_addr s = do {
     (data, s1) \<leftarrow> physmem_read8 no_procno (ucast s_addr) True s;
     (_, s2) \<leftarrow> physmem_write8 no_procno (ucast d_addr) data True s1;
     Some s2
   }"

definition dmac_address_error :: "nat \<Rightarrow> 'z sh2e_system \<Rightarrow> 'z sh2e_system option" where
  "dmac_address_error i s = do {
     dmac \<leftarrow> dmac_at i s;
     cpu_interrupt_up (dmac_cpu dmac) 10 (put_dmac i (dmac\<lparr>dmaor := dmaor dmac OR 4\<rparr>) s)
   }"

definition word_transfer :: "nat \<Rightarrow> u32 \<Rightarrow> u32 \<Rightarrow> 'z sh2e_system \<Rightarrow> 'z sh2e_system option" where
  "word_transfer i s_addr d_addr s =
     (if s_addr AND 1 \<noteq> 0 then dmac_address_error i s
      else do {
        (data, s1) \<leftarrow> physmem_read16 no_procno (ucast s_addr) True s;
        (_, s2) \<leftarrow> physmem_write16 no_procno (ucast d_addr) data True s1;
        Some s2
      })"

definition longword_transfer :: "nat \<Rightarrow> u32 \<Rightarrow> u32 \<Rightarrow> 'z sh2e_system \<Rightarrow> 'z sh2e_system option" where
  "longword_transfer i s_addr d_addr s =
     (if s_addr AND 3 \<noteq> 0 then dmac_address_error i s
      else do {
        (data, s1) \<leftarrow> physmem_read32 no_procno (ucast s_addr) True s;
        (_, s2) \<leftarrow> physmem_write32 no_procno (ucast d_addr) data True s1;
        Some s2
      })"

definition regs_update_after_transfer :: "nat \<Rightarrow> sh2e_dmac \<Rightarrow> sh2e_dmac" where
  "regs_update_after_transfer c = upd_chan c (\<lambda>ch.
     let sz = push_bit (chcr_ts (chcr ch)) 1; s_step = (if chcr_di (chcr ch) then 4 else sz)
     in ch\<lparr>sar := (if chcr_sm (chcr ch) = 1 then sar ch + s_step else if chcr_sm (chcr ch) = 2 then sar ch - s_step else sar ch),
           dar := (if chcr_dm (chcr ch) = 1 then dar ch + sz else if chcr_dm (chcr ch) = 2 then dar ch - sz else dar ch)\<rparr>)"

text \<open>An access may reach the registers of the controller, so they are read again after it.\<close>

definition perform_transfer :: "nat \<Rightarrow> nat \<Rightarrow> 'z sh2e_system \<Rightarrow> 'z sh2e_system option" where
  "perform_transfer i c s = do {
     dmac \<leftarrow> dmac_at i s;
     let regs = channels dmac c;
     let d_addr = dar regs;
     (s_addr, s1) \<leftarrow> (if \<not> chcr_di (chcr regs) then Some (sar regs, s)
                      else physmem_read32 no_procno (ucast (sar regs)) True s);
     dmac1 \<leftarrow> dmac_at i s1;
     let ts = chcr_ts (chcr (channels dmac1 c));
     s2 \<leftarrow> (if ts = 0 then byte_transfer s_addr d_addr s1
            else if ts = 1 then word_transfer i s_addr d_addr s1
            else if ts = 2 then longword_transfer i s_addr d_addr s1
            else None);
     dmac2 \<leftarrow> dmac_at i s2;
     Some (put_dmac i (upd_chan c (\<lambda>ch. ch\<lparr>tcr := tcr ch - 1\<rparr>) (regs_update_after_transfer c dmac2)) s2)
   }"

definition check_abort_conditions :: "nat \<Rightarrow> sh2e_dmac \<Rightarrow> bool" where
  "check_abort_conditions c dmac \<longleftrightarrow>
     dmaor_nmif dmac \<or> dmaor_ae dmac \<or> \<not> dmaor_dme dmac \<or> \<not> chcr_de (chcr (channels dmac c))"

definition abort_transfer :: "nat \<Rightarrow> sh2e_dmac \<Rightarrow> sh2e_dmac" where
  "abort_transfer c dmac =
     (let dmac1 = dmac\<lparr>transfer_state := SH2E_DMAC_TRANSFER_STATE_INITIAL\<rparr>
      in if c = 2 then dmac1\<lparr>reload_counter := SH2E_DMAC_RELOAD_COUNTER_INITIAL_VALUE\<rparr> else dmac1)"

definition reload_sar2 :: "nat \<Rightarrow> sh2e_dmac \<Rightarrow> sh2e_dmac" where
  "reload_sar2 c dmac =
     (if c = 2 then
        (let dmac1 = dmac\<lparr>reload_counter := reload_counter dmac - 1\<rparr>
         in if reload_counter dmac1 = 0
            then (upd_chan c (\<lambda>ch. ch\<lparr>sar := initial_sar2 dmac1\<rparr>) dmac1)\<lparr>reload_counter := SH2E_DMAC_RELOAD_COUNTER_INITIAL_VALUE\<rparr>
            else dmac1)
      else dmac)"

text \<open>The end of \<open>transfer_and_update_regs\<close>: the controller and the interrupts it raises.\<close>

definition after_transfer :: "nat \<Rightarrow> sh2e_dmac \<Rightarrow> sh2e_dmac \<times> nat list" where
  "after_transfer c dmac0 =
     (let dmac = reload_sar2 c dmac0
      in if check_abort_conditions c dmac then (abort_transfer c dmac, [])
         else (let dmac1 = dmac\<lparr>successful_transfers_count := successful_transfers_count dmac + 1\<rparr>
               in if tcr (channels dmac1 c) = 0 then
                    (let dmac2 = upd_chan c (\<lambda>ch. ch\<lparr>chcr := put_bit 1 True (chcr ch)\<rparr>) dmac1;
                         dmac3 = (if c = 2 then dmac2\<lparr>reload_counter := SH2E_DMAC_RELOAD_COUNTER_INITIAL_VALUE\<rparr> else dmac2);
                         ie = chcr_ie (chcr (channels dmac3 c));
                         dmac4 = (if ie then dmac3\<lparr>interrupts_count := interrupts_count dmac3 + 1\<rparr> else dmac3)
                     in (dmac4\<lparr>transfer_state := SH2E_DMAC_TRANSFER_STATE_INITIAL\<rparr>, if ie then [interrupt_number dmac3 c] else []))
                  else (dmac1\<lparr>transfer_state := (if chcr_tm (chcr (channels dmac1 c)) then SH2E_DMAC_TRANSFER_STATE_TRANSFERRING
                                                 else SH2E_DMAC_TRANSFER_STATE_WAITING_FOR_REQUEST)\<rparr>, [])))"

definition transfer_and_update_regs :: "nat \<Rightarrow> 'z sh2e_system \<Rightarrow> 'z sh2e_system option" where
  "transfer_and_update_regs i s = do {
     dmac \<leftarrow> dmac_at i s;
     c \<leftarrow> picked_channel dmac;
     s1 \<leftarrow> perform_transfer i c s;
     dmac1 \<leftarrow> dmac_at i s1;
     let (dmac2, nos) = after_transfer c dmac1;
     raise_interrupts (dmac_cpu dmac2) nos (put_dmac i dmac2 s1)
   }"

definition step_transferring :: "nat \<Rightarrow> 'z sh2e_system \<Rightarrow> 'z sh2e_system option" where
  "step_transferring i s = do {
     dmac \<leftarrow> dmac_at i s;
     c \<leftarrow> picked_channel dmac;
     (if check_abort_conditions c dmac then Some (put_dmac i (abort_transfer c dmac) s)
      else do {
        s1 \<leftarrow> transfer_and_update_regs i s;
        dmac1 \<leftarrow> dmac_at i s1;
        (if transfer_state dmac1 = SH2E_DMAC_TRANSFER_STATE_TRANSFERRING then do {
           s2 \<leftarrow> transfer_and_update_regs i s1;
           dmac2 \<leftarrow> dmac_at i s2;
           Some (put_dmac i (dmac2\<lparr>transfer_state := SH2E_DMAC_TRANSFER_STATE_WAITING_FOR_REQUEST\<rparr>) s2)
         } else Some s1)
      })
   }"

definition request_matches :: "sh2e_dmac_peripheral_request_table_entry \<Rightarrow> sh2e_dmac_channel_regs \<Rightarrow> bool" where
  "request_matches entry ch =
     (case request_type entry of
        DO_NOT_CARE \<Rightarrow> True
      | RECEIVE \<Rightarrow> sar ch = peripheral_request_address entry
      | TRANSMIT \<Rightarrow> dar ch = peripheral_request_address entry)"

definition step_waiting :: "nat \<Rightarrow> 'z sh2e_system \<Rightarrow> 'z sh2e_system option" where
  "step_waiting i s = do {
     dmac \<leftarrow> dmac_at i s;
     c \<leftarrow> picked_channel dmac;
     let resource = chcr_rs (chcr (channels dmac c));
     (if resource = SH2E_DMAC_RESOURCE_AUTO_REQUEST then
        step_transferring i (put_dmac i (dmac\<lparr>transfer_state := SH2E_DMAC_TRANSFER_STATE_TRANSFERRING\<rparr>) s)
      else if \<not> SH2E_DMAC_VALID_PERIPHERAL_REQUEST resource then None
      else (let entry = peripheral_request_table dmac resource
            in if \<not> request_registered entry
               then Some (put_dmac i (dmac\<lparr>transfer_state := SH2E_DMAC_TRANSFER_STATE_INITIAL\<rparr>) s)
               else if request_pending entry then
                 (let dmac1 = dmac\<lparr>peripheral_request_table := (peripheral_request_table dmac)(resource := entry\<lparr>request_pending := False\<rparr>)\<rparr>
                  in if request_matches entry (channels dmac1 c)
                     then step_transferring i (put_dmac i (dmac1\<lparr>transfer_state := SH2E_DMAC_TRANSFER_STATE_TRANSFERRING\<rparr>) s)
                     else Some (put_dmac i (dmac1\<lparr>transfer_state := SH2E_DMAC_TRANSFER_STATE_INITIAL\<rparr>) s))
               else Some s))
   }"

definition pick_channel :: "sh2e_dmac \<Rightarrow> nat option" where
  "pick_channel dmac = List.find (\<lambda>c. chcr_de (chcr (channels dmac c)) \<and> \<not> chcr_te (chcr (channels dmac c))) [0..<4]"

definition step_initial :: "nat \<Rightarrow> 'z sh2e_system \<Rightarrow> 'z sh2e_system option" where
  "step_initial i s = do {
     dmac0 \<leftarrow> dmac_at i s;
     let dmac = dmac0\<lparr>picked_channel := None\<rparr>;
     (if dmaor_dme dmac \<and> \<not> dmaor_nmif dmac \<and> \<not> dmaor_ae dmac then
        (case pick_channel dmac of
           None \<Rightarrow> Some (put_dmac i dmac s)
         | Some c \<Rightarrow>
             (let dmac1 = dmac\<lparr>picked_channel := Some c\<rparr>;
                  dmac2 = (if c = 2 then dmac1\<lparr>initial_sar2 := sar (channels dmac1 2)\<rparr> else dmac1)
              in step_waiting i (put_dmac i (dmac2\<lparr>transfer_state := SH2E_DMAC_TRANSFER_STATE_WAITING_FOR_REQUEST\<rparr>) s)))
      else Some (put_dmac i dmac s))
   }"

definition dmac_cycle :: "nat \<Rightarrow> 'z sh2e_system \<Rightarrow> 'z sh2e_system option" where
  "dmac_cycle i s = do {
     dmac \<leftarrow> dmac_at i s;
     s1 \<leftarrow> (case transfer_state dmac of
              SH2E_DMAC_TRANSFER_STATE_INITIAL \<Rightarrow> step_initial i s
            | SH2E_DMAC_TRANSFER_STATE_WAITING_FOR_REQUEST \<Rightarrow> step_waiting i s
            | SH2E_DMAC_TRANSFER_STATE_TRANSFERRING \<Rightarrow> step_transferring i s);
     dmac1 \<leftarrow> dmac_at i s1;
     Some (put_dmac i (dmac1\<lparr>dmac_cycles := dmac_cycles dmac1 - 1\<rparr>) s1)
   }"

partial_function (option) dsh2edmac_step :: "nat \<Rightarrow> 'z sh2e_system \<Rightarrow> 'z sh2e_system option" where
  "dsh2edmac_step i s = do {
     dmac \<leftarrow> dmac_at i s;
     (if dmac_cycles dmac > 0 then do { s1 \<leftarrow> dmac_cycle i s; dsh2edmac_step i s1 } else Some s)
   }"

subsection \<open>The machine step\<close>

definition sh2e_dev_step :: "host_float \<Rightarrow> nat \<Rightarrow> 'z sh2e_system \<Rightarrow> 'z sh2e_system option" where
  "sh2e_dev_step H i s =
     (case dev_data (devices s ! i) of
        S_cpu k \<Rightarrow> sh2e_cpu_step H sh2e_peripherals k s
      | S_cmt x \<Rightarrow> (let (x1, nos) = dsh2ecmt_step x in raise_interrupts (cmt_cpu x1) nos (set_data i (S_cmt x1) s))
      | S_wdt x \<Rightarrow> (let (x1, nos) = dsh2ewdt_step x in raise_interrupts (wdt_cpu x1) nos (set_data i (S_wdt x1) s))
      | S_dmac _ \<Rightarrow> dsh2edmac_step i s
      | S_mem _ \<Rightarrow> Some s)"

fun sh2e_dev_loop :: "host_float \<Rightarrow> nat list \<Rightarrow> 'z sh2e_system \<Rightarrow> 'z sh2e_system option" where
  "sh2e_dev_loop H [] s = Some s"
| "sh2e_dev_loop H (i # is) s = do { s1 \<leftarrow> sh2e_dev_step H i s; sh2e_dev_loop H is s1 }"

text \<open>None of these devices has a \<open>step4k\<close> method.\<close>

definition sh2e_machine_step :: "host_float \<Rightarrow> u64 \<times> 'z sh2e_system \<Rightarrow> (u64 \<times> 'z sh2e_system) option" where
  "sh2e_machine_step H = (\<lambda>(steps, s). do {
     s1 \<leftarrow> sh2e_dev_loop H [0..<length (devices s)] s;
     Some (steps + 1, s1)
   })"

end
