(* ===== verification/Sh2e_Access.thy ===== *)
theory Sh2e_Access
  imports Sh2e_Call Machine_Access
begin

text \<open>
  Memory accesses of the SH-2E. Its method table has no \<open>sc_access\<close>, and it asserts that the source
  of an interrupt is registered; so the machine has no load-linked reservations, and an access of a
  device register raises no interrupt, as is true of the on-chip peripherals: \<open>sh_ok\<close>. Accesses then
  leave all processors unchanged.
\<close>

subsection \<open>Devices without effects\<close>

definition read_quiet :: "('d, 'w) dev_read option \<Rightarrow> bool" where
  "read_quiet r \<longleftrightarrow> (\<forall>f \<in> set_option r. \<forall>p d a v v' d' es. f p d a v = Some (v', d', es) \<longrightarrow> es = [])"

definition write_quiet :: "('d, 'w) dev_write option \<Rightarrow> bool" where
  "write_quiet w \<longleftrightarrow> (\<forall>f \<in> set_option w. \<forall>p d a v d' es. f p d a v = Some (d', es) \<longrightarrow> es = [])"

definition type_quiet :: "'d device_type \<Rightarrow> bool" where
  "type_quiet t \<longleftrightarrow>
     read_quiet (read8 t) \<and> read_quiet (read16 t) \<and> read_quiet (read32 t) \<and> read_quiet (read64 t) \<and>
     write_quiet (write8 t) \<and> write_quiet (write16 t) \<and> write_quiet (write32 t) \<and> write_quiet (write64 t)"

definition quiet :: "('v \<Rightarrow> ('v \<times> 'd device \<times> dev_effect list) option) \<Rightarrow> bool" where
  "quiet f \<longleftrightarrow> (\<forall>v v' d es. f v = Some (v', d, es) \<longrightarrow> es = [])"

lemma dev_access_quiet:
  assumes "type_quiet (dev_type d)"
  shows "quiet (dev_read8 p a d)" "quiet (dev_read16 p a d)" "quiet (dev_read32 p a d)" "quiet (dev_read64 p a d)"
    "quiet (dev_write8 p a w8 d)" "quiet (dev_write16 p a w16 d)" "quiet (dev_write32 p a w32 d)" "quiet (dev_write64 p a w64 d)"
  using assms
  by (auto simp: quiet_def type_quiet_def read_quiet_def write_quiet_def call_read_def call_write_def bind_Some_iff
      dev_read8_def dev_read16_def dev_read32_def dev_read64_def dev_write8_def dev_write16_def dev_write32_def dev_write64_def
      split: option.splits)

lemma for_each_dev_quiet:
  "\<forall>d \<in> set ds. quiet (f d) \<Longrightarrow> for_each_dev f ds v = Some (v', ds', es) \<Longrightarrow> es = []"
proof (induction ds arbitrary: v v' ds' es)
  case (Cons d ds)
  then show ?case by (fastforce simp: bind_Some_iff quiet_def)
qed simp

subsection \<open>The invariant\<close>

text \<open>The registry of the processors is the argument \<open>cs\<close>: no access changes it.\<close>

definition sh_ok :: "nat list \<times> (nat \<Rightarrow> sh2e_cpu general_cpu) \<Rightarrow> (sh2e_cpu, 'd, 'z) machine_scheme \<Rightarrow> bool" where
  "sh_ok cs s \<longleftrightarrow> physmem_ok s \<and> sc_list s = [] \<and> (cpu_list s, gcpus s) = cs \<and>
     (\<forall>d \<in> set (devices s). dev_ok d \<and> type_quiet (dev_type d))"

lemma sh_ok_same:
  assumes "sh_ok cs s" "physmem_ok s'" "cpu_list s' = cpu_list s" "gcpus s' = gcpus s"
    "devs_evolve (devices s) (devices s')" "sc_list s' = sc_list s"
  shows "sh_ok cs s'"
proof -
  have "type_quiet (dev_type d)" if d: "d \<in> set (devices s')" for d
  proof -
    obtain i where i: "i < length (devices s')" "d = devices s' ! i" using d by (metis in_set_conv_nth)
    then have "dev_evolves (devices s ! i) d" "devices s ! i \<in> set (devices s)"
      using assms(5) by (auto simp: list_all2_conv_all_nth)
    then show ?thesis using assms(1) by (auto simp: sh_ok_def dev_evolves_def)
  qed
  moreover have "\<forall>d \<in> set (devices s'). dev_ok d"
    using devs_evolve_ok [OF assms(5)] assms(1) by (simp add: sh_ok_def)
  ultimately show ?thesis using assms by (simp add: sh_ok_def)
qed

abbreviation sh_env where "sh_env cs \<equiv> env_step_by (sh_ok cs) (=)"

lemma sh_env_unchanged:
  assumes "sh_ok cs s" "ftl0 s' = ftl0 s" "mem_bytes s' = mem_bytes s" "mem_size s' = mem_size s"
    "cpu_list s' = cpu_list s" "gcpus s' = gcpus s" "cpu_mem s' = cpu_mem s" "devs_evolve (devices s) (devices s')"
    "sc_list s' = sc_list s" "machine.more s' = machine.more s"
    "machine_specific_instructions s' = machine_specific_instructions s"
  shows "sh_env cs s s'"
proof -
  have "physmem_ok s'" using assms(1) physmem_ok_cong [OF assms(2,4)] by (simp add: sh_ok_def)
  then have "sh_ok cs s'" using assms by (intro sh_ok_same [OF assms(1)]) auto
  then have "sys_evolves_by (sh_ok cs) s s'"
    using frame_at_cong [OF assms(2)] phys_byte_cong [OF assms(2,3)] assms by (intro sys_evolvesI) simp_all
  then show ?thesis using assms(7) by (simp add: env_step_by_def)
qed

lemma devmem_access_sh:
  assumes ok: "sh_ok cs s" and f: "\<And>d v. dev_ok d \<Longrightarrow> access_ok (f d v) d" "\<And>d. type_quiet (dev_type d) \<Longrightarrow> quiet (f d)"
  shows "\<exists>v' s'. devmem_access f v s = Some (v', s') \<and> sh_env cs s s'"
proof -
  have devs: "\<And>d. d \<in> set (devices s) \<Longrightarrow> dev_ok d" "\<And>d. d \<in> set (devices s) \<Longrightarrow> type_quiet (dev_type d)"
    using ok by (simp_all add: sh_ok_def)
  obtain v' ds es where d: "for_each_dev f (devices s) v = Some (v', ds, es)" "devs_evolve (devices s) ds"
    using for_each_dev_ok [of "devices s" f v, OF f(1) [OF devs(1)]] by blast
  have "\<forall>d \<in> set (devices s). quiet (f d)" using f(2) [OF devs(2)] by blast
  then have es: "es = []" using d(1) by (rule for_each_dev_quiet)
  have "sh_env cs s (s\<lparr>devices := ds\<rparr>)" by (rule sh_env_unchanged [OF ok]) (simp_all add: d(2))
  then show ?thesis using d(1) es by (simp add: devmem_access_def)
qed

interpretation sh_memory: memory_users "sh_ok cs" "(=)" for cs
proof
  fix s s' :: "(sh2e_cpu, 'd, 'z) machine_scheme" and p a w8 w16 w32 w64 and addr n
  show "sh_ok cs s \<Longrightarrow> physmem_ok s" by (simp add: sh_ok_def)
  show "sh_ok cs s \<Longrightarrow> physmem_ok s' \<Longrightarrow> cpu_list s' = cpu_list s \<Longrightarrow> gcpus s' = gcpus s \<Longrightarrow>
      devs_evolve (devices s) (devices s') \<Longrightarrow> sc_list s' = sc_list s \<Longrightarrow> sh_ok cs s'" by (rule sh_ok_same)
  assume ok: "sh_ok cs s"
  have "sh_env cs s (s\<lparr>sc_list := []\<rparr>)" using ok by (intro sh_env_unchanged) (simp_all add: sh_ok_def)
  then show "\<exists>s'. sc_control addr n s = Some s' \<and> sh_env cs s s'" using ok by (simp add: sc_control_def sh_ok_def)
  note d = devmem_access_sh [OF ok]
  have "\<exists>v s'. devmem_access (dev_read8 p a) 0xFFFFFFFF s = Some (v, s') \<and> sh_env cs s s'"
    by (rule d, rule dev_access_ok, assumption, rule dev_access_quiet)
  then show "\<exists>v s'. devmem_read8 p a s = Some (v, s') \<and> sh_env cs s s'" by (auto simp: devmem_read8_def)
  have "\<exists>v s'. devmem_access (dev_read16 p a) 0xFFFFFFFF s = Some (v, s') \<and> sh_env cs s s'"
    by (rule d, rule dev_access_ok, assumption, rule dev_access_quiet)
  then show "\<exists>v s'. devmem_read16 p a s = Some (v, s') \<and> sh_env cs s s'" by (auto simp: devmem_read16_def)
  show "\<exists>v s'. devmem_read32 p a s = Some (v, s') \<and> sh_env cs s s'" unfolding devmem_read32_def
    by (rule d, rule dev_access_ok, assumption, rule dev_access_quiet)
  show "\<exists>v s'. devmem_read64 p a s = Some (v, s') \<and> sh_env cs s s'" unfolding devmem_read64_def
    by (rule d, rule dev_access_ok, assumption, rule dev_access_quiet)
  show "\<exists>v s'. devmem_write8 p a w8 s = Some (v, s') \<and> sh_env cs s s'" unfolding devmem_write8_def
    by (rule d, rule dev_access_ok, assumption, rule dev_access_quiet)
  show "\<exists>v s'. devmem_write16 p a w16 s = Some (v, s') \<and> sh_env cs s s'" unfolding devmem_write16_def
    by (rule d, rule dev_access_ok, assumption, rule dev_access_quiet)
  show "\<exists>v s'. devmem_write32 p a w32 s = Some (v, s') \<and> sh_env cs s s'" unfolding devmem_write32_def
    by (rule d, rule dev_access_ok, assumption, rule dev_access_quiet)
  show "\<exists>v s'. devmem_write64 p a w64 s = Some (v, s') \<and> sh_env cs s s'" unfolding devmem_write64_def
    by (rule d, rule dev_access_ok, assumption, rule dev_access_quiet)
qed simp_all

end
