(* ===== verification/Sh2e_Peripherals.thy ===== *)
theory Sh2e_Peripherals
  imports Sh2e_System Sh2e_Access
begin

text \<open>
  The on-chip peripherals of the SH-2E as devices of the machine: their register accesses always
  return and raise no interrupt, so that a machine of these devices meets \<open>sh_ok\<close>.
\<close>

subsection \<open>The method tables\<close>

lemma total_read_keeps:
  assumes "\<And>p d a v. \<exists>v'. f p d a v = Some (v', d, [])"
  shows "read_keeps I (Some f) \<and> read_quiet (Some f)"
proof
  show "read_keeps I (Some f)"
  proof (rule read_keepsI)
    show "\<exists>v' d' es. f p d a v = Some (v', d', es) \<and> I d' \<and> list_all plain_effect es" if "I d" for p d a v
      using assms [of p d a v] that by auto
  qed
  show "read_quiet (Some f)" unfolding read_quiet_def by (simp, metis assms Pair_inject option.inject)
qed

lemma total_write_keeps:
  assumes "\<And>p d a v. I d \<Longrightarrow> \<exists>d'. f p d a v = Some (d', []) \<and> I d'"
  shows "write_keeps I (Some f)"
proof (rule write_keepsI)
  show "\<exists>d' es. f p d a v = Some (d', es) \<and> I d' \<and> list_all plain_effect es" if "I d" for p d a v
    using assms [OF that, of p a v] by auto
qed

lemma total_write_quiet: "(\<And>p d a v. \<exists>d'. f p d a v = Some (d', [])) \<Longrightarrow> write_quiet (Some f)"
  by (simp add: write_quiet_def) (metis Pair_inject option.inject)

lemma quiet_None [simp]: "read_quiet None" "write_quiet None"
  by (simp_all add: read_quiet_def write_quiet_def)

lemma cmt_accesses:
  "\<exists>v'. dsh2ecmt_read8 p d a v = Some (v', d, [])" "\<exists>v'. dsh2ecmt_read16 p d a w = Some (v', d, [])"
  "\<exists>v'. dsh2ecmt_read32 p d a x = Some (v', d, [])" "\<exists>d'. dsh2ecmt_write8 p d a v = Some (d', [])"
  "\<exists>d'. dsh2ecmt_write16 p d a w = Some (d', [])" "\<exists>d'. dsh2ecmt_write32 p d a x = Some (d', [])"
  by (simp_all add: dsh2ecmt_read8_def dsh2ecmt_read16_def dsh2ecmt_read32_def dsh2ecmt_write8_def dsh2ecmt_write16_def
      dsh2ecmt_write32_def Let_def split: option.split)

lemma cmt_type_facts: "dev_keeps (\<lambda>_. True) dsh2ecmt_type" "type_quiet dsh2ecmt_type"
  using total_read_keeps [OF cmt_accesses(1)] total_read_keeps [OF cmt_accesses(2)] total_read_keeps [OF cmt_accesses(3)]
  by (simp_all add: dev_keeps_def type_quiet_def dsh2ecmt_type_def total_write_keeps total_write_quiet cmt_accesses)

lemma wdt_accesses:
  "\<exists>v'. dsh2ewdt_read8 p d a v = Some (v', d, [])" "\<exists>v'. dsh2ewdt_read16 p d a w = Some (v', d, [])"
  "\<exists>v'. dsh2ewdt_read32 p d a x = Some (v', d, [])" "\<exists>d'. dsh2ewdt_write8 p d a v = Some (d', [])"
  "\<exists>d'. dsh2ewdt_write16 p d a w = Some (d', [])" "\<exists>d'. dsh2ewdt_write32 p d a x = Some (d', [])"
  by (simp_all add: dsh2ewdt_read8_def dsh2ewdt_read16_def dsh2ewdt_read32_def dsh2ewdt_write8_def dsh2ewdt_write16_def
      dsh2ewdt_write32_def Let_def)

lemma wdt_type_facts: "dev_keeps (\<lambda>_. True) dsh2ewdt_type" "type_quiet dsh2ewdt_type"
  using total_read_keeps [OF wdt_accesses(1)] total_read_keeps [OF wdt_accesses(2)] total_read_keeps [OF wdt_accesses(3)]
  by (simp_all add: dev_keeps_def type_quiet_def dsh2ewdt_type_def total_write_keeps total_write_quiet wdt_accesses)

text \<open>No register of the controller holds its processor, its interrupt numbers or its cycles.\<close>

definition dmac_fixed :: "nat option \<Rightarrow> (nat \<Rightarrow> nat) \<Rightarrow> u32 \<Rightarrow> sh2e_dmac \<Rightarrow> bool" where
  "dmac_fixed c ints n x \<longleftrightarrow> dmac_cpu x = c \<and> interrupt_number x = ints \<and> dmac_cycles x = n"

lemma dmac_fixed_write:
  "dmac_fixed c ints n (upd_chan j f x) = dmac_fixed c ints n x"
  "dmac_fixed c ints n (x\<lparr>reload_counter := r\<rparr>) = dmac_fixed c ints n x" "dmac_fixed c ints n (x\<lparr>dmaor := q\<rparr>) = dmac_fixed c ints n x"
  "dmac_fixed c ints n (sh2e_dmac_chcr_write j v x) = dmac_fixed c ints n x"
  "dmac_fixed c ints n (dmac_channel_write j r' v x) = dmac_fixed c ints n x"
  by (simp_all add: dmac_fixed_def upd_chan_def sh2e_dmac_chcr_write_def dmac_channel_write_def Let_def)

lemma dmac_accesses:
  "\<exists>v'. dsh2edmac_read8 p d a v = Some (v', d, [])" "\<exists>v'. dsh2edmac_read16 p d a w = Some (v', d, [])"
  "\<exists>v'. dsh2edmac_read32 p d a x = Some (v', d, [])"
  "\<exists>d'. dsh2edmac_write8 p d a v = Some (d', []) \<and> dmac_fixed c ints n d' = dmac_fixed c ints n d"
  "\<exists>d'. dsh2edmac_write16 p d a w = Some (d', []) \<and> dmac_fixed c ints n d' = dmac_fixed c ints n d"
  "\<exists>d'. dsh2edmac_write32 p d a x = Some (d', []) \<and> dmac_fixed c ints n d' = dmac_fixed c ints n d"
  by (simp_all add: dsh2edmac_read8_def dsh2edmac_read16_def dsh2edmac_read32_def dsh2edmac_write8_def dsh2edmac_write16_def
      dsh2edmac_write32_def Let_def dmac_fixed_write split: option.split prod.split)

lemma dmac_type_facts: "dev_keeps (dmac_fixed c ints n) dsh2edmac_type" "type_quiet dsh2edmac_type"
proof -
  note r = total_read_keeps [OF dmac_accesses(1)] total_read_keeps [OF dmac_accesses(2)] total_read_keeps [OF dmac_accesses(3)]
  have "write_keeps (dmac_fixed c ints n) (Some dsh2edmac_write8)" "write_keeps (dmac_fixed c ints n) (Some dsh2edmac_write16)"
    "write_keeps (dmac_fixed c ints n) (Some dsh2edmac_write32)"
    by (rule total_write_keeps, use dmac_accesses in metis)+
  then show "dev_keeps (dmac_fixed c ints n) dsh2edmac_type" using r by (simp add: dev_keeps_def dsh2edmac_type_def)
  have "write_quiet (Some dsh2edmac_write8)" "write_quiet (Some dsh2edmac_write16)" "write_quiet (Some dsh2edmac_write32)"
    by (rule total_write_quiet, use dmac_accesses in metis)+
  then show "type_quiet dsh2edmac_type" using r by (simp add: type_quiet_def dsh2edmac_type_def)
qed

interpretation sh_cmt: device_class S_cmt prj_cmt "\<lambda>_. True" dsh2ecmt_type
  by unfold_locales (simp_all add: prj_cmt_def cmt_type_facts)

interpretation sh_wdt: device_class S_wdt prj_wdt "\<lambda>_. True" dsh2ewdt_type
  by unfold_locales (simp_all add: prj_wdt_def wdt_type_facts)

interpretation sh_dmac: device_class S_dmac prj_dmac "dmac_fixed c ints n" dsh2edmac_type for c ints n
  by unfold_locales (simp_all add: prj_dmac_def dmac_type_facts)

lemma lift_read_quiet: "read_quiet r \<Longrightarrow> read_quiet (map_option (lift_read emb prj) r)"
  by (auto simp: read_quiet_def lift_read_def bind_Some_iff)

lemma lift_write_quiet: "write_quiet w \<Longrightarrow> write_quiet (map_option (lift_write emb prj) w)"
  by (auto simp: write_quiet_def lift_write_def bind_Some_iff)

lemma lift_type_quiet: "type_quiet t \<Longrightarrow> type_quiet (lift_type emb prj t)"
  by (simp add: type_quiet_def lift_type_def lift_read_quiet lift_write_quiet)

subsection \<open>Well-formed devices\<close>

definition sh_dev_wf :: "sh2e_dev device \<Rightarrow> bool" where
  "sh_dev_wf d \<longleftrightarrow> dev_type d = sh2e_type_of (dev_data d)"

lemma sh_dev_wf_ok: "sh_dev_wf d \<Longrightarrow> dev_ok d \<and> type_quiet (dev_type d)"
proof (cases "dev_data d")
  case (S_dmac x)
  assume "sh_dev_wf d"
  then show ?thesis using S_dmac sh_dmac.lifted_ok [of d x "dmac_cpu x" "interrupt_number x" "dmac_cycles x"]
    by (simp add: sh_dev_wf_def dmac_fixed_def lift_type_quiet dmac_type_facts)
next
  case (S_cpu x)
  assume "sh_dev_wf d"
  then show ?thesis using S_cpu by (auto simp: sh_dev_wf_def dev_ok_def no_methods_keeps type_quiet_def)
next
  case (S_mem x)
  assume "sh_dev_wf d"
  then show ?thesis using S_mem by (auto simp: sh_dev_wf_def dev_ok_def no_methods_keeps type_quiet_def)
qed (auto simp: sh_dev_wf_def lift_type_quiet cmt_type_facts wdt_type_facts intro: sh_cmt.lifted_ok sh_wdt.lifted_ok)

text \<open>The kind of a device, with the processor of a processor device.\<close>

primrec sh_kind :: "sh2e_dev \<Rightarrow> nat \<times> nat" where
  "sh_kind (S_cpu k) = (0, k)"
| "sh_kind (S_cmt _) = (1, 0)"
| "sh_kind (S_wdt _) = (2, 0)"
| "sh_kind (S_dmac _) = (3, 0)"
| "sh_kind (S_mem m) = (4, m)"

lemma sh_dev_wf_evolves:
  assumes "sh_dev_wf d" "dev_evolves d d'"
  shows "sh_dev_wf d' \<and> sh_kind (dev_data d') = sh_kind (dev_data d)"
proof -
  have t: "dev_type d' = dev_type d" using assms(2) by (simp add: dev_evolves_def)
  show ?thesis
  proof (cases "dev_data d")
    case (S_dmac x)
    then show ?thesis using assms t sh_dmac.lifted_evolves [OF assms(2), of x "dmac_cpu x" "interrupt_number x" "dmac_cycles x"]
      by (auto simp: sh_dev_wf_def dmac_fixed_def)
  qed (use assms t in \<open>auto simp: sh_dev_wf_def dest: sh_cmt.lifted_evolves sh_wdt.lifted_evolves no_methods_evolves\<close>)
qed

lemma dmac_evolves:
  assumes "sh_dev_wf d" "dev_evolves d d'" "dev_data d = S_dmac x"
  shows "\<exists>x'. dev_data d' = S_dmac x' \<and> dmac_cpu x' = dmac_cpu x \<and> interrupt_number x' = interrupt_number x \<and> dmac_cycles x' = dmac_cycles x"
  using sh_dmac.lifted_evolves [OF assms(2) _ assms(3), of "dmac_cpu x" "interrupt_number x" "dmac_cycles x"] assms(1,3)
  by (auto simp: sh_dev_wf_def dmac_fixed_def)

end
