(* ===== verification/Sh2e_Decode_Facts.thy ===== *)
theory Sh2e_Decode_Facts
  imports Sh2e_Exec
begin

text \<open>
  The decoder of the SH-2E selects the stores of control registers only for words whose register
  field is in the array of control registers.
\<close>

definition well_typed :: "sh2e_exec_fn \<Rightarrow> sh2e_insn \<Rightarrow> bool" where
  "well_typed fn w \<longleftrightarrow> (fn = Fn_N Exec_stc_cpu \<or> fn = Fn_N Exec_stcm_cpu \<longrightarrow> csr_field w < 3)"

definition typed :: "sh2e_insn \<Rightarrow> sh2e_insn_desc option \<Rightarrow> bool" where
  "typed w x \<longleftrightarrow> (\<forall>d. x = Some d \<longrightarrow> well_typed (exec d) w)"

named_theorems typing

lemma typed_simps [typing]:
  "typed w None" "typed w (Some d) \<longleftrightarrow> well_typed (exec d) w"
  "typed w (if b then x else y) \<longleftrightarrow> (b \<longrightarrow> typed w x) \<and> (\<not> b \<longrightarrow> typed w y)"
  by (auto simp: typed_def)

lemma typed_or_else: "typed w x \<Longrightarrow> typed w y \<Longrightarrow> typed w (or_else x y)"
  by (cases x) (auto simp: or_else_def typed_def)

lemma csr_field_ic: "csr_field w = unat (drop_bit 4 (push_bit 8 (insn_ic_h w) OR insn_ic_l8 w) AND 3)"
proof -
  have m: "(3 :: u16) = mask 2" by (simp add: mask_eq_decr_exp)
  have "drop_bit 4 (insn_ic_l8 w) AND 3 = drop_bit 4 (push_bit 8 (insn_ic_h w) OR insn_ic_l8 w) AND 3"
    unfolding m by (rule bit_word_eqI) (auto simp: bit_simps)
  then show ?thesis by (simp add: csr_field_def)
qed

lemma typed_z [typing]: "typed w (sh2e_insn_decode_z_format w)"
  by (simp add: sh2e_insn_decode_z_format_def Let_def typing well_typed_def insn_desc_def)

lemma typed_n [typing]: "typed w (sh2e_insn_decode_n_format w)"
proof -
  define ic where "ic = push_bit 8 (insn_ic_h w) OR insn_ic_l8 w"
  have f: "csr_field w = unat (drop_bit 4 ic AND 3)" by (simp add: csr_field_ic ic_def)
  have "typed w (n_table_A26a ic)" "typed w (n_table_A26b ic)" "typed w (n_table_A28 ic)"
    by (simp_all add: n_table_A26a_def n_table_A26b_def n_table_A28_def typing well_typed_def insn_desc_def)
  moreover have "typed w (n_table_A27 ic)" "typed w (n_table_A29 ic)"
    by (simp_all add: n_table_A27_def n_table_A29_def typing well_typed_def insn_desc_def f)
  ultimately show ?thesis
    by (simp add: sh2e_insn_decode_n_format_def Let_def ic_def [symmetric] typed_or_else)
qed

lemma typed_m [typing]: "typed w (sh2e_insn_decode_m_format w)"
  unfolding sh2e_insn_decode_m_format_def Let_def
  by (intro typed_or_else)
    (simp_all add: m_table_A31_def m_table_A32_def m_table_A33_def m_table_A34_def typing well_typed_def insn_desc_def)

lemma typed_nm [typing]: "typed w (sh2e_insn_decode_nm_format w)"
  unfolding sh2e_insn_decode_nm_format_def Let_def
  by (intro typed_or_else)
    (simp_all add: nm_table_A36a_def nm_table_A36b_def nm_table_A36c_def nm_table_A37_def nm_table_A38_def
      nm_table_A39_def nm_table_A40_def nm_table_A41_def typing well_typed_def insn_desc_def)

lemma typed_fpu [typing]:
  "typed w (sh2e_insn_decode_n_format_fpu w)" "typed w (sh2e_insn_decode_m_format_fpu w)" "typed w (sh2e_insn_decode_nm_format_fpu w)"
  by (simp_all add: sh2e_insn_decode_n_format_fpu_def sh2e_insn_decode_m_format_fpu_def sh2e_insn_decode_nm_format_fpu_def
      Let_def typing well_typed_def insn_desc_def)

lemma typed_displacement [typing]:
  "typed w (sh2e_insn_decode_md_format w)" "typed w (sh2e_insn_decode_nd4_format w)" "typed w (sh2e_insn_decode_nmd_format w)"
  "typed w (sh2e_insn_decode_d_format w)" "typed w (sh2e_insn_decode_d12_format w)" "typed w (sh2e_insn_decode_nd8_format w)"
  by (simp_all add: sh2e_insn_decode_md_format_def sh2e_insn_decode_nd4_format_def sh2e_insn_decode_nmd_format_def
      sh2e_insn_decode_d_format_def sh2e_insn_decode_d12_format_def sh2e_insn_decode_nd8_format_def
      Let_def typing well_typed_def insn_desc_def)

lemma typed_immediate [typing]:
  "typed w (sh2e_insn_decode_i_format w)" "typed w (sh2e_insn_decode_ni_format w)" "typed w (sh2e_insn_decode_msim_format specific w)"
  by (simp_all add: sh2e_insn_decode_i_format_def sh2e_insn_decode_ni_format_def sh2e_insn_decode_msim_format_def
      Let_def typing well_typed_def insn_desc_def illegal_def)

lemma decode_well_typed: "well_typed (exec (sh2e_insn_decode specific w)) w"
proof -
  have i: "well_typed (exec illegal) w" by (simp add: well_typed_def illegal_def insn_desc_def)
  have c: "typed w x \<Longrightarrow> well_typed (exec (case x of Some d \<Rightarrow> d | None \<Rightarrow> illegal)) w" for x
    using i by (cases x) (auto simp: typed_def)
  show ?thesis unfolding sh2e_insn_decode_def Let_def by (rule c) (simp add: typing typed_or_else)
qed

end
