(* ===== verification/Sh2e_Safety.thy ===== *)
theory Sh2e_Safety
  imports Sh2e_Access Sh2e_Decode_Facts
begin

text \<open>
  Every instruction of the SH-2E other than the two multiply-accumulate instructions returns on the
  words that decode to it, and keeps the machine invariant. Only its own processor changes, and of
  it only what instructions may write: \<open>sh_step\<close>.
\<close>

subsection \<open>Aligned accesses return\<close>

lemma sh_ucast_aligned:
  "(addr :: u32) AND 1 = 0 \<Longrightarrow> IS_ALIGNED (ucast addr :: ptr36) 2" "addr AND 3 = 0 \<Longrightarrow> IS_ALIGNED (ucast addr :: ptr36) 4"
proof -
  have m: "(1 :: u32) = mask 1" "(3 :: u32) = mask 2" "(2 - 1 :: ptr36) = mask 1" "(4 - 1 :: ptr36) = mask 2"
    by (simp_all add: mask_eq_decr_exp)
  have "(ucast addr :: ptr36) AND mask n = ucast (addr AND mask n)" for n
    by (rule bit_word_eqI) (auto simp: bit_simps dest: bit_imp_le_length)
  then show "addr AND 1 = 0 \<Longrightarrow> IS_ALIGNED (ucast addr :: ptr36) 2" "addr AND 3 = 0 \<Longrightarrow> IS_ALIGNED (ucast addr :: ptr36) 4"
    unfolding IS_ALIGNED_def m by (simp_all del: mask_1 One_nat_def)
qed

definition reads_ok :: "('v, 'd, 'z) sh2e_read \<Rightarrow> bool" where
  "reads_ok rd \<longleftrightarrow> (\<forall>cs k a s. sh_ok cs s \<longrightarrow> (\<exists>x s'. rd k a s = Some (x, s') \<and> sh_env cs s s'))"

definition writes_ok :: "('d, 'z) sh2e_write \<Rightarrow> bool" where
  "writes_ok wr \<longleftrightarrow> (\<forall>cs k a v s. sh_ok cs s \<longrightarrow> (\<exists>ex s'. wr k a v s = Some (ex, s') \<and> sh_env cs s s'))"

lemma sh2e_physmem_read_ok:
  assumes "sh_ok cs s"
  shows "\<exists>v s'. sh2e_physmem_read8 p a prot s = Some (v, s') \<and> sh_env cs s s'"
    "a AND 1 = 0 \<Longrightarrow> \<exists>v s'. sh2e_physmem_read16 p a prot s = Some (v, s') \<and> sh_env cs s s'"
    "a AND 3 = 0 \<Longrightarrow> \<exists>v s'. sh2e_physmem_read32 p a prot s = Some (v, s') \<and> sh_env cs s s'"
proof -
  note r = sh_memory.rd_env [OF assms, where p = p and a = "ucast a" and prot = prot]
  show "\<exists>v s'. sh2e_physmem_read8 p a prot s = Some (v, s') \<and> sh_env cs s s'"
    unfolding sh2e_physmem_read8_def by (rule r(1))
  show "\<exists>v s'. sh2e_physmem_read16 p a prot s = Some (v, s') \<and> sh_env cs s s'" if "a AND 1 = 0"
    using r(2) [OF sh_ucast_aligned(1) [OF that]] by (auto simp: sh2e_physmem_read16_def)
  show "\<exists>v s'. sh2e_physmem_read32 p a prot s = Some (v, s') \<and> sh_env cs s s'" if "a AND 3 = 0"
    using r(3) [OF sh_ucast_aligned(2) [OF that]] by (auto simp: sh2e_physmem_read32_def)
qed

lemma reads_okI: "(\<And>cs k a s. sh_ok cs s \<Longrightarrow> \<exists>x s'. rd k a s = Some (x, s') \<and> sh_env cs s s') \<Longrightarrow> reads_ok rd"
  by (simp add: reads_ok_def)

lemma read_map:
  "\<exists>v s'. r = Some (v, s') \<and> sh_env cs s s' \<Longrightarrow> \<exists>x s'. do { (v, s1) \<leftarrow> r; Some (Inr (h v), s1) } = Some (x, s') \<and> sh_env cs s s'"
  by auto

lemma read_guarded:
  "sh_ok cs s \<Longrightarrow> (\<not> c \<Longrightarrow> \<exists>x s'. r = Some (x, s') \<and> sh_env cs s s') \<Longrightarrow>
   \<exists>x s'. (if c then Some (y, s) else r) = Some (x, s') \<and> sh_env cs s s'"
  by (simp add: sh_memory.access_refl)

lemma reads_ok_memops [simp]:
  "reads_ok sh2e_cpu_readz_byte" "reads_ok sh2e_cpu_reads_byte" "reads_ok sh2e_cpu_readz_word" "reads_ok sh2e_cpu_reads_word"
  "reads_ok sh2e_cpu_read_long" "reads_ok sh2e_cpu_read_float" "reads_ok sh2e_cpu_fetch_insn"
  unfolding sh2e_cpu_readz_byte_def sh2e_cpu_reads_byte_def sh2e_cpu_readz_word_def sh2e_cpu_reads_word_def
    sh2e_cpu_read_long_def sh2e_cpu_read_float_def sh2e_cpu_fetch_insn_def
  by (rule reads_okI; (rule read_guarded, assumption)?; rule read_map; rule sh2e_physmem_read_ok; simp)+

lemma write_guarded:
  "sh_ok cs s \<Longrightarrow> (\<not> c \<Longrightarrow> \<exists>b s'. w = Some (b, s') \<and> sh_env cs s s') \<Longrightarrow>
   \<exists>ex s'. (if c then Some (y, s) else if t then Some (z, s) else write_result w) = Some (ex, s') \<and> sh_env cs s s'"
  by (auto simp: sh_memory.access_refl write_result_def)

lemma writes_ok_byte [simp]: "writes_ok sh2e_cpu_write_byte"
  unfolding writes_ok_def
proof (intro allI impI)
  fix cs k a v and s :: "('d, 'z) sh2e_sim" assume ok: "sh_ok cs s"
  show "\<exists>ex s'. sh2e_cpu_write_byte k a v s = Some (ex, s') \<and> sh_env cs s s'"
    using write_guarded [OF ok, of False, OF sh_memory.wr_env(1) [OF ok]] by (simp add: sh2e_cpu_write_byte_def)
qed

lemma writes_ok_memops [simp]:
  "writes_ok sh2e_cpu_write_word" "writes_ok sh2e_cpu_write_long" "writes_ok sh2e_cpu_write_float"
  unfolding writes_ok_def sh2e_cpu_write_word_def sh2e_cpu_write_long_def sh2e_cpu_write_float_def
  by (intro allI impI, rule write_guarded, assumption, rule sh_memory.wr_env, assumption, rule sh_ucast_aligned, simp)+

subsection \<open>Instructions\<close>

text \<open>What an instruction leaves of its processor.\<close>

definition kept :: "sh2e_cpu \<Rightarrow> sh2e_cpu \<Rightarrow> bool" where
  "kept c c' \<longleftrightarrow> sh_id c' = sh_id c \<and> intc c' = intc c \<and> on_chip_peripherals c' = on_chip_peripherals c \<and>
     disable_interrupts c' = disable_interrupts c \<and> disable_address_errors c' = disable_address_errors c \<and>
     insn_exception c' = insn_exception c \<and> pending_interrupt c' = pending_interrupt c \<and>
     pending_address_error c' = pending_address_error c \<and> reset_req c' = reset_req c"

lemma kept_refl [simp]: "kept c c"
  by (simp add: kept_def)

lemma kept_trans: "kept a b \<Longrightarrow> kept b c \<Longrightarrow> kept a c"
  by (simp add: kept_def)

lemma kept_set [simp]:
  "kept c (set_gr i v c') = kept c c'" "kept c (set_fr i v c') = kept c c'" "kept c (set_sr_t b c') = kept c c'"
  "kept c (set_sr_q b c') = kept c c'" "kept c (set_sr_m b c') = kept c c'" "kept c (set_fpscr_bit n b c') = kept c c'"
  "kept c (c'\<lparr>sh_sr := v\<rparr>) = kept c c'" "kept c (c'\<lparr>sh_gbr := v\<rparr>) = kept c c'" "kept c (c'\<lparr>sh_vbr := v\<rparr>) = kept c c'"
  "kept c (c'\<lparr>sh_mach := v\<rparr>) = kept c c'" "kept c (c'\<lparr>sh_macl := v\<rparr>) = kept c c'" "kept c (c'\<lparr>sh_pr := v\<rparr>) = kept c c'"
  "kept c (c'\<lparr>sh_fpul := v\<rparr>) = kept c c'" "kept c (c'\<lparr>sh_fpscr := v\<rparr>) = kept c c'" "kept c (c'\<lparr>pc_target := v\<rparr>) = kept c c'"
  "kept c (c'\<lparr>br_state := x\<rparr>) = kept c c'" "kept c (c'\<lparr>pr_state := y\<rparr>) = kept c c'"
  "kept c (c'\<lparr>program_execution_cycles := z\<rparr>) = kept c c'" "kept c (c'\<lparr>sh_pc := v\<rparr>) = kept c c'"
  by (simp_all add: kept_def set_gr_def set_fr_def set_sr_t_def set_sr_q_def set_sr_m_def set_fpscr_bit_def)

definition sh_step where
  "sh_step cs k s s' \<longleftrightarrow> sys_evolves_by (sh_ok cs) s s' \<and> (\<forall>j. j \<noteq> k \<longrightarrow> cpu_mem s' j = cpu_mem s j) \<and>
     kept (cpu_mem s k) (cpu_mem s' k)"

lemma sh_step_refl [simp]: "sh_step cs k s s \<longleftrightarrow> sh_ok cs s"
  by (simp add: sh_step_def)

lemma sh_step_trans: "sh_step cs k a b \<Longrightarrow> sh_step cs k b c \<Longrightarrow> sh_step cs k a c"
  unfolding sh_step_def by (metis (no_types, lifting) kept_trans sys_evolves_trans)

lemma sh_step_env: "sh_env cs s s' \<Longrightarrow> sh_step cs k s s'"
  by (auto simp: sh_step_def env_step_by_def)

lemma sh_step_ok: "sh_step cs k s s' \<Longrightarrow> sh_ok cs s'"
  by (auto simp: sh_step_def sys_evolves_by_def)

lemma sys_evolves_cpu:
  assumes "sh_ok cs s" shows "sys_evolves_by (sh_ok cs) s (s\<lparr>cpu_mem := m\<rparr>)"
proof -
  let ?s = "s\<lparr>cpu_mem := m\<rparr>"
  have "sh_ok cs ?s" using assms physmem_ok_cong [of ?s s] by (simp add: sh_ok_def)
  then show ?thesis using frame_at_cong [of ?s s] phys_byte_cong [of ?s s] by (intro sys_evolvesI) simp_all
qed

lemma sh_step_upd:
  "sh_ok cs s \<Longrightarrow> kept (cpu_mem s k) (f (cpu_mem s k)) \<Longrightarrow> sh_step cs k s (upd_cpu k f s)"
  by (simp add: sh_step_def upd_cpu_def sys_evolves_cpu)

definition safe :: "nat list \<times> (nat \<Rightarrow> sh2e_cpu general_cpu) \<Rightarrow> nat \<Rightarrow> ('d, 'z) sh2e_sim \<Rightarrow>
    (sh2e_exception \<times> ('d, 'z) sh2e_sim) option \<Rightarrow> bool" where
  "safe cs k s r \<longleftrightarrow> (\<exists>ex s'. r = Some (ex, s') \<and> sh_step cs k s s')"

lemma safe_Some: "sh_ok cs s \<Longrightarrow> safe cs k s (Some (ex, s))"
  by (simp add: safe_def)

lemma safe_finish: "sh_ok cs s \<Longrightarrow> (\<And>c. kept c (f c)) \<Longrightarrow> safe cs k s (finish k f s)"
  by (simp add: safe_def finish_def sh_step_upd)

lemma safe_with_read:
  assumes "reads_ok rd" "sh_ok cs s" "\<And>v s1. sh_ok cs s1 \<Longrightarrow> safe cs k s1 (f v s1)"
  shows "safe cs k s (with_read (rd k a s) f)"
proof -
  obtain x s1 where r: "rd k a s = Some (x, s1)" "sh_env cs s s1" using assms(1,2) unfolding reads_ok_def by blast
  note st = sh_step_env [OF r(2), of k]
  show ?thesis
  proof (cases x)
    case (Inl ex)
    then show ?thesis using r(1) st by (simp add: with_read_def safe_def)
  next
    case (Inr v)
    then show ?thesis using r(1) st assms(3) [OF sh_step_ok [OF st], of v]
      by (auto simp: with_read_def safe_def intro: sh_step_trans)
  qed
qed

lemma safe_write: "writes_ok wr \<Longrightarrow> sh_ok cs s \<Longrightarrow> safe cs k s (wr k a v s)"
  unfolding writes_ok_def safe_def by (metis sh_step_env)

lemma safe_with_write:
  assumes "writes_ok wr" "sh_ok cs s" "\<And>s1. sh_ok cs s1 \<Longrightarrow> safe cs k s1 (f s1)"
  shows "safe cs k s (with_write (wr k a v s) f)"
proof -
  obtain ex s1 where r: "wr k a v s = Some (ex, s1)" "sh_step cs k s s1" using safe_write [OF assms(1,2), of k a v] unfolding safe_def by blast
  then show ?thesis using assms(3) [OF sh_step_ok [OF r(2)]]
    by (cases "ex = SH2E_EXCEPTION_NONE") (auto simp: with_write_def safe_def intro: sh_step_trans)
qed

lemma safe_run_reg:
  assumes "sh_ok cs s" "\<And>c. kept c (snd (f c w))"
  shows "safe cs k s (run_reg f k w s)"
proof -
  obtain ex c where "f (cpu_mem s k) w = (ex, c)" by fastforce
  then show ?thesis using assms(2) [of "cpu_mem s k"] sh_step_upd [OF assms(1), of k "\<lambda>_. c"]
    by (simp add: run_reg_def safe_def)
qed

lemma safe_run_reg_option:
  assumes "sh_ok cs s" "\<exists>ex c. f (cpu_mem s k) w = Some (ex, c) \<and> kept (cpu_mem s k) c"
  shows "safe cs k s (run_reg_option f k w s)"
  using assms sh_step_upd [OF assms(1)] by (auto simp: run_reg_option_def safe_def)

text \<open>The register instructions write nothing else of the processor.\<close>

named_theorems kept_insns

lemma kept_templates [simp]:
  "kept c (snd (sh2e_insn_branch_t_eq c w b d))" "kept c (snd (sh2e_insn_ext c w xt))" "kept c (snd (sh2e_insn_set_t c b))"
  by (simp_all add: sh2e_insn_branch_t_eq_def sh2e_insn_ext_def sh2e_insn_set_t_def Let_def)

lemma kept_regs1 [kept_insns]:
  "kept c (snd (sh2e_insn_exec_illegal c w))" "kept c (snd (sh2e_insn_exec_clrt c w))"
  "kept c (snd (sh2e_insn_exec_nop c w))" "kept c (snd (sh2e_insn_exec_rts c w))"
  "kept c (snd (sh2e_insn_exec_sett c w))" "kept c (snd (sh2e_insn_exec_div0u c w))"
  "kept c (snd (sh2e_insn_exec_sleep c w))" "kept c (snd (sh2e_insn_exec_clrmac c w))"
  "kept c (snd (sh2e_insn_exec_cpu_reg_dump c w))" "kept c (snd (sh2e_insn_exec_fpu_reg_dump c w))"
  "kept c (snd (sh2e_insn_exec_cmppl c w))" "kept c (snd (sh2e_insn_exec_cmppz c w))"
  "kept c (snd (sh2e_insn_exec_dt c w))" "kept c (snd (sh2e_insn_exec_movt c w))"
  "kept c (snd (sh2e_insn_exec_rotl c w))" "kept c (snd (sh2e_insn_exec_rotr c w))"
  "kept c (snd (sh2e_insn_exec_rotcl c w))" "kept c (snd (sh2e_insn_exec_rotcr c w))"
  "kept c (snd (sh2e_insn_exec_shal c w))" "kept c (snd (sh2e_insn_exec_shar c w))"
  "kept c (snd (sh2e_insn_exec_shll c w))" "kept c (snd (sh2e_insn_exec_shlr c w))"
  "kept c (snd (sh2e_insn_exec_shll2 c w))" "kept c (snd (sh2e_insn_exec_shll8 c w))"
  by (simp_all add: Let_def sh2e_insn_shlln_def sh2e_insn_shlrn_def
    sh2e_insn_exec_illegal_def sh2e_insn_exec_clrt_def sh2e_insn_exec_nop_def sh2e_insn_exec_rts_def sh2e_insn_exec_sett_def
    sh2e_insn_exec_div0u_def sh2e_insn_exec_sleep_def sh2e_insn_exec_clrmac_def sh2e_insn_exec_cpu_reg_dump_def
    sh2e_insn_exec_fpu_reg_dump_def sh2e_insn_exec_cmppl_def sh2e_insn_exec_cmppz_def sh2e_insn_exec_dt_def
    sh2e_insn_exec_movt_def sh2e_insn_exec_rotl_def sh2e_insn_exec_rotr_def sh2e_insn_exec_rotcl_def sh2e_insn_exec_rotcr_def
    sh2e_insn_exec_shal_def sh2e_insn_exec_shar_def sh2e_insn_exec_shll_def sh2e_insn_exec_shlr_def sh2e_insn_exec_shll2_def
    sh2e_insn_exec_shll8_def)

lemma kept_regs2 [kept_insns]:
  "kept c (snd (sh2e_insn_exec_shll16 c w))" "kept c (snd (sh2e_insn_exec_shlr2 c w))"
  "kept c (snd (sh2e_insn_exec_shlr8 c w))" "kept c (snd (sh2e_insn_exec_shlr16 c w))"
  "kept c (snd (sh2e_insn_exec_ldc_sr c w))" "kept c (snd (sh2e_insn_exec_ldc_gbr c w))"
  "kept c (snd (sh2e_insn_exec_ldc_vbr c w))" "kept c (snd (sh2e_insn_exec_lds_fpul c w))"
  "kept c (snd (sh2e_insn_exec_lds_fpscr c w))" "kept c (snd (sh2e_insn_exec_lds_mach c w))"
  "kept c (snd (sh2e_insn_exec_lds_macl c w))" "kept c (snd (sh2e_insn_exec_lds_pr c w))"
  "kept c (snd (sh2e_insn_exec_jmp c w))" "kept c (snd (sh2e_insn_exec_jsr c w))"
  "kept c (snd (sh2e_insn_exec_braf c w))" "kept c (snd (sh2e_insn_exec_bsrf c w))"
  "kept c (snd (sh2e_insn_exec_add c w))" "kept c (snd (sh2e_insn_exec_addc c w))"
  "kept c (snd (sh2e_insn_exec_addv c w))" "kept c (snd (sh2e_insn_exec_and c w))"
  "kept c (snd (sh2e_insn_exec_cmpeq c w))" "kept c (snd (sh2e_insn_exec_cmphs c w))"
  "kept c (snd (sh2e_insn_exec_cmpge c w))" "kept c (snd (sh2e_insn_exec_cmphi c w))"
  by (simp_all add: Let_def sh2e_insn_shlln_def sh2e_insn_shlrn_def
    sh2e_insn_exec_shll16_def sh2e_insn_exec_shlr2_def sh2e_insn_exec_shlr8_def sh2e_insn_exec_shlr16_def
    sh2e_insn_exec_ldc_sr_def sh2e_insn_exec_ldc_gbr_def sh2e_insn_exec_ldc_vbr_def sh2e_insn_exec_lds_fpul_def
    sh2e_insn_exec_lds_fpscr_def sh2e_insn_exec_lds_mach_def sh2e_insn_exec_lds_macl_def sh2e_insn_exec_lds_pr_def
    sh2e_insn_exec_jmp_def sh2e_insn_exec_jsr_def sh2e_insn_exec_braf_def sh2e_insn_exec_bsrf_def sh2e_insn_exec_add_def
    sh2e_insn_exec_addc_def sh2e_insn_exec_addv_def sh2e_insn_exec_and_def sh2e_insn_exec_cmpeq_def sh2e_insn_exec_cmphs_def
    sh2e_insn_exec_cmpge_def sh2e_insn_exec_cmphi_def)

lemma kept_regs3 [kept_insns]:
  "kept c (snd (sh2e_insn_exec_cmpgt c w))" "kept c (snd (sh2e_insn_exec_cmpstr c w))"
  "kept c (snd (sh2e_insn_exec_div1 c w))" "kept c (snd (sh2e_insn_exec_div0s c w))"
  "kept c (snd (sh2e_insn_exec_dmulsl c w))" "kept c (snd (sh2e_insn_exec_dmulul c w))"
  "kept c (snd (sh2e_insn_exec_extsb c w))" "kept c (snd (sh2e_insn_exec_extsw c w))"
  "kept c (snd (sh2e_insn_exec_extub c w))" "kept c (snd (sh2e_insn_exec_extuw c w))"
  "kept c (snd (sh2e_insn_exec_mov c w))" "kept c (snd (sh2e_insn_exec_mull c w))"
  "kept c (snd (sh2e_insn_exec_mulsw c w))" "kept c (snd (sh2e_insn_exec_muluw c w))"
  "kept c (snd (sh2e_insn_exec_neg c w))" "kept c (snd (sh2e_insn_exec_negc c w))"
  "kept c (snd (sh2e_insn_exec_not c w))" "kept c (snd (sh2e_insn_exec_or c w))"
  "kept c (snd (sh2e_insn_exec_sub c w))" "kept c (snd (sh2e_insn_exec_subc c w))"
  "kept c (snd (sh2e_insn_exec_subv c w))" "kept c (snd (sh2e_insn_exec_swapb c w))"
  "kept c (snd (sh2e_insn_exec_swapw c w))" "kept c (snd (sh2e_insn_exec_tst c w))"
  by (simp_all add: Let_def sh2e_insn_shlln_def sh2e_insn_shlrn_def
    sh2e_insn_exec_cmpgt_def sh2e_insn_exec_cmpstr_def sh2e_insn_exec_div1_def sh2e_insn_exec_div0s_def
    sh2e_insn_exec_dmulsl_def sh2e_insn_exec_dmulul_def sh2e_insn_exec_extsb_def sh2e_insn_exec_extsw_def
    sh2e_insn_exec_extub_def sh2e_insn_exec_extuw_def sh2e_insn_exec_mov_def sh2e_insn_exec_mull_def sh2e_insn_exec_mulsw_def
    sh2e_insn_exec_muluw_def sh2e_insn_exec_neg_def sh2e_insn_exec_negc_def sh2e_insn_exec_not_def sh2e_insn_exec_or_def
    sh2e_insn_exec_sub_def sh2e_insn_exec_subc_def sh2e_insn_exec_subv_def sh2e_insn_exec_swapb_def sh2e_insn_exec_swapw_def
    sh2e_insn_exec_tst_def)

lemma kept_regs4 [kept_insns]:
  "kept c (snd (sh2e_insn_exec_xor c w))" "kept c (snd (sh2e_insn_exec_xtrct c w))"
  "kept c (snd (sh2e_insn_exec_mova c w))" "kept c (snd (sh2e_insn_exec_bf c w))"
  "kept c (snd (sh2e_insn_exec_bfs c w))" "kept c (snd (sh2e_insn_exec_bt c w))"
  "kept c (snd (sh2e_insn_exec_bts c w))" "kept c (snd (sh2e_insn_exec_bra c w))"
  "kept c (snd (sh2e_insn_exec_bsr c w))" "kept c (snd (sh2e_insn_exec_cmpim c w))"
  "kept c (snd (sh2e_insn_exec_tsti c w))" "kept c (snd (sh2e_insn_exec_andi c w))"
  "kept c (snd (sh2e_insn_exec_xori c w))" "kept c (snd (sh2e_insn_exec_ori c w))"
  "kept c (snd (sh2e_insn_exec_addi c w))" "kept c (snd (sh2e_insn_exec_movi c w))"
  by (simp_all add: Let_def sh2e_insn_shlln_def sh2e_insn_shlrn_def
    sh2e_insn_exec_xor_def sh2e_insn_exec_xtrct_def sh2e_insn_exec_mova_def sh2e_insn_exec_bf_def sh2e_insn_exec_bfs_def
    sh2e_insn_exec_bt_def sh2e_insn_exec_bts_def sh2e_insn_exec_bra_def sh2e_insn_exec_bsr_def sh2e_insn_exec_cmpim_def
    sh2e_insn_exec_tsti_def sh2e_insn_exec_andi_def sh2e_insn_exec_xori_def sh2e_insn_exec_ori_def sh2e_insn_exec_addi_def
    sh2e_insn_exec_movi_def)

lemma kept_fpu [simp]:
  "kept c (sh2e_cpu_clear_cv_cz c') = kept c c'" "kept c (sh2e_cpu_set_cv_fv c') = kept c c'"
  "kept c (sh2e_cpu_set_cz_fz c') = kept c c'" "kept c (snd (fpu_result b w n v c')) = kept c c'"
  by (simp_all add: sh2e_cpu_clear_cv_cz_def sh2e_cpu_set_cv_fv_def sh2e_cpu_set_cz_fz_def fpu_result_def Let_def)

lemma kept_fpu_insns [kept_insns]:
  "kept c (snd (sh2e_insn_exec_fsts H c w))" "kept c (snd (sh2e_insn_exec_float H c w))"
  "kept c (snd (sh2e_insn_exec_fneg H c w))" "kept c (snd (sh2e_insn_exec_fabs H c w))"
  "kept c (snd (sh2e_insn_exec_fldi0 H c w))" "kept c (snd (sh2e_insn_exec_fldi1 H c w))"
  "kept c (snd (sh2e_insn_exec_flds H c w))" "kept c (snd (sh2e_insn_exec_ftrc H c w))"
  "kept c (snd (sh2e_insn_exec_fadd H c w))" "kept c (snd (sh2e_insn_exec_fcmpeq H c w))"
  "kept c (snd (sh2e_insn_exec_fcmpgt H c w))" "kept c (snd (sh2e_insn_exec_fdiv H c w))"
  "kept c (snd (sh2e_insn_exec_fmac H c w))" "kept c (snd (sh2e_insn_exec_fmov H c w))"
  "kept c (snd (sh2e_insn_exec_fmul H c w))" "kept c (snd (sh2e_insn_exec_fsub H c w))"
  by (simp_all add: Let_def split_beta
    sh2e_insn_exec_fsts_def sh2e_insn_exec_float_def sh2e_insn_exec_fneg_def sh2e_insn_exec_fabs_def sh2e_insn_exec_fldi0_def
    sh2e_insn_exec_fldi1_def sh2e_insn_exec_flds_def sh2e_insn_exec_ftrc_def sh2e_insn_exec_fadd_def
    sh2e_insn_exec_fcmpeq_def sh2e_insn_exec_fcmpgt_def sh2e_insn_exec_fdiv_def sh2e_insn_exec_fmac_def
    sh2e_insn_exec_fmov_def sh2e_insn_exec_fmul_def sh2e_insn_exec_fsub_def)

text \<open>Templates and instructions with memory accesses.\<close>

lemmas safe_rules = safe_with_read safe_with_write safe_finish safe_Some
  safe_write [of sh2e_cpu_write_byte] safe_write [of sh2e_cpu_write_word] safe_write [of sh2e_cpu_write_long]
  safe_write [of sh2e_cpu_write_float]

lemma safe_loads:
  assumes "reads_ok rd" "sh_ok cs s"
  shows "safe cs k s (sh2e_insn_movi n rd xt k w s)" "safe cs k s (sh2e_insn_movl rd k w s)" "safe cs k s (sh2e_insn_movp n rd k w s)"
    "safe cs k s (sh2e_insn_movl0 rd k w s)" "safe cs k s (sh2e_insn_movl4 n rd k w s)" "safe cs k s (sh2e_insn_movlg n rd k w s)"
  unfolding sh2e_insn_movi_def sh2e_insn_movl_def sh2e_insn_movp_def sh2e_insn_movl0_def sh2e_insn_movl4_def sh2e_insn_movlg_def Let_def
  using assms by (auto intro!: safe_rules)

lemma safe_stores:
  assumes "writes_ok wr" "sh_ok cs s"
  shows "safe cs k s (sh2e_insn_movs wr k w s)" "safe cs k s (sh2e_insn_movm n wr k w s)" "safe cs k s (sh2e_insn_movs0 wr k w s)"
    "safe cs k s (sh2e_insn_movs4 n wr k w s)" "safe cs k s (sh2e_insn_movsg n wr k w s)"
  unfolding sh2e_insn_movs_def sh2e_insn_movm_def sh2e_insn_movs0_def sh2e_insn_movs4_def sh2e_insn_movsg_def Let_def
  using assms by (auto intro!: safe_rules safe_write [OF assms(1)])

lemma safe_special:
  assumes "sh_ok cs s"
  shows "(\<And>v c c'. kept c c' \<Longrightarrow> kept c (put v c')) \<Longrightarrow> safe cs k s (load_csr put k w s)" "safe cs k s (gbr_byte_op f k w s)"
    "safe cs k s (sh2e_insn_exec_rte k w s)" "safe cs k s (sh2e_insn_exec_tas k w s)" "safe cs k s (sh2e_insn_exec_trapa k w s)"
    "safe cs k s (sh2e_insn_exec_tstm k w s)" "safe cs k s (sh2e_insn_exec_movll4 k w s)" "safe cs k s (sh2e_insn_exec_movls4 k w s)"
    "safe cs k s (sh2e_insn_fmovl base k w s)" "safe cs k s (sh2e_insn_fmovs base k w s)"
    "safe cs k s (sh2e_insn_exec_fmovlr k w s)" "safe cs k s (sh2e_insn_exec_fmovss k w s)"
  unfolding load_csr_def gbr_byte_op_def sh2e_insn_exec_rte_def sh2e_insn_exec_tas_def sh2e_insn_exec_trapa_def sh2e_insn_exec_tstm_def
    sh2e_insn_exec_movll4_def sh2e_insn_exec_movls4_def sh2e_insn_fmovl_def sh2e_insn_fmovs_def
    sh2e_insn_exec_fmovlr_def sh2e_insn_exec_fmovss_def Let_def
  using assms by (auto intro!: safe_rules)

lemma csr_field_less: "csr_field w < 4"
proof -
  have "drop_bit 4 (insn_ic_l8 w) AND 3 \<le> 3" by (rule word_and_le1)
  then show ?thesis by (simp add: csr_field_def word_le_nat_alt)
qed

lemma csr_total:
  "csr_field w < 3 \<Longrightarrow> \<exists>v. control_reg c (csr_field w) = Some v" "\<exists>v. system_reg c (csr_field w) = Some v"
  "\<exists>v. fpu_system_reg c (csr_field w) = Some v"
  using csr_field_less [of w] by (auto simp: control_reg_def system_reg_def fpu_system_reg_def)

lemma safe_csr:
  assumes "sh_ok cs s" "\<exists>v. csrs (cpu_mem s k) (csr_field w) = Some v"
  shows "safe cs k s (run_reg_option (\<lambda>c w. sh2e_insn_stcsr c w csrs) k w s)" "safe cs k s (sh2e_insn_stcsrm csrs k w s)"
  using assms by (auto simp: sh2e_insn_stcsr_def sh2e_insn_stcsrm_def Let_def intro!: safe_run_reg_option safe_rules)

lemma safe_halt: "sh_ok cs s \<Longrightarrow> safe cs k s (sh2e_insn_exec_halt k w s)"
  using sh_step_env [OF sh_env_unchanged [of cs s "s\<lparr>machine_halt := True\<rparr>"]] by (simp add: safe_def sh2e_insn_exec_halt_def)

lemmas memory_insns =
  sh2e_insn_exec_ldcl_sr_def sh2e_insn_exec_ldcl_gbr_def sh2e_insn_exec_ldcl_vbr_def sh2e_insn_exec_ldsl_fpul_def
  sh2e_insn_exec_ldsl_fpscr_def sh2e_insn_exec_ldsl_mach_def sh2e_insn_exec_ldsl_macl_def sh2e_insn_exec_ldsl_pr_def
  sh2e_insn_exec_movbs_def sh2e_insn_exec_movws_def sh2e_insn_exec_movls_def sh2e_insn_exec_movbl_def
  sh2e_insn_exec_movwl_def sh2e_insn_exec_movll_def sh2e_insn_exec_movbp_def sh2e_insn_exec_movwp_def
  sh2e_insn_exec_movlp_def sh2e_insn_exec_movbm_def sh2e_insn_exec_movwm_def sh2e_insn_exec_movlm_def
  sh2e_insn_exec_movbs0_def sh2e_insn_exec_movws0_def sh2e_insn_exec_movls0_def sh2e_insn_exec_movbl0_def
  sh2e_insn_exec_movwl0_def sh2e_insn_exec_movll0_def sh2e_insn_exec_fmovli_def sh2e_insn_exec_fmovl_def
  sh2e_insn_exec_fmovsi_def sh2e_insn_exec_fmovs_def sh2e_insn_exec_movbl4_def sh2e_insn_exec_movwl4_def
  sh2e_insn_exec_movbs4_def sh2e_insn_exec_movws4_def sh2e_insn_exec_movblg_def sh2e_insn_exec_movwlg_def
  sh2e_insn_exec_movllg_def sh2e_insn_exec_movbsg_def sh2e_insn_exec_movwsg_def sh2e_insn_exec_movlsg_def
  sh2e_insn_exec_movwi_def sh2e_insn_exec_movli_def sh2e_insn_exec_andm_def sh2e_insn_exec_xorm_def sh2e_insn_exec_orm_def

lemmas safe_insns = safe_run_reg safe_loads safe_stores safe_special safe_halt

lemma safe_Z: "sh_ok cs s \<Longrightarrow> safe cs k s (exec_Z f k w s)"
  by (cases f) (auto simp: kept_insns intro!: safe_insns)

lemma safe_N: "sh_ok cs s \<Longrightarrow> well_typed (Fn_N f) w \<Longrightarrow> safe cs k s (exec_N f k w s)"
  by (cases f) (auto simp: kept_insns well_typed_def csr_total sh2e_insn_exec_stcm_cpu_def sh2e_insn_exec_stsm_cpu_def
      sh2e_insn_exec_stsm_fpu_def sh2e_insn_exec_stc_cpu_def [abs_def] sh2e_insn_exec_sts_cpu_def [abs_def]
      sh2e_insn_exec_sts_fpu_def [abs_def] intro!: safe_insns safe_csr)

lemma safe_M: "sh_ok cs s \<Longrightarrow> safe cs k s (exec_M f k w s)"
  by (cases f) (auto simp: kept_insns memory_insns intro!: safe_insns)

lemma safe_A: "sh_ok cs s \<Longrightarrow> safe cs k s (exec_A f k w s)"
  by (cases f) (auto simp: kept_insns intro!: safe_insns)

lemma safe_X: "sh_ok cs s \<Longrightarrow> f \<noteq> Exec_macl \<Longrightarrow> f \<noteq> Exec_macw \<Longrightarrow> safe cs k s (exec_X f k w s)"
  by (cases f) (auto simp: memory_insns intro!: safe_insns)

lemma safe_F: "sh_ok cs s \<Longrightarrow> safe cs k s (exec_F H f k w s)"
  by (cases f) (auto simp: kept_insns memory_insns intro!: safe_insns)

lemma safe_D: "sh_ok cs s \<Longrightarrow> safe cs k s (exec_D f k w s)"
  by (cases f) (auto simp: kept_insns memory_insns intro!: safe_insns)

lemma safe_I: "sh_ok cs s \<Longrightarrow> safe cs k s (exec_I f k w s)"
  by (cases f) (auto simp: kept_insns memory_insns intro!: safe_insns)

lemma exec_insn_safe:
  assumes "sh_ok cs s" "well_typed fn w" "fn \<noteq> Fn_X Exec_macl" "fn \<noteq> Fn_X Exec_macw"
  shows "\<exists>ex s'. exec_insn H fn k w s = Some (ex, s') \<and> sh_step cs k s s'"
proof -
  have "safe cs k s (exec_insn H fn k w s)"
    using assms by (cases fn) (auto simp: safe_Z safe_N safe_M safe_A safe_X safe_F safe_D safe_I)
  then show ?thesis by (simp add: safe_def)
qed

end
