(* ===== verification/Sh2e_Cache.thy ===== *)
theory Sh2e_Cache
  imports Decode_Cache Sh2e_Safety Sh2e_Cpu
begin

text \<open>
  The instruction cache of the SH-2E is transparent: an instruction fetched through it is the decoding
  of the big-endian word that the memory holds.
\<close>

subsection \<open>The decoding of a word of memory\<close>

definition sh_word :: "('d, 'z) sh2e_sim \<Rightarrow> ptr36 \<Rightarrow> u16" where
  "sh_word s a = be16toh (abs_load 2 (phys_byte s) (ucast a))"

definition sh_decoded :: "('d, 'z) sh2e_sim \<Rightarrow> ptr36 \<Rightarrow> cached_insn" where
  "sh_decoded s a = cached (sh2e_insn_decode (machine_specific_instructions s) (sh_word s a))"

interpretation sh_decoder: decoder 2 "sh_decoded :: ('d, 'z) sh2e_sim \<Rightarrow> ptr36 \<Rightarrow> cached_insn"
proof
  show "(2 :: nat) dvd 4096" by simp
  fix s s' :: "('d, 'z) sh2e_sim" and a
  assume "2 dvd unat a" "\<And>x. unat x div 4096 = page_of a \<Longrightarrow> phys_byte s' x = phys_byte s x"
    "machine_specific_instructions s' = machine_specific_instructions s"
  then show "sh_decoded s' a = sh_decoded s a" by (simp add: sh_decoded_def sh_word_def abs_load_page [of 2 a "phys_byte s'" "phys_byte s"])
qed

definition sh_page :: "sh2e_cache_item \<Rightarrow> ptr36 \<times> (nat \<Rightarrow> cached_insn)" where
  "sh_page c = (page_addr c, page_insns c)"

lemma sh_page_simps [simp]: "fst (sh_page c) = page_addr c" "snd (sh_page c) = page_insns c" "fst \<circ> sh_page = page_addr"
  by (auto simp: sh_page_def)

text \<open>The fetch addresses have 32 bits.\<close>

definition sh_cache_ok :: "('d, 'z) sh2e_sim \<Rightarrow> bool" where
  "sh_cache_ok s \<longleftrightarrow> pages_ok 2 sh_decoded s (map sh_page (sh2e_insn_cache s)) \<and>
     (\<forall>c \<in> set (sh2e_insn_cache s). unat (page_addr c) < 2 ^ 32)"

lemma sh_cache_more: "machine.more s' = machine.more s \<Longrightarrow> sh2e_insn_cache s' = sh2e_insn_cache s"
  for s s' :: "('d, 'z) sh2e_sim"
  by (cases s; cases s') simp

lemma evolves_sh_cache_ok:
  assumes "sys_evolves_by ok s s'" "sh_cache_ok s"
  shows "sh_cache_ok s'"
  using assms(2) sh_decoder.pages_ok_evolves [OF assms(1)] sh_cache_more [OF sys_evolves_basic(2) [OF assms(1)]]
  by (simp add: sh_cache_ok_def)

subsection \<open>Decoding a page\<close>

lemma ucast_low: "unat (a :: ptr36) < 2 ^ 32 \<Longrightarrow> ucast (ucast a :: u32) = a"
  by (rule unsigned_word_eqI [where 'a = nat]) (simp add: unsigned_ucast_eq unsigned_take_bit_eq take_bit_nat_eq_self)

lemma page_low:
  assumes "page_base a" "unat a < 2 ^ 32" "i < 2048"
  shows "ucast (ucast (a + of_nat (i * 2)) :: u32) = a + of_nat (i * 2)"
proof -
  obtain q where q: "unat a = 4096 * q" using assms(1) by (auto simp: page_base_def mod_eq_0_iff_dvd)
  have "q < 2 ^ 20" using assms(2) q by simp
  then show ?thesis using page_base_word(1) [OF assms(1), of 2 i] q assms(3) by (intro ucast_low) simp
qed

lemma quiet_read16:
  assumes "physmem_ok s" "frame_at (page_of a) s \<noteq> None" "2 dvd unat a" "ucast (ucast a :: u32) = a"
  shows "sh2e_physmem_read16 p (ucast a) False s = Some (sh_word s a, s)"
  using read_core_quiet [OF assms(1) _ assms(3) _ assms(2), of "devmem_read16 p a"]
  by (simp add: sh2e_physmem_read16_def assms(4) physmem_read_core sh_word_def)

lemma decode_loop_result:
  assumes "physmem_ok s" "page_base a" "unat a < 2 ^ 32" "frame_at (page_of a) s \<noteq> None" "\<forall>i \<in> set is. i < 2048"
  shows "decode_loop k a is insns s =
     Some ((\<lambda>i. if i \<in> set is then sh_decoded s (a + of_nat (i * 2)) else insns i), s)"
  using assms(5)
proof (induction "is" arbitrary: insns)
  case (Cons i "is")
  then have i: "i < 2048" by simp
  note w = page_base_word [OF assms(2), of 2 i]
  have "sh2e_physmem_read16 (sh_id (sh_cpu k s)) (ucast (a + of_nat (i * 2))) False s = Some (sh_word s (a + of_nat (i * 2)), s)"
    using assms(4) w(2,3) i by (intro quiet_read16 [OF assms(1)] page_low [OF assms(2,3) i]) auto
  then have "decode_loop k a (i # is) insns s = decode_loop k a is (insns(i := sh_decoded s (a + of_nat (i * 2)))) s"
    by (simp only: decode_loop.simps bind.bind_lunit prod.case sh_decoded_def)
  also have "\<dots> = Some ((\<lambda>j. if j \<in> set (i # is) then sh_decoded s (a + of_nat (j * 2)) else insns j), s)"
    using Cons by (auto intro!: ext)
  finally show ?case .
qed simp

lemma decode_page_right:
  assumes "physmem_ok s" "page_base (page_addr c)" "unat (page_addr c) < 2 ^ 32" "frame_at (page_of (page_addr c)) s \<noteq> None"
  shows "\<exists>c'. sh2e_cpu_insn_cache_decode_page k c s = Some (c', s) \<and> page_addr c' = page_addr c \<and> page_right 2 sh_decoded s (sh_page c')"
  using decode_loop_result [OF assms, of "[0..<2048]" k "page_insns c"]
  by (simp add: sh2e_cpu_insn_cache_decode_page_def page_right_def)

subsection \<open>Fetching\<close>

definition sh_fetched :: "nat list \<times> (nat \<Rightarrow> sh2e_cpu general_cpu) \<Rightarrow> ('d, 'z) sh2e_sim \<Rightarrow> ('d, 'z) sh2e_sim \<Rightarrow> bool" where
  "sh_fetched cs s s' \<longleftrightarrow> sh_ok cs s' \<and> sh_cache_ok s' \<and> cpu_mem s' = cpu_mem s \<and> devices s' = devices s \<and> phys_byte s' = phys_byte s \<and>
     machine_specific_instructions s' = machine_specific_instructions s \<and> (\<forall>p. frame_at p s' = None \<longleftrightarrow> frame_at p s = None)"

lemma sh_fetchedI:
  assumes "sh_ok cs s" "cpu_list s' = cpu_list s" "gcpus s' = gcpus s" "devices s' = devices s" "sc_list s' = sc_list s"
    "cpu_mem s' = cpu_mem s" "machine_specific_instructions s' = machine_specific_instructions s"
    and "physmem_ok s'" "phys_byte s' = phys_byte s" "\<And>p. frame_at p s' = None \<longleftrightarrow> frame_at p s = None" "sh_cache_ok s'"
  shows "sh_fetched cs s s'"
  using assms sh_ok_same [OF assms(1), of s'] by (simp add: sh_fetched_def)

lemma cache_unlink_page_filter:
  "distinct (map page_addr cs) \<Longrightarrow> cache_unlink_page a cs = filter (\<lambda>c. page_addr c \<noteq> a) cs"
proof (induction cs)
  case (Cons c cs)
  have "filter (\<lambda>d. page_addr d \<noteq> page_addr c) cs = cs" using Cons.prems by (intro filter_True) (metis distinct.simps(2) image_eqI list.simps(9) list.set_map)
  then show ?case using Cons by auto
qed simp

lemma sh_cache_unlink:
  assumes "sh_cache_ok s"
  shows "pages_ok 2 sh_decoded s (map sh_page (cache_unlink_page a (sh2e_insn_cache s)))"
    "a \<notin> page_addr ` set (cache_unlink_page a (sh2e_insn_cache s))"
    "set (cache_unlink_page a (sh2e_insn_cache s)) \<subseteq> set (sh2e_insn_cache s)"
proof -
  have "distinct (map page_addr (sh2e_insn_cache s))" using assms by (simp add: sh_cache_ok_def pages_ok_def)
  note f = cache_unlink_page_filter [OF this, of a]
  show "pages_ok 2 sh_decoded s (map sh_page (cache_unlink_page a (sh2e_insn_cache s)))"
    using assms pages_ok_remove [of 2 sh_decoded s "map sh_page (sh2e_insn_cache s)" a]
    by (simp add: f sh_cache_ok_def filter_map o_def)
  show "a \<notin> page_addr ` set (cache_unlink_page a (sh2e_insn_cache s))"
    "set (cache_unlink_page a (sh2e_insn_cache s)) \<subseteq> set (sh2e_insn_cache s)" by (auto simp: f)
qed

lemma mark_valid_marks: "frame_at (page_of a) s = Some f \<Longrightarrow> mark_valid a s = Some (set_frame a (Some (f\<lparr>valid := True\<rparr>)) s)"
  using frame_at_find_frame [of a s f] by (simp add: mark_valid_def)

text \<open>The page that is returned is decoded right, and its frame is marked.\<close>

lemma cache_update_right:
  assumes ok: "physmem_ok s" and c: "page_ok 2 sh_decoded s (sh_page c)" "unat (page_addr c) < 2 ^ 32"
    and f: "frame_at (page_of (page_addr c)) s = Some f"
  shows "\<exists>c'. page_addr c' = page_addr c \<and> page_right 2 sh_decoded s (sh_page c') \<and>
     (sh2e_cpu_insn_cache_update k c s = Some (c', s) \<and> valid f \<or>
      sh2e_cpu_insn_cache_update k c s = Some (c', set_frame (page_addr c) (Some (f\<lparr>valid := True\<rparr>)) s))"
proof (cases "valid f")
  case True
  then show ?thesis using c f frame_at_find_frame [OF f] by (auto simp: sh2e_cpu_insn_cache_update_def page_ok_def)
next
  case False
  obtain c' where "sh2e_cpu_insn_cache_decode_page k c s = Some (c', s)" "page_addr c' = page_addr c" "page_right 2 sh_decoded s (sh_page c')"
    using decode_page_right [OF ok _ c(2)] c(1) f by (auto simp: page_ok_def)
  then show ?thesis using False frame_at_find_frame [OF f] mark_valid_marks [OF f] by (auto simp: sh2e_cpu_insn_cache_update_def)
qed

lemma sh_cache_marked:
  fixes s s' :: "('d, 'z) sh2e_sim"
  assumes c: "page_base (page_addr c)" "unat (page_addr c) < 2 ^ 32" "page_right 2 sh_decoded s (sh_page c)" "page_addr c \<notin> page_addr ` set cs"
    and cs: "pages_ok 2 sh_decoded s (map sh_page cs)" "\<forall>d \<in> set cs. unat (page_addr d) < 2 ^ 32"
    and f: "frame_at (page_of (page_addr c)) s = Some f"
    and s': "\<And>q. frame_at q s' = (if q = page_of (page_addr c) then Some (f\<lparr>valid := True\<rparr>) else frame_at q s)"
      "phys_byte s' = phys_byte s" "machine_specific_instructions s' = machine_specific_instructions s" "sh2e_insn_cache s' = c # cs"
  shows "sh_cache_ok s'"
  using sh_decoder.pages_ok_marked [of "sh_page c" s f s' "map sh_page cs"] assms
  by (simp add: sh_cache_ok_def image_image)

lemma sh_decoded_at:
  assumes "page_right 2 sh_decoded s (sh_page c)" "page_addr c = ALIGN_DOWN phys 4096" "2 dvd unat phys"
  shows "page_insns c (sh2e_PHYS2CACHEINSTR phys) = sh_decoded s phys"
  using page_right_at [OF assms(1) _ assms(3)] assms(2) by (simp add: sh2e_PHYS2CACHEINSTR_def)

definition fetches :: "nat list \<times> (nat \<Rightarrow> sh2e_cpu general_cpu) \<Rightarrow> nat \<Rightarrow> ptr36 \<Rightarrow> ('d, 'z) sh2e_sim \<Rightarrow> bool" where
  "fetches cs k phys s \<longleftrightarrow> (\<exists>s'. sh2e_cpu_fetch_insn_func k phys s =
     Some (Some (ci_insn (sh_decoded s phys), ci_cycles (sh_decoded s phys)), take_insn k (sh_decoded s phys) s') \<and> sh_fetched cs s s')"

lemma fetch_hit_ok:
  assumes ok: "sh_ok cs s" and c: "sh_cache_ok s" and al: "2 dvd unat phys" and hit: "sh2e_cpu_insn_cache_get phys s = Some item"
  shows "fetches cs k phys s"
proof -
  have item: "page_addr item = ALIGN_DOWN phys 4096" "item \<in> set (sh2e_insn_cache s)"
    using hit by (auto simp: sh2e_cpu_insn_cache_get_def find_Some_iff)
  have pm: "physmem_ok s" using ok by (simp add: sh_ok_def)
  have iok: "page_ok 2 sh_decoded s (sh_page item)" "unat (page_addr item) < 2 ^ 32"
    using c item(2) by (auto simp: sh_cache_ok_def pages_ok_def)
  then obtain f where f: "frame_at (page_of (page_addr item)) s = Some f" and pb: "page_base (page_addr item)" by (auto simp: page_ok_def)
  define ms where "ms = set_frame (page_addr item) (Some (f\<lparr>valid := True\<rparr>)) s"
  note m = mark_frame [OF pm f, folded ms_def]
  have ms: "cpu_list ms = cpu_list s" "gcpus ms = gcpus s" "devices ms = devices s" "sc_list ms = sc_list s" "cpu_mem ms = cpu_mem s"
    "machine_specific_instructions ms = machine_specific_instructions s" "sh2e_insn_cache ms = sh2e_insn_cache s"
    by (simp_all add: ms_def set_frame_def Let_def)
  obtain item' where u: "page_addr item' = page_addr item" "page_right 2 sh_decoded s (sh_page item')"
    and "sh2e_cpu_insn_cache_update k item s = Some (item', s) \<and> valid f \<or> sh2e_cpu_insn_cache_update k item s = Some (item', ms)"
    using cache_update_right [OF pm iok f, of k] unfolding ms_def by blast
  then obtain s1 where s1: "sh2e_cpu_insn_cache_update k item s = Some (item', s1)" "s1 = ms \<or> s1 = s \<and> valid f" by blast
  let ?cs = "cache_unlink_page (page_addr item) (sh2e_insn_cache s)"
  let ?s' = "s1\<lparr>sh2e_insn_cache := item' # ?cs\<rparr>"
  have fr: "frame_at q ?s' = frame_at q s1" "phys_byte ?s' = phys_byte s1" "physmem_ok ?s' = physmem_ok s1" for q
    by (rule frame_at_cong, simp, rule phys_byte_cong, simp_all, rule physmem_ok_cong, simp_all)
  have q: "frame_at q s1 = (if q = page_of (page_addr item) then Some (f\<lparr>valid := True\<rparr>) else frame_at q s)" for q
    using s1(2) m(3) f by auto
  have same: "cpu_list s1 = cpu_list s" "gcpus s1 = gcpus s" "devices s1 = devices s" "sc_list s1 = sc_list s" "cpu_mem s1 = cpu_mem s"
    "machine_specific_instructions s1 = machine_specific_instructions s" "sh2e_insn_cache s1 = sh2e_insn_cache s" "phys_byte s1 = phys_byte s" "physmem_ok s1"
    using s1(2) ms m pm by auto
  have "sh_cache_ok ?s'"
    using sh_cache_unlink [OF c, of "page_addr item"] c iok(2)
    by (intro sh_cache_marked [of item' s ?cs f]) (auto simp: u pb f q fr same sh_cache_ok_def)
  then have "sh_fetched cs s ?s'" by (intro sh_fetchedI [OF ok]) (auto simp: same fr q f)
  moreover have "sh2e_cpu_fetch_insn_func k phys s =
      Some (Some (ci_insn (sh_decoded s phys), ci_cycles (sh_decoded s phys)), take_insn k (sh_decoded s phys) ?s')"
    using hit s1(1) same(7) sh_decoded_at [OF u(2) _ al] u(1) item(1) by (simp add: sh2e_cpu_fetch_insn_func_def Let_def)
  ultimately show ?thesis unfolding fetches_def by blast
qed

lemma fetch_miss_ok:
  assumes ok: "sh_ok cs s" and c: "sh_cache_ok s" and al: "2 dvd unat phys" and ph: "unat phys < 2 ^ 32"
    and miss: "sh2e_cpu_insn_cache_get phys s = None" and f: "frame_at (page_of phys) s = Some f"
  shows "fetches cs k phys s"
proof -
  let ?new = "\<lparr>page_addr = ALIGN_DOWN phys 4096, page_insns = (\<lambda>_. cached illegal)\<rparr>"
  have pm: "physmem_ok s" using ok by (simp add: sh_ok_def)
  have pb: "page_base (ALIGN_DOWN phys 4096)" using ph by (intro page_base_ALIGN_DOWN) simp
  have low: "unat (ALIGN_DOWN phys 4096) < 2 ^ 32" using ph le_less_trans [OF div_times_less_eq_dividend] by (simp add: unat_ALIGN_DOWN_page)
  obtain item where item: "sh2e_cpu_insn_cache_decode_page k ?new s = Some (item, s)" "page_addr item = ALIGN_DOWN phys 4096"
    "page_right 2 sh_decoded s (sh_page item)"
    using decode_page_right [OF pm, of ?new k] pb low f by (auto simp: page_of_ALIGN_DOWN)
  define ms where "ms = set_frame phys (Some (f\<lparr>valid := True\<rparr>)) s"
  note m = mark_frame [OF pm f, folded ms_def]
  have ms: "cpu_list ms = cpu_list s" "gcpus ms = gcpus s" "devices ms = devices s" "sc_list ms = sc_list s" "cpu_mem ms = cpu_mem s"
    "machine_specific_instructions ms = machine_specific_instructions s" "sh2e_insn_cache ms = sh2e_insn_cache s"
    by (simp_all add: ms_def set_frame_def Let_def)
  let ?s' = "ms\<lparr>sh2e_insn_cache := item # sh2e_insn_cache s\<rparr>"
  have fr: "frame_at q ?s' = frame_at q ms" "phys_byte ?s' = phys_byte ms" "physmem_ok ?s' = physmem_ok ms" for q
    by (rule frame_at_cong, simp, rule phys_byte_cong, simp_all, rule physmem_ok_cong, simp_all)
  have new: "page_addr item \<notin> page_addr ` set (sh2e_insn_cache s)"
    using miss item(2) by (auto simp: sh2e_cpu_insn_cache_get_def find_None_iff)
  have "sh_cache_ok ?s'"
    using c new item(3) by (intro sh_cache_marked [of item s "sh2e_insn_cache s" f])
      (simp_all add: item(2) pb low low [simplified] page_of_ALIGN_DOWN f fr m ms sh_cache_ok_def)
  then have "sh_fetched cs s ?s'" by (intro sh_fetchedI [OF ok]) (simp_all add: ms fr m f)
  moreover have "sh2e_cpu_fetch_insn_func k phys s =
      Some (Some (ci_insn (sh_decoded s phys), ci_cycles (sh_decoded s phys)), take_insn k (sh_decoded s phys) ?s')"
    using miss item frame_at_find_frame [OF f] mark_valid_marks [OF f] sh_decoded_at [OF item(3,2) al]
    by (simp add: sh2e_cpu_fetch_insn_func_def sh2e_cpu_insn_cache_try_add_def Let_def ms ms_def [symmetric])
  ultimately show ?thesis unfolding fetches_def by blast
qed

lemma fetch_insn_ok:
  assumes "sh_ok cs s" "sh_cache_ok s" "2 dvd unat phys" "unat phys < 2 ^ 32" "frame_at (page_of phys) s \<noteq> None"
  shows "fetches cs k phys s"
  using fetch_hit_ok [OF assms(1-3)] fetch_miss_ok [OF assms(1-4)] assms(5) by (cases "sh2e_cpu_insn_cache_get phys s") auto

end
