(* ===== verification/Sh2e_Intc_Facts.thy ===== *)
theory Sh2e_Intc_Facts
  imports Sh2e_Intc
begin

text \<open>
  What the interrupt controller of the SH-2E selects: the requesting source of the highest
  priority, the least of these, among the sources that the code scans.
\<close>

definition intc_ok :: "sh2e_intc \<Rightarrow> bool" where
  "intc_ok ic \<longleftrightarrow> length (priority ic) = 12 \<and>
     (\<forall>n < 256. registered (sources ic n) \<longrightarrow> unat (priority_pool_index (sources ic n)) < 48)"

definition signalled :: "sh2e_intc \<Rightarrow> nat \<Rightarrow> bool" where
  "signalled ic n = (if SH2E_INTC_VALID_IRQ_SOURCE_ID n then bit (isr ic) (7 - (n - 64)) else pending (sources ic n))"

definition source_priority :: "sh2e_intc \<Rightarrow> nat \<Rightarrow> nat" where
  "source_priority ic n =
     (let i = unat (priority_pool_index (sources ic n))
      in unat (drop_bit ((3 - i mod 4) * 4) (priority ic ! (i div 4)) AND 0xF))"

definition requests :: "sh2e_intc \<Rightarrow> u8 \<Rightarrow> nat \<Rightarrow> bool" where
  "requests ic im n \<longleftrightarrow> SH2E_INTC_VALID_SOURCE_ID n \<and> registered (sources ic n) \<and> signalled ic n \<and>
     unat im < source_priority ic n"

text \<open>The source with the highest priority, and of these the one with the least number.\<close>

definition best_source :: "sh2e_intc \<Rightarrow> u8 \<Rightarrow> nat set \<Rightarrow> nat \<Rightarrow> bool" where
  "best_source ic im N n \<longleftrightarrow> n \<in> N \<and> requests ic im n \<and>
     (\<forall>j \<in> N. requests ic im j \<longrightarrow> source_priority ic j < source_priority ic n \<or>
        source_priority ic j = source_priority ic n \<and> n \<le> j)"

subsection \<open>The operations keep the controller well-formed\<close>

lemma intc_ok_init: "intc_ok (sh2e_intc_init n a)"
  by (simp add: intc_ok_def sh2e_intc_init_def sh2e_intc_init_regs_def)

lemma intc_ok_add_source:
  "intc_ok ic \<Longrightarrow> sh2e_intc_add_interrupt_source ic src i p = Some ic1 \<Longrightarrow> intc_ok ic1"
  by (auto simp: intc_ok_def sh2e_intc_add_interrupt_source_def set_source_def Let_def split: if_splits)

lemma intc_ok_register_write: "intc_ok ic \<Longrightarrow> dsh2eintc_write16 p ic a v = Some (ic1, es) \<Longrightarrow> intc_ok ic1"
  by (auto simp: intc_ok_def dsh2eintc_write16_def sh2e_intc_priority_register_write_def Let_def split: if_splits)

lemma intc_ok_simps [simp]:
  "intc_ok (ic\<lparr>icr := a\<rparr>) = intc_ok ic" "intc_ok (ic\<lparr>isr := b\<rparr>) = intc_ok ic"
  "intc_ok (ic\<lparr>nmi_prev_value := c\<rparr>) = intc_ok ic" "intc_ok (ic\<lparr>interrupt_out := d\<rparr>) = intc_ok ic"
  "intc_ok (ic\<lparr>priority_out := e\<rparr>) = intc_ok ic" "intc_ok (ic\<lparr>accepted_interrupts := f\<rparr>) = intc_ok ic"
  "intc_ok (ic\<lparr>accepted_resets := g\<rparr>) = intc_ok ic"
  by (simp_all add: intc_ok_def)

lemma intc_ok_pending [simp]: "intc_ok (set_source n (\<lambda>x. x\<lparr>pending := b\<rparr>) ic) = intc_ok ic"
  by (auto simp: intc_ok_def set_source_def)

lemma intc_ok_init_regs [simp]: "intc_ok ic \<Longrightarrow> intc_ok (sh2e_intc_init_regs ic)"
  by (simp add: intc_ok_def sh2e_intc_init_regs_def)

lemma intc_ok_accept_reset [simp]: "intc_ok (sh2e_accept_reset ic) = intc_ok ic"
  by (simp add: sh2e_accept_reset_def Let_def)

lemma irq_index_valid: "SH2E_INTC_VALID_IRQ_SOURCE_ID n \<Longrightarrow> n - 64 < 8"
  by (auto simp: SH2E_INTC_VALID_IRQ_SOURCE_ID_def)

lemma accept_interrupt_ok:
  assumes "intc_ok ic"
  shows "\<exists>ic1. sh2e_accept_interrupt ic = Some (priority_out ic, ic1) \<and> intc_ok ic1"
  using assms irq_index_valid
  by (auto simp: sh2e_accept_interrupt_def sh2e_clear_irq_interrupt_def Let_def)

lemma assert_interrupt_ok:
  assumes "intc_ok ic" "SH2E_INTC_VALID_SOURCE_ID n" "registered (sources ic n)"
  shows "\<exists>ic1. sh2e_intc_assert_interrupt ic n = Some ic1 \<and> intc_ok ic1"
  using assms irq_index_valid [of n]
  by (auto simp: sh2e_intc_assert_interrupt_def sh2e_assert_irq_interrupt_def)

subsection \<open>The selected source\<close>

lemma source_pending_signalled: "source_pending ic n = Some (signalled ic n)"
  using irq_index_valid [of n] by (simp add: source_pending_def signalled_def sh2e_check_irq_interrupt_def)

lemma unat_ucast_u8 [simp]: "unat (ucast (p :: u8) :: u32) = unat p"
  using unsigned_less [of p, where ?'a = nat] by (simp add: unsigned_ucast_eq take_bit_nat_eq_self_iff)

lemma get_priority_source:
  assumes "intc_ok ic" "n < 256" "registered (sources ic n)"
  shows "\<exists>p. sh2e_get_priority ic (sources ic n) = Some p \<and> unat p = source_priority ic n"
proof -
  let ?i = "unat (priority_pool_index (sources ic n))"
  have "?i div 4 < 12" using assms by (auto simp: intc_ok_def)
  moreover have "unat (ucast (w AND 0xF :: u16) :: u8) = unat (w AND 0xF)" for w
  proof -
    have "w AND 0xF \<le> 0xF" by (rule word_and_le1)
    then have "unat (w AND 0xF) \<le> 15" by (simp add: word_le_nat_alt)
    then show ?thesis by (simp add: unsigned_ucast_eq unsigned_take_bit_eq take_bit_nat_eq_self_iff del: take_bit_and)
  qed
  ultimately show ?thesis by (simp add: sh2e_get_priority_def source_priority_def Let_def)
qed

definition scan_inv :: "sh2e_intc \<Rightarrow> u8 \<Rightarrow> nat set \<Rightarrow> u8 \<Rightarrow> u32 \<Rightarrow> bool" where
  "scan_inv ic im N source prio \<longleftrightarrow>
     (if source = 0 then prio = 0 \<and> (\<forall>j \<in> N. \<not> requests ic im j)
      else best_source ic im N (unat source) \<and> unat prio = source_priority ic (unat source))"

lemma scan_step:
  assumes ok: "intc_ok ic" and i: "0 < i" "i < 256" "\<And>j. j \<in> N \<Longrightarrow> j < i" and inv: "scan_inv ic im N source prio"
  shows "\<exists>source1 prio1. scan_sources ic im (i # is) source prio = scan_sources ic im is source1 prio1 \<and>
    scan_inv ic im (insert i N) source1 prio1"
proof (cases "SH2E_INTC_VALID_SOURCE_ID i \<and> registered (sources ic i) \<and> signalled ic i")
  case False
  then have "\<not> requests ic im i" by (auto simp: requests_def)
  then have "scan_inv ic im (insert i N) source prio" using inv by (auto simp: scan_inv_def best_source_def)
  then show ?thesis using False by (auto simp: source_pending_signalled)
next
  case True
  obtain p where p: "sh2e_get_priority ic (sources ic i) = Some p" "unat p = source_priority ic i"
    using get_priority_source [OF ok i(2)] True by blast
  have u: "unat (ucast p :: u32) = source_priority ic i" "unat (ucast im :: u32) = unat im"
    using p(2) by simp_all
  have s: "of_nat i \<noteq> (0 :: u8)" "unat (of_nat i :: u8) = i" using i(1,2)
    by (simp_all add: unat_of_nat word_unat_eq_iff)
  show ?thesis
  proof (cases "((ucast p :: u32) > prio \<or> source = 0) \<and> (ucast p :: u32) > ucast im")
    case T: True
    then have r: "requests ic im i" using True u by (simp add: requests_def word_less_nat_alt)
    have "scan_inv ic im (insert i N) (of_nat i) (ucast p)"
      using T inv s u r by (auto simp: scan_inv_def best_source_def word_less_nat_alt split: if_splits)
    then show ?thesis using True p(1) T by (auto simp: source_pending_signalled Let_def)
  next
    case F: False
    have "scan_inv ic im (insert i N) source prio"
      using F inv u i(3) [of "unat source"] True by (auto simp: scan_inv_def best_source_def requests_def word_less_nat_alt split: if_splits) 
    then show ?thesis using True p(1) F by (auto simp: source_pending_signalled Let_def)
  qed
qed

lemma scan_sources_best:
  assumes "intc_ok ic" "sorted_wrt (<) is" "\<forall>i \<in> set is. 0 < i \<and> i < 256 \<and> (\<forall>j \<in> N. j < i)" "scan_inv ic im N source prio"
  shows "\<exists>source1 prio1. scan_sources ic im is source prio = Some (source1, prio1) \<and> scan_inv ic im (N \<union> set is) source1 prio1"
  using assms
proof (induction "is" arbitrary: N source prio)
  case (Cons i "is")
  obtain source1 prio1 where 1: "scan_sources ic im (i # is) source prio = scan_sources ic im is source1 prio1"
    "scan_inv ic im (insert i N) source1 prio1"
    using scan_step [OF Cons.prems(1), of i N im source prio "is"] Cons.prems by auto
  have "\<exists>source2 prio2. scan_sources ic im is source1 prio1 = Some (source2, prio2) \<and>
      scan_inv ic im (insert i N \<union> set is) source2 prio2"
    using Cons.prems 1(2) by (intro Cons.IH) auto
  then show ?case using 1(1) by (simp only: Un_insert_left Un_insert_right list.set)
qed simp

abbreviation scanned_sources :: "nat set" where "scanned_sources \<equiv> {65..<255}"

lemma source_facts_nmi [simp]:
  "signalled (ic\<lparr>nmi_prev_value := v\<rparr>) = signalled ic" "source_priority (ic\<lparr>nmi_prev_value := v\<rparr>) = source_priority ic"
  "requests (ic\<lparr>nmi_prev_value := v\<rparr>) = requests ic" "best_source (ic\<lparr>nmi_prev_value := v\<rparr>) = best_source ic"
  by (auto simp: fun_eq_iff signalled_def source_priority_def requests_def best_source_def)

lemma check_pending_selects:
  assumes "intc_ok ic" "\<not> sh2e_check_nmi_interrupt ic"
  shows "\<exists>p n ic1. sh2e_check_pending_interrupts ic im out = Some (p, n, ic1) \<and> intc_ok ic1 \<and>
     (if p then best_source ic im scanned_sources (unat n) \<and> interrupt_out ic1 = n \<and>
             unat (priority_out ic1) = source_priority ic (unat n)
      else n = out \<and> (\<forall>j \<in> scanned_sources. \<not> requests ic im j))"
proof -
  let ?ic = "ic\<lparr>nmi_prev_value := (if icr_nmil ic then 1 else 0)\<rparr>"
  have "scan_inv ?ic im {} 0 0" by (simp add: scan_inv_def)
  then obtain source prio where s: "scan_sources ?ic im [65..<255] 0 0 = Some (source, prio)"
    "scan_inv ?ic im ({} \<union> set [65..<255]) source prio"
    using scan_sources_best [of ?ic "[65..<255]" "{}" im 0 0] assms(1) by (auto simp del: upt_rec_numeral)
  then show ?thesis using assms
    by (cases "source = 0")
      (simp_all add: sh2e_check_pending_interrupts_def sh2e_check_nmi_and_update_nmi_prev_value_def scan_inv_def Let_def del: upt_rec_numeral,
       (rule exI [of _ False] exI [of _ True], simp)+)
qed

lemma check_pending_nmi:
  assumes "sh2e_check_nmi_interrupt ic"
  shows "\<exists>ic1. sh2e_check_pending_interrupts ic im out = Some (True, out, ic1) \<and> (intc_ok ic \<longrightarrow> intc_ok ic1)"
  using assms
  by (simp add: sh2e_check_pending_interrupts_def sh2e_check_nmi_and_update_nmi_prev_value_def Let_def)

lemma check_pending_ok:
  assumes "intc_ok ic"
  shows "\<exists>p n ic1. sh2e_check_pending_interrupts ic im out = Some (p, n, ic1) \<and> intc_ok ic1"
  using check_pending_selects [OF assms, of im out] check_pending_nmi [of ic im out] assms by blast

end
