(* ===== verification/Sh2e_Step.thy ===== *)
theory Sh2e_Step
  imports Sh2e_Peripherals Sh2e_Cache Sh2e_Intc_Facts
begin

text \<open>
  Every step of the SH-2E processor returns and keeps the invariant of the machine, in all five
  processing states. What can make a step undefined is named by \<open>step_defined\<close>: an even program counter
  outside memory (the fetch then calls a null pointer), a multiply-accumulate instruction (whose signed
  sum may overflow), and a vector base register that is not aligned when an exception is processed.
\<close>

subsection \<open>The invariant\<close>

definition is_peripheral :: "sh2e_dev \<Rightarrow> bool" where
  "is_peripheral d \<longleftrightarrow> sh_kind d \<in> {(1, 0), (2, 0), (3, 0)}"

definition sh_cpu_ok :: "sh2e_dev device list \<Rightarrow> sh2e_cpu \<Rightarrow> bool" where
  "sh_cpu_ok ds c \<longleftrightarrow> (\<exists>ic. intc c = Some ic \<and> intc_ok ic) \<and>
     (\<forall>i \<in> set (on_chip_peripherals c). i < length ds \<and> is_peripheral (dev_data (ds ! i)))"

definition sh_inv :: "nat list \<times> (nat \<Rightarrow> sh2e_cpu general_cpu) \<Rightarrow> nat set \<Rightarrow> 'z sh2e_system \<Rightarrow> bool" where
  "sh_inv cs K s \<longleftrightarrow> sh_ok cs s \<and> sh_cache_ok s \<and> (\<forall>d \<in> set (devices s). sh_dev_wf d) \<and>
     (\<forall>k \<in> K. sh_cpu_ok (devices s) (cpu_mem s k))"

text \<open>How a part of the step of processor \<open>k\<close> changes the machine.\<close>

definition sh_part :: "nat list \<times> (nat \<Rightarrow> sh2e_cpu general_cpu) \<Rightarrow> nat set \<Rightarrow> nat \<Rightarrow> 'z sh2e_system \<Rightarrow> 'z sh2e_system \<Rightarrow> bool" where
  "sh_part cs K k s s' \<longleftrightarrow> sh_inv cs K s' \<and> (\<forall>j. j \<noteq> k \<longrightarrow> cpu_mem s' j = cpu_mem s j) \<and>
     sh_vbr (cpu_mem s' k) = sh_vbr (cpu_mem s k)"

definition sh_moved :: "nat list \<times> (nat \<Rightarrow> sh2e_cpu general_cpu) \<Rightarrow> nat set \<Rightarrow> nat \<Rightarrow> 'z sh2e_system \<Rightarrow> 'z sh2e_system \<Rightarrow> bool" where
  "sh_moved cs K k s s' \<longleftrightarrow> sh_inv cs K s' \<and> (\<forall>j. j \<noteq> k \<longrightarrow> cpu_mem s' j = cpu_mem s j)"

lemma sh_moved_part: "sh_moved cs K k a b \<Longrightarrow> sh_part cs K k b c \<Longrightarrow> sh_moved cs K k a c" "sh_part cs K k a b \<Longrightarrow> sh_moved cs K k a b"
  "sh_moved cs K k a b \<Longrightarrow> sh_inv cs K b" "sh_inv cs K a \<Longrightarrow> sh_moved cs K k a a"
  by (simp_all add: sh_part_def sh_moved_def)

lemma sh_part_trans: "sh_part cs K k a b \<Longrightarrow> sh_part cs K k b c \<Longrightarrow> sh_part cs K k a c"
  by (simp add: sh_part_def)

lemma sh_invD: "sh_inv cs K s \<Longrightarrow> sh_ok cs s" "sh_inv cs K s \<Longrightarrow> sh_cache_ok s"
  "sh_inv cs K s \<Longrightarrow> k \<in> K \<Longrightarrow> sh_cpu_ok (devices s) (cpu_mem s k)"
  by (simp_all add: sh_inv_def)

lemma sh_partD: "sh_part cs K k s s' \<Longrightarrow> sh_inv cs K s'" "sh_part cs K k s s' \<Longrightarrow> sh_vbr (cpu_mem s' k) = sh_vbr (cpu_mem s k)"
  by (simp_all add: sh_part_def)

lemma sh_cpu_ok_kept: "kept c c' \<Longrightarrow> sh_cpu_ok ds c' = sh_cpu_ok ds c"
  by (simp add: kept_def sh_cpu_ok_def)

lemma devs_evolve_wf:
  assumes "devs_evolve ds ds'" "\<forall>d \<in> set ds. sh_dev_wf d"
  shows "\<forall>d \<in> set ds'. sh_dev_wf d" "sh_cpu_ok ds c \<Longrightarrow> sh_cpu_ok ds' c"
proof -
  have e: "sh_dev_wf (ds' ! i) \<and> sh_kind (dev_data (ds' ! i)) = sh_kind (dev_data (ds ! i))" if "i < length ds'" for i
    using sh_dev_wf_evolves [of "ds ! i" "ds' ! i"] assms that by (auto simp: list_all2_conv_all_nth)
  then show "\<forall>d \<in> set ds'. sh_dev_wf d" by (metis in_set_conv_nth)
  show "sh_cpu_ok ds c \<Longrightarrow> sh_cpu_ok ds' c"
    using e list_all2_lengthD [OF assms(1)] by (simp add: sh_cpu_ok_def is_peripheral_def)
qed

lemma sh_inv_step:
  assumes "sh_inv cs K s" "sh_step cs k s s'"
  shows "sh_inv cs K s'"
proof -
  have ev: "sys_evolves_by (sh_ok cs) s s'" and c: "\<And>j. j \<noteq> k \<Longrightarrow> cpu_mem s' j = cpu_mem s j" "kept (cpu_mem s k) (cpu_mem s' k)"
    using assms(2) by (simp_all add: sh_step_def)
  have d: "\<forall>d \<in> set (devices s). sh_dev_wf d" using assms(1) by (simp add: sh_inv_def)
  have "sh_cpu_ok (devices s') (cpu_mem s' j)" if "j \<in> K" for j
    using devs_evolve_wf(2) [OF sys_evolves_basic(5) [OF ev] d sh_invD(3) [OF assms(1) that]] c sh_cpu_ok_kept by (cases "j = k") auto
  then show ?thesis
    using evolves_sh_cache_ok [OF ev sh_invD(2) [OF assms(1)]] sys_evolves_ok [OF ev] devs_evolve_wf(1) [OF sys_evolves_basic(5) [OF ev] d]
    by (simp add: sh_inv_def)
qed

lemma sh_part_env:
  assumes "sh_inv cs K s" "sh_env cs s s'"
  shows "sh_part cs K k s s'"
  using sh_inv_step [OF assms(1) sh_step_env [OF assms(2)]] env_step_byD(2) [OF assms(2)] by (simp add: sh_part_def)

lemma sh_cache_ok_cong:
  assumes "ftl0 s' = ftl0 s" "mem_bytes s' = mem_bytes s" "sh2e_insn_cache s' = sh2e_insn_cache s"
    "machine_specific_instructions s' = machine_specific_instructions s"
  shows "sh_cache_ok s' = sh_cache_ok s"
proof -
  have "sh_decoded s' = sh_decoded s" by (rule ext) (simp add: sh_decoded_def sh_word_def phys_byte_cong [OF assms(1,2)] assms(4))
  then show ?thesis by (simp add: sh_cache_ok_def pages_ok_def page_ok_def page_right_def frame_at_cong [OF assms(1)] assms(3))
qed

text \<open>A change of the processors and of the data of devices.\<close>

lemma sh_inv_change:
  assumes "sh_inv cs K s" "\<forall>d \<in> set ds. sh_dev_wf d" "\<And>j. j \<in> K \<Longrightarrow> sh_cpu_ok ds (m j)"
  shows "sh_inv cs K (s\<lparr>devices := ds, cpu_mem := m\<rparr>)"
proof -
  let ?s = "s\<lparr>devices := ds, cpu_mem := m\<rparr>"
  have "physmem_ok ?s = physmem_ok s" by (rule physmem_ok_cong) simp_all
  then have "sh_ok cs ?s" using assms(1,2) sh_dev_wf_ok by (simp add: sh_inv_def sh_ok_def)
  moreover have "sh_cache_ok ?s = sh_cache_ok s" by (rule sh_cache_ok_cong) simp_all
  ultimately show ?thesis using assms by (simp add: sh_inv_def)
qed

lemma sh_part_upd:
  assumes "sh_inv cs K s" "k \<in> K \<Longrightarrow> sh_cpu_ok (devices s) (f (cpu_mem s k))"
  shows "sh_inv cs K (upd_cpu k f s)" "sh_vbr (f (cpu_mem s k)) = sh_vbr (cpu_mem s k) \<Longrightarrow> sh_part cs K k s (upd_cpu k f s)"
proof -
  have "\<And>j. j \<in> K \<Longrightarrow> sh_cpu_ok (devices s) (((cpu_mem s)(k := f (cpu_mem s k))) j)"
    using assms by (auto simp: sh_inv_def)
  then show "sh_inv cs K (upd_cpu k f s)"
    using sh_inv_change [OF assms(1), of "devices s"] assms(1) by (simp add: upd_cpu_def sh_inv_def)
  then show "sh_vbr (f (cpu_mem s k)) = sh_vbr (cpu_mem s k) \<Longrightarrow> sh_part cs K k s (upd_cpu k f s)"
    by (simp add: sh_part_def upd_cpu_def)
qed

lemma sh_part_kept:
  assumes "sh_inv cs K s" "intc (f (cpu_mem s k)) = intc (cpu_mem s k)"
    "on_chip_peripherals (f (cpu_mem s k)) = on_chip_peripherals (cpu_mem s k)"
  shows "sh_inv cs K (upd_cpu k f s)" "sh_vbr (f (cpu_mem s k)) = sh_vbr (cpu_mem s k) \<Longrightarrow> sh_part cs K k s (upd_cpu k f s)"
  using sh_part_upd [OF assms(1), of k f] sh_invD(3) [OF assms(1), of k] assms(2,3) by (auto simp: sh_cpu_ok_def)

subsection \<open>The interrupt controller and the peripherals\<close>

lemma on_intc_ok:
  assumes inv: "sh_inv cs K s" and k: "k \<in> K" and f: "\<And>ic. intc_ok ic \<Longrightarrow> \<exists>r ic1. f ic = Some (r, ic1) \<and> intc_ok ic1"
  shows "\<exists>r s'. on_intc k f s = Some (r, s') \<and> sh_part cs K k s s'"
proof -
  obtain ic where ic: "intc (cpu_mem s k) = Some ic" "intc_ok ic" using sh_invD(3) [OF inv k] by (auto simp: sh_cpu_ok_def)
  obtain r ic1 where r: "f ic = Some (r, ic1)" "intc_ok ic1" using f [OF ic(2)] by blast
  have "sh_part cs K k s (upd_cpu k (\<lambda>cpu. cpu\<lparr>intc := Some ic1\<rparr>) s)"
    using sh_invD(3) [OF inv k] r(2) by (intro sh_part_upd(2) [OF inv]) (simp_all add: sh_cpu_ok_def)
  then show ?thesis using ic(1) r(1) by (simp add: on_intc_def)
qed

lemma peripheral_ops_total:
  assumes "is_peripheral d"
  shows "\<exists>d'. interrupt_up_from_cpu sh2e_peripherals n d = Some d' \<and> sh_kind d' = sh_kind d \<and> sh2e_type_of d' = sh2e_type_of d"
    "\<exists>d'. update_cycles sh2e_peripherals m d = Some d' \<and> sh_kind d' = sh_kind d \<and> sh2e_type_of d' = sh2e_type_of d"
  using assms by (cases d; simp add: is_peripheral_def sh2e_peripherals_def)+

lemma for_each_peripheral_ok:
  assumes "sh_inv cs K s" "\<forall>i \<in> set is. i < length (devices s) \<and> is_peripheral (dev_data (devices s ! i))"
    and f: "\<And>d. is_peripheral d \<Longrightarrow> \<exists>d'. f d = Some d' \<and> sh_kind d' = sh_kind d \<and> sh2e_type_of d' = sh2e_type_of d"
  shows "\<exists>s'. for_each_peripheral f is s = Some s' \<and> sh_part cs K k s s' \<and> cpu_mem s' = cpu_mem s"
  using assms(1,2)
proof (induction "is" arbitrary: s)
  case Nil
  then show ?case by (simp add: sh_part_def)
next
  case (Cons i "is")
  let ?d = "dev_data (devices s ! i)"
  have i: "i < length (devices s)" "is_peripheral ?d" using Cons.prems(2) by simp_all
  obtain d where d: "f ?d = Some d" "sh_kind d = sh_kind ?d" "sh2e_type_of d = sh2e_type_of ?d" using f [OF i(2)] by blast
  let ?ds = "(devices s)[i := (devices s ! i)\<lparr>dev_data := d\<rparr>]"
  have wf: "\<forall>x \<in> set (devices s). sh_dev_wf x" using Cons.prems(1) by (simp add: sh_inv_def)
  then have "sh_dev_wf ((devices s ! i)\<lparr>dev_data := d\<rparr>)" using i(1) d(3) by (simp add: sh_dev_wf_def)
  then have 1: "\<forall>x \<in> set ?ds. sh_dev_wf x" using wf set_update_subset_insert [of "devices s" i] by blast
  have kind: "is_peripheral (dev_data (?ds ! j)) = is_peripheral (dev_data (devices s ! j))" if "j < length (devices s)" for j
    using d(2) i that by (cases "j = i") (simp_all add: is_peripheral_def)
  have 2: "sh_cpu_ok ?ds (cpu_mem s j)" if "j \<in> K" for j
    using sh_invD(3) [OF Cons.prems(1) that] kind by (auto simp: sh_cpu_ok_def)
  let ?s = "s\<lparr>devices := ?ds\<rparr>"
  have inv: "sh_inv cs K ?s" using sh_inv_change [OF Cons.prems(1) 1, of "cpu_mem s"] 2 by simp
  moreover have "\<forall>j \<in> set is. j < length (devices ?s) \<and> is_peripheral (dev_data (devices ?s ! j))" using Cons.prems(2) kind by simp
  ultimately obtain s' where "for_each_peripheral f is ?s = Some s'" "sh_part cs K k ?s s'" "cpu_mem s' = cpu_mem ?s"
    using Cons.IH by blast
  then show ?case using i(1) d(1) by (simp add: sh_part_def)
qed

lemma peripherals_ok:
  assumes "sh_inv cs K s" "k \<in> K"
  shows "\<exists>s'. for_each_peripheral (interrupt_up_from_cpu sh2e_peripherals n) (on_chip_peripherals (cpu_mem s k)) s = Some s' \<and>
      sh_part cs K k s s' \<and> cpu_mem s' = cpu_mem s"
    "\<exists>s'. for_each_peripheral (update_cycles sh2e_peripherals m) (on_chip_peripherals (cpu_mem s k)) s = Some s' \<and>
      sh_part cs K k s s' \<and> cpu_mem s' = cpu_mem s"
  using sh_invD(3) [OF assms] by (auto simp: sh_cpu_ok_def intro!: for_each_peripheral_ok [OF assms(1)] peripheral_ops_total)

subsection \<open>Exceptions and interrupts\<close>

lemma eva_aligned: "sh_vbr c AND 3 = 0 \<Longrightarrow> eva c i AND 3 = 0"
proof -
  assume v: "sh_vbr c AND 3 = 0"
  have d: "x AND 3 = 0 \<longleftrightarrow> 4 dvd unat x" for x :: u32 using IS_ALIGNED_dvd [of x 2] by (simp add: IS_ALIGNED_def)
  have "4 dvd (unat (sh_vbr c) + 4 * i) mod 2 ^ 32" using v by (simp add: d dvd_mod_iff)
  then show "eva c i AND 3 = 0" by (simp add: d eva_def unat_word_ariths unat_of_nat mod_simps del: of_nat_mult)
qed

lemma push_sr_pc_ok:
  assumes "sh_inv cs K s"
  shows "\<exists>b sp s'. push_sr_pc k pc0 s = Some (b, sp, s') \<and> sh_part cs K k s s' \<and> cpu_mem s' = cpu_mem s"
proof -
  have w: "\<exists>ex s'. sh2e_cpu_write_long k a v s = Some (ex, s') \<and> sh_part cs K k s s' \<and> cpu_mem s' = cpu_mem s"
    if inv: "sh_inv cs K s" for a v and s :: "'a sh2e_system"
  proof -
    obtain ex s' where "sh2e_cpu_write_long k a v s = Some (ex, s')" "sh_env cs s s'"
      using writes_ok_memops(2) sh_invD(1) [OF inv] unfolding writes_ok_def by blast
    moreover from this(2) have "cpu_mem s' = cpu_mem s" by (intro ext) (simp add: env_step_by_def)
    ultimately show ?thesis using sh_part_env [OF inv] by blast
  qed
  let ?c = "sh_cpu k s"
  obtain e1 s1 where 1: "sh2e_cpu_write_long k (sh_sp ?c - 4) (sh_sr ?c) s = Some (e1, s1)" "sh_part cs K k s s1" "cpu_mem s1 = cpu_mem s"
    using w [OF assms] by blast
  obtain e2 s2 where 2: "sh2e_cpu_write_long k (sh_sp ?c - 4 - 4) pc0 s1 = Some (e2, s2)" "sh_part cs K k s1 s2" "cpu_mem s2 = cpu_mem s1"
    using w [OF sh_partD(1) [OF 1(2)]] by blast
  show ?thesis using 1(1,3) 2(1,3) sh_part_trans [OF 1(2) 2(2)] by (simp add: push_sr_pc_def Let_def)
qed

lemma jump_vector_ok:
  assumes "sh_inv cs K s" "v AND 3 = 0"
  shows "\<exists>s'. jump_vector k sp v s = Some s' \<and> sh_part cs K k s s'"
proof -
  let ?s1 = "upd_cpu k (set_gr 15 sp) s"
  have 1: "sh_part cs K k s ?s1" by (intro sh_part_kept(2) [OF assms(1)]) (simp_all add: set_gr_def)
  obtain pc0 s2 where r: "sh2e_physmem_read32 (sh_id (sh_cpu k ?s1)) v False ?s1 = Some (pc0, s2)" "sh_env cs ?s1 s2"
    using sh2e_physmem_read_ok(3) [OF sh_invD(1) [OF sh_partD(1) [OF 1]] assms(2)] by blast
  have 2: "sh_part cs K k ?s1 s2" by (rule sh_part_env [OF sh_partD(1) [OF 1] r(2)])
  have 3: "sh_part cs K k s2 (upd_cpu k (\<lambda>cpu. cpu\<lparr>sh_pc := pc0\<rparr>) s2)"
    by (intro sh_part_kept(2) [OF sh_partD(1) [OF 2]]) simp_all
  show ?thesis using r(1) sh_part_trans [OF sh_part_trans [OF 1 2] 3] by (simp add: jump_vector_def Let_def)
qed

text \<open>The entry of an exception; only a failed stacking then starts another one.\<close>

lemma exception_entry:
  assumes inv: "sh_inv cs K s" and v: "sh_vbr (cpu_mem s k) AND 3 = 0" and ex: "ex \<noteq> SH2E_EXCEPTION_NONE"
  shows "\<exists>b s3. sh_part cs K k s s3 \<and> (\<forall>disabled. sh2e_cpu_handle_exception k ex disabled s = do {
     s4 \<leftarrow> (if b \<and> \<not> disabled then sh2e_cpu_handle_exception k SH2E_EXCEPTION_CPU_ADDRESS_ERROR True s3 else Some s3);
     Some (upd_cpu k (\<lambda>cpu. cpu\<lparr>insn_exception := SH2E_EXCEPTION_NONE, pr_state := SH2E_PSTATE_PROGRAM_EXECUTION\<rparr>) s4) })"
proof -
  obtain i where i: "exception_vector ex = Some i" using ex by (cases ex) auto
  define s1 where "s1 = upd_cpu k (\<lambda>cpu. cpu\<lparr>pr_state := SH2E_PSTATE_EXCEPTION_PROCESSING,
                br_state := (if ex = SH2E_EXCEPTION_ILLEGAL_SLOT_INSTRUCTION then SH2E_BRANCH_STATE_NONE else br_state cpu)\<rparr>) s"
  have p1: "sh_part cs K k s s1" unfolding s1_def by (intro sh_part_kept(2) [OF inv]) simp_all
  obtain b sp s2 where 2: "push_sr_pc k (exception_pc ex (sh_cpu k s)) s1 = Some (b, sp, s2)" "sh_part cs K k s1 s2"
    using push_sr_pc_ok [OF sh_partD(1) [OF p1]] by blast
  obtain s3 where 3: "jump_vector k sp (eva (sh_cpu k s) i) s2 = Some s3" "sh_part cs K k s2 s3"
    using jump_vector_ok [OF sh_partD(1) [OF 2(2)] eva_aligned [OF v]] by blast
  have "sh_part cs K k s s3" by (rule sh_part_trans [OF sh_part_trans [OF p1 2(2)] 3(2)])
  then show ?thesis
    by (intro exI [of _ b] exI [of _ s3])
      (simp only: sh2e_cpu_handle_exception.simps [of k ex _ s] i Let_def s1_def [symmetric] 2(1) 3(1) bind.bind_lunit prod.case, simp)
qed

lemma exception_exit:
  "sh_inv cs K s \<Longrightarrow> sh_part cs K k s (upd_cpu k (\<lambda>cpu. cpu\<lparr>insn_exception := SH2E_EXCEPTION_NONE, pr_state := SH2E_PSTATE_PROGRAM_EXECUTION\<rparr>) s)"
  by (intro sh_part_kept(2)) simp_all

lemma handle_exception_ok:
  assumes inv: "sh_inv cs K s" and v: "sh_vbr (cpu_mem s k) AND 3 = 0" and ex: "ex \<noteq> SH2E_EXCEPTION_NONE"
  shows "\<exists>s'. sh2e_cpu_handle_exception k ex disabled s = Some s' \<and> sh_part cs K k s s'"
proof -
  have nested: "\<exists>s'. sh2e_cpu_handle_exception k e True s = Some s' \<and> sh_part cs K k s s'"
    if pre: "sh_inv cs K s" "sh_vbr (cpu_mem s k) AND 3 = 0" "e \<noteq> SH2E_EXCEPTION_NONE" for e and s :: "'a sh2e_system"
  proof -
    obtain b s3 where 3: "sh_part cs K k s s3" "\<And>disabled. sh2e_cpu_handle_exception k e disabled s = do {
       s4 \<leftarrow> (if b \<and> \<not> disabled then sh2e_cpu_handle_exception k SH2E_EXCEPTION_CPU_ADDRESS_ERROR True s3 else Some s3);
       Some (upd_cpu k (\<lambda>cpu. cpu\<lparr>insn_exception := SH2E_EXCEPTION_NONE, pr_state := SH2E_PSTATE_PROGRAM_EXECUTION\<rparr>) s4) }"
      using exception_entry [OF pre] by blast
    then show ?thesis using sh_part_trans [OF 3(1) exception_exit [OF sh_partD(1) [OF 3(1)]]] by simp
  qed
  obtain b s3 where 3: "sh_part cs K k s s3" "sh2e_cpu_handle_exception k ex disabled s = do {
     s4 \<leftarrow> (if b \<and> \<not> disabled then sh2e_cpu_handle_exception k SH2E_EXCEPTION_CPU_ADDRESS_ERROR True s3 else Some s3);
     Some (upd_cpu k (\<lambda>cpu. cpu\<lparr>insn_exception := SH2E_EXCEPTION_NONE, pr_state := SH2E_PSTATE_PROGRAM_EXECUTION\<rparr>) s4) }"
    using exception_entry [OF assms] by blast
  have v3: "sh_vbr (cpu_mem s3 k) AND 3 = 0" using sh_partD(2) [OF 3(1)] v by simp
  have e3: "sh_part cs K k s3 s3" using sh_partD(1) [OF 3(1)] by (simp add: sh_part_def)
  obtain s4 where 4: "(if b \<and> \<not> disabled then sh2e_cpu_handle_exception k SH2E_EXCEPTION_CPU_ADDRESS_ERROR True s3 else Some s3) = Some s4"
    "sh_part cs K k s3 s4"
    using nested [OF sh_partD(1) [OF 3(1)] v3, of SH2E_EXCEPTION_CPU_ADDRESS_ERROR] e3 by (cases "b \<and> \<not> disabled") auto
  show ?thesis
    using 3(2) sh_part_trans [OF sh_part_trans [OF 3(1) 4(2)] exception_exit [OF sh_partD(1) [OF 4(2)]]] by (simp add: 4(1))
qed

lemma handle_interrupt_ok:
  assumes inv: "sh_inv cs K s" and k: "k \<in> K" and v: "sh_vbr (cpu_mem s k) AND 3 = 0"
  shows "\<exists>s'. sh2e_cpu_handle_interrupt sh2e_peripherals k s = Some s' \<and> sh_part cs K k s s'"
proof -
  define s1 where "s1 = upd_cpu k (\<lambda>cpu. cpu\<lparr>pr_state := SH2E_PSTATE_EXCEPTION_PROCESSING\<rparr>) s"
  have 1: "sh_part cs K k s s1" unfolding s1_def by (intro sh_part_kept(2) [OF inv]) simp_all
  obtain s2 where 2: "for_each_peripheral (interrupt_up_from_cpu sh2e_peripherals (unat (pending_interrupt (sh_cpu k s1))))
      (on_chip_peripherals (sh_cpu k s1)) s1 = Some s2" "sh_part cs K k s1 s2"
    using peripherals_ok(1) [OF sh_partD(1) [OF 1] k] by blast
  obtain b sp s3 where 3: "push_sr_pc k (interrupt_pc (sh_cpu k s2)) s2 = Some (b, sp, s3)" "sh_part cs K k s2 s3"
    using push_sr_pc_ok [OF sh_partD(1) [OF 2(2)]] by blast
  have p3: "sh_part cs K k s s3" by (rule sh_part_trans [OF sh_part_trans [OF 1 2(2)] 3(2)])
  then have "sh_vbr (cpu_mem s3 k) AND 3 = 0" using v sh_partD(2) [OF p3] by simp
  then obtain s4 where 4: "jump_vector k sp (eva (sh_cpu k s3) (unat (pending_interrupt (sh_cpu k s3)))) s3 = Some s4" "sh_part cs K k s3 s4"
    using jump_vector_ok [OF sh_partD(1) [OF 3(2)] eva_aligned] by blast
  obtain im s5 where 5: "on_intc k sh2e_accept_interrupt s4 = Some (im, s5)" "sh_part cs K k s4 s5"
    using on_intc_ok [OF sh_partD(1) [OF 4(2)] k, of sh2e_accept_interrupt] accept_interrupt_ok by blast
  define s6 where "s6 = upd_cpu k (set_sr_im im) s5"
  have 6: "sh_part cs K k s5 s6" unfolding s6_def by (intro sh_part_kept(2) [OF sh_partD(1) [OF 5(2)]]) (simp_all add: set_sr_im_def)
  have p6: "sh_part cs K k s s6" by (rule sh_part_trans [OF sh_part_trans [OF sh_part_trans [OF p3 4(2)] 5(2)] 6])
  have v6: "sh_vbr (cpu_mem s6 k) AND 3 = 0" using v sh_partD(2) [OF p6] by simp
  have e6: "sh_part cs K k s6 s6" using sh_partD(1) [OF 6] by (simp add: sh_part_def)
  obtain s7 where 7: "(if b then sh2e_cpu_handle_exception k SH2E_EXCEPTION_CPU_ADDRESS_ERROR True s6 else Some s6) = Some s7" "sh_part cs K k s6 s7"
    using handle_exception_ok [OF sh_partD(1) [OF 6] v6, of SH2E_EXCEPTION_CPU_ADDRESS_ERROR True] e6 by (cases b) auto
  have 8: "sh_part cs K k s7 (upd_cpu k (\<lambda>cpu. cpu\<lparr>br_state := SH2E_BRANCH_STATE_NONE, pending_interrupt := 0,
      pr_state := SH2E_PSTATE_PROGRAM_EXECUTION\<rparr>) s7)"
    by (intro sh_part_kept(2) [OF sh_partD(1) [OF 7(2)]]) simp_all
  show ?thesis
    using sh_part_trans [OF sh_part_trans [OF p6 7(2)] 8]
    by (simp only: sh2e_cpu_handle_interrupt_def Let_def s1_def [symmetric] 2(1) 3(1) 4(1) 5(1) s6_def [symmetric] 7(1) bind.bind_lunit prod.case) simp
qed

subsection \<open>The processing states\<close>

lemma exception_state_ok:
  assumes inv: "sh_inv cs K s" and k: "k \<in> K" and v: "sh_vbr (cpu_mem s k) AND 3 = 0"
  shows "\<exists>s'. sh2e_exception_state_step sh2e_peripherals k s = Some s' \<and> sh_part cs K k s s'"
proof -
  define s1 where "s1 = upd_cpu k postpone_address_error s"
  have 1: "sh_part cs K k s s1" unfolding s1_def by (intro sh_part_kept(2) [OF inv]) (simp_all add: postpone_address_error_def)
  note i1 = sh_partD(1) [OF 1]
  have v1: "sh_vbr (cpu_mem s1 k) AND 3 = 0" using v sh_partD(2) [OF 1] by simp
  have a: "\<exists>s'. sh2e_cpu_handle_exception k (accepted_addr_error (sh_cpu k s1)) False (upd_cpu k (accept_addr_error ex) s1) = Some s' \<and> sh_part cs K k s s'"
    if "addr_error_raised ex (sh_cpu k s1)" "ex \<noteq> SH2E_EXCEPTION_NONE" for ex
  proof -
    let ?s2 = "upd_cpu k (accept_addr_error ex) s1"
    have 2: "sh_part cs K k s1 ?s2" by (intro sh_part_kept(2) [OF i1]) (simp_all add: accept_addr_error_def)
    have "sh_vbr (cpu_mem ?s2 k) AND 3 = 0" using v1 sh_partD(2) [OF 2] by simp
    moreover have "accepted_addr_error (sh_cpu k s1) \<noteq> SH2E_EXCEPTION_NONE"
      using that by (auto simp: accepted_addr_error_def addr_error_raised_def)
    ultimately show ?thesis using handle_exception_ok [OF sh_partD(1) [OF 2]] sh_part_trans [OF sh_part_trans [OF 1 2]] by blast
  qed
  have e: "\<exists>s'. sh2e_cpu_handle_exception k (insn_exception (sh_cpu k s1)) False s1 = Some s' \<and> sh_part cs K k s s'"
    if "insn_exception (sh_cpu k s1) \<noteq> SH2E_EXCEPTION_NONE"
    using handle_exception_ok [OF i1 v1 that] sh_part_trans [OF 1] by blast
  have h: "\<exists>s'. sh2e_cpu_handle_interrupt sh2e_peripherals k s1 = Some s' \<and> sh_part cs K k s s'"
    using handle_interrupt_ok [OF i1 k v1] sh_part_trans [OF 1] by blast
  show ?thesis using a [of SH2E_EXCEPTION_CPU_ADDRESS_ERROR] a [of SH2E_EXCEPTION_DMAC_ADDRESS_ERROR] e h 1
    by (simp add: sh2e_exception_state_step_def Let_def s1_def [symmetric]) auto
qed

lemma check_reset_ok:
  assumes inv: "sh_inv cs K s" and k: "k \<in> K"
  shows "\<exists>r c. sh2e_cpu_check_reset_req (cpu_mem s k) = Some (r, c) \<and> sh_part cs K k s (upd_cpu k (\<lambda>_. c) s) \<and>
     (\<not> r \<longrightarrow> c = cpu_mem s k)"
proof -
  obtain ic where ic: "intc (cpu_mem s k) = Some ic" using sh_invD(3) [OF inv k] by (auto simp: sh_cpu_ok_def)
  obtain r c where c: "sh2e_cpu_check_reset_req (cpu_mem s k) = Some (r, c)"
    using ic by (cases "sh2e_check_pending_resets ic") (auto simp: sh2e_cpu_check_reset_req_def)
  then have "intc c = intc (cpu_mem s k)" "on_chip_peripherals c = on_chip_peripherals (cpu_mem s k)" "sh_vbr c = sh_vbr (cpu_mem s k)"
    "\<not> r \<longrightarrow> c = cpu_mem s k"
    using ic by (auto simp: sh2e_cpu_check_reset_req_def split: option.splits)
  then show ?thesis using c sh_part_kept(2) [OF inv, of "\<lambda>_. c" k] by simp
qed

lemma poll_ok:
  assumes "sh_inv cs K s" "k \<in> K"
  shows "\<exists>r s'. on_intc k (\<lambda>ic. map_option (\<lambda>(p, n, ic1). ((p, n), ic1)) (sh2e_check_pending_interrupts ic im 0)) s = Some (r, s') \<and> sh_part cs K k s s'"
proof (rule on_intc_ok [OF assms])
  fix ic assume "intc_ok ic"
  from check_pending_ok [OF this, of im 0]
  show "\<exists>r ic1. map_option (\<lambda>(p, n, ic1). ((p, n), ic1)) (sh2e_check_pending_interrupts ic im 0) = Some (r, ic1) \<and> intc_ok ic1" by auto
qed

lemma standby_state_ok:
  assumes inv: "sh_inv cs K s" and k: "k \<in> K"
  shows "\<exists>s'. sh2e_standby_state_step k s = Some s' \<and> sh_part cs K k s s'"
proof -
  obtain r c where c: "sh2e_cpu_check_reset_req (cpu_mem s k) = Some (r, c)" "sh_part cs K k s (upd_cpu k (\<lambda>_. c) s)"
    using check_reset_ok [OF inv k] by blast
  obtain p n s2 where 2: "on_intc k (\<lambda>ic. map_option (\<lambda>(p, n, ic1). ((p, n), ic1)) (sh2e_check_pending_interrupts ic (sr_im c) 0))
      (upd_cpu k (\<lambda>_. c) s) = Some ((p, n), s2)" "sh_part cs K k (upd_cpu k (\<lambda>_. c) s) s2"
    using poll_ok [OF sh_partD(1) [OF c(2)] k, of "sr_im c"] by (metis surj_pair)
  define s3 where "s3 = (if p then upd_cpu k (\<lambda>cpu. cpu\<lparr>pending_interrupt := n, pr_state := SH2E_PSTATE_EXCEPTION_PROCESSING\<rparr>) s2 else s2)"
  have 3: "sh_part cs K k s2 s3" unfolding s3_def
    using sh_partD(1) [OF 2(2)] by (auto intro!: sh_part_kept(2)) (simp add: sh_part_def)
  have 4: "sh_part cs K k s3 (upd_cpu k (\<lambda>cpu. cpu\<lparr>power_down_cycles := power_down_cycles cpu + 1\<rparr>) s3)"
    by (intro sh_part_kept(2) [OF sh_partD(1) [OF 3]]) simp_all
  show ?thesis
    using c 2(1) sh_part_trans [OF sh_part_trans [OF sh_part_trans [OF c(2) 2(2)] 3] 4]
    by (simp add: sh2e_standby_state_step_def Let_def s3_def)
qed

lemma cpu_reset_ok:
  assumes inv: "sh_inv cs K s" and k: "k \<in> K"
  shows "\<exists>s'. sh2e_cpu_reset k s = Some s' \<and> sh_moved cs K k s s'"
proof -
  define s1 where "s1 = upd_cpu k (\<lambda>cpu. cpu\<lparr>sh_vbr := 0, sh_sr := 0xF0, sh_fpscr := 0x40001\<rparr>) s"
  have 1: "sh_inv cs K s1" "\<And>j. j \<noteq> k \<Longrightarrow> cpu_mem s1 j = cpu_mem s j" "sh_vbr (cpu_mem s1 k) = 0"
    unfolding s1_def by (rule sh_part_kept(1) [OF inv], simp_all add: upd_cpu_def)
  obtain pca spa where pq: "(case reset_vectors (reset_req (cpu_mem s1 k)) of None \<Rightarrow> (0, 0)
      | Some (p, q) \<Rightarrow> (eva (cpu_mem s1 k) p, eva (cpu_mem s1 k) q)) = (pca, spa)" by (metis surj_pair)
  then have al: "pca AND 3 = 0" "spa AND 3 = 0" using eva_aligned [of "cpu_mem s1 k"] 1(3) by (auto split: option.splits)
  obtain sp s2 where 2: "sh2e_physmem_read32 (sh_id (cpu_mem s1 k)) spa False s1 = Some (sp, s2)" "sh_part cs K k s1 s2"
    using sh2e_physmem_read_ok(3) [OF sh_invD(1) [OF 1(1)] al(2)] sh_part_env [OF 1(1)] by blast
  define s3 where "s3 = upd_cpu k (set_gr 15 sp) s2"
  have 3: "sh_part cs K k s2 s3" unfolding s3_def by (intro sh_part_kept(2) [OF sh_partD(1) [OF 2(2)]]) (simp_all add: set_gr_def)
  obtain pc0 s4 where 4: "sh2e_physmem_read32 (sh_id (cpu_mem s3 k)) pca False s3 = Some (pc0, s4)" "sh_part cs K k s3 s4"
    using sh2e_physmem_read_ok(3) [OF sh_invD(1) [OF sh_partD(1) [OF 3]] al(1)] sh_part_env [OF sh_partD(1) [OF 3]] by blast
  define s5 where "s5 = upd_cpu k (\<lambda>cpu. cpu\<lparr>sh_pc := pc0\<rparr>) s4"
  have 5: "sh_part cs K k s4 s5" unfolding s5_def by (intro sh_part_kept(2) [OF sh_partD(1) [OF 4(2)]]) simp_all
  obtain s6 where 6: "map_option snd (on_intc k (\<lambda>ic. Some ((), sh2e_intc_init_regs ic)) s5) = Some s6" "sh_part cs K k s5 s6"
    using on_intc_ok [OF sh_partD(1) [OF 5] k, of "\<lambda>ic. Some ((), sh2e_intc_init_regs ic)"] by auto
  have "sh_part cs K k s1 s5" by (rule sh_part_trans [OF sh_part_trans [OF sh_part_trans [OF 2(2) 3] 4(2)] 5])
  then have p: "sh_part cs K k s1 s5" "sh_part cs K k s1 s6" using sh_part_trans 6(2) by blast+
  have "sh2e_cpu_reset k s = (if reset_req (cpu_mem s5 k) \<noteq> SH2E_POWER_ON_RESET_INITIAL then Some s6 else Some s5)"
    by (simp only: sh2e_cpu_reset_def Let_def s1_def [symmetric] pq prod.case 2(1) bind.bind_lunit s3_def [symmetric] 4(1) s5_def [symmetric] 6(1))
  then show ?thesis using p 1(2) unfolding sh_part_def sh_moved_def by auto
qed

lemma reset_state_ok:
  assumes inv: "sh_inv cs K s" and k: "k \<in> K"
  shows "\<exists>s'. sh2e_reset_state_step sh2e_peripherals k s = Some s' \<and> sh_moved cs K k s s'"
proof -
  obtain r s1 where 1: "on_intc k (\<lambda>ic. Some ((), sh2e_accept_reset ic)) s = Some (r, s1)" "sh_part cs K k s s1"
    using on_intc_ok [OF inv k, of "\<lambda>ic. Some ((), sh2e_accept_reset ic)"] by auto
  obtain s2 where 2: "sh2e_cpu_reset k s1 = Some s2" "sh_inv cs K s2" "sh_moved cs K k s1 s2"
    using cpu_reset_ok [OF sh_partD(1) [OF 1(2)] k] sh_moved_part(3) by blast
  obtain s3 where 3: "(case reset_signal (reset_req (sh_cpu k s2)) of
       Some int_no \<Rightarrow> for_each_peripheral (interrupt_up_from_cpu sh2e_peripherals int_no) (on_chip_peripherals (sh_cpu k s2)) s2
     | None \<Rightarrow> Some s2) = Some s3" "sh_part cs K k s2 s3"
    using peripherals_ok(1) [OF 2(2) k] 2(2) by (cases "reset_signal (reset_req (sh_cpu k s2))") (auto simp: sh_part_def)
  have 4: "sh_part cs K k s3 (upd_cpu k (\<lambda>cpu. cpu\<lparr>reset_req := SH2E_RESET_REQ_NONE, pr_state := SH2E_PSTATE_PROGRAM_EXECUTION\<rparr>) s3)"
    by (intro sh_part_kept(2) [OF sh_partD(1) [OF 3(2)]]) simp_all
  have "sh2e_reset_state_step sh2e_peripherals k s =
      Some (upd_cpu k (\<lambda>cpu. cpu\<lparr>reset_req := SH2E_RESET_REQ_NONE, pr_state := SH2E_PSTATE_PROGRAM_EXECUTION\<rparr>) s3)"
    by (simp only: sh2e_reset_state_step_def 1(1) 2(1) 3(1) bind.bind_lunit prod.case)
  then show ?thesis using 1(2) 2(3) 3(2) 4 unfolding sh_part_def sh_moved_def by auto
qed

subsection \<open>Executing an instruction\<close>

definition fetch_defined :: "nat \<Rightarrow> 'z sh2e_system \<Rightarrow> bool" where
  "fetch_defined k s \<longleftrightarrow> (let a = ucast (sh_pc (cpu_mem s k)) :: ptr36 in
     sh_pc (cpu_mem s k) AND 1 \<noteq> 0 \<or>
     frame_at (page_of a) s \<noteq> None \<and> ci_insn (sh_decoded s a) \<notin> {Fn_X Exec_macl, Fn_X Exec_macw})"

lemma sh_inv_fetched: "sh_inv cs K s \<Longrightarrow> sh_fetched cs s s' \<Longrightarrow> sh_inv cs K s'"
  by (simp add: sh_inv_def sh_fetched_def)

lemma fetch_word:
  assumes ok: "sh_ok cs s" and al: "a AND 1 = 0" and f: "frame_at (page_of (ucast a)) s \<noteq> None"
  shows "\<exists>s'. sh2e_cpu_fetch_insn k a s = Some (Inr (sh_word s (ucast a)), s') \<and> sh_env cs s s' \<and> sh_word s' = sh_word s"
proof -
  have pm: "physmem_ok s" using ok by (simp add: sh_ok_def)
  have d: "2 dvd unat (ucast a :: ptr36)" using sh_ucast_aligned(1) [OF al] IS_ALIGNED_dvd [of "ucast a :: ptr36" 1] by simp
  obtain f where f: "frame_at (page_of (ucast a)) s = Some f" using f by blast
  let ?p = "sh_id (sh_cpu k s)"
  obtain s1 where 1: "physmem_read16 ?p (ucast a) True s = Some (abs_load 2 (phys_byte s) (ucast (ucast a :: ptr36)), s1)" "phys_byte s1 = phys_byte s"
    using read_core_refines [OF pm _ d _ f, of "devmem_read16 ?p (ucast a)" True] by (auto simp: physmem_read_core)
  have "sh_env cs s s1" using sh_memory.rd_env(2) [OF ok sh_ucast_aligned(1) [OF al], where p = ?p and prot = True] 1(1) by simp
  moreover have "sh2e_cpu_fetch_insn k a s = Some (Inr (sh_word s (ucast a)), s1)"
    using 1(1) al by (simp add: sh2e_cpu_fetch_insn_def sh2e_physmem_read16_def sh_word_def)
  moreover have "sh_word s1 = sh_word s" by (rule ext) (simp add: sh_word_def 1(2))
  ultimately show ?thesis by blast
qed

lemma execute_insn_ok:
  assumes inv: "sh_inv cs K s" and k: "k \<in> K" and fd: "fetch_defined k s"
  shows "\<exists>ex n s'. sh2e_cpu_execute_insn H k s = Some (ex, n, s') \<and> sh_moved cs K k s s'"
proof (cases "sh_pc (cpu_mem s k) AND 1 = 0")
  case False
  then show ?thesis using inv by (simp add: sh_moved_def sh2e_cpu_execute_insn_def sh2e_cpu_fetch_insn_def Let_def)
next
  case True
  let ?pc = "sh_pc (cpu_mem s k)"
  let ?a = "ucast ?pc :: ptr36"
  have f: "frame_at (page_of ?a) s \<noteq> None" "ci_insn (sh_decoded s ?a) \<notin> {Fn_X Exec_macl, Fn_X Exec_macw}"
    using fd True by (simp_all add: fetch_defined_def Let_def)
  obtain s1 where 1: "sh2e_cpu_fetch_insn k ?pc s = Some (Inr (sh_word s ?a), s1)" "sh_env cs s s1" "sh_word s1 = sh_word s"
    using fetch_word [OF sh_invD(1) [OF inv] True f(1)] by blast
  have p1: "sh_part cs K k s s1" by (rule sh_part_env [OF inv 1(2)])
  note i1 = sh_partD(1) [OF p1]
  note b = sys_evolves_basic [OF env_step_byD(1) [OF 1(2)]]
  define ci where "ci = sh_decoded s ?a"
  have ci: "sh_decoded s1 ?a = ci" using b(3) 1(3) by (simp add: ci_def sh_decoded_def)
  have "2 dvd unat ?a" using sh_ucast_aligned(1) [OF True] IS_ALIGNED_dvd [of ?a 1] by simp
  moreover have "unat ?a < 2 ^ 32" using unsigned_less [of ?pc, where 'a = nat] by (simp add: unsigned_ucast_eq take_bit_nat_eq_self)
  moreover have "frame_at (page_of ?a) s1 \<noteq> None" using f(1) b(4) by simp
  ultimately have "fetches cs k ?a s1" using fetch_insn_ok [OF sh_invD(1,2) [OF i1]] by blast
  then obtain s2 where 2: "sh2e_cpu_fetch_insn_func k ?a s1 = Some (Some (ci_insn ci, ci_cycles ci), take_insn k ci s2)" "sh_fetched cs s1 s2"
    unfolding fetches_def ci by blast
  have i3: "sh_inv cs K (take_insn k ci s2)"
    unfolding take_insn_def by (rule sh_part_kept(1) [OF sh_inv_fetched [OF i1 2(2)]]) simp_all
  have "well_typed (ci_insn ci) (sh_word s ?a)" using decode_well_typed by (simp add: ci_def sh_decoded_def cached_def)
  then obtain ex s4 where 4: "exec_insn H (ci_insn ci) k (sh_word s ?a) (take_insn k ci s2) = Some (ex, s4)" "sh_step cs k (take_insn k ci s2) s4"
    using exec_insn_safe [OF sh_invD(1) [OF i3], of "ci_insn ci"] f(2) unfolding ci_def [symmetric] by blast
  have "cpu_mem s4 j = cpu_mem s j" if "j \<noteq> k" for j
    using that p1 2(2) 4(2) by (simp add: sh_part_def sh_fetched_def sh_step_def take_insn_def upd_cpu_def)
  moreover have "sh2e_cpu_execute_insn H k s = Some (ex, ci_cycles ci, s4)"
    by (simp only: sh2e_cpu_execute_insn_def Let_def 1(1) 2(1) 4(1) bind.bind_lunit prod.case sum.case)
  ultimately show ?thesis using sh_inv_step [OF i3 4(2)] by (simp add: sh_moved_def)
qed

text \<open>The parts of a step of the program.\<close>

lemma run_insn_ok:
  assumes "sh_inv cs K s" "k \<in> K" "fetch_defined k s"
  shows "\<exists>n s1. (if pr_state (cpu_mem s k) \<noteq> SH2E_PSTATE_POWER_DOWN then do {
             (ex, n, s1) \<leftarrow> sh2e_cpu_execute_insn H k s;
             Some (n, upd_cpu k (\<lambda>cpu. cpu\<lparr>insn_exception := ex\<rparr>) s1)
           } else Some (0, s)) = Some (n, s1) \<and> sh_moved cs K k s s1"
proof -
  obtain ex n s' where e: "sh2e_cpu_execute_insn H k s = Some (ex, n, s')" "sh_moved cs K k s s'" using execute_insn_ok [OF assms] by blast
  have "sh_part cs K k s' (upd_cpu k (\<lambda>cpu. cpu\<lparr>insn_exception := ex\<rparr>) s')"
    by (intro sh_part_kept(2) [OF sh_moved_part(3) [OF e(2)]]) simp_all
  then show ?thesis using e(1) sh_moved_part(1) [OF e(2)] sh_moved_part(4) [OF assms(1)] by simp
qed

lemma sleep_ok:
  assumes "sh_inv cs K s" "k \<in> K"
  shows "\<exists>s'. (if pr_state (cpu_mem s k) = SH2E_PSTATE_POWER_DOWN
        then for_each_peripheral (interrupt_up_from_cpu sh2e_peripherals SH2E_INTC_SLEEP_MODE_OFFSET) (on_chip_peripherals (cpu_mem s k)) s
        else Some s) = Some s' \<and> sh_part cs K k s s'"
  using peripherals_ok(1) [OF assms, of SH2E_INTC_SLEEP_MODE_OFFSET] assms(1)
  by (cases "pr_state (cpu_mem s k) = SH2E_PSTATE_POWER_DOWN") (auto simp: sh_part_def)

lemma poll_interrupts_ok:
  assumes "sh_inv cs K s" "k \<in> K"
  shows "\<exists>s'. poll_interrupts k s = Some s' \<and> sh_part cs K k s s'"
proof -
  obtain p m s' where q: "on_intc k (\<lambda>ic. map_option (\<lambda>(p, n, ic1). ((p, n), ic1)) (sh2e_check_pending_interrupts ic (sr_im (cpu_mem s k)) 0)) s
      = Some ((p, m), s')" "sh_part cs K k s s'" using poll_ok [OF assms] by (metis surj_pair)
  have "sh_part cs K k s' (upd_cpu k (\<lambda>cpu. cpu\<lparr>pending_interrupt := m\<rparr>) s')" by (intro sh_part_kept(2) [OF sh_partD(1) [OF q(2)]]) simp_all
  from sh_part_trans [OF q(2) this] show ?thesis
    using q assms(1) by (cases "disable_interrupts (cpu_mem s k)"; cases p) (simp_all add: poll_interrupts_def sh_part_def)
qed

lemma program_execution_ok:
  assumes inv: "sh_inv cs K s" and k: "k \<in> K" and fd: "fetch_defined k s"
  shows "\<exists>s'. sh2e_program_execution_state_step H sh2e_peripherals k s = Some s' \<and> sh_moved cs K k s s'"
proof -
  obtain r c where c: "sh2e_cpu_check_reset_req (cpu_mem s k) = Some (r, c)" "sh_part cs K k s (upd_cpu k (\<lambda>_. c) s)"
    "\<not> r \<longrightarrow> c = cpu_mem s k" using check_reset_ok [OF inv k] by blast
  show ?thesis
  proof (cases r)
    case True
    then show ?thesis using c sh_moved_part(2) [OF c(2)] by (simp add: sh2e_program_execution_state_step_def Let_def)
  next
    case False
    then have c: "sh2e_cpu_check_reset_req (cpu_mem s k) = Some (False, cpu_mem s k)" "upd_cpu k (\<lambda>_. cpu_mem s k) s = s"
      using c by (simp_all add: upd_cpu_def)
    obtain n s1 where 1: "(if pr_state (cpu_mem s k) \<noteq> SH2E_PSTATE_POWER_DOWN then do {
             (ex, n, s1) \<leftarrow> sh2e_cpu_execute_insn H k s;
             Some (n, upd_cpu k (\<lambda>cpu. cpu\<lparr>insn_exception := ex\<rparr>) s1)
           } else Some (0, s)) = Some (n, s1)" "sh_moved cs K k s s1" using run_insn_ok [OF assms] by blast
    obtain s2 where 2: "(if pr_state (cpu_mem s1 k) = SH2E_PSTATE_POWER_DOWN
        then for_each_peripheral (interrupt_up_from_cpu sh2e_peripherals SH2E_INTC_SLEEP_MODE_OFFSET) (on_chip_peripherals (cpu_mem s1 k)) s1
        else Some s1) = Some s2" "sh_part cs K k s1 s2" using sleep_ok [OF sh_moved_part(3) [OF 1(2)] k] by blast
    obtain s3 where 3: "poll_interrupts k s2 = Some s3" "sh_part cs K k s2 s3" using poll_interrupts_ok [OF sh_partD(1) [OF 2(2)] k] by blast
    define s4 where "s4 = (if exception_due (cpu_mem s3 k) then upd_cpu k (\<lambda>cpu. cpu\<lparr>pr_state := SH2E_PSTATE_EXCEPTION_PROCESSING\<rparr>) s3 else s3)"
    have 4: "sh_part cs K k s3 s4" unfolding s4_def
      using sh_partD(1) [OF 3(2)] by (auto intro!: sh_part_kept(2)) (simp add: sh_part_def)
    define s5 where "s5 = upd_cpu k (\<lambda>cpu. cpu\<lparr>program_execution_cycles := program_execution_cycles cpu + of_nat n\<rparr>) s4"
    have 5: "sh_part cs K k s4 s5" unfolding s5_def by (intro sh_part_kept(2) [OF sh_partD(1) [OF 4]]) simp_all
    obtain s6 where 6: "for_each_peripheral (update_cycles sh2e_peripherals (of_nat n)) (on_chip_peripherals (cpu_mem s5 k)) s5 = Some s6" "sh_part cs K k s5 s6"
      using peripherals_ok(2) [OF sh_partD(1) [OF 5] k] by blast
    have "sh_part cs K k s6 (upd_cpu k advance_pc s6)"
      by (intro sh_part_kept(2) [OF sh_partD(1) [OF 6(2)]]) (simp_all add: advance_pc_def split: sh2e_branch_state.split)
    with 2(2) 3(2) 4 5 6(2) have "sh_part cs K k s1 (upd_cpu k advance_pc s6)" by (blast intro: sh_part_trans)
    moreover have "sh2e_program_execution_state_step H sh2e_peripherals k s = Some (upd_cpu k advance_pc s6)"
      by (simp only: sh2e_program_execution_state_step_def Let_def c 1(1) 2(1) 3(1) s4_def [symmetric] s5_def [symmetric] 6(1)
          bind.bind_lunit prod.case if_False)
    ultimately show ?thesis using sh_moved_part(1) [OF 1(2)] by blast
  qed
qed

subsection \<open>The step\<close>

definition step_defined :: "nat \<Rightarrow> 'z sh2e_system \<Rightarrow> bool" where
  "step_defined k s \<longleftrightarrow>
     (case pr_state (cpu_mem s k) of
        SH2E_PSTATE_EXCEPTION_PROCESSING \<Rightarrow> sh_vbr (cpu_mem s k) AND 3 = 0
      | SH2E_PSTATE_PROGRAM_EXECUTION \<Rightarrow> fetch_defined k s
      | _ \<Rightarrow> True)"

lemma sh2e_step_ok:
  assumes "sh_inv cs K s" "k \<in> K" "step_defined k s"
  shows "\<exists>s'. sh2e_cpu_step H sh2e_peripherals k s = Some s' \<and> sh_moved cs K k s s'"
  using reset_state_ok [OF assms(1,2)] exception_state_ok [OF assms(1,2)] program_execution_ok [OF assms(1,2)]
    standby_state_ok [OF assms(1,2)] sh_moved_part(4) [OF assms(1)] assms(3)
  by (cases "pr_state (cpu_mem s k)") (auto simp: sh2e_cpu_step_def step_defined_def intro: sh_moved_part(2))

end
