(* ===== verification/Sh2e_Traps.thy ===== *)
theory Sh2e_Traps
  imports Sh2e_Step
begin

text \<open>
  Exceptions of the SH-2E: the return instruction restores the interrupted program from the words that
  exception entry has pushed. An address error that is postponed by the instruction that caused it is
  never accepted: the processor stays in the exception processing state.
\<close>

subsection \<open>Memory of a processor\<close>

text \<open>Accesses to memory leave the processors alone.\<close>

definition sh_mem_ok :: "(nat \<Rightarrow> sh2e_cpu) \<Rightarrow> 'z sh2e_system \<Rightarrow> bool" where
  "sh_mem_ok m s \<longleftrightarrow> physmem_ok s \<and> sc_list s = [] \<and> cpu_mem s = m \<and> \<not> machine_unit_testing s"

lemma frame_of_byte: "phys_byte s (ucast a) \<noteq> None \<Longrightarrow> \<exists>f. frame_at (page_of a) s = Some f"
  by (auto simp: phys_byte_def page_of_def split: option.splits bind_splits)

interpretation sh_mem32: word_memory 4 "\<lambda>a s. physmem_read32 p a pr s" "\<lambda>a v s. physmem_write32 p a v True s"
  phys_byte "sh_mem_ok m" writable_at for p pr m
proof
  show "LENGTH(32) = 8 * 4" "(4 :: nat) < 2 ^ 36" by simp_all
  fix s :: "'a sh2e_system" and addr :: ptr36 and v :: u32
  assume ok: "sh_mem_ok m s" and al: "4 dvd unat addr" and b: "phys_byte s (ucast addr) \<noteq> None"
  have pm: "physmem_ok s" using ok by (simp add: sh_mem_ok_def)
  obtain f where f: "frame_at (page_of addr) s = Some f" using frame_of_byte [OF b] by blast
  obtain s' where r: "physmem_read32 p addr pr s = Some (abs_load 4 (phys_byte s) (ucast addr), s')" "phys_byte s' = phys_byte s" "physmem_ok s'"
    "cpu_mem s' = cpu_mem s" "sc_list s' = sc_list s"
    using read_core_refines [OF pm _ al _ f, of "devmem_read32 p addr" pr] by (auto simp: physmem_read_core)
  have "s' = (if pr then physmem_breakpoint_find addr 4 ACCESS_READ s else s)"
    using r(1) frame_at_find_frame [OF f] by (auto simp: physmem_read_core read_core_def bind_Some_iff Let_def)
  then have "writable_at s' = writable_at s" "machine_unit_testing s' = machine_unit_testing s"
    using physmem_breakpoint_find_frame [of addr 4 ACCESS_READ s] by (auto intro: writable_at_cong)
  then show "\<exists>s'. physmem_read32 p addr pr s = Some (abs_load 4 (phys_byte s) (ucast addr), s') \<and>
      phys_byte s' = phys_byte s \<and> sh_mem_ok m s' \<and> writable_at s' = writable_at s"
    using r ok by (auto simp: sh_mem_ok_def)
  assume w: "writable_at s addr"
  obtain ar where ar: "frame_area f = Some ar" "writable (areas s ar)" using w f by (auto simp: writable_at_def)
  have c: "sc_control addr 4 s = Some (s\<lparr>sc_list := []\<rparr>)" using ok by (simp add: sc_control_def sh_mem_ok_def)
  obtain s2 where w: "physmem_write32 p addr v True s = Some (True, s2)" "phys_byte s2 = abs_store 4 (phys_byte s) (ucast addr) v"
    "physmem_ok s2" "cpu_mem s2 = cpu_mem s" "sc_list s2 = []"
    "\<And>q. frame_at q s2 = (if q = page_of addr then Some (f\<lparr>valid := False\<rparr>) else frame_at q s)"
    using write_core_refines [OF pm _ al _ f ar(1) _ c, of True "devmem_write32 p addr v" v] ar(2) by (auto simp: physmem_write_core)
  have "areas s2 = areas s \<and> machine_unit_testing s2 = machine_unit_testing s"
    using w(1) frame_at_find_frame [OF f] ar c physmem_breakpoint_find_frame [of addr 4 ACCESS_WRITE "s\<lparr>sc_list := []\<rparr>"]
    by (auto simp: physmem_write_core write_core_def bind_Some_iff Let_def frame_store_def set_frame_def)
  moreover from this have "writable_at s2 = writable_at s" using w(6) f by (intro ext) (auto simp: writable_at_def)
  ultimately show "\<exists>s'. physmem_write32 p addr v True s = Some (True, s') \<and> phys_byte s' = abs_store 4 (phys_byte s) (ucast addr) v \<and>
      sh_mem_ok m s' \<and> writable_at s' = writable_at s"
    using w ok by (auto simp: sh_mem_ok_def)
qed

text \<open>The physical address of a 32-bit address.\<close>

abbreviation pa :: "u32 \<Rightarrow> 36 word" where
  "pa a \<equiv> ucast (ucast a :: ptr36)"

lemma long_aligned: "(a :: u32) AND 3 = 0 \<Longrightarrow> 4 dvd unat (ucast a :: ptr36)"
  using sh_ucast_aligned(2) [of a] IS_ALIGNED_dvd [of "ucast a :: ptr36" 2] by simp

lemma write_long_at:
  assumes "sh_mem_ok m s" "a AND 3 = 0" "phys_byte s (pa a) \<noteq> None" "writable_at s (ucast a)"
  shows "\<exists>s'. sh2e_cpu_write_long k a v s = Some (SH2E_EXCEPTION_NONE, s') \<and> phys_byte s' = abs_store 4 (phys_byte s) (pa a) (be32toh v) \<and>
     sh_mem_ok m s' \<and> writable_at s' = writable_at s"
  using sh_mem32.wr_ok [OF assms(1) long_aligned [OF assms(2)] assms(3,4), where p = "sh_id (sh_cpu k s)" and v = "be32toh v"] assms(1,2)
  by (auto simp: sh2e_cpu_write_long_def write_result_def sh_mem_ok_def)

lemma read_long_at:
  assumes "sh_mem_ok m s" "a AND 3 = 0" "phys_byte s (pa a) \<noteq> None"
  shows "\<exists>s'. sh2e_cpu_read_long k a s = Some (Inr (be32toh (abs_load 4 (phys_byte s) (pa a))), s') \<and> phys_byte s' = phys_byte s \<and> sh_mem_ok m s'"
    "\<exists>s'. sh2e_physmem_read32 p a False s = Some (be32toh (abs_load 4 (phys_byte s) (pa a)), s') \<and> phys_byte s' = phys_byte s \<and> sh_mem_ok m s'"
  using sh_mem32.rd_ok [OF assms(1) long_aligned [OF assms(2)] assms(3), where p = "sh_id (sh_cpu k s)" and pr = True]
    sh_mem32.rd_ok [OF assms(1) long_aligned [OF assms(2)] assms(3), where p = p and pr = False] assms(2)
  by (auto simp: sh2e_cpu_read_long_def sh2e_physmem_read32_def)

lemma aligned_distance:
  fixes A B i :: nat
  assumes d: "4 dvd A" "4 dvd B" "A \<noteq> B" and l: "A < 2 ^ 32" "B < 2 ^ 32" "i < 4"
  shows "4 \<le> (int A + int i - int B) mod 2 ^ 36"
proof (cases "B < A")
  case True
  then have "4 \<le> A - B" using d by (metis dvd_diff_nat dvd_imp_le zero_less_diff)
  moreover from this True have "(int A + int i - int B) mod 2 ^ 36 = int A + int i - int B" using l by (intro mod_pos_pos_trivial) auto
  ultimately show ?thesis using True by linarith
next
  case False
  then have "4 \<le> B - A" using d by (metis dvd_diff_nat dvd_imp_le linorder_neqE_nat zero_less_diff)
  then have "(int A + int i - int B) mod 2 ^ 36 = int A + int i - int B + 2 ^ 36"
    using l mod_pos_pos_trivial [of "int A + int i - int B + 2 ^ 36" "2 ^ 36"] by auto
  moreover have "int B < 2 ^ 32" using l(2) by simp
  ultimately show ?thesis by simp
qed

lemma long_disjoint:
  assumes "(a :: u32) AND 3 = 0" "b AND 3 = 0" "a \<noteq> b" "i < 4"
  shows "4 \<le> unat (pa a + of_nat i - pa b)"
proof -
  let ?A = "int (unat a)" and ?B = "int (unat b)"
  have u: "unat x < 2 ^ 32" for x :: u32 using unsigned_less [of x, where 'a = nat] by simp
  have v: "pa x = of_int (int (unat x))" for x :: u32
  proof (rule unsigned_word_eqI [where 'a = nat])
    have "unat (ucast x :: ptr36) = unat x" using u [of x] by (simp add: unsigned_ucast_eq take_bit_nat_eq_self)
    then have "unat (pa x) = unat x" using u [of x] by (subst unsigned_ucast_eq) (simp add: take_bit_nat_eq_self)
    then show "unat (pa x) = unat (of_int (int (unat x)) :: 36 word)" using u [of x] by (simp add: unsigned_ucast_eq take_bit_nat_eq_self)
  qed
  have "unat a \<noteq> unat b" using assms(3) unsigned_word_eqI [where 'a = nat] by blast
  then have d: "4 dvd unat a" "4 dvd unat b" "unat a \<noteq> unat b"
    using assms(1,2) IS_ALIGNED_dvd [of a 2] IS_ALIGNED_dvd [of b 2] by (simp_all add: IS_ALIGNED_def)
  have "pa a + of_nat i - pa b = of_int (?A + int i - ?B)" unfolding v by simp
  then have "uint (pa a + of_nat i - pa b) = (?A + int i - ?B) mod 2 ^ 36" by (simp only: uint_word_of_int_eq take_bit_eq_mod) simp
  moreover have "4 \<le> (?A + int i - ?B) mod 2 ^ 36" by (rule aligned_distance [OF d u u assms(4)])
  ultimately have "int 4 \<le> int (unat (pa a + of_nat i - pa b))" by simp
  then show ?thesis by (simp only: of_nat_le_iff)
qed

subsection \<open>Entry and return\<close>

lemma upd_cpu_memory:
  "sh_mem_ok m s \<Longrightarrow> sh_mem_ok (m(k := f (m k))) (upd_cpu k f s)" "phys_byte (upd_cpu k f s) = phys_byte s" "writable_at (upd_cpu k f s) = writable_at s"
proof -
  have "physmem_ok (upd_cpu k f s) = physmem_ok s" by (rule physmem_ok_cong) (simp_all add: upd_cpu_def)
  then show "sh_mem_ok m s \<Longrightarrow> sh_mem_ok (m(k := f (m k))) (upd_cpu k f s)" by (auto simp: sh_mem_ok_def upd_cpu_def)
  show "phys_byte (upd_cpu k f s) = phys_byte s" by (rule phys_byte_cong) (simp_all add: upd_cpu_def)
  show "writable_at (upd_cpu k f s) = writable_at s" by (rule writable_at_cong) (simp_all add: upd_cpu_def)
qed

text \<open>A stack with room for two words.\<close>

definition stack_ok :: "u32 \<Rightarrow> 'z sh2e_system \<Rightarrow> bool" where
  "stack_ok sp s \<longleftrightarrow> sp AND 3 = 0 \<and> (\<forall>a \<in> {sp - 4, sp - 8}. phys_byte s (pa a) \<noteq> None \<and> writable_at s (ucast a))"

lemma minus_aligned: "(sp :: u32) AND 3 = 0 \<Longrightarrow> (sp - 4) AND 3 = 0 \<and> (sp - 8) AND 3 = 0"
proof -
  have d: "x AND 3 = 0 \<longleftrightarrow> 4 dvd unat x" for x :: u32 using IS_ALIGNED_dvd [of x 2] by (simp add: IS_ALIGNED_def)
  have m: "4 dvd unat (x + y)" if "4 dvd unat x" "4 dvd unat y" for x y :: u32
    using that dvd_mod_iff [of 4 "2 ^ 32" "unat x + unat y"] by (simp add: unat_word_ariths)
  show "sp AND 3 = 0 \<Longrightarrow> (sp - 4) AND 3 = 0 \<and> (sp - 8) AND 3 = 0"
    using m [of sp "- 4"] m [of sp "- 8"] by (simp add: d)
qed

lemma push_sr_pc_at:
  assumes ok: "sh_mem_ok m s" and st: "stack_ok (sh_sp (m k)) s"
  shows "\<exists>s'. push_sr_pc k p s = Some (False, sh_sp (m k) - 8, s') \<and> sh_mem_ok m s' \<and>
     phys_byte s' = abs_store 4 (abs_store 4 (phys_byte s) (pa (sh_sp (m k) - 4)) (be32toh (sh_sr (m k)))) (pa (sh_sp (m k) - 8)) (be32toh p)"
proof -
  let ?sp = "sh_sp (m k)"
  have c: "cpu_mem s = m" using ok by (simp add: sh_mem_ok_def)
  have al: "(?sp - 4) AND 3 = 0" "(?sp - 8) AND 3 = 0" using st minus_aligned by (auto simp: stack_ok_def)
  have e: "?sp - 4 - 4 = ?sp - 8" by simp
  obtain s1 where 1: "sh2e_cpu_write_long k (?sp - 4) (sh_sr (m k)) s = Some (SH2E_EXCEPTION_NONE, s1)"
    "phys_byte s1 = abs_store 4 (phys_byte s) (pa (?sp - 4)) (be32toh (sh_sr (m k)))" "sh_mem_ok m s1" "writable_at s1 = writable_at s"
    using write_long_at [OF ok al(1), where v = "sh_sr (m k)" and k = k] st by (auto simp: stack_ok_def)
  have b: "phys_byte s1 (pa (?sp - 8)) \<noteq> None" unfolding 1(2) using st by (intro abs_store_dom) (simp add: stack_ok_def)
  obtain s2 where 2: "sh2e_cpu_write_long k (?sp - 8) p s1 = Some (SH2E_EXCEPTION_NONE, s2)"
    "phys_byte s2 = abs_store 4 (phys_byte s1) (pa (?sp - 8)) (be32toh p)" "sh_mem_ok m s2"
    using write_long_at [OF 1(3) al(2) b, where v = p and k = k] st by (auto simp: stack_ok_def 1(4))
  show ?thesis using 1 2 by (simp add: push_sr_pc_def Let_def c e)
qed

text \<open>The memory after the entry of an exception.\<close>

lemma exception_enters:
  assumes ok: "sh_mem_ok m s" and st: "stack_ok (sh_sp (m k)) s" and i: "exception_vector ex = Some i"
    and v: "sh_vbr (m k) AND 3 = 0" "phys_byte s (pa (eva (m k) i)) \<noteq> None"
  shows "\<exists>s' c. sh2e_cpu_handle_exception k ex d s = Some s' \<and> sh_mem_ok (m(k := c)) s' \<and>
     phys_byte s' = abs_store 4 (abs_store 4 (phys_byte s) (pa (sh_sp (m k) - 4)) (be32toh (sh_sr (m k)))) (pa (sh_sp (m k) - 8)) (be32toh (exception_pc ex (m k))) \<and>
     c = (set_gr 15 (sh_sp (m k) - 8) (m k))\<lparr>sh_pc := be32toh (abs_load 4 (phys_byte s') (pa (eva (m k) i))),
       br_state := (if ex = SH2E_EXCEPTION_ILLEGAL_SLOT_INSTRUCTION then SH2E_BRANCH_STATE_NONE else br_state (m k)),
       insn_exception := SH2E_EXCEPTION_NONE, pr_state := SH2E_PSTATE_PROGRAM_EXECUTION\<rparr>"
proof -
  have c: "cpu_mem s = m" using ok by (simp add: sh_mem_ok_def)
  define f where "f = (\<lambda>cpu. cpu\<lparr>pr_state := SH2E_PSTATE_EXCEPTION_PROCESSING,
      br_state := (if ex = SH2E_EXCEPTION_ILLEGAL_SLOT_INSTRUCTION then SH2E_BRANCH_STATE_NONE else br_state cpu)\<rparr> :: sh2e_cpu)"
  define m1 where "m1 = m(k := f (m k))"
  have m1: "sh_sp (m1 k) = sh_sp (m k)" "sh_sr (m1 k) = sh_sr (m k)" by (simp_all add: m1_def f_def)
  have "stack_ok (sh_sp (m1 k)) (upd_cpu k f s)" using st m1 by (simp add: stack_ok_def upd_cpu_memory)
  from push_sr_pc_at [OF upd_cpu_memory(1) [OF ok, of k f, folded m1_def] this]
  obtain s2 where 2: "push_sr_pc k (exception_pc ex (m k)) (upd_cpu k f s) = Some (False, sh_sp (m k) - 8, s2)" "sh_mem_ok m1 s2"
    "phys_byte s2 = abs_store 4 (abs_store 4 (phys_byte s) (pa (sh_sp (m k) - 4)) (be32toh (sh_sr (m k)))) (pa (sh_sp (m k) - 8)) (be32toh (exception_pc ex (m k)))"
    by (auto simp: m1 upd_cpu_memory(2))
  define m2 where "m2 = m1(k := set_gr 15 (sh_sp (m k) - 8) (m1 k))"
  have s2a: "sh_mem_ok m2 (upd_cpu k (set_gr 15 (sh_sp (m k) - 8)) s2)" unfolding m2_def by (rule upd_cpu_memory(1) [OF 2(2)])
  have e: "phys_byte (upd_cpu k (set_gr 15 (sh_sp (m k) - 8)) s2) (pa (eva (m k) i)) \<noteq> None"
    using v(2) by (simp add: upd_cpu_memory 2(3) abs_store_dom)
  obtain s3 where 3: "sh2e_physmem_read32 (sh_id (m2 k)) (eva (m k) i) False (upd_cpu k (set_gr 15 (sh_sp (m k) - 8)) s2) =
      Some (be32toh (abs_load 4 (phys_byte s2) (pa (eva (m k) i))), s3)" "phys_byte s3 = phys_byte s2" "sh_mem_ok m2 s3"
    using read_long_at(2) [OF s2a eva_aligned [OF v(1)] e] by (auto simp: upd_cpu_memory(2))
  have m2: "cpu_mem (upd_cpu k (set_gr 15 (sh_sp (m k) - 8)) s2) = m2" using s2a by (simp add: sh_mem_ok_def)
  let ?h = "\<lambda>cpu. cpu\<lparr>sh_pc := be32toh (abs_load 4 (phys_byte s2) (pa (eva (m k) i)))\<rparr> :: sh2e_cpu"
  let ?g = "\<lambda>cpu. cpu\<lparr>insn_exception := SH2E_EXCEPTION_NONE, pr_state := SH2E_PSTATE_PROGRAM_EXECUTION\<rparr> :: sh2e_cpu"
  have h: "sh2e_cpu_handle_exception k ex d s = Some (upd_cpu k ?g (upd_cpu k ?h s3))"
    by (subst sh2e_cpu_handle_exception.simps) (simp add: i c f_def [symmetric] 2(1) jump_vector_def Let_def m2 3(1))
  have ok4: "sh_mem_ok ((m2(k := ?h (m2 k)))(k := ?g ((m2(k := ?h (m2 k))) k))) (upd_cpu k ?g (upd_cpu k ?h s3))"
    by (rule upd_cpu_memory(1) [OF upd_cpu_memory(1) [OF 3(3)]])
  have pb: "phys_byte (upd_cpu k ?g (upd_cpu k ?h s3)) = phys_byte s2" by (simp add: upd_cpu_memory 3(2))
  show ?thesis
    by (rule exI [of _ "upd_cpu k ?g (upd_cpu k ?h s3)"], rule exI [of _ "?g (?h (m2 k))"])
      (use h ok4 pb 2(3) in \<open>simp add: m2_def m1_def f_def set_gr_def\<close>)
qed

lemma rte_returns:
  assumes ok: "sh_mem_ok m s" and st: "sh_sp (m k) AND 3 = 0" "(sh_sp (m k) + 4) AND 3 = 0"
    and b: "phys_byte s (pa (sh_sp (m k))) \<noteq> None" "phys_byte s (pa (sh_sp (m k) + 4)) \<noteq> None" and br: "br_state (m k) \<noteq> SH2E_BRANCH_STATE_DELAY"
  shows "\<exists>s'. sh2e_insn_exec_rte k w s = Some (SH2E_EXCEPTION_NONE, s') \<and> cpu_mem s' k =
     (set_gr 15 (sh_sp (m k) + 8) (m k))\<lparr>sh_sr := be32toh (abs_load 4 (phys_byte s) (pa (sh_sp (m k) + 4))) AND 0x0FFF0FFF,
       pc_target := be32toh (abs_load 4 (phys_byte s) (pa (sh_sp (m k)))), br_state := SH2E_BRANCH_STATE_DELAY_NEXT\<rparr>"
proof -
  have c: "cpu_mem s = m" using ok by (simp add: sh_mem_ok_def)
  have e: "sh_sp (m k) + 4 + 4 = sh_sp (m k) + 8" by simp
  obtain s1 where 1: "sh2e_cpu_read_long k (sh_sp (m k)) s = Some (Inr (be32toh (abs_load 4 (phys_byte s) (pa (sh_sp (m k))))), s1)"
    "phys_byte s1 = phys_byte s" "sh_mem_ok m s1" using read_long_at(1) [OF ok st(1) b(1)] by blast
  obtain s2 where 2: "sh2e_cpu_read_long k (sh_sp (m k) + 4) s1 = Some (Inr (be32toh (abs_load 4 (phys_byte s) (pa (sh_sp (m k) + 4)))), s2)" "sh_mem_ok m s2"
    using read_long_at(1) [OF 1(3) st(2), of k] b(2) 1(2) by auto
  have "cpu_mem s2 = m" using 2(2) by (simp add: sh_mem_ok_def)
  then show ?thesis
    using br by (simp add: sh2e_insn_exec_rte_def c Let_def with_read_def 1(1) 2(1) finish_def e upd_cpu_def)
qed

lemma exception_then_rte:
  assumes ok: "sh_mem_ok (cpu_mem s) s" and cpu: "c = cpu_mem s k" and st: "stack_ok (sh_sp c) s" and i: "exception_vector ex = Some i"
    and v: "sh_vbr c AND 3 = 0" "phys_byte s (pa (eva c i)) \<noteq> None"
    and br: "ex = SH2E_EXCEPTION_ILLEGAL_SLOT_INSTRUCTION \<or> br_state c \<noteq> SH2E_BRANCH_STATE_DELAY"
  shows "\<exists>s1 s2. sh2e_cpu_handle_exception k ex d s = Some s1 \<and> sh2e_insn_exec_rte k w s1 = Some (SH2E_EXCEPTION_NONE, s2) \<and>
     sh_general (cpu_mem s2 k) = sh_general c \<and> sh_sr (cpu_mem s2 k) = sh_sr c AND 0x0FFF0FFF \<and>
     pc_target (cpu_mem s2 k) = exception_pc ex c \<and> br_state (cpu_mem s2 k) = SH2E_BRANCH_STATE_DELAY_NEXT"
proof -
  let ?sp = "sh_sp c"
  obtain s1 c1 where 1: "sh2e_cpu_handle_exception k ex d s = Some s1" "sh_mem_ok ((cpu_mem s)(k := c1)) s1"
    "phys_byte s1 = abs_store 4 (abs_store 4 (phys_byte s) (pa (?sp - 4)) (be32toh (sh_sr c))) (pa (?sp - 8)) (be32toh (exception_pc ex c))"
    and c1: "c1 = (set_gr 15 (?sp - 8) c)\<lparr>sh_pc := be32toh (abs_load 4 (phys_byte s1) (pa (eva c i))),
       br_state := (if ex = SH2E_EXCEPTION_ILLEGAL_SLOT_INSTRUCTION then SH2E_BRANCH_STATE_NONE else br_state c),
       insn_exception := SH2E_EXCEPTION_NONE, pr_state := SH2E_PSTATE_PROGRAM_EXECUTION\<rparr>"
    using exception_enters [OF ok, of k ex i d] st i v unfolding cpu by blast
  have al: "(?sp - 4) AND 3 = 0" "(?sp - 8) AND 3 = 0" using st minus_aligned by (auto simp: stack_ok_def)
  have sp1: "sh_sp c1 = ?sp - 8" "?sp - 8 + 4 = ?sp - 4" "?sp - 8 + 8 = ?sp" by (simp_all add: c1 set_gr_def)
  have pc: "abs_load 4 (phys_byte s1) (pa (?sp - 8)) = be32toh (exception_pc ex c)" unfolding 1(3) by (rule abs_load_store_same) simp_all
  have "abs_load 4 (phys_byte s1) (pa (?sp - 4)) = (abs_load 4 (abs_store 4 (phys_byte s) (pa (?sp - 4)) (be32toh (sh_sr c))) (pa (?sp - 4)) :: u32)"
    unfolding 1(3) by (rule abs_load_store_other) (rule long_disjoint [OF al], simp_all)
  then have sr: "abs_load 4 (phys_byte s1) (pa (?sp - 4)) = be32toh (sh_sr c)" by (simp add: abs_load_store_same)
  have b: "phys_byte s1 (pa (?sp - 8)) \<noteq> None" "phys_byte s1 (pa (?sp - 4)) \<noteq> None"
    unfolding 1(3) using st by (auto intro!: abs_store_dom simp: stack_ok_def simp del: not_None_eq)
  have "br_state c1 \<noteq> SH2E_BRANCH_STATE_DELAY" using br by (auto simp: c1)
  then obtain s2 where "sh2e_insn_exec_rte k w s1 = Some (SH2E_EXCEPTION_NONE, s2)" "cpu_mem s2 k =
     (set_gr 15 ?sp c1)\<lparr>sh_sr := sh_sr c AND 0x0FFF0FFF, pc_target := exception_pc ex c, br_state := SH2E_BRANCH_STATE_DELAY_NEXT\<rparr>"
    using rte_returns [OF 1(2), of k w] al b by (auto simp: sp1 pc sr)
  then show ?thesis using 1(1) by (auto simp: c1 set_gr_def)
qed

text \<open>
  Apart from an illegal slot instruction, an exception in a delay slot leaves the branch pending: after
  the first instruction of the handler the program counter is the target of the branch.
\<close>

lemma delay_slot_exception:
  assumes ok: "sh_mem_ok (cpu_mem s) s" and st: "stack_ok (sh_sp (cpu_mem s k)) s" and i: "exception_vector ex = Some i"
    and v: "sh_vbr (cpu_mem s k) AND 3 = 0" "phys_byte s (pa (eva (cpu_mem s k) i)) \<noteq> None"
    and br: "ex \<noteq> SH2E_EXCEPTION_ILLEGAL_SLOT_INSTRUCTION" "br_state (cpu_mem s k) = SH2E_BRANCH_STATE_DELAY"
  shows "\<exists>s'. sh2e_cpu_handle_exception k ex d s = Some s' \<and>
     sh_pc (cpu_mem s' k) = be32toh (abs_load 4 (phys_byte s') (pa (eva (cpu_mem s k) i))) \<and>
     sh_pc (advance_pc (cpu_mem s' k)) = pc_target (cpu_mem s k)"
proof -
  obtain s' c where s': "sh2e_cpu_handle_exception k ex d s = Some s'" "sh_mem_ok ((cpu_mem s)(k := c)) s'"
    and c: "c = (set_gr 15 (sh_sp (cpu_mem s k) - 8) (cpu_mem s k))\<lparr>sh_pc := be32toh (abs_load 4 (phys_byte s') (pa (eva (cpu_mem s k) i))),
       br_state := (if ex = SH2E_EXCEPTION_ILLEGAL_SLOT_INSTRUCTION then SH2E_BRANCH_STATE_NONE else br_state (cpu_mem s k)),
       insn_exception := SH2E_EXCEPTION_NONE, pr_state := SH2E_PSTATE_PROGRAM_EXECUTION\<rparr>"
    using exception_enters [OF ok st i v, of d] by blast
  have "cpu_mem s' k = c" using s'(2) by (simp add: sh_mem_ok_def)
  then show ?thesis using s'(1) br by (simp add: c advance_pc_def set_gr_def)
qed

subsection \<open>A postponed address error\<close>

lemma upd_cpu_id: "f (cpu_mem s k) = cpu_mem s k \<Longrightarrow> upd_cpu k f s = s"
  by (simp add: upd_cpu_def)

lemma postponed_error_stuck:
  assumes "pr_state (cpu_mem s k) = SH2E_PSTATE_EXCEPTION_PROCESSING" "disable_address_errors (cpu_mem s k)"
    "insn_exception (cpu_mem s k) = SH2E_EXCEPTION_NONE \<or> is_address_error (insn_exception (cpu_mem s k))"
    "pending_interrupt (cpu_mem s k) = 0"
  shows "\<exists>s1. sh2e_cpu_step H P k s = Some s1 \<and> sh2e_cpu_step H P k s1 = Some s1"
proof -
  define s1 where "s1 = upd_cpu k postpone_address_error s"
  have c: "cpu_mem s1 k = postpone_address_error (cpu_mem s k)" by (simp add: s1_def upd_cpu_def)
  have f: "pr_state (cpu_mem s1 k) = SH2E_PSTATE_EXCEPTION_PROCESSING" "disable_address_errors (cpu_mem s1 k)"
    "insn_exception (cpu_mem s1 k) = SH2E_EXCEPTION_NONE" "pending_interrupt (cpu_mem s1 k) = 0"
    using assms by (auto simp: c postpone_address_error_def)
  then have "postpone_address_error (cpu_mem s1 k) = cpu_mem s1 k" by (simp add: postpone_address_error_def is_address_error_def)
  then have p: "upd_cpu k postpone_address_error s1 = s1" by (rule upd_cpu_id)
  have "sh2e_exception_state_step P k s = Some s1" "sh2e_exception_state_step P k s1 = Some s1"
    using f by (simp_all add: sh2e_exception_state_step_def Let_def s1_def [symmetric] p addr_error_raised_def)
  then show ?thesis using assms(1) f(1) by (simp add: sh2e_cpu_step_def)
qed

end
