(* ===== verification/Sh2e_Dmac_Facts.thy ===== *)
theory Sh2e_Dmac_Facts
  imports Sh2e_Peripherals
begin

text \<open>
  The direct memory access controller. Its step returns after as many cycles as the processor reported,
  although a transfer may write the registers of the controller itself. A transfer copies its unit of
  memory.
\<close>

subsection \<open>Results of computations that may be undefined\<close>

definition after :: "('a \<Rightarrow> bool) \<Rightarrow> 'a option \<Rightarrow> bool" where
  "after Q r \<longleftrightarrow> (\<forall>x. r = Some x \<longrightarrow> Q x)"

lemma after_Some [simp]: "after Q (Some x) = Q x" "after Q None"
  by (simp_all add: after_def)

lemma after_bind: "after P r \<Longrightarrow> (\<And>x. P x \<Longrightarrow> after Q (f x)) \<Longrightarrow> after Q (r \<bind> f)"
  by (auto simp: after_def bind_Some_iff)

lemma after_if: "(b \<Longrightarrow> after Q x) \<Longrightarrow> (\<not> b \<Longrightarrow> after Q y) \<Longrightarrow> after Q (if b then x else y)"
  by simp

subsection \<open>Accesses of devices\<close>

definition devs_after :: "'z sh2e_system \<Rightarrow> 'v \<times> 'z sh2e_system \<Rightarrow> bool" where
  "devs_after s r \<longleftrightarrow> devs_evolve (devices s) (devices (snd r))"

lemma devmem_access_after:
  assumes wf: "\<forall>d \<in> set (devices s). sh_dev_wf d" and f: "\<And>d v. dev_ok d \<Longrightarrow> access_ok (f d v) d" "\<And>d. type_quiet (dev_type d) \<Longrightarrow> quiet (f d)"
  shows "after (devs_after s) (devmem_access f v s)"
proof -
  have ok: "\<And>d. d \<in> set (devices s) \<Longrightarrow> dev_ok d" "\<And>d. d \<in> set (devices s) \<Longrightarrow> type_quiet (dev_type d)"
    using wf sh_dev_wf_ok by blast+
  obtain v' ds es where d: "for_each_dev f (devices s) v = Some (v', ds, es)" "devs_evolve (devices s) ds"
    using for_each_dev_ok [of "devices s" f v, OF f(1) [OF ok(1)]] by blast
  have "\<forall>d \<in> set (devices s). quiet (f d)" using f(2) [OF ok(2)] by blast
  then have "es = []" using d(1) by (rule for_each_dev_quiet)
  then show ?thesis using d by (simp add: devmem_access_def devs_after_def)
qed

lemma devmem_after:
  assumes wf: "\<forall>d \<in> set (devices s). sh_dev_wf d"
  shows "after (devs_after s) (devmem_read8 p a s)" "after (devs_after s) (devmem_read16 p a s)" "after (devs_after s) (devmem_read32 p a s)"
    "after (devs_after s) (devmem_write8 p a w8 s)" "after (devs_after s) (devmem_write16 p a w16 s)" "after (devs_after s) (devmem_write32 p a w32 s)"
proof -
  note d = devmem_access_after [OF wf]
  show "after (devs_after s) (devmem_read8 p a s)" unfolding devmem_read8_def
    by (rule after_bind, rule d, rule dev_access_ok, assumption, rule dev_access_quiet, auto simp: devs_after_def)
  show "after (devs_after s) (devmem_read16 p a s)" unfolding devmem_read16_def
    by (rule after_bind, rule d, rule dev_access_ok, assumption, rule dev_access_quiet, auto simp: devs_after_def)
  show "after (devs_after s) (devmem_read32 p a s)" unfolding devmem_read32_def
    by (rule d, rule dev_access_ok, assumption, rule dev_access_quiet)
  show "after (devs_after s) (devmem_write8 p a w8 s)" unfolding devmem_write8_def
    by (rule d, rule dev_access_ok, assumption, rule dev_access_quiet)
  show "after (devs_after s) (devmem_write16 p a w16 s)" unfolding devmem_write16_def
    by (rule d, rule dev_access_ok, assumption, rule dev_access_quiet)
  show "after (devs_after s) (devmem_write32 p a w32 s)" unfolding devmem_write32_def
    by (rule d, rule dev_access_ok, assumption, rule dev_access_quiet)
qed

lemma after_any: "after (\<lambda>_. True) r"
  by (simp add: after_def)

lemma read_core_after: "after (devs_after s) (dev s) \<Longrightarrow> after (devs_after s) (read_core n dev a prot s)"
proof (cases "physmem_find_frame a s")
  case (Some fr)
  assume d: "after (devs_after s) (dev s)"
  show ?thesis
  proof (cases fr)
    case None
    then show ?thesis using Some d by (simp add: read_core_def)
  next
    case (Some f)
    let ?s1 = "if prot then physmem_breakpoint_find a n ACCESS_READ s else s"
    have "devs_after s (v, ?s1)" for v by (simp add: devs_after_def)
    then have "after (devs_after s) (do { ASSERT (frame_data f \<noteq> None); v \<leftarrow> frame_load n f a ?s1; Some (v, ?s1) })"
      by (intro after_bind [OF after_any] after_if) (simp_all only: after_Some)
    then show ?thesis by (simp only: read_core_def \<open>physmem_find_frame a s = Some fr\<close> Some bind.bind_lunit option.case Let_def)
  qed
qed (simp add: read_core_def)

lemma write_core_after: "after (devs_after s) (dev s) \<Longrightarrow> after (devs_after s) (write_core n dev a v prot s)"
proof (cases "physmem_find_frame a s")
  case (Some fr)
  assume d: "after (devs_after s) (dev s)"
  show ?thesis
  proof (cases fr)
    case None
    then show ?thesis using Some d by (simp add: write_core_def)
  next
    case (Some f)
    have sc: "after (\<lambda>s1. devices s1 = devices s) (sc_control a n s)" using sc_control_frame by (fastforce simp: after_def)
    have st: "after (\<lambda>s4. devices s4 = devices s1) (frame_store n f a v s1)" for s1
      by (auto simp: after_def frame_store_def bind_Some_iff Let_def)
    show ?thesis unfolding write_core_def \<open>physmem_find_frame a s = Some fr\<close> Some bind.bind_lunit option.case
      by (rule after_bind [OF after_any], rule after_bind [OF after_any], rule after_if, simp add: devs_after_def,
          rule after_bind [OF sc], unfold Let_def, rule after_bind [OF st], simp add: devs_after_def set_frame_def Let_def)
  qed
qed (simp add: write_core_def)

lemma physmem_after:
  assumes "\<forall>d \<in> set (devices s). sh_dev_wf d"
  shows "after (devs_after s) (physmem_read8 p a prot s)" "after (devs_after s) (physmem_read16 p a prot s)"
    "after (devs_after s) (physmem_read32 p a prot s)" "after (devs_after s) (physmem_write8 p a w8 prot s)"
    "after (devs_after s) (physmem_write16 p a w16 prot s)" "after (devs_after s) (physmem_write32 p a w32 prot s)"
  unfolding physmem_read_core physmem_write_core by (intro read_core_after write_core_after devmem_after [OF assms])+

subsection \<open>The cycles left\<close>

definition counted :: "nat \<Rightarrow> u32 \<Rightarrow> 'z sh2e_system \<Rightarrow> bool" where
  "counted i n s \<longleftrightarrow> (\<forall>d \<in> set (devices s). sh_dev_wf d) \<and> (\<exists>x. dmac_at i s = Some x \<and> dmac_cycles x = n)"

lemma countedD: "counted i n s \<Longrightarrow> \<forall>d \<in> set (devices s). sh_dev_wf d" "counted i n s \<Longrightarrow> after (\<lambda>x. dmac_cycles x = n) (dmac_at i s)"
  by (auto simp: counted_def after_def)

lemma dmac_at_data: "dmac_at i s = Some x \<longleftrightarrow> i < length (devices s) \<and> dev_data (devices s ! i) = S_dmac x"
  by (auto simp: dmac_at_def prj_dmac_def split: sh2e_dev.splits)

lemma counted_evolves:
  assumes "counted i n s" "devs_evolve (devices s) (devices s')"
  shows "counted i n s'"
proof -
  obtain x where x: "i < length (devices s)" "dev_data (devices s ! i) = S_dmac x" "dmac_cycles x = n"
    using assms(1) by (auto simp: counted_def dmac_at_data)
  have e: "length (devices s') = length (devices s)" "\<And>j. j < length (devices s) \<Longrightarrow> dev_evolves (devices s ! j) (devices s' ! j)"
    using assms(2) by (auto simp: list_all2_conv_all_nth)
  have wf: "\<And>j. j < length (devices s) \<Longrightarrow> sh_dev_wf (devices s ! j)" using countedD(1) [OF assms(1)] by simp
  obtain x' where "dev_data (devices s' ! i) = S_dmac x'" "dmac_cycles x' = n"
    using dmac_evolves [OF wf [OF x(1)] e(2) [OF x(1)] x(2)] x(3) by blast
  moreover have "\<forall>d \<in> set (devices s'). sh_dev_wf d" using sh_dev_wf_evolves [OF wf e(2)] e(1) by (metis in_set_conv_nth)
  ultimately show ?thesis using x(1) e(1) by (simp add: counted_def dmac_at_data)
qed

lemma counted_put:
  assumes "counted i n s" "dmac_cycles x = m"
  shows "counted i m (put_dmac i x s)"
proof -
  obtain y where y: "i < length (devices s)" "dev_data (devices s ! i) = S_dmac y" using assms(1) by (auto simp: counted_def dmac_at_data)
  have wf: "\<forall>d \<in> set (devices s). sh_dev_wf d" by (rule countedD(1) [OF assms(1)])
  have "sh_dev_wf ((devices s ! i)\<lparr>dev_data := S_dmac x\<rparr>)" using wf y by (auto simp: sh_dev_wf_def dest: nth_mem)
  then have "\<forall>d \<in> set ((devices s)[i := (devices s ! i)\<lparr>dev_data := S_dmac x\<rparr>]). sh_dev_wf d"
    using wf set_update_subset_insert [of "devices s" i] by blast
  then show ?thesis using y(1) assms(2) by (simp add: counted_def put_dmac_def set_data_def dmac_at_data)
qed

lemma counted_interrupt: "counted i n s \<Longrightarrow> after (counted i n) (cpu_interrupt_up c no s)"
  by (auto simp: after_def cpu_interrupt_up_def bind_Some_iff counted_def dmac_at_def Let_def)

lemma counted_interrupts: "counted i n s \<Longrightarrow> after (counted i n) (raise_interrupts c nos s)"
proof (induction nos arbitrary: s)
  case (Cons no nos)
  show ?case unfolding raise_interrupts.simps by (rule after_bind [OF counted_interrupt [OF Cons.prems] Cons.IH])
qed simp

lemma counted_access: "counted i n s \<Longrightarrow> after (devs_after s) r \<Longrightarrow> after (\<lambda>(_, s'). counted i n s') r"
  using counted_evolves [of i n s] by (auto simp: after_def devs_after_def)

lemma counted_read:
  assumes "counted i n s"
  shows "after (\<lambda>(_, s'). counted i n s') (physmem_read8 p a prot s)" "after (\<lambda>(_, s'). counted i n s') (physmem_read16 p a prot s)"
    "after (\<lambda>(_, s'). counted i n s') (physmem_read32 p a prot s)" "after (\<lambda>(_, s'). counted i n s') (physmem_write8 p a w8 prot s)"
    "after (\<lambda>(_, s'). counted i n s') (physmem_write16 p a w16 prot s)" "after (\<lambda>(_, s'). counted i n s') (physmem_write32 p a w32 prot s)"
  by (intro counted_access [OF assms] physmem_after countedD(1) [OF assms])+

lemma after_pair: "(\<And>v s'. Q s' \<Longrightarrow> after R (f v s')) \<Longrightarrow> after (\<lambda>(_, s'). Q s') r \<Longrightarrow> after R (do { (v, s') \<leftarrow> r; f v s' })"
  by (auto intro: after_bind)

lemma counted_transfer:
  assumes "counted i n s"
  shows "after (counted i n) (byte_transfer sa da s)" "after (counted i n) (word_transfer i sa da s)" "after (counted i n) (longword_transfer i sa da s)"
proof -
  have e: "after (counted i n) (dmac_address_error i s)" unfolding dmac_address_error_def
    by (rule after_bind [OF countedD(2) [OF assms]]) (rule counted_interrupt, rule counted_put [OF assms], simp)
  show "after (counted i n) (byte_transfer sa da s)" unfolding byte_transfer_def
    by (rule after_pair [OF _ counted_read(1) [OF assms]], rule after_pair [OF _ counted_read(4)], simp)
  show "after (counted i n) (word_transfer i sa da s)" unfolding word_transfer_def
    by (rule after_if [OF e], rule after_pair [OF _ counted_read(2) [OF assms]], rule after_pair [OF _ counted_read(5)], simp)
  show "after (counted i n) (longword_transfer i sa da s)" unfolding longword_transfer_def
    by (rule after_if [OF e], rule after_pair [OF _ counted_read(3) [OF assms]], rule after_pair [OF _ counted_read(6)], simp)
qed

lemma counted_perform: "counted i n s \<Longrightarrow> after (counted i n) (perform_transfer i c s)"
  unfolding perform_transfer_def Let_def
proof (rule after_bind [OF countedD(2)], assumption, rule after_pair [where Q = "counted i n"])
  fix dmac assume c: "counted i n s"
  show "after (\<lambda>(_, s'). counted i n s') (if \<not> chcr_di (chcr (channels dmac c)) then Some (sar (channels dmac c), s)
      else physmem_read32 no_procno (ucast (sar (channels dmac c))) True s)"
    using c counted_read(3) [OF c] by simp
  fix sa s1 assume c: "counted i n s1"
  have put: "after (counted i n) (do { dmac2 \<leftarrow> dmac_at i s2;
      Some (put_dmac i (upd_chan c (\<lambda>ch. ch\<lparr>tcr := tcr ch - 1\<rparr>) (regs_update_after_transfer c dmac2)) s2) })" if "counted i n s2" for s2
    by (rule after_bind [OF countedD(2) [OF that]])
      (simp, rule counted_put [OF that], simp add: upd_chan_def regs_update_after_transfer_def)
  show "after (counted i n) (do { dmac1 \<leftarrow> dmac_at i s1;
      s2 \<leftarrow> (if chcr_ts (chcr (channels dmac1 c)) = 0 then byte_transfer sa (dar (channels dmac c)) s1
             else if chcr_ts (chcr (channels dmac1 c)) = 1 then word_transfer i sa (dar (channels dmac c)) s1
             else if chcr_ts (chcr (channels dmac1 c)) = 2 then longword_transfer i sa (dar (channels dmac c)) s1 else None);
      dmac2 \<leftarrow> dmac_at i s2;
      Some (put_dmac i (upd_chan c (\<lambda>ch. ch\<lparr>tcr := tcr ch - 1\<rparr>) (regs_update_after_transfer c dmac2)) s2) })"
    by (rule after_bind [OF after_any], rule after_bind [where P = "counted i n", OF _ put])
      (simp_all add: counted_transfer [OF c])
qed

lemma after_transfer_cycles [simp]: "dmac_cycles (fst (after_transfer c x)) = dmac_cycles x"
  by (simp add: after_transfer_def reload_sar2_def abort_transfer_def upd_chan_def Let_def)

lemma counted_update_regs: "counted i n s \<Longrightarrow> after (counted i n) (transfer_and_update_regs i s)"
  unfolding transfer_and_update_regs_def
proof (rule after_bind [OF after_any], rule after_bind [OF after_any], rule after_bind [OF counted_perform], assumption)
  fix c s1 assume c: "counted i n s1"
  show "after (counted i n) (do { dmac1 \<leftarrow> dmac_at i s1; let (dmac2, nos) = after_transfer c dmac1;
      raise_interrupts (dmac_cpu dmac2) nos (put_dmac i dmac2 s1) })"
  proof (rule after_bind [OF countedD(2) [OF c]])
    fix x :: sh2e_dmac assume x: "dmac_cycles x = n"
    obtain y nos where y: "after_transfer c x = (y, nos)" by (metis surj_pair)
    then have "dmac_cycles y = n" using after_transfer_cycles [of c x] x by simp
    then show "after (counted i n) (let (dmac2, nos) = after_transfer c x in raise_interrupts (dmac_cpu dmac2) nos (put_dmac i dmac2 s1))"
      using counted_interrupts [OF counted_put [OF c]] y by simp
  qed
qed

lemma counted_transferring: "counted i n s \<Longrightarrow> after (counted i n) (step_transferring i s)"
  unfolding step_transferring_def
proof (rule after_bind [OF countedD(2)], assumption, rule after_bind [OF after_any], rule after_if)
  fix x :: sh2e_dmac and c assume s: "counted i n s" and x: "dmac_cycles x = n"
  show "after (counted i n) (Some (put_dmac i (abort_transfer c x) s))"
    using counted_put [OF s, of "abort_transfer c x" n] x by (simp add: abort_transfer_def Let_def split: if_splits)
  have w: "after (counted i n) (do { s2 \<leftarrow> transfer_and_update_regs i s1; dmac2 \<leftarrow> dmac_at i s2;
      Some (put_dmac i (dmac2\<lparr>transfer_state := SH2E_DMAC_TRANSFER_STATE_WAITING_FOR_REQUEST\<rparr>) s2) })" if "counted i n s1" for s1
    by (rule after_bind [OF counted_update_regs [OF that]], rule after_bind [OF countedD(2)], assumption, simp, rule counted_put, assumption, simp)
  show "after (counted i n) (do { s1 \<leftarrow> transfer_and_update_regs i s; dmac1 \<leftarrow> dmac_at i s1;
      (if transfer_state dmac1 = SH2E_DMAC_TRANSFER_STATE_TRANSFERRING then do {
           s2 \<leftarrow> transfer_and_update_regs i s1; dmac2 \<leftarrow> dmac_at i s2;
           Some (put_dmac i (dmac2\<lparr>transfer_state := SH2E_DMAC_TRANSFER_STATE_WAITING_FOR_REQUEST\<rparr>) s2) } else Some s1) })"
    by (rule after_bind [OF counted_update_regs [OF s]], rule after_bind [OF after_any], rule after_if, rule w, assumption, simp)
qed

lemma counted_waiting: "counted i n s \<Longrightarrow> after (counted i n) (step_waiting i s)"
  unfolding step_waiting_def Let_def
  by (rule after_bind [OF countedD(2)], assumption, rule after_bind [OF after_any])
    (intro after_if; (rule counted_transferring)?; (simp only: after_Some)?; (rule counted_put, assumption, simp)?)

lemma counted_initial: "counted i n s \<Longrightarrow> after (counted i n) (step_initial i s)"
  unfolding step_initial_def Let_def
  by (rule after_bind [OF countedD(2)], assumption)
    (auto intro!: counted_waiting intro: counted_put split: option.split)

subsection \<open>The step returns\<close>

lemma counted_cycle: "counted i n s \<Longrightarrow> after (counted i (n - 1)) (dmac_cycle i s)"
  unfolding dmac_cycle_def
proof (rule after_bind [OF after_any], rule after_bind)
  assume s: "counted i n s"
  show "after (counted i n) (case transfer_state x of
              SH2E_DMAC_TRANSFER_STATE_INITIAL \<Rightarrow> step_initial i s
            | SH2E_DMAC_TRANSFER_STATE_WAITING_FOR_REQUEST \<Rightarrow> step_waiting i s
            | SH2E_DMAC_TRANSFER_STATE_TRANSFERRING \<Rightarrow> step_transferring i s)" for x
    using counted_initial [OF s] counted_waiting [OF s] counted_transferring [OF s] by (simp split: sh2e_dmac_transfer_state.split)
  fix s1 assume s1: "counted i n s1"
  show "after (counted i (n - 1)) (do { dmac1 \<leftarrow> dmac_at i s1; Some (put_dmac i (dmac1\<lparr>dmac_cycles := dmac_cycles dmac1 - 1\<rparr>) s1) })"
    by (rule after_bind [OF countedD(2) [OF s1]], simp, rule counted_put [OF s1], simp)
qed

text \<open>As many cycles as the counter says.\<close>

primrec dmac_run :: "nat \<Rightarrow> nat \<Rightarrow> 'z sh2e_system \<Rightarrow> 'z sh2e_system option" where
  "dmac_run 0 i s = Some s"
| "dmac_run (Suc m) i s = do { s1 \<leftarrow> dmac_cycle i s; dmac_run m i s1 }"

lemma dmac_step_run: "counted i n s \<Longrightarrow> dsh2edmac_step i s = dmac_run (unat n) i s"
proof (induction "unat n" arbitrary: n s)
  case 0
  then have "n = 0" by (simp add: unsigned_eq_0_iff)
  then show ?case using 0 by (subst dsh2edmac_step.simps) (auto simp: counted_def)
next
  case (Suc m)
  have n: "unat (n - 1) = m" using Suc.hyps(2) by (metis Suc_diff_1 diff_Suc_1 unat_minus_one unsigned_0 zero_less_Suc less_not_refl)
  obtain x where x: "dmac_at i s = Some x" "dmac_cycles x = n" using Suc.prems by (auto simp: counted_def)
  have "0 < n" using Suc.hyps(2) by (metis unsigned_0 word_gt_0 nat.distinct(1))
  then have "dsh2edmac_step i s = do { s1 \<leftarrow> dmac_cycle i s; dsh2edmac_step i s1 }" using x by (subst dsh2edmac_step.simps) simp
  also have "\<dots> = do { s1 \<leftarrow> dmac_cycle i s; dmac_run m i s1 }"
  proof (cases "dmac_cycle i s")
    case (Some s1)
    then have "counted i (n - 1) s1" using counted_cycle [OF Suc.prems] by simp
    then show ?thesis using Suc.hyps(1) [of "n - 1" s1] Some n by simp
  qed simp
  finally show ?case using Suc.hyps(2) by (metis dmac_run.simps(2))
qed

subsection \<open>A transfer copies its unit\<close>

definition copied :: "nat \<Rightarrow> 36 word \<Rightarrow> 36 word \<Rightarrow> (36 word \<Rightarrow> u8 option) \<Rightarrow> 36 word \<Rightarrow> u8 option" where
  "copied n src dst pm a = (if unat (a - dst) < n then pm (src + (a - dst)) else pm a)"

lemma store_load_copied:
  assumes "LENGTH('w::len) = 8 * n" "\<And>j. j < n \<Longrightarrow> pm (src + of_nat j) \<noteq> None"
  shows "abs_store n pm dst (abs_load n pm src :: 'w word) = copied n src dst pm"
proof
  fix a
  show "abs_store n pm dst (abs_load n pm src :: 'w word) a = copied n src dst pm a"
  proof (cases "unat (a - dst) < n")
    case True
    let ?j = "unat (a - dst)"
    have "ucast (drop_bit (8 * ?j) (abs_load n pm src :: 'w word)) = the (pm (src + of_nat ?j))"
      using True assms(1) by (intro bit_word_eqI) (auto simp: bit_simps abs_load_def bit_load_le)
    moreover obtain b where "pm (src + of_nat ?j) = Some b" using assms(2) [OF True] by blast
    ultimately show ?thesis using True by (simp add: abs_store_def copied_def)
  qed (simp add: abs_store_def copied_def)
qed

lemma core_copy:
  fixes s :: "'z sh2e_system" and rd :: "'z sh2e_system \<Rightarrow> ('w::len word \<times> 'z sh2e_system) option"
  assumes ok: "physmem_ok s" and n: "n dvd 4096" "0 < n" "LENGTH('w) = 8 * n" and al: "n dvd unat sa" "n dvd unat da"
    and fs: "frame_at (page_of sa) s \<noteq> None" and fd: "frame_at (page_of da) s \<noteq> None" "writable_at s da" and sc: "sc_list s = []"
  shows "\<exists>s'. do { (data, s1) \<leftarrow> read_core n rd sa True s; (_, s2) \<leftarrow> write_core n (wr data) da data True s1; Some s2 } = Some s' \<and>
     phys_byte s' = copied n (ucast sa) (ucast da) (phys_byte s) \<and> devices s' = devices s"
proof -
  obtain f where f: "frame_at (page_of sa) s = Some f" using fs by blast
  obtain g where g: "frame_at (page_of da) s = Some g" using fd by blast
  obtain b off where d: "frame_data f = Some (b, off)" using physmem_okD [OF ok f] by blast
  define s1 where "s1 = physmem_breakpoint_find sa n ACCESS_READ s"
  let ?v = "abs_load n (phys_byte s) (ucast sa) :: 'w word"
  obtain s1' where "read_core n rd sa True s = Some (?v, s1')" using read_core_refines [OF ok n(1) al(1) n(2) f] by blast
  moreover from this have "s1' = s1"
    using frame_at_find_frame [OF f] by (auto simp: read_core_def bind_Some_iff Let_def s1_def)
  ultimately have r: "read_core n rd sa True s = Some (?v, s1)" by simp
  have s1: "physmem_ok s1 = physmem_ok s" "frame_at p s1 = frame_at p s" "phys_byte s1 = phys_byte s" "areas s1 = areas s"
    "devices s1 = devices s" "sc_list s1 = []" for p
    unfolding s1_def by (rule physmem_ok_cong, simp, simp) (auto simp: sc intro: frame_at_cong phys_byte_cong)
  obtain ar where ar: "frame_area g = Some ar" "writable (areas s ar)" using fd(2) g by (auto simp: writable_at_def)
  have c: "sc_control da n s1 = Some (s1\<lparr>sc_list := []\<rparr>)" using s1(6) by (simp add: sc_control_def)
  obtain s2 where w: "write_core n (wr ?v) da ?v True s1 = Some (True, s2)" "phys_byte s2 = abs_store n (phys_byte s1) (ucast da) ?v"
    using write_core_refines [OF _ n(1) al(2) n(2) _ ar(1) _ c, of True "wr ?v" ?v] s1 ok g ar(2) by auto
  have "devices s2 = devices s1"
    using w(1) g frame_at_find_frame [of da s1 g] s1(2) ar c
    by (auto simp: write_core_def bind_Some_iff Let_def frame_store_def set_frame_def s1(4))
  moreover have "phys_byte s2 = copied n (ucast sa) (ucast da) (phys_byte s)"
    unfolding w(2) s1(3) using phys_byte_aligned [OF n(1) al(1) _ f d] by (intro store_load_copied n(3)) simp
  ultimately show ?thesis using r w(1) s1(5) by simp
qed

lemma unat_ucast_ptr36: "unat (ucast (a :: u32) :: ptr36) = unat a"
  using unsigned_less [of a, where 'a = nat] by (simp add: unsigned_ucast_eq take_bit_nat_eq_self)

lemma and_mask_dvd: "(a :: u32) AND 1 = 0 \<longleftrightarrow> 2 dvd unat a" "a AND 3 = 0 \<longleftrightarrow> 4 dvd unat a"
  using IS_ALIGNED_dvd [of a 1] IS_ALIGNED_dvd [of a 2] by (simp_all add: IS_ALIGNED_def)

definition transfers :: "nat \<Rightarrow> nat \<Rightarrow> u32 \<Rightarrow> u32 \<Rightarrow> 'z sh2e_system \<Rightarrow> 'z sh2e_system option" where
  "transfers i ts sa da s =
     (if ts = 0 then byte_transfer sa da s else if ts = 1 then word_transfer i sa da s
      else if ts = 2 then longword_transfer i sa da s else None)"

lemma transfers_copied:
  assumes "physmem_ok s" "sc_list s = []" "ts \<le> 2" "2 ^ ts dvd unat sa" "2 ^ ts dvd unat da"
    "frame_at (page_of (ucast sa)) s \<noteq> None" "frame_at (page_of (ucast da)) s \<noteq> None" "writable_at s (ucast da)"
  shows "\<exists>s'. transfers i ts sa da s = Some s' \<and>
     phys_byte s' = copied (2 ^ ts) (ucast (ucast sa :: ptr36)) (ucast (ucast da :: ptr36)) (phys_byte s) \<and> devices s' = devices s"
proof -
  note c = core_copy [OF assms(1) _ _ _ _ _ assms(6,7,8,2)]
  consider "ts = 0" | "ts = 1" | "ts = 2" using assms(3) by linarith
  then show ?thesis
  proof cases
    case 1
    then show ?thesis using c [of 1 "devmem_read8 no_procno (ucast sa)" "devmem_write8 no_procno (ucast da)"]
      by (simp add: transfers_def byte_transfer_def physmem_read_core physmem_write_core unat_ucast_ptr36)
  next
    case 2
    then show ?thesis using c [of 2 "devmem_read16 no_procno (ucast sa)" "devmem_write16 no_procno (ucast da)"] assms(4,5)
      by (simp add: transfers_def word_transfer_def physmem_read_core physmem_write_core unat_ucast_ptr36 and_mask_dvd)
  next
    case 3
    then show ?thesis using c [of 4 "devmem_read32 no_procno (ucast sa)" "devmem_write32 no_procno (ucast da)"] assms(4,5)
      by (simp add: transfers_def longword_transfer_def physmem_read_core physmem_write_core unat_ucast_ptr36 and_mask_dvd)
  qed
qed

lemma perform_transfer_copied:
  assumes ok: "physmem_ok s" "sc_list s = []" and x: "dmac_at i s = Some x" and r: "cr = channels x c"
    and m: "\<not> chcr_di (chcr cr)" "chcr_ts (chcr cr) = ts" "ts \<le> 2" "2 ^ ts dvd unat (sar cr)" "2 ^ ts dvd unat (dar cr)"
    and f: "frame_at (page_of (ucast (sar cr))) s \<noteq> None" "frame_at (page_of (ucast (dar cr))) s \<noteq> None" "writable_at s (ucast (dar cr))"
  shows "\<exists>s'. perform_transfer i c s = Some s' \<and>
     phys_byte s' = copied (2 ^ ts) (ucast (ucast (sar cr) :: ptr36)) (ucast (ucast (dar cr) :: ptr36)) (phys_byte s) \<and>
     dmac_at i s' = Some (upd_chan c (\<lambda>ch. ch\<lparr>tcr := tcr ch - 1\<rparr>) (regs_update_after_transfer c x))"
proof -
  obtain s2 where 2: "transfers i ts (sar cr) (dar cr) s = Some s2" "devices s2 = devices s"
    "phys_byte s2 = copied (2 ^ ts) (ucast (ucast (sar cr) :: ptr36)) (ucast (ucast (dar cr) :: ptr36)) (phys_byte s)"
    using transfers_copied [OF ok m(3,4,5) f] by blast
  have x2: "dmac_at i s2 = Some x" using x 2(2) by (simp add: dmac_at_data)
  let ?x = "upd_chan c (\<lambda>ch. ch\<lparr>tcr := tcr ch - 1\<rparr>) (regs_update_after_transfer c x)"
  have "perform_transfer i c s = Some (put_dmac i ?x s2)"
    using x x2 2(1) m(1,2) by (simp add: perform_transfer_def Let_def r [symmetric] transfers_def split: if_splits)
  moreover have "phys_byte (put_dmac i ?x s2) = phys_byte s2" by (rule phys_byte_cong) (simp_all add: put_dmac_def set_data_def)
  moreover have "dmac_at i (put_dmac i ?x s2) = Some ?x" using x2 by (simp add: dmac_at_data put_dmac_def set_data_def)
  ultimately show ?thesis using 2(3) by simp
qed

end
