(* ===== verification/Sh2e_Timers.thy ===== *)
theory Sh2e_Timers
  imports Dsh2ecmt Dsh2ewdt
begin

text \<open>
  What the loops of the two timers of the SH-2E compute: a timer that is given processor cycles
  ticks once per period of its clock, and its counter counts these ticks modulo the compare value
  (compare match timer) or modulo 256 (watchdog timer).
\<close>

lemma unat_period_step:
  fixes counter period :: "'a::len word"
  assumes "period \<noteq> 0" "period \<le> counter"
  shows "unat counter div unat period = Suc (unat (counter - period) div unat period)"
    "unat counter mod unat period = unat (counter - period) mod unat period"
proof -
  have "0 < unat period" using assms(1) by (simp add: unat_gt_0)
  then show "unat counter div unat period = Suc (unat (counter - period) div unat period)"
    "unat counter mod unat period = unat (counter - period) mod unat period"
    using assms(2) by (simp_all add: unat_sub word_le_nat_alt le_div_geq le_mod_geq)
qed

lemma unat_period_stop:
  fixes counter period :: "'a::len word"
  assumes "\<not> period \<le> counter"
  shows "unat counter div unat period = 0" "unat counter mod unat period = unat counter"
  using assms by (simp_all add: word_le_nat_alt)

lemma count_step:
  fixes M :: nat
  assumes "n < M"
  shows "(Suc n mod M + t) mod M = (n + Suc t) mod M" "Suc n div M + (Suc n mod M + t) div M = (n + Suc t) div M"
proof -
  show "(Suc n mod M + t) mod M = (n + Suc t) mod M" by (simp add: mod_add_left_eq)
  show "Suc n div M + (Suc n mod M + t) div M = (n + Suc t) div M"
    using div_mult_self2 [of M "Suc n mod M + t" "Suc n div M"] assms by (simp add: add.assoc [symmetric] add.commute)
qed

subsection \<open>The compare match timer\<close>

text \<open>A compare value of 0 is reached when the counter wraps.\<close>

definition cmt_modulus :: "sh2e_cmt_channel_reg \<Rightarrow> nat" where
  "cmt_modulus ch = (if cmcor ch = 0 then 65536 else unat (cmcor ch))"

definition cmt_channel_ok :: "sh2e_cmt_channel_reg \<Rightarrow> bool" where
  "cmt_channel_ok ch \<longleftrightarrow> unat (cmcnt ch) < cmt_modulus ch"

lemma put_bit16_bit [simp]: "n < 16 \<Longrightarrow> bit (put_bit16 n b w) k \<longleftrightarrow> (if k = n then b else bit w k)"
  by (auto simp: put_bit16_def bit_simps dest: bit_imp_le_length)

lemma put_bit16_twice [simp]: "n < 16 \<Longrightarrow> put_bit16 n b (put_bit16 n b w) = put_bit16 n b w"
  by (rule bit_word_eqI) simp

lemma cmt_tick_count:
  assumes "cmt_channel_ok ch"
  shows "cmt_tick ch =
    (bit (cmcsr ch) 6 \<and> Suc (unat (cmcnt ch)) = cmt_modulus ch,
     ch\<lparr>cmcnt := of_nat (Suc (unat (cmcnt ch)) mod cmt_modulus ch),
        cmcsr := (if Suc (unat (cmcnt ch)) = cmt_modulus ch then put_bit16 7 True (cmcsr ch) else cmcsr ch)\<rparr>)"
proof -
  have "unat (cmcor ch) < 65536" using unsigned_less [of "cmcor ch", where ?'a = nat] by simp
  then have m: "cmt_modulus ch \<le> 65536" "of_nat (cmt_modulus ch) = cmcor ch" by (simp_all add: cmt_modulus_def)
  have n: "of_nat (Suc (unat (cmcnt ch))) = cmcnt ch + 1" by simp
  show ?thesis
  proof (cases "Suc (unat (cmcnt ch)) = cmt_modulus ch")
    case True
    then have "cmcnt ch + 1 = cmcor ch" using m(2) n by simp
    then show ?thesis using True by (simp add: cmt_tick_def Let_def)
  next
    case False
    then have l: "Suc (unat (cmcnt ch)) < cmt_modulus ch" using assms by (simp add: cmt_channel_ok_def)
    have u: "unat (cmcnt ch + 1) = Suc (unat (cmcnt ch))" using l m(1) unfolding n [symmetric] by (simp only: unat_of_nat) simp
    have "cmcnt ch + 1 \<noteq> cmcor ch" using l u by (auto simp: cmt_modulus_def split: if_splits)
    then show ?thesis using False l n by (simp add: cmt_tick_def Let_def)
  qed
qed

definition cmt_after :: "sh2e_cmt_channel_reg \<Rightarrow> nat \<Rightarrow> sh2e_cmt_channel_reg" where
  "cmt_after ch t = ch\<lparr>cmcnt := of_nat ((unat (cmcnt ch) + t) mod cmt_modulus ch),
     cmcsr := (if cmt_modulus ch \<le> unat (cmcnt ch) + t then put_bit16 7 True (cmcsr ch) else cmcsr ch)\<rparr>"

lemma cmt_modulus_le: "cmt_modulus ch \<le> 65536" "0 < cmt_modulus ch"
  using unsigned_less [of "cmcor ch", where ?'a = nat] by (auto simp: cmt_modulus_def unat_gt_0)

lemma unat_cmt_count [simp]: "unat (of_nat (n mod cmt_modulus ch) :: u16) = n mod cmt_modulus ch"
proof -
  have "n mod cmt_modulus ch < 65536" using cmt_modulus_le [of ch] mod_less_divisor [of "cmt_modulus ch" n] by linarith
  then show ?thesis by (simp add: unat_of_nat)
qed

lemma cmt_after_0: "cmt_channel_ok ch \<Longrightarrow> cmt_after ch 0 = ch"
  by (simp add: cmt_after_def cmt_channel_ok_def)

lemma cmt_after_modulus [simp]: "cmt_modulus (cmt_after ch t) = cmt_modulus ch"
  by (simp add: cmt_after_def cmt_modulus_def)

lemma cmt_after_ok: "cmt_channel_ok (cmt_after ch t)"
  using cmt_modulus_le [of ch] by (simp add: cmt_channel_ok_def) (simp add: cmt_after_def)

lemma cmt_tick_after:
  "cmt_channel_ok ch \<Longrightarrow> cmt_tick ch = (bit (cmcsr ch) 6 \<and> Suc (unat (cmcnt ch)) = cmt_modulus ch, cmt_after ch (Suc 0))"
  by (simp add: cmt_tick_count cmt_after_def cmt_channel_ok_def le_less)

lemma cmt_after_Suc:
  assumes "cmt_channel_ok ch"
  shows "cmt_after (cmt_after ch (Suc 0)) t = cmt_after ch (Suc t)"
proof -
  have n: "unat (cmcnt (cmt_after ch (Suc 0))) = Suc (unat (cmcnt ch)) mod cmt_modulus ch" by (simp add: cmt_after_def)
  have "cmt_modulus ch \<le> unat (cmcnt ch) + 1 \<or> cmt_modulus ch \<le> Suc (unat (cmcnt ch)) mod cmt_modulus ch + t \<longleftrightarrow>
      cmt_modulus ch \<le> unat (cmcnt ch) + Suc t"
    using assms by (cases "Suc (unat (cmcnt ch)) = cmt_modulus ch") (auto simp: cmt_channel_ok_def)
  then show ?thesis using assms count_step(1) [of "unat (cmcnt ch)" "cmt_modulus ch" t]
    unfolding cmt_after_def [of "cmt_after ch (Suc 0)"] n cmt_after_modulus
    by (auto simp: cmt_after_def cmt_channel_ok_def)
qed

lemma cmt_loop_counts:
  assumes "period \<noteq> 0" "cmt_channel_ok ch"
  shows "cmt_loop period counter ch n =
    (of_nat (unat counter mod unat period), cmt_after ch (unat counter div unat period),
     n + (if bit (cmcsr ch) 6 then (unat (cmcnt ch) + unat counter div unat period) div cmt_modulus ch else 0))"
  using assms
proof (induction period counter ch n rule: cmt_loop.induct)
  case (1 period counter ch n)
  show ?case
  proof (cases "period \<le> counter")
    case False
    then show ?thesis using "1.prems"
      by (simp add: cmt_loop.simps [of period counter] unat_period_stop cmt_after_0) (simp add: cmt_channel_ok_def)
  next
    case True
    let ?t = "unat (counter - period) div unat period"
    note tick = cmt_tick_after [OF "1.prems"(2)]
    have en: "bit (cmcsr (cmt_after ch (Suc 0))) 6 = bit (cmcsr ch) 6" by (simp add: cmt_after_def)
    have c: "unat (cmcnt (cmt_after ch (Suc 0))) = Suc (unat (cmcnt ch)) mod cmt_modulus ch" by (simp add: cmt_after_def)
    have q: "(if Suc (unat (cmcnt ch)) = cmt_modulus ch then 1 else 0) + (Suc (unat (cmcnt ch)) mod cmt_modulus ch + ?t) div cmt_modulus ch
        = (unat (cmcnt ch) + Suc ?t) div cmt_modulus ch"
      using count_step(2) [of "unat (cmcnt ch)" "cmt_modulus ch" ?t] "1.prems"(2) cmt_modulus_le(2) [of ch]
      by (auto simp: cmt_channel_ok_def split: if_splits)
    note IH = "1.IH" [OF _ tick [symmetric] refl]
    have "cmt_loop period counter ch n = cmt_loop period (counter - period) (cmt_after ch (Suc 0))
        (if bit (cmcsr ch) 6 \<and> Suc (unat (cmcnt ch)) = cmt_modulus ch then n + 1 else n)"
      using True "1.prems" by (simp add: cmt_loop.simps [of period counter] tick)
    then show ?thesis using True "1.prems" IH [OF _ _ cmt_after_ok] q
      by (auto simp: en c unat_period_step cmt_after_Suc [OF "1.prems"(2)])
  qed
qed

text \<open>The ticks of a channel in one step, and the interrupts among them.\<close>

definition cmt_start :: "bool \<Rightarrow> sh2e_cmt \<Rightarrow> u64" where
  "cmt_start c cmt = (if c then counter1 cmt else counter0 cmt) + ucast (cmt_cycles cmt)"

definition cmt_ticks :: "bool \<Rightarrow> sh2e_cmt \<Rightarrow> nat" where
  "cmt_ticks c cmt = (if bit (cmstr cmt) (if c then 1 else 0)
     then unat (cmt_start c cmt) div unat (cmt_period (channel_of c cmt)) else 0)"

definition cmt_irqs :: "bool \<Rightarrow> sh2e_cmt \<Rightarrow> nat" where
  "cmt_irqs c cmt = (let ch = channel_of c cmt
     in if bit (cmcsr ch) 6 then (unat (cmcnt ch) + cmt_ticks c cmt) div cmt_modulus ch else 0)"

definition cmt_ok :: "sh2e_cmt \<Rightarrow> bool" where
  "cmt_ok cmt \<longleftrightarrow> (\<forall>c. cmt_channel_ok (channel_of c cmt))"

lemma cmt_ok_reset: "cmt_ok (sh2e_cmt_reset cmt)"
  by (simp add: cmt_ok_def sh2e_cmt_reset_def channel_of_def cmt_channel_ok_def cmt_modulus_def)

lemma cmt_period_nz [simp]: "cmt_period ch \<noteq> 0"
  by (simp add: cmt_period_def)

definition cmt_rest :: "bool \<Rightarrow> sh2e_cmt \<Rightarrow> u64" where
  "cmt_rest c cmt = of_nat (unat (cmt_start c cmt) mod unat (cmt_period (channel_of c cmt)))"

lemma update_channel_counts:
  assumes "cmt_channel_ok (channel_of c cmt)" "bit (cmstr cmt) (if c then 1 else 0)"
  shows "update_channel_counter c cmt =
    (let cmt1 = upd_channel c (\<lambda>_. cmt_after (channel_of c cmt) (cmt_ticks c cmt)) cmt
     in (if c then cmt1\<lparr>counter1 := cmt_rest c cmt, interrupts_channel_1_count := interrupts_channel_1_count cmt + of_nat (cmt_irqs c cmt)\<rparr>
         else cmt1\<lparr>counter0 := cmt_rest c cmt, interrupts_channel_0_count := interrupts_channel_0_count cmt + of_nat (cmt_irqs c cmt)\<rparr>,
         replicate (cmt_irqs c cmt) (if c then int_no_second_channel cmt else int_no_first_channel cmt)))"
  using assms cmt_loop_counts [OF cmt_period_nz assms(1), of "channel_of c cmt" "cmt_start c cmt" 0]
  by (cases c) (simp_all add: update_channel_counter_def cmt_irqs_def cmt_ticks_def cmt_start_def cmt_rest_def upd_channel_def Let_def)

lemma cmt_step_counts:
  assumes ok: "cmt_ok cmt" and step: "dsh2ecmt_step cmt = (cmt1, irqs)"
  shows "irqs = replicate (cmt_irqs False cmt) (int_no_first_channel cmt) @ replicate (cmt_irqs True cmt) (int_no_second_channel cmt)"
    "channel_of c cmt1 = cmt_after (channel_of c cmt) (cmt_ticks c cmt)" "cmt_ok cmt1" "cmt_cycles cmt1 = 0" "cmt_cpu cmt1 = cmt_cpu cmt"
proof -
  have ch: "cmt_channel_ok (channel0 cmt)" "cmt_channel_ok (channel1 cmt)"
    using ok unfolding cmt_ok_def channel_of_def by (metis (full_types))+
  note up = update_channel_counts [of False cmt] update_channel_counts [of True]
  have idle: "\<not> bit (cmstr cmt) 0 \<Longrightarrow> cmt_ticks False cmt = 0 \<and> cmt_irqs False cmt = 0"
    "\<not> bit (cmstr cmt) 1 \<Longrightarrow> cmt_ticks True cmt = 0 \<and> cmt_irqs True cmt = 0"
    using ch by (simp_all add: cmt_ticks_def cmt_irqs_def channel_of_def cmt_channel_ok_def Let_def)
  show i: "irqs = replicate (cmt_irqs False cmt) (int_no_first_channel cmt) @ replicate (cmt_irqs True cmt) (int_no_second_channel cmt)"
    and c: "channel_of c cmt1 = cmt_after (channel_of c cmt) (cmt_ticks c cmt)" for c
    using step ch idle up
    by (auto simp: dsh2ecmt_step_def channel_of_def upd_channel_def cmt_after_0 cmt_irqs_def cmt_ticks_def cmt_start_def Let_def
        split: if_splits prod.splits)
  show "cmt_ok cmt1" unfolding cmt_ok_def c by (simp add: cmt_after_ok)
  show "cmt_cycles cmt1 = 0" "cmt_cpu cmt1 = cmt_cpu cmt" using step ch up
    by (auto simp: dsh2ecmt_step_def channel_of_def upd_channel_def Let_def split: if_splits prod.splits)
qed

subsection \<open>The watchdog timer\<close>

text \<open>
  The mode is interval timer, or watchdog with a reset enabled: the number that an overflow raises.
\<close>

definition wdt_signals :: "sh2e_wdt \<Rightarrow> bool" where
  "wdt_signals wdt \<longleftrightarrow> (bit (tcsr wdt) 6 \<longrightarrow> bit (rstcsr wdt) 6)"

definition wdt_signal :: "sh2e_wdt \<Rightarrow> nat" where
  "wdt_signal wdt = (if bit (tcsr wdt) 6 then if bit (rstcsr wdt) 5 then 2 else 1 else wdt_int_no wdt)"

lemma put_bit8_bit [simp]: "n < 8 \<Longrightarrow> bit (put_bit8 n b w) k \<longleftrightarrow> (if k = n then b else bit w k)"
  by (auto simp: put_bit8_def bit_simps dest: bit_imp_le_length)

lemma wdt_tick_counts:
  assumes "wdt_signals wdt" "wdt_tick wdt = (wdt1, irqs)"
  shows "unat (tcnt wdt1) = Suc (unat (tcnt wdt)) mod 256" "wdt_signals wdt1" "wdt_signal wdt1 = wdt_signal wdt"
    "irqs = (if Suc (unat (tcnt wdt)) = 256 then [wdt_signal wdt] else [])" "wdt_cpu wdt1 = wdt_cpu wdt"
proof -
  have u: "unat (tcnt wdt + 1) = Suc (unat (tcnt wdt)) mod 256" by (simp add: unat_word_ariths)
  have l: "unat (tcnt wdt) < 256" using unsigned_less [of "tcnt wdt", where ?'a = nat] by simp
  have z: "tcnt wdt + 1 = 0 \<longleftrightarrow> Suc (unat (tcnt wdt)) = 256"
    using u l by (auto simp: word_unat_eq_iff dest: dvd_imp_le)
  show "unat (tcnt wdt1) = Suc (unat (tcnt wdt)) mod 256" "wdt_signals wdt1" "wdt_signal wdt1 = wdt_signal wdt"
    "irqs = (if Suc (unat (tcnt wdt)) = 256 then [wdt_signal wdt] else [])" "wdt_cpu wdt1 = wdt_cpu wdt"
    using assms u z by (auto simp: wdt_tick_def wdt_signals_def wdt_signal_def Let_def split: if_splits)
qed

lemma wdt_loop_counts:
  assumes "period \<noteq> 0" "wdt_signals wdt" "wdt_loop period counter wdt irqs = (wdt1, irqs1)"
  shows "irqs1 = irqs @ replicate ((unat (tcnt wdt) + unat counter div unat period) div 256) (wdt_signal wdt) \<and>
    unat (tcnt wdt1) = (unat (tcnt wdt) + unat counter div unat period) mod 256 \<and>
    wdt_counter wdt1 = of_nat (unat counter mod unat period) \<and> wdt_cpu wdt1 = wdt_cpu wdt"
  using assms
proof (induction period counter wdt irqs rule: wdt_loop.induct)
  case (1 period counter wdt irqs)
  have l: "unat (tcnt wdt) < 256" using unsigned_less [of "tcnt wdt", where ?'a = nat] by simp
  show ?case
  proof (cases "period \<le> counter")
    case False
    then show ?thesis using "1.prems" l by (simp add: wdt_loop.simps [of period counter] unat_period_stop) auto
  next
    case True
    let ?t = "unat (counter - period) div unat period"
    obtain wdt2 irqs2 where tick: "wdt_tick wdt = (wdt2, irqs2)" by fastforce
    note t = wdt_tick_counts [OF "1.prems"(2) tick]
    have loop: "wdt_loop period (counter - period) wdt2 (irqs @ irqs2) = (wdt1, irqs1)"
      using True "1.prems" tick by (simp add: wdt_loop.simps [of period counter])
    have IH: "irqs1 = (irqs @ irqs2) @ replicate ((unat (tcnt wdt2) + ?t) div 256) (wdt_signal wdt2) \<and>
        unat (tcnt wdt1) = (unat (tcnt wdt2) + ?t) mod 256 \<and>
        wdt_counter wdt1 = of_nat (unat (counter - period) mod unat period) \<and> wdt_cpu wdt1 = wdt_cpu wdt2"
      using True "1.prems"(1) t(2) loop by (intro "1.IH" [OF _ tick [symmetric] refl]) auto
    have c: "(if Suc (unat (tcnt wdt)) = 256 then Suc 0 else 0) + (Suc (unat (tcnt wdt)) mod 256 + ?t) div 256
        = (unat (tcnt wdt) + Suc ?t) div 256"
      using count_step(2) [OF l, of ?t] l by (auto split: if_splits)
    have "irqs2 = replicate (if Suc (unat (tcnt wdt)) = 256 then Suc 0 else 0) (wdt_signal wdt)" using t(4) by simp
    then have "irqs1 = irqs @ replicate ((unat (tcnt wdt) + Suc ?t) div 256) (wdt_signal wdt)"
      using IH t(1,3) unfolding c [symmetric] replicate_add by simp
    then show ?thesis using IH t(1,5) count_step(1) [OF l, of ?t] by (simp add: unat_period_step [OF "1.prems"(1) True])
  qed
qed

end
