(* ===== verification/Sh2e_Arith.thy ===== *)
theory Sh2e_Arith
  imports Sh2e_Exec_Mem
begin

text \<open>
  What the arithmetic instructions of the SH-2E compute: 32 steps of \<open>ROTCL\<close> and \<open>DIV1\<close> after \<open>DIV0U\<close>
  divide a 64-bit number, chains of \<open>ADDC\<close> and \<open>SUBC\<close> add and subtract numbers of several words,
  \<open>CMP/STR\<close> compares bytes, and the saturating \<open>MAC.W\<close> always saturates.
\<close>

lemma shift_in_uint:
  "uint (push_bit 1 r OR of_bool b :: u32) = (2 * uint r + of_bool b) mod 2 ^ 32"
proof -
  have "push_bit 1 r OR of_bool b = (push_bit 1 r + of_bool b :: u32)"
    by (rule disjunctive_add [symmetric]) (auto simp: bit_simps bit_0)
  then show ?thesis by (simp add: uint_word_ariths push_bit_eq_mult mod_simps mult.commute)
qed

lemma bit31_uint: "bit (r :: u32) 31 \<longleftrightarrow> 2 ^ 31 \<le> uint r"
proof -
  have r: "0 \<le> uint r" "uint r < 2 ^ 32" using uint_lt2p [of r] by simp_all
  have "bit r 31 \<longleftrightarrow> odd (uint r div 2 ^ 31)" using bit_uint_iff [of r 31] by (simp add: bit_iff_odd)
  moreover have "uint r div 2 ^ 31 = (if 2 ^ 31 \<le> uint r then 1 else 0)" using r by (auto simp: div_pos_pos_trivial int_div_pos_eq)
  ultimately show ?thesis by auto
qed

subsection \<open>Division\<close>

text \<open>
  The flags and the register of one division step without the sign \<open>M\<close>: \<open>q\<close> is the sign of the
  partial remainder, \<open>t\<close> the next bit of the dividend.
\<close>

definition div1_unsigned :: "bool \<Rightarrow> bool \<Rightarrow> u32 \<Rightarrow> u32 \<Rightarrow> bool \<times> u32" where
  "div1_unsigned q t rn rm =
     (let shifted = push_bit 1 rn OR of_bool t; next_rn = shifted + (if \<not> q then - rm else rm);
          carry = (if \<not> q then next_rn > shifted else next_rn < shifted)
      in (carry \<noteq> bit_value_msb rn, next_rn))"

lemma div1_unsigned_exec:
  assumes "\<not> sr_m cpu"
  shows "sh2e_insn_exec_div1 cpu w =
     (let (q, v) = div1_unsigned (sr_q cpu) (sr_t cpu) (sh_general cpu (insn_r_hi w)) (sh_general cpu (insn_r_lo w))
      in no_exception (set_sr_t (\<not> q) (set_sr_q q (set_gr (insn_r_hi w) v cpu))))"
  using assms by (simp add: sh2e_insn_exec_div1_def div1_unsigned_def Let_def)

lemma mod_by_shift: "0 \<le> y - k * m \<Longrightarrow> y - k * m < m \<Longrightarrow> y mod m = y - k * (m :: int)"
  using mod_mult_self1 [of "y - k * m" k m] mod_pos_pos_trivial [of "y - k * m" m] by simp

lemma div1_unsigned_remainder:
  assumes d: "0 < uint d" and r: "0 \<le> r" "r < uint d" and rn: "uint rn = r + (if q then 2 ^ 32 - uint d else 0)"
    and x: "x = 2 * r + of_bool b" and res: "div1_unsigned q b rn d = (q', v)"
  shows "q' \<longleftrightarrow> x < uint d" "uint v = x mod uint d + (if q' then 2 ^ 32 - uint d else 0)"
proof -
  define sh where "sh = (push_bit 1 rn OR of_bool b :: u32)"
  define m where "m = bit rn 31"
  have lt: "uint d < 2 ^ 32" "uint sh < 2 ^ 32" "uint rn < 2 ^ 32" "- 1 < uint sh"
    using uint_lt2p [of d] uint_lt2p [of sh] uint_lt2p [of rn] uint_ge_0 [of sh] by (simp_all, linarith)
  have b: "0 \<le> (of_bool b :: int)" "(of_bool b :: int) \<le> 1" by simp_all
  have m: "m \<longleftrightarrow> 2 ^ 31 \<le> uint rn" by (simp add: m_def bit31_uint)
  have sh: "uint sh = 2 * uint rn + of_bool b - of_bool m * 2 ^ 32"
    unfolding sh_def shift_in_uint using m lt(3) b by (intro mod_by_shift) auto
  have v: "v = sh + (if \<not> q then - d else d)"
    and q': "q' \<longleftrightarrow> (if \<not> q then v > sh else v < sh) \<noteq> m"
    using res by (auto simp: div1_unsigned_def sh_def m_def bit_value_msb_def Let_def)
  have x2: "0 \<le> x" "x < 2 * uint d" using x r b by linarith+
  have xm: "x mod uint d = (if x < uint d then x else x - uint d)"
  proof (cases "x < uint d")
    case False
    then show ?thesis using x r b mod_by_shift [of x 1 "uint d"] by simp
  qed (use x r b in \<open>simp add: mod_pos_pos_trivial\<close>)
  show "q' \<longleftrightarrow> x < uint d" "uint v = x mod uint d + (if q' then 2 ^ 32 - uint d else 0)"
  proof (atomize (full), cases q)
    case False
    have "uint v = (uint sh - uint d) mod 2 ^ 32" using v False by (simp add: uint_word_ariths)
    moreover have "(uint sh - uint d) mod 2 ^ 32 = uint sh - uint d - (if uint sh < uint d then -1 else 0) * 2 ^ 32"
      using lt d by (intro mod_by_shift) auto
    ultimately have uv: "uint v = uint sh - uint d + (if uint sh < uint d then 2 ^ 32 else 0)" by simp
    then have c: "v > sh \<longleftrightarrow> uint sh < uint d" using lt d by (simp add: word_less_def)
    have "uint rn = r" using rn False by simp
    then have "(m \<longrightarrow> uint sh = x - 2 ^ 32 \<and> 2 ^ 32 \<le> x) \<and> (\<not> m \<longrightarrow> uint sh = x)" using sh m x b by simp
    then show "(q' \<longleftrightarrow> x < uint d) \<and> uint v = x mod uint d + (if q' then 2 ^ 32 - uint d else 0)"
      using q' False c uv xm x2 lt by (cases m; cases "x < uint d"; simp; linarith)
  next
    case True
    have "uint v = (uint sh + uint d) mod 2 ^ 32" using v True by (simp add: uint_word_ariths)
    moreover have "(uint sh + uint d) mod 2 ^ 32 = uint sh + uint d - (if uint sh + uint d \<ge> 2 ^ 32 then 1 else 0) * 2 ^ 32"
      using lt d by (intro mod_by_shift) auto
    ultimately have uv: "uint v = uint sh + uint d - (if uint sh + uint d \<ge> 2 ^ 32 then 2 ^ 32 else 0)" by simp
    then have c: "v < sh \<longleftrightarrow> uint sh + uint d \<ge> 2 ^ 32" using lt d by (simp add: word_less_def)
    have "uint rn = r + 2 ^ 32 - uint d" using rn True by simp
    then have "(m \<longrightarrow> uint sh = x + 2 ^ 32 - 2 * uint d) \<and> (\<not> m \<longrightarrow> uint sh = x + 2 ^ 33 - 2 * uint d \<and> x < uint d)"
      using sh m x b r lt by (intro conjI impI; simp; linarith)
    then show "(q' \<longleftrightarrow> x < uint d) \<and> uint v = x mod uint d + (if q' then 2 ^ 32 - uint d else 0)"
      using q' True c uv xm x2 lt by (cases m; cases "x < uint d"; simp; linarith)
  qed
qed

text \<open>The program: \<open>DIV0U\<close>, then \<open>ROTCL\<close> and \<open>DIV1\<close> 32 times, then \<open>ROTCL\<close>.\<close>

definition div_iteration :: "sh2e_insn \<Rightarrow> sh2e_insn \<Rightarrow> sh2e_cpu \<Rightarrow> sh2e_cpu" where
  "div_iteration rot dv cpu = snd (sh2e_insn_exec_div1 (snd (sh2e_insn_exec_rotcl cpu rot)) dv)"

definition div_program :: "sh2e_insn \<Rightarrow> sh2e_insn \<Rightarrow> sh2e_insn \<Rightarrow> sh2e_cpu \<Rightarrow> sh2e_cpu" where
  "div_program d0 rot dv cpu =
     snd (sh2e_insn_exec_rotcl ((div_iteration rot dv ^^ 32) (snd (sh2e_insn_exec_div0u cpu d0))) rot)"

text \<open>
  After \<open>i\<close> iterations, for the dividend \<open>hi * 2 ^ 32 + lo\<close> and the divisor \<open>d\<close>: the first \<open>32 + i\<close> bits of
  the dividend are divided. The low register holds the rest of the dividend and all but the last
  bit of the quotient, which is T; the high register and Q hold the remainder, less \<open>d\<close> if Q is set.
\<close>

definition div_prefix :: "int \<Rightarrow> int \<Rightarrow> nat \<Rightarrow> int" where
  "div_prefix hi lo i = hi * 2 ^ i + lo div 2 ^ (32 - i)"

definition div_inv :: "reg4 \<Rightarrow> reg4 \<Rightarrow> reg4 \<Rightarrow> int \<Rightarrow> int \<Rightarrow> u32 \<Rightarrow> nat \<Rightarrow> sh2e_cpu \<Rightarrow> bool" where
  "div_inv n l m hi lo d i cpu \<longleftrightarrow>
     \<not> sr_m cpu \<and> sh_general cpu m = d \<and>
     uint (sh_general cpu n) = div_prefix hi lo i mod uint d + (if sr_q cpu then 2 ^ 32 - uint d else 0) \<and>
     uint (sh_general cpu l) = (lo mod 2 ^ (32 - i)) * 2 ^ i + div_prefix hi lo i div uint d div 2 \<and>
     (sr_t cpu \<longleftrightarrow> odd (div_prefix hi lo i div uint d))"

lemma div_prefix_Suc:
  assumes "i < 32"
  shows "div_prefix hi lo (Suc i) = 2 * div_prefix hi lo i + (lo div 2 ^ (31 - i)) mod 2"
proof -
  have "32 - i = Suc (31 - i)" using assms by simp
  then have "lo div 2 ^ (32 - i) = lo div 2 ^ (31 - i) div 2"
    by (simp only: power_Suc2) (simp add: zdiv_zmult2_eq)
  moreover have "lo div 2 ^ (31 - i) = 2 * (lo div 2 ^ (31 - i) div 2) + (lo div 2 ^ (31 - i)) mod 2" by simp
  ultimately show ?thesis using assms by (simp add: div_prefix_def)
qed

lemma idiv_less: "0 < q \<Longrightarrow> m < n * q \<Longrightarrow> m div q < (n :: int)"
proof -
  assume q: "0 < q" "m < n * q"
  have "m div q * q + m mod q = m" by (rule div_mult_mod_eq)
  moreover have "0 \<le> m mod q" using q by simp
  ultimately have "m div q * q < n * q" using q by linarith
  then show ?thesis using q by (simp add: mult_less_cancel_right)
qed

lemma div_prefix_bound:
  assumes "0 \<le> hi" "hi < d" "0 \<le> lo" "lo < 2 ^ 32" "i \<le> 32"
  shows "0 \<le> div_prefix hi lo i" "div_prefix hi lo i div d < 2 ^ i"
proof -
  have l: "0 \<le> lo div 2 ^ (32 - i)" "lo div 2 ^ (32 - i) < 2 ^ i"
  proof -
    have "lo < 2 ^ i * 2 ^ (32 - i)" using assms by (simp flip: power_add)
    then show "lo div 2 ^ (32 - i) < 2 ^ i" by (intro idiv_less) simp_all
  qed (use assms in \<open>simp add: pos_imp_zdiv_nonneg_iff\<close>)
  show "0 \<le> div_prefix hi lo i" using assms l by (simp add: div_prefix_def)
  have "hi * 2 ^ i + 2 ^ i \<le> d * 2 ^ i" using mult_right_mono [of "hi + 1" d "2 ^ i"] assms by (simp add: distrib_right)
  then have "div_prefix hi lo i < d * 2 ^ i" using l by (simp add: div_prefix_def)
  then show "div_prefix hi lo i div d < 2 ^ i" using assms by (intro idiv_less) (simp_all add: mult.commute)
qed

lemma div_low_register:
  assumes lo: "0 \<le> lo" "lo < 2 ^ 32" and i: "i < 32" and Q: "0 \<le> Q" "Q < 2 ^ i"
    and r: "uint (r :: u32) = (lo mod 2 ^ (32 - i)) * 2 ^ i + Q div 2"
  shows "of_bool (bit r 31) = (lo div 2 ^ (31 - i)) mod 2"
    "uint (push_bit 1 r OR of_bool (odd Q)) = (lo mod 2 ^ (31 - i)) * 2 ^ Suc i + Q"
proof -
  define L where "L = lo mod 2 ^ (31 - i)"
  define B where "B = lo div 2 ^ (31 - i) mod 2"
  have L: "0 \<le> L" "L * 2 ^ i + 2 ^ i \<le> 2 ^ 31"
  proof -
    have "L + 1 \<le> 2 ^ (31 - i)" using pos_mod_bound [of "2 ^ (31 - i)" lo, OF zero_less_power] unfolding L_def by linarith
    then have "(L + 1) * 2 ^ i \<le> 2 ^ (31 - i) * 2 ^ i" by simp
    also have "(2 ^ (31 - i) * 2 ^ i :: int) = 2 ^ 31" using i by (simp flip: power_add)
    finally show "L * 2 ^ i + 2 ^ i \<le> 2 ^ 31" by (simp add: distrib_right)
  qed (simp add: L_def)
  have "32 - i = Suc (31 - i)" using i by simp
  then have "lo mod 2 ^ (32 - i) = 2 ^ (31 - i) * B + L"
    by (simp only: power_Suc2) (simp add: zmod_zmult2_eq L_def B_def)
  then have "lo mod 2 ^ (32 - i) * 2 ^ i = B * (2 ^ (31 - i) * 2 ^ i) + L * 2 ^ i" by (simp add: algebra_simps)
  moreover have "(2 ^ (31 - i) * 2 ^ i :: int) = 2 ^ 31" using i by (simp flip: power_add)
  ultimately have u: "uint r = B * 2 ^ 31 + L * 2 ^ i + Q div 2" using r by simp
  have B: "B = 0 \<or> B = 1" by (auto simp: B_def)
  have q: "0 \<le> Q div 2" "2 * (Q div 2) \<le> Q" "2 * (Q div 2) + of_bool (odd Q) = Q" "0 \<le> L * 2 ^ i"
    using Q(1) L(1) by simp_all
  have "bit r 31 \<longleftrightarrow> B = 1" using B u q L Q unfolding bit31_uint by auto
  then show "of_bool (bit r 31) = (lo div 2 ^ (31 - i)) mod 2" using B by (auto simp: B_def)
  have "2 * uint r + of_bool (odd Q) - B * 2 ^ 32 = L * 2 ^ Suc i + Q" using u q(3) by simp
  moreover have "L * 2 ^ Suc i + Q < 2 ^ 32"
  proof -
    have "(0 :: int) < 2 ^ i" by simp
    then have "2 * (L * 2 ^ i) + Q < 2 * 2 ^ 31" using L(2) Q(2) by linarith
    then show ?thesis by (simp only: power_Suc mult.left_commute [of L 2]) simp
  qed
  ultimately show "uint (push_bit 1 r OR of_bool (odd Q)) = (lo mod 2 ^ (31 - i)) * 2 ^ Suc i + Q"
    unfolding shift_in_uint using mod_by_shift [of "2 * uint r + of_bool (odd Q)" B "2 ^ 32"] q(4) Q(1) by (simp add: L_def)
qed

lemma div_iteration_step:
  assumes reg: "insn_r_hi rot = l" "insn_r_hi dv = n" "insn_r_lo dv = m" "l \<noteq> n" "l \<noteq> m" "m \<noteq> n"
    and bnd: "0 \<le> hi" "hi < uint d" "0 \<le> lo" "lo < 2 ^ 32" and i: "i < 32"
    and inv: "div_inv n l m hi lo d i cpu"
  shows "div_inv n l m hi lo d (Suc i) (div_iteration rot dv cpu)"
proof -
  define A where "A = div_prefix hi lo i"
  define b where "b = bit (sh_general cpu l) 31"
  define x where "x = 2 * (A mod uint d) + of_bool b"
  have d: "0 < uint d" using bnd by linarith
  have A: "0 \<le> A" "A div uint d < 2 ^ i" using div_prefix_bound [OF bnd, of i] i by (simp_all add: A_def)
  have I: "\<not> sr_m cpu" "sh_general cpu m = d"
    "uint (sh_general cpu n) = A mod uint d + (if sr_q cpu then 2 ^ 32 - uint d else 0)"
    "uint (sh_general cpu l) = (lo mod 2 ^ (32 - i)) * 2 ^ i + A div uint d div 2" "sr_t cpu \<longleftrightarrow> odd (A div uint d)"
    using inv by (simp_all add: div_inv_def A_def)
  obtain q v where s: "div1_unsigned (sr_q cpu) b (sh_general cpu n) d = (q, v)" by fastforce
  have r: "0 \<le> A mod uint d" "A mod uint d < uint d" using d by simp_all
  have qv: "q \<longleftrightarrow> x < uint d" "uint v = x mod uint d + (if q then 2 ^ 32 - uint d else 0)"
    using div1_unsigned_remainder [OF d r I(3) x_def s] by simp_all
  note low = div_low_register [OF bnd(3,4) i _ A(2) I(4)]
  have Q: "0 \<le> A div uint d" using A d by (simp add: pos_imp_zdiv_nonneg_iff)
  have b: "of_bool b = (lo div 2 ^ (31 - i)) mod 2" using low(1) [OF Q] by (simp add: b_def)
  have A1: "div_prefix hi lo (Suc i) = 2 * A + of_bool b" using div_prefix_Suc [OF i, of hi lo] b by (simp add: A_def)
  have "2 * A + of_bool b = x + uint d * (2 * (A div uint d))" 
    unfolding x_def mult.left_commute [of "uint d"] using mult_div_mod_eq [of "uint d" A] by linarith
  then have div: "div_prefix hi lo (Suc i) mod uint d = x mod uint d"
    "div_prefix hi lo (Suc i) div uint d = 2 * (A div uint d) + x div uint d" using d A1 by simp_all
  have x1: "x div uint d = of_bool (\<not> q)"
  proof (cases "x < uint d")
    case True
    moreover have "0 \<le> x" using r by (simp add: x_def)
    ultimately show ?thesis using qv(1) by simp
  next
    case False
    have "(of_bool b :: int) \<le> 1" by simp
    then have "x - uint d < uint d" using r by (simp add: x_def)
    then have "(x - uint d) div uint d = 0" using False by simp
    moreover have "x div uint d = (x - uint d) div uint d + 1" using d div_add_self2 [of "uint d" "x - uint d"] by simp
    ultimately show ?thesis using False qv(1) by simp
  qed
  have l1: "uint (push_bit 1 (sh_general cpu l) OR of_bool (sr_t cpu) :: u32) = (lo mod 2 ^ (31 - i)) * 2 ^ Suc i + A div uint d"
    using low(2) [OF Q] I(5) by simp
  show ?thesis
    using reg I s qv x1 l1 div
    by (simp add: div_inv_def div_iteration_def sh2e_insn_exec_rotcl_def div1_unsigned_exec Let_def b_def bit_value_msb_def)
qed

lemma div_program_quotient:
  assumes reg: "insn_r_hi rot = l" "insn_r_hi dv = n" "insn_r_lo dv = m" "l \<noteq> n" "l \<noteq> m" "m \<noteq> n"
    and fits: "sh_general cpu n < sh_general cpu m"
  shows "uint (sh_general (div_program d0 rot dv cpu) l) =
     (uint (sh_general cpu n) * 2 ^ 32 + uint (sh_general cpu l)) div uint (sh_general cpu m)"
proof -
  define hi lo d where "hi = uint (sh_general cpu n)" and "lo = uint (sh_general cpu l)" and "d = sh_general cpu m"
  have bnd: "0 \<le> hi" "hi < uint d" "0 \<le> lo" "lo < 2 ^ 32"
    using fits uint_lt2p [of "sh_general cpu l"] by (simp_all add: hi_def lo_def d_def word_less_def)
  define cpu0 where "cpu0 = snd (sh2e_insn_exec_div0u cpu d0)"
  have "div_inv n l m hi lo d i ((div_iteration rot dv ^^ i) cpu0)" if "i \<le> 32" for i
    using that
  proof (induction i)
    case 0
    have "hi div uint d = 0" "hi mod uint d = hi" "lo div 2 ^ 32 = 0" "lo mod 2 ^ 32 = lo" using bnd by simp_all
    then show ?case
      by (simp add: div_inv_def div_prefix_def cpu0_def sh2e_insn_exec_div0u_def) (simp add: hi_def lo_def d_def)
  next
    case (Suc i)
    then show ?case using div_iteration_step [OF reg bnd, of i] by simp
  qed
  from this [of 32] have I: "div_inv n l m hi lo d 32 ((div_iteration rot dv ^^ 32) cpu0)" by simp
  define c where "c = (div_iteration rot dv ^^ 32) cpu0"
  define N where "N = (hi * 2 ^ 32 + lo) div uint d"
  have N: "0 \<le> N" "N < 2 ^ 32"
    using div_prefix_bound [OF bnd, of 32] bnd by (simp_all add: N_def div_prefix_def pos_imp_zdiv_nonneg_iff)
  have c: "uint (sh_general c l) = N div 2" "sr_t c \<longleftrightarrow> odd N"
    using I unfolding c_def [symmetric] by (simp_all add: div_inv_def div_prefix_def N_def)
  have "uint (push_bit 1 (sh_general c l) OR of_bool (sr_t c)) = (2 * (N div 2) + of_bool (odd N)) mod 2 ^ 32"
    by (simp only: shift_in_uint c)
  also have "\<dots> = N" using N by (auto elim!: oddE)
  finally show ?thesis
    using reg(1) by (simp add: div_program_def cpu0_def [symmetric] c_def [symmetric] sh2e_insn_exec_rotcl_def Let_def N_def hi_def lo_def d_def)
qed

subsection \<open>Numbers of several words\<close>

lemma addc_word:
  fixes a b :: u32
  shows "uint (a + b + of_bool c) + 2 ^ 32 * of_bool (a > a + b \<or> a + b > a + b + of_bool c) = uint a + uint b + of_bool c"
proof -
  have lt: "uint a < 2 ^ 32" "uint b < 2 ^ 32" using uint_lt2p [of a] uint_lt2p [of b] by simp_all
  have ge: "- 1 < uint a" "- 1 < uint b" by (simp_all add: less_le_trans [OF _ uint_ge_0])
  have s: "uint (a + b) = uint a + uint b - (if uint a + uint b \<ge> 2 ^ 32 then 2 ^ 32 else 0)"
    using mod_by_shift [of "uint a + uint b" "if uint a + uint b \<ge> 2 ^ 32 then 1 else 0" "2 ^ 32"] lt ge
    by (simp add: uint_word_ariths split: if_splits)
  have t: "uint (a + b + of_bool c) = uint (a + b) + of_bool c - (if uint (a + b) + of_bool c \<ge> 2 ^ 32 then 2 ^ 32 else 0)"
    using mod_by_shift [of "uint (a + b) + of_bool c" "if uint (a + b) + of_bool c \<ge> 2 ^ 32 then 1 else 0" "2 ^ 32"]
      uint_lt2p [of "a + b"] by (cases c) (simp_all add: uint_word_ariths mod_simps split: if_splits)
  show ?thesis unfolding word_less_def t s using lt ge by (cases c) (simp_all)
qed

lemma subc_word:
  fixes a b :: u32
  shows "uint (a - b - of_bool c) = uint a - uint b - of_bool c + 2 ^ 32 * of_bool (a < a - b \<or> a - b < a - b - of_bool c)"
proof -
  have lt: "uint a < 2 ^ 32" "uint b < 2 ^ 32" using uint_lt2p [of a] uint_lt2p [of b] by simp_all
  have ge: "- 1 < uint a" "- 1 < uint b" by (simp_all add: less_le_trans [OF _ uint_ge_0])
  have s: "uint (a - b) = uint a - uint b + (if uint a < uint b then 2 ^ 32 else 0)"
    using mod_by_shift [of "uint a - uint b" "if uint a < uint b then -1 else 0" "2 ^ 32"] lt ge
    by (simp add: uint_word_ariths split: if_splits)
  have t: "uint (a - b - of_bool c) = uint (a - b) - of_bool c + (if uint (a - b) < of_bool c then 2 ^ 32 else 0)"
    using mod_by_shift [of "uint (a - b) - of_bool c" "if uint (a - b) < of_bool c then -1 else 0" "2 ^ 32"]
      uint_lt2p [of "a - b"] by (cases c) (simp_all add: uint_word_ariths mod_simps split: if_splits)
  show ?thesis unfolding word_less_def t s using lt ge by (cases c) (simp_all)
qed

text \<open>The number in a list of registers, least significant first, and chains of instructions.\<close>

fun regs_value :: "sh2e_cpu \<Rightarrow> reg4 list \<Rightarrow> int" where
  "regs_value cpu [] = 0"
| "regs_value cpu (r # rs) = uint (sh_general cpu r) + 2 ^ 32 * regs_value cpu rs"

fun insn_chain :: "reg_insn \<Rightarrow> sh2e_insn list \<Rightarrow> sh2e_cpu \<Rightarrow> sh2e_cpu" where
  "insn_chain f [] cpu = cpu"
| "insn_chain f (w # ws) cpu = insn_chain f ws (snd (f cpu w))"

lemma regs_value_cong: "(\<And>r. r \<in> set rs \<Longrightarrow> sh_general c r = sh_general c' r) \<Longrightarrow> regs_value c rs = regs_value c' rs"
  by (induction rs) auto

lemma insn_chain_other:
  assumes "\<And>cpu w r. r \<noteq> insn_r_hi w \<Longrightarrow> sh_general (snd (f cpu w)) r = sh_general cpu r"
  shows "r \<notin> insn_r_hi ` set ws \<Longrightarrow> sh_general (insn_chain f ws cpu) r = sh_general cpu r"
  by (induction ws arbitrary: cpu) (auto simp: assms)

lemma addc_chain_value:
  assumes "distinct (map insn_r_hi ws)" "insn_r_hi ` set ws \<inter> insn_r_lo ` set ws = {}"
  shows "regs_value (insn_chain sh2e_insn_exec_addc ws cpu) (map insn_r_hi ws) +
      2 ^ (32 * length ws) * of_bool (sr_t (insn_chain sh2e_insn_exec_addc ws cpu)) =
    regs_value cpu (map insn_r_hi ws) + regs_value cpu (map insn_r_lo ws) + of_bool (sr_t cpu)"
  using assms
proof (induction ws arbitrary: cpu)
  case (Cons w ws)
  define c1 where "c1 = snd (sh2e_insn_exec_addc cpu w)"
  define c2 where "c2 = insn_chain sh2e_insn_exec_addc ws c1"
  have o: "sh_general (snd (sh2e_insn_exec_addc cpu w)) r = sh_general cpu r" if "r \<noteq> insn_r_hi w" for cpu w r
    using that by (simp add: sh2e_insn_exec_addc_def Let_def)
  have h: "sh_general c2 (insn_r_hi w) = sh_general c1 (insn_r_hi w)"
    unfolding c2_def using Cons.prems by (intro insn_chain_other) (auto simp: o)
  have same: "regs_value c1 (map insn_r_hi ws) = regs_value cpu (map insn_r_hi ws)"
    "regs_value c1 (map insn_r_lo ws) = regs_value cpu (map insn_r_lo ws)"
    unfolding c1_def using Cons.prems by (auto intro!: regs_value_cong o)
  have IH: "regs_value c2 (map insn_r_hi ws) + 2 ^ (32 * length ws) * of_bool (sr_t c2) =
      regs_value cpu (map insn_r_hi ws) + regs_value cpu (map insn_r_lo ws) + of_bool (sr_t c1)"
    using Cons.IH [of c1] Cons.prems by (simp add: same c2_def)
  have "uint (sh_general c1 (insn_r_hi w)) + 2 ^ 32 * of_bool (sr_t c1) =
      uint (sh_general cpu (insn_r_hi w)) + uint (sh_general cpu (insn_r_lo w)) + of_bool (sr_t cpu)"
    using addc_word [of "sh_general cpu (insn_r_hi w)" "sh_general cpu (insn_r_lo w)" "sr_t cpu"]
    by (simp add: c1_def sh2e_insn_exec_addc_def Let_def)
  then show ?case using IH h by (simp add: c1_def [symmetric] c2_def [symmetric] power_add algebra_simps)
qed simp

lemma subc_chain_value:
  assumes "distinct (map insn_r_hi ws)" "insn_r_hi ` set ws \<inter> insn_r_lo ` set ws = {}"
  shows "regs_value (insn_chain sh2e_insn_exec_subc ws cpu) (map insn_r_hi ws) =
    regs_value cpu (map insn_r_hi ws) - regs_value cpu (map insn_r_lo ws) - of_bool (sr_t cpu) +
      2 ^ (32 * length ws) * of_bool (sr_t (insn_chain sh2e_insn_exec_subc ws cpu))"
  using assms
proof (induction ws arbitrary: cpu)
  case (Cons w ws)
  define c1 where "c1 = snd (sh2e_insn_exec_subc cpu w)"
  define c2 where "c2 = insn_chain sh2e_insn_exec_subc ws c1"
  have o: "sh_general (snd (sh2e_insn_exec_subc cpu w)) r = sh_general cpu r" if "r \<noteq> insn_r_hi w" for cpu w r
    using that by (simp add: sh2e_insn_exec_subc_def Let_def)
  have h: "sh_general c2 (insn_r_hi w) = sh_general c1 (insn_r_hi w)"
    unfolding c2_def using Cons.prems by (intro insn_chain_other) (auto simp: o)
  have same: "regs_value c1 (map insn_r_hi ws) = regs_value cpu (map insn_r_hi ws)"
    "regs_value c1 (map insn_r_lo ws) = regs_value cpu (map insn_r_lo ws)"
    unfolding c1_def using Cons.prems by (auto intro!: regs_value_cong o)
  have IH: "regs_value c2 (map insn_r_hi ws) = regs_value cpu (map insn_r_hi ws) - regs_value cpu (map insn_r_lo ws) -
      of_bool (sr_t c1) + 2 ^ (32 * length ws) * of_bool (sr_t c2)"
    using Cons.IH [of c1] Cons.prems by (simp add: same c2_def)
  have "uint (sh_general c1 (insn_r_hi w)) = uint (sh_general cpu (insn_r_hi w)) - uint (sh_general cpu (insn_r_lo w)) -
      of_bool (sr_t cpu) + 2 ^ 32 * of_bool (sr_t c1)"
    using subc_word [of "sh_general cpu (insn_r_hi w)" "sh_general cpu (insn_r_lo w)" "sr_t cpu"]
    by (simp add: c1_def sh2e_insn_exec_subc_def Let_def)
  then show ?case using IH h by (simp add: c1_def [symmetric] c2_def [symmetric] power_add algebra_simps)
qed simp

subsection \<open>Comparison of bytes\<close>

definition int_byte :: "u32 \<Rightarrow> nat \<Rightarrow> int" where
  "int_byte x i = uint x div 2 ^ (8 * i) mod 256"

lemma low_bytes_Suc: "uint x mod 2 ^ (8 * Suc i) = uint x mod 2 ^ (8 * i) + 2 ^ (8 * i) * int_byte x i"
proof -
  have "(2 :: int) ^ (8 * Suc i) = 2 ^ (8 * i) * 256" by (simp add: power_add)
  then show ?thesis by (simp add: zmod_zmult2_eq int_byte_def)
qed

lemma int_byte_bounds: "0 \<le> int_byte x i" "int_byte x i < 256"
  by (simp_all add: int_byte_def)

lemma bit_low: "bit (x :: u32) n \<longleftrightarrow> 2 ^ n \<le> uint x mod 2 ^ Suc n" if "n < 32"
proof -
  have "uint x mod 2 ^ Suc n = 2 ^ n * (uint x div 2 ^ n mod 2) + uint x mod 2 ^ n"
    by (simp only: power_Suc2) (simp add: zmod_zmult2_eq)
  moreover have "bit x n \<longleftrightarrow> odd (uint x div 2 ^ n)" using that bit_uint_iff [of x n] by (simp add: bit_iff_odd)
  moreover have "0 \<le> uint x mod 2 ^ n" "uint x mod 2 ^ n < 2 ^ n" by simp_all
  ultimately show ?thesis by (cases "odd (uint x div 2 ^ n)") (simp_all add: odd_iff_mod_2_eq_one not_le)
qed

lemma less_4_cases: "i < (4 :: nat) \<Longrightarrow> i = 0 \<or> i = 1 \<or> i = 2 \<or> i = 3"
  by arith

lemma int_byte_ones: "i < 4 \<Longrightarrow> int_byte 0x01010101 i = 1"
  by (drule less_4_cases) (auto simp: int_byte_def)

text \<open>Without a zero byte below byte \<open>i\<close> the subtraction borrows nothing there.\<close>

lemma no_borrow:
  "i \<le> 4 \<Longrightarrow> (\<And>j. j < i \<Longrightarrow> int_byte x j \<noteq> 0) \<Longrightarrow> uint (0x01010101 :: u32) mod 2 ^ (8 * i) \<le> uint x mod 2 ^ (8 * i)"
proof (induction i)
  case (Suc i)
  have "1 \<le> int_byte x i" using Suc.prems(2) [of i] int_byte_bounds(1) [of x i] by simp
  then have "2 ^ (8 * i) * 1 \<le> 2 ^ (8 * i) * int_byte x i" by (intro mult_left_mono) simp_all
  moreover have "uint (0x01010101 :: u32) mod 2 ^ (8 * i) \<le> uint x mod 2 ^ (8 * i)"
    using Suc.prems by (intro Suc.IH) auto
  moreover have one: "int_byte 0x01010101 i = 1" using Suc.prems(1) by (intro int_byte_ones) simp
  ultimately show ?case unfolding low_bytes_Suc one by linarith
qed simp

lemma sub_low:
  assumes "i < 4"
  shows "uint (x - y :: u32) mod 2 ^ (8 * Suc i) = (uint x mod 2 ^ (8 * Suc i) - uint y mod 2 ^ (8 * Suc i)) mod 2 ^ (8 * Suc i)"
proof -
  have "8 * Suc i \<le> 32" using assms by simp
  then have "(2 :: int) ^ (8 * Suc i) dvd 2 ^ 32" by (rule le_imp_power_dvd)
  then show ?thesis by (simp only: uint_word_ariths mod_mod_cancel mod_diff_eq len_num1 len_bit0) (simp add: mod_mod_cancel mod_diff_eq)
qed

lemma byte_tops:
  "v AND 0x80808080 \<noteq> (0 :: u32) \<longleftrightarrow> (\<exists>i < 4. bit v (8 * i + 7))"
proof -
  have c: "(0x80808080 :: u32) = push_bit 7 1 OR push_bit 15 1 OR push_bit 23 1 OR push_bit 31 1" by simp
  have d: "bit (0x80808080 :: u32) n \<longleftrightarrow> n = 7 \<or> n = 15 \<or> n = 23 \<or> n = 31" for n
    unfolding c by (simp only: bit_or_iff bit_push_bit_iff bit_1_iff) auto
  have "v AND 0x80808080 \<noteq> 0 \<longleftrightarrow> (\<exists>n. bit v n \<and> bit (0x80808080 :: u32) n)"
    by (simp only: bit_eq_iff bit_and_iff bit_0_eq) auto
  then have "v AND 0x80808080 \<noteq> 0 \<longleftrightarrow> bit v 7 \<or> bit v 15 \<or> bit v 23 \<or> bit v 31"
    unfolding d by blast
  also have "\<dots> \<longleftrightarrow> (\<exists>i < 4. bit v (8 * i + 7))"
  proof
    assume "bit v 7 \<or> bit v 15 \<or> bit v 23 \<or> bit v 31"
    then have "bit v (8 * 0 + 7) \<or> bit v (8 * 1 + 7) \<or> bit v (8 * 2 + 7) \<or> bit v (8 * 3 + 7)" by simp
    moreover have "(0 :: nat) < 4" "(1 :: nat) < 4" "(2 :: nat) < 4" "(3 :: nat) < 4" by simp_all
    ultimately show "\<exists>i < 4. bit v (8 * i + 7)" by blast
  qed (auto dest!: less_4_cases)
  finally show ?thesis .
qed

lemma top_bit_low:
  assumes "i < 4"
  shows "bit (v :: u32) (8 * i + 7) \<longleftrightarrow> 128 * 2 ^ (8 * i) \<le> uint v mod (256 * 2 ^ (8 * i))"
  using bit_low [of "8 * i + 7" v] assms by (simp add: power_add mult.commute)

lemma zero_byte_test:
  "(x - 0x01010101) AND NOT x AND 0x80808080 \<noteq> 0 \<longleftrightarrow> (\<exists>i < 4. int_byte x i = 0)"
proof -
  let ?k = "0x01010101 :: u32"
  have b: "(x - ?k) AND NOT x AND 0x80808080 \<noteq> 0 \<longleftrightarrow> (\<exists>i < 4. bit (x - ?k) (8 * i + 7) \<and> \<not> bit x (8 * i + 7))"
    unfolding and.assoc [symmetric] byte_tops by (auto simp: bit_and_iff bit_not_iff)
  have P: "(2 :: int) ^ (8 * Suc i) = 256 * 2 ^ (8 * i)" "(0 :: int) < 2 ^ (8 * i)" for i by (simp_all add: power_add)
  have low: "0 \<le> uint (v :: u32) mod 2 ^ (8 * i)" "uint v mod 2 ^ (8 * i) < 2 ^ (8 * i)" for v i by simp_all
  have up: "bit (x - ?k) (8 * i + 7) \<and> \<not> bit x (8 * i + 7)"
    if i: "i < 4" "int_byte x i = 0" "\<And>j. j < i \<Longrightarrow> int_byte x j \<noteq> 0" for i
  proof -
    have X: "uint x mod (256 * 2 ^ (8 * i)) = uint x mod 2 ^ (8 * i)" using low_bytes_Suc [of x i] i(2) P(1) [of i] by simp
    have K: "uint ?k mod (256 * 2 ^ (8 * i)) = uint ?k mod 2 ^ (8 * i) + 2 ^ (8 * i)"
      using low_bytes_Suc [of ?k i] int_byte_ones [OF i(1)] P(1) [of i] by simp
    have le: "uint ?k mod 2 ^ (8 * i) \<le> uint x mod 2 ^ (8 * i)" using i by (intro no_borrow) auto
    let ?d = "uint x mod 2 ^ (8 * i) - (uint ?k mod 2 ^ (8 * i) + 2 ^ (8 * i))"
    have "uint (x - ?k) mod (256 * 2 ^ (8 * i)) = ?d mod (256 * 2 ^ (8 * i))"
      using sub_low [OF i(1), of x ?k] unfolding P(1) X K by simp
    also have "\<dots> = ?d - (- 1) * (256 * 2 ^ (8 * i))"
      using le low [of x i] low [of ?k i] P(2) [of i] by (intro mod_by_shift) linarith+
    finally show ?thesis unfolding top_bit_low [OF i(1)] X using le low [of x i] P(2) [of i] low [of ?k i] by linarith
  qed
  have down: False if nz: "\<And>j. j < 4 \<Longrightarrow> int_byte x j \<noteq> 0" and i: "i < 4" "bit (x - ?k) (8 * i + 7)" "\<not> bit x (8 * i + 7)" for i
  proof -
    have le: "uint ?k mod (256 * 2 ^ (8 * i)) \<le> uint x mod (256 * 2 ^ (8 * i))"
      using no_borrow [of "Suc i" x] nz i(1) unfolding P(1) by simp
    have lo: "0 \<le> uint ?k mod (256 * 2 ^ (8 * i))" "uint x mod (256 * 2 ^ (8 * i)) < 256 * 2 ^ (8 * i)"
      using low [of ?k "Suc i"] low [of x "Suc i"] unfolding P(1) by simp_all
    have "uint (x - ?k) mod (256 * 2 ^ (8 * i)) = uint x mod (256 * 2 ^ (8 * i)) - uint ?k mod (256 * 2 ^ (8 * i))"
      using sub_low [OF i(1), of x ?k] le lo unfolding P(1)
      by (subst (asm) mod_pos_pos_trivial) linarith+
    then show ?thesis using i(2,3) lo(1) unfolding top_bit_low [OF i(1)] by linarith
  qed
  show ?thesis
  proof
    assume "(x - ?k) AND NOT x AND 0x80808080 \<noteq> 0"
    then show "\<exists>i < 4. int_byte x i = 0" using b down by blast
  next
    assume "\<exists>i < 4. int_byte x i = 0"
    then obtain i where "i < 4" "int_byte x i = 0" "\<And>j. j < i \<Longrightarrow> \<not> (j < 4 \<and> int_byte x j = 0)"
      using exists_least_iff [of "\<lambda>i. i < 4 \<and> int_byte x i = 0"] by auto
    then have "bit (x - ?k) (8 * i + 7) \<and> \<not> bit x (8 * i + 7)" by (intro up) auto
    then show "(x - ?k) AND NOT x AND 0x80808080 \<noteq> 0" unfolding b using \<open>i < 4\<close> by blast
  qed
qed

lemma int_byte_ucast: "int_byte x i = uint (ucast (drop_bit (8 * i) x) :: u8)"
  by (simp only: int_byte_def unsigned_ucast_eq unsigned_drop_bit_eq) (use uint_lt2p [of x] in \<open>simp add: take_bit_eq_mod drop_bit_eq_div\<close>)

lemma byte_xor_zero: "ucast (drop_bit n (a XOR b :: u32)) = (0 :: u8) \<longleftrightarrow> ucast (drop_bit n a) = (ucast (drop_bit n b) :: u8)"
proof -
  have "ucast (drop_bit n (a XOR b)) = ucast (drop_bit n a) XOR (ucast (drop_bit n b) :: u8)"
    by (rule bit_word_eqI) (auto simp: bit_simps)
  moreover have "u XOR v = 0 \<longleftrightarrow> u = v" for u v :: u8 by (auto simp: bit_eq_iff bit_simps)
  ultimately show ?thesis by simp
qed

lemma cmpstr_bytes:
  "sr_t (snd (sh2e_insn_exec_cmpstr cpu w)) \<longleftrightarrow>
     (\<exists>i < 4. ucast (drop_bit (8 * i) (sh_general cpu (insn_r_hi w))) = (ucast (drop_bit (8 * i) (sh_general cpu (insn_r_lo w))) :: u8))"
  using zero_byte_test [of "sh_general cpu (insn_r_hi w) XOR sh_general cpu (insn_r_lo w)"]
  by (simp only: int_byte_ucast unsigned_eq_0_iff byte_xor_zero)
    (simp add: sh2e_insn_exec_cmpstr_def Let_def and.assoc)

end
