(* ===== verification/Sh2e_Demo.thy ===== *)
theory Sh2e_Demo
  imports Sh2e_Traps Sh2e_Dmac_Facts Sh2e_Timers Sh2e_Arith
begin

text \<open>
  A concrete SH-2E machine, on which the properties are evaluated: a writable page of memory at address
  0 whose first instruction is \<open>MOV #5, R1\<close>, the stack pointer \<open>0x100\<close>, and a direct memory access controller.
\<close>

definition sh_demo_cpu :: sh2e_cpu where
  "sh_demo_cpu = (sh2e_cpu_init 0)\<lparr>pr_state := SH2E_PSTATE_PROGRAM_EXECUTION, insn_exception := SH2E_EXCEPTION_NONE,
     intc := Some (sh2e_intc_init 0 0xFFFFED00), on_chip_peripherals := [1], sh_general := (\<lambda>_. 0x100), sh_sr := 0xF0\<rparr>"

definition sh_demo_dmac :: sh2e_dmac where
  "sh_demo_dmac =
     \<lparr>dmac_cpu = Some 0, dmac_regs_addr = 0xFFFFECB0, dmaor = 1,
      channels = (\<lambda>_. \<lparr>sar = 0x200, dar = 0x300, tcr = 2, chcr = 0x1F5521\<rparr>), reload_counter = 4, interrupt_number = (\<lambda>_. 72),
      dmac_cycles = 3, transfer_state = SH2E_DMAC_TRANSFER_STATE_INITIAL, picked_channel = None, initial_sar2 = 0,
      peripheral_request_table = (\<lambda>_. \<lparr>request_index = 0, request_pending = False, request_registered = False,
        request_type = RECEIVE, peripheral_request_address = 0\<rparr>),
      successful_transfers_count = 0, interrupts_count = 0\<rparr>"

definition sh_demo_byte :: "nat \<Rightarrow> nat \<Rightarrow> u8" where
  "sh_demo_byte b i = (if i = 0 then 0xE1 else if i = 1 then 5 else 0)"

definition sh_demo_frame :: frame where
  "sh_demo_frame = \<lparr>frame_area = Some 0, frame_data = Some (0, 0), valid = False\<rparr>"

definition sh_demo :: "sh2e_cpu \<Rightarrow> unit sh2e_system" where
  "sh_demo c =
     \<lparr>cpu_list = [0], gcpus = (\<lambda>_. \<lparr>cpuno = 0, cpu_type = sh2e_cpu_ops, cpu_data = 0\<rparr>), cpu_mem = (\<lambda>_. c),
      devices = [\<lparr>dev_type = no_methods, dev_name = ''cpu'', dev_data = S_cpu 0\<rparr>,
                 \<lparr>dev_type = lift_type S_dmac prj_dmac dsh2edmac_type, dev_name = ''dmac'', dev_data = S_dmac sh_demo_dmac\<rparr>],
      ftl0 = (\<lambda>i. if i = 0 then FTL1 (\<lambda>j. if j = 0 then Some sh_demo_frame else None) else FTL1_NULL),
      areas = (\<lambda>a. \<lparr>area_type = MEMT_MEM, writable = True, area_start = 0, area_count = 1, area_data = Some (a, 0)\<rparr>),
      mem_size = (\<lambda>_. 4096), mem_bytes = sh_demo_byte, sc_list = [], physmem_breakpoints = [],
      machine_trace = False, machine_halt = False, machine_interactive = False, machine_undefined = False,
      machine_specific_instructions = False, machine_allow_interactive_without_tty = False, input_terminal = False,
      remote_gdb_listen = False, machine_unit_testing = False, sh2e_insn_cache = []\<rparr>"

abbreviation sh_demo_cs where "sh_demo_cs \<equiv> ([0], \<lambda>_. \<lparr>cpuno = 0, cpu_type = sh2e_cpu_ops, cpu_data = 0\<rparr>)"

lemma sh_demo_parts [simp]:
  "cpu_mem (sh_demo c) k = c" "mem_size (sh_demo c) b = 4096" "mem_bytes (sh_demo c) = sh_demo_byte" "sc_list (sh_demo c) = []"
  "writable (areas (sh_demo c) a)" "ftl0 (sh_demo c) i \<noteq> FTL1_FREED" "machine_specific_instructions (sh_demo c) = False"
  "sh2e_insn_cache (sh_demo c) = []" "\<not> machine_unit_testing (sh_demo c)" "(cpu_list (sh_demo c), gcpus (sh_demo c)) = sh_demo_cs"
  by (simp_all add: sh_demo_def)

lemma sh_demo_frame_at: "frame_at p (sh_demo c) = (if p = 0 then Some sh_demo_frame else None)"
  by (auto simp: frame_at_def sh_demo_def div_eq_0_iff)

lemma sh_demo_phys_byte: "phys_byte (sh_demo c) a = (if unat a < 4096 then Some (sh_demo_byte 0 (unat a)) else None)"
  by (auto simp: phys_byte_def sh_demo_frame_at sh_demo_frame_def div_eq_0_iff)

lemma sh_demo_writable: "writable_at (sh_demo c) a \<longleftrightarrow> page_of a = 0"
  by (simp add: writable_at_def sh_demo_frame_at sh_demo_frame_def)

lemma sh_demo_physmem: "physmem_ok (sh_demo c)"
  by (auto simp: physmem_ok_def sh_demo_frame_at sh_demo_frame_def)

lemma sh_demo_wf: "\<forall>d \<in> set (devices (sh_demo c)). sh_dev_wf d"
  by (simp add: sh_demo_def sh_dev_wf_def)

lemma sh_demo_ok: "sh_ok sh_demo_cs (sh_demo c)"
  using sh_demo_wf [of c] sh_dev_wf_ok by (auto simp: sh_ok_def sh_demo_physmem)

lemma sh_demo_mem_ok: "sh_mem_ok (cpu_mem (sh_demo c)) (sh_demo c)"
  by (simp add: sh_mem_ok_def sh_demo_physmem)

lemma sh_demo_cpu_ok: "sh_cpu_ok (devices (sh_demo c)) sh_demo_cpu"
  by (simp add: sh_cpu_ok_def sh_demo_cpu_def intc_ok_init is_peripheral_def sh_demo_def)

lemma sh_demo_inv: "sh_inv sh_demo_cs {0} (sh_demo sh_demo_cpu)"
  by (simp add: sh_inv_def sh_demo_ok sh_demo_wf sh_demo_cpu_ok sh_cache_ok_def)

lemma load_le_2: "(load_le 2 f 0 :: u16) = ucast (f 0) OR push_bit 8 (ucast (f 1))"
  by (simp add: eval_nat_numeral)

lemma sh_demo_word: "sh_word (sh_demo c) 0 = 0xE105"
  by (simp add: sh_word_def abs_load_def load_le_2 sh_demo_phys_byte sh_demo_byte_def be16toh_def)

lemma sh_demo_decoded: "sh_decoded (sh_demo c) 0 = cached (insn_desc (Fn_I Exec_movi) 1 False False)"
  by (simp add: sh_decoded_def sh_demo_word) code_simp

lemma sh_demo_fetch: "fetch_defined 0 (sh_demo sh_demo_cpu)"
  by (simp add: fetch_defined_def sh_demo_cpu_def sh2e_cpu_init_def Let_def sh_demo_frame_at page_of_div sh_demo_decoded cached_def insn_desc_def)

lemma sh_demo_counted: "counted 1 3 (sh_demo c)"
  by (simp add: counted_def sh_demo_wf) (simp add: dmac_at_data sh_demo_def sh_demo_dmac_def)

lemma sh_demo_stack: "stack_ok 0x100 (sh_demo c)"
  by (simp add: stack_ok_def sh_demo_phys_byte sh_demo_writable page_of_div)

end
