(* ===== verification/Sh2e_Properties.thy ===== *)
theory Sh2e_Properties
  imports Sh2e_Demo
begin

text \<open>The properties of the SH-2E processor and its on-chip peripherals.\<close>

subsection \<open>The processor\<close>

definition sh_demo_float :: host_float where
  "sh_demo_float = \<lparr>host_nan = (\<lambda>_ _. 0), host_int64 = (\<lambda>_. 0)\<rparr>"



text \<open>
  C14: an instruction fetched through the cache is the decoding of the big-endian word that memory
  holds at the address; the fetch changes neither the contents of memory nor the processors except for
  the flags of the fetched instruction, and keeps the cache consistent.
\<close>

theorem sh2e_fetch_decodes_memory:
  assumes "sh_ok cs s" "sh_cache_ok s" "2 dvd unat phys" "unat phys < 2 ^ 32" "frame_at (page_of phys) s \<noteq> None"
  shows "\<exists>s'. sh2e_cpu_fetch_insn_func k phys s =
       Some (Some (exec (sh2e_insn_decode (machine_specific_instructions s) (sh_word s phys)),
                   cycles (sh2e_insn_decode (machine_specific_instructions s) (sh_word s phys))), take_insn k (sh_decoded s phys) s') \<and>
     sh_ok cs s' \<and> sh_cache_ok s' \<and> phys_byte s' = phys_byte s \<and> cpu_mem s' = cpu_mem s"
  using fetch_insn_ok [OF assms, of k] by (auto simp: fetches_def sh_fetched_def sh_decoded_def cached_def)

theorem sh2e_fetch_decodes_memory_witness:
  "\<exists>s'. sh2e_cpu_fetch_insn_func 0 0 (sh_demo sh_demo_cpu) =
     Some (Some (exec (sh2e_insn_decode False 0xE105), cycles (sh2e_insn_decode False 0xE105)), take_insn 0 (sh_decoded (sh_demo sh_demo_cpu) 0) s') \<and>
     sh_cache_ok s'"
  using sh2e_fetch_decodes_memory [OF sh_demo_ok, of sh_demo_cpu 0 0]
  by (auto simp: sh_cache_ok_def sh_demo_frame_at page_of_div sh_demo_word)



text \<open>
  C18: the documented program for unsigned division, \<open>DIV0U\<close> followed by 32 times \<open>ROTCL\<close> and
  \<open>DIV1\<close> and a last \<open>ROTCL\<close>, divides a 64-bit dividend by a 32-bit divisor if the quotient fits in 32
  bits: the low register then holds the quotient.
\<close>

theorem sh2e_division_program:
  assumes "insn_r_hi rot = l" "insn_r_hi dv = n" "insn_r_lo dv = m" "l \<noteq> n" "l \<noteq> m" "m \<noteq> n"
    "sh_general cpu n < sh_general cpu m"
  shows "uint (sh_general (div_program d0 rot dv cpu) l) =
     (uint (sh_general cpu n) * 2 ^ 32 + uint (sh_general cpu l)) div uint (sh_general cpu m)"
  by (rule div_program_quotient [OF assms])

definition div_demo_cpu :: sh2e_cpu where
  "div_demo_cpu = sh_demo_cpu\<lparr>sh_general := (\<lambda>r. if r = 1 then 0 else if r = 2 then 100 else 7)\<rparr>"

theorem sh2e_division_program_witness:
  "uint (sh_general (div_program 0x0019 0x4224 0x3134 div_demo_cpu) 2) = 14"
  using sh2e_division_program [of "0x4224" 2 "0x3134" 1 3 div_demo_cpu "0x0019"]
  by (simp add: insn_r_hi_def insn_r_lo_def div_demo_cpu_def)


text \<open>
  C30: \<open>CMP/STR\<close>, which the code computes with the zero-byte test on the exclusive or, sets T
  exactly if the registers agree in at least one of their four bytes.
\<close>

theorem sh2e_cmpstr_compares_bytes:
  "sr_t (snd (sh2e_insn_exec_cmpstr cpu w)) \<longleftrightarrow>
     (\<exists>i < 4. ucast (drop_bit (8 * i) (sh_general cpu (insn_r_hi w))) = (ucast (drop_bit (8 * i) (sh_general cpu (insn_r_lo w))) :: u8))"
  by (rule cmpstr_bytes)

text \<open>
  C37: an address error that the instruction postpones is never accepted. In exception processing with
  address errors disabled and neither another exception nor an interrupt, a step only records the
  error, and every later step leaves the machine as it is.
\<close>

theorem sh2e_postponed_error_stuck:
  assumes "pr_state (cpu_mem s k) = SH2E_PSTATE_EXCEPTION_PROCESSING" "disable_address_errors (cpu_mem s k)"
    "insn_exception (cpu_mem s k) = SH2E_EXCEPTION_NONE \<or> is_address_error (insn_exception (cpu_mem s k))"
    "pending_interrupt (cpu_mem s k) = 0"
  shows "\<exists>s1. sh2e_cpu_step H P k s = Some s1 \<and> sh2e_cpu_step H P k s1 = Some s1"
  by (rule postponed_error_stuck [OF assms])

text \<open>The state after an \<open>RTE\<close> with a misaligned stack pointer.\<close>

definition stuck_cpu :: sh2e_cpu where
  "stuck_cpu = sh_demo_cpu\<lparr>pr_state := SH2E_PSTATE_EXCEPTION_PROCESSING, disable_interrupts := True, disable_address_errors := True,
     insn_exception := SH2E_EXCEPTION_CPU_ADDRESS_ERROR\<rparr>"

theorem sh2e_postponed_error_stuck_witness:
  "\<exists>s1. sh2e_cpu_step sh_demo_float sh2e_peripherals 0 (sh_demo stuck_cpu) = Some s1 \<and> sh2e_cpu_step sh_demo_float sh2e_peripherals 0 s1 = Some s1"
  using sh2e_postponed_error_stuck [of "sh_demo stuck_cpu" 0 sh_demo_float sh2e_peripherals]
  by (simp add: stuck_cpu_def is_address_error_def sh_demo_cpu_def sh2e_cpu_init_def)

text \<open>
  C38: an exception in a delay slot, other than an illegal slot instruction, leaves the branch
  pending: the handler is entered, and after its first instruction the program counter is the target of
  the branch.
\<close>

theorem sh2e_delay_slot_exception:
  assumes "sh_mem_ok (cpu_mem s) s" "stack_ok (sh_sp (cpu_mem s k)) s" "exception_vector ex = Some i"
    "sh_vbr (cpu_mem s k) AND 3 = 0" "phys_byte s (pa (eva (cpu_mem s k) i)) \<noteq> None"
    "ex \<noteq> SH2E_EXCEPTION_ILLEGAL_SLOT_INSTRUCTION" "br_state (cpu_mem s k) = SH2E_BRANCH_STATE_DELAY"
  shows "\<exists>s'. sh2e_cpu_handle_exception k ex d s = Some s' \<and>
     sh_pc (cpu_mem s' k) = be32toh (abs_load 4 (phys_byte s') (pa (eva (cpu_mem s k) i))) \<and>
     sh_pc (advance_pc (cpu_mem s' k)) = pc_target (cpu_mem s k)"
  by (rule delay_slot_exception [OF assms])

definition slot_cpu :: sh2e_cpu where
  "slot_cpu = sh_demo_cpu\<lparr>br_state := SH2E_BRANCH_STATE_DELAY, pc_target := 0x40\<rparr>"

theorem sh2e_delay_slot_exception_witness:
  "\<exists>s'. sh2e_cpu_handle_exception 0 SH2E_EXCEPTION_CPU_ADDRESS_ERROR False (sh_demo slot_cpu) = Some s' \<and>
     sh_pc (advance_pc (cpu_mem s' 0)) = 0x40"
proof -
  have c: "sh_sp slot_cpu = 0x100" "sh_vbr slot_cpu AND 3 = 0" "eva slot_cpu 9 = 0x24" "br_state slot_cpu = SH2E_BRANCH_STATE_DELAY"
    "pc_target slot_cpu = 0x40"
    by (simp_all add: slot_cpu_def sh_demo_cpu_def sh2e_cpu_init_def eva_def)
  show ?thesis
    using sh2e_delay_slot_exception [OF sh_demo_mem_ok, of slot_cpu 0 SH2E_EXCEPTION_CPU_ADDRESS_ERROR 9 False] sh_demo_stack [of slot_cpu]
    by (auto simp: c sh_demo_phys_byte)
qed

text \<open>
  C40: with the S bit set, \<open>MAC.W\<close> saturates every sum: a sum that fits in 32 bits becomes the
  least number, because it is compared with \<open>0x80000000\<close> and not with its negative.
\<close>

theorem sh2e_macw_always_saturates:
  assumes "sr_s cpu"
  shows "\<exists>cpu'. macw_accumulate a b cpu = Some cpu' \<and> bit (sh_mach cpu') 0 \<and>
     sh_macl cpu' = (if sint (sh_macl cpu) + sint (of_int (sint a * sint b) :: u32) > 0x7FFFFFFF then 0x7FFFFFFF else 0x80000000)"
  using assms by (simp add: macw_accumulate_def Let_def bit_or_iff)

theorem sh2e_macw_always_saturates_witness:
  "\<exists>cpu'. macw_accumulate 1 1 (sh_demo_cpu\<lparr>sh_sr := 2\<rparr>) = Some cpu' \<and> sh_macl cpu' = 0x80000000"
  using sh2e_macw_always_saturates [of "sh_demo_cpu\<lparr>sh_sr := 2\<rparr>" 1 1]
  by (auto simp: sr_s_def sh_demo_cpu_def sh2e_cpu_init_def)

subsection \<open>The interrupt controller\<close>


definition demo_intc :: sh2e_intc where
  "demo_intc = (sh2e_intc_init 0 0)\<lparr>icr := 0, nmi_prev_value := 0, priority := replicate 12 0x5555,
     sources := (\<lambda>n. \<lparr>priority_pool_index = 8, registered = (n = 72 \<or> n = 76), pending = (n = 72 \<or> n = 76)\<rparr>)\<rparr>"

lemma demo_intc_requests: "n \<in> {65..<255} \<Longrightarrow> requests demo_intc 0 n \<longleftrightarrow> n = 72 \<or> n = 76"
  by (auto simp: requests_def demo_intc_def SH2E_INTC_VALID_SOURCE_ID_def SH2E_INTC_VALID_IRQ_SOURCE_ID_def signalled_def
      source_priority_def Let_def)

lemma demo_intc_priority: "source_priority demo_intc n = 5"
  by (simp add: source_priority_def demo_intc_def Let_def)


text \<open>
  C39: a non-maskable interrupt is reported without its number: the caller keeps the number it passed,
  which is 0, and so takes no interrupt.
\<close>

theorem sh2e_nmi_without_source:
  assumes "sh2e_check_nmi_interrupt ic" "intc (cpu_mem s k) = Some ic" "\<not> disable_interrupts (cpu_mem s k)"
  shows "\<exists>s'. poll_interrupts k s = Some s' \<and> pending_interrupt (cpu_mem s' k) = 0"
  using check_pending_nmi [OF assms(1), of "sr_im (cpu_mem s k)" 0] assms(2,3)
  by (auto simp: poll_interrupts_def on_intc_def upd_cpu_def)

definition nmi_cpu :: sh2e_cpu where
  "nmi_cpu = sh_demo_cpu\<lparr>intc := Some ((sh2e_intc_init 0 0)\<lparr>nmi_prev_value := 1\<rparr>)\<rparr>"

theorem sh2e_nmi_without_source_witness:
  "\<exists>s'. poll_interrupts 0 (sh_demo nmi_cpu) = Some s' \<and> pending_interrupt (cpu_mem s' 0) = 0"
  by (rule sh2e_nmi_without_source [of "(sh2e_intc_init 0 0)\<lparr>nmi_prev_value := 1\<rparr>"])
    (simp_all add: nmi_cpu_def sh2e_check_nmi_interrupt_def sh2e_intc_init_def sh2e_intc_init_regs_def icr_nmie_def icr_nmil_def
      sh_demo_cpu_def sh2e_cpu_init_def)

subsection \<open>On-chip peripherals\<close>

text \<open>
  C20: a step of the compare match timer counts exactly: each running channel advances by the number of
  clock periods in the processor cycles, modulo its compare value, sets its flag if it wraps, and
  raises its interrupt once for every compare match, first channel first.
\<close>

theorem sh2e_cmt_counts:
  assumes "cmt_ok cmt" "dsh2ecmt_step cmt = (cmt1, irqs)"
  shows "irqs = replicate (cmt_irqs False cmt) (int_no_first_channel cmt) @ replicate (cmt_irqs True cmt) (int_no_second_channel cmt) \<and>
     (\<forall>c. channel_of c cmt1 = cmt_after (channel_of c cmt) (cmt_ticks c cmt)) \<and> cmt_ok cmt1"
  using cmt_step_counts [OF assms] by blast

definition demo_cmt :: sh2e_cmt where
  "demo_cmt = \<lparr>cmt_cpu = Some 0, cmt_regs_addr = 0, cmstr = 1,
     channel0 = \<lparr>cmcsr = 0x40, cmcnt = 0, cmcor = 2\<rparr>, channel1 = \<lparr>cmcsr = 0, cmcnt = 0, cmcor = 0xFFFF\<rparr>,
     cmt_cycles = 40, counter0 = 0, counter1 = 0, int_no_first_channel = 144, int_no_second_channel = 148,
     interrupts_channel_0_count = 0, interrupts_channel_1_count = 0\<rparr>"

theorem sh2e_cmt_counts_witness: "snd (dsh2ecmt_step demo_cmt) = [144, 144] \<and> unat (cmcnt (channel0 (fst (dsh2ecmt_step demo_cmt)))) = 1"
proof -
  have ok: "cmt_ok demo_cmt" by (simp add: cmt_ok_def demo_cmt_def channel_of_def cmt_channel_ok_def cmt_modulus_def)
  have t: "cmt_ticks False demo_cmt = 5" "cmt_ticks True demo_cmt = 0"
    by (simp_all add: cmt_ticks_def cmt_start_def demo_cmt_def channel_of_def cmt_period_def)
  have i: "cmt_irqs False demo_cmt = 2" "cmt_irqs True demo_cmt = 0"
    by (simp_all add: cmt_irqs_def t Let_def) (simp_all add: demo_cmt_def channel_of_def cmt_modulus_def)
  obtain cmt1 irqs where s: "dsh2ecmt_step demo_cmt = (cmt1, irqs)" by (metis surj_pair)
  have "channel0 cmt1 = cmt_after (channel0 demo_cmt) 5"
    using sh2e_cmt_counts [OF ok s] t(1) by (auto simp: channel_of_def dest: spec [of _ False])
  moreover have "irqs = [144, 144]" using sh2e_cmt_counts [OF ok s] by (simp add: i numeral_2_eq_2) (simp add: demo_cmt_def)
  ultimately show ?thesis by (simp add: s cmt_after_def) (simp add: demo_cmt_def cmt_modulus_def)
qed

text \<open>
  C13: the step of the direct memory access controller ends: it performs as many cycles as the processor
  reported, even if a transfer writes the registers of the controller, and no more.
\<close>

theorem sh2e_dmac_step_ends:
  assumes "\<forall>d \<in> set (devices s). sh_dev_wf d" "dmac_at i s = Some dmac"
  shows "dsh2edmac_step i s = dmac_run (unat (dmac_cycles dmac)) i s"
  using assms by (intro dmac_step_run) (simp add: counted_def)

theorem sh2e_dmac_step_ends_witness: "dsh2edmac_step 1 (sh_demo sh_demo_cpu) = dmac_run 3 1 (sh_demo sh_demo_cpu)"
  using sh2e_dmac_step_ends [OF sh_demo_wf, of 1 sh_demo_cpu sh_demo_dmac] by (simp add: dmac_at_data sh_demo_def) (simp add: sh_demo_dmac_def)



end
