(* ===== verification/Spec2Isabelle.thy ===== *)
theory Spec2Isabelle
  imports Core_Properties Rv_Properties Step_Properties Device_Properties Sh2e_Properties
begin

text \<open>
  A verification of msim, a simulator of machines with MIPS R4000, RISC-V and SuperH processors.
  All paths below are relative to \<open>src/src\<close> of the repository.

  \<^bold>\<open>The program.\<close> A machine is a list of devices (\<open>device/device.c\<close>): processors, memories and
  peripherals. \<open>machine_step\<close> of \<open>main.c\<close> runs the step function of each. A processor fetches an
  instruction through its cache of decoded pages, executes it, and takes traps and interrupts; it
  reaches memory through its address translation and \<open>physmem.c\<close>, which looks an address up in a
  two-level table of frames and, where no memory is mapped, asks the devices. Devices raise and
  lower the interrupts of processors through the registry of \<open>device/cpu/general_cpu.c\<close>.

  \<^bold>\<open>Conventions.\<close> C integers are machine words of their width. A function that may fail an
  assertion, leave an object or meet other undefined behaviour of C returns an \<open>option\<close>, and
  \<open>None\<close> is that failure; so "returns \<open>Some\<close>" in a theorem says that none of this happens. Commands
  of the user return a sum, with the error on the left. The memory blocks, the frames,
  the registered processors and the devices are a record that is passed along; a processor is
  addressed by its index in the list of processors. Results of the host (files, clock, keyboard)
  and the contents of uninitialised memory are arguments. Output is not modelled, apart from effects that
  act on the machine.

  \<^bold>\<open>Shared parts.\<close>
  \<^item> \<open>Prelude\<close>, \<open>Utils\<close>: types, words, the macros of \<open>utils.h\<close>.
  \<^item> \<open>Linked_List\<close>: \<open>list.c\<close> over an explicit heap, with its refinement to sequences.
  \<^item> \<open>General_Cpu\<close>: the processor registry.
  \<^item> \<open>Physmem\<close>: \<open>physmem.c\<close>, the memory breakpoints of \<open>debug/breakpoint.c\<close> and the device records of
    \<open>device/device.h\<close>. \<open>Physmem_Facts\<close> shows that reads and writes implement a partial map from
    addresses to bytes; \<open>Device_Facts\<close> states what an access may do to a device.
  \<^item> \<open>Machine_Access\<close> and \<open>Decode_Cache\<close>: contracts for any kind of processor. The first says what a
    memory access keeps of the machine; the locale \<open>decoder\<close> of the second says that a cache of
    decoded pages agrees with memory. Both processors below interpret them.

  \<^bold>\<open>The RISC-V processor.\<close> The code of \<open>riscv_rv_ima\<close> is compiled once per register width and is
  modelled over an arbitrary word length; \<open>riscv_rv32ima\<close> is modelled at 32 bits.
  \<^item> \<open>Rv_Types\<close>: registers, exceptions, instruction formats, the processor structure.
  \<^item> \<open>Rv_Csr\<close>: \<open>csr.c\<close>. \<open>Rv_Csr_Facts\<close> and \<open>Rv_Csr_Steps\<close>: privilege checks, well-formedness, and
    which accesses are undefined.
  \<^item> \<open>Rv32_Tlb\<close>, \<open>Rv32_Vm\<close>: Sv32 entries, \<open>tlb.c\<close> and the translation of \<open>cpu.c\<close>.
    \<open>Rv32_Translate\<close>: translation agrees with the page tables in memory.
  \<^item> \<open>Rv_Memory\<close>, \<open>Rv_Computations\<close>, \<open>Rv_Control\<close>, \<open>Rv_Mem_Ops\<close>, \<open>Rv_System\<close>: \<open>memory.c\<close> and the
    instruction functions. \<open>Rv32_Decode\<close>: the decoder; \<open>Rv32_Decode_Facts\<close>: it is total and respects
    the assertions of the functions it selects.
  \<^item> \<open>Rv32_Cpu\<close>: instruction cache, traps, interrupts and the step of \<open>riscv_rv32ima/cpu.c\<close>.
  \<^item> \<open>Rv32_Machine\<close>, \<open>Rv32_Access\<close>, \<open>Rv32_Cache\<close>, \<open>Rv32_Exec\<close>, \<open>Rv32_Instr_Safety\<close>, \<open>Rv32_Traps\<close>,
    \<open>Rv32_Step\<close>: the invariant of a machine and its preservation by accesses, fetches, instructions,
    traps and whole steps; the cache is transparent.

  \<^bold>\<open>The SuperH SH-2E processor\<close> (\<open>device/cpu/superh_sh2e\<close>) \<^bold>\<open>and its on-chip peripherals.\<close>
  \<^item> \<open>Sh2e_Intc\<close>: the interrupt controller, \<open>device/intc/superh_sh2e/intc.c\<close>. \<open>Sh2e_Intc_Facts\<close>: it selects
    the request of the highest priority. The controller is a field of the processor that uses it.
  \<^item> \<open>Sh2e_Types\<close>, \<open>Sh2e_Decode\<close>, \<open>Sh2e_Memops\<close>: \<open>cpu.h\<close> and the instruction formats, \<open>decode.c\<close>, \<open>memops.h\<close>.
    \<open>Sh2e_Decode_Facts\<close>: the decoder respects the range of the control registers.
  \<^item> \<open>Sh2e_Exec\<close>, \<open>Sh2e_Exec_Mem\<close>, \<open>Sh2e_Fpu\<close>, \<open>Sh2e_Call\<close>: every instruction of \<open>exec.c\<close> and the call through
    the decoded function pointer. The floating-point arithmetic of the host is an argument;
    \<open>Sh2e_Float\<close> defines an instance as IEEE 754 prescribes it.
  \<^item> \<open>Sh2e_Cpu\<close>: \<open>cpu.c\<close>, with the cache, exceptions, interrupts, resets and the five processing states.
  \<^item> \<open>Dsh2ecmt\<close>, \<open>Dsh2ewdt\<close>, \<open>Dsh2edmac\<close>: the two timers and the registers of the direct memory access
    controller. \<open>Sh2e_System\<close>: its transfers and the step of a machine with these devices.
  \<^item> \<open>Sh2e_Access\<close>, \<open>Sh2e_Safety\<close>, \<open>Sh2e_Cache\<close>, \<open>Sh2e_Peripherals\<close>, \<open>Sh2e_Step\<close>: accesses, instructions, fetches
    and whole steps return and keep the invariant \<open>sh_inv\<close>. Steps that fail an
    assertion or are undefined in C are excluded by \<open>step_defined\<close>: a fetch from an even address
    where no memory is mapped, an exception whose vector table is not aligned to four bytes, and
    the two multiply-accumulate instructions, whose sums may overflow a signed integer.
  \<^item> \<open>Sh2e_Arith\<close>, \<open>Sh2e_Timers\<close>, \<open>Sh2e_Traps\<close>, \<open>Sh2e_Dmac_Facts\<close>: what a division program, the timers, exception
    entry and return, and a transfer compute.

  \<^bold>\<open>The devices.\<close>
  \<^item> \<open>Device_Init\<close>: the tests that the init commands share.
  \<^item> \<open>Dorder\<close>, \<open>Dkeyboard\<close>, \<open>Dcycle\<close> (with \<open>dtime.c\<close>), \<open>Dnomem\<close>, \<open>Dprinter\<close>, \<open>Dlcd\<close>, \<open>Ddisk\<close>: one
    theory per file of \<open>device/\<close>, with the invariant of the device.
  \<^item> \<open>Mem_Device\<close>: the memory commands of \<open>mem.c\<close>.
  \<^item> \<open>Devices\<close>: the union of the device states, the contract \<open>device_class\<close> that every device
    satisfies, the steps of the devices, and \<open>machine_step\<close> with the invariant it keeps.
  \<^item> \<open>Disk_Transfer\<close>: the 128 steps of a sector transfer.

  \<^bold>\<open>Properties.\<close> \<open>Core_Properties\<close>, \<open>Rv_Properties\<close>, \<open>Step_Properties\<close>, \<open>Device_Properties\<close> and
  \<open>Sh2e_Properties\<close> state the main theorems; \<open>Sim_Demo\<close> and \<open>Sh2e_Demo\<close> have the concrete machines on
  which they are instantiated.

  \<^bold>\<open>Bounds.\<close> No definition uses fuel, except the traversal of linked lists, which takes the number
  of items of the heap: a well-formed list has no more. Page walks end after the two levels of
  Sv32, and the loop over the bits of an interrupt mask after its 32 bits. The loops of the timers
  have termination proofs. The loop of the direct memory access controller is a partial function,
  since a transfer may write the registers that control it; \<open>Sh2e_Dmac_Facts\<close> shows that it ends.

  \<^bold>\<open>Not modelled.\<close> The MIPS and RV64 processors; a SuperH interrupt controller that several
  processors share, and the access of its registers over the bus; disassembly and register dumps, which only
  format output; the command interpreter, the debugger protocols and the terminal, which are I/O.
\<close>

end
